(* ===== verification/Prelude.thy ===== *)
theory Prelude
  imports Complex_Main "HOL-Library.AList"
begin

text \<open>
  The generic vocabulary of the development.

  \<^item> \<open>py_error\<close> names the exceptions the modelled Python raises; a fallible command has a
    result of type \<open>py_error + 'a\<close> (\<open>Inl\<close> for a raise, \<open>Inr\<close> for a return).
  \<^item> \<open>ebind\<close>, \<open>guard\<close> and \<open>chain\<close> sequence fallible steps over an explicit state. A
    command that raises returns no state: the enclosing SQLite transaction is rolled back.
  \<^item> \<open>'r table\<close> is a projection table: an association list from identities to rows in
    insertion order, which is both the order of a Python dict and SQLite's \<open>rowid\<close> order.
  \<^item> \<open>preserves\<close> says that a fallible step keeps a predicate of the state; its
    introduction rules are collected in \<open>preserve_intros\<close>.
  \<^item> the string helpers model \<open>str.strip\<close> on the code points below 256.
\<close>

named_theorems preserve_intros "introduction rules for preserves"
named_theorems table_simps "rewrite rules for projection tables"
named_theorems step_defs "definitions of the elementary state updates"

section \<open>Exceptions and fallible steps\<close>

datatype py_error =
    KeyError string
  | ValueError string
  | RuntimeError string
  | TypeError string
  | PermissionError string
  | IntegrityError string
  | BudgetLimitExceeded string int int int
  | TurnCancellationPending string
  | TurnInputChanged
  | TurnChildrenPending "string list"
  | ResourceClaimConflict string
  | ContextBudgetExceeded string
  | ContextSourceChanged string
  | ConfigVersionConflict

type_synonym 'a result = "py_error + 'a"

definition ebind :: "'e + 'a \<Rightarrow> ('a \<Rightarrow> 'e + 'b) \<Rightarrow> 'e + 'b" where
  "ebind m k = (case m of Inl e \<Rightarrow> Inl e | Inr a \<Rightarrow> k a)"

definition guard :: "bool \<Rightarrow> 'e \<Rightarrow> 's \<Rightarrow> 'e + 's" where
  "guard ok e s = (if ok then Inr s else Inl e)"

fun chain :: "('s \<Rightarrow> 'e + 's) list \<Rightarrow> 's \<Rightarrow> 'e + 's" where
  "chain [] s = Inr s"
| "chain (f # fs) s = ebind (f s) (chain fs)"

text \<open>A lookup of a Python dict subscript: a missing key raises.\<close>

definition require :: "'a option \<Rightarrow> 'e \<Rightarrow> 'e + 'a" where
  "require x e = (case x of None \<Rightarrow> Inl e | Some a \<Rightarrow> Inr a)"

lemma ebind_Inl [simp]: "ebind (Inl e) k = Inl e"
  by (simp add: ebind_def)

lemma ebind_Inr [simp]: "ebind (Inr a) k = k a"
  by (simp add: ebind_def)

lemma ebind_eq_Inr: "ebind m k = Inr b \<longleftrightarrow> (\<exists>a. m = Inr a \<and> k a = Inr b)"
  by (cases m) auto

lemma ebind_eq_Inl: "ebind m k = Inl e \<longleftrightarrow> m = Inl e \<or> (\<exists>a. m = Inr a \<and> k a = Inl e)"
  by (cases m) auto

lemma ebind_InrE [elim!]:
  assumes "ebind m k = Inr b"
  obtains a where "m = Inr a" and "k a = Inr b"
  using assms by (auto simp: ebind_eq_Inr)

lemma ebind_assoc: "ebind (ebind m k) l = ebind m (\<lambda>a. ebind (k a) l)"
  by (cases m) auto

lemma ebind_right_unit [simp]: "ebind m Inr = m"
  by (cases m) auto

lemma guard_eq_Inr [simp]: "guard ok e s = Inr t \<longleftrightarrow> ok \<and> t = s"
  by (auto simp: guard_def)

lemma guard_True [simp]: "guard True e s = Inr s"
  by (simp add: guard_def)

lemma guard_False [simp]: "guard False e s = Inl e"
  by (simp add: guard_def)

lemma require_Some [simp]: "require (Some a) e = Inr a"
  by (simp add: require_def)

lemma require_None [simp]: "require None e = Inl e"
  by (simp add: require_def)

lemma require_eq_Inr [simp]: "require x e = Inr a \<longleftrightarrow> x = Some a"
  by (cases x) auto

lemma require_eq_Inl [simp]: "require x e = Inl e' \<longleftrightarrow> x = None \<and> e' = e"
  by (cases x) auto

lemma chain_append: "chain (fs @ gs) s = ebind (chain fs s) (chain gs)"
proof (induction fs arbitrary: s)
  case Nil
  then show ?case by simp
next
  case (Cons f fs)
  then show ?case by (cases "f s") auto
qed

lemma chain_single [simp]: "chain [f] s = f s"
  by (cases "f s") auto

section \<open>Steps that keep a predicate\<close>

definition preserves :: "('s \<Rightarrow> bool) \<Rightarrow> ('s \<Rightarrow> 'e + 's) \<Rightarrow> bool" where
  "preserves I f \<longleftrightarrow> (\<forall>s t. I s \<longrightarrow> f s = Inr t \<longrightarrow> I t)"

lemma preservesI [intro?]: "(\<And>s t. I s \<Longrightarrow> f s = Inr t \<Longrightarrow> I t) \<Longrightarrow> preserves I f"
  by (simp add: preserves_def)

lemma preservesD: "preserves I f \<Longrightarrow> I s \<Longrightarrow> f s = Inr t \<Longrightarrow> I t"
  by (simp add: preserves_def)

lemma preserves_chain: "list_all (preserves I) fs \<Longrightarrow> preserves I (chain fs)"
proof (induction fs)
  case Nil
  then show ?case by (simp add: preserves_def)
next
  case (Cons f fs)
  show ?case
  proof
    fix s t
    assume "I s" and "chain (f # fs) s = Inr t"
    then obtain u where "f s = Inr u" and rest: "chain fs u = Inr t" by auto
    with \<open>I s\<close> Cons.prems have "I u" by (auto simp: preserves_def)
    with rest show "I t" using Cons preservesD by fastforce
  qed
qed

lemma preserves_chain_map:
  "(\<And>x. x \<in> set xs \<Longrightarrow> preserves I (f x)) \<Longrightarrow> preserves I (chain (map f xs))"
  by (rule preserves_chain) (simp add: list_all_iff)

lemma preserves_Inl [preserve_intros]: "preserves I (\<lambda>s. Inl (e s))"
  by (simp add: preserves_def)

lemma preserves_Inr [preserve_intros]: "preserves I Inr"
  by (simp add: preserves_def)

lemma preserves_guard [preserve_intros]: "preserves I (guard ok e)"
  by (simp add: preserves_def)

lemma preserves_if [preserve_intros]:
  "preserves I f \<Longrightarrow> preserves I g \<Longrightarrow> preserves I (if b then f else g)"
  by simp

section \<open>Folding a fallible transition over a log\<close>

fun replay_with :: "('s \<Rightarrow> 'r \<Rightarrow> 'e + 's) \<Rightarrow> 's \<Rightarrow> 'r list \<Rightarrow> 'e + 's" where
  "replay_with f s [] = Inr s"
| "replay_with f s (r # rs) = ebind (f s r) (\<lambda>s'. replay_with f s' rs)"

lemma replay_with_append:
  "replay_with f s (rs @ qs) = ebind (replay_with f s rs) (\<lambda>s'. replay_with f s' qs)"
  by (induction rs arbitrary: s) (auto simp: ebind_assoc)

lemma replay_with_snoc: "replay_with f s (rs @ [r]) = ebind (replay_with f s rs) (\<lambda>s'. f s' r)"
  by (simp add: replay_with_append)

text \<open>
  The contract between a deterministic reducer and a predicate of its states: every
  transition that succeeds keeps the predicate. The consequences for whole logs are proved
  once here.
\<close>

locale reducer_invariant =
  fixes step :: "'s \<Rightarrow> 'r \<Rightarrow> 'e + 's"
    and holds :: "'s \<Rightarrow> bool"
  assumes step_holds: "holds s \<Longrightarrow> step s r = Inr s' \<Longrightarrow> holds s'"
begin

lemma replay_holds: "holds s \<Longrightarrow> replay_with step s rs = Inr s' \<Longrightarrow> holds s'"
proof (induction rs arbitrary: s)
  case Nil
  then show ?case by simp
next
  case (Cons r rs)
  then show ?case by (auto dest: step_holds)
qed

lemma replay_prefix_holds:
  assumes "holds s" and "replay_with step s (rs @ qs) = Inr s'"
  shows "\<exists>m. replay_with step s rs = Inr m \<and> holds m \<and> replay_with step m qs = Inr s'"
  using assms by (auto simp: replay_with_append dest: replay_holds)

end

section \<open>Projection tables\<close>

type_synonym 'r table = "(string \<times> 'r) list"

definition tget :: "'r table \<Rightarrow> string \<Rightarrow> 'r option" where
  "tget t k = map_of t k"

definition tput :: "string \<Rightarrow> 'r \<Rightarrow> 'r table \<Rightarrow> 'r table" where
  "tput k r t = AList.update k r t"

definition tkeys :: "'r table \<Rightarrow> string list" where
  "tkeys t = map fst t"

definition trows :: "'r table \<Rightarrow> 'r list" where
  "trows t = map snd t"

definition tmod :: "'r table \<Rightarrow> string \<Rightarrow> ('r \<Rightarrow> 'r) \<Rightarrow> 'r table result" where
  "tmod t k f = (case tget t k of None \<Rightarrow> Inl (KeyError k) | Some r \<Rightarrow> Inr (tput k (f r) t))"

definition table_ok :: "('r \<Rightarrow> string) \<Rightarrow> 'r table \<Rightarrow> bool" where
  "table_ok ident t \<longleftrightarrow> distinct (tkeys t) \<and> list_all (\<lambda>(k, r). ident r = k) t"

lemma tget_Nil [simp]: "tget [] k = None"
  by (simp add: tget_def)

lemma tget_tput [simp, table_simps]: "tget (tput k r t) j = (if j = k then Some r else tget t j)"
  by (simp add: tget_def tput_def update_conv')

lemma tkeys_tput: "set (tkeys (tput k r t)) = insert k (set (tkeys t))"
  by (induction t) (auto simp: tkeys_def tput_def)

lemma tget_None_iff: "tget t k = None \<longleftrightarrow> k \<notin> set (tkeys t)"
  by (simp add: tget_def tkeys_def map_of_eq_None_iff)

lemma tget_Some_key: "tget t k = Some r \<Longrightarrow> k \<in> set (tkeys t)"
  by (metis option.distinct(1) tget_None_iff)

lemma tget_Some_row: "tget t k = Some r \<Longrightarrow> r \<in> set (trows t)"
  by (force simp: tget_def trows_def dest: map_of_SomeD)

lemma distinct_tkeys_tput: "distinct (tkeys t) \<Longrightarrow> distinct (tkeys (tput k r t))"
  by (simp add: tkeys_def tput_def distinct_update)

lemma trows_tput_fresh: "k \<notin> set (tkeys t) \<Longrightarrow> trows (tput k r t) = trows t @ [r]"
  by (induction t) (auto simp: tkeys_def trows_def tput_def)

lemma tput_split:
  assumes "tget t k = Some r"
  shows "\<exists>us vs. t = us @ (k, r) # vs \<and> k \<notin> set (tkeys us) \<and> (\<forall>q. tput k q t = us @ (k, q) # vs)"
  using assms
proof (induction t)
  case Nil
  then show ?case by simp
next
  case (Cons p t)
  obtain j q where p: "p = (j, q)" by (cases p)
  show ?case
  proof (cases "j = k")
    case True
    with Cons.prems p show ?thesis
      by (intro exI[of _ "[]"] exI[of _ t]) (simp add: tget_def tput_def tkeys_def)
  next
    case False
    with Cons.prems p have "tget t k = Some r" by (simp add: tget_def)
    then obtain us vs where "t = us @ (k, r) # vs" "k \<notin> set (tkeys us)"
      "\<forall>q. tput k q t = us @ (k, q) # vs" using Cons.IH by blast
    with False p show ?thesis
      by (intro exI[of _ "(j, q) # us"] exI[of _ vs]) (auto simp: tput_def tkeys_def)
  qed
qed

lemma table_ok_Nil [simp]: "table_ok ident []"
  by (simp add: table_ok_def tkeys_def)

lemma list_all_tput:
  "list_all P t \<Longrightarrow> P (k, r) \<Longrightarrow> list_all P (tput k r t)"
  by (induction t) (auto simp: tput_def)

lemma table_ok_tput: "table_ok ident t \<Longrightarrow> ident r = k \<Longrightarrow> table_ok ident (tput k r t)"
  by (auto simp: table_ok_def distinct_tkeys_tput intro: list_all_tput)

lemma table_ok_ident: "table_ok ident t \<Longrightarrow> tget t k = Some r \<Longrightarrow> ident r = k"
  by (auto simp: table_ok_def tget_def list_all_iff dest: map_of_SomeD)

lemma table_ok_row: "table_ok ident t \<Longrightarrow> r \<in> set (trows t) \<Longrightarrow> tget t (ident r) = Some r"
  by (auto simp: table_ok_def tget_def trows_def tkeys_def list_all_iff)

lemma table_ok_tmod:
  assumes "table_ok ident t" and "tmod t k f = Inr t'" and "\<And>r. ident (f r) = ident r"
  shows "table_ok ident t'"
  using assms by (auto simp: tmod_def table_ok_ident intro!: table_ok_tput split: option.splits)

lemma tmod_eq_Inr:
  "tmod t k f = Inr t' \<longleftrightarrow> (\<exists>r. tget t k = Some r \<and> t' = tput k (f r) t)"
  by (auto simp: tmod_def split: option.splits)

lemma tget_tmod:
  "tmod t k f = Inr t' \<Longrightarrow> tget t' j = (if j = k then map_option f (tget t k) else tget t j)"
  by (auto simp: tmod_eq_Inr)

lemma trows_tput_elem: "q \<in> set (trows (tput k r t)) \<Longrightarrow> q = r \<or> q \<in> set (trows t)"
  by (induction t) (auto simp: trows_def tput_def split: if_splits)

lemma find_Some_in: "find P xs = Some x \<Longrightarrow> x \<in> set xs \<and> P x"
  by (induction xs) (auto split: if_splits)

section \<open>Strings\<close>

definition is_py_space :: "char \<Rightarrow> bool" where
  "is_py_space c = (let n = (of_char c :: nat) in
     (9 \<le> n \<and> n \<le> 13) \<or> (28 \<le> n \<and> n \<le> 32) \<or> n = 133 \<or> n = 160)"

definition strip :: "string \<Rightarrow> string" where
  "strip s = rev (dropWhile is_py_space (rev (dropWhile is_py_space s)))"

text \<open>\<open>not value.strip()\<close>\<close>

definition blank :: "string \<Rightarrow> bool" where
  "blank s = (strip s = [])"

lemma blank_iff: "blank s \<longleftrightarrow> (\<forall>c \<in> set s. is_py_space c)"
proof -
  have "blank s \<longleftrightarrow> (\<forall>c \<in> set (dropWhile is_py_space s). is_py_space c)"
    by (simp add: blank_def strip_def dropWhile_eq_Nil_conv)
  also have "\<dots> \<longleftrightarrow> (\<forall>c \<in> set s. is_py_space c)"
    by (induction s) (auto dest: set_dropWhileD)
  finally show ?thesis .
qed

lemma blank_Nil [simp]: "blank []"
  by (simp add: blank_iff)

text \<open>Characters are compared bit by bit when a witness is evaluated, never through unary numbers.\<close>

fun bits_less :: "bool list \<Rightarrow> bool list \<Rightarrow> bool" where
  "bits_less (x # xs) (y # ys) \<longleftrightarrow> bits_less xs ys \<or> xs = ys \<and> \<not> x \<and> y"
| "bits_less _ _ \<longleftrightarrow> False"

lemma horner_bits_eq:
  "length xs = length ys \<Longrightarrow> (horner_sum of_bool 2 xs :: nat) = horner_sum of_bool 2 ys \<longleftrightarrow> xs = ys"
proof (induction xs ys rule: list_induct2)
  case (Cons x xs y ys)
  have "of_bool x + 2 * (horner_sum of_bool 2 xs :: nat) = of_bool y + 2 * horner_sum of_bool 2 ys
      \<longleftrightarrow> x = y \<and> (horner_sum of_bool 2 xs :: nat) = horner_sum of_bool 2 ys"
    by (cases x; cases y) (simp_all, presburger+)
  with Cons.IH show ?case by simp
qed simp

lemma bits_less_horner:
  "length xs = length ys \<Longrightarrow> bits_less xs ys \<longleftrightarrow> (horner_sum of_bool 2 xs :: nat) < horner_sum of_bool 2 ys"
proof (induction xs ys rule: list_induct2)
  case (Cons x xs y ys)
  with horner_bits_eq [OF Cons.hyps] show ?case by (cases x; cases y) auto
qed simp

definition char_less :: "char \<Rightarrow> char \<Rightarrow> bool" where
  "char_less a b \<longleftrightarrow> (of_char a :: nat) < of_char b"

lemma char_less_code [code]:
  "char_less (Char a0 a1 a2 a3 a4 a5 a6 a7) (Char b0 b1 b2 b3 b4 b5 b6 b7)
     \<longleftrightarrow> bits_less [a0, a1, a2, a3, a4, a5, a6, a7] [b0, b1, b2, b3, b4, b5, b6, b7]"
  by (subst bits_less_horner) (simp_all only: char_less_def of_char_Char, simp)

lemma of_char_is: "of_char d = n \<Longrightarrow> (of_char c :: nat) = n \<longleftrightarrow> c = d"
  by (metis of_char_eq_iff)

lemma is_py_space_code [code]:
  "is_py_space c \<longleftrightarrow> List.member [CHR 0x09, CHR 0x0A, CHR 0x0B, CHR 0x0C, CHR 0x0D, CHR 0x1C, CHR 0x1D, CHR 0x1E, CHR 0x1F, CHR 0x20,
     CHR 0x85, CHR 0xA0] c"
proof -
  have "is_py_space c \<longleftrightarrow> of_char c \<in> {9, 10, 11, 12, 13, 28, 29, 30, 31, 32, 133, 160 :: nat}"
    unfolding is_py_space_def Let_def by auto
  then show ?thesis
    by (simp add: of_char_is [of "CHR 0x09"] of_char_is [of "CHR 0x0A"] of_char_is [of "CHR 0x0B"] of_char_is [of "CHR 0x0C"]
        of_char_is [of "CHR 0x0D"] of_char_is [of "CHR 0x1C"] of_char_is [of "CHR 0x1D"] of_char_is [of "CHR 0x1E"]
        of_char_is [of "CHR 0x1F"] of_char_is [of "CHR 0x20"] of_char_is [of "CHR 0x85"] of_char_is [of "CHR 0xA0"])
qed

lemma blank_code [code]: "blank s \<longleftrightarrow> list_all is_py_space s"
  by (simp add: blank_iff list_all_iff)

end
