(* ===== verification/Json.thy ===== *)
theory Json
  imports Prelude
begin

text \<open>
  JSON values as the runtime stores them: payloads, binding manifests, request references and
  settings. Every stored object has passed \<open>_json_object\<close> of
  \<open>harness/operation_values.py\<close>, which parses the key-sorted canonical text, so equality of
  parsed values is equality of these trees. A Python \<open>float\<close> is a real number here
  (rounding is not modelled).
\<close>

datatype json =
    JNull
  | JBool bool
  | JInt int
  | JFloat real
  | JStr string
  | JArr "json list"
  | JObj "(string \<times> json) list"

text \<open>\<open>value[key]\<close> and \<open>key in value\<close> of an object; every other value has no keys.\<close>

fun jfind :: "json \<Rightarrow> string \<Rightarrow> json option" where
  "jfind (JObj kvs) k = map_of kvs k"
| "jfind _ _ = None"

text \<open>\<open>value.get(key)\<close>: a missing key reads as \<open>None\<close>.\<close>

definition jget :: "json \<Rightarrow> string \<Rightarrow> json" where
  "jget v k = (case jfind v k of None \<Rightarrow> JNull | Some x \<Rightarrow> x)"

text \<open>\<open>isinstance(value, str)\<close> and \<open>type(value) is int\<close> (a \<open>bool\<close> is not an \<open>int\<close> here).\<close>

fun as_str :: "json \<Rightarrow> string option" where
  "as_str (JStr s) = Some s"
| "as_str _ = None"

fun as_int :: "json \<Rightarrow> int option" where
  "as_int (JInt n) = Some n"
| "as_int _ = None"

fun as_list :: "json \<Rightarrow> json list option" where
  "as_list (JArr xs) = Some xs"
| "as_list _ = None"

fun is_obj :: "json \<Rightarrow> bool" where
  "is_obj (JObj _) = True"
| "is_obj _ = False"

text \<open>Python truth value.\<close>

fun truthy :: "json \<Rightarrow> bool" where
  "truthy JNull = False"
| "truthy (JBool b) = b"
| "truthy (JInt n) = (n \<noteq> 0)"
| "truthy (JFloat x) = (x \<noteq> 0)"
| "truthy (JStr s) = (s \<noteq> [])"
| "truthy (JArr xs) = (xs \<noteq> [])"
| "truthy (JObj kvs) = (kvs \<noteq> [])"

text \<open>
  \<open>{**value, key: x}\<close>: replaces the key in place, or inserts it. Insertion keeps the keys
  in the order of the stored form, which is sorted; \<open>jset\<close> puts a new key before the first
  greater one.
\<close>

fun string_less :: "string \<Rightarrow> string \<Rightarrow> bool" where
  "string_less _ [] = False"
| "string_less [] (_ # _) = True"
| "string_less (a # as) (b # bs) =
     (if a = b then string_less as bs else (of_char a :: nat) < of_char b)"

fun kv_set :: "string \<Rightarrow> json \<Rightarrow> (string \<times> json) list \<Rightarrow> (string \<times> json) list" where
  "kv_set k x [] = [(k, x)]"
| "kv_set k x ((j, y) # kvs) =
     (if j = k then (k, x) # kvs
      else if string_less k j then (k, x) # (j, y) # kvs
      else (j, y) # kv_set k x kvs)"

fun jset :: "json \<Rightarrow> string \<Rightarrow> json \<Rightarrow> json" where
  "jset (JObj kvs) k x = JObj (kv_set k x kvs)"
| "jset v k x = JObj [(k, x)]"

fun jdel :: "json \<Rightarrow> string \<Rightarrow> json" where
  "jdel (JObj kvs) k = JObj (filter (\<lambda>(j, y). j \<noteq> k) kvs)"
| "jdel v k = v"

definition of_opt_str :: "string option \<Rightarrow> json" where
  "of_opt_str x = (case x of None \<Rightarrow> JNull | Some s \<Rightarrow> JStr s)"

definition of_opt_int :: "int option \<Rightarrow> json" where
  "of_opt_int x = (case x of None \<Rightarrow> JNull | Some n \<Rightarrow> JInt n)"

lemma jget_simps [simp]:
  "jget (JObj []) k = JNull"
  "jget (JObj ((j, y) # kvs)) k = (if j = k then y else jget (JObj kvs) k)"
  by (auto simp: jget_def)

definition sorted_keys :: "(string \<times> json) list \<Rightarrow> bool" where
  "sorted_keys kvs \<longleftrightarrow> sorted_wrt string_less (map fst kvs)"

lemma string_less_code [code]:
  "string_less (a # as) (b # bs) = (if a = b then string_less as bs else char_less a b)"
  by (simp add: char_less_def)

lemma string_less_irrefl [simp]: "\<not> string_less s s"
  by (induction s) auto

lemma string_less_trans: "string_less a b \<Longrightarrow> string_less b c \<Longrightarrow> string_less a c"
proof (induction a b arbitrary: c rule: string_less.induct)
  case (2 b bs)
  then show ?case by (cases c) auto
next
  case (3 a as b bs)
  then show ?case by (cases c) (auto split: if_splits)
qed simp

lemma string_less_total: "a \<noteq> b \<Longrightarrow> \<not> string_less a b \<Longrightarrow> string_less b a"
proof (induction a b rule: string_less.induct)
  case (1 a)
  then show ?case by (cases a) auto
next
  case (3 a as b bs)
  then show ?case by (auto split: if_splits dest: linorder_neqE_nat simp: not_less le_less)
qed simp

lemma kv_set_fst: "p \<in> set (kv_set k x kvs) \<Longrightarrow> p = (k, x) \<or> p \<in> set kvs"
  by (induction kvs) (auto split: if_splits)

lemma sorted_keys_kv_set: "sorted_keys kvs \<Longrightarrow> sorted_keys (kv_set k x kvs)"
proof (induction kvs)
  case Nil
  then show ?case by (simp add: sorted_keys_def)
next
  case (Cons p kvs)
  obtain j y where p: "p = (j, y)" by (cases p)
  from Cons.prems p have js: "\<forall>i \<in> fst ` set kvs. string_less j i" and kvs: "sorted_keys kvs"
    by (auto simp: sorted_keys_def)
  from Cons.IH [OF kvs] have ih: "sorted_keys (kv_set k x kvs)" .
  show ?case
  proof (cases "j = k \<or> string_less k j")
    case True
    with js kvs p Cons.prems show ?thesis
      by (auto simp: sorted_keys_def intro: string_less_trans)
  next
    case False
    then have "string_less j k" using string_less_total by blast
    then have "\<forall>i \<in> fst ` set (kv_set k x kvs). string_less j i"
      using js by (auto dest!: kv_set_fst)
    with ih False p show ?thesis by (auto simp: sorted_keys_def)
  qed
qed

lemma map_of_kv_set: "map_of (kv_set k x kvs) i = (if i = k then Some x else map_of kvs i)"
  by (induction kvs) auto

lemma jget_jset [simp]: "is_obj v \<Longrightarrow> jget (jset v k x) i = (if i = k then x else jget v i)"
  by (cases v) (auto simp: jget_def map_of_kv_set)

lemma is_obj_jset [simp]: "is_obj (jset v k x)"
  by (cases v) auto

lemma jget_jdel [simp]: "jget (jdel v k) i = (if is_obj v \<and> i = k then JNull else jget v i)"
proof (cases v)
  case (JObj kvs)
  have "map_of (filter (\<lambda>(j, y). j \<noteq> k) kvs) i = (if i = k then None else map_of kvs i)"
    by (induction kvs) auto
  with JObj show ?thesis by (simp add: jget_def)
qed (auto simp: jget_def)

end
