(* ===== verification/Budget_Types.thy ===== *)
theory Budget_Types
  imports Json
begin

text \<open>
  The value objects of \<open>agent_runtime/budget/types.py\<close>: resource quantities, hard limits, the
  derived accounting view of one scope, and reservations. Quantities are Python integers;
  \<open>usage_ok\<close> is the check of \<open>__post_init__\<close>.
\<close>

section \<open>Resource quantities\<close>

datatype usage = Usage
  (input_tokens: int) (cached_input_tokens: int) (cache_write_tokens: int)
  (output_tokens: int) (reasoning_tokens: int)
  (cost_micros: int) (model_calls: int) (tool_calls: int) (retries: int) (subagents: int)
  (model_ms: int) (tool_ms: int) (wall_ms: int)
  (tool_output_bytes: int) (network_bytes: int) (artifact_bytes: int)

definition usage_fields :: "usage \<Rightarrow> int list" where
  "usage_fields u =
     [input_tokens u, cached_input_tokens u, cache_write_tokens u, output_tokens u,
      reasoning_tokens u, cost_micros u, model_calls u, tool_calls u, retries u, subagents u,
      model_ms u, tool_ms u, wall_ms u, tool_output_bytes u, network_bytes u, artifact_bytes u]"

definition usage_ok :: "usage \<Rightarrow> bool" where
  "usage_ok u = list_all (\<lambda>n. 0 \<le> n) (usage_fields u)"

text \<open>\<open>ResourceUsage(...)\<close>: the constructor rejects a negative quantity.\<close>

definition make_usage :: "usage \<Rightarrow> usage result" where
  "make_usage u = (if usage_ok u then Inr u else Inl (ValueError ''non-negative integer''))"

definition zero_usage :: usage where
  "zero_usage = Usage 0 0 0 0 0 0 0 0 0 0 0 0 0 0 0 0"

definition total_tokens :: "usage \<Rightarrow> int" where
  "total_tokens u = input_tokens u + output_tokens u"

definition usage_map2 :: "(int \<Rightarrow> int \<Rightarrow> int) \<Rightarrow> usage \<Rightarrow> usage \<Rightarrow> usage" where
  "usage_map2 f a b = Usage
     (f (input_tokens a) (input_tokens b)) (f (cached_input_tokens a) (cached_input_tokens b))
     (f (cache_write_tokens a) (cache_write_tokens b)) (f (output_tokens a) (output_tokens b))
     (f (reasoning_tokens a) (reasoning_tokens b)) (f (cost_micros a) (cost_micros b))
     (f (model_calls a) (model_calls b)) (f (tool_calls a) (tool_calls b))
     (f (retries a) (retries b)) (f (subagents a) (subagents b))
     (f (model_ms a) (model_ms b)) (f (tool_ms a) (tool_ms b)) (f (wall_ms a) (wall_ms b))
     (f (tool_output_bytes a) (tool_output_bytes b)) (f (network_bytes a) (network_bytes b))
     (f (artifact_bytes a) (artifact_bytes b))"

definition usage_add :: "usage \<Rightarrow> usage \<Rightarrow> usage" where
  "usage_add a b = usage_map2 (+) a b"

text \<open>\<open>subtract_floor_zero\<close>\<close>

definition subtract_floor_zero :: "usage \<Rightarrow> usage \<Rightarrow> usage" where
  "subtract_floor_zero a b = usage_map2 (\<lambda>x y. max (x - y) 0) a b"

text \<open>\<open>replace(usage, retries=n)\<close>\<close>

definition set_retries :: "usage \<Rightarrow> int \<Rightarrow> usage" where
  "set_retries u n = Usage
     (input_tokens u) (cached_input_tokens u) (cache_write_tokens u) (output_tokens u)
     (reasoning_tokens u) (cost_micros u) (model_calls u) (tool_calls u) n (subagents u)
     (model_ms u) (tool_ms u) (wall_ms u) (tool_output_bytes u) (network_bytes u) (artifact_bytes u)"

named_theorems usage_defs "unfolding of the pointwise operations on quantities"

lemmas usage_pointwise [usage_defs] =
  usage_add_def subtract_floor_zero_def usage_map2_def zero_usage_def usage_ok_def
  usage_fields_def total_tokens_def set_retries_def

text \<open>
  Quantities form a commutative monoid, so the accounting views below can be sums over
  projection rows.
\<close>

instantiation usage :: comm_monoid_add
begin

definition zero_usage_inst: "0 = zero_usage"
definition plus_usage_inst: "a + b = usage_add a b"

instance
  by intro_classes (auto simp: zero_usage_inst plus_usage_inst usage_defs intro!: usage.expand)

end

instantiation usage :: ordered_ab_semigroup_add
begin

text \<open>The pointwise order.\<close>

definition less_eq_usage :: "usage \<Rightarrow> usage \<Rightarrow> bool" where
  "a \<le> b \<longleftrightarrow> list_all2 (\<le>) (usage_fields a) (usage_fields b)"

definition less_usage :: "usage \<Rightarrow> usage \<Rightarrow> bool" where
  "(a :: usage) < b \<longleftrightarrow> a \<le> b \<and> \<not> b \<le> a"

instance
proof
  fix a b c :: usage
  show "a < b \<longleftrightarrow> a \<le> b \<and> \<not> b \<le> a" by (rule less_usage_def)
  show "a \<le> a" by (simp add: less_eq_usage_def usage_fields_def)
  show "a \<le> b \<Longrightarrow> b \<le> c \<Longrightarrow> a \<le> c" by (simp add: less_eq_usage_def usage_fields_def)
  show "a \<le> b \<Longrightarrow> b \<le> a \<Longrightarrow> a = b"
    by (simp add: less_eq_usage_def usage_fields_def) (rule usage.expand, simp)
  show "a \<le> b \<Longrightarrow> c + a \<le> c + b"
    by (simp add: less_eq_usage_def plus_usage_inst usage_defs)
qed

end

lemmas usage_inst = zero_usage_inst plus_usage_inst less_eq_usage_def

lemma usage_ok_zero [simp]: "usage_ok 0"
  by (simp add: usage_inst usage_defs)

lemma usage_ok_add [simp]: "usage_ok a \<Longrightarrow> usage_ok b \<Longrightarrow> usage_ok (a + b)"
  by (simp add: usage_inst usage_defs)

lemma usage_ok_floor: "usage_ok (subtract_floor_zero a b)"
  by (simp add: usage_defs)

lemma usage_ok_iff_ge_zero: "usage_ok a \<longleftrightarrow> 0 \<le> a"
  by (simp add: usage_inst usage_defs)

lemma usage_add_cancel_left: "(a :: usage) + b = a + c \<longleftrightarrow> b = c"
  by (auto simp: usage_inst usage_defs intro: usage.expand)

lemma subtract_floor_zero_add [simp]: "usage_ok a \<Longrightarrow> subtract_floor_zero (a + b) b = a"
  by (rule usage.expand) (simp add: usage_inst usage_defs)

lemma total_tokens_add [simp]: "total_tokens (a + b) = total_tokens a + total_tokens b"
  by (simp add: usage_inst usage_defs)

lemma total_tokens_zero [simp]: "total_tokens 0 = 0"
  by (simp add: usage_inst usage_defs)

lemma cost_micros_add [simp]: "cost_micros (a + b) = cost_micros a + cost_micros b"
  by (simp add: usage_inst usage_defs)

lemma cost_micros_zero [simp]: "cost_micros 0 = 0"
  by (simp add: usage_inst usage_defs)

lemma total_tokens_nonneg [simp]: "usage_ok a \<Longrightarrow> 0 \<le> total_tokens a"
  by (simp add: usage_defs)

lemma cost_micros_nonneg [simp]: "usage_ok a \<Longrightarrow> 0 \<le> cost_micros a"
  by (simp add: usage_defs)

lemma usage_ok_sum_list: "(\<And>x. x \<in> set xs \<Longrightarrow> usage_ok (f x)) \<Longrightarrow> usage_ok (sum_list (map f xs))"
  by (induction xs) auto

section \<open>JSON form of a quantity\<close>

definition usage_names :: "string list" where
  "usage_names =
     [''input_tokens'', ''cached_input_tokens'', ''cache_write_tokens'', ''output_tokens'',
      ''reasoning_tokens'', ''cost_micros'', ''model_calls'', ''tool_calls'', ''retries'',
      ''subagents'', ''model_ms'', ''tool_ms'', ''wall_ms'', ''tool_output_bytes'',
      ''network_bytes'', ''artifact_bytes'']"

text \<open>\<open>to_dict\<close>: one entry per dataclass field, in declaration order.\<close>

definition usage_to_dict :: "usage \<Rightarrow> json" where
  "usage_to_dict u = JObj (zip usage_names (map JInt (usage_fields u)))"

text \<open>
  \<open>from_dict\<close>: rejects a value that is not a mapping, then unknown keys, then quantities that
  are not non-negative integers; missing keys read as 0.
\<close>

definition usage_field_of :: "json \<Rightarrow> string \<Rightarrow> int option" where
  "usage_field_of v k = (case jfind v k of None \<Rightarrow> Some 0
     | Some x \<Rightarrow> (case as_int x of None \<Rightarrow> None | Some n \<Rightarrow> if 0 \<le> n then Some n else None))"

fun usage_of_fields :: "int list \<Rightarrow> usage" where
  "usage_of_fields [a, b, c, d, e, f, g, h, i, j, k, l, m, n, p, q] =
     Usage a b c d e f g h i j k l m n p q"
| "usage_of_fields _ = zero_usage"

fun sequence_opt :: "'a option list \<Rightarrow> 'a list option" where
  "sequence_opt [] = Some []"
| "sequence_opt (x # xs) = (case x of None \<Rightarrow> None | Some a \<Rightarrow> map_option (Cons a) (sequence_opt xs))"

definition usage_from_dict :: "json \<Rightarrow> usage result" where
  "usage_from_dict v = (case v of
       JObj kvs \<Rightarrow>
         if \<exists>k \<in> set (map fst kvs). k \<notin> set usage_names
         then Inl (ValueError ''resource usage contains unknown fields'')
         else (case sequence_opt (map (usage_field_of v) usage_names) of
                 None \<Rightarrow> Inl (ValueError ''non-negative integer'')
               | Some ns \<Rightarrow> Inr (usage_of_fields ns))
     | _ \<Rightarrow> Inl (TypeError ''resource usage must be a mapping''))"

lemma usage_of_fields_usage_fields [simp]: "usage_of_fields (usage_fields u) = u"
  by (cases u) (simp add: usage_fields_def)

lemma length_usage_fields [simp]: "length (usage_fields u) = length usage_names"
  by (simp add: usage_fields_def usage_names_def)

lemma sequence_opt_Some: "sequence_opt (map Some xs) = Some xs"
  by (induction xs) auto

lemma distinct_usage_names: "distinct usage_names"
  by (simp add: usage_names_def)

lemma map_field_of_zip:
  assumes "distinct ks" and "length ks = length ns" and "list_all (\<lambda>n. 0 \<le> n) ns"
  shows "map (usage_field_of (JObj (zip ks (map JInt ns)))) ks = map Some ns"
proof (rule nth_equalityI)
  show "length (map (usage_field_of (JObj (zip ks (map JInt ns)))) ks) = length (map Some ns)"
    using assms by simp
next
  fix i
  assume "i < length (map (usage_field_of (JObj (zip ks (map JInt ns)))) ks)"
  then have i: "i < length ks" by simp
  have "map_of (zip ks (map JInt ns)) (ks ! i) = Some (JInt (ns ! i))"
    using assms i by (simp add: map_of_zip_nth)
  with assms i show "map (usage_field_of (JObj (zip ks (map JInt ns)))) ks ! i = map Some ns ! i"
    by (simp add: usage_field_of_def list_all_length)
qed

lemma usage_from_to_dict_raw: "usage_ok u \<Longrightarrow> usage_from_dict (usage_to_dict u) = Inr u"
  using map_field_of_zip [OF distinct_usage_names length_usage_fields [symmetric], of u]
  by (simp add: usage_from_dict_def usage_to_dict_def usage_ok_def sequence_opt_Some)

section \<open>Limits, accounting views and reservations\<close>

record budget_limits =
  lim_tokens :: "int option"
  lim_cost_micros :: "int option"
  lim_model_calls :: "int option"
  lim_tool_calls :: "int option"
  lim_retries :: "int option"
  lim_subagents :: "int option"
  lim_wall_ms :: "int option"
  lim_tool_output_bytes :: "int option"

text \<open>
  \<open>BudgetLimits.__dataclass_fields__\<close> with \<open>_resource_value\<close>: each limited resource, its
  limit, and the quantity it bounds (\<open>tokens\<close> is logical input plus output).
\<close>

definition limit_fields :: "budget_limits \<Rightarrow> (string \<times> int option \<times> (usage \<Rightarrow> int)) list" where
  "limit_fields l =
     [(''tokens'', lim_tokens l, total_tokens),
      (''cost_micros'', lim_cost_micros l, cost_micros),
      (''model_calls'', lim_model_calls l, model_calls),
      (''tool_calls'', lim_tool_calls l, tool_calls),
      (''retries'', lim_retries l, retries),
      (''subagents'', lim_subagents l, subagents),
      (''wall_ms'', lim_wall_ms l, wall_ms),
      (''tool_output_bytes'', lim_tool_output_bytes l, tool_output_bytes)]"

definition limits_ok :: "budget_limits \<Rightarrow> bool" where
  "limits_ok l = list_all (\<lambda>(_, cap, _). case cap of None \<Rightarrow> True | Some n \<Rightarrow> 0 \<le> n) (limit_fields l)"

record budget_state =
  scope_id :: string
  parent_scope_id :: "string option"
  limits :: budget_limits
  used :: usage
  reserved :: usage
  uncertain :: usage
  child_reserved :: usage

definition exposure :: "budget_state \<Rightarrow> usage" where
  "exposure s = used s + reserved s + uncertain s + child_reserved s"

definition budget_ok :: "budget_state \<Rightarrow> bool" where
  "budget_ok s \<longleftrightarrow> limits_ok (limits s) \<and> usage_ok (used s) \<and> usage_ok (reserved s)
     \<and> usage_ok (uncertain s) \<and> usage_ok (child_reserved s)"

text \<open>\<open>remaining\<close>: an unlimited resource has no remaining capacity to report.\<close>

definition remaining_of :: "int option \<Rightarrow> (usage \<Rightarrow> int) \<Rightarrow> budget_state \<Rightarrow> int option" where
  "remaining_of cap q s = map_option (\<lambda>n. max (n - q (exposure s)) 0) cap"

definition remaining_tokens :: "budget_state \<Rightarrow> int option" where
  "remaining_tokens s = remaining_of (lim_tokens (limits s)) total_tokens s"

definition remaining_cost :: "budget_state \<Rightarrow> int option" where
  "remaining_cost s = remaining_of (lim_cost_micros (limits s)) cost_micros s"

datatype reservation_status = Reserved | Dispatched | Settled | Released | Unknown

record budget_reservation =
  reservation_id :: string
  res_scope_id :: string
  res_operation_id :: string
  res_attempt_id :: string
  res_reserved :: usage
  res_status :: reservation_status

lemma usage_ok_exposure: "budget_ok s \<Longrightarrow> usage_ok (exposure s)"
  by (simp add: budget_ok_def exposure_def)

end
