(* ===== verification/Records.thy ===== *)
theory Records
  imports Budget_Types
begin

text \<open>
  The data of the canonical rollout: the projection rows of \<open>harness/records.py\<close> and
  \<open>harness/reducer.py\<close> (one record per table), the statuses a row can have, and the facts
  (one constructor per \<open>record_type\<close>, grouped by the entity they concern). A constructor
  carries the payload keys that the reducer or a modelled query reads; keys kept only for
  display (\<open>public_item_id\<close>, free-text reasons and the like) are left out. The constant
  \<open>reducer_version\<close> of every row is left out as well.
\<close>

section \<open>Statuses\<close>

datatype turn_status = Running | Paused | Interrupted | Completed | Failed | Cancelled

datatype item_status = ItemStartedStatus | ItemCompletedStatus

datatype model_op_status =
    MPrepared | MDispatched | MUnknown | MFailed | MCancelled | MRetryWait | MCompleted

datatype attempt_status =
    APrepared | ADispatched | AUnknown | AFailed | ACancelled | AAbandoned | ACompleted

datatype allocation_status = AllocActive | AllocSettled

datatype tool_status =
    TPrepared | TReady | TAwaitingApproval | TRunning | TSucceeded | TFailed | TUnknown
  | TDenied | TCancelled | TSuperseded

datatype interaction_status = InteractionPending | InteractionResolvedStatus

datatype approval_status = ApprovalPending | ApprovalApproved | ApprovalDenied | ApprovalInvalid

datatype command_status = CmdPending | CmdClaimed | CmdApplied | CmdRejected | CmdBlocked

definition terminal_turn :: "turn_status \<Rightarrow> bool" where
  "terminal_turn st \<longleftrightarrow> st \<in> {Completed, Failed, Cancelled}"

definition open_turn :: "turn_status \<Rightarrow> bool" where
  "open_turn st \<longleftrightarrow> st \<in> {Running, Paused, Interrupted}"

lemma open_turn_iff: "open_turn st \<longleftrightarrow> \<not> terminal_turn st"
  by (cases st) (auto simp: open_turn_def terminal_turn_def)

section \<open>Projection rows\<close>

record thread_row =
  th_id :: string
  th_workspace :: string
  th_parent :: "string option"
  th_fork_turn :: "string option"
  th_active :: "string option"
  th_head :: "string option"
  th_head_version :: int
  th_settings :: json
  th_seq :: nat

record turn_row =
  tu_id :: string
  tu_thread :: string
  tu_status :: turn_status
  tu_reason :: "string option"
  tu_message :: "string option"
  tu_predecessor :: "string option"
  tu_index :: int
  tu_binding :: json
  tu_seq :: nat

record item_row =
  it_id :: string
  it_thread :: string
  it_turn :: string
  it_sequence :: nat
  it_kind :: string
  it_status :: item_status
  it_producer :: string
  it_payload :: json
  it_seq :: nat

record model_op_row =
  mo_id :: string
  mo_thread :: string
  mo_turn :: string
  mo_status :: model_op_status
  mo_active :: string
  mo_generation :: int
  mo_request_hash :: string
  mo_context_hash :: string
  mo_tool_hash :: string
  mo_wire_hash :: string
  mo_request_ref :: json
  mo_response :: "string option"
  mo_seq :: nat

record attempt_row =
  ma_id :: string
  ma_op :: string
  ma_generation :: int
  ma_status :: attempt_status
  ma_provider_response :: "string option"
  ma_usage :: json
  ma_owner :: "string option"
  ma_lease :: "real option"
  ma_seq :: nat

record reservation_row =
  rs_id :: string
  rs_thread :: string
  rs_turn :: string
  rs_scope :: string
  rs_op :: string
  rs_attempt :: string
  rs_reserved :: usage
  rs_actual :: usage
  rs_status :: reservation_status
  rs_seq :: nat

record allocation_row =
  al_id :: string
  al_thread :: string
  al_parent :: string
  al_child :: string
  al_tokens :: "int option"
  al_cost :: "int option"
  al_actual :: usage
  al_status :: allocation_status
  al_seq :: nat

record tool_resource =
  tr_kind :: string
  tr_identity :: string
  tr_access :: string

record tool_op_row =
  to_id :: string
  to_thread :: string
  to_turn :: string
  to_call :: string
  to_name :: string
  to_digest :: string
  to_revision :: string
  to_effects :: "string list"
  to_resources :: "tool_resource list"
  to_idempotent :: bool
  to_status :: tool_status
  to_attempts :: int
  to_error :: "string option"
  to_reconcile :: bool
  to_result :: "string option"
  to_approval :: "string option"
  to_generation :: int
  to_fence :: "string option"
  to_owner :: "string option"
  to_lease :: "real option"
  to_seq :: nat

record interaction_row =
  in_id :: string
  in_thread :: string
  in_turn :: string
  in_kind :: string
  in_status :: interaction_status
  in_version :: int
  in_op :: "string option"
  in_request :: json
  in_response :: json
  in_seq :: nat

record approval_row =
  ap_id :: string
  ap_thread :: string
  ap_turn :: string
  ap_op :: "string option"
  ap_status :: approval_status
  ap_scope :: json
  ap_seq :: nat

record artifact_row =
  ar_id :: string
  ar_thread :: string
  ar_turn :: string
  ar_sha256 :: string
  ar_size :: int
  ar_media_type :: string
  ar_name :: string
  ar_seq :: nat

record host_command_row =
  hc_id :: string
  hc_thread :: string
  hc_turn :: string
  hc_kind :: string
  hc_request_hash :: string
  hc_request :: json
  hc_status :: command_status
  hc_generation :: int
  hc_owner :: "string option"
  hc_lease :: "real option"
  hc_available :: real
  hc_result :: json
  hc_seq :: nat

record channel_row =
  ch_id :: string
  ch_thread :: string
  ch_kind :: string
  ch_key :: string
  ch_value :: json
  ch_seq :: nat

text \<open>\<open>ProjectionState\<close>, including the transient item counters of a replay.\<close>

record projection =
  threads :: "thread_row table"
  turns :: "turn_row table"
  items :: "item_row table"
  model_operations :: "model_op_row table"
  model_attempts :: "attempt_row table"
  budget_reservations :: "reservation_row table"
  child_budget_allocations :: "allocation_row table"
  tool_operations :: "tool_op_row table"
  interactions :: "interaction_row table"
  approvals :: "approval_row table"
  artifacts :: "artifact_row table"
  host_commands :: "host_command_row table"
  channel_entries :: "channel_row table"
  item_sequences :: "string \<Rightarrow> nat"

definition empty_projection :: projection where
  "empty_projection =
     \<lparr>threads = [], turns = [], items = [], model_operations = [], model_attempts = [],
      budget_reservations = [], child_budget_allocations = [], tool_operations = [],
      interactions = [], approvals = [], artifacts = [], host_commands = [],
      channel_entries = [], item_sequences = (\<lambda>_. 0)\<rparr>"

section \<open>Facts\<close>

datatype thread_fact =
    ThreadCreated string
  | ThreadForked string string string
  | SessionSettingsUpdated json
  | ChannelEntryUpdated string string string json

text \<open>\<open>HostCommandClaimed command owner generation lease\<close>, \<open>HostCommandSettled command status result available\<close>.\<close>

datatype host_fact =
    HostCommandReceived string string string string json
  | HostCommandClaimed string string int real
  | HostCommandRenewed string string int real
  | HostCommandSettled string command_status json real
  | HostCommandReleased string command_status json real

text \<open>
  \<open>TurnPaused turn reason_code input_revision\<close>, \<open>TurnCompleted turn answer_item_id\<close>,
  \<open>TurnFailed turn reason_code message\<close>, \<open>TurnCancelled turn message\<close>.
\<close>

datatype turn_fact =
    TurnStarted string "string option" int json
  | TurnPaused string "string option" "int option"
  | TurnInterrupted string
  | TurnResumed string
  | TurnCancellationRequested string
  | TurnCompleted string "string option"
  | TurnFailed string string "string option"
  | TurnCancelled string "string option"

text \<open>The payload of \<open>model_retry_scheduled\<close>; the failure object is kept as JSON.\<close>

record retry_schedule =
  sc_operation :: string
  sc_attempt :: string
  sc_generation :: int
  sc_retry_number :: int
  sc_max_retries :: int
  sc_observed_at :: real
  sc_retry_at :: real
  sc_deadline_at :: real
  sc_failure :: json

text \<open>
  \<open>ModelOperationPrepared operation attempt generation request context tool wire ref\<close>,
  \<open>ModelAttemptDispatched operation attempt owner dispatched_at lease\<close>,
  \<open>ModelAttemptRejected operation attempt error_type\<close>,
  \<open>ModelRetryCancelled operation attempt generation reason_code\<close>,
  \<open>ModelRetryPrepared operation previous automatic prepared_at attempt generation\<close>,
  \<open>ModelAttemptCompleted operation attempt response provider_response usage\<close>.
\<close>

datatype model_fact =
    ModelOperationPrepared string string int string string string string json
  | ModelAttemptDispatched string string string real real
  | ModelResponseStarted string "string option"
  | ModelAttemptUnknown string string
  | ModelAttemptRejected string string "string option"
  | ModelAttemptCancelled string string
  | ModelRetryScheduled retry_schedule
  | ModelRetryCancelled string string int string
  | ModelRetryPrepared string string bool real string int
  | ModelAttemptCompleted string string string "string option" json
  | ModelAttemptLateResponse string string

text \<open>
  \<open>BudgetReserved reservation scope operation attempt reserved\<close>,
  \<open>BudgetChildAllocated allocation parent child tokens cost\<close>.
\<close>

datatype budget_fact =
    BudgetReserved string string string string usage
  | BudgetDispatched string
  | BudgetSettled string usage
  | BudgetReleased string
  | BudgetUnknown string
  | BudgetChildAllocated string string string "int option" "int option"
  | BudgetChildSettled string usage

text \<open>The payload of \<open>tool_operation_prepared\<close> and \<open>tool_operation_migrated\<close>.\<close>

record tool_spec =
  ts_operation :: string
  ts_call :: string
  ts_name :: string
  ts_digest :: string
  ts_revision :: string
  ts_effects :: "string list"
  ts_resources :: "tool_resource list"
  ts_idempotent :: bool
  ts_status :: tool_status
  ts_attempts :: int
  ts_error :: "string option"
  ts_reconcile :: bool

text \<open>
  \<open>ToolStatusChanged operation status attempts error reconcile\<close>,
  \<open>ToolClaimed operation generation fence owner lease attempts\<close>,
  \<open>ToolStartRejected operation attempts error\<close>,
  \<open>ToolOutcomeCommitted operation status attempts error reconcile duration_ms\<close>,
  \<open>ToolReconciled operation status error\<close>.
\<close>

datatype tool_fact =
    ToolPrepared tool_spec
  | ToolMigrated tool_spec "string option"
  | ToolStatusChanged string tool_status int "string option" bool
  | ToolClaimed string int string string real int
  | ToolStartRejected string int string
  | ToolClaimExpired string
  | ToolResultMissing string
  | ToolOutcomeCommitted string tool_status int "string option" bool "real option"
  | ToolReconciled string tool_status "string option"
  | ToolStaleResult string
  | ToolResultLinked string string
  | ToolApprovalRequested string string
  | ToolApprovalResolved string tool_status
  | ToolSuperseded string

text \<open>
  \<open>InteractionRequested request kind operation body\<close>,
  \<open>InteractionResolved request version response approval_status\<close>.
\<close>

datatype interaction_fact =
    InteractionRequested string string "string option" json
  | InteractionResolved string int json "approval_status option"
  | ApprovalInvalidated string

text \<open>
  \<open>ItemStarted item kind meta\<close>: \<open>meta\<close> holds the other keys of the payload.
  \<open>ItemCompleted item kind payload\<close>: the kind is the one merged from the start fact.
\<close>

datatype item_fact =
    ItemStarted string string json
  | ItemCompleted string "string option" json
  | ArtifactCommitted string string int string string

datatype execution_fact =
    ExecutionProtocolAdopted
  | ResponseHandlingDecided string string
  | ToolBatchAdmitted string "string list"

datatype fact =
    ThreadFact thread_fact
  | HostFact host_fact
  | TurnFact turn_fact
  | ModelFact model_fact
  | BudgetFact budget_fact
  | ToolFact tool_fact
  | InteractionFact interaction_fact
  | ItemFact item_fact
  | ExecutionFact execution_fact
  | UnsupportedFact string

text \<open>\<open>RolloutRecord\<close>: the canonical envelope (hashes and wall-clock stamp left out).\<close>

record rollout_record =
  rr_id :: nat
  rr_thread :: string
  rr_turn :: "string option"
  rr_seq :: nat
  rr_version :: int
  rr_producer :: string
  rr_fact :: fact

end
