(* ===== verification/Reducer.thy ===== *)
theory Reducer
  imports Records
begin

text \<open>
  The deterministic reducer of \<open>harness/reducer.py\<close>. \<open>apply_record\<close> applies one canonical
  record to the projection tables; it is the dispatch over the groups of record types, each
  a function of its own. A step that subscripts a missing entity raises \<open>KeyError\<close>; the
  caller drops the partially updated state, so a raise returns no projection.
\<close>

section \<open>Elementary updates\<close>

text \<open>
  \<open>put_x\<close> is \<open>state.xs[id] = row\<close>; \<open>mod_x\<close> is the in-place update of \<open>state.xs[id]\<close>, which
  raises when the row is missing.
\<close>

definition put_thread :: "thread_row \<Rightarrow> projection \<Rightarrow> projection result" where
  "put_thread row p = Inr (p\<lparr>threads := tput (th_id row) row (threads p)\<rparr>)"

definition put_turn :: "turn_row \<Rightarrow> projection \<Rightarrow> projection result" where
  "put_turn row p = Inr (p\<lparr>turns := tput (tu_id row) row (turns p)\<rparr>)"

definition put_item :: "item_row \<Rightarrow> projection \<Rightarrow> projection result" where
  "put_item row p = Inr (p\<lparr>items := tput (it_id row) row (items p)\<rparr>)"

definition put_model_op :: "model_op_row \<Rightarrow> projection \<Rightarrow> projection result" where
  "put_model_op row p = Inr (p\<lparr>model_operations := tput (mo_id row) row (model_operations p)\<rparr>)"

definition put_attempt :: "attempt_row \<Rightarrow> projection \<Rightarrow> projection result" where
  "put_attempt row p = Inr (p\<lparr>model_attempts := tput (ma_id row) row (model_attempts p)\<rparr>)"

definition put_reservation :: "reservation_row \<Rightarrow> projection \<Rightarrow> projection result" where
  "put_reservation row p = Inr (p\<lparr>budget_reservations := tput (rs_id row) row (budget_reservations p)\<rparr>)"

definition put_allocation :: "allocation_row \<Rightarrow> projection \<Rightarrow> projection result" where
  "put_allocation row p = Inr (p\<lparr>child_budget_allocations := tput (al_id row) row (child_budget_allocations p)\<rparr>)"

definition put_tool_op :: "tool_op_row \<Rightarrow> projection \<Rightarrow> projection result" where
  "put_tool_op row p = Inr (p\<lparr>tool_operations := tput (to_id row) row (tool_operations p)\<rparr>)"

definition put_interaction :: "interaction_row \<Rightarrow> projection \<Rightarrow> projection result" where
  "put_interaction row p = Inr (p\<lparr>interactions := tput (in_id row) row (interactions p)\<rparr>)"

definition put_approval :: "approval_row \<Rightarrow> projection \<Rightarrow> projection result" where
  "put_approval row p = Inr (p\<lparr>approvals := tput (ap_id row) row (approvals p)\<rparr>)"

definition put_artifact :: "artifact_row \<Rightarrow> projection \<Rightarrow> projection result" where
  "put_artifact row p = Inr (p\<lparr>artifacts := tput (ar_id row) row (artifacts p)\<rparr>)"

definition put_command :: "host_command_row \<Rightarrow> projection \<Rightarrow> projection result" where
  "put_command row p = Inr (p\<lparr>host_commands := tput (hc_id row) row (host_commands p)\<rparr>)"

definition put_channel :: "channel_row \<Rightarrow> projection \<Rightarrow> projection result" where
  "put_channel row p = Inr (p\<lparr>channel_entries := tput (ch_id row) row (channel_entries p)\<rparr>)"

definition mod_thread :: "string \<Rightarrow> (thread_row \<Rightarrow> thread_row) \<Rightarrow> projection \<Rightarrow> projection result" where
  "mod_thread k f p = ebind (tmod (threads p) k f) (\<lambda>t. Inr (p\<lparr>threads := t\<rparr>))"

definition mod_turn :: "string \<Rightarrow> (turn_row \<Rightarrow> turn_row) \<Rightarrow> projection \<Rightarrow> projection result" where
  "mod_turn k f p = ebind (tmod (turns p) k f) (\<lambda>t. Inr (p\<lparr>turns := t\<rparr>))"

definition mod_item :: "string \<Rightarrow> (item_row \<Rightarrow> item_row) \<Rightarrow> projection \<Rightarrow> projection result" where
  "mod_item k f p = ebind (tmod (items p) k f) (\<lambda>t. Inr (p\<lparr>items := t\<rparr>))"

definition mod_model_op :: "string \<Rightarrow> (model_op_row \<Rightarrow> model_op_row) \<Rightarrow> projection \<Rightarrow> projection result" where
  "mod_model_op k f p = ebind (tmod (model_operations p) k f) (\<lambda>t. Inr (p\<lparr>model_operations := t\<rparr>))"

definition mod_attempt :: "string \<Rightarrow> (attempt_row \<Rightarrow> attempt_row) \<Rightarrow> projection \<Rightarrow> projection result" where
  "mod_attempt k f p = ebind (tmod (model_attempts p) k f) (\<lambda>t. Inr (p\<lparr>model_attempts := t\<rparr>))"

definition mod_reservation :: "string \<Rightarrow> (reservation_row \<Rightarrow> reservation_row) \<Rightarrow> projection \<Rightarrow> projection result" where
  "mod_reservation k f p = ebind (tmod (budget_reservations p) k f) (\<lambda>t. Inr (p\<lparr>budget_reservations := t\<rparr>))"

definition mod_allocation :: "string \<Rightarrow> (allocation_row \<Rightarrow> allocation_row) \<Rightarrow> projection \<Rightarrow> projection result" where
  "mod_allocation k f p = ebind (tmod (child_budget_allocations p) k f) (\<lambda>t. Inr (p\<lparr>child_budget_allocations := t\<rparr>))"

definition mod_tool_op :: "string \<Rightarrow> (tool_op_row \<Rightarrow> tool_op_row) \<Rightarrow> projection \<Rightarrow> projection result" where
  "mod_tool_op k f p = ebind (tmod (tool_operations p) k f) (\<lambda>t. Inr (p\<lparr>tool_operations := t\<rparr>))"

definition mod_interaction :: "string \<Rightarrow> (interaction_row \<Rightarrow> interaction_row) \<Rightarrow> projection \<Rightarrow> projection result" where
  "mod_interaction k f p = ebind (tmod (interactions p) k f) (\<lambda>t. Inr (p\<lparr>interactions := t\<rparr>))"

definition mod_approval :: "string \<Rightarrow> (approval_row \<Rightarrow> approval_row) \<Rightarrow> projection \<Rightarrow> projection result" where
  "mod_approval k f p = ebind (tmod (approvals p) k f) (\<lambda>t. Inr (p\<lparr>approvals := t\<rparr>))"

definition mod_command :: "string \<Rightarrow> (host_command_row \<Rightarrow> host_command_row) \<Rightarrow> projection \<Rightarrow> projection result" where
  "mod_command k f p = ebind (tmod (host_commands p) k f) (\<lambda>t. Inr (p\<lparr>host_commands := t\<rparr>))"

lemmas put_defs [step_defs] =
  put_thread_def put_turn_def put_item_def put_model_op_def put_attempt_def put_reservation_def put_allocation_def put_tool_op_def put_interaction_def put_approval_def put_artifact_def put_command_def put_channel_def

lemmas mod_defs [step_defs] =
  mod_thread_def mod_turn_def mod_item_def mod_model_op_def mod_attempt_def mod_reservation_def mod_allocation_def mod_tool_op_def mod_interaction_def mod_approval_def mod_command_def

text \<open>\<open>_turn_id\<close>, \<open>_advance\<close> and the bare update of the thread's applied sequence.\<close>

definition turn_of :: "rollout_record \<Rightarrow> string result" where
  "turn_of r = require (rr_turn r) (ValueError ''record requires turn_id'')"

definition touch_thread :: "rollout_record \<Rightarrow> projection \<Rightarrow> projection result" where
  "touch_thread r = mod_thread (rr_thread r) (\<lambda>t. t\<lparr>th_seq := rr_seq r\<rparr>)"

definition advance :: "rollout_record \<Rightarrow> projection \<Rightarrow> projection result" where
  "advance r p = ebind (turn_of r) (\<lambda>tid.
     chain [touch_thread r, mod_turn tid (\<lambda>t. t\<lparr>tu_seq := rr_seq r\<rparr>)] p)"

text \<open>\<open>state.xs[key]\<close> read for a check.\<close>

definition lookup :: "'r table \<Rightarrow> string \<Rightarrow> 'r result" where
  "lookup t k = require (tget t k) (KeyError k)"

definition jget_or :: "json \<Rightarrow> string \<Rightarrow> json \<Rightarrow> json" where
  "jget_or v k d = (case jfind v k of None \<Rightarrow> d | Some x \<Rightarrow> x)"

section \<open>Threads, settings and channel entries\<close>

definition new_thread :: "rollout_record \<Rightarrow> string \<Rightarrow> string option \<Rightarrow> string option \<Rightarrow> thread_row" where
  "new_thread r ws parent fork =
     \<lparr>th_id = rr_thread r, th_workspace = ws, th_parent = parent, th_fork_turn = fork,
      th_active = None, th_head = fork, th_head_version = 0, th_settings = JObj [],
      th_seq = rr_seq r\<rparr>"

fun apply_thread :: "rollout_record \<Rightarrow> thread_fact \<Rightarrow> projection \<Rightarrow> projection result" where
  "apply_thread r (ThreadCreated ws) p = put_thread (new_thread r ws None None) p"
| "apply_thread r (ThreadForked ws parent fork) p =
     put_thread (new_thread r ws (Some parent) (Some fork)) p"
| "apply_thread r (SessionSettingsUpdated s) p =
     mod_thread (rr_thread r) (\<lambda>t. t\<lparr>th_settings := s, th_seq := rr_seq r\<rparr>) p"
| "apply_thread r (ChannelEntryUpdated eid kind key val) p =
     chain [put_channel \<lparr>ch_id = eid, ch_thread = rr_thread r, ch_kind = kind, ch_key = key,
              ch_value = val, ch_seq = rr_seq r\<rparr>,
            touch_thread r] p"

section \<open>Host commands\<close>

definition claim_command :: "rollout_record \<Rightarrow> string \<Rightarrow> int \<Rightarrow> real \<Rightarrow> host_command_row \<Rightarrow> host_command_row" where
  "claim_command r owner gen lease c =
     c\<lparr>hc_status := CmdClaimed, hc_owner := Some owner, hc_generation := gen,
       hc_lease := Some lease, hc_seq := rr_seq r\<rparr>"

definition close_command :: "rollout_record \<Rightarrow> command_status \<Rightarrow> json \<Rightarrow> real \<Rightarrow> host_command_row \<Rightarrow> host_command_row" where
  "close_command r st res available c =
     c\<lparr>hc_status := st, hc_owner := None, hc_lease := None, hc_available := available,
       hc_result := res, hc_seq := rr_seq r\<rparr>"

fun apply_host :: "rollout_record \<Rightarrow> host_fact \<Rightarrow> projection \<Rightarrow> projection result" where
  "apply_host r (HostCommandReceived cid tid kind hash req) p =
     chain [put_command \<lparr>hc_id = cid, hc_thread = rr_thread r, hc_turn = tid, hc_kind = kind,
              hc_request_hash = hash, hc_request = req, hc_status = CmdPending,
              hc_generation = 0, hc_owner = None, hc_lease = None, hc_available = 0,
              hc_result = JObj [], hc_seq = rr_seq r\<rparr>,
            touch_thread r] p"
| "apply_host r (HostCommandClaimed cid owner gen lease) p =
     chain [mod_command cid (claim_command r owner gen lease), touch_thread r] p"
| "apply_host r (HostCommandRenewed cid owner gen lease) p =
     chain [mod_command cid (claim_command r owner gen lease), touch_thread r] p"
| "apply_host r (HostCommandSettled cid st res available) p =
     chain [mod_command cid (close_command r st res available), touch_thread r] p"
| "apply_host r (HostCommandReleased cid st res available) p =
     chain [mod_command cid (close_command r st res available), touch_thread r] p"

section \<open>Turns\<close>

definition set_turn_status :: "rollout_record \<Rightarrow> string \<Rightarrow> turn_status \<Rightarrow> projection \<Rightarrow> projection result" where
  "set_turn_status r tid st = mod_turn tid (\<lambda>t. t\<lparr>tu_status := st, tu_seq := rr_seq r\<rparr>)"

text \<open>The answer a completion of schema 3 or later must name.\<close>

definition answer_ok :: "projection \<Rightarrow> string \<Rightarrow> string option \<Rightarrow> bool" where
  "answer_ok p tid answer = (case answer of None \<Rightarrow> False | Some a \<Rightarrow>
     (case tget (items p) a of None \<Rightarrow> False | Some it \<Rightarrow>
        it_turn it = tid \<and> it_status it = ItemCompletedStatus
        \<and> it_kind it \<in> {''model_response'', ''agent_message''}
        \<and> (it_kind it = ''agent_message'' \<longrightarrow> as_str (jget (it_payload it) ''text'') \<noteq> None)
        \<and> (it_kind it = ''model_response'' \<longrightarrow> as_list (jget (it_payload it) ''outputs'') \<noteq> None)
        \<and> jget_or (it_payload it) ''response_status'' (JStr ''completed'') = JStr ''completed''))"

definition end_turn :: "rollout_record \<Rightarrow> string \<Rightarrow> turn_status \<Rightarrow> string \<Rightarrow> string option \<Rightarrow> projection \<Rightarrow> projection result" where
  "end_turn r tid st reason message = chain
     [mod_turn tid (\<lambda>t. t\<lparr>tu_status := st, tu_reason := Some reason, tu_message := message,
                          tu_seq := rr_seq r\<rparr>),
      mod_thread (rr_thread r) (\<lambda>t. t\<lparr>th_active := None, th_seq := rr_seq r\<rparr>)]"

fun apply_turn :: "rollout_record \<Rightarrow> turn_fact \<Rightarrow> projection \<Rightarrow> projection result" where
  "apply_turn r (TurnStarted tid pred idx binding) p =
     chain [put_turn \<lparr>tu_id = tid, tu_thread = rr_thread r, tu_status = Running,
              tu_reason = None, tu_message = None, tu_predecessor = pred, tu_index = idx,
              tu_binding = binding, tu_seq = rr_seq r\<rparr>,
            mod_thread (rr_thread r) (\<lambda>t. t\<lparr>th_active := Some tid, th_head := Some tid,
              th_head_version := th_head_version t + 1, th_seq := rr_seq r\<rparr>)] p"
| "apply_turn r (TurnPaused tid _ _) p = chain [set_turn_status r tid Paused, touch_thread r] p"
| "apply_turn r (TurnInterrupted tid) p =
     chain [set_turn_status r tid Interrupted, touch_thread r] p"
| "apply_turn r (TurnResumed tid) p = chain [set_turn_status r tid Running, touch_thread r] p"
| "apply_turn r (TurnCancellationRequested tid) p =
     chain [mod_turn tid (\<lambda>t. t\<lparr>tu_seq := rr_seq r\<rparr>), touch_thread r] p"
| "apply_turn r (TurnCompleted tid answer) p =
     (if rr_version r \<ge> 3 \<and> \<not> answer_ok p tid answer
      then Inl (ValueError ''Turn completion requires a committed answer Item from this Turn'')
      else end_turn r tid Completed ''completed'' None p)"
| "apply_turn r (TurnFailed tid reason message) p = end_turn r tid Failed reason message p"
| "apply_turn r (TurnCancelled tid message) p = end_turn r tid Cancelled ''cancelled'' message p"

section \<open>Model operations and attempts\<close>

definition new_attempt :: "rollout_record \<Rightarrow> string \<Rightarrow> string \<Rightarrow> int \<Rightarrow> attempt_row" where
  "new_attempt r op att gen =
     \<lparr>ma_id = att, ma_op = op, ma_generation = gen, ma_status = APrepared,
      ma_provider_response = None, ma_usage = JObj [], ma_owner = None, ma_lease = None,
      ma_seq = rr_seq r\<rparr>"

definition set_op_status :: "rollout_record \<Rightarrow> string \<Rightarrow> model_op_status \<Rightarrow> projection \<Rightarrow> projection result" where
  "set_op_status r op st = mod_model_op op (\<lambda>m. m\<lparr>mo_status := st, mo_seq := rr_seq r\<rparr>)"

definition set_attempt_status :: "rollout_record \<Rightarrow> string \<Rightarrow> attempt_status \<Rightarrow> projection \<Rightarrow> projection result" where
  "set_attempt_status r att st = mod_attempt att (\<lambda>a. a\<lparr>ma_status := st, ma_seq := rr_seq r\<rparr>)"

text \<open>The ownership check shared by \<open>model_retry_scheduled\<close> and \<open>model_retry_cancelled\<close>.\<close>

definition current_generation ::
  "rollout_record \<Rightarrow> string \<Rightarrow> string \<Rightarrow> string \<Rightarrow> int \<Rightarrow> model_op_row \<Rightarrow> attempt_row \<Rightarrow> bool" where
  "current_generation r tid op att gen m a \<longleftrightarrow>
     rr_producer r = ''runtime'' \<and> mo_turn m = tid \<and> mo_thread m = rr_thread r
     \<and> mo_active m = att \<and> mo_generation m = gen \<and> ma_op a = op"

definition retry_failure_ok :: "json \<Rightarrow> bool" where
  "retry_failure_ok f \<longleftrightarrow> is_obj f \<and> jget f ''retryable'' = JBool True
     \<and> jget f ''output_started'' = JBool False
     \<and> jget f ''provider_outcome'' \<in> {JStr ''not_sent'', JStr ''rejected''}"

definition schedule_error :: "retry_schedule \<Rightarrow> model_op_row \<Rightarrow> attempt_row \<Rightarrow> py_error option" where
  "schedule_error s m a =
     (if mo_status m \<noteq> MFailed \<or> ma_status a \<noteq> AFailed
      then Some (ValueError ''automatic retry requires a rejected current attempt'')
      else if \<not> (sc_observed_at s \<le> sc_retry_at s \<and> sc_retry_at s \<le> sc_deadline_at s)
      then Some (ValueError ''retry schedule exceeds its deadline'')
      else if \<not> (1 \<le> sc_retry_number s \<and> sc_retry_number s \<le> sc_max_retries s)
      then Some (ValueError ''retry schedule count exceeds its allowance'')
      else if \<not> retry_failure_ok (sc_failure s)
      then Some (ValueError ''automatic retry requires an unambiguous eligible failure'')
      else None)"

fun apply_model :: "rollout_record \<Rightarrow> model_fact \<Rightarrow> projection \<Rightarrow> projection result" where
  "apply_model r (ModelOperationPrepared op att gen hreq hctx htool hwire ref) p =
     ebind (turn_of r) (\<lambda>tid. chain
       [put_model_op \<lparr>mo_id = op, mo_thread = rr_thread r, mo_turn = tid, mo_status = MPrepared,
          mo_active = att, mo_generation = gen, mo_request_hash = hreq, mo_context_hash = hctx,
          mo_tool_hash = htool, mo_wire_hash = hwire, mo_request_ref = ref, mo_response = None,
          mo_seq = rr_seq r\<rparr>,
        put_attempt (new_attempt r op att gen),
        advance r] p)"
| "apply_model r (ModelAttemptDispatched op att owner _ lease) p = chain
     [set_op_status r op MDispatched,
      mod_attempt att (\<lambda>a. a\<lparr>ma_status := ADispatched, ma_owner := Some owner,
        ma_lease := Some lease, ma_seq := rr_seq r\<rparr>),
      advance r] p"
| "apply_model r (ModelResponseStarted att provider) p = chain
     [mod_attempt att (\<lambda>a. a\<lparr>ma_provider_response := provider, ma_seq := rr_seq r\<rparr>), advance r] p"
| "apply_model r (ModelAttemptUnknown op att) p = chain
     [set_op_status r op MUnknown, set_attempt_status r att AUnknown, advance r] p"
| "apply_model r (ModelAttemptRejected op att _) p = chain
     [set_op_status r op MFailed, set_attempt_status r att AFailed, advance r] p"
| "apply_model r (ModelAttemptCancelled op att) p = chain
     [set_op_status r op MCancelled, set_attempt_status r att ACancelled, advance r] p"
| "apply_model r (ModelRetryScheduled s) p =
     ebind (turn_of r) (\<lambda>tid.
     ebind (lookup (model_operations p) (sc_operation s)) (\<lambda>m.
     ebind (lookup (model_attempts p) (sc_attempt s)) (\<lambda>a.
       if \<not> current_generation r tid (sc_operation s) (sc_attempt s) (sc_generation s) m a
       then Inl (ValueError ''retry fact must reference the current runtime-owned generation'')
       else case schedule_error s m a of
           Some e \<Rightarrow> Inl e
         | None \<Rightarrow> chain [set_op_status r (sc_operation s) MRetryWait, advance r] p)))"
| "apply_model r (ModelRetryCancelled op att gen _) p =
     ebind (turn_of r) (\<lambda>tid.
     ebind (lookup (model_operations p) op) (\<lambda>m.
     ebind (lookup (model_attempts p) att) (\<lambda>a.
       if \<not> current_generation r tid op att gen m a
       then Inl (ValueError ''retry fact must reference the current runtime-owned generation'')
       else if mo_status m \<notin> {MRetryWait, MPrepared}
       then Inl (ValueError ''only waiting or unstarted retries may be cancelled'')
       else chain
         [set_op_status r op MFailed,
          (if ma_status a = APrepared then set_attempt_status r att AFailed else Inr),
          advance r] p)))"
| "apply_model r (ModelRetryPrepared op prev automatic _ att gen) p =
     ebind (lookup (model_operations p) op) (\<lambda>_. chain
       [mod_attempt prev (\<lambda>a. (if automatic then a else a\<lparr>ma_status := AAbandoned\<rparr>)
          \<lparr>ma_seq := rr_seq r\<rparr>),
        put_attempt (new_attempt r op att gen),
        mod_model_op op (\<lambda>m. m\<lparr>mo_status := MPrepared, mo_active := att, mo_generation := gen,
          mo_seq := rr_seq r\<rparr>),
        advance r] p)"
| "apply_model r (ModelAttemptCompleted op att resp provider usg) p = chain
     [mod_model_op op (\<lambda>m. m\<lparr>mo_status := MCompleted, mo_response := Some resp, mo_seq := rr_seq r\<rparr>),
      mod_attempt att (\<lambda>a. a\<lparr>ma_status := ACompleted, ma_provider_response := provider,
        ma_usage := usg, ma_seq := rr_seq r\<rparr>),
      advance r] p"
| "apply_model r (ModelAttemptLateResponse _ _) p = advance r p"

section \<open>Budget reservations and child allocations\<close>

text \<open>The transition a reservation fact makes, guarded by the status it needs.\<close>

definition move_reservation ::
  "rollout_record \<Rightarrow> string \<Rightarrow> reservation_status list \<Rightarrow> string
     \<Rightarrow> (reservation_row \<Rightarrow> reservation_row) \<Rightarrow> projection \<Rightarrow> projection result" where
  "move_reservation r rid allowed msg f p =
     ebind (lookup (budget_reservations p) rid) (\<lambda>row.
       if rs_status row \<notin> set allowed then Inl (RuntimeError msg)
       else chain [mod_reservation rid (\<lambda>x. (f x)\<lparr>rs_seq := rr_seq r\<rparr>), advance r] p)"

fun apply_budget :: "rollout_record \<Rightarrow> budget_fact \<Rightarrow> projection \<Rightarrow> projection result" where
  "apply_budget r (BudgetReserved rid scope op att amount) p =
     (if tget (budget_reservations p) rid \<noteq> None
      then Inl (RuntimeError ''duplicate budget reservation identity'')
      else ebind (turn_of r) (\<lambda>tid. chain
        [put_reservation \<lparr>rs_id = rid, rs_thread = rr_thread r, rs_turn = tid, rs_scope = scope,
           rs_op = op, rs_attempt = att, rs_reserved = amount, rs_actual = 0,
           rs_status = Reserved, rs_seq = rr_seq r\<rparr>,
         advance r] p))"
| "apply_budget r (BudgetDispatched rid) p =
     move_reservation r rid [Reserved] ''only a reserved budget can be dispatched''
       (\<lambda>x. x\<lparr>rs_status := Dispatched\<rparr>) p"
| "apply_budget r (BudgetSettled rid actual) p =
     move_reservation r rid [Reserved, Dispatched, Unknown]
       ''budget reservation cannot be settled from its current state''
       (\<lambda>x. x\<lparr>rs_status := Settled, rs_actual := actual\<rparr>) p"
| "apply_budget r (BudgetReleased rid) p =
     move_reservation r rid [Reserved, Dispatched, Unknown]
       ''budget reservation cannot be released from its current state''
       (\<lambda>x. x\<lparr>rs_status := Released\<rparr>) p"
| "apply_budget r (BudgetUnknown rid) p =
     move_reservation r rid [Dispatched] ''only a dispatched budget can become unknown''
       (\<lambda>x. x\<lparr>rs_status := Unknown\<rparr>) p"
| "apply_budget r (BudgetChildAllocated aid parent child toks cost) p =
     (if tget (child_budget_allocations p) aid \<noteq> None
      then Inl (RuntimeError ''duplicate child budget allocation identity'')
      else chain
        [put_allocation \<lparr>al_id = aid, al_thread = rr_thread r, al_parent = parent,
           al_child = child, al_tokens = toks, al_cost = cost, al_actual = 0,
           al_status = AllocActive, al_seq = rr_seq r\<rparr>,
         touch_thread r] p)"
| "apply_budget r (BudgetChildSettled aid actual) p =
     ebind (lookup (child_budget_allocations p) aid) (\<lambda>row.
       if al_status row \<noteq> AllocActive
       then Inl (RuntimeError ''only an active child allocation can be settled'')
       else chain
         [mod_allocation aid (\<lambda>x. x\<lparr>al_status := AllocSettled, al_actual := actual,
            al_seq := rr_seq r\<rparr>),
          advance r] p)"

section \<open>Tool operations\<close>

definition new_tool_op :: "rollout_record \<Rightarrow> string \<Rightarrow> tool_spec \<Rightarrow> tool_status \<Rightarrow> string option \<Rightarrow> tool_op_row" where
  "new_tool_op r tid s st res =
     \<lparr>to_id = ts_operation s, to_thread = rr_thread r, to_turn = tid, to_call = ts_call s,
      to_name = ts_name s, to_digest = ts_digest s, to_revision = ts_revision s,
      to_effects = ts_effects s, to_resources = ts_resources s, to_idempotent = ts_idempotent s,
      to_status = st, to_attempts = ts_attempts s, to_error = ts_error s,
      to_reconcile = ts_reconcile s, to_result = res, to_approval = None, to_generation = 0,
      to_fence = None, to_owner = None, to_lease = None, to_seq = rr_seq r\<rparr>"

text \<open>Update of one tool operation, followed by \<open>_advance\<close>.\<close>

definition move_tool :: "rollout_record \<Rightarrow> string \<Rightarrow> (tool_op_row \<Rightarrow> tool_op_row) \<Rightarrow> projection \<Rightarrow> projection result" where
  "move_tool r op f = chain [mod_tool_op op (\<lambda>t. (f t)\<lparr>to_seq := rr_seq r\<rparr>), advance r]"

definition tool_outcome ::
  "tool_status \<Rightarrow> int \<Rightarrow> string option \<Rightarrow> bool \<Rightarrow> tool_op_row \<Rightarrow> tool_op_row" where
  "tool_outcome st n err rec t =
     t\<lparr>to_status := st, to_attempts := n, to_error := err, to_reconcile := rec\<rparr>"

definition tool_unknown :: "string \<Rightarrow> tool_op_row \<Rightarrow> tool_op_row" where
  "tool_unknown err t = t\<lparr>to_status := TUnknown, to_reconcile := True, to_error := Some err\<rparr>"

fun apply_tool :: "rollout_record \<Rightarrow> tool_fact \<Rightarrow> projection \<Rightarrow> projection result" where
  "apply_tool r (ToolPrepared s) p = ebind (turn_of r) (\<lambda>tid.
     chain [put_tool_op (new_tool_op r tid s TPrepared None), advance r] p)"
| "apply_tool r (ToolMigrated s res) p = ebind (turn_of r) (\<lambda>tid.
     chain [put_tool_op (new_tool_op r tid s (ts_status s) res), advance r] p)"
| "apply_tool r (ToolStatusChanged op st n err rec) p = move_tool r op (tool_outcome st n err rec) p"
| "apply_tool r (ToolClaimed op gen fence owner lease n) p =
     move_tool r op (\<lambda>t. t\<lparr>to_status := TRunning, to_generation := gen, to_fence := Some fence,
       to_owner := Some owner, to_lease := Some lease, to_attempts := n\<rparr>) p"
| "apply_tool r (ToolStartRejected op n err) p =
     move_tool r op (tool_outcome TFailed n (Some err) False) p"
| "apply_tool r (ToolClaimExpired op) p =
     move_tool r op (tool_unknown ''lease_expired_outcome_unknown'') p"
| "apply_tool r (ToolResultMissing op) p = move_tool r op (tool_unknown ''result_commit_missing'') p"
| "apply_tool r (ToolOutcomeCommitted op st n err rec _) p =
     move_tool r op (tool_outcome st n err rec) p"
| "apply_tool r (ToolReconciled op st err) p =
     move_tool r op (\<lambda>t. t\<lparr>to_status := st, to_error := err, to_reconcile := False\<rparr>) p"
| "apply_tool r (ToolStaleResult _) p = advance r p"
| "apply_tool r (ToolResultLinked op item) p = move_tool r op (\<lambda>t. t\<lparr>to_result := Some item\<rparr>) p"
| "apply_tool r (ToolApprovalRequested op req) p =
     move_tool r op (\<lambda>t. t\<lparr>to_status := TAwaitingApproval, to_approval := Some req\<rparr>) p"
| "apply_tool r (ToolApprovalResolved op st) p = move_tool r op (\<lambda>t. t\<lparr>to_status := st\<rparr>) p"
| "apply_tool r (ToolSuperseded op) p = move_tool r op (\<lambda>t. t\<lparr>to_status := TSuperseded\<rparr>) p"

section \<open>Interactions and approvals\<close>

text \<open>
  The resolution of an interaction updates the approval only if there is one; the payload key
  \<open>approval_status\<close> is read only then.
\<close>

definition resolve_approval :: "rollout_record \<Rightarrow> string \<Rightarrow> approval_status option \<Rightarrow> projection \<Rightarrow> projection result" where
  "resolve_approval r req st p =
     (if tget (approvals p) req = None then Inr p
      else case st of
          None \<Rightarrow> Inl (KeyError ''approval_status'')
        | Some s \<Rightarrow> mod_approval req (\<lambda>a. a\<lparr>ap_status := s, ap_seq := rr_seq r\<rparr>) p)"

fun apply_interaction :: "rollout_record \<Rightarrow> interaction_fact \<Rightarrow> projection \<Rightarrow> projection result" where
  "apply_interaction r (InteractionRequested req kind op body) p = ebind (turn_of r) (\<lambda>tid. chain
     [put_interaction \<lparr>in_id = req, in_thread = rr_thread r, in_turn = tid, in_kind = kind,
        in_status = InteractionPending, in_version = 1, in_op = op, in_request = body,
        in_response = JObj [], in_seq = rr_seq r\<rparr>,
      (if kind = ''tool_approval''
       then put_approval \<lparr>ap_id = req, ap_thread = rr_thread r, ap_turn = tid, ap_op = op,
              ap_status = ApprovalPending, ap_scope = body, ap_seq = rr_seq r\<rparr>
       else Inr),
      advance r] p)"
| "apply_interaction r (InteractionResolved req v resp st) p = chain
     [mod_interaction req (\<lambda>i. i\<lparr>in_status := InteractionResolvedStatus, in_version := v,
        in_response := resp, in_seq := rr_seq r\<rparr>),
      resolve_approval r req st,
      advance r] p"
| "apply_interaction r (ApprovalInvalidated req) p = chain
     [mod_approval req (\<lambda>a. a\<lparr>ap_status := ApprovalInvalid, ap_seq := rr_seq r\<rparr>), advance r] p"

section \<open>Items and artifacts\<close>

definition next_item_sequence :: "projection \<Rightarrow> string \<Rightarrow> nat" where
  "next_item_sequence p tid = item_sequences p tid + 1"

definition bump_item_sequence :: "string \<Rightarrow> projection \<Rightarrow> projection result" where
  "bump_item_sequence tid p =
     Inr (p\<lparr>item_sequences := (item_sequences p)(tid := next_item_sequence p tid)\<rparr>)"

fun apply_item :: "rollout_record \<Rightarrow> item_fact \<Rightarrow> projection \<Rightarrow> projection result" where
  "apply_item r (ItemStarted iid kind _) p = ebind (turn_of r) (\<lambda>tid. chain
     [bump_item_sequence tid,
      put_item \<lparr>it_id = iid, it_thread = rr_thread r, it_turn = tid,
        it_sequence = next_item_sequence p tid, it_kind = kind, it_status = ItemStartedStatus,
        it_producer = rr_producer r, it_payload = JObj [], it_seq = rr_seq r\<rparr>,
      advance r] p)"
| "apply_item r (ItemCompleted iid kind payload) p =
     ebind (lookup (items p) iid) (\<lambda>it.
       if rr_version r \<ge> 3 \<and> kind \<noteq> Some (it_kind it)
       then Inl (ValueError ''completed Item kind does not match its canonical start'')
       else chain
         [mod_item iid (\<lambda>x. x\<lparr>it_status := ItemCompletedStatus, it_payload := payload,
            it_seq := rr_seq r\<rparr>),
          advance r] p)"
| "apply_item r (ArtifactCommitted aid sha sz media name) p = ebind (turn_of r) (\<lambda>tid. chain
     [put_artifact \<lparr>ar_id = aid, ar_thread = rr_thread r, ar_turn = tid, ar_sha256 = sha,
        ar_size = sz, ar_media_type = media, ar_name = name, ar_seq = rr_seq r\<rparr>,
      advance r] p)"

section \<open>Execution facts\<close>

definition handling_ok :: "projection \<Rightarrow> string \<Rightarrow> string \<Rightarrow> string \<Rightarrow> bool" where
  "handling_ok p tid op item = (case (tget (items p) item, tget (model_operations p) op) of
       (Some it, Some m) \<Rightarrow>
         it_turn it = tid \<and> mo_response m = Some item \<and> mo_status m = MCompleted
     | _ \<Rightarrow> False)"

definition batch_ok :: "projection \<Rightarrow> string \<Rightarrow> string \<Rightarrow> bool" where
  "batch_ok p tid item = (case tget (items p) item of None \<Rightarrow> False
     | Some it \<Rightarrow> it_turn it = tid \<and> it_status it = ItemCompletedStatus)"

fun execution_ok :: "projection \<Rightarrow> string \<Rightarrow> execution_fact \<Rightarrow> py_error option" where
  "execution_ok p tid ExecutionProtocolAdopted = None"
| "execution_ok p tid (ResponseHandlingDecided op item) =
     (if handling_ok p tid op item then None
      else Some (ValueError ''handling receipt must reference a completed canonical response''))"
| "execution_ok p tid (ToolBatchAdmitted item _) =
     (if batch_ok p tid item then None
      else Some (ValueError ''batch admission requires a committed response''))"

definition apply_execution :: "rollout_record \<Rightarrow> execution_fact \<Rightarrow> projection \<Rightarrow> projection result" where
  "apply_execution r f p = ebind (turn_of r) (\<lambda>tid.
     if rr_producer r \<noteq> ''runtime'' \<or> tget (turns p) tid = None
     then Inl (ValueError ''execution handling fact requires its runtime-owned Turn'')
     else case execution_ok p tid f of Some e \<Rightarrow> Inl e | None \<Rightarrow> advance r p)"

section \<open>The reducer\<close>

definition supported_version :: "int \<Rightarrow> bool" where
  "supported_version v \<longleftrightarrow> 1 \<le> v \<and> v \<le> 9"

definition apply_fact :: "rollout_record \<Rightarrow> projection \<Rightarrow> projection result" where
  "apply_fact r p = (case rr_fact r of
       ThreadFact f \<Rightarrow> apply_thread r f p
     | HostFact f \<Rightarrow> apply_host r f p
     | TurnFact f \<Rightarrow> apply_turn r f p
     | ModelFact f \<Rightarrow> apply_model r f p
     | BudgetFact f \<Rightarrow> apply_budget r f p
     | ToolFact f \<Rightarrow> apply_tool r f p
     | InteractionFact f \<Rightarrow> apply_interaction r f p
     | ItemFact f \<Rightarrow> apply_item r f p
     | ExecutionFact f \<Rightarrow> apply_execution r f p
     | UnsupportedFact _ \<Rightarrow> Inl (ValueError ''unsupported record type''))"

definition apply_record :: "projection \<Rightarrow> rollout_record \<Rightarrow> projection result" where
  "apply_record p r =
     (if \<not> supported_version (rr_version r)
      then Inl (ValueError ''unsupported RolloutRecord payload schema version'')
      else apply_fact r p)"

end
