(* ===== verification/Rollout.thy ===== *)
theory Rollout
  imports Reducer
begin

text \<open>
  The durable side of \<open>harness/rollout.py\<close> and \<open>harness/facts.py\<close>. A store is the append-only
  log of canonical records together with the projection tables. \<open>append_record\<close> writes one
  record and updates the tables incrementally, as the code does: it loads the slice of the
  projection the record refers to (\<open>load_slice\<close>), runs the reducer on the slice, and writes
  the changed rows back column by column (\<open>persist_slice\<close>) under the constraints of the SQL
  schema (\<open>constraints_ok\<close>). The durable projection has no item counters: they are read from
  the item rows. Record hashes, the prefix hash chain and the wall-clock stamps of records are
  not modelled.
\<close>

record store =
  log :: "rollout_record list"
  proj :: projection

definition empty_store :: store where
  "empty_store = \<lparr>log = [], proj = empty_projection\<rparr>"

section \<open>Reading the log\<close>

text \<open>\<open>list_records\<close> and \<open>list_turn_records\<close>; the log is in \<open>record_id\<close> order.\<close>

definition list_records :: "store \<Rightarrow> string \<Rightarrow> rollout_record list" where
  "list_records st th = filter (\<lambda>r. rr_thread r = th) (log st)"

definition list_turn_records :: "store \<Rightarrow> string \<Rightarrow> rollout_record list" where
  "list_turn_records st tid = filter (\<lambda>r. rr_turn r = Some tid) (log st)"

text \<open>\<open>read_event_reference("item_started", item_id)\<close>: the newest start of an Item.\<close>

fun starts_item :: "string \<Rightarrow> rollout_record \<Rightarrow> bool" where
  "starts_item iid r = (case rr_fact r of ItemFact (ItemStarted i _ _) \<Rightarrow> i = iid | _ \<Rightarrow> False)"

fun started_kind :: "fact \<Rightarrow> string" where
  "started_kind (ItemFact (ItemStarted _ kind _)) = kind"
| "started_kind _ = []"

fun started_meta :: "fact \<Rightarrow> json" where
  "started_meta (ItemFact (ItemStarted _ _ meta)) = meta"
| "started_meta _ = JNull"

definition item_start :: "store \<Rightarrow> string \<Rightarrow> rollout_record option" where
  "item_start st iid = find (starts_item iid) (rev (log st))"

text \<open>\<open>read_turn_completion\<close>: the newest completion of a Turn, here its answer reference.\<close>

fun completion_answer :: "fact \<Rightarrow> string option option" where
  "completion_answer (TurnFact (TurnCompleted _ answer)) = Some answer"
| "completion_answer _ = None"

definition read_turn_completion :: "store \<Rightarrow> string \<Rightarrow> string option option" where
  "read_turn_completion st tid =
     (case find (\<lambda>r. completion_answer (rr_fact r) \<noteq> None) (rev (list_turn_records st tid)) of
        None \<Rightarrow> None | Some r \<Rightarrow> completion_answer (rr_fact r))"

text \<open>\<open>SELECT COALESCE(MAX(thread_sequence), 0) + 1\<close>\<close>

definition max_or_zero :: "nat list \<Rightarrow> nat" where
  "max_or_zero ns = foldr max ns 0"

definition next_sequence :: "store \<Rightarrow> string \<Rightarrow> nat" where
  "next_sequence st th = max_or_zero (map rr_seq (list_records st th)) + 1"

section \<open>Loading the referenced slice\<close>

text \<open>The identities a payload names, by payload key.\<close>

record refs =
  ref_items :: "string list"
  ref_operations :: "string list"
  ref_attempts :: "string list"
  ref_reservations :: "string list"
  ref_allocations :: "string list"
  ref_requests :: "string list"
  ref_artifacts :: "string list"
  ref_commands :: "string list"
  ref_entries :: "string list"

definition no_refs :: refs where
  "no_refs = \<lparr>ref_items = [], ref_operations = [], ref_attempts = [], ref_reservations = [],
     ref_allocations = [], ref_requests = [], ref_artifacts = [], ref_commands = [],
     ref_entries = []\<rparr>"

definition the_list :: "'a option \<Rightarrow> 'a list" where
  "the_list x = (case x of None \<Rightarrow> [] | Some a \<Rightarrow> [a])"

fun thread_refs :: "thread_fact \<Rightarrow> refs" where
  "thread_refs (ChannelEntryUpdated eid _ _ _) = no_refs\<lparr>ref_entries := [eid]\<rparr>"
| "thread_refs _ = no_refs"

fun host_refs :: "host_fact \<Rightarrow> refs" where
  "host_refs (HostCommandReceived cid _ _ _ _) = no_refs\<lparr>ref_commands := [cid]\<rparr>"
| "host_refs (HostCommandClaimed cid _ _ _) = no_refs\<lparr>ref_commands := [cid]\<rparr>"
| "host_refs (HostCommandRenewed cid _ _ _) = no_refs\<lparr>ref_commands := [cid]\<rparr>"
| "host_refs (HostCommandSettled cid _ _ _) = no_refs\<lparr>ref_commands := [cid]\<rparr>"
| "host_refs (HostCommandReleased cid _ _ _) = no_refs\<lparr>ref_commands := [cid]\<rparr>"

fun turn_refs :: "turn_fact \<Rightarrow> refs" where
  "turn_refs (TurnCompleted _ answer) = no_refs\<lparr>ref_items := the_list answer\<rparr>"
| "turn_refs _ = no_refs"

definition op_refs :: "string \<Rightarrow> string list \<Rightarrow> refs" where
  "op_refs op atts = no_refs\<lparr>ref_operations := [op], ref_attempts := atts\<rparr>"

fun model_refs :: "model_fact \<Rightarrow> refs" where
  "model_refs (ModelOperationPrepared op att _ _ _ _ _ _) = op_refs op [att]"
| "model_refs (ModelAttemptDispatched op att _ _ _) = op_refs op [att]"
| "model_refs (ModelResponseStarted att _) = no_refs\<lparr>ref_attempts := [att]\<rparr>"
| "model_refs (ModelAttemptUnknown op att) = op_refs op [att]"
| "model_refs (ModelAttemptRejected op att _) = op_refs op [att]"
| "model_refs (ModelAttemptCancelled op att) = op_refs op [att]"
| "model_refs (ModelRetryScheduled s) = op_refs (sc_operation s) [sc_attempt s]"
| "model_refs (ModelRetryCancelled op att _ _) = op_refs op [att]"
| "model_refs (ModelRetryPrepared op prev _ _ att _) = op_refs op [att, prev]"
| "model_refs (ModelAttemptCompleted op att resp _ _) = (op_refs op [att])\<lparr>ref_items := [resp]\<rparr>"
| "model_refs (ModelAttemptLateResponse op att) = op_refs op [att]"

fun budget_refs :: "budget_fact \<Rightarrow> refs" where
  "budget_refs (BudgetReserved rid _ op att _) = (op_refs op [att])\<lparr>ref_reservations := [rid]\<rparr>"
| "budget_refs (BudgetDispatched rid) = no_refs\<lparr>ref_reservations := [rid]\<rparr>"
| "budget_refs (BudgetSettled rid _) = no_refs\<lparr>ref_reservations := [rid]\<rparr>"
| "budget_refs (BudgetReleased rid) = no_refs\<lparr>ref_reservations := [rid]\<rparr>"
| "budget_refs (BudgetUnknown rid) = no_refs\<lparr>ref_reservations := [rid]\<rparr>"
| "budget_refs (BudgetChildAllocated aid _ _ _ _) = no_refs\<lparr>ref_allocations := [aid]\<rparr>"
| "budget_refs (BudgetChildSettled aid _) = no_refs\<lparr>ref_allocations := [aid]\<rparr>"

fun tool_refs :: "tool_fact \<Rightarrow> refs" where
  "tool_refs (ToolPrepared s) = op_refs (ts_operation s) []"
| "tool_refs (ToolMigrated s _) = op_refs (ts_operation s) []"
| "tool_refs (ToolStatusChanged op _ _ _ _) = op_refs op []"
| "tool_refs (ToolClaimed op _ _ _ _ _) = op_refs op []"
| "tool_refs (ToolStartRejected op _ _) = op_refs op []"
| "tool_refs (ToolClaimExpired op) = op_refs op []"
| "tool_refs (ToolResultMissing op) = op_refs op []"
| "tool_refs (ToolOutcomeCommitted op _ _ _ _ _) = op_refs op []"
| "tool_refs (ToolReconciled op _ _) = op_refs op []"
| "tool_refs (ToolStaleResult op) = op_refs op []"
| "tool_refs (ToolResultLinked op _) = op_refs op []"
| "tool_refs (ToolApprovalRequested op req) = (op_refs op [])\<lparr>ref_requests := [req]\<rparr>"
| "tool_refs (ToolApprovalResolved op _) = op_refs op []"
| "tool_refs (ToolSuperseded op) = op_refs op []"

fun interaction_refs :: "interaction_fact \<Rightarrow> refs" where
  "interaction_refs (InteractionRequested req _ op _) =
     no_refs\<lparr>ref_requests := [req], ref_operations := the_list op\<rparr>"
| "interaction_refs (InteractionResolved req _ _ _) = no_refs\<lparr>ref_requests := [req]\<rparr>"
| "interaction_refs (ApprovalInvalidated req) = no_refs\<lparr>ref_requests := [req]\<rparr>"

fun item_refs :: "item_fact \<Rightarrow> refs" where
  "item_refs (ItemStarted iid _ _) = no_refs\<lparr>ref_items := [iid]\<rparr>"
| "item_refs (ItemCompleted iid _ _) = no_refs\<lparr>ref_items := [iid]\<rparr>"
| "item_refs (ArtifactCommitted aid _ _ _ _) = no_refs\<lparr>ref_artifacts := [aid]\<rparr>"

fun execution_refs :: "execution_fact \<Rightarrow> refs" where
  "execution_refs ExecutionProtocolAdopted = no_refs"
| "execution_refs (ResponseHandlingDecided op item) = (op_refs op [])\<lparr>ref_items := [item]\<rparr>"
| "execution_refs (ToolBatchAdmitted item _) = no_refs\<lparr>ref_items := [item]\<rparr>"

fun fact_refs :: "fact \<Rightarrow> refs" where
  "fact_refs (ThreadFact f) = thread_refs f"
| "fact_refs (HostFact f) = host_refs f"
| "fact_refs (TurnFact f) = turn_refs f"
| "fact_refs (ModelFact f) = model_refs f"
| "fact_refs (BudgetFact f) = budget_refs f"
| "fact_refs (ToolFact f) = tool_refs f"
| "fact_refs (InteractionFact f) = interaction_refs f"
| "fact_refs (ItemFact f) = item_refs f"
| "fact_refs (ExecutionFact f) = execution_refs f"
| "fact_refs (UnsupportedFact _) = no_refs"

text \<open>\<open>SELECT * FROM table WHERE key = ? AND thread_id = ?\<close>, for each identity in turn.\<close>

definition load_row :: "('r \<Rightarrow> bool) \<Rightarrow> 'r table \<Rightarrow> string \<Rightarrow> 'r table \<Rightarrow> 'r table" where
  "load_row local t k slice = (case tget t k of
       None \<Rightarrow> slice
     | Some row \<Rightarrow> if local row then tput k row slice else slice)"

definition load_rows :: "('r \<Rightarrow> bool) \<Rightarrow> 'r table \<Rightarrow> string list \<Rightarrow> 'r table" where
  "load_rows local t ks = fold (load_row local t) ks []"

text \<open>The sequence of the newest Item of a Turn, 0 when it has none.\<close>

definition last_item_sequence :: "projection \<Rightarrow> string \<Rightarrow> nat" where
  "last_item_sequence p tid =
     max_or_zero (map it_sequence (filter (\<lambda>it. it_turn it = tid) (trows (items p))))"

fun is_item_start :: "fact \<Rightarrow> bool" where
  "is_item_start (ItemFact (ItemStarted _ _ _)) = True"
| "is_item_start _ = False"

text \<open>\<open>_load_projection_state(thread_id, record=record)\<close>\<close>

definition load_slice :: "projection \<Rightarrow> rollout_record \<Rightarrow> projection" where
  "load_slice p r = (case tget (threads p) (rr_thread r) of
       None \<Rightarrow> empty_projection
     | Some th \<Rightarrow>
         let rf = fact_refs (rr_fact r); here = rr_thread r in
         \<lparr>threads = [(here, th)],
          turns = load_rows (\<lambda>x. tu_thread x = here) (turns p) (the_list (rr_turn r)),
          items = load_rows (\<lambda>x. it_thread x = here) (items p) (ref_items rf),
          model_operations = load_rows (\<lambda>x. mo_thread x = here) (model_operations p) (ref_operations rf),
          model_attempts = load_rows
            (\<lambda>x. case tget (model_operations p) (ma_op x) of
                    None \<Rightarrow> False | Some m \<Rightarrow> mo_thread m = here)
            (model_attempts p) (ref_attempts rf),
          budget_reservations = load_rows (\<lambda>x. rs_thread x = here) (budget_reservations p) (ref_reservations rf),
          child_budget_allocations =
            load_rows (\<lambda>x. al_thread x = here) (child_budget_allocations p) (ref_allocations rf),
          tool_operations = load_rows (\<lambda>x. to_thread x = here) (tool_operations p) (ref_operations rf),
          interactions = load_rows (\<lambda>x. in_thread x = here) (interactions p) (ref_requests rf),
          approvals = load_rows (\<lambda>x. ap_thread x = here) (approvals p) (ref_requests rf),
          artifacts = load_rows (\<lambda>x. ar_thread x = here) (artifacts p) (ref_artifacts rf),
          host_commands = load_rows (\<lambda>x. hc_thread x = here) (host_commands p) (ref_commands rf),
          channel_entries = load_rows (\<lambda>x. ch_thread x = here) (channel_entries p) (ref_entries rf),
          item_sequences = (case rr_turn r of
              Some tid \<Rightarrow> if is_item_start (rr_fact r)
                then (\<lambda>_. 0)(tid := last_item_sequence p tid) else (\<lambda>_. 0)
            | None \<Rightarrow> (\<lambda>_. 0))\<rparr>)"

section \<open>Writing the changed rows back\<close>

text \<open>
  \<open>INSERT ... ON CONFLICT(key) DO UPDATE SET columns\<close>: \<open>merge old new\<close> is the row whose
  listed columns come from \<open>new\<close> and whose other columns stay those of \<open>old\<close>.
\<close>

definition upsert :: "('r \<Rightarrow> 'r \<Rightarrow> 'r) \<Rightarrow> string \<Rightarrow> 'r \<Rightarrow> 'r table \<Rightarrow> 'r table" where
  "upsert merge k row t = tput k (case tget t k of None \<Rightarrow> row | Some old \<Rightarrow> merge old row) t"

text \<open>Only rows that advanced to the current record's sequence are written.\<close>

definition persist_rows ::
  "('r \<Rightarrow> nat) \<Rightarrow> ('r \<Rightarrow> 'r \<Rightarrow> 'r) \<Rightarrow> nat \<Rightarrow> 'r table \<Rightarrow> 'r table \<Rightarrow> 'r table" where
  "persist_rows seq_of merge n slice t =
     fold (\<lambda>(k, row). upsert merge k row) (filter (\<lambda>(k, row). seq_of row = n) slice) t"

definition merge_thread :: "thread_row \<Rightarrow> thread_row \<Rightarrow> thread_row" where
  "merge_thread old new = new"

definition merge_turn :: "turn_row \<Rightarrow> turn_row \<Rightarrow> turn_row" where
  "merge_turn old new = new\<lparr>tu_id := tu_id old, tu_thread := tu_thread old\<rparr>"

definition merge_item :: "item_row \<Rightarrow> item_row \<Rightarrow> item_row" where
  "merge_item old new =
     old\<lparr>it_status := it_status new, it_payload := it_payload new, it_seq := it_seq new\<rparr>"

definition merge_model_op :: "model_op_row \<Rightarrow> model_op_row \<Rightarrow> model_op_row" where
  "merge_model_op old new =
     old\<lparr>mo_status := mo_status new, mo_active := mo_active new, mo_generation := mo_generation new,
         mo_response := mo_response new, mo_seq := mo_seq new\<rparr>"

definition merge_attempt :: "attempt_row \<Rightarrow> attempt_row \<Rightarrow> attempt_row" where
  "merge_attempt old new =
     old\<lparr>ma_status := ma_status new, ma_provider_response := ma_provider_response new,
         ma_usage := ma_usage new, ma_owner := ma_owner new, ma_lease := ma_lease new,
         ma_seq := ma_seq new\<rparr>"

definition merge_reservation :: "reservation_row \<Rightarrow> reservation_row \<Rightarrow> reservation_row" where
  "merge_reservation old new =
     old\<lparr>rs_actual := rs_actual new, rs_status := rs_status new, rs_seq := rs_seq new\<rparr>"

definition merge_allocation :: "allocation_row \<Rightarrow> allocation_row \<Rightarrow> allocation_row" where
  "merge_allocation old new =
     old\<lparr>al_actual := al_actual new, al_status := al_status new, al_seq := al_seq new\<rparr>"

definition merge_tool_op :: "tool_op_row \<Rightarrow> tool_op_row \<Rightarrow> tool_op_row" where
  "merge_tool_op old new =
     old\<lparr>to_status := to_status new, to_attempts := to_attempts new, to_error := to_error new,
         to_reconcile := to_reconcile new, to_result := to_result new, to_approval := to_approval new,
         to_generation := to_generation new, to_fence := to_fence new, to_owner := to_owner new,
         to_lease := to_lease new, to_seq := to_seq new\<rparr>"

definition merge_interaction :: "interaction_row \<Rightarrow> interaction_row \<Rightarrow> interaction_row" where
  "merge_interaction old new =
     old\<lparr>in_status := in_status new, in_version := in_version new, in_response := in_response new,
         in_seq := in_seq new\<rparr>"

definition merge_approval :: "approval_row \<Rightarrow> approval_row \<Rightarrow> approval_row" where
  "merge_approval old new = old\<lparr>ap_status := ap_status new, ap_seq := ap_seq new\<rparr>"

definition merge_artifact :: "artifact_row \<Rightarrow> artifact_row \<Rightarrow> artifact_row" where
  "merge_artifact old new =
     old\<lparr>ar_sha256 := ar_sha256 new, ar_size := ar_size new, ar_media_type := ar_media_type new,
         ar_name := ar_name new, ar_seq := ar_seq new\<rparr>"

definition merge_command :: "host_command_row \<Rightarrow> host_command_row \<Rightarrow> host_command_row" where
  "merge_command old new = new\<lparr>hc_id := hc_id old\<rparr>"

definition merge_channel :: "channel_row \<Rightarrow> channel_row \<Rightarrow> channel_row" where
  "merge_channel old new = old\<lparr>ch_value := ch_value new, ch_seq := ch_seq new\<rparr>"

text \<open>\<open>_persist_projection_state(state, changed_sequence=n)\<close>\<close>

definition persist_slice :: "nat \<Rightarrow> projection \<Rightarrow> projection \<Rightarrow> projection" where
  "persist_slice n s p =
     \<lparr>threads = persist_rows th_seq merge_thread n (threads s) (threads p),
      turns = persist_rows tu_seq merge_turn n (turns s) (turns p),
      items = persist_rows it_seq merge_item n (items s) (items p),
      model_operations = persist_rows mo_seq merge_model_op n (model_operations s) (model_operations p),
      model_attempts = persist_rows ma_seq merge_attempt n (model_attempts s) (model_attempts p),
      budget_reservations =
        persist_rows rs_seq merge_reservation n (budget_reservations s) (budget_reservations p),
      child_budget_allocations =
        persist_rows al_seq merge_allocation n (child_budget_allocations s) (child_budget_allocations p),
      tool_operations = persist_rows to_seq merge_tool_op n (tool_operations s) (tool_operations p),
      interactions = persist_rows in_seq merge_interaction n (interactions s) (interactions p),
      approvals = persist_rows ap_seq merge_approval n (approvals s) (approvals p),
      artifacts = persist_rows ar_seq merge_artifact n (artifacts s) (artifacts p),
      host_commands = persist_rows hc_seq merge_command n (host_commands s) (host_commands p),
      channel_entries = persist_rows ch_seq merge_channel n (channel_entries s) (channel_entries p),
      item_sequences = (\<lambda>_. 0)\<rparr>"

section \<open>The constraints of the schema\<close>

definition unique_on :: "('r \<Rightarrow> 'k) \<Rightarrow> 'r table \<Rightarrow> bool" where
  "unique_on f t = distinct (map f (trows t))"

definition refers :: "'r table \<Rightarrow> string \<Rightarrow> bool" where
  "refers t k \<longleftrightarrow> tget t k \<noteq> None"

definition all_rows :: "('r \<Rightarrow> bool) \<Rightarrow> 'r table \<Rightarrow> bool" where
  "all_rows P t = list_all P (trows t)"

text \<open>\<open>UNIQUE\<close> and \<open>REFERENCES\<close> of \<open>_create_schema\<close>; \<open>approvals.operation_id\<close> is \<open>NOT NULL\<close>.\<close>

definition constraints_ok :: "projection \<Rightarrow> bool" where
  "constraints_ok p \<longleftrightarrow>
     unique_on (\<lambda>x. (tu_thread x, tu_index x)) (turns p)
     \<and> unique_on (\<lambda>x. (it_turn x, it_sequence x)) (items p)
     \<and> unique_on (\<lambda>x. (ma_op x, ma_generation x)) (model_attempts p)
     \<and> unique_on rs_attempt (budget_reservations p)
     \<and> unique_on al_child (child_budget_allocations p)
     \<and> unique_on (\<lambda>x. (to_turn x, to_call x)) (tool_operations p)
     \<and> all_rows (\<lambda>x. refers (threads p) (tu_thread x)) (turns p)
     \<and> all_rows (\<lambda>x. refers (threads p) (it_thread x) \<and> refers (turns p) (it_turn x)) (items p)
     \<and> all_rows (\<lambda>x. refers (threads p) (mo_thread x) \<and> refers (turns p) (mo_turn x)) (model_operations p)
     \<and> all_rows (\<lambda>x. refers (model_operations p) (ma_op x)) (model_attempts p)
     \<and> all_rows (\<lambda>x. refers (threads p) (rs_thread x) \<and> refers (turns p) (rs_turn x)) (budget_reservations p)
     \<and> all_rows (\<lambda>x. refers (threads p) (al_thread x)) (child_budget_allocations p)
     \<and> all_rows (\<lambda>x. refers (threads p) (to_thread x) \<and> refers (turns p) (to_turn x)) (tool_operations p)
     \<and> all_rows (\<lambda>x. refers (threads p) (in_thread x) \<and> refers (turns p) (in_turn x)
          \<and> (case in_op x of None \<Rightarrow> True | Some op \<Rightarrow> refers (tool_operations p) op)) (interactions p)
     \<and> all_rows (\<lambda>x. refers (interactions p) (ap_id x) \<and> refers (threads p) (ap_thread x)
          \<and> refers (turns p) (ap_turn x)
          \<and> (case ap_op x of None \<Rightarrow> False | Some op \<Rightarrow> refers (tool_operations p) op)) (approvals p)
     \<and> all_rows (\<lambda>x. refers (threads p) (ar_thread x) \<and> refers (turns p) (ar_turn x)) (artifacts p)
     \<and> all_rows (\<lambda>x. refers (threads p) (hc_thread x)) (host_commands p)"

section \<open>Appending\<close>

definition make_record :: "store \<Rightarrow> string \<Rightarrow> string option \<Rightarrow> string \<Rightarrow> fact \<Rightarrow> rollout_record" where
  "make_record st th turn producer f =
     \<lparr>rr_id = length (log st) + 1, rr_thread = th, rr_turn = turn, rr_seq = next_sequence st th,
      rr_version = 9, rr_producer = producer, rr_fact = f\<rparr>"

text \<open>\<open>append_record\<close>: one canonical record and its incremental projection.\<close>

definition append_record :: "string \<Rightarrow> string option \<Rightarrow> string \<Rightarrow> fact \<Rightarrow> store \<Rightarrow> store result" where
  "append_record th turn producer f st =
     (let r = make_record st th turn producer f in
      ebind (apply_record (load_slice (proj st) r) r) (\<lambda>s.
        let p = persist_slice (rr_seq r) s (proj st) in
        if constraints_ok p then Inr \<lparr>log = log st @ [r], proj = p\<rparr>
        else Inl (IntegrityError ''constraint failed'')))"

text \<open>\<open>append_fact\<close>: facts whose payload is completed from earlier facts before storage.\<close>

fun enrich :: "store \<Rightarrow> fact \<Rightarrow> fact result" where
  "enrich st (ItemFact (ItemCompleted iid kind payload)) = (case item_start st iid of
       None \<Rightarrow> Inl (RuntimeError ''completed internal Item has no durable start'')
     | Some r \<Rightarrow> Inr (ItemFact (ItemCompleted iid
         (case kind of None \<Rightarrow> Some (started_kind (rr_fact r)) | Some k \<Rightarrow> Some k) payload)))"
| "enrich st (InteractionFact (InteractionResolved req v resp ap)) =
     (if tget (interactions (proj st)) req = None
      then Inl (RuntimeError ''interaction resolution has no committed request'')
      else Inr (InteractionFact (InteractionResolved req v resp ap)))"
| "enrich st (InteractionFact (ApprovalInvalidated req)) =
     (if tget (interactions (proj st)) req = None
      then Inl (RuntimeError ''interaction resolution has no committed request'')
      else Inr (InteractionFact (ApprovalInvalidated req)))"
| "enrich st f = Inr f"

definition append_fact :: "string \<Rightarrow> string option \<Rightarrow> string \<Rightarrow> fact \<Rightarrow> store \<Rightarrow> store result" where
  "append_fact th turn producer f st = ebind (enrich st f) (\<lambda>g. append_record th turn producer g st)"

text \<open>The pair of facts that commits one Item.\<close>

definition commit_item ::
  "string \<Rightarrow> string \<Rightarrow> string \<Rightarrow> string \<Rightarrow> string \<Rightarrow> json \<Rightarrow> json \<Rightarrow> store \<Rightarrow> store result" where
  "commit_item th tid producer iid kind meta payload = chain
     [append_fact th (Some tid) producer (ItemFact (ItemStarted iid kind meta)),
      append_fact th (Some tid) producer (ItemFact (ItemCompleted iid None payload))]"

end
