(* ===== verification/Reducer_Laws.thy ===== *)
theory Reducer_Laws
  imports Reducer
begin

text \<open>
  Laws of the reducer that hold for every record: the tables stay well formed
  (\<open>projection_ok\<close>), and a record changes only the tables of its own group. They are proved from
  the elementary updates with the rules collected in \<open>preserve_intros\<close>.
\<close>

lemmas group_funs =
  apply_thread.simps [abs_def] apply_host.simps [abs_def] apply_turn.simps [abs_def] apply_model.simps [abs_def] apply_budget.simps [abs_def] apply_tool.simps [abs_def] apply_interaction.simps [abs_def] apply_item.simps [abs_def]

text \<open>Every table maps each identity to at most one row, and the row carries its identity.\<close>

definition projection_ok :: "projection \<Rightarrow> bool" where
  "projection_ok p \<longleftrightarrow> table_ok th_id (threads p) \<and> table_ok tu_id (turns p) \<and> table_ok it_id (items p) \<and> table_ok mo_id (model_operations p) \<and> table_ok ma_id (model_attempts p) \<and> table_ok rs_id (budget_reservations p) \<and> table_ok al_id (child_budget_allocations p) \<and> table_ok to_id (tool_operations p) \<and> table_ok in_id (interactions p) \<and> table_ok ap_id (approvals p) \<and> table_ok ar_id (artifacts p) \<and> table_ok hc_id (host_commands p) \<and> table_ok ch_id (channel_entries p)"

section \<open>Rules for the shapes the reducer uses\<close>

lemma preserves_ebind_turn_of [preserve_intros]:
  "(\<And>tid. rr_turn r = Some tid \<Longrightarrow> preserves I (f tid)) \<Longrightarrow>
     preserves I (\<lambda>s. ebind (turn_of r) (\<lambda>tid. f tid s))"
  by (cases "rr_turn r") (simp_all add: preserves_def turn_of_def)

lemma preserves_ebind_lookup [preserve_intros]:
  assumes "\<And>m. preserves I (f m)"
  shows "preserves I (\<lambda>s. ebind (lookup (t s) k) (\<lambda>m. f m s))"
proof
  fix s u
  assume "I s" and "ebind (lookup (t s) k) (\<lambda>m. f m s) = Inr u"
  then obtain m where "f m s = Inr u" by (auto simp: lookup_def)
  with \<open>I s\<close> show "I u" using preservesD [OF assms] by blast
qed

lemma preserves_if_fun [preserve_intros]:
  assumes "preserves I f" and "preserves I g"
  shows "preserves I (\<lambda>s. if b s then f s else g s)"
proof
  fix s u
  assume "I s" and "(if b s then f s else g s) = Inr u"
  then show "I u"
    using preservesD [OF assms(1) \<open>I s\<close>] preservesD [OF assms(2) \<open>I s\<close>] by (cases "b s") simp_all
qed

lemma preserves_case_option_fun [preserve_intros]:
  assumes "preserves I f" and "\<And>a. preserves I (g a)"
  shows "preserves I (\<lambda>s. case x s of None \<Rightarrow> f s | Some a \<Rightarrow> g a s)"
proof
  fix s u
  assume "I s" and "(case x s of None \<Rightarrow> f s | Some a \<Rightarrow> g a s) = Inr u"
  then show "I u"
    using preservesD [OF assms(1) \<open>I s\<close>] preservesD [OF assms(2) \<open>I s\<close>] by (cases "x s") simp_all
qed

lemma preserves_chain_Nil [preserve_intros]: "preserves I (chain [])"
  by (simp add: preserves_def)

lemma preserves_chain_Cons [preserve_intros]:
  assumes "preserves I f" and "preserves I (chain fs)"
  shows "preserves I (chain (f # fs))"
proof
  fix s u
  assume "I s" and "chain (f # fs) s = Inr u"
  then obtain t where "f s = Inr t" and "chain fs t = Inr u" by auto
  then show "I u" using preservesD [OF assms(1) \<open>I s\<close>] preservesD [OF assms(2)] by blast
qed

lemma preserves_chain_dep: "(\<And>u. preserves I (chain (fs u))) \<Longrightarrow> preserves I (\<lambda>s. chain (fs s) s)"
  by (simp add: preserves_def)

lemma preserves_mod_table:
  assumes "\<And>s. m s = ebind (tmod (table_of s) k f) (\<lambda>t. Inr (replace t s))"
    and "\<And>s t. I s \<Longrightarrow> tmod (table_of s) k f = Inr t \<Longrightarrow> I (replace t s)"
  shows "preserves I m"
proof
  fix s u
  assume "I s" and "m s = Inr u"
  then show "I u" using assms(2) by (auto simp: assms(1))
qed

section \<open>Well-formed tables\<close>

lemma projection_ok_put_thread [preserve_intros]: "preserves projection_ok (put_thread row)"
  by (simp add: preserves_def put_thread_def projection_ok_def table_ok_tput)

lemma projection_ok_put_turn [preserve_intros]: "preserves projection_ok (put_turn row)"
  by (simp add: preserves_def put_turn_def projection_ok_def table_ok_tput)

lemma projection_ok_put_item [preserve_intros]: "preserves projection_ok (put_item row)"
  by (simp add: preserves_def put_item_def projection_ok_def table_ok_tput)

lemma projection_ok_put_model_op [preserve_intros]: "preserves projection_ok (put_model_op row)"
  by (simp add: preserves_def put_model_op_def projection_ok_def table_ok_tput)

lemma projection_ok_put_attempt [preserve_intros]: "preserves projection_ok (put_attempt row)"
  by (simp add: preserves_def put_attempt_def projection_ok_def table_ok_tput)

lemma projection_ok_put_reservation [preserve_intros]: "preserves projection_ok (put_reservation row)"
  by (simp add: preserves_def put_reservation_def projection_ok_def table_ok_tput)

lemma projection_ok_put_allocation [preserve_intros]: "preserves projection_ok (put_allocation row)"
  by (simp add: preserves_def put_allocation_def projection_ok_def table_ok_tput)

lemma projection_ok_put_tool_op [preserve_intros]: "preserves projection_ok (put_tool_op row)"
  by (simp add: preserves_def put_tool_op_def projection_ok_def table_ok_tput)

lemma projection_ok_put_interaction [preserve_intros]: "preserves projection_ok (put_interaction row)"
  by (simp add: preserves_def put_interaction_def projection_ok_def table_ok_tput)

lemma projection_ok_put_approval [preserve_intros]: "preserves projection_ok (put_approval row)"
  by (simp add: preserves_def put_approval_def projection_ok_def table_ok_tput)

lemma projection_ok_put_artifact [preserve_intros]: "preserves projection_ok (put_artifact row)"
  by (simp add: preserves_def put_artifact_def projection_ok_def table_ok_tput)

lemma projection_ok_put_command [preserve_intros]: "preserves projection_ok (put_command row)"
  by (simp add: preserves_def put_command_def projection_ok_def table_ok_tput)

lemma projection_ok_put_channel [preserve_intros]: "preserves projection_ok (put_channel row)"
  by (simp add: preserves_def put_channel_def projection_ok_def table_ok_tput)

lemma projection_ok_mod_thread [preserve_intros]:
  "(\<And>x. th_id (f x) = th_id x) \<Longrightarrow> preserves projection_ok (mod_thread k f)"
  by (rule preserves_mod_table [OF mod_thread_def])
    (auto simp: projection_ok_def intro: table_ok_tmod)

lemma projection_ok_mod_turn [preserve_intros]:
  "(\<And>x. tu_id (f x) = tu_id x) \<Longrightarrow> preserves projection_ok (mod_turn k f)"
  by (rule preserves_mod_table [OF mod_turn_def])
    (auto simp: projection_ok_def intro: table_ok_tmod)

lemma projection_ok_mod_item [preserve_intros]:
  "(\<And>x. it_id (f x) = it_id x) \<Longrightarrow> preserves projection_ok (mod_item k f)"
  by (rule preserves_mod_table [OF mod_item_def])
    (auto simp: projection_ok_def intro: table_ok_tmod)

lemma projection_ok_mod_model_op [preserve_intros]:
  "(\<And>x. mo_id (f x) = mo_id x) \<Longrightarrow> preserves projection_ok (mod_model_op k f)"
  by (rule preserves_mod_table [OF mod_model_op_def])
    (auto simp: projection_ok_def intro: table_ok_tmod)

lemma projection_ok_mod_attempt [preserve_intros]:
  "(\<And>x. ma_id (f x) = ma_id x) \<Longrightarrow> preserves projection_ok (mod_attempt k f)"
  by (rule preserves_mod_table [OF mod_attempt_def])
    (auto simp: projection_ok_def intro: table_ok_tmod)

lemma projection_ok_mod_reservation [preserve_intros]:
  "(\<And>x. rs_id (f x) = rs_id x) \<Longrightarrow> preserves projection_ok (mod_reservation k f)"
  by (rule preserves_mod_table [OF mod_reservation_def])
    (auto simp: projection_ok_def intro: table_ok_tmod)

lemma projection_ok_mod_allocation [preserve_intros]:
  "(\<And>x. al_id (f x) = al_id x) \<Longrightarrow> preserves projection_ok (mod_allocation k f)"
  by (rule preserves_mod_table [OF mod_allocation_def])
    (auto simp: projection_ok_def intro: table_ok_tmod)

lemma projection_ok_mod_tool_op [preserve_intros]:
  "(\<And>x. to_id (f x) = to_id x) \<Longrightarrow> preserves projection_ok (mod_tool_op k f)"
  by (rule preserves_mod_table [OF mod_tool_op_def])
    (auto simp: projection_ok_def intro: table_ok_tmod)

lemma projection_ok_mod_interaction [preserve_intros]:
  "(\<And>x. in_id (f x) = in_id x) \<Longrightarrow> preserves projection_ok (mod_interaction k f)"
  by (rule preserves_mod_table [OF mod_interaction_def])
    (auto simp: projection_ok_def intro: table_ok_tmod)

lemma projection_ok_mod_approval [preserve_intros]:
  "(\<And>x. ap_id (f x) = ap_id x) \<Longrightarrow> preserves projection_ok (mod_approval k f)"
  by (rule preserves_mod_table [OF mod_approval_def])
    (auto simp: projection_ok_def intro: table_ok_tmod)

lemma projection_ok_mod_command [preserve_intros]:
  "(\<And>x. hc_id (f x) = hc_id x) \<Longrightarrow> preserves projection_ok (mod_command k f)"
  by (rule preserves_mod_table [OF mod_command_def])
    (auto simp: projection_ok_def intro: table_ok_tmod)

lemma projection_ok_touch [preserve_intros]: "preserves projection_ok (touch_thread r)"
  unfolding touch_thread_def by (intro preserve_intros) simp

lemma projection_ok_bump [preserve_intros]: "preserves projection_ok (bump_item_sequence tid)"
  by (simp add: preserves_def bump_item_sequence_def projection_ok_def)

lemma projection_ok_advance [preserve_intros]: "preserves projection_ok (advance r)"
  unfolding advance_def by (intro preserve_intros) simp

lemma projection_ok_end_turn [preserve_intros]: "preserves projection_ok (end_turn r tid st reason msg)"
  unfolding end_turn_def by (intro preserve_intros) simp_all

lemma projection_ok_resolve [preserve_intros]: "preserves projection_ok (resolve_approval r req st)"
  unfolding resolve_approval_def [abs_def] by (intro preserve_intros) simp_all

lemmas row_updates =
  claim_command_def close_command_def set_turn_status_def set_op_status_def set_attempt_status_def move_reservation_def move_tool_def tool_outcome_def tool_unknown_def

lemma projection_ok_groups:
  "preserves projection_ok (apply_thread r f1)" "preserves projection_ok (apply_host r f2)"
  "preserves projection_ok (apply_turn r f3)" "preserves projection_ok (apply_model r f4)"
  "preserves projection_ok (apply_budget r f5)" "preserves projection_ok (apply_tool r f6)"
  "preserves projection_ok (apply_interaction r f7)" "preserves projection_ok (apply_item r f8)"
proof -
  show "preserves projection_ok (apply_thread r f1)"
    by (cases f1; simp only: group_funs; intro preserve_intros; simp)
  show "preserves projection_ok (apply_host r f2)"
    by (cases f2; simp only: group_funs; intro preserve_intros; simp add: row_updates)
  show "preserves projection_ok (apply_turn r f3)"
    by (cases f3; simp only: group_funs row_updates; intro preserve_intros; simp)
  show "preserves projection_ok (apply_model r f4)"
    by (cases f4; simp only: group_funs row_updates; intro preserve_intros; simp)
  show "preserves projection_ok (apply_budget r f5)"
    by (cases f5; simp only: group_funs row_updates [abs_def]; intro preserve_intros; simp)
  show "preserves projection_ok (apply_tool r f6)"
    by (cases f6; simp only: group_funs move_tool_def; intro preserve_intros; simp add: row_updates)
  show "preserves projection_ok (apply_interaction r f7)"
    by (cases f7; simp only: group_funs; intro preserve_intros; simp)
  show "preserves projection_ok (apply_item r f8)"
    by (cases f8; simp only: group_funs; intro preserve_intros preserves_chain_dep; simp)
qed

lemma projection_ok_execution: "preserves projection_ok (apply_execution r f)"
  unfolding apply_execution_def [abs_def] by (intro preserve_intros)

text \<open>A predicate that every group keeps is kept by every record.\<close>

lemma apply_record_preserves:
  assumes "apply_record p r = Inr q" and "I p"
    and "\<And>f. rr_fact r = ThreadFact f \<Longrightarrow> preserves I (apply_thread r f)"
    and "\<And>f. rr_fact r = HostFact f \<Longrightarrow> preserves I (apply_host r f)"
    and "\<And>f. rr_fact r = TurnFact f \<Longrightarrow> preserves I (apply_turn r f)"
    and "\<And>f. rr_fact r = ModelFact f \<Longrightarrow> preserves I (apply_model r f)"
    and "\<And>f. rr_fact r = BudgetFact f \<Longrightarrow> preserves I (apply_budget r f)"
    and "\<And>f. rr_fact r = ToolFact f \<Longrightarrow> preserves I (apply_tool r f)"
    and "\<And>f. rr_fact r = InteractionFact f \<Longrightarrow> preserves I (apply_interaction r f)"
    and "\<And>f. rr_fact r = ItemFact f \<Longrightarrow> preserves I (apply_item r f)"
    and "\<And>f. rr_fact r = ExecutionFact f \<Longrightarrow> preserves I (apply_execution r f)"
  shows "I q"
proof -
  have q: "apply_fact r p = Inr q" using assms(1) by (simp add: apply_record_def split: if_splits)
  show ?thesis
  proof (cases "rr_fact r")
    case (ThreadFact f)
    with q preservesD [OF assms(3) assms(2)] show ?thesis by (simp add: apply_fact_def)
  next
    case (HostFact f)
    with q preservesD [OF assms(4) assms(2)] show ?thesis by (simp add: apply_fact_def)
  next
    case (TurnFact f)
    with q preservesD [OF assms(5) assms(2)] show ?thesis by (simp add: apply_fact_def)
  next
    case (ModelFact f)
    with q preservesD [OF assms(6) assms(2)] show ?thesis by (simp add: apply_fact_def)
  next
    case (BudgetFact f)
    with q preservesD [OF assms(7) assms(2)] show ?thesis by (simp add: apply_fact_def)
  next
    case (ToolFact f)
    with q preservesD [OF assms(8) assms(2)] show ?thesis by (simp add: apply_fact_def)
  next
    case (InteractionFact f)
    with q preservesD [OF assms(9) assms(2)] show ?thesis by (simp add: apply_fact_def)
  next
    case (ItemFact f)
    with q preservesD [OF assms(10) assms(2)] show ?thesis by (simp add: apply_fact_def)
  next
    case (ExecutionFact f)
    with q preservesD [OF assms(11) assms(2)] show ?thesis by (simp add: apply_fact_def)
  next
    case (UnsupportedFact x)
    with q show ?thesis by (simp add: apply_fact_def)
  qed
qed

lemma projection_ok_apply_record:
  assumes "projection_ok p" and "apply_record p r = Inr q"
  shows "projection_ok q"
  by (rule apply_record_preserves [where I = projection_ok, OF assms(2,1)])
    (rule projection_ok_groups projection_ok_execution)+

lemma projection_ok_empty: "projection_ok empty_projection"
  by (simp add: projection_ok_def empty_projection_def)

interpretation tables: reducer_invariant apply_record projection_ok
  by unfold_locales (rule projection_ok_apply_record)

section \<open>What a record leaves alone\<close>

text \<open>An update of one table keeps every predicate that does not read that table.\<close>

named_theorems frame_intros "updates outside the tables a predicate reads"

lemma frame_put_thread [frame_intros]:
  "(\<And>s t. I (s\<lparr>threads := t\<rparr>) = I s) \<Longrightarrow> preserves I (put_thread row)"
  by (simp add: preserves_def put_thread_def)

lemma frame_put_turn [frame_intros]:
  "(\<And>s t. I (s\<lparr>turns := t\<rparr>) = I s) \<Longrightarrow> preserves I (put_turn row)"
  by (simp add: preserves_def put_turn_def)

lemma frame_put_item [frame_intros]:
  "(\<And>s t. I (s\<lparr>items := t\<rparr>) = I s) \<Longrightarrow> preserves I (put_item row)"
  by (simp add: preserves_def put_item_def)

lemma frame_put_model_op [frame_intros]:
  "(\<And>s t. I (s\<lparr>model_operations := t\<rparr>) = I s) \<Longrightarrow> preserves I (put_model_op row)"
  by (simp add: preserves_def put_model_op_def)

lemma frame_put_attempt [frame_intros]:
  "(\<And>s t. I (s\<lparr>model_attempts := t\<rparr>) = I s) \<Longrightarrow> preserves I (put_attempt row)"
  by (simp add: preserves_def put_attempt_def)

lemma frame_put_reservation [frame_intros]:
  "(\<And>s t. I (s\<lparr>budget_reservations := t\<rparr>) = I s) \<Longrightarrow> preserves I (put_reservation row)"
  by (simp add: preserves_def put_reservation_def)

lemma frame_put_allocation [frame_intros]:
  "(\<And>s t. I (s\<lparr>child_budget_allocations := t\<rparr>) = I s) \<Longrightarrow> preserves I (put_allocation row)"
  by (simp add: preserves_def put_allocation_def)

lemma frame_put_tool_op [frame_intros]:
  "(\<And>s t. I (s\<lparr>tool_operations := t\<rparr>) = I s) \<Longrightarrow> preserves I (put_tool_op row)"
  by (simp add: preserves_def put_tool_op_def)

lemma frame_put_interaction [frame_intros]:
  "(\<And>s t. I (s\<lparr>interactions := t\<rparr>) = I s) \<Longrightarrow> preserves I (put_interaction row)"
  by (simp add: preserves_def put_interaction_def)

lemma frame_put_approval [frame_intros]:
  "(\<And>s t. I (s\<lparr>approvals := t\<rparr>) = I s) \<Longrightarrow> preserves I (put_approval row)"
  by (simp add: preserves_def put_approval_def)

lemma frame_put_artifact [frame_intros]:
  "(\<And>s t. I (s\<lparr>artifacts := t\<rparr>) = I s) \<Longrightarrow> preserves I (put_artifact row)"
  by (simp add: preserves_def put_artifact_def)

lemma frame_put_command [frame_intros]:
  "(\<And>s t. I (s\<lparr>host_commands := t\<rparr>) = I s) \<Longrightarrow> preserves I (put_command row)"
  by (simp add: preserves_def put_command_def)

lemma frame_put_channel [frame_intros]:
  "(\<And>s t. I (s\<lparr>channel_entries := t\<rparr>) = I s) \<Longrightarrow> preserves I (put_channel row)"
  by (simp add: preserves_def put_channel_def)

lemma frame_mod_thread [frame_intros]:
  "(\<And>s t. I (s\<lparr>threads := t\<rparr>) = I s) \<Longrightarrow> preserves I (mod_thread k f)"
  by (rule preserves_mod_table [OF mod_thread_def]) simp

lemma frame_mod_turn [frame_intros]:
  "(\<And>s t. I (s\<lparr>turns := t\<rparr>) = I s) \<Longrightarrow> preserves I (mod_turn k f)"
  by (rule preserves_mod_table [OF mod_turn_def]) simp

lemma frame_mod_item [frame_intros]:
  "(\<And>s t. I (s\<lparr>items := t\<rparr>) = I s) \<Longrightarrow> preserves I (mod_item k f)"
  by (rule preserves_mod_table [OF mod_item_def]) simp

lemma frame_mod_model_op [frame_intros]:
  "(\<And>s t. I (s\<lparr>model_operations := t\<rparr>) = I s) \<Longrightarrow> preserves I (mod_model_op k f)"
  by (rule preserves_mod_table [OF mod_model_op_def]) simp

lemma frame_mod_attempt [frame_intros]:
  "(\<And>s t. I (s\<lparr>model_attempts := t\<rparr>) = I s) \<Longrightarrow> preserves I (mod_attempt k f)"
  by (rule preserves_mod_table [OF mod_attempt_def]) simp

lemma frame_mod_reservation [frame_intros]:
  "(\<And>s t. I (s\<lparr>budget_reservations := t\<rparr>) = I s) \<Longrightarrow> preserves I (mod_reservation k f)"
  by (rule preserves_mod_table [OF mod_reservation_def]) simp

lemma frame_mod_allocation [frame_intros]:
  "(\<And>s t. I (s\<lparr>child_budget_allocations := t\<rparr>) = I s) \<Longrightarrow> preserves I (mod_allocation k f)"
  by (rule preserves_mod_table [OF mod_allocation_def]) simp

lemma frame_mod_tool_op [frame_intros]:
  "(\<And>s t. I (s\<lparr>tool_operations := t\<rparr>) = I s) \<Longrightarrow> preserves I (mod_tool_op k f)"
  by (rule preserves_mod_table [OF mod_tool_op_def]) simp

lemma frame_mod_interaction [frame_intros]:
  "(\<And>s t. I (s\<lparr>interactions := t\<rparr>) = I s) \<Longrightarrow> preserves I (mod_interaction k f)"
  by (rule preserves_mod_table [OF mod_interaction_def]) simp

lemma frame_mod_approval [frame_intros]:
  "(\<And>s t. I (s\<lparr>approvals := t\<rparr>) = I s) \<Longrightarrow> preserves I (mod_approval k f)"
  by (rule preserves_mod_table [OF mod_approval_def]) simp

lemma frame_mod_command [frame_intros]:
  "(\<And>s t. I (s\<lparr>host_commands := t\<rparr>) = I s) \<Longrightarrow> preserves I (mod_command k f)"
  by (rule preserves_mod_table [OF mod_command_def]) simp

lemma frame_touch [frame_intros]:
  "(\<And>s t. I (s\<lparr>threads := t\<rparr>) = I s) \<Longrightarrow> preserves I (touch_thread r)"
  unfolding touch_thread_def by (rule frame_mod_thread)

lemma frame_bump [frame_intros]:
  "(\<And>s t. I (s\<lparr>item_sequences := t\<rparr>) = I s) \<Longrightarrow> preserves I (bump_item_sequence tid)"
  by (simp add: preserves_def bump_item_sequence_def)

text \<open>\<open>advance\<close> stamps the Thread and the Turn.\<close>

lemma frame_advance [frame_intros]:
  assumes "\<And>s t. I (s\<lparr>threads := t\<rparr>) = I s"
    and "\<And>s k n t. I s \<Longrightarrow> tmod (turns s) k (\<lambda>x. x\<lparr>tu_seq := n\<rparr>) = Inr t \<Longrightarrow> I (s\<lparr>turns := t\<rparr>)"
  shows "preserves I (advance r)"
  unfolding advance_def
proof (intro preserve_intros)
  show "preserves I (touch_thread r)" by (rule frame_touch) (rule assms(1))
  show "preserves I (mod_turn tid (\<lambda>t. t\<lparr>tu_seq := rr_seq r\<rparr>))" for tid
    by (rule preserves_mod_table [OF mod_turn_def]) (rule assms(2))
qed

lemma frame_end_turn [frame_intros]:
  "(\<And>s t. I (s\<lparr>threads := t\<rparr>) = I s) \<Longrightarrow> (\<And>s t. I (s\<lparr>turns := t\<rparr>) = I s) \<Longrightarrow>
     preserves I (end_turn r tid st reason msg)"
  unfolding end_turn_def by (intro preserve_intros frame_intros) auto

lemma frame_resolve [frame_intros]:
  "(\<And>s t. I (s\<lparr>approvals := t\<rparr>) = I s) \<Longrightarrow> preserves I (resolve_approval r req st)"
  unfolding resolve_approval_def [abs_def] by (intro preserve_intros frame_intros) auto

lemma frame_execution:
  "preserves I (advance r) \<Longrightarrow> preserves I (apply_execution r f)"
  unfolding apply_execution_def [abs_def] by (intro preserve_intros)

text \<open>Each group of facts touches only its own tables, besides the stamps of \<open>advance\<close>.\<close>

lemmas group_unfolds = group_funs row_updates [abs_def]

lemma frame_group_thread:
  assumes "\<And>s t. I (s\<lparr>threads := t\<rparr>) = I s"
    and "\<And>s t. I (s\<lparr>channel_entries := t\<rparr>) = I s"
  shows "preserves I (apply_thread r f)"
  by (cases f; simp only: group_unfolds;
      intro preserve_intros preserves_chain_dep frame_intros; simp add: assms)

lemma frame_group_host:
  assumes "\<And>s t. I (s\<lparr>threads := t\<rparr>) = I s"
    and "\<And>s t. I (s\<lparr>host_commands := t\<rparr>) = I s"
  shows "preserves I (apply_host r f)"
  by (cases f; simp only: group_unfolds;
      intro preserve_intros preserves_chain_dep frame_intros; simp add: assms)

lemma frame_group_turn:
  assumes "\<And>s t. I (s\<lparr>threads := t\<rparr>) = I s"
    and "\<And>s t. I (s\<lparr>turns := t\<rparr>) = I s"
  shows "preserves I (apply_turn r f)"
  by (cases f; simp only: group_unfolds;
      intro preserve_intros preserves_chain_dep frame_intros; simp add: assms)

lemma frame_group_model:
  assumes "\<And>s t. I (s\<lparr>model_operations := t\<rparr>) = I s"
    and "\<And>s t. I (s\<lparr>model_attempts := t\<rparr>) = I s"
    and "preserves I (advance r)"
  shows "preserves I (apply_model r f)"
  by (cases f; simp only: group_unfolds;
      intro preserve_intros preserves_chain_dep assms(3) frame_intros; simp add: assms)

lemma frame_group_budget:
  assumes "\<And>s t. I (s\<lparr>budget_reservations := t\<rparr>) = I s"
    and "\<And>s t. I (s\<lparr>child_budget_allocations := t\<rparr>) = I s"
    and "\<And>s t. I (s\<lparr>threads := t\<rparr>) = I s"
    and "preserves I (advance r)"
  shows "preserves I (apply_budget r f)"
  by (cases f; simp only: group_unfolds;
      intro preserve_intros preserves_chain_dep assms(4) frame_intros; simp add: assms)

lemma frame_group_tool:
  assumes "\<And>s t. I (s\<lparr>tool_operations := t\<rparr>) = I s"
    and "preserves I (advance r)"
  shows "preserves I (apply_tool r f)"
  by (cases f; simp only: group_unfolds;
      intro preserve_intros preserves_chain_dep assms(2) frame_intros; simp add: assms)

lemma frame_group_interaction:
  assumes "\<And>s t. I (s\<lparr>interactions := t\<rparr>) = I s"
    and "\<And>s t. I (s\<lparr>approvals := t\<rparr>) = I s"
    and "preserves I (advance r)"
  shows "preserves I (apply_interaction r f)"
  by (cases f; simp only: group_unfolds;
      intro preserve_intros preserves_chain_dep assms(3) frame_intros; simp add: assms)

lemma frame_group_item:
  assumes "\<And>s t. I (s\<lparr>items := t\<rparr>) = I s"
    and "\<And>s t. I (s\<lparr>item_sequences := t\<rparr>) = I s"
    and "\<And>s t. I (s\<lparr>artifacts := t\<rparr>) = I s"
    and "preserves I (advance r)"
  shows "preserves I (apply_item r f)"
  by (cases f; simp only: group_unfolds;
      intro preserve_intros preserves_chain_dep assms(4) frame_intros; simp add: assms)

lemmas group_frames =
  frame_group_thread frame_group_host frame_group_turn frame_group_model frame_group_budget frame_group_tool frame_group_interaction frame_group_item

text \<open>Only Item facts change Items and their counters.\<close>

lemma frame_items:
  assumes "apply_record p r = Inr q" and "\<And>f. rr_fact r \<noteq> ItemFact f"
  shows "items q = items p \<and> item_sequences q = item_sequences p"
proof -
  let ?I = "\<lambda>s. items s = items p \<and> item_sequences s = item_sequences p"
  have adv: "preserves ?I (advance r)" by (rule frame_advance) simp_all
  show ?thesis
    by (rule apply_record_preserves [where I = ?I, OF assms(1)];
        (rule group_frames frame_execution [OF adv])?; (rule adv)?; use assms(2) in simp)
qed

text \<open>Only budget facts change reservations and child allocations.\<close>

lemma frame_budget:
  assumes "apply_record p r = Inr q" and "\<And>f. rr_fact r \<noteq> BudgetFact f"
  shows "budget_reservations q = budget_reservations p \<and> child_budget_allocations q = child_budget_allocations p"
proof -
  let ?I = "\<lambda>s. budget_reservations s = budget_reservations p \<and> child_budget_allocations s = child_budget_allocations p"
  have adv: "preserves ?I (advance r)" by (rule frame_advance) simp_all
  show ?thesis
    by (rule apply_record_preserves [where I = ?I, OF assms(1)];
        (rule group_frames frame_execution [OF adv])?; (rule adv)?; use assms(2) in simp)
qed

text \<open>Only model facts change model operations and attempts.\<close>

lemma frame_models:
  assumes "apply_record p r = Inr q" and "\<And>f. rr_fact r \<noteq> ModelFact f"
  shows "model_operations q = model_operations p \<and> model_attempts q = model_attempts p"
proof -
  let ?I = "\<lambda>s. model_operations s = model_operations p \<and> model_attempts s = model_attempts p"
  have adv: "preserves ?I (advance r)" by (rule frame_advance) simp_all
  show ?thesis
    by (rule apply_record_preserves [where I = ?I, OF assms(1)];
        (rule group_frames frame_execution [OF adv])?; (rule adv)?; use assms(2) in simp)
qed

text \<open>Only tool facts change tool operations.\<close>

lemma frame_tools:
  assumes "apply_record p r = Inr q" and "\<And>f. rr_fact r \<noteq> ToolFact f"
  shows "tool_operations q = tool_operations p"
proof -
  let ?I = "\<lambda>s. tool_operations s = tool_operations p"
  have adv: "preserves ?I (advance r)" by (rule frame_advance) simp_all
  show ?thesis
    by (rule apply_record_preserves [where I = ?I, OF assms(1)];
        (rule group_frames frame_execution [OF adv])?; (rule adv)?; use assms(2) in simp)
qed

text \<open>Only Turn facts change what a Turn is: everything but its sequence stamp.\<close>

definition turn_core :: "turn_row \<Rightarrow> turn_row" where
  "turn_core t = t\<lparr>tu_seq := 0\<rparr>"

definition turn_cores :: "projection \<Rightarrow> string \<Rightarrow> turn_row option" where
  "turn_cores p k = map_option turn_core (tget (turns p) k)"

lemma turn_cores_stamp:
  "tmod (turns s) k (\<lambda>x. x\<lparr>tu_seq := n\<rparr>) = Inr t \<Longrightarrow> turn_cores (s\<lparr>turns := t\<rparr>) = turn_cores s"
  by (auto simp: turn_cores_def turn_core_def tmod_eq_Inr)

lemma frame_turns:
  assumes "apply_record p r = Inr q" and "\<And>f. rr_fact r \<noteq> TurnFact f"
  shows "turn_cores q = turn_cores p"
proof -
  let ?I = "\<lambda>s. turn_cores s = turn_cores p"
  have adv: "preserves ?I (advance r)"
    by (rule frame_advance) (simp_all add: turn_cores_stamp, simp add: turn_cores_def [abs_def])
  show ?thesis
    by (rule apply_record_preserves [where I = ?I, OF assms(1)];
        (rule group_frames frame_execution [OF adv])?; (rule adv)?; use assms(2) in \<open>simp add: turn_cores_def [abs_def]\<close>)
qed

end
