(* ===== verification/Rollout_Refinement.thy ===== *)
theory Rollout_Refinement
  imports Rollout Reducer_Laws
begin

text \<open>
  The incremental projection of \<open>append_record\<close> refines the reducer: when an append succeeds,
  the durable tables it leaves are those \<open>apply_record\<close> computes on the complete projection.
  The proof is a simulation between the loaded slice and the complete tables. \<open>tsim\<close> relates
  one slice table to the complete one: the complete table is the durable one overlaid with the
  slice, and every slice row is either unchanged or one whose write-back loses nothing.
\<close>

section \<open>One table\<close>

definition overlay :: "'r table \<Rightarrow> 'r table \<Rightarrow> 'r table" where
  "overlay slice t =
     map (\<lambda>(k, row). (k, case tget slice k of None \<Rightarrow> row | Some new \<Rightarrow> new)) t
     @ filter (\<lambda>(k, row). tget t k = None) slice"

definition evolves :: "('r \<Rightarrow> nat) \<Rightarrow> ('r \<Rightarrow> 'r \<Rightarrow> 'r) \<Rightarrow> nat \<Rightarrow> 'r table \<Rightarrow> 'r table \<Rightarrow> bool" where
  "evolves seq_of merge n slice t \<longleftrightarrow> distinct (tkeys slice) \<and>
     (\<forall>k row. tget slice k = Some row \<longrightarrow>
        (case tget t k of None \<Rightarrow> seq_of row = n
         | Some old \<Rightarrow> row = old \<or> seq_of row = n \<and> merge old row = row))"

lemma tput_map:
  assumes "distinct (tkeys t)"
  shows "tput k q t = (if tget t k = None then t @ [(k, q)]
    else map (\<lambda>(j, row). (j, if j = k then q else row)) t)"
  using assms
proof (induction t)
  case Nil
  then show ?case by (simp add: tput_def)
next
  case (Cons p t)
  obtain j row where p: "p = (j, row)" by (cases p)
  have "map (\<lambda>(i, x). (i, if i = k then q else x)) t = t" if "k \<notin> set (tkeys t)"
    using that by (induction t) (auto simp: tkeys_def)
  with Cons p show ?case by (auto simp: tput_def tget_def tkeys_def)
qed

lemma tget_append: "tget (t @ u) k = (case tget t k of None \<Rightarrow> tget u k | Some r \<Rightarrow> Some r)"
  by (simp add: tget_def map_add_def split: option.splits)

lemma tget_map_snd: "tget (map (\<lambda>(k, row). (k, f k row)) t) k = map_option (f k) (tget t k)"
  by (induction t) (auto simp: tget_def)

lemma tget_filter_key: "tget (filter (\<lambda>(k, row). P k) t) k = (if P k then tget t k else None)"
  by (induction t) (auto simp: tget_def)

lemma tget_overlay [table_simps]:
  "tget (overlay slice t) k = (case tget slice k of None \<Rightarrow> tget t k | Some q \<Rightarrow> Some q)"
  by (auto simp: overlay_def tget_append tget_map_snd
      tget_filter_key [where P = "\<lambda>k. tget t k = None"] split: option.splits)

lemma tkeys_overlay: "tkeys (overlay slice t) = tkeys t @ filter (\<lambda>k. tget t k = None) (tkeys slice)"
  by (auto simp: overlay_def tkeys_def filter_map comp_def case_prod_unfold)

lemma distinct_overlay:
  "distinct (tkeys slice) \<Longrightarrow> distinct (tkeys t) \<Longrightarrow> distinct (tkeys (overlay slice t))"
  by (auto simp: tkeys_overlay tget_None_iff)

lemma overlay_tput:
  assumes "distinct (tkeys slice)" and "distinct (tkeys t)"
  shows "overlay (tput k q slice) t = tput k q (overlay slice t)"
proof -
  note rhs = tput_map [OF distinct_overlay [OF assms]]
  note lhs = tput_map [OF assms(1)]
  show ?thesis
  proof (cases "tget t k")
    case None
    then have keys: "\<And>j row. (j, row) \<in> set t \<Longrightarrow> j \<noteq> k"
      by (force simp: tget_def map_of_eq_None_iff)
    show ?thesis
    proof (cases "tget slice k")
      case n: None
      have "tput k q (overlay slice t) = overlay slice t @ [(k, q)]"
        using None n by (simp add: rhs tget_overlay)
      moreover have "overlay (tput k q slice) t = overlay slice t @ [(k, q)]"
        using None n keys by (auto simp: lhs overlay_def tget_append tget_def split: option.splits)
      ultimately show ?thesis by simp
    next
      case (Some row)
      let ?sub = "\<lambda>(j, row). (j, if j = k then q else row)"
      have r: "tput k q (overlay slice t) = map ?sub (overlay slice t)"
        using Some by (simp add: rhs tget_overlay)
      have "filter (\<lambda>(j, row). tget t j = None) (map ?sub slice)
          = map ?sub (filter (\<lambda>(j, row). tget t j = None) slice)"
        by (induction slice) auto
      moreover have "\<And>j. j \<noteq> k \<Longrightarrow> tget (map ?sub slice) j = tget slice j"
        by (induction slice) (auto simp: tget_def)
      moreover have l: "tput k q slice = map ?sub slice"
        using Some by (simp add: lhs)
      ultimately show ?thesis
        unfolding r l using keys by (auto simp: overlay_def split: option.splits)
    qed
  next
    case (Some old)
    let ?sub = "\<lambda>(j, row). (j, if j = k then q else row)"
    have r: "tput k q (overlay slice t) = map ?sub (overlay slice t)"
      using Some by (cases "tget slice k") (simp_all add: rhs tget_overlay)
    have f: "filter (\<lambda>(j, row). tget t j = None) (tput k q slice)
        = filter (\<lambda>(j, row). tget t j = None) slice"
    proof -
      have "filter (\<lambda>(j, row). tget t j = None) (map ?sub slice)
          = filter (\<lambda>(j, row). tget t j = None) slice"
        using Some by (induction slice) auto
      with Some show ?thesis by (simp add: lhs)
    qed
    have m: "map ?sub (filter (\<lambda>(j, row). tget t j = None) slice)
        = filter (\<lambda>(j, row). tget t j = None) slice"
      using Some by (induction slice) auto
    have g: "\<And>j. tget (tput k q slice) j = (if j = k then Some q else tget slice j)" by simp
    show ?thesis
      unfolding r unfolding overlay_def map_append m f by (auto split: option.splits)
  qed
qed

lemma overlay_Nil [simp]: "overlay [] t = t"
  by (simp add: overlay_def case_prod_unfold)

lemma overlay_Cons:
  assumes "distinct (tkeys t)" and "k \<notin> set (tkeys slice)"
  shows "overlay ((k, row) # slice) t = overlay slice (tput k row t)"
proof (cases "tget t k")
  case None
  have "\<And>j r. (j, r) \<in> set t \<Longrightarrow> j \<noteq> k"
    using None by (force simp: tget_def map_of_eq_None_iff)
  moreover have "tget slice k = None"
    using assms by (simp add: tget_None_iff)
  moreover have "\<And>j r. (j, r) \<in> set slice \<Longrightarrow> j \<noteq> k"
    using assms by (force simp: tkeys_def)
  then have "filter (\<lambda>(j, r). tget (t @ [(k, row)]) j = None) slice
      = filter (\<lambda>(j, r). tget t j = None) slice"
    by (intro filter_cong) (auto simp: tget_append tget_def split: option.splits)
  ultimately show ?thesis
    using None assms by (auto simp: overlay_def tput_map tget_def)
next
  case (Some old)
  have "tget slice k = None"
    using assms by (simp add: tget_None_iff)
  moreover have "\<And>j. tget (map (\<lambda>(j, r). (j, if j = k then row else r)) t) j = None \<longleftrightarrow> tget t j = None"
    by (induction t) (auto simp: tget_def)
  ultimately show ?thesis
    using Some assms by (auto simp: overlay_def tput_map tget_def)
qed

lemma tput_same: "tget t k = Some r \<Longrightarrow> tput k r t = t"
  using tput_split by fastforce

text \<open>Writing back loses nothing when the slice evolved from the table.\<close>

lemma persist_rows_overlay:
  assumes "evolves seq_of merge n slice t" and "distinct (tkeys t)" and "\<And>x. merge x x = x"
  shows "persist_rows seq_of merge n slice t = overlay slice t"
  using assms(1,2)
proof (induction slice arbitrary: t)
  case Nil
  then show ?case by (simp add: persist_rows_def)
next
  case (Cons p slice)
  obtain k row where p: "p = (k, row)" by (cases p)
  from Cons.prems p have k: "k \<notin> set (tkeys slice)" and d: "distinct (tkeys slice)"
    by (auto simp: evolves_def tkeys_def)
  have here: "case tget t k of None \<Rightarrow> seq_of row = n
      | Some old \<Rightarrow> row = old \<or> seq_of row = n \<and> merge old row = row"
    using Cons.prems(1) p by (auto simp: evolves_def tget_def)
  let ?t = "tput k row t"
  have step: "persist_rows seq_of merge n (p # slice) t = persist_rows seq_of merge n slice ?t"
    using here assms(3) p
    by (auto simp: persist_rows_def upsert_def tput_same split: option.splits)
  have "evolves seq_of merge n slice ?t"
    unfolding evolves_def
  proof (intro conjI allI impI)
    show "distinct (tkeys slice)" by (rule d)
    fix j q
    assume j: "tget slice j = Some q"
    then have "j \<noteq> k" using k by (metis tget_None_iff option.distinct(1))
    then have "tget (p # slice) j = Some q" using j p by (simp add: tget_def)
    with Cons.prems(1) \<open>j \<noteq> k\<close> show "case tget ?t j of None \<Rightarrow> seq_of q = n
      | Some old \<Rightarrow> q = old \<or> seq_of q = n \<and> merge old q = q"
      by (auto simp: evolves_def)
  qed
  with Cons.IH [of ?t] Cons.prems(2) have "persist_rows seq_of merge n slice ?t = overlay slice ?t"
    by (simp add: distinct_tkeys_tput)
  with step show ?case using overlay_Cons [OF Cons.prems(2) k] p by simp
qed

text \<open>The relation of one slice table to the complete one.\<close>

definition tsim ::
  "('r \<Rightarrow> nat) \<Rightarrow> ('r \<Rightarrow> 'r \<Rightarrow> 'r) \<Rightarrow> nat \<Rightarrow> 'r table \<Rightarrow> 'r table \<Rightarrow> 'r table \<Rightarrow> bool" where
  "tsim seq_of merge n t slice full \<longleftrightarrow>
     distinct (tkeys t) \<and> full = overlay slice t \<and> evolves seq_of merge n slice t"

lemma tsim_get: "tsim seq_of merge n t s q \<Longrightarrow> tget s k = Some r \<Longrightarrow> tget q k = Some r"
  by (simp add: tsim_def tget_overlay)

lemma tsim_get_None: "tsim seq_of merge n t s q \<Longrightarrow> tget s k = None \<Longrightarrow> tget q k = tget t k"
  by (simp add: tsim_def tget_overlay)

lemma tsim_put:
  assumes "tsim seq_of merge n t s q" and "seq_of row = n"
    and "\<And>old. tget t k = Some old \<Longrightarrow> merge old row = row"
  shows "tsim seq_of merge n t (tput k row s) (tput k row q)"
  using assms
  by (auto simp: tsim_def evolves_def overlay_tput distinct_tkeys_tput split: option.splits)

lemma tsim_mod:
  assumes "tsim seq_of merge n t s q" and "tget s k = Some r" and "seq_of (f r) = n"
    and "\<And>old x. merge old x = x \<Longrightarrow> merge old (f x) = f x" and "\<And>x. merge x x = x"
  shows "tsim seq_of merge n t (tput k (f r) s) (tput k (f r) q)"
proof (rule tsim_put)
  show "tsim seq_of merge n t s q" and "seq_of (f r) = n" by fact+
  fix old
  assume "tget t k = Some old"
  moreover from assms(1,2) have "case tget t k of None \<Rightarrow> seq_of r = n
      | Some old \<Rightarrow> r = old \<or> seq_of r = n \<and> merge old r = r"
    by (simp add: tsim_def evolves_def)
  ultimately have "merge old r = r" using assms(5) by auto
  then show "merge old (f r) = f r" by (rule assms(4))
qed

section \<open>The whole projection\<close>

text \<open>Slice \<open>s\<close> of the durable projection \<open>p\<close> against the complete projection \<open>q\<close>.\<close>

definition sim :: "nat \<Rightarrow> projection \<Rightarrow> projection \<Rightarrow> projection \<Rightarrow> bool" where
  "sim n p s q \<longleftrightarrow>
     tsim th_seq merge_thread n (threads p) (threads s) (threads q)
     \<and> tsim tu_seq merge_turn n (turns p) (turns s) (turns q)
     \<and> tsim it_seq merge_item n (items p) (items s) (items q)
     \<and> tsim mo_seq merge_model_op n (model_operations p) (model_operations s) (model_operations q)
     \<and> tsim ma_seq merge_attempt n (model_attempts p) (model_attempts s) (model_attempts q)
     \<and> tsim rs_seq merge_reservation n (budget_reservations p) (budget_reservations s) (budget_reservations q)
     \<and> tsim al_seq merge_allocation n
         (child_budget_allocations p) (child_budget_allocations s) (child_budget_allocations q)
     \<and> tsim to_seq merge_tool_op n (tool_operations p) (tool_operations s) (tool_operations q)
     \<and> tsim in_seq merge_interaction n (interactions p) (interactions s) (interactions q)
     \<and> tsim ap_seq merge_approval n (approvals p) (approvals s) (approvals q)
     \<and> tsim ar_seq merge_artifact n (artifacts p) (artifacts s) (artifacts q)
     \<and> tsim hc_seq merge_command n (host_commands p) (host_commands s) (host_commands q)
     \<and> tsim ch_seq merge_channel n (channel_entries p) (channel_entries s) (channel_entries q)"

definition simulates ::
  "nat \<Rightarrow> projection \<Rightarrow> (projection \<Rightarrow> projection result) \<Rightarrow> (projection \<Rightarrow> projection result) \<Rightarrow> bool" where
  "simulates n p f g \<longleftrightarrow>
     (\<forall>s q s'. sim n p s q \<longrightarrow> f s = Inr s' \<longrightarrow> (\<exists>q'. g q = Inr q' \<and> sim n p s' q'))"

named_theorems sim_intros "rules for the slice simulation"

lemma simulatesI:
  "(\<And>s q s'. sim n p s q \<Longrightarrow> f s = Inr s' \<Longrightarrow> \<exists>q'. g q = Inr q' \<and> sim n p s' q') \<Longrightarrow> simulates n p f g"
  by (auto simp: simulates_def)

lemma simulatesD:
  "simulates n p f g \<Longrightarrow> sim n p s q \<Longrightarrow> f s = Inr s' \<Longrightarrow> \<exists>q'. g q = Inr q' \<and> sim n p s' q'"
  by (auto simp: simulates_def)

lemma simulates_Inr [sim_intros]: "simulates n p Inr Inr"
  by (auto simp: simulates_def)

lemma simulates_chain_Nil [sim_intros]: "simulates n p (chain []) (chain [])"
  by (auto simp: simulates_def)

lemma simulates_chain_Cons [sim_intros]:
  assumes "simulates n p f g" and "simulates n p (chain fs) (chain gs)"
  shows "simulates n p (chain (f # fs)) (chain (g # gs))"
proof (rule simulatesI)
  fix s q s'
  assume "sim n p s q" and "chain (f # fs) s = Inr s'"
  then obtain s1 where f: "f s = Inr s1" and fs: "chain fs s1 = Inr s'" by auto
  from simulatesD [OF assms(1) \<open>sim n p s q\<close> f]
  obtain q1 where g: "g q = Inr q1" and q1: "sim n p s1 q1" by auto
  from simulatesD [OF assms(2) q1 fs] g
  show "\<exists>q'. chain (g # gs) q = Inr q' \<and> sim n p s' q'" by auto
qed

lemmas merge_defs =
  merge_thread_def merge_turn_def merge_item_def merge_model_op_def merge_attempt_def merge_reservation_def merge_allocation_def merge_tool_op_def merge_interaction_def merge_approval_def merge_artifact_def merge_command_def merge_channel_def

lemma merge_same [simp]:
  "merge_thread a a = a" "merge_turn b b = b" "merge_item c c = c" "merge_model_op d d = d"
  "merge_attempt e e = e" "merge_reservation f f = f" "merge_allocation g g = g"
  "merge_tool_op h h = h" "merge_interaction i i = i" "merge_approval j j = j"
  "merge_artifact k k = k" "merge_command l l = l" "merge_channel m m = m"
  by (simp_all add: merge_defs)

text \<open>A row survives its own write-back iff it agrees with the stored one on the fixed columns.\<close>

lemma merge_thread_fix: "merge_thread old x = x"
  by (simp add: merge_defs)

lemma merge_turn_fix:
  "merge_turn old x = x \<longleftrightarrow> tu_id x = tu_id old \<and> tu_thread x = tu_thread old"
  by (cases old; cases x) (auto simp: merge_defs)

lemma merge_item_fix:
  "merge_item old x = x \<longleftrightarrow> it_id x = it_id old \<and> it_thread x = it_thread old \<and> it_turn x = it_turn old \<and> it_sequence x = it_sequence old \<and> it_kind x = it_kind old \<and> it_producer x = it_producer old"
  by (cases old; cases x) (auto simp: merge_defs)

lemma merge_model_op_fix:
  "merge_model_op old x = x \<longleftrightarrow> mo_id x = mo_id old \<and> mo_thread x = mo_thread old \<and> mo_turn x = mo_turn old \<and> mo_request_hash x = mo_request_hash old \<and> mo_context_hash x = mo_context_hash old \<and> mo_tool_hash x = mo_tool_hash old \<and> mo_wire_hash x = mo_wire_hash old \<and> mo_request_ref x = mo_request_ref old"
  by (cases old; cases x) (auto simp: merge_defs)

lemma merge_attempt_fix:
  "merge_attempt old x = x \<longleftrightarrow> ma_id x = ma_id old \<and> ma_op x = ma_op old \<and> ma_generation x = ma_generation old"
  by (cases old; cases x) (auto simp: merge_defs)

lemma merge_reservation_fix:
  "merge_reservation old x = x \<longleftrightarrow> rs_id x = rs_id old \<and> rs_thread x = rs_thread old \<and> rs_turn x = rs_turn old \<and> rs_scope x = rs_scope old \<and> rs_op x = rs_op old \<and> rs_attempt x = rs_attempt old \<and> rs_reserved x = rs_reserved old"
  by (cases old; cases x) (auto simp: merge_defs)

lemma merge_allocation_fix:
  "merge_allocation old x = x \<longleftrightarrow> al_id x = al_id old \<and> al_thread x = al_thread old \<and> al_parent x = al_parent old \<and> al_child x = al_child old \<and> al_tokens x = al_tokens old \<and> al_cost x = al_cost old"
  by (cases old; cases x) (auto simp: merge_defs)

lemma merge_tool_op_fix:
  "merge_tool_op old x = x \<longleftrightarrow> to_id x = to_id old \<and> to_thread x = to_thread old \<and> to_turn x = to_turn old \<and> to_call x = to_call old \<and> to_name x = to_name old \<and> to_digest x = to_digest old \<and> to_revision x = to_revision old \<and> to_effects x = to_effects old \<and> to_resources x = to_resources old \<and> to_idempotent x = to_idempotent old"
  by (cases old; cases x) (auto simp: merge_defs)

lemma merge_interaction_fix:
  "merge_interaction old x = x \<longleftrightarrow> in_id x = in_id old \<and> in_thread x = in_thread old \<and> in_turn x = in_turn old \<and> in_kind x = in_kind old \<and> in_op x = in_op old \<and> in_request x = in_request old"
  by (cases old; cases x) (auto simp: merge_defs)

lemma merge_approval_fix:
  "merge_approval old x = x \<longleftrightarrow> ap_id x = ap_id old \<and> ap_thread x = ap_thread old \<and> ap_turn x = ap_turn old \<and> ap_op x = ap_op old \<and> ap_scope x = ap_scope old"
  by (cases old; cases x) (auto simp: merge_defs)

lemma merge_artifact_fix:
  "merge_artifact old x = x \<longleftrightarrow> ar_id x = ar_id old \<and> ar_thread x = ar_thread old \<and> ar_turn x = ar_turn old"
  by (cases old; cases x) (auto simp: merge_defs)

lemma merge_command_fix:
  "merge_command old x = x \<longleftrightarrow> hc_id x = hc_id old"
  by (cases old; cases x) (auto simp: merge_defs)

lemma merge_channel_fix:
  "merge_channel old x = x \<longleftrightarrow> ch_id x = ch_id old \<and> ch_thread x = ch_thread old \<and> ch_kind x = ch_kind old \<and> ch_key x = ch_key old"
  by (cases old; cases x) (auto simp: merge_defs)

lemmas merge_fix =
  merge_thread_fix merge_turn_fix merge_item_fix merge_model_op_fix merge_attempt_fix merge_reservation_fix merge_allocation_fix merge_tool_op_fix merge_interaction_fix merge_approval_fix merge_artifact_fix merge_command_fix merge_channel_fix

section \<open>Elementary updates simulate themselves\<close>

text \<open>A row update that stamps the sequence and touches only columns that are written back.\<close>

definition keeps :: "('r \<Rightarrow> nat) \<Rightarrow> ('r \<Rightarrow> 'r \<Rightarrow> 'r) \<Rightarrow> nat \<Rightarrow> ('r \<Rightarrow> 'r) \<Rightarrow> bool" where
  "keeps seq_of merge n f \<longleftrightarrow>
     (\<forall>x. seq_of (f x) = n) \<and> (\<forall>old x. merge old x = x \<longrightarrow> merge old (f x) = f x)"

definition writable :: "('r \<Rightarrow> 'r \<Rightarrow> 'r) \<Rightarrow> 'r table \<Rightarrow> string \<Rightarrow> 'r \<Rightarrow> bool" where
  "writable merge t k row \<longleftrightarrow> (\<forall>old. tget t k = Some old \<longrightarrow> merge old row = row)"

lemma tsim_mod_keeps:
  "tsim seq_of merge n t s q \<Longrightarrow> tget s k = Some r \<Longrightarrow> keeps seq_of merge n f \<Longrightarrow> (\<And>x. merge x x = x) \<Longrightarrow>
     tsim seq_of merge n t (tput k (f r) s) (tput k (f r) q)"
  by (rule tsim_mod) (auto simp: keeps_def)

lemma tsim_put_writable:
  "tsim seq_of merge n t s q \<Longrightarrow> seq_of row = n \<Longrightarrow> writable merge t k row \<Longrightarrow>
     tsim seq_of merge n t (tput k row s) (tput k row q)"
  by (rule tsim_put) (auto simp: writable_def)

lemma writable_fresh [simp]: "tget t k = None \<Longrightarrow> writable merge t k row"
  by (simp add: writable_def)

lemma writable_thread [simp]: "writable merge_thread t k row"
  by (simp add: writable_def merge_thread_def)

lemma simulates_put_thread [sim_intros]:
  "th_seq row = n \<Longrightarrow> writable merge_thread (threads p) (th_id row) row \<Longrightarrow>
     simulates n p (put_thread row) (put_thread row)"
  by (simp add: simulates_def sim_def put_thread_def tsim_put_writable)

lemma simulates_put_turn [sim_intros]:
  "tu_seq row = n \<Longrightarrow> writable merge_turn (turns p) (tu_id row) row \<Longrightarrow>
     simulates n p (put_turn row) (put_turn row)"
  by (simp add: simulates_def sim_def put_turn_def tsim_put_writable)

lemma simulates_put_item [sim_intros]:
  "it_seq row = n \<Longrightarrow> writable merge_item (items p) (it_id row) row \<Longrightarrow>
     simulates n p (put_item row) (put_item row)"
  by (simp add: simulates_def sim_def put_item_def tsim_put_writable)

lemma simulates_put_model_op [sim_intros]:
  "mo_seq row = n \<Longrightarrow> writable merge_model_op (model_operations p) (mo_id row) row \<Longrightarrow>
     simulates n p (put_model_op row) (put_model_op row)"
  by (simp add: simulates_def sim_def put_model_op_def tsim_put_writable)

lemma simulates_put_attempt [sim_intros]:
  "ma_seq row = n \<Longrightarrow> writable merge_attempt (model_attempts p) (ma_id row) row \<Longrightarrow>
     simulates n p (put_attempt row) (put_attempt row)"
  by (simp add: simulates_def sim_def put_attempt_def tsim_put_writable)

lemma simulates_put_reservation [sim_intros]:
  "rs_seq row = n \<Longrightarrow> writable merge_reservation (budget_reservations p) (rs_id row) row \<Longrightarrow>
     simulates n p (put_reservation row) (put_reservation row)"
  by (simp add: simulates_def sim_def put_reservation_def tsim_put_writable)

lemma simulates_put_allocation [sim_intros]:
  "al_seq row = n \<Longrightarrow> writable merge_allocation (child_budget_allocations p) (al_id row) row \<Longrightarrow>
     simulates n p (put_allocation row) (put_allocation row)"
  by (simp add: simulates_def sim_def put_allocation_def tsim_put_writable)

lemma simulates_put_tool_op [sim_intros]:
  "to_seq row = n \<Longrightarrow> writable merge_tool_op (tool_operations p) (to_id row) row \<Longrightarrow>
     simulates n p (put_tool_op row) (put_tool_op row)"
  by (simp add: simulates_def sim_def put_tool_op_def tsim_put_writable)

lemma simulates_put_interaction [sim_intros]:
  "in_seq row = n \<Longrightarrow> writable merge_interaction (interactions p) (in_id row) row \<Longrightarrow>
     simulates n p (put_interaction row) (put_interaction row)"
  by (simp add: simulates_def sim_def put_interaction_def tsim_put_writable)

lemma simulates_put_approval [sim_intros]:
  "ap_seq row = n \<Longrightarrow> writable merge_approval (approvals p) (ap_id row) row \<Longrightarrow>
     simulates n p (put_approval row) (put_approval row)"
  by (simp add: simulates_def sim_def put_approval_def tsim_put_writable)

lemma simulates_put_artifact [sim_intros]:
  "ar_seq row = n \<Longrightarrow> writable merge_artifact (artifacts p) (ar_id row) row \<Longrightarrow>
     simulates n p (put_artifact row) (put_artifact row)"
  by (simp add: simulates_def sim_def put_artifact_def tsim_put_writable)

lemma simulates_put_command [sim_intros]:
  "hc_seq row = n \<Longrightarrow> writable merge_command (host_commands p) (hc_id row) row \<Longrightarrow>
     simulates n p (put_command row) (put_command row)"
  by (simp add: simulates_def sim_def put_command_def tsim_put_writable)

lemma simulates_put_channel [sim_intros]:
  "ch_seq row = n \<Longrightarrow> writable merge_channel (channel_entries p) (ch_id row) row \<Longrightarrow>
     simulates n p (put_channel row) (put_channel row)"
  by (simp add: simulates_def sim_def put_channel_def tsim_put_writable)

text \<open>The in-place update of one table, given how the table is read and replaced.\<close>

lemma simulates_mod_table:
  assumes "keeps seq_of merge n f" and "\<And>x. merge x x = x"
    and "\<And>s. m s = ebind (tmod (table_of s) k f) (\<lambda>t. Inr (replace t s))"
    and "\<And>s q. sim n p s q \<Longrightarrow> tsim seq_of merge n (table_of p) (table_of s) (table_of q)"
    and "\<And>s q a b. sim n p s q \<Longrightarrow> tsim seq_of merge n (table_of p) a b \<Longrightarrow>
           sim n p (replace a s) (replace b q)"
  shows "simulates n p m m"
proof (rule simulatesI)
  fix s q s'
  assume sim: "sim n p s q" and "m s = Inr s'"
  then obtain r where r: "tget (table_of s) k = Some r" and s': "s' = replace (tput k (f r) (table_of s)) s"
    by (auto simp: assms(3) tmod_eq_Inr)
  from tsim_get [OF assms(4) [OF sim] r] have "m q = Inr (replace (tput k (f r) (table_of q)) q)"
    by (simp add: assms(3) tmod_def)
  moreover have "sim n p s' (replace (tput k (f r) (table_of q)) q)"
    unfolding s' by (intro assms(5) sim tsim_mod_keeps assms(4) r assms(1,2))
  ultimately show "\<exists>q'. m q = Inr q' \<and> sim n p s' q'" by blast
qed

lemma simulates_mod_thread [sim_intros]:
  "keeps th_seq merge_thread n f \<Longrightarrow> simulates n p (mod_thread k f) (mod_thread k f)"
  by (erule simulates_mod_table [where table_of = threads and replace = "\<lambda>t s. s\<lparr>threads := t\<rparr>"])
    (simp_all add: mod_thread_def sim_def)

lemma simulates_mod_turn [sim_intros]:
  "keeps tu_seq merge_turn n f \<Longrightarrow> simulates n p (mod_turn k f) (mod_turn k f)"
  by (erule simulates_mod_table [where table_of = turns and replace = "\<lambda>t s. s\<lparr>turns := t\<rparr>"])
    (simp_all add: mod_turn_def sim_def)

lemma simulates_mod_item [sim_intros]:
  "keeps it_seq merge_item n f \<Longrightarrow> simulates n p (mod_item k f) (mod_item k f)"
  by (erule simulates_mod_table [where table_of = items and replace = "\<lambda>t s. s\<lparr>items := t\<rparr>"])
    (simp_all add: mod_item_def sim_def)

lemma simulates_mod_model_op [sim_intros]:
  "keeps mo_seq merge_model_op n f \<Longrightarrow> simulates n p (mod_model_op k f) (mod_model_op k f)"
  by (erule simulates_mod_table [where table_of = model_operations and replace = "\<lambda>t s. s\<lparr>model_operations := t\<rparr>"])
    (simp_all add: mod_model_op_def sim_def)

lemma simulates_mod_attempt [sim_intros]:
  "keeps ma_seq merge_attempt n f \<Longrightarrow> simulates n p (mod_attempt k f) (mod_attempt k f)"
  by (erule simulates_mod_table [where table_of = model_attempts and replace = "\<lambda>t s. s\<lparr>model_attempts := t\<rparr>"])
    (simp_all add: mod_attempt_def sim_def)

lemma simulates_mod_reservation [sim_intros]:
  "keeps rs_seq merge_reservation n f \<Longrightarrow> simulates n p (mod_reservation k f) (mod_reservation k f)"
  by (erule simulates_mod_table [where table_of = budget_reservations and replace = "\<lambda>t s. s\<lparr>budget_reservations := t\<rparr>"])
    (simp_all add: mod_reservation_def sim_def)

lemma simulates_mod_allocation [sim_intros]:
  "keeps al_seq merge_allocation n f \<Longrightarrow> simulates n p (mod_allocation k f) (mod_allocation k f)"
  by (erule simulates_mod_table [where table_of = child_budget_allocations and replace = "\<lambda>t s. s\<lparr>child_budget_allocations := t\<rparr>"])
    (simp_all add: mod_allocation_def sim_def)

lemma simulates_mod_tool_op [sim_intros]:
  "keeps to_seq merge_tool_op n f \<Longrightarrow> simulates n p (mod_tool_op k f) (mod_tool_op k f)"
  by (erule simulates_mod_table [where table_of = tool_operations and replace = "\<lambda>t s. s\<lparr>tool_operations := t\<rparr>"])
    (simp_all add: mod_tool_op_def sim_def)

lemma simulates_mod_interaction [sim_intros]:
  "keeps in_seq merge_interaction n f \<Longrightarrow> simulates n p (mod_interaction k f) (mod_interaction k f)"
  by (erule simulates_mod_table [where table_of = interactions and replace = "\<lambda>t s. s\<lparr>interactions := t\<rparr>"])
    (simp_all add: mod_interaction_def sim_def)

lemma simulates_mod_approval [sim_intros]:
  "keeps ap_seq merge_approval n f \<Longrightarrow> simulates n p (mod_approval k f) (mod_approval k f)"
  by (erule simulates_mod_table [where table_of = approvals and replace = "\<lambda>t s. s\<lparr>approvals := t\<rparr>"])
    (simp_all add: mod_approval_def sim_def)

lemma simulates_mod_command [sim_intros]:
  "keeps hc_seq merge_command n f \<Longrightarrow> simulates n p (mod_command k f) (mod_command k f)"
  by (erule simulates_mod_table [where table_of = host_commands and replace = "\<lambda>t s. s\<lparr>host_commands := t\<rparr>"])
    (simp_all add: mod_command_def sim_def)


lemma sim_get:
  assumes "sim n p s q"
  shows "tget (turns s) k = Some tu \<Longrightarrow> tget (turns q) k = Some tu"
    and "tget (items s) k = Some it \<Longrightarrow> tget (items q) k = Some it"
    and "tget (model_operations s) k = Some mo \<Longrightarrow> tget (model_operations q) k = Some mo"
    and "tget (model_attempts s) k = Some ma \<Longrightarrow> tget (model_attempts q) k = Some ma"
    and "tget (budget_reservations s) k = Some rs \<Longrightarrow> tget (budget_reservations q) k = Some rs"
    and "tget (child_budget_allocations s) k = Some al \<Longrightarrow> tget (child_budget_allocations q) k = Some al"
    and "tget (approvals s) k = Some ap \<Longrightarrow> tget (approvals q) k = Some ap"
  using assms by (auto simp: sim_def dest: tsim_get)

lemma sim_get_None:
  assumes "sim n p s q"
  shows "tget (budget_reservations s) k = None \<Longrightarrow> tget (budget_reservations q) k = tget (budget_reservations p) k"
    and "tget (child_budget_allocations s) k = None \<Longrightarrow> tget (child_budget_allocations q) k = tget (child_budget_allocations p) k"
    and "tget (approvals s) k = None \<Longrightarrow> tget (approvals q) k = tget (approvals p) k"
  using assms by (auto simp: sim_def dest: tsim_get_None)

lemma simulates_advance [sim_intros]: "simulates (rr_seq r) p (advance r) (advance r)"
proof (cases "rr_turn r")
  case None
  then show ?thesis by (simp add: simulates_def advance_def turn_of_def)
next
  case (Some tid)
  have "simulates (rr_seq r) p
      (chain [touch_thread r, mod_turn tid (\<lambda>t. t\<lparr>tu_seq := rr_seq r\<rparr>)])
      (chain [touch_thread r, mod_turn tid (\<lambda>t. t\<lparr>tu_seq := rr_seq r\<rparr>)])"
    unfolding touch_thread_def by (intro sim_intros) (auto simp: keeps_def merge_fix)
  then show ?thesis using Some by (simp add: simulates_def advance_def turn_of_def)
qed

lemma simulates_touch [sim_intros]: "simulates (rr_seq r) p (touch_thread r) (touch_thread r)"
  unfolding touch_thread_def by (intro sim_intros) (auto simp: keeps_def merge_fix)

lemma simulates_Inl [sim_intros]: "simulates n p (\<lambda>s. Inl e) (\<lambda>s. Inl e')"
  by (simp add: simulates_def)

lemma simulates_if [sim_intros]:
  "(b \<Longrightarrow> simulates n p f g) \<Longrightarrow> (\<not> b \<Longrightarrow> simulates n p f' g') \<Longrightarrow>
     simulates n p (\<lambda>s. if b then f s else f' s) (\<lambda>s. if b then g s else g' s)"
  by (simp add: simulates_def)

lemma simulates_if_const [sim_intros]:
  "(b \<Longrightarrow> simulates n p f g) \<Longrightarrow> (\<not> b \<Longrightarrow> simulates n p f' g') \<Longrightarrow>
     simulates n p (if b then f else f') (if b then g else g')"
  by simp

lemma simulates_case_option [sim_intros]:
  "(x = None \<Longrightarrow> simulates n p f g) \<Longrightarrow> (\<And>a. x = Some a \<Longrightarrow> simulates n p (f' a) (g' a)) \<Longrightarrow>
     simulates n p (\<lambda>s. case x of None \<Rightarrow> f s | Some a \<Rightarrow> f' a s)
       (\<lambda>s. case x of None \<Rightarrow> g s | Some a \<Rightarrow> g' a s)"
  by (cases x) (simp_all add: simulates_def)

lemma simulates_turn_of [sim_intros]:
  "(\<And>tid. rr_turn r = Some tid \<Longrightarrow> simulates n p (f tid) (g tid)) \<Longrightarrow>
     simulates n p (\<lambda>s. ebind (turn_of r) (\<lambda>tid. f tid s)) (\<lambda>s. ebind (turn_of r) (\<lambda>tid. g tid s))"
  by (cases "rr_turn r") (simp_all add: simulates_def turn_of_def)

lemma simulates_lookup:
  assumes "\<And>s q. sim n p s q \<Longrightarrow> tsim seq_of merge n (table_of p) (table_of s) (table_of q)"
    and "\<And>m. simulates n p (f m) (g m)"
  shows "simulates n p (\<lambda>s. ebind (lookup (table_of s) k) (\<lambda>m. f m s))
    (\<lambda>s. ebind (lookup (table_of s) k) (\<lambda>m. g m s))"
proof (rule simulatesI)
  fix s q s'
  assume sim: "sim n p s q" and "ebind (lookup (table_of s) k) (\<lambda>m. f m s) = Inr s'"
  then obtain m where m: "tget (table_of s) k = Some m" and f: "f m s = Inr s'"
    by (auto simp: lookup_def)
  from tsim_get [OF assms(1) [OF sim] m] simulatesD [OF assms(2) sim f]
  show "\<exists>q'. ebind (lookup (table_of q) k) (\<lambda>m. g m q) = Inr q' \<and> sim n p s' q'"
    by (auto simp: lookup_def)
qed

lemma sim_tables:
  "sim n p s q \<Longrightarrow> tsim mo_seq merge_model_op n (model_operations p) (model_operations s) (model_operations q)"
  "sim n p s q \<Longrightarrow> tsim ma_seq merge_attempt n (model_attempts p) (model_attempts s) (model_attempts q)"
  "sim n p s q \<Longrightarrow> tsim rs_seq merge_reservation n (budget_reservations p) (budget_reservations s) (budget_reservations q)"
  "sim n p s q \<Longrightarrow> tsim al_seq merge_allocation n
     (child_budget_allocations p) (child_budget_allocations s) (child_budget_allocations q)"
  "sim n p s q \<Longrightarrow> tsim it_seq merge_item n (items p) (items s) (items q)"
  by (auto simp: sim_def)

lemmas simulates_lookups [sim_intros] = sim_tables [THEN simulates_lookup]

section \<open>Every record is simulated\<close>

text \<open>
  What a record assumes about identities: a fact that creates a row names a new one (the code
  draws it from \<open>uuid4\<close>), a channel entry keeps its kind and key, and the approval of an
  interaction belongs to the interaction's Thread.
\<close>

fun addressed :: "string \<Rightarrow> projection \<Rightarrow> fact \<Rightarrow> bool" where
  "addressed th p (ThreadFact (ChannelEntryUpdated eid kind key _)) =
     (case tget (channel_entries p) eid of None \<Rightarrow> True
      | Some c \<Rightarrow> ch_id c = eid \<and> ch_thread c = th \<and> ch_kind c = kind \<and> ch_key c = key)"
| "addressed th p (HostFact (HostCommandReceived cid _ _ _ _)) = (tget (host_commands p) cid = None)"
| "addressed th p (TurnFact (TurnStarted tid _ _ _)) = (tget (turns p) tid = None)"
| "addressed th p (ModelFact (ModelOperationPrepared op att _ _ _ _ _ _)) =
     (tget (model_operations p) op = None \<and> tget (model_attempts p) att = None)"
| "addressed th p (ModelFact (ModelRetryPrepared _ _ _ _ att _)) = (tget (model_attempts p) att = None)"
| "addressed th p (BudgetFact (BudgetReserved rid _ _ _ _)) = (tget (budget_reservations p) rid = None)"
| "addressed th p (BudgetFact (BudgetChildAllocated aid _ _ _ _)) =
     (tget (child_budget_allocations p) aid = None)"
| "addressed th p (ToolFact (ToolPrepared s)) = (tget (tool_operations p) (ts_operation s) = None)"
| "addressed th p (ToolFact (ToolMigrated s _)) = (tget (tool_operations p) (ts_operation s) = None)"
| "addressed th p (InteractionFact (InteractionRequested req _ _ _)) =
     (tget (interactions p) req = None \<and> tget (approvals p) req = None)"
| "addressed th p (InteractionFact (InteractionResolved req _ _ _)) =
     (case tget (approvals p) req of None \<Rightarrow> True | Some a \<Rightarrow> ap_thread a = th)"
| "addressed th p (ItemFact (ItemStarted iid _ _)) = (tget (items p) iid = None)"
| "addressed th p (ItemFact (ArtifactCommitted aid _ _ _ _)) = (tget (artifacts p) aid = None)"
| "addressed th p _ = True"

lemma sim_apply_thread:
  "addressed (rr_thread r) p (ThreadFact f) \<Longrightarrow> simulates (rr_seq r) p (apply_thread r f) (apply_thread r f)"
  by (cases f) (auto simp: group_funs keeps_def merge_fix new_thread_def writable_def
      intro!: sim_intros simp del: chain.simps chain_single split: option.splits)

lemma sim_apply_host:
  "addressed (rr_thread r) p (HostFact f) \<Longrightarrow> simulates (rr_seq r) p (apply_host r f) (apply_host r f)"
  by (cases f) (auto simp: group_funs keeps_def merge_fix claim_command_def close_command_def
      intro!: sim_intros simp del: chain.simps chain_single)

lemma sim_apply_tool:
  "addressed (rr_thread r) p (ToolFact f) \<Longrightarrow> simulates (rr_seq r) p (apply_tool r f) (apply_tool r f)"
  by (cases f) (auto simp: group_funs keeps_def merge_fix move_tool_def tool_outcome_def tool_unknown_def
      new_tool_op_def intro!: sim_intros simp del: chain.simps chain_single)

lemma sim_apply_budget:
  assumes "addressed (rr_thread r) p (BudgetFact f)"
  shows "simulates (rr_seq r) p (apply_budget r f) (apply_budget r f)"
proof (cases f)
  case (BudgetReserved rid scope op att amount)
  let ?f = "\<lambda>tid. chain [put_reservation \<lparr>rs_id = rid, rs_thread = rr_thread r, rs_turn = tid, rs_scope = scope,
           rs_op = op, rs_attempt = att, rs_reserved = amount, rs_actual = 0,
           rs_status = Reserved, rs_seq = rr_seq r\<rparr>, advance r]"
  have "simulates (rr_seq r) p (\<lambda>s. ebind (turn_of r) (\<lambda>tid. ?f tid s)) (\<lambda>s. ebind (turn_of r) (\<lambda>tid. ?f tid s))"
    using assms BudgetReserved by (auto intro!: sim_intros simp del: chain.simps)
  with assms BudgetReserved show ?thesis
    by (auto simp: simulates_def dest: sim_get_None split: if_splits simp del: chain.simps)
next
  case (BudgetChildAllocated aid parent child toks cost)
  let ?f = "chain [put_allocation \<lparr>al_id = aid, al_thread = rr_thread r, al_parent = parent,
           al_child = child, al_tokens = toks, al_cost = cost, al_actual = 0,
           al_status = AllocActive, al_seq = rr_seq r\<rparr>, touch_thread r]"
  have "simulates (rr_seq r) p ?f ?f"
    using assms BudgetChildAllocated by (auto intro!: sim_intros simp del: chain.simps)
  with assms BudgetChildAllocated show ?thesis
    by (auto simp: simulates_def dest: sim_get_None split: if_splits simp del: chain.simps)
qed (auto simp: group_funs move_reservation_def keeps_def merge_fix intro!: sim_intros
    simp del: chain.simps chain_single)

lemma sim_apply_model:
  "addressed (rr_thread r) p (ModelFact f) \<Longrightarrow> simulates (rr_seq r) p (apply_model r f) (apply_model r f)"
  by (cases f) (auto simp: group_funs keeps_def merge_fix set_op_status_def set_attempt_status_def
      new_attempt_def intro!: sim_intros simp del: chain.simps chain_single)

text \<open>A completed answer seen in the slice is the same in the complete tables.\<close>

lemma sim_answer_ok: "sim n p s q \<Longrightarrow> answer_ok s tid a \<Longrightarrow> answer_ok q tid a"
  by (auto simp: answer_ok_def sim_get(2) split: option.splits)

lemma sim_handling_ok: "sim n p s q \<Longrightarrow> handling_ok s tid op it \<Longrightarrow> handling_ok q tid op it"
  by (auto simp: handling_ok_def sim_get(2,3) split: option.splits)

lemma sim_batch_ok: "sim n p s q \<Longrightarrow> batch_ok s tid it \<Longrightarrow> batch_ok q tid it"
  by (auto simp: batch_ok_def sim_get(2) split: option.splits)

lemma simulates_end_turn [sim_intros]:
  "simulates (rr_seq r) p (end_turn r tid st reason msg) (end_turn r tid st reason msg)"
  unfolding end_turn_def by (intro sim_intros) (auto simp: keeps_def merge_fix)

lemma sim_apply_turn:
  assumes "addressed (rr_thread r) p (TurnFact f)"
  shows "simulates (rr_seq r) p (apply_turn r f) (apply_turn r f)"
proof (cases f)
  case (TurnCompleted tid answer)
  then show ?thesis
    using simulatesD [OF simulates_end_turn] sim_answer_ok
    by (auto simp: simulates_def split: if_splits)
qed (use assms in \<open>auto simp: group_funs set_turn_status_def keeps_def merge_fix intro!: sim_intros
    simp del: chain.simps chain_single\<close>)

lemma sim_apply_execution: "simulates (rr_seq r) p (apply_execution r f) (apply_execution r f)"
proof (rule simulatesI)
  fix s q s'
  assume sim: "sim (rr_seq r) p s q" and s': "apply_execution r f s = Inr s'"
  then obtain tid where tid: "rr_turn r = Some tid" and prod: "rr_producer r = ''runtime''"
    and turn: "tget (turns s) tid \<noteq> None" and ok: "execution_ok s tid f = None" and adv: "advance r s = Inr s'"
    by (auto simp: apply_execution_def turn_of_def split: if_splits option.splits)
  have "tget (turns q) tid \<noteq> None" using turn sim by (auto dest: sim_get(1))
  moreover have "execution_ok q tid f = None"
    using ok sim by (cases f) (auto simp: sim_handling_ok sim_batch_ok split: if_splits)
  ultimately show "\<exists>q'. apply_execution r f q = Inr q' \<and> sim (rr_seq r) p s' q'"
    using simulatesD [OF simulates_advance sim adv] tid prod
    by (auto simp: apply_execution_def turn_of_def)
qed

lemma simulates_bump [sim_intros]: "simulates n p (bump_item_sequence tid) (bump_item_sequence tid)"
  by (auto simp: simulates_def bump_item_sequence_def sim_def)

text \<open>
  The two facts whose effect depends on what the slice lacks: an Item start reads the counter
  of its Turn, and a resolution skips the approval table when there is no approval.
\<close>

definition slice_reads :: "rollout_record \<Rightarrow> projection \<Rightarrow> projection \<Rightarrow> projection \<Rightarrow> bool" where
  "slice_reads r p s q \<longleftrightarrow>
     (is_item_start (rr_fact r) \<longrightarrow>
        (\<forall>tid. rr_turn r = Some tid \<longrightarrow> item_sequences s tid = item_sequences q tid))
     \<and> (\<forall>req v resp st. rr_fact r = InteractionFact (InteractionResolved req v resp st) \<longrightarrow>
          tget (approvals s) req = None \<longrightarrow> tget (approvals p) req = None)"

lemma sim_apply_item:
  assumes "addressed (rr_thread r) p (ItemFact f)" and "rr_fact r = ItemFact f"
    and "slice_reads r p s q" and "sim (rr_seq r) p s q" and "apply_item r f s = Inr s'"
  shows "\<exists>q'. apply_item r f q = Inr q' \<and> sim (rr_seq r) p s' q'"
proof (cases f)
  case (ItemStarted iid kind meta)
  then obtain tid where tid: "rr_turn r = Some tid" using assms(5) by (auto simp: turn_of_def)
  have seq: "next_item_sequence s tid = next_item_sequence q tid"
    using assms(2,3) ItemStarted tid by (simp add: slice_reads_def next_item_sequence_def)
  let ?row = "\<lparr>it_id = iid, it_thread = rr_thread r, it_turn = tid,
        it_sequence = next_item_sequence q tid, it_kind = kind, it_status = ItemStartedStatus,
        it_producer = rr_producer r, it_payload = JObj [], it_seq = rr_seq r\<rparr>"
  have step: "simulates (rr_seq r) p (chain [bump_item_sequence tid, put_item ?row, advance r])
      (chain [bump_item_sequence tid, put_item ?row, advance r])"
    using assms(1) ItemStarted by (auto intro!: sim_intros simp del: chain.simps)
  from simulatesD [OF step assms(4)] assms(5) show ?thesis
    using ItemStarted tid seq by (auto simp: turn_of_def simp del: chain.simps)
next
  case (ItemCompleted iid kind payload)
  have "simulates (rr_seq r) p (apply_item r f) (apply_item r f)"
    unfolding ItemCompleted group_funs
    by (intro sim_intros) (auto simp: keeps_def merge_fix)
  from simulatesD [OF this assms(4,5)] show ?thesis .
next
  case (ArtifactCommitted aid sha sz media name)
  have "simulates (rr_seq r) p (apply_item r f) (apply_item r f)"
    using assms(1) unfolding ArtifactCommitted group_funs by (intro sim_intros) auto
  from simulatesD [OF this assms(4,5)] show ?thesis .
qed

lemma sim_resolve_approval:
  assumes "sim (rr_seq r) p s q" and "tget (approvals s) req = None \<Longrightarrow> tget (approvals p) req = None"
    and "resolve_approval r req st s = Inr s'"
  shows "\<exists>q'. resolve_approval r req st q = Inr q' \<and> sim (rr_seq r) p s' q'"
proof (cases "tget (approvals s) req")
  case None
  with assms have "tget (approvals q) req = None" by (simp add: sim_get_None)
  with None assms show ?thesis by (auto simp: resolve_approval_def)
next
  case (Some a)
  with assms(3) obtain x where x: "st = Some x"
    and s': "mod_approval req (\<lambda>a. a\<lparr>ap_status := x, ap_seq := rr_seq r\<rparr>) s = Inr s'"
    by (auto simp: resolve_approval_def split: option.splits)
  have "simulates (rr_seq r) p (mod_approval req (\<lambda>a. a\<lparr>ap_status := x, ap_seq := rr_seq r\<rparr>))
      (mod_approval req (\<lambda>a. a\<lparr>ap_status := x, ap_seq := rr_seq r\<rparr>))"
    by (intro sim_intros) (auto simp: keeps_def merge_fix)
  from simulatesD [OF this assms(1) s'] sim_get(7) [OF assms(1) Some] x show ?thesis
    by (auto simp: resolve_approval_def)
qed

lemma sim_apply_interaction:
  assumes "addressed (rr_thread r) p (InteractionFact f)" and "rr_fact r = InteractionFact f"
    and "slice_reads r p s q" and "sim (rr_seq r) p s q" and "apply_interaction r f s = Inr s'"
  shows "\<exists>q'. apply_interaction r f q = Inr q' \<and> sim (rr_seq r) p s' q'"
proof (cases f)
  case (InteractionRequested req kind op body)
  have "simulates (rr_seq r) p (apply_interaction r f) (apply_interaction r f)"
    using assms(1) unfolding InteractionRequested group_funs by (intro sim_intros) auto
  from simulatesD [OF this assms(4,5)] show ?thesis .
next
  case (InteractionResolved req v resp st)
  let ?m = "mod_interaction req (\<lambda>i. i\<lparr>in_status := InteractionResolvedStatus, in_version := v,
        in_response := resp, in_seq := rr_seq r\<rparr>)"
  from assms(5) InteractionResolved obtain s1 s2 where s1: "?m s = Inr s1"
    and s2: "resolve_approval r req st s1 = Inr s2" and s3: "advance r s2 = Inr s'"
    by auto
  have "simulates (rr_seq r) p ?m ?m" by (intro sim_intros) (auto simp: keeps_def merge_fix)
  from simulatesD [OF this assms(4) s1] obtain q1 where q1: "?m q = Inr q1" "sim (rr_seq r) p s1 q1" by auto
  have "approvals s1 = approvals s" using s1 by (auto simp: mod_interaction_def)
  then have "tget (approvals s1) req = None \<Longrightarrow> tget (approvals p) req = None"
    using assms(2,3) InteractionResolved by (auto simp: slice_reads_def)
  from sim_resolve_approval [OF q1(2) this s2]
  obtain q2 where q2: "resolve_approval r req st q1 = Inr q2" "sim (rr_seq r) p s2 q2" by auto
  from simulatesD [OF simulates_advance q2(2) s3] q1 q2 InteractionResolved show ?thesis by auto
next
  case (ApprovalInvalidated req)
  have "simulates (rr_seq r) p (apply_interaction r f) (apply_interaction r f)"
    unfolding ApprovalInvalidated group_funs by (intro sim_intros) (auto simp: keeps_def merge_fix)
  from simulatesD [OF this assms(4,5)] show ?thesis .
qed

lemma sim_apply_record:
  assumes "addressed (rr_thread r) p (rr_fact r)" and "slice_reads r p s q" and "sim (rr_seq r) p s q"
    and "apply_record s r = Inr s'"
  shows "\<exists>q'. apply_record q r = Inr q' \<and> sim (rr_seq r) p s' q'"
proof -
  have ok: "supported_version (rr_version r)" and s': "apply_fact r s = Inr s'"
    using assms(4) by (auto simp: apply_record_def split: if_splits)
  have "\<exists>q'. apply_fact r q = Inr q' \<and> sim (rr_seq r) p s' q'"
  proof (cases "rr_fact r")
    case (ThreadFact f)
    then show ?thesis using simulatesD [OF sim_apply_thread assms(3)] assms(1) s' by (simp add: apply_fact_def)
  next
    case (HostFact f)
    then show ?thesis using simulatesD [OF sim_apply_host assms(3)] assms(1) s' by (simp add: apply_fact_def)
  next
    case (TurnFact f)
    then show ?thesis using simulatesD [OF sim_apply_turn assms(3)] assms(1) s' by (simp add: apply_fact_def)
  next
    case (ModelFact f)
    then show ?thesis using simulatesD [OF sim_apply_model assms(3)] assms(1) s' by (simp add: apply_fact_def)
  next
    case (BudgetFact f)
    then show ?thesis using simulatesD [OF sim_apply_budget assms(3)] assms(1) s' by (simp add: apply_fact_def)
  next
    case (ToolFact f)
    then show ?thesis using simulatesD [OF sim_apply_tool assms(3)] assms(1) s' by (simp add: apply_fact_def)
  next
    case (InteractionFact f)
    then show ?thesis using sim_apply_interaction [OF _ InteractionFact assms(2,3)] assms(1) s'
      by (simp add: apply_fact_def)
  next
    case (ItemFact f)
    then show ?thesis using sim_apply_item [OF _ ItemFact assms(2,3)] assms(1) s' by (simp add: apply_fact_def)
  next
    case (ExecutionFact f)
    then show ?thesis using simulatesD [OF sim_apply_execution assms(3)] s' by (simp add: apply_fact_def)
  next
    case (UnsupportedFact x)
    with s' show ?thesis by (simp add: apply_fact_def)
  qed
  with ok show ?thesis by (simp add: apply_record_def)
qed

section \<open>Loading and persisting\<close>

lemma tget_load_row: "tget (load_row local t j s) k =
    (if k = j \<and> (\<exists>r. tget t j = Some r \<and> local r) then tget t j else tget s k)"
  by (auto simp: load_row_def split: option.splits)

lemma tget_load_fold: "tget (fold (load_row local t) ks s) k =
    (if k \<in> set ks \<and> (\<exists>r. tget t k = Some r \<and> local r) then tget t k else tget s k)"
  by (induction ks arbitrary: s) (auto simp: tget_load_row)

lemma tget_load_rows: "tget (load_rows local t ks) k =
    (if k \<in> set ks \<and> (\<exists>r. tget t k = Some r \<and> local r) then tget t k else None)"
  unfolding load_rows_def tget_load_fold by auto

lemma distinct_load_fold: "distinct (tkeys s) \<Longrightarrow> distinct (tkeys (fold (load_row local t) ks s))"
  by (induction ks arbitrary: s) (auto simp: load_row_def distinct_tkeys_tput split: option.splits)

lemma distinct_load_rows [simp]: "distinct (tkeys (load_rows local t ks))"
  unfolding load_rows_def by (rule distinct_load_fold) (simp add: tkeys_def)

lemma overlay_part:
  assumes "distinct (tkeys t)" and "\<And>k r. tget s k = Some r \<Longrightarrow> tget t k = Some r"
  shows "overlay s t = t"
proof -
  have "filter (\<lambda>(k, row). tget t k = None) s = []"
  proof (rule ccontr)
    assume "filter (\<lambda>(k, row). tget t k = None) s \<noteq> []"
    then obtain k row where "(k, row) \<in> set s" and n: "tget t k = None"
      by (auto simp: filter_empty_conv)
    then have "tget s k \<noteq> None" by (force simp: tget_def map_of_eq_None_iff)
    with assms(2) n show False by fastforce
  qed
  moreover have "map (\<lambda>(k, row). (k, case tget s k of None \<Rightarrow> row | Some new \<Rightarrow> new)) t = t"
  proof (rule map_idI)
    fix x
    assume x: "x \<in> set t"
    obtain k row where k: "x = (k, row)" by (cases x)
    with x assms(1) have "tget t k = Some row" by (simp add: tget_def tkeys_def)
    with assms(2) [of k] k show "(case x of (k, row) \<Rightarrow> (k, case tget s k of None \<Rightarrow> row | Some new \<Rightarrow> new)) = x"
      by (cases "tget s k") auto
  qed
  ultimately show ?thesis by (simp add: overlay_def)
qed

lemma tsim_part:
  assumes "distinct (tkeys t)" and "distinct (tkeys s)" and "\<And>k r. tget s k = Some r \<Longrightarrow> tget t k = Some r"
  shows "tsim seq_of merge n t s t"
  using assms by (auto simp: tsim_def evolves_def overlay_part)

lemma tsim_load [simp]: "distinct (tkeys t) \<Longrightarrow> tsim seq_of merge n t (load_rows local t ks) t"
  by (rule tsim_part) (auto simp: tget_load_rows split: if_splits)

lemma tsim_empty [simp]: "distinct (tkeys t) \<Longrightarrow> tsim seq_of merge n t [] t"
  by (rule tsim_part) (auto simp: tkeys_def)

lemma tsim_single: "distinct (tkeys t) \<Longrightarrow> tget t k = Some r \<Longrightarrow> tsim seq_of merge n t [(k, r)] t"
  by (rule tsim_part) (auto simp: tkeys_def tget_def split: if_splits)

text \<open>The complete projection with the item counters a replay would have.\<close>

definition counted :: "projection \<Rightarrow> projection" where
  "counted p = p\<lparr>item_sequences := last_item_sequence p\<rparr>"

definition durable :: "projection \<Rightarrow> projection" where
  "durable p = p\<lparr>item_sequences := (\<lambda>_. 0)\<rparr>"

lemma sim_load:
  assumes "projection_ok p"
  shows "sim n p (load_slice p r) (counted p)"
proof -
  have d: "distinct (tkeys (threads p))" "distinct (tkeys (turns p))" "distinct (tkeys (items p))"
    "distinct (tkeys (model_operations p))" "distinct (tkeys (model_attempts p))"
    "distinct (tkeys (budget_reservations p))" "distinct (tkeys (child_budget_allocations p))"
    "distinct (tkeys (tool_operations p))" "distinct (tkeys (interactions p))"
    "distinct (tkeys (approvals p))" "distinct (tkeys (artifacts p))"
    "distinct (tkeys (host_commands p))" "distinct (tkeys (channel_entries p))"
    using assms by (simp_all add: projection_ok_def table_ok_def)
  show ?thesis
  proof (cases "tget (threads p) (rr_thread r)")
    case None
    then show ?thesis using d by (simp add: load_slice_def sim_def counted_def empty_projection_def)
  next
    case (Some th)
    then show ?thesis using d by (simp add: load_slice_def sim_def counted_def Let_def tsim_single)
  qed
qed

lemma slice_reads_load:
  assumes "addressed (rr_thread r) p (rr_fact r)" and "apply_record (load_slice p r) r = Inr s'"
  shows "slice_reads r p (load_slice p r) (counted p)"
proof (cases "tget (threads p) (rr_thread r)")
  case None
  have "\<not> is_item_start (rr_fact r)"
    using assms(2) None
    by (auto simp: load_slice_def apply_record_def apply_fact_def empty_projection_def advance_def turn_of_def
        touch_thread_def mod_thread_def tmod_def put_item_def bump_item_sequence_def
        elim!: is_item_start.elims split: if_splits)
  moreover have "rr_fact r \<noteq> InteractionFact (InteractionResolved req v resp st)" for req v resp st
    using assms(2) None
    by (auto simp: load_slice_def apply_record_def apply_fact_def empty_projection_def
        mod_interaction_def tmod_def split: if_splits)
  ultimately show ?thesis by (simp add: slice_reads_def)
next
  case (Some th)
  show ?thesis
    using assms(1) Some
    by (auto simp: slice_reads_def load_slice_def counted_def Let_def tget_load_rows split: option.splits)
qed

lemma persist_overlay:
  assumes "sim n p s q"
  shows "persist_slice n s p = durable q"
  using assms
  by (intro projection.equality) (auto simp: sim_def persist_slice_def durable_def tsim_def persist_rows_overlay)

text \<open>The refinement of one append.\<close>

lemma append_record_refines:
  assumes "projection_ok (proj st)" and "addressed th (proj st) f"
    and "append_record th turn producer f st = Inr st'"
  shows "\<exists>q. apply_record (counted (proj st)) (make_record st th turn producer f) = Inr q
    \<and> proj st' = durable q \<and> log st' = log st @ [make_record st th turn producer f]"
proof -
  let ?r = "make_record st th turn producer f"
  from assms(3) obtain s where s: "apply_record (load_slice (proj st) ?r) ?r = Inr s"
    and st': "st' = \<lparr>log = log st @ [?r], proj = persist_slice (rr_seq ?r) s (proj st)\<rparr>"
    by (auto simp: append_record_def Let_def split: if_splits)
  have r: "rr_thread ?r = th" "rr_fact ?r = f" by (simp_all add: make_record_def)
  have a: "addressed (rr_thread ?r) (proj st) (rr_fact ?r)" using assms(2) r by simp
  from sim_apply_record [OF a slice_reads_load [OF a s] sim_load [OF assms(1)] s]
  obtain q where "apply_record (counted (proj st)) ?r = Inr q" "sim (rr_seq ?r) (proj st) s q" by auto
  with st' show ?thesis by (auto simp: persist_overlay)
qed

end
