(* ===== verification/Event_Sourcing.thy ===== *)
theory Event_Sourcing
  imports Rollout_Refinement
begin

text \<open>
  The store is event sourced: the durable tables always equal a replay of the log through the
  reducer, records are numbered without gaps, and the record identities follow the log. Both
  facts are part of \<open>store_ok\<close>, which every append keeps.
\<close>

section \<open>Item counters\<close>

lemma max_or_zero_snoc: "max_or_zero (ns @ [n]) = max (max_or_zero ns) n"
  by (induction ns) (auto simp: max_or_zero_def)

lemma max_or_zero_upper: "n \<in> set ns \<Longrightarrow> n \<le> max_or_zero ns"
  by (induction ns) (auto simp: max_or_zero_def)

lemma map_trows_tput_same:
  assumes "tget t k = Some r" and "g r' = g r"
  shows "map g (trows (tput k r' t)) = map g (trows t)"
  using tput_split [OF assms(1)] assms(2) by (auto simp: trows_def)

lemma last_item_sequence_alt:
  "last_item_sequence p tid = max_or_zero
     (map snd (filter (\<lambda>x. fst x = tid) (map (\<lambda>it. (it_turn it, it_sequence it)) (trows (items p)))))"
  by (simp add: last_item_sequence_def filter_map comp_def)

lemma last_item_sequence_start:
  assumes "tget (items p) iid = None" and "items q = tput iid row (items p)"
  shows "last_item_sequence q tid =
    (if it_turn row = tid then max (last_item_sequence p tid) (it_sequence row) else last_item_sequence p tid)"
proof -
  have "trows (items q) = trows (items p) @ [row]"
    using assms by (simp add: trows_tput_fresh tget_None_iff)
  then show ?thesis by (simp add: last_item_sequence_def max_or_zero_snoc)
qed

lemma counters_step:
  assumes "item_sequences p = last_item_sequence p" and "apply_record p r = Inr q"
    and "addressed (rr_thread r) p (rr_fact r)"
  shows "item_sequences q = last_item_sequence q"
proof (cases "\<exists>f. rr_fact r = ItemFact f")
  case False
  with frame_items [OF assms(2)] assms(1) show ?thesis
    by (auto simp: last_item_sequence_def fun_eq_iff)
next
  case True
  then obtain f where f: "rr_fact r = ItemFact f" by blast
  with assms(2) have q: "apply_item r f p = Inr q"
    by (simp add: apply_record_def apply_fact_def split: if_splits)
  have adv: "items t = items s \<and> item_sequences t = item_sequences s" if "advance r s = Inr t" for s t
    using that by (auto simp: advance_def touch_thread_def mod_thread_def mod_turn_def)
  show ?thesis
  proof (cases f)
    case (ItemStarted iid kind meta)
    with q obtain tid where
      i: "items q = tput iid \<lparr>it_id = iid, it_thread = rr_thread r, it_turn = tid,
          it_sequence = next_item_sequence p tid, it_kind = kind, it_status = ItemStartedStatus,
          it_producer = rr_producer r, it_payload = JObj [], it_seq = rr_seq r\<rparr> (items p)"
      and s: "item_sequences q = (item_sequences p)(tid := next_item_sequence p tid)"
      by (auto simp: turn_of_def put_item_def bump_item_sequence_def dest!: adv)
    have "tget (items p) iid = None" using assms(3) f ItemStarted by simp
    from last_item_sequence_start [OF this i] show ?thesis
      using assms(1) by (auto simp: s next_item_sequence_def fun_eq_iff)
  next
    case (ItemCompleted iid kind payload)
    with q obtain it where it: "tget (items p) iid = Some it"
      and i: "items q = tput iid (it\<lparr>it_status := ItemCompletedStatus, it_payload := payload,
            it_seq := rr_seq r\<rparr>) (items p)"
      and s: "item_sequences q = item_sequences p"
      by (auto simp: lookup_def mod_item_def tmod_eq_Inr split: if_splits dest!: adv)
    have "last_item_sequence q = last_item_sequence p"
      unfolding fun_eq_iff last_item_sequence_alt i
      by (subst map_trows_tput_same [OF it]) simp_all
    with s assms(1) show ?thesis by simp
  next
    case (ArtifactCommitted aid sha sz media name)
    with q have "items q = items p" "item_sequences q = item_sequences p"
      by (auto simp: turn_of_def put_artifact_def dest!: adv)
    with assms(1) show ?thesis by (simp add: last_item_sequence_def fun_eq_iff)
  qed
qed

section \<open>The store invariant\<close>

definition replay :: "rollout_record list \<Rightarrow> projection result" where
  "replay = replay_with apply_record empty_projection"

text \<open>Thread-local numbering without gaps, and record identities in log order.\<close>

definition numbered :: "rollout_record list \<Rightarrow> bool" where
  "numbered rs \<longleftrightarrow> map rr_id rs = [1..<length rs + 1]
     \<and> (\<forall>th. map rr_seq (filter (\<lambda>r. rr_thread r = th) rs)
           = [1..<length (filter (\<lambda>r. rr_thread r = th) rs) + 1])"

definition store_ok :: "store \<Rightarrow> bool" where
  "store_ok st \<longleftrightarrow> replay (log st) = Inr (counted (proj st)) \<and> proj st = durable (proj st)
     \<and> numbered (log st)"

lemma max_or_zero_upt: "max_or_zero [1..<n + 1] = n"
proof (induction n)
  case 0
  then show ?case by (simp add: max_or_zero_def)
next
  case (Suc n)
  have split: "[1..<Suc n + 1] = [1..<n + 1] @ [n + 1]" by simp
  show ?case unfolding split max_or_zero_snoc Suc by simp
qed

lemma numbered_snoc:
  assumes "numbered (log st)"
  shows "numbered (log st @ [make_record st th turn producer f])"
proof -
  let ?n = "length (list_records st th)"
  have "next_sequence st th = ?n + 1"
    using assms unfolding next_sequence_def numbered_def list_records_def
    by (simp only: max_or_zero_upt)
  with assms show ?thesis
    by (auto simp: numbered_def make_record_def list_records_def)
qed

lemma replay_ok: "replay rs = Inr p \<Longrightarrow> projection_ok p"
  unfolding replay_def by (rule tables.replay_holds [OF projection_ok_empty])

lemma projection_ok_counted [simp]: "projection_ok (counted p) = projection_ok p"
  by (simp add: projection_ok_def counted_def)

lemma projection_ok_durable [simp]: "projection_ok (durable p) = projection_ok p"
  by (simp add: projection_ok_def durable_def)

lemma store_ok_projection: "store_ok st \<Longrightarrow> projection_ok (proj st)"
  using replay_ok [of "log st" "counted (proj st)"] by (simp add: store_ok_def)

lemma counted_durable: "item_sequences q = last_item_sequence q \<Longrightarrow> counted (durable q) = q"
  by (simp add: counted_def durable_def last_item_sequence_def [abs_def])

lemma store_ok_append_record:
  assumes "store_ok st" and "addressed th (proj st) f"
    and "append_record th turn producer f st = Inr st'"
  shows "store_ok st'"
proof -
  let ?r = "make_record st th turn producer f"
  from append_record_refines [OF store_ok_projection [OF assms(1)] assms(2,3)] obtain q where
    q: "apply_record (counted (proj st)) ?r = Inr q" and p': "proj st' = durable q"
    and l: "log st' = log st @ [?r]" by auto
  have "addressed (rr_thread ?r) (counted (proj st)) (rr_fact ?r)"
  proof -
    have "addressed a (counted (proj st)) g = addressed a (proj st) g" for a g
      by (induction a "proj st" g rule: addressed.induct) (simp_all add: counted_def)
    with assms(2) show ?thesis by (simp add: make_record_def)
  qed
  then have "item_sequences q = last_item_sequence q"
    by (intro counters_step [OF _ q]) (simp_all add: counted_def last_item_sequence_def [abs_def])
  then have "counted (proj st') = q" by (simp add: p' counted_durable)
  moreover have "replay (log st') = Inr q"
    using assms(1) q by (simp add: l replay_def replay_with_snoc store_ok_def)
  moreover have "numbered (log st')"
    unfolding l using assms(1) by (intro numbered_snoc) (simp add: store_ok_def)
  ultimately show ?thesis by (simp add: store_ok_def p' durable_def)
qed

lemma store_ok_empty: "store_ok empty_store"
  by (simp add: store_ok_def empty_store_def replay_def counted_def durable_def numbered_def
      empty_projection_def last_item_sequence_def [abs_def] max_or_zero_def trows_def)

text \<open>\<open>append_fact\<close> adds only keys that do not change what a fact addresses.\<close>

lemma enrich_addressed: "enrich st f = Inr g \<Longrightarrow> addressed th p g = addressed th p f"
  by (cases "(st, f)" rule: enrich.cases) (auto split: option.splits if_splits)

lemma store_ok_append:
  assumes "store_ok st" and "addressed th (proj st) f" and "append_fact th turn producer f st = Inr st'"
  shows "store_ok st'"
proof -
  from assms(3) obtain g where g: "enrich st f = Inr g" and a: "append_record th turn producer g st = Inr st'"
    by (auto simp: append_fact_def)
  from enrich_addressed [OF g] assms(2) have "addressed th (proj st) g" by simp
  from store_ok_append_record [OF assms(1) this a] show ?thesis .
qed

end
