(* ===== verification/Budget_Accounting.thy ===== *)
theory Budget_Accounting
  imports Budget_Types
begin

text \<open>
  The pure accounting operations of \<open>agent_runtime/budget/accounting.py\<close>: reserving,
  dispatching, settling, releasing and losing track of a reservation, the protected token
  tail, and the conversion of provider usage. A mutation is a pair of the new view and the
  new reservation.
\<close>

type_synonym budget_mutation = "budget_state \<times> budget_reservation"

section \<open>Admission\<close>

text \<open>\<open>_ensure_within_limits\<close>: the first exceeded limit, in field order, is reported.\<close>

fun check_limits :: "usage \<Rightarrow> usage \<Rightarrow> (string \<times> int option \<times> (usage \<Rightarrow> int)) list \<Rightarrow> py_error option" where
  "check_limits e r [] = None"
| "check_limits e r ((name, cap, q) # fs) =
     (case cap of
        None \<Rightarrow> check_limits e r fs
      | Some n \<Rightarrow> if q e + q r > n then Some (BudgetLimitExceeded name n (q e) (q r))
                  else check_limits e r fs)"

definition ensure_within_limits :: "budget_state \<Rightarrow> usage \<Rightarrow> py_error option" where
  "ensure_within_limits s amount = check_limits (exposure s) amount (limit_fields (limits s))"

definition nonblank_reservation :: "budget_reservation \<Rightarrow> bool" where
  "nonblank_reservation r \<longleftrightarrow> \<not> blank (reservation_id r) \<and> \<not> blank (res_scope_id r)
     \<and> \<not> blank (res_operation_id r) \<and> \<not> blank (res_attempt_id r)"

definition reserve :: "budget_state \<Rightarrow> string \<Rightarrow> string \<Rightarrow> string \<Rightarrow> usage \<Rightarrow> budget_mutation result" where
  "reserve s rid op att amount =
     (case ensure_within_limits s amount of
        Some e \<Rightarrow> Inl e
      | None \<Rightarrow>
          (let r = \<lparr>reservation_id = rid, res_scope_id = scope_id s, res_operation_id = op,
                    res_attempt_id = att, res_reserved = amount, res_status = Reserved\<rparr>
           in if nonblank_reservation r then Inr (s\<lparr>reserved := reserved s + amount\<rparr>, r)
              else Inl (ValueError ''must be non-empty'')))"

section \<open>Life of a reservation\<close>

definition mark_dispatched :: "budget_state \<Rightarrow> budget_reservation \<Rightarrow> budget_mutation result" where
  "mark_dispatched s r =
     (if res_status r \<noteq> Reserved then Inl (RuntimeError ''reservation must be reserved'')
      else Inr (s, r\<lparr>res_status := Dispatched\<rparr>))"

definition settle :: "budget_state \<Rightarrow> budget_reservation \<Rightarrow> usage \<Rightarrow> budget_mutation result" where
  "settle s r actual =
     (if res_status r \<notin> {Reserved, Dispatched, Unknown}
      then Inl (RuntimeError ''cannot settle reservation'')
      else
        let base = (if res_status r = Unknown
                    then s\<lparr>uncertain := subtract_floor_zero (uncertain s) (res_reserved r)\<rparr>
                    else s\<lparr>reserved := subtract_floor_zero (reserved s) (res_reserved r)\<rparr>)
        in Inr (base\<lparr>used := used base + actual\<rparr>, r\<lparr>res_status := Settled\<rparr>))"

definition release :: "budget_state \<Rightarrow> budget_reservation \<Rightarrow> budget_mutation result" where
  "release s r =
     (if res_status r = Unknown then
        Inr (s\<lparr>uncertain := subtract_floor_zero (uncertain s) (res_reserved r)\<rparr>,
             r\<lparr>res_status := Released\<rparr>)
      else if res_status r \<in> {Reserved, Dispatched} then
        Inr (s\<lparr>reserved := subtract_floor_zero (reserved s) (res_reserved r)\<rparr>,
             r\<lparr>res_status := Released\<rparr>)
      else Inl (RuntimeError ''cannot release reservation''))"

definition mark_unknown :: "budget_state \<Rightarrow> budget_reservation \<Rightarrow> budget_mutation result" where
  "mark_unknown s r =
     (if res_status r \<noteq> Dispatched then Inl (RuntimeError ''reservation must be dispatched'')
      else Inr (s\<lparr>reserved := subtract_floor_zero (reserved s) (res_reserved r),
                  uncertain := uncertain s + res_reserved r\<rparr>,
                r\<lparr>res_status := Unknown\<rparr>))"

section \<open>Provider usage\<close>

text \<open>\<open>count(*keys)\<close>: the first key holding a non-negative integer, otherwise 0.\<close>

fun usage_count :: "json \<Rightarrow> string list \<Rightarrow> int" where
  "usage_count v [] = 0"
| "usage_count v (k # ks) =
     (case as_int (jget v k) of
        Some n \<Rightarrow> if 0 \<le> n then n else usage_count v ks
      | None \<Rightarrow> usage_count v ks)"

definition resource_usage_from_model_usage :: "json \<Rightarrow> usage" where
  "resource_usage_from_model_usage v = Usage
     (usage_count v [''input_tokens''])
     (usage_count v [''cached_input_tokens'', ''cache_read_input_tokens''])
     (usage_count v [''cache_write_tokens'', ''cache_write_input_tokens''])
     (usage_count v [''output_tokens''])
     (usage_count v [''reasoning_tokens''])
     (usage_count v [''cost_micros''])
     1 0 0 0
     (usage_count v [''model_ms'']) 0 (usage_count v [''wall_ms''])
     0 (usage_count v [''network_bytes'']) 0"

section \<open>The protected token tail\<close>

definition protected_tokens_for_limit :: "int option \<Rightarrow> int result" where
  "protected_tokens_for_limit cap = (case cap of
       None \<Rightarrow> Inr 0
     | Some n \<Rightarrow>
         if n < 0 then Inl (ValueError ''token limit must be a non-negative integer or None'')
         else if n \<le> 1 then Inr 0
         else Inr (min (min 8192 (max 1 (n div 10))) (n - 1)))"

definition pressure_threshold_for_limit :: "int option \<Rightarrow> int result" where
  "pressure_threshold_for_limit cap =
     ebind (protected_tokens_for_limit cap) (\<lambda>p.
       case cap of None \<Rightarrow> Inr 0
       | Some n \<Rightarrow> if p = 0 then Inr 0 else Inr (min n (p * 2)))"

definition normal_token_remaining :: "budget_state \<Rightarrow> int option result" where
  "normal_token_remaining s = (case remaining_tokens s of
       None \<Rightarrow> Inr None
     | Some n \<Rightarrow> ebind (protected_tokens_for_limit (lim_tokens (limits s)))
                  (\<lambda>p. Inr (Some (max (n - p) 0))))"

definition budget_pressure_active :: "budget_state \<Rightarrow> bool result" where
  "budget_pressure_active s =
     ebind (pressure_threshold_for_limit (lim_tokens (limits s))) (\<lambda>th.
       if th \<le> 0 then Inr False
       else Inr (case remaining_tokens s of None \<Rightarrow> False | Some n \<Rightarrow> n \<le> th))"

definition ensure_token_headroom :: "budget_state \<Rightarrow> int \<Rightarrow> bool \<Rightarrow> unit result" where
  "ensure_token_headroom s requested allow_protected =
     (if requested < 0 then Inl (ValueError ''requested_tokens must be a non-negative integer'')
      else case lim_tokens (limits s) of
          None \<Rightarrow> Inr ()
        | Some n \<Rightarrow>
            ebind (protected_tokens_for_limit (Some n)) (\<lambda>p.
              let effective = (if allow_protected then n else max (n - p) 0);
                  current = total_tokens (exposure s)
              in if current + requested > effective
                 then Inl (BudgetLimitExceeded ''tokens'' effective current requested)
                 else Inr ()))"

section \<open>Laws of the accounting\<close>

lemma check_limits_None:
  "check_limits e r fs = None \<longleftrightarrow>
     (\<forall>(name, cap, q) \<in> set fs. \<forall>n. cap = Some n \<longrightarrow> q e + q r \<le> n)"
  by (induction fs) (auto split: option.splits if_splits)

lemma check_limits_Some:
  "check_limits e r fs = Some x \<Longrightarrow>
     \<exists>name n q. (name, Some n, q) \<in> set fs \<and> q e + q r > n \<and> x = BudgetLimitExceeded name n (q e) (q r)"
proof (induction fs)
  case Nil
  then show ?case by simp
next
  case (Cons f fs)
  obtain name cap q where f: "f = (name, cap, q)" by (cases f)
  show ?case
  proof (cases "check_limits e r fs = Some x")
    case True
    with Cons.IH show ?thesis by fastforce
  next
    case False
    with Cons.prems f obtain n where "cap = Some n" "q e + q r > n"
      "x = BudgetLimitExceeded name n (q e) (q r)"
      by (auto split: option.splits if_splits)
    with f show ?thesis by auto
  qed
qed

lemma reserveD:
  assumes "reserve s rid op att amount = Inr (s', r)"
  shows "ensure_within_limits s amount = None"
    and "s' = s\<lparr>reserved := reserved s + amount\<rparr>"
    and "res_reserved r = amount" "res_status r = Reserved" "res_attempt_id r = att"
    and "reservation_id r = rid" "res_operation_id r = op" "res_scope_id r = scope_id s"
  using assms by (auto simp: reserve_def Let_def split: option.splits if_splits)

lemma exposure_reserve: "exposure (s\<lparr>reserved := reserved s + a\<rparr>) = exposure s + a"
  by (simp add: exposure_def ac_simps)

text \<open>The protected tail lies strictly below every limit above one, and is at least one token.\<close>

lemma protected_bounds:
  assumes "protected_tokens_for_limit (Some n) = Inr p"
  shows "0 \<le> p" and "p \<le> 8192" and "n > 1 \<Longrightarrow> 1 \<le> p \<and> p < n" and "n \<le> 1 \<Longrightarrow> p = 0"
  using assms by (auto simp: protected_tokens_for_limit_def split: if_splits)

lemma usage_count_nonneg: "0 \<le> usage_count v ks"
  by (induction ks) (auto split: option.splits)

lemma usage_ok_model_usage [simp]: "usage_ok (resource_usage_from_model_usage v)"
  by (simp add: resource_usage_from_model_usage_def usage_defs usage_count_nonneg del: usage_count.simps)

lemma model_calls_model_usage [simp]: "model_calls (resource_usage_from_model_usage v) = 1"
  by (simp add: resource_usage_from_model_usage_def)

text \<open>
  Which statuses can follow a status: \<open>Settled\<close> and \<open>Released\<close> are final, and uncertainty is
  reached only from a dispatched reservation.
\<close>

fun may_follow :: "reservation_status \<Rightarrow> reservation_status \<Rightarrow> bool" where
  "may_follow Reserved Dispatched = True"
| "may_follow Dispatched Unknown = True"
| "may_follow Reserved s = (s = Settled \<or> s = Released)"
| "may_follow Dispatched s = (s = Settled \<or> s = Released)"
| "may_follow Unknown s = (s = Settled \<or> s = Released)"
| "may_follow Settled s = False"
| "may_follow Released s = False"

definition open_reservation :: "reservation_status \<Rightarrow> bool" where
  "open_reservation st \<longleftrightarrow> st = Reserved \<or> st = Dispatched \<or> st = Unknown"

text \<open>
  The contract the ledger of reservations relies on, over an abstract set of operations: an
  outcome closes the reservation, moves its held amount out of the view and books only what
  the outcome reports. \<open>held\<close> is the exposure of everything but the reservation itself.
\<close>

locale reservation_ledger =
  fixes dispatch :: "budget_state \<Rightarrow> budget_reservation \<Rightarrow> budget_mutation result"
    and finish :: "budget_state \<Rightarrow> budget_reservation \<Rightarrow> usage \<Rightarrow> budget_mutation result"
    and drop_hold :: "budget_state \<Rightarrow> budget_reservation \<Rightarrow> budget_mutation result"
    and lose :: "budget_state \<Rightarrow> budget_reservation \<Rightarrow> budget_mutation result"
    and holds_amount :: "budget_state \<Rightarrow> budget_reservation \<Rightarrow> bool"
  assumes dispatch_law: "dispatch s r = Inr (s', r') \<Longrightarrow>
      exposure s' = exposure s \<and> res_status r = Reserved \<and> r' = r\<lparr>res_status := Dispatched\<rparr>"
    and finish_law: "holds_amount s r \<Longrightarrow> finish s r a = Inr (s', r') \<Longrightarrow>
      exposure s' + res_reserved r = exposure s + a
      \<and> open_reservation (res_status r) \<and> r' = r\<lparr>res_status := Settled\<rparr>"
    and drop_law: "holds_amount s r \<Longrightarrow> drop_hold s r = Inr (s', r') \<Longrightarrow>
      exposure s' + res_reserved r = exposure s
      \<and> open_reservation (res_status r) \<and> r' = r\<lparr>res_status := Released\<rparr>"
    and lose_law: "holds_amount s r \<Longrightarrow> lose s r = Inr (s', r') \<Longrightarrow>
      exposure s' = exposure s \<and> res_status r = Dispatched \<and> r' = r\<lparr>res_status := Unknown\<rparr>"
begin

lemma status_follows:
  assumes "holds_amount s r"
  shows "dispatch s r = Inr (s', r') \<Longrightarrow> may_follow (res_status r) (res_status r')"
    and "finish s r a = Inr (s', r') \<Longrightarrow> may_follow (res_status r) (res_status r')"
    and "drop_hold s r = Inr (s', r') \<Longrightarrow> may_follow (res_status r) (res_status r')"
    and "lose s r = Inr (s', r') \<Longrightarrow> may_follow (res_status r) (res_status r')"
proof -
  show "dispatch s r = Inr (s', r') \<Longrightarrow> may_follow (res_status r) (res_status r')"
    using dispatch_law by fastforce
  show "finish s r a = Inr (s', r') \<Longrightarrow> may_follow (res_status r) (res_status r')"
    using finish_law [OF assms] by (fastforce simp: open_reservation_def)
  show "drop_hold s r = Inr (s', r') \<Longrightarrow> may_follow (res_status r) (res_status r')"
    using drop_law [OF assms] by (fastforce simp: open_reservation_def)
  show "lose s r = Inr (s', r') \<Longrightarrow> may_follow (res_status r) (res_status r')"
    using lose_law [OF assms] by fastforce
qed

text \<open>Losing track of a call frees nothing; releasing it gives back exactly what was held.\<close>

lemma lose_then_drop:
  assumes "holds_amount s r" and "lose s r = Inr (s1, r1)"
    and "holds_amount s1 r1" and "drop_hold s1 r1 = Inr (s2, r2)"
  shows "exposure s2 + res_reserved r = exposure s"
  using assms lose_law [of s r s1 r1] drop_law [of s1 r1 s2 r2] by simp

lemma lose_then_finish:
  assumes "holds_amount s r" and "lose s r = Inr (s1, r1)"
    and "holds_amount s1 r1" and "finish s1 r1 a = Inr (s2, r2)"
  shows "exposure s2 + res_reserved r = exposure s + a"
  using assms lose_law [of s r s1 r1] finish_law [of s1 r1 a s2 r2] by simp

text \<open>A closed reservation accepts no further outcome.\<close>

lemma closed_is_final:
  assumes "holds_amount s r" and "\<not> open_reservation (res_status r)"
  shows "\<exists>e. finish s r a = Inl e" and "\<exists>e. drop_hold s r = Inl e" and "\<exists>e. lose s r = Inl e"
proof -
  show "\<exists>e. finish s r a = Inl e"
  proof (cases "finish s r a")
    case (Inr p)
    then show ?thesis using assms finish_law [of s r a "fst p" "snd p"] by simp
  qed simp
  show "\<exists>e. drop_hold s r = Inl e"
  proof (cases "drop_hold s r")
    case (Inr p)
    then show ?thesis using assms drop_law [of s r "fst p" "snd p"] by simp
  qed simp
  show "\<exists>e. lose s r = Inl e"
  proof (cases "lose s r")
    case (Inr p)
    then show ?thesis
      using assms lose_law [of s r "fst p" "snd p"] by (simp add: open_reservation_def)
  qed simp
qed

end

text \<open>The amount of a reservation is part of the bucket its status names.\<close>

definition bucket_holds :: "budget_state \<Rightarrow> budget_reservation \<Rightarrow> bool" where
  "bucket_holds s r \<longleftrightarrow>
     (if res_status r = Unknown then \<exists>u. usage_ok u \<and> uncertain s = u + res_reserved r
      else \<exists>u. usage_ok u \<and> reserved s = u + res_reserved r)"

interpretation ledger: reservation_ledger mark_dispatched settle release mark_unknown bucket_holds
proof unfold_locales
  fix s r s' r' a
  show "mark_dispatched s r = Inr (s', r') \<Longrightarrow>
      exposure s' = exposure s \<and> res_status r = Reserved \<and> r' = r\<lparr>res_status := Dispatched\<rparr>"
    by (auto simp: mark_dispatched_def split: if_splits)
  show "bucket_holds s r \<Longrightarrow> settle s r a = Inr (s', r') \<Longrightarrow>
      exposure s' + res_reserved r = exposure s + a
      \<and> open_reservation (res_status r) \<and> r' = r\<lparr>res_status := Settled\<rparr>"
    by (auto simp: settle_def bucket_holds_def exposure_def open_reservation_def Let_def ac_simps
        split: if_splits)
  show "bucket_holds s r \<Longrightarrow> release s r = Inr (s', r') \<Longrightarrow>
      exposure s' + res_reserved r = exposure s
      \<and> open_reservation (res_status r) \<and> r' = r\<lparr>res_status := Released\<rparr>"
    by (auto simp: release_def bucket_holds_def exposure_def open_reservation_def ac_simps
        split: if_splits)
  show "bucket_holds s r \<Longrightarrow> mark_unknown s r = Inr (s', r') \<Longrightarrow>
      exposure s' = exposure s \<and> res_status r = Dispatched \<and> r' = r\<lparr>res_status := Unknown\<rparr>"
    by (auto simp: mark_unknown_def bucket_holds_def exposure_def ac_simps split: if_splits)
qed

lemma bucket_holds_after_lose:
  "usage_ok (uncertain s) \<Longrightarrow> mark_unknown s r = Inr (s', r') \<Longrightarrow> bucket_holds s' r'"
  by (auto simp: mark_unknown_def bucket_holds_def split: if_splits)

lemma bucket_holds_after_reserve:
  "usage_ok (reserved s) \<Longrightarrow> reserve s rid op att a = Inr (s', r) \<Longrightarrow> bucket_holds s' r"
  by (auto simp: reserve_def bucket_holds_def Let_def split: option.splits if_splits)

end
