(* ===== verification/Model_Values.thy ===== *)
theory Model_Values
  imports Json
begin

text \<open>
  The value objects of one model call: generated outputs (\<open>modeling/events.py\<close>), the response
  of \<open>harness/protocol.py\<close> with its stored form, and the failure facts of
  \<open>modeling/failures.py\<close>. The check of \<open>ModelOutput\<close> that raw tool-argument text parses to the
  recorded arguments needs a JSON parser and is left out; so is the classification of SDK
  exceptions.
\<close>

section \<open>Outputs\<close>

record model_output =
  out_id :: string
  out_kind :: string
  out_content :: string
  out_call :: "string option"
  out_tool :: "string option"
  out_arguments :: json
  out_argument_error :: "string option"
  out_provider_data :: json

definition output_kinds :: "string list" where
  "output_kinds = [''text'', ''reasoning'', ''reasoning_summary'', ''plan'', ''tool_call'', ''refusal'']"

text \<open>\<open>__post_init__\<close> of \<open>ModelOutput\<close>: the first failed check is the error raised.\<close>

definition output_error :: "model_output \<Rightarrow> py_error option" where
  "output_error v =
     (if out_id v = [] then Some (ValueError ''model output_id must be a non-empty string'')
      else if out_kind v \<notin> set output_kinds then Some (ValueError ''unsupported model output kind'')
      else if (case out_argument_error v of None \<Rightarrow> False | Some e \<Rightarrow> blank e)
      then Some (ValueError ''model output argument_error must be a non-empty string or None'')
      else if out_kind v = ''tool_call'' then
        (if out_call v \<in> {None, Some []} \<or> out_tool v \<in> {None, Some []}
         then Some (ValueError ''tool output requires tool_call_id and tool_name'') else None)
      else if out_call v \<noteq> None \<or> out_tool v \<noteq> None \<or> out_arguments v \<noteq> JNull \<or> out_argument_error v \<noteq> None
      then Some (ValueError ''tool fields are only valid on tool_call outputs'')
      else None)"

definition output_valid :: "model_output \<Rightarrow> bool" where
  "output_valid v \<longleftrightarrow> output_error v = None \<and> (out_arguments v = JNull \<or> is_obj (out_arguments v))
     \<and> is_obj (out_provider_data v)"

text \<open>\<open>validate_model_outputs\<close>\<close>

definition outputs_error :: "model_output list \<Rightarrow> py_error option" where
  "outputs_error os =
     (if \<not> distinct (map out_id os) then Some (ValueError ''model output IDs must be unique within a response'')
      else if \<not> distinct (map out_call (filter (\<lambda>v. out_kind v = ''tool_call'') os))
      then Some (ValueError ''model tool call IDs must be unique within a response'')
      else None)"

text \<open>\<open>output_to_payload\<close> and \<open>output_from_payload\<close>; the stored form is key-sorted.\<close>

definition output_to_payload :: "model_output \<Rightarrow> json" where
  "output_to_payload v = JObj
     [(''argument_error'', of_opt_str (out_argument_error v)), (''arguments'', out_arguments v),
      (''content'', JStr (out_content v)), (''kind'', JStr (out_kind v)),
      (''output_id'', JStr (out_id v)), (''provider_data'', out_provider_data v),
      (''tool_call_id'', of_opt_str (out_call v)), (''tool_name'', of_opt_str (out_tool v))]"

definition str_field :: "json \<Rightarrow> string \<Rightarrow> string result" where
  "str_field v k = require (as_str (jget v k)) (TypeError k)"

definition opt_str_field :: "json \<Rightarrow> string \<Rightarrow> string option result" where
  "opt_str_field v k = (case jget v k of JNull \<Rightarrow> Inr None | JStr s \<Rightarrow> Inr (Some s) | _ \<Rightarrow> Inl (TypeError k))"

definition output_from_payload :: "json \<Rightarrow> model_output result" where
  "output_from_payload v =
     ebind (str_field v ''output_id'') (\<lambda>i. ebind (str_field v ''kind'') (\<lambda>k.
     ebind (str_field v ''content'') (\<lambda>c. ebind (opt_str_field v ''tool_call_id'') (\<lambda>call.
     ebind (opt_str_field v ''tool_name'') (\<lambda>tool. ebind (opt_str_field v ''argument_error'') (\<lambda>err.
       let x = \<lparr>out_id = i, out_kind = k, out_content = c, out_call = call, out_tool = tool,
                out_arguments = jget v ''arguments'', out_argument_error = err,
                out_provider_data = jget v ''provider_data''\<rparr>
       in case output_error x of
            Some e \<Rightarrow> Inl e
          | None \<Rightarrow>
              if out_arguments x \<noteq> JNull \<and> \<not> is_obj (out_arguments x) \<or> \<not> is_obj (out_provider_data x)
              then Inl (TypeError ''model JSON object must be a mapping'')
              else Inr x))))))"

lemma opt_str_field_of [simp]: "jget v k = of_opt_str x \<Longrightarrow> opt_str_field v k = Inr x"
  by (cases x) (simp_all add: opt_str_field_def of_opt_str_def)

lemma str_field_of [simp]: "jget v k = JStr s \<Longrightarrow> str_field v k = Inr s"
  by (simp add: str_field_def)

lemma output_payload_inverse: "output_valid v \<Longrightarrow> output_from_payload (output_to_payload v) = Inr v"
  by (cases v) (auto simp: output_from_payload_def output_to_payload_def output_valid_def Let_def)

section \<open>Responses\<close>

record model_response =
  re_outputs :: "model_output list"
  re_provider :: "string option"
  re_usage :: json
  re_status :: string
  re_incomplete :: "string option"
  re_stop :: "string option"

text \<open>\<open>__post_init__\<close> of \<open>HarnessModelResponse\<close>\<close>

definition response_error :: "model_response \<Rightarrow> py_error option" where
  "response_error v = (case outputs_error (re_outputs v) of
       Some e \<Rightarrow> Some e
     | None \<Rightarrow>
         if \<not> is_obj (re_usage v) then Some (TypeError ''usage'')
         else if re_status v \<notin> {''completed'', ''incomplete''}
         then Some (ValueError ''unsupported model response status'')
         else if re_status v = ''completed'' \<and> re_incomplete v \<noteq> None
         then Some (ValueError ''completed model response cannot have an incomplete reason'')
         else if re_status v = ''incomplete'' \<and> re_incomplete v \<in> {None, Some []}
         then Some (ValueError ''incomplete model response requires a reason'')
         else None)"

definition response_valid :: "model_response \<Rightarrow> bool" where
  "response_valid v \<longleftrightarrow> response_error v = None \<and> list_all output_valid (re_outputs v)"

definition outputs_text :: "model_output list \<Rightarrow> string" where
  "outputs_text os = concat (map out_content (filter (\<lambda>v. out_kind v \<in> {''text'', ''refusal''}) os))"

definition response_text :: "model_response \<Rightarrow> string" where
  "response_text v = outputs_text (re_outputs v)"

text \<open>Tool calls are exposed only by a completed response.\<close>

definition response_tool_calls :: "model_response \<Rightarrow> model_output list" where
  "response_tool_calls v = (if re_status v = ''completed''
     then filter (\<lambda>x. out_kind x = ''tool_call'') (re_outputs v) else [])"

definition model_response_payload :: "model_response \<Rightarrow> json" where
  "model_response_payload v = JObj
     [(''incomplete_reason'', of_opt_str (re_incomplete v)),
      (''outputs'', JArr (map output_to_payload (re_outputs v))),
      (''provider_response_id'', of_opt_str (re_provider v)),
      (''response_status'', JStr (re_status v)),
      (''stop_reason'', of_opt_str (re_stop v)),
      (''usage'', re_usage v)]"

fun sequence_result :: "'a result list \<Rightarrow> 'a list result" where
  "sequence_result [] = Inr []"
| "sequence_result (x # xs) = ebind x (\<lambda>a. ebind (sequence_result xs) (\<lambda>as. Inr (a # as)))"

definition restore_model_response :: "json \<Rightarrow> model_response result" where
  "restore_model_response v =
     ebind (require (as_list (jget v ''outputs'')) (KeyError ''outputs'')) (\<lambda>xs.
     ebind (sequence_result (map output_from_payload xs)) (\<lambda>os.
     ebind (opt_str_field v ''provider_response_id'') (\<lambda>pr.
     ebind (str_field v ''response_status'') (\<lambda>st.
     ebind (opt_str_field v ''incomplete_reason'') (\<lambda>inc.
     ebind (opt_str_field v ''stop_reason'') (\<lambda>stop.
       let x = \<lparr>re_outputs = os, re_provider = pr, re_usage = jget v ''usage'', re_status = st,
                re_incomplete = inc, re_stop = stop\<rparr>
       in case response_error x of Some e \<Rightarrow> Inl e | None \<Rightarrow> Inr x))))))"

lemma sequence_outputs:
  "list_all output_valid os \<Longrightarrow> sequence_result (map output_from_payload (map output_to_payload os)) = Inr os"
  by (induction os) (simp_all add: output_payload_inverse)

lemma restore_response_inverse:
  "response_valid v \<Longrightarrow> restore_model_response (model_response_payload v) = Inr v"
  using sequence_outputs [of "re_outputs v"]
  by (cases v) (auto simp: restore_model_response_def model_response_payload_def response_valid_def Let_def comp_def)

section \<open>Failures\<close>

datatype failure_kind =
    Authentication | PermissionDenied | InvalidRequest | ContextOverflow | RateLimited
  | QuotaExhausted | ServerError | TransportNotSent | TransportUnknown | ProtocolError

datatype provider_outcome = NotSent | RejectedOutcome | UnknownOutcome

datatype billing_outcome = BillingReleased | BillingUnknown

fun kind_name :: "failure_kind \<Rightarrow> string" where
  "kind_name Authentication = ''authentication''"
| "kind_name PermissionDenied = ''permission''"
| "kind_name InvalidRequest = ''invalid_request''"
| "kind_name ContextOverflow = ''context_overflow''"
| "kind_name RateLimited = ''rate_limited''"
| "kind_name QuotaExhausted = ''quota_exhausted''"
| "kind_name ServerError = ''server_error''"
| "kind_name TransportNotSent = ''transport_not_sent''"
| "kind_name TransportUnknown = ''transport_unknown''"
| "kind_name ProtocolError = ''protocol_error''"

fun outcome_name :: "provider_outcome \<Rightarrow> string" where
  "outcome_name NotSent = ''not_sent''"
| "outcome_name RejectedOutcome = ''rejected''"
| "outcome_name UnknownOutcome = ''unknown''"

fun billing_name :: "billing_outcome \<Rightarrow> string" where
  "billing_name BillingReleased = ''released''"
| "billing_name BillingUnknown = ''unknown''"

text \<open>\<open>_MESSAGES\<close>\<close>

fun failure_message :: "failure_kind \<Rightarrow> string" where
  "failure_message Authentication = ''Provider authentication failed.''"
| "failure_message PermissionDenied = ''Provider permission denied.''"
| "failure_message InvalidRequest = ''Provider rejected the model request.''"
| "failure_message ContextOverflow = ''Provider context window exceeded.''"
| "failure_message RateLimited = ''Provider rate limit reached.''"
| "failure_message QuotaExhausted = ''Provider quota exhausted.''"
| "failure_message ServerError = ''Provider server failed.''"
| "failure_message TransportNotSent = ''Provider connection failed before the request was sent.''"
| "failure_message TransportUnknown = ''Provider transport failed; request outcome is unknown.''"
| "failure_message ProtocolError = ''Provider response violated the model protocol.''"

record model_failure =
  fl_kind :: failure_kind
  fl_provider :: provider_outcome
  fl_billing :: billing_outcome
  fl_retry_at :: "real option"
  fl_retryable :: bool
  fl_output_started :: bool

text \<open>\<open>__post_init__\<close>: once output started, nothing is known and nothing is retried.\<close>

definition make_failure :: "model_failure \<Rightarrow> model_failure" where
  "make_failure f = (if fl_output_started f
     then f\<lparr>fl_retryable := False, fl_provider := UnknownOutcome, fl_billing := BillingUnknown\<rparr> else f)"

definition failure_ok :: "model_failure \<Rightarrow> bool" where
  "failure_ok f \<longleftrightarrow> make_failure f = f"

text \<open>\<open>to_payload\<close>, restricted to the keys of the fields above.\<close>

definition failure_to_payload :: "model_failure \<Rightarrow> json" where
  "failure_to_payload f = JObj
     [(''billing_outcome'', JStr (billing_name (fl_billing f))),
      (''kind'', JStr (kind_name (fl_kind f))),
      (''message'', JStr (failure_message (fl_kind f))),
      (''output_started'', JBool (fl_output_started f)),
      (''provider_outcome'', JStr (outcome_name (fl_provider f))),
      (''retry_at'', (case fl_retry_at f of None \<Rightarrow> JNull | Some t \<Rightarrow> JFloat t)),
      (''retryable'', JBool (fl_retryable f))]"

lemma make_failure_idem [simp]: "make_failure (make_failure f) = make_failure f"
  by (simp add: make_failure_def)

lemma failure_ok_started: "failure_ok f \<Longrightarrow> fl_output_started f \<Longrightarrow> \<not> fl_retryable f \<and> fl_provider f = UnknownOutcome"
  by (cases f) (auto simp: failure_ok_def make_failure_def)

end
