(* ===== verification/Runtime_Store.thy ===== *)
theory Runtime_Store
  imports Event_Sourcing Budget_Accounting Model_Values
begin

text \<open>
  The queries of \<open>harness/runtime_store.py\<close> over the projection and the log. A query that
  looks up a primary key is \<open>tget\<close>; a filtered query keeps insertion order, which is the
  \<open>rowid\<close> order of the tables.
\<close>

section \<open>Rows\<close>

definition select_rows :: "('r \<Rightarrow> bool) \<Rightarrow> 'r table \<Rightarrow> 'r list" where
  "select_rows P t = filter P (trows t)"

definition first_row :: "('r \<Rightarrow> bool) \<Rightarrow> 'r table \<Rightarrow> 'r option" where
  "first_row P t = find P (trows t)"

definition read_thread :: "store \<Rightarrow> string \<Rightarrow> thread_row result" where
  "read_thread st k = require (tget (threads (proj st)) k) (KeyError ''unknown thread'')"

definition read_turn :: "store \<Rightarrow> string \<Rightarrow> turn_row result" where
  "read_turn st k = require (tget (turns (proj st)) k) (KeyError ''unknown turn'')"

definition read_item :: "store \<Rightarrow> string \<Rightarrow> item_row result" where
  "read_item st k = require (tget (items (proj st)) k) (KeyError ''unknown Item'')"

definition read_tool_operation :: "store \<Rightarrow> string \<Rightarrow> tool_op_row result" where
  "read_tool_operation st k = require (tget (tool_operations (proj st)) k) (KeyError ''unknown tool operation'')"

definition read_interaction :: "store \<Rightarrow> string \<Rightarrow> interaction_row result" where
  "read_interaction st k = require (tget (interactions (proj st)) k) (KeyError ''unknown interaction'')"

definition read_model_operation :: "store \<Rightarrow> string \<Rightarrow> model_op_row result" where
  "read_model_operation st k = require (tget (model_operations (proj st)) k) (KeyError ''unknown model operation'')"

text \<open>Items of a Turn in sequence order.\<close>

definition list_items :: "store \<Rightarrow> string \<Rightarrow> item_row list" where
  "list_items st tid = sort_key it_sequence (select_rows (\<lambda>x. it_turn x = tid) (items (proj st)))"

definition list_model_operations :: "store \<Rightarrow> string \<Rightarrow> model_op_row list" where
  "list_model_operations st tid = select_rows (\<lambda>x. mo_turn x = tid) (model_operations (proj st))"

definition list_model_attempts :: "store \<Rightarrow> string \<Rightarrow> attempt_row list" where
  "list_model_attempts st op = sort_key ma_generation (select_rows (\<lambda>x. ma_op x = op) (model_attempts (proj st)))"

definition list_tool_operations :: "store \<Rightarrow> string \<Rightarrow> tool_op_row list" where
  "list_tool_operations st tid = select_rows (\<lambda>x. to_turn x = tid) (tool_operations (proj st))"

definition list_interactions :: "store \<Rightarrow> string \<Rightarrow> interaction_row list" where
  "list_interactions st tid = select_rows (\<lambda>x. in_turn x = tid) (interactions (proj st))"

text \<open>\<open>harness/protocol.py: item_text\<close>\<close>

definition item_text :: "item_row \<Rightarrow> string result" where
  "item_text it =
     (if it_kind it \<in> {''model_response'', ''context_summary_response''}
      then ebind (restore_model_response (it_payload it)) (\<lambda>r. Inr (response_text r))
      else Inr (case jget_or (it_payload it) ''text'' (JStr []) of JStr s \<Rightarrow> s | _ \<Rightarrow> []))"

section \<open>User input\<close>

definition user_input_revision :: "store \<Rightarrow> string \<Rightarrow> int" where
  "user_input_revision st tid = int (length (select_rows
     (\<lambda>x. it_turn x = tid \<and> it_kind x = ''user_message'' \<and> it_status x = ItemCompletedStatus)
     (items (proj st))))"

definition request_input_revision :: "json \<Rightarrow> int result" where
  "request_input_revision ref = (case as_int (jget ref ''input_revision'') of
       Some n \<Rightarrow> if 1 \<le> n then Inr n
                 else Inl (ValueError ''model request input_revision must be a positive integer'')
     | None \<Rightarrow> Inl (ValueError ''model request input_revision must be a positive integer''))"

fun dispatched_operation :: "fact \<Rightarrow> string option" where
  "dispatched_operation (ModelFact (ModelAttemptDispatched op _ _ _ _)) = Some op"
| "dispatched_operation _ = None"

fun dispatched_attempt :: "fact \<Rightarrow> string option" where
  "dispatched_attempt (ModelFact (ModelAttemptDispatched _ att _ _ _)) = Some att"
| "dispatched_attempt _ = None"

text \<open>A request that was dispatched for the steering receipt's revision or a later one.\<close>

definition consumes_input :: "store \<Rightarrow> item_row \<Rightarrow> int \<Rightarrow> model_op_row \<Rightarrow> bool" where
  "consumes_input st it wanted m \<longleftrightarrow>
     jget (mo_request_ref m) ''purpose'' = JStr ''agent_step''
     \<and> (case as_int (jget (mo_request_ref m) ''input_revision'') of
          None \<Rightarrow> False | Some n \<Rightarrow> 0 < n \<and> wanted \<le> n)
     \<and> Some (mo_id m) \<in> set (map (dispatched_operation \<circ> rr_fact) (list_turn_records st (it_turn it)))"

definition turn_input_status :: "store \<Rightarrow> string \<Rightarrow> string result" where
  "turn_input_status st iid = ebind (read_item st iid) (\<lambda>it.
     if it_kind it \<noteq> ''user_message'' \<or> jfind (it_payload it) ''input_revision'' = None
     then Inl (ValueError ''Item is not a steering receipt'')
     else ebind (require (as_int (jget (it_payload it) ''input_revision'')) (TypeError ''input_revision''))
       (\<lambda>wanted.
          if \<exists>m \<in> set (list_model_operations st (it_turn it)). consumes_input st it wanted m
          then Inr ''applied''
          else ebind (read_turn st (it_turn it)) (\<lambda>tu.
            Inr (if open_turn (tu_status tu) then ''pending'' else ''unconsumed''))))"

section \<open>Cancellation and its lineage\<close>

fun stop_fact :: "fact \<Rightarrow> bool option" where
  "stop_fact (TurnFact (TurnCancellationRequested _)) = Some True"
| "stop_fact (TurnFact (TurnResumed _)) = Some False"
| "stop_fact _ = None"

text \<open>The latest cancellation or resume fact decides.\<close>

definition turn_cancellation_pending :: "store \<Rightarrow> string \<Rightarrow> bool" where
  "turn_cancellation_pending st tid =
     (case find (\<lambda>r. stop_fact (rr_fact r) \<noteq> None) (rev (list_turn_records st tid)) of
        None \<Rightarrow> False | Some r \<Rightarrow> stop_fact (rr_fact r) = Some True)"

definition turn_revoked :: "store \<Rightarrow> string \<Rightarrow> turn_row \<Rightarrow> bool" where
  "turn_revoked st tid tu \<longleftrightarrow> turn_cancellation_pending st tid \<or> terminal_turn (tu_status tu)"

definition parent_allocation :: "store \<Rightarrow> string \<Rightarrow> allocation_row option" where
  "parent_allocation st tid = first_row (\<lambda>x. al_child x = tid) (child_budget_allocations (proj st))"

text \<open>
  \<open>turn_admission_revoked_by\<close>: the walk up the child allocations. It visits a Turn once, so it
  ends after at most as many steps as there are Turns.
\<close>

function revoked_walk :: "store \<Rightarrow> string list \<Rightarrow> string \<Rightarrow> string option result" where
  "revoked_walk st seen cur =
     (if cur \<in> set seen then Inl (RuntimeError ''child allocation ancestry contains a cycle'')
      else case tget (turns (proj st)) cur of
          None \<Rightarrow> Inl (KeyError ''unknown turn'')
        | Some tu \<Rightarrow>
            if turn_revoked st cur tu then Inr (Some cur)
            else case parent_allocation st cur of
                None \<Rightarrow> Inr None
              | Some al \<Rightarrow> revoked_walk st (cur # seen) (al_parent al))"
  by pat_completeness auto

termination
proof (relation "measure (\<lambda>(st, seen, cur). card (set (tkeys (turns (proj st))) - set seen))")
  fix st seen cur tu al
  assume "\<not> cur \<in> set seen" and "tget (turns (proj st)) cur = Some tu"
  then have "set (tkeys (turns (proj st))) - set (cur # seen) \<subset> set (tkeys (turns (proj st))) - set seen"
    by (auto dest: tget_Some_key)
  from psubset_card_mono [OF _ this] show "((st, cur # seen, al_parent al), (st, seen, cur))
      \<in> measure (\<lambda>(st, seen, cur). card (set (tkeys (turns (proj st))) - set seen))"
    by simp
qed simp

declare revoked_walk.simps [simp del]

definition turn_admission_revoked_by :: "store \<Rightarrow> string \<Rightarrow> string option result" where
  "turn_admission_revoked_by st tid = revoked_walk st [] tid"

text \<open>\<open>turn_ops._assert_no_pending_cancellation\<close>\<close>

definition assert_no_pending_cancellation :: "store \<Rightarrow> string \<Rightarrow> unit result" where
  "assert_no_pending_cancellation st tid = ebind (turn_admission_revoked_by st tid)
     (\<lambda>revoked. case revoked of None \<Rightarrow> Inr () | Some t \<Rightarrow> Inl (TurnCancellationPending t))"

section \<open>The budget of a Turn\<close>

text \<open>A frozen limit: absent, or a non-negative integer.\<close>

definition frozen_limit :: "json \<Rightarrow> string \<Rightarrow> string \<Rightarrow> int option result" where
  "frozen_limit binding k msg = (case jget binding k of
       JNull \<Rightarrow> Inr None
     | JInt n \<Rightarrow> if n < 0 then Inl (RuntimeError msg) else Inr (Some n)
     | _ \<Rightarrow> Inl (RuntimeError msg))"

definition turn_reservations :: "store \<Rightarrow> string \<Rightarrow> reservation_row list" where
  "turn_reservations st tid = select_rows (\<lambda>x. rs_turn x = tid) (budget_reservations (proj st))"

definition held_amount :: "reservation_status list \<Rightarrow> reservation_row list \<Rightarrow> usage" where
  "held_amount sts rows = sum_list (map rs_reserved (filter (\<lambda>x. rs_status x \<in> set sts) rows))"

definition settled_amount :: "reservation_row list \<Rightarrow> usage" where
  "settled_amount rows = sum_list (map rs_actual (filter (\<lambda>x. rs_status x = Settled) rows))"

text \<open>Completed attempts that no reservation tracks: Turns from before reservations existed.\<close>

definition untracked_amount :: "store \<Rightarrow> string \<Rightarrow> usage" where
  "untracked_amount st tid = sum_list (map (\<lambda>a. resource_usage_from_model_usage (ma_usage a))
     (filter (\<lambda>a. ma_id a \<notin> rs_attempt ` set (turn_reservations st tid) \<and> ma_status a = ACompleted)
       (concat (map (\<lambda>m. list_model_attempts st (mo_id m)) (list_model_operations st tid)))))"

text \<open>Python's \<open>round\<close>: to the nearest integer, halves to the even one.\<close>

definition py_round :: "real \<Rightarrow> int" where
  "py_round x = (let n = \<lfloor>x\<rfloor>; d = x - of_int n in
     if d < 1/2 then n else if d > 1/2 then n + 1 else if even n then n else n + 1)"

fun outcome_duration :: "fact \<Rightarrow> real option" where
  "outcome_duration (ToolFact (ToolOutcomeCommitted _ _ _ _ _ d)) = Some (case d of None \<Rightarrow> 0 | Some x \<Rightarrow> x)"
| "outcome_duration _ = None"

definition tool_duration :: "store \<Rightarrow> string \<Rightarrow> string \<Rightarrow> real" where
  "tool_duration st th tid = sum_list (map the (filter (\<lambda>d. d \<noteq> None)
     (map (outcome_duration \<circ> rr_fact) (filter (\<lambda>r. rr_turn r = Some tid) (list_records st th)))))"

definition tool_amount :: "store \<Rightarrow> string \<Rightarrow> string \<Rightarrow> usage result" where
  "tool_amount st th tid = make_usage (Usage 0 0 0 0 0 0 0
     (sum_list (map to_attempts (list_tool_operations st tid))) 0 0 0
     (py_round (tool_duration st th tid)) 0 0 0 0)"

text \<open>The exposure of an active child and the cost of a settled one.\<close>

definition allocation_hold :: "allocation_row \<Rightarrow> usage result" where
  "allocation_hold al =
     (if (case al_tokens al of None \<Rightarrow> False | Some n \<Rightarrow> n < 0)
      then Inl (RuntimeError ''durable child token allocation is invalid'')
      else make_usage (Usage (case al_tokens al of None \<Rightarrow> 0 | Some n \<Rightarrow> n) 0 0 0 0
        (case al_cost al of None \<Rightarrow> 0 | Some n \<Rightarrow> n) 0 0 0 1 0 0 0 0 0 0))"

definition child_allocations :: "store \<Rightarrow> string \<Rightarrow> allocation_row list" where
  "child_allocations st tid = select_rows (\<lambda>x. al_parent x = tid) (child_budget_allocations (proj st))"

definition child_held :: "allocation_row list \<Rightarrow> usage result" where
  "child_held als = ebind
     (sequence_result (map allocation_hold (filter (\<lambda>a. al_status a = AllocActive) als)))
     (\<lambda>us. Inr (sum_list us))"

definition child_used :: "allocation_row list \<Rightarrow> usage" where
  "child_used als = sum_list (map al_actual (filter (\<lambda>a. al_status a = AllocSettled) als))"

definition no_limits :: budget_limits where
  "no_limits = \<lparr>lim_tokens = None, lim_cost_micros = None, lim_model_calls = None,
     lim_tool_calls = None, lim_retries = None, lim_subagents = None, lim_wall_ms = None,
     lim_tool_output_bytes = None\<rparr>"

definition read_budget_state :: "store \<Rightarrow> string \<Rightarrow> budget_state result" where
  "read_budget_state st tid = ebind (read_turn st tid) (\<lambda>tu.
     ebind (frozen_limit (tu_binding tu) ''model_token_budget_total'' ''frozen model token budget is invalid'') (\<lambda>tokens.
     ebind (frozen_limit (tu_binding tu) ''model_cost_budget_total_micros'' ''frozen model cost budget is invalid'') (\<lambda>cost.
     ebind (tool_amount st (tu_thread tu) tid) (\<lambda>tool.
     ebind (child_held (child_allocations st tid)) (\<lambda>children.
       let rows = turn_reservations st tid in Inr
       \<lparr>scope_id = tid,
        parent_scope_id = (case jget (tu_binding tu) ''budget_parent_turn_id'' of
            JStr s \<Rightarrow> if s = [] then None else Some s | _ \<Rightarrow> None),
        limits = no_limits\<lparr>lim_tokens := tokens, lim_cost_micros := cost\<rparr>,
        used = settled_amount rows + untracked_amount st tid + tool + child_used (child_allocations st tid),
        reserved = held_amount [Reserved, Dispatched] rows,
        uncertain = held_amount [Unknown] rows,
        child_reserved = children\<rparr>)))))"

definition reservation_row_for_attempt :: "store \<Rightarrow> string \<Rightarrow> reservation_row option" where
  "reservation_row_for_attempt st att = first_row (\<lambda>x. rs_attempt x = att) (budget_reservations (proj st))"

definition reservation_of :: "reservation_row \<Rightarrow> budget_reservation" where
  "reservation_of x = \<lparr>reservation_id = rs_id x, res_scope_id = rs_scope x, res_operation_id = rs_op x,
     res_attempt_id = rs_attempt x, res_reserved = rs_reserved x, res_status = rs_status x\<rparr>"

definition read_budget_reservation :: "store \<Rightarrow> string \<Rightarrow> budget_reservation result" where
  "read_budget_reservation st att = ebind
     (require (reservation_row_for_attempt st att) (KeyError ''model attempt has no budget reservation''))
     (\<lambda>x. Inr (reservation_of x))"

definition read_child_budget_allocation :: "store \<Rightarrow> string \<Rightarrow> allocation_row result" where
  "read_child_budget_allocation st child =
     require (parent_allocation st child) (KeyError ''child Turn has no parent budget allocation'')"

section \<open>Counted resources and answers\<close>

record resource_counter =
  rc_limit :: "int option"
  rc_used :: int
  rc_item :: "string option"

definition check_resource_input :: "string \<Rightarrow> int \<Rightarrow> unit result" where
  "check_resource_input resource initial_used =
     (if blank resource \<or> length resource > 120
      then Inl (ValueError ''resource must be a non-empty name of at most 120 characters'')
      else if initial_used < 0
      then Inl (ValueError ''initial resource usage must be a non-negative integer'')
      else Inr ())"

definition counter_items :: "store \<Rightarrow> string \<Rightarrow> item_row list" where
  "counter_items st tid = rev (filter (\<lambda>x. it_kind x = ''resource_usage''
     \<and> it_status x = ItemCompletedStatus \<and> it_producer x = ''runtime'') (list_items st tid))"

definition counter_of :: "item_row \<Rightarrow> resource_counter result" where
  "counter_of it = (case (as_int (jget (it_payload it) ''used''), as_int (jget (it_payload it) ''limit'')) of
       (Some u, Some l) \<Rightarrow>
         if 0 \<le> u \<and> u \<le> l \<and> l \<le> 256 \<and> 1 \<le> l
         then Inr \<lparr>rc_limit = Some l, rc_used = u, rc_item = Some (it_id it)\<rparr>
         else Inl (RuntimeError ''canonical resource_usage payload is malformed'')
     | _ \<Rightarrow> Inl (RuntimeError ''canonical resource_usage payload is malformed''))"

definition read_resource_usage :: "store \<Rightarrow> string \<Rightarrow> string \<Rightarrow> int \<Rightarrow> resource_counter result" where
  "read_resource_usage st tid resource initial_used =
     ebind (check_resource_input resource initial_used) (\<lambda>_. ebind (read_turn st tid) (\<lambda>_.
       case find (\<lambda>x. jget (it_payload x) ''resource'' = JStr resource) (counter_items st tid) of
         Some it \<Rightarrow> counter_of it
       | None \<Rightarrow> Inr \<lparr>rc_limit = None, rc_used = initial_used, rc_item = None\<rparr>))"

definition answer_status_ok :: "item_row \<Rightarrow> bool result" where
  "answer_status_ok it = (if it_kind it = ''model_response''
     then ebind (restore_model_response (it_payload it)) (\<lambda>r. Inr (re_status r = ''completed''))
     else Inr True)"

definition read_turn_answer :: "store \<Rightarrow> string \<Rightarrow> item_row result" where
  "read_turn_answer st tid = (case read_turn_completion st tid of
       None \<Rightarrow> Inl (RuntimeError ''Turn has no committed answer'')
     | Some None \<Rightarrow> Inl (KeyError ''answer_item_id'')
     | Some (Some iid) \<Rightarrow> ebind (read_item st iid) (\<lambda>it.
         if it_turn it \<noteq> tid \<or> it_status it \<noteq> ItemCompletedStatus
            \<or> it_kind it \<notin> {''agent_message'', ''model_response''}
         then Inl (RuntimeError ''completed Turn has an invalid answer reference'')
         else ebind (answer_status_ok it) (\<lambda>ok.
           if ok then Inr it
           else Inl (RuntimeError ''completed Turn has an invalid answer reference''))))"

end
