(* ===== verification/Compaction_Jobs.thy ===== *)
theory Compaction_Jobs
  imports Runtime_Store
begin

text \<open>
  Durable compaction jobs (\<open>harness/compaction_jobs.py\<close>): job snapshots are Items, allowances are
  ordinary budget reservations. Fresh \<open>uuid4\<close> values are arguments: \<open>iid\<close> names a new Item,
  \<open>uid\<close> the random part of a hold's attempt identity, and \<open>fresh j\<close> the Item that records job
  \<open>j\<close> when several are closed together. The two commands that also prepare or reject model
  operations are in the theory of the model commands.
\<close>

record compaction_job =
  cj_id :: string
  cj_turn :: string
  cj_revision :: json
  cj_status :: json
  cj_plan :: json
  cj_nodes :: json
  cj_continuation :: json

definition job_payload :: "compaction_job \<Rightarrow> json" where
  "job_payload j = JObj
     [(''continuation'', cj_continuation j), (''job_id'', JStr (cj_id j)), (''nodes'', cj_nodes j),
      (''plan'', cj_plan j), (''source_revision'', cj_revision j), (''status'', cj_status j)]"

definition live_status :: "json \<Rightarrow> bool" where
  "live_status v \<longleftrightarrow> v \<in> {JStr ''planned'', JStr ''running'', JStr ''candidate_ready'', JStr ''waiting_unknown''}"

section \<open>Reading and recording\<close>

definition record_job :: "string \<Rightarrow> compaction_job \<Rightarrow> store \<Rightarrow> store result" where
  "record_job iid j st = ebind (read_turn st (cj_turn j)) (\<lambda>tu.
     commit_item (tu_thread tu) (cj_turn j) ''runtime'' iid ''compaction_job'' (JObj []) (job_payload j) st)"

definition is_job_item :: "item_row \<Rightarrow> bool" where
  "is_job_item it \<longleftrightarrow> it_kind it = ''compaction_job'' \<and> it_status it = ItemCompletedStatus"

definition job_of_item :: "string \<Rightarrow> string \<Rightarrow> item_row \<Rightarrow> compaction_job" where
  "job_of_item tid jid it =
     \<lparr>cj_id = jid, cj_turn = tid, cj_revision = jget (it_payload it) ''source_revision'',
      cj_status = jget (it_payload it) ''status'', cj_plan = jget (it_payload it) ''plan'',
      cj_nodes = jget (it_payload it) ''nodes'', cj_continuation = jget (it_payload it) ''continuation''\<rparr>"

text \<open>The newest snapshot of a job.\<close>

definition read_job :: "store \<Rightarrow> string \<Rightarrow> string \<Rightarrow> compaction_job result" where
  "read_job st tid jid = ebind
     (require (find (\<lambda>it. is_job_item it \<and> jget (it_payload it) ''job_id'' = JStr jid) (rev (list_items st tid)))
        (KeyError ''unknown compaction job''))
     (\<lambda>it. Inr (job_of_item tid jid it))"

definition hold_operation :: "string \<Rightarrow> string" where
  "hold_operation jid = ''compaction:'' @ jid"

definition hold_prefix :: "string \<Rightarrow> string \<Rightarrow> string" where
  "hold_prefix jid bucket = ''compaction:'' @ jid @ '':'' @ bucket @ '':''"

definition hold_rows :: "store \<Rightarrow> string \<Rightarrow> string option \<Rightarrow> reservation_row list" where
  "hold_rows st jid bucket = select_rows
     (\<lambda>x. rs_op x = hold_operation jid \<and> rs_status x = Reserved
        \<and> (case bucket of None \<Rightarrow> True
           | Some b \<Rightarrow> take (length (hold_prefix jid b)) (rs_attempt x) = hold_prefix jid b))
     (budget_reservations (proj st))"

definition turn_fact_by_runtime :: "string \<Rightarrow> fact \<Rightarrow> store \<Rightarrow> store result" where
  "turn_fact_by_runtime tid f st = ebind (read_turn st tid) (\<lambda>tu.
     append_fact (tu_thread tu) (Some tid) ''runtime'' f st)"

text \<open>\<open>allowance_tokens\<close>\<close>

definition allowance_tokens :: "store \<Rightarrow> string \<Rightarrow> int" where
  "allowance_tokens st jid = sum_list (map (\<lambda>x. total_tokens (rs_reserved x)) (hold_rows st jid None))"

section \<open>Holds\<close>

definition budget_reserved_fact :: "budget_reservation \<Rightarrow> fact" where
  "budget_reserved_fact r = BudgetFact (BudgetReserved (reservation_id r) (res_scope_id r)
     (res_operation_id r) (res_attempt_id r) (res_reserved r))"

definition reserve_hold :: "string \<Rightarrow> string \<Rightarrow> string \<Rightarrow> string \<Rightarrow> usage \<Rightarrow> store \<Rightarrow> store result" where
  "reserve_hold uid tid jid bucket amount st =
     (if amount = 0 then Inr st
      else let att = hold_prefix jid bucket @ uid in
        ebind (read_budget_state st tid) (\<lambda>bs.
        ebind (ensure_token_headroom bs (total_tokens amount) False) (\<lambda>_.
        ebind (reserve bs (''reservation_'' @ att) (hold_operation jid) att amount) (\<lambda>(bs', r).
          turn_fact_by_runtime tid (budget_reserved_fact (r\<lparr>res_scope_id := tid\<rparr>)) st))))"

definition release_holds :: "string \<Rightarrow> reservation_row list \<Rightarrow> store \<Rightarrow> store result" where
  "release_holds tid rows = chain (map (\<lambda>x. turn_fact_by_runtime tid (BudgetFact (BudgetReleased (rs_id x)))) rows)"

definition int_field :: "json \<Rightarrow> string \<Rightarrow> int result" where
  "int_field v k = (case jfind v k of None \<Rightarrow> Inl (KeyError k)
     | Some x \<Rightarrow> (case as_int x of None \<Rightarrow> Inl (TypeError k) | Some n \<Rightarrow> Inr n))"

definition int_field_or :: "json \<Rightarrow> string \<Rightarrow> int \<Rightarrow> int result" where
  "int_field_or v k d = (case jfind v k of None \<Rightarrow> Inr d | Some x \<Rightarrow> require (as_int x) (TypeError k))"

text \<open>The identity search of \<open>create_job\<close>: the first generation whose job is not spent.\<close>

definition reusable_status :: "json \<Rightarrow> bool" where
  "reusable_status v \<longleftrightarrow> live_status v \<or> v = JStr ''installed''"

partial_function (option) admit_generation ::
  "store \<Rightarrow> string \<Rightarrow> (nat \<Rightarrow> string) \<Rightarrow> nat \<Rightarrow> (string \<times> compaction_job option) option" where
  "admit_generation st tid identity g = (case read_job st tid (identity g) of
       Inl _ \<Rightarrow> Some (identity g, None)
     | Inr j \<Rightarrow> if reusable_status (cj_status j) then Some (identity g, Some j)
                else admit_generation st tid identity (g + 1))"

text \<open>
  \<open>create_job\<close>: \<open>identity g\<close> is the hash of Turn, plan, source revision and generation \<open>g\<close>.
  \<open>None\<close> means that the generation search does not end.
\<close>

definition open_job ::
  "string \<Rightarrow> string \<Rightarrow> string \<Rightarrow> string \<Rightarrow> json \<Rightarrow> int \<Rightarrow> string \<Rightarrow> store \<Rightarrow> (compaction_job \<times> store) result" where
  "open_job iid uid1 uid2 tid plan revision jid st =
     ebind (int_field plan ''continuation_token_reserve'') (\<lambda>cont.
     ebind (int_field plan ''planned_token_upper_bound'') (\<lambda>total.
     ebind (int_field_or plan ''continuation_cost_reserve'' 0) (\<lambda>cont_cost.
     ebind (int_field_or plan ''planned_cost_upper_bound'' cont_cost) (\<lambda>total_cost.
       if total < cont \<or> total_cost < cont_cost
       then Inl (ValueError ''compaction allowance cannot be negative'')
       else
     ebind (int_field plan ''planned_summary_calls'') (\<lambda>calls.
     ebind (make_usage (Usage (total - cont) 0 0 0 0 (total_cost - cont_cost) calls 0 0 0 0 0 0 0 0 0)) (\<lambda>u1.
     ebind (reserve_hold uid1 tid jid ''summary'' u1 st) (\<lambda>st1.
     ebind (make_usage (Usage cont 0 0 0 0 cont_cost 1 0 0 0 0 0 0 0 0 0)) (\<lambda>u2.
     ebind (reserve_hold uid2 tid jid ''continuation'' u2 st1) (\<lambda>st2.
       let j = \<lparr>cj_id = jid, cj_turn = tid, cj_revision = JInt revision, cj_status = JStr ''planned'',
                cj_plan = jset plan ''job_id'' (JStr jid), cj_nodes = JObj [], cj_continuation = JNull\<rparr>
       in ebind (record_job iid j st2) (\<lambda>st3. Inr (j, st3)))))))))))"

definition create_job ::
  "string \<Rightarrow> string \<Rightarrow> string \<Rightarrow> (nat \<Rightarrow> string) \<Rightarrow> string \<Rightarrow> json \<Rightarrow> int \<Rightarrow> store
     \<Rightarrow> (compaction_job \<times> store) result option" where
  "create_job iid uid1 uid2 identity tid plan revision st =
     map_option (\<lambda>(jid, found). case found of
         Some j \<Rightarrow> Inr (j, st)
       | None \<Rightarrow> open_job iid uid1 uid2 tid plan revision jid st)
       (admit_generation st tid identity 0)"

section \<open>Spending an allowance\<close>

definition obj_or_empty :: "json \<Rightarrow> json" where
  "obj_or_empty v = (if truthy v then v else JObj [])"

text \<open>\<open>ref.get("compaction_job_id") or (ref.get("compaction_plan") or {}).get("job_id")\<close>\<close>

definition request_job :: "json \<Rightarrow> json" where
  "request_job ref = (if truthy (jget ref ''compaction_job_id'') then jget ref ''compaction_job_id''
     else jget (obj_or_empty (jget ref ''compaction_plan'')) ''job_id'')"

definition job_overspent :: "budget_limits \<Rightarrow> reservation_row \<Rightarrow> bool" where
  "job_overspent l x \<longleftrightarrow> total_tokens (rs_actual x) > total_tokens (rs_reserved x)
     \<or> lim_cost_micros l \<noteq> None \<and> cost_micros (rs_actual x) > cost_micros (rs_reserved x)"

definition check_completed_call_allowances :: "store \<Rightarrow> string \<Rightarrow> string \<Rightarrow> unit result" where
  "check_completed_call_allowances st tid jid =
     (let ops = map mo_id (filter (\<lambda>m. request_job (mo_request_ref m) = JStr jid) (list_model_operations st tid));
          rows = filter (\<lambda>x. rs_op x \<in> set ops \<and> rs_status x = Settled) (turn_reservations st tid)
      in if rows = [] then Inr ()
         else ebind (read_budget_state st tid) (\<lambda>bs.
           if \<exists>x \<in> set rows. job_overspent (limits bs) x
           then Inl (ContextBudgetExceeded ''compaction_node_allowance_exceeded'') else Inr ()))"

definition bucket_of :: "string \<Rightarrow> string" where
  "bucket_of purpose = (if purpose = ''context_summary'' then ''summary'' else ''continuation'')"

definition exceeds_allowance :: "budget_limits \<Rightarrow> usage \<Rightarrow> usage \<Rightarrow> bool" where
  "exceeds_allowance l amount available \<longleftrightarrow>
     total_tokens amount > total_tokens available
     \<or> lim_cost_micros l \<noteq> None \<and> cost_micros amount > cost_micros available
     \<or> model_calls amount > model_calls available"

definition residual_hold :: "usage \<Rightarrow> usage \<Rightarrow> usage" where
  "residual_hold amount available =
     Usage (total_tokens available - total_tokens amount) 0 0 0 0
       (max 0 (cost_micros available - cost_micros amount))
       (model_calls available - model_calls amount) 0 0 0 0 0 0 0 0 0"

text \<open>\<open>transfer_for_attempt\<close>: consume a hold immediately before the attempt's own reservation.\<close>

definition transfer_for_attempt ::
  "string \<Rightarrow> string \<Rightarrow> string \<Rightarrow> string \<Rightarrow> usage \<Rightarrow> string \<Rightarrow> store \<Rightarrow> store result" where
  "transfer_for_attempt iid uid tid jid amount purpose st =
     ebind (read_job st tid jid) (\<lambda>j.
     ebind (check_completed_call_allowances st tid jid) (\<lambda>_.
       if \<not> live_status (cj_status j)
       then Inl (ContextBudgetExceeded ''context_compaction_failed'')
       else
         let bucket = bucket_of purpose;
             rows = hold_rows st jid (Some bucket);
             available = sum_list (map rs_reserved rows)
         in ebind (read_budget_state st tid) (\<lambda>bs.
              if exceeds_allowance (limits bs) amount available
              then Inl (ContextBudgetExceeded ''compaction_allowance_exhausted'')
              else ebind (make_usage (residual_hold amount available)) (\<lambda>rest. chain
                [release_holds tid rows,
                 reserve_hold uid tid jid bucket rest,
                 record_job iid (j\<lparr>cj_status := JStr (if purpose \<noteq> ''context_summary'' \<and> cj_continuation j \<noteq> JNull
                    then ''installed'' else ''running'')\<rparr>)] st))))"

section \<open>Nodes, completion and retries\<close>

definition record_node ::
  "string \<Rightarrow> string \<Rightarrow> string \<Rightarrow> string \<Rightarrow> string \<Rightarrow> string \<Rightarrow> string \<Rightarrow> store \<Rightarrow> store result" where
  "record_node iid tid jid node source res op st = ebind (read_job st tid jid) (\<lambda>j.
     let value = JObj [(''operation_id'', JStr op), (''result'', JStr res), (''source_hash'', JStr source)]
     in case jfind (cj_nodes j) node of
          Some old \<Rightarrow> if old \<noteq> value
            then Inl (ContextSourceChanged ''Completed compaction node cannot be replaced.'') else Inr st
        | None \<Rightarrow> record_job iid
            (j\<lparr>cj_status := JStr ''running'', cj_nodes := jset (cj_nodes j) node value\<rparr>) st)"

definition finish_statuses :: "string list" where
  "finish_statuses = [''installed'', ''cancelled'', ''failed'', ''superseded'', ''waiting_unknown'']"

definition finish_job :: "string \<Rightarrow> string \<Rightarrow> string \<Rightarrow> string \<Rightarrow> store \<Rightarrow> store result" where
  "finish_job iid tid jid status st =
     (if status \<notin> set finish_statuses then Inl (ValueError ''unsupported compaction job status'')
      else ebind (read_job st tid jid) (\<lambda>j.
        if status = ''installed'' \<and> cj_revision j \<noteq> JInt (user_input_revision st tid)
        then Inl (ContextSourceChanged ''Compaction job source revision changed before install.'')
        else chain
          [(if status \<noteq> ''waiting_unknown'' then release_holds tid (hold_rows st jid None) else Inr),
           record_job iid (j\<lparr>cj_status := JStr status\<rparr>)] st))"

text \<open>
  The jobs of a Turn, newest snapshot first, each once. \<open>payload["job_id"]\<close> is a string in every
  canonical job Item.
\<close>

fun newest_jobs :: "string list \<Rightarrow> item_row list \<Rightarrow> (string \<times> item_row) list" where
  "newest_jobs seen [] = []"
| "newest_jobs seen (it # its) =
     (case as_str (jget (it_payload it) ''job_id'') of
        None \<Rightarrow> newest_jobs seen its
      | Some j \<Rightarrow> if \<not> is_job_item it \<or> j \<in> set seen then newest_jobs seen its
                  else (j, it) # newest_jobs (j # seen) its)"

definition find_job :: "store \<Rightarrow> string \<Rightarrow> json \<Rightarrow> compaction_job option" where
  "find_job st tid source = map_option (\<lambda>(j, it). job_of_item tid j it)
     (find (\<lambda>(j, it). jget (jget (it_payload it) ''plan'') ''source_hash'' = source
        \<and> live_status (jget (it_payload it) ''status'')
        \<and> jget (it_payload it) ''source_revision'' = JInt (user_input_revision st tid))
       (newest_jobs [] (rev (list_items st tid))))"

definition finish_active_jobs :: "(string \<Rightarrow> string) \<Rightarrow> string \<Rightarrow> string \<Rightarrow> store \<Rightarrow> store result" where
  "finish_active_jobs fresh tid status st = chain
     (map (\<lambda>(j, it). finish_job (fresh j) tid j status)
       (filter (\<lambda>(j, it). live_status (jget (it_payload it) ''status''))
         (newest_jobs [] (rev (list_items st tid))))) st"

definition is_admission :: "string \<Rightarrow> item_row \<Rightarrow> bool" where
  "is_admission jid it \<longleftrightarrow> it_kind it = ''compaction_retry_admission'' \<and> it_status it = ItemCompletedStatus
     \<and> jget (it_payload it) ''job_id'' = JStr jid"

definition retry_admission_count :: "store \<Rightarrow> string \<Rightarrow> string \<Rightarrow> int" where
  "retry_admission_count st tid jid = int (length (filter (is_admission jid) (list_items st tid)))"

definition opt_int_field :: "json \<Rightarrow> string \<Rightarrow> int option result" where
  "opt_int_field v k = (case jget v k of JNull \<Rightarrow> Inr None | JInt n \<Rightarrow> Inr (Some n) | _ \<Rightarrow> Inl (TypeError k))"

text \<open>The call and retry ceilings frozen in a job's plan.\<close>

definition max_summary_calls :: "json \<Rightarrow> int option result" where
  "max_summary_calls plan = (if jfind plan ''max_summary_calls'' \<noteq> None
     then opt_int_field plan ''max_summary_calls''
     else ebind (int_field plan ''planned_summary_calls'') (\<lambda>n. Inr (Some n)))"

definition max_summary_retries :: "json \<Rightarrow> int option result" where
  "max_summary_retries plan = (if jfind plan ''max_summary_retries'' \<noteq> None
     then opt_int_field plan ''max_summary_retries''
     else ebind (max_summary_calls plan) (\<lambda>cap. case cap of
         None \<Rightarrow> Inr None
       | Some n \<Rightarrow> ebind (int_field plan ''planned_summary_calls'') (\<lambda>p. Inr (Some (max 0 (n - p))))))"

definition used_summary_calls :: "store \<Rightarrow> string \<Rightarrow> int" where
  "used_summary_calls st tid = int (length (filter (\<lambda>a. ma_status a \<noteq> APrepared)
     (concat (map (\<lambda>m. list_model_attempts st (mo_id m))
       (filter (\<lambda>m. jget (mo_request_ref m) ''purpose'' = JStr ''context_summary'') (list_model_operations st tid))))))"

definition exceeded_call_limit :: "string \<Rightarrow> int option \<Rightarrow> int option \<Rightarrow> int \<Rightarrow> int \<Rightarrow> int option" where
  "exceeded_call_limit purpose max_calls max_retries admitted used_calls =
     (case max_calls of
        Some c \<Rightarrow> if purpose = ''context_summary'' \<and> c \<le> used_calls then Some c
          else (case max_retries of Some n \<Rightarrow> if n \<le> admitted then Some n else None | None \<Rightarrow> None)
      | None \<Rightarrow> (case max_retries of Some n \<Rightarrow> if n \<le> admitted then Some n else None | None \<Rightarrow> None))"

text \<open>\<open>str(ref.get("purpose", "agent_step"))\<close>, for the string purposes the code writes.\<close>

definition request_purpose :: "json \<Rightarrow> string" where
  "request_purpose ref = (case jget_or ref ''purpose'' (JStr ''agent_step'') of JStr s \<Rightarrow> s | _ \<Rightarrow> [])"

definition admit_retry ::
  "string \<Rightarrow> string \<Rightarrow> string \<Rightarrow> string \<Rightarrow> string \<Rightarrow> usage \<Rightarrow> store \<Rightarrow> store result" where
  "admit_retry iid uid jiid tid op amount st =
     ebind (require (find (\<lambda>m. mo_id m = op) (list_model_operations st tid)) (KeyError ''unknown model operation''))
     (\<lambda>m. case request_job (mo_request_ref m) of
         JStr jid \<Rightarrow>
           if mo_status m \<notin> {MUnknown, MRetryWait}
           then Inl (RuntimeError ''compaction retry admission requires an unknown or scheduled operation'')
           else
             ebind (read_job st tid jid) (\<lambda>j.
             ebind (check_completed_call_allowances st tid jid) (\<lambda>_.
             ebind (read_budget_reservation st (mo_active m)) (\<lambda>prior.
               if set_retries amount 0 \<noteq> set_retries (res_reserved prior) 0
               then Inl (ContextBudgetExceeded ''context_compaction_failed'')
               else if \<not> reusable_status (cj_status j)
               then Inl (ContextBudgetExceeded ''context_compaction_failed'')
               else if cj_revision j \<noteq> JInt (user_input_revision st tid)
               then Inl (ContextSourceChanged ''Compaction retry source changed.'')
               else case find (\<lambda>it. is_admission jid it \<and> jget (it_payload it) ''operation_id'' = JStr op
                     \<and> jget (it_payload it) ''generation'' = JInt (mo_generation m + 1)) (list_items st tid) of
                 Some it \<Rightarrow> ebind (usage_from_dict (jget (it_payload it) ''amount'')) (\<lambda>a.
                     if a \<noteq> amount then Inl (ContextSourceChanged ''Retry admission amount changed.'') else Inr st)
               | None \<Rightarrow>
                   let purpose = request_purpose (mo_request_ref m) in
                   ebind (max_summary_calls (cj_plan j)) (\<lambda>max_calls.
                   ebind (max_summary_retries (cj_plan j)) (\<lambda>max_retries.
                     case exceeded_call_limit purpose max_calls max_retries
                            (retry_admission_count st tid jid) (used_summary_calls st tid) of
                       Some l \<Rightarrow> Inl (BudgetLimitExceeded ''model_calls'' l (used_summary_calls st tid) 1)
                     | None \<Rightarrow> ebind (read_turn st tid) (\<lambda>tu. chain
                         [reserve_hold uid tid jid (bucket_of purpose) amount,
                          commit_item (tu_thread tu) tid ''runtime'' iid ''compaction_retry_admission'' (JObj [])
                            (JObj [(''amount'', usage_to_dict amount), (''generation'', JInt (mo_generation m + 1)),
                                   (''job_id'', JStr jid), (''operation_id'', JStr op), (''purpose'', JStr purpose)]),
                          record_job jiid (j\<lparr>cj_status := JStr ''running''\<rparr>)] st))))))
       | JNull \<Rightarrow> Inr st
       | _ \<Rightarrow> Inl (KeyError ''unknown compaction job''))"

end
