(* ===== verification/Turn_Ops.thy ===== *)
theory Turn_Ops
  imports Compaction_Jobs
begin

text \<open>
  The Turn commands of \<open>harness/turn_ops.py\<close>. Each is one transaction: guards over the store,
  then a \<open>chain\<close> of appended facts; a raise keeps the old store. Arguments that the code draws or
  observes outside the store are parameters: fresh identities, whether the workspace is a
  directory, the blob errors of the referenced artifacts (\<open>blob_errors\<close>) and the children whose
  workspace integration is unresolved (\<open>unintegrated\<close>). The memory binding of a new Thread and
  the public display identities are not modelled. A command returns the new store; the snapshot
  the code returns is a query of it.
\<close>

section \<open>Shared checks\<close>

definition non_empty :: "string \<Rightarrow> string \<Rightarrow> unit result" where
  "non_empty s msg = (if blank s then Inl (ValueError msg) else Inr ())"

definition running_turn :: "store \<Rightarrow> string \<Rightarrow> turn_row result" where
  "running_turn st tid = ebind (read_turn st tid) (\<lambda>tu.
     if tu_status tu \<noteq> Running then Inl (RuntimeError ''turn is not running'') else Inr tu)"

definition owns_slot :: "store \<Rightarrow> turn_row \<Rightarrow> bool" where
  "owns_slot st tu \<longleftrightarrow> (case tget (threads (proj st)) (tu_thread tu) of
     None \<Rightarrow> False | Some th \<Rightarrow> th_active th = Some (tu_id tu))"

definition artifacts_intact :: "string list \<Rightarrow> unit result" where
  "artifacts_intact blob_errors =
     (if blob_errors = [] then Inr () else Inl (RuntimeError ''artifact integrity check failed''))"

section \<open>Threads\<close>

definition create_thread :: "(string \<Rightarrow> bool) \<Rightarrow> string \<Rightarrow> string \<Rightarrow> string option \<Rightarrow> store \<Rightarrow> store result" where
  "create_thread is_dir fresh workspace thread_id st =
     (if \<not> is_dir workspace then Inl (ValueError ''workspace must be an existing directory'')
      else if (case thread_id of None \<Rightarrow> False | Some t \<Rightarrow> blank t)
      then Inl (ValueError ''thread_id must be non-empty when provided'')
      else append_fact (case thread_id of None \<Rightarrow> fresh | Some t \<Rightarrow> t) None ''runtime''
        (ThreadFact (ThreadCreated workspace)) st)"

definition update_session_settings :: "string \<Rightarrow> json \<Rightarrow> int option \<Rightarrow> store \<Rightarrow> store result" where
  "update_session_settings thid settings expected st = ebind (read_thread st thid) (\<lambda>th.
     if (case expected of None \<Rightarrow> False
         | Some n \<Rightarrow> jget_or (th_settings th) ''request_settings_revision'' (JInt 0) \<noteq> JInt n)
     then Inl ConfigVersionConflict
     else append_fact thid None ''runtime'' (ThreadFact (SessionSettingsUpdated settings)) st)"

definition fork_thread :: "string \<Rightarrow> string \<Rightarrow> store \<Rightarrow> store result" where
  "fork_thread fresh from_turn st =
     ebind (require (tget (turns (proj st)) from_turn) (KeyError ''unknown fork Turn'')) (\<lambda>tu.
     ebind (require (tget (threads (proj st)) (tu_thread tu)) (KeyError ''unknown fork Turn'')) (\<lambda>th.
       if \<not> terminal_turn (tu_status tu) then Inl (RuntimeError ''only a terminal Turn can be a fork point'')
       else append_fact fresh None ''runtime''
         (ThreadFact (ThreadForked (th_workspace th) (tu_thread tu) from_turn)) st))"

section \<open>Starting a Turn and receiving input\<close>

definition next_turn_index :: "store \<Rightarrow> string \<Rightarrow> int" where
  "next_turn_index st thid =
     foldr max (map tu_index (select_rows (\<lambda>x. tu_thread x = thid) (turns (proj st)))) 0 + 1"

definition commit_files :: "string \<Rightarrow> string \<Rightarrow> (string \<times> json) list \<Rightarrow> store \<Rightarrow> store result" where
  "commit_files thid tid files = chain
     (map (\<lambda>(iid, value). commit_item thid tid ''user'' iid ''input_file'' (JObj []) value) files)"

definition start_turn ::
  "string \<Rightarrow> string \<Rightarrow> string \<Rightarrow> string \<Rightarrow> json \<Rightarrow> (string \<times> json) list \<Rightarrow> string option \<Rightarrow> string
     \<Rightarrow> store \<Rightarrow> store result" where
  "start_turn fresh_turn iid thid message binding files turn_id producer st =
     (if blank message then Inl (ValueError ''user_message must be non-empty'')
      else if turn_id = Some [] then Inl (ValueError ''turn_id must be non-empty when provided'')
      else if producer = [] then Inl (ValueError ''turn_producer must be non-empty'')
      else let tid = (case turn_id of None \<Rightarrow> fresh_turn | Some t \<Rightarrow> t) in
        ebind (read_thread st thid) (\<lambda>th.
          if th_active th \<noteq> None then Inl (RuntimeError ''thread already has an active turn'')
          else chain
            [append_fact thid (Some tid) producer
               (TurnFact (TurnStarted tid (th_head th) (next_turn_index st thid) binding)),
             commit_item thid tid ''user'' iid ''user_message'' (JObj []) (JObj [(''text'', JStr message)]),
             commit_files thid tid files] st))"

definition input_request :: "string \<Rightarrow> string list \<Rightarrow> json" where
  "input_request text paths = JObj [(''files'', JArr (map JStr paths)), (''text'', JStr text)]"

text \<open>Match a frozen input intent; \<open>None\<close> when the receipt is new.\<close>

definition read_input_receipt ::
  "store \<Rightarrow> string \<Rightarrow> string \<Rightarrow> string \<Rightarrow> string \<Rightarrow> string list \<Rightarrow> item_row option result" where
  "read_input_receipt st thid tid input_id text paths = (case tget (items (proj st)) input_id of
       None \<Rightarrow> Inr None
     | Some it \<Rightarrow>
         if it_thread it \<noteq> thid \<or> it_turn it \<noteq> tid \<or> it_kind it \<noteq> ''user_message''
            \<or> it_producer it \<noteq> ''user'' \<or> jget (it_payload it) ''input_request'' \<noteq> input_request text paths
         then Inl (ValueError ''input receipt conflicts with an earlier command'')
         else Inr (Some it))"

definition receipt_matches :: "item_row \<Rightarrow> string \<Rightarrow> string \<Rightarrow> string \<Rightarrow> json option \<Rightarrow> bool" where
  "receipt_matches it thid tid digest request \<longleftrightarrow>
     it_thread it = thid \<and> it_turn it = tid \<and> it_kind it = ''user_message'' \<and> it_producer it = ''user''
     \<and> jget (it_payload it) ''input_receipt_digest'' = JStr digest
     \<and> (case request of None \<Rightarrow> True | Some v \<Rightarrow> jget (it_payload it) ''input_request'' = v)"

definition input_payload :: "string \<Rightarrow> int \<Rightarrow> (string \<times> json option) option \<Rightarrow> json" where
  "input_payload text revision receipt = (case receipt of
       None \<Rightarrow> JObj [(''input_revision'', JInt revision), (''text'', JStr text)]
     | Some (digest, None) \<Rightarrow> JObj [(''input_receipt_digest'', JStr digest),
         (''input_revision'', JInt revision), (''text'', JStr text)]
     | Some (digest, Some request) \<Rightarrow> JObj [(''input_receipt_digest'', JStr digest),
         (''input_request'', request), (''input_revision'', JInt revision), (''text'', JStr text)])"

text \<open>
  \<open>receive_turn_input\<close>: \<open>digest\<close> is the hash of text and files. A receipt that was already
  committed is returned without a change, even after the Turn ended.
\<close>

definition receive_turn_input ::
  "string \<Rightarrow> string \<Rightarrow> string \<Rightarrow> string \<Rightarrow> string \<Rightarrow> (string \<times> json) list \<Rightarrow> string option
     \<Rightarrow> string list option \<Rightarrow> store \<Rightarrow> store result" where
  "receive_turn_input fresh digest thid tid text files input_id paths st =
     (if blank text then Inl (ValueError ''input must be non-empty'')
      else if (case input_id of None \<Rightarrow> False | Some i \<Rightarrow> blank i)
      then Inl (ValueError ''input receipt must be non-empty'')
      else
        let iid = (case input_id of None \<Rightarrow> fresh | Some i \<Rightarrow> i);
            request = map_option (input_request text) paths
        in case (case input_id of None \<Rightarrow> None | Some i \<Rightarrow> tget (items (proj st)) i) of
             Some it \<Rightarrow> if receipt_matches it thid tid digest request then Inr st
               else Inl (ValueError ''input receipt conflicts with an earlier command'')
           | None \<Rightarrow>
               ebind (read_thread st thid) (\<lambda>th.
                 if th_active th \<noteq> Some tid
                 then Inl (RuntimeError ''expected Turn is no longer active; input was not accepted'')
                 else ebind (read_turn st tid) (\<lambda>tu.
                   if \<not> open_turn (tu_status tu)
                   then Inl (RuntimeError ''expected Turn is no longer active; input was not accepted'')
                   else ebind (assert_no_pending_cancellation st tid) (\<lambda>_. chain
                     [commit_item thid tid ''user'' iid ''user_message'' (JObj [])
                        (input_payload text (user_input_revision st tid + 1)
                          (case input_id of None \<Rightarrow> None | Some i \<Rightarrow> Some (digest, request))),
                      commit_files thid tid files] st))))"

section \<open>The terminal plan state\<close>

definition latest_plan :: "store \<Rightarrow> string \<Rightarrow> item_row option" where
  "latest_plan st tid = find (\<lambda>x. it_kind x = ''plan_state'' \<and> it_status x = ItemCompletedStatus)
     (rev (list_items st tid))"

definition plan_steps :: "json \<Rightarrow> json list" where
  "plan_steps plan = (case jget plan ''steps'' of JArr xs \<Rightarrow> filter is_obj xs | _ \<Rightarrow> [])"

definition unfinished_step :: "json \<Rightarrow> bool" where
  "unfinished_step s \<longleftrightarrow> jget s ''status'' \<notin> {JStr ''completed'', JStr ''skipped''}"

definition terminal_plan_status :: "string \<Rightarrow> json \<Rightarrow> string" where
  "terminal_plan_status status plan =
     (if status = ''complete'' \<and> list_ex unfinished_step (plan_steps plan) then ''needs_replan'' else status)"

definition terminal_plan_message :: "string \<Rightarrow> string option \<Rightarrow> string" where
  "terminal_plan_message status message = (case message of
       Some (c # cs) \<Rightarrow> c # cs
     | _ \<Rightarrow> if status = ''complete'' then ''Plan completed as reported; task validation is separate.''
           else if status = ''needs_replan''
           then ''Turn accepted with unfinished plan steps; review remaining work.''
           else ''Plan blocked by the failed Turn; reported steps retained.'')"

definition terminal_plan_payload :: "json \<Rightarrow> int \<Rightarrow> string \<Rightarrow> string option \<Rightarrow> json" where
  "terminal_plan_payload plan revision status message =
     (let final = terminal_plan_status status plan in JObj
      [(''event'', JObj
         [(''event_type'', JStr (if final = ''complete'' then ''completed'' else final)),
          (''message'', JStr (terminal_plan_message final message)),
          (''tool_call_ids'', JArr [])]),
       (''plan'', jset (jset (jset (jset plan ''revision'' (JInt revision)) ''status'' (JStr final))
          ''active_step_id'' JNull) ''steps'' (JArr (plan_steps plan)))])"

definition append_terminal_plan_state ::
  "string \<Rightarrow> string \<Rightarrow> string \<Rightarrow> string \<Rightarrow> string option \<Rightarrow> store \<Rightarrow> store result" where
  "append_terminal_plan_state iid thid tid status message st = (case latest_plan st tid of
       None \<Rightarrow> Inr st
     | Some it \<Rightarrow>
         let plan = jget (it_payload it) ''plan'' in
         if \<not> is_obj plan then Inl (RuntimeError ''canonical plan_state payload is malformed'')
         else ebind (int_field plan ''revision'') (\<lambda>n.
           commit_item thid tid ''runtime'' iid ''plan_state'' (JObj [(''revision'', JInt (n + 1))])
             (terminal_plan_payload plan (n + 1) status message) st))"

section \<open>Completing and failing\<close>

definition active_children :: "store \<Rightarrow> string \<Rightarrow> string list" where
  "active_children st tid = map al_child (filter (\<lambda>a. al_status a = AllocActive) (child_allocations st tid))"

text \<open>The answer Item: the matching completed response, or a new agent message.\<close>

definition answer_source_ok :: "string \<Rightarrow> string \<Rightarrow> item_row \<Rightarrow> bool result" where
  "answer_source_ok tid answer it =
     (if it_turn it \<noteq> tid \<or> it_kind it \<noteq> ''model_response'' \<or> it_status it \<noteq> ItemCompletedStatus
      then Inr False
      else ebind (item_text it) (\<lambda>text. if text \<noteq> answer then Inr False
        else ebind (restore_model_response (it_payload it)) (\<lambda>r. Inr (re_status r = ''completed''))))"

definition commit_answer ::
  "string \<Rightarrow> string \<Rightarrow> string \<Rightarrow> string \<Rightarrow> string \<Rightarrow> string option \<Rightarrow> store \<Rightarrow> store result" where
  "commit_answer iid thid tid answer producer source st = (case source of
       Some s \<Rightarrow> ebind (read_item st s) (\<lambda>it. ebind (answer_source_ok tid answer it) (\<lambda>ok.
         if ok then Inr st
         else Inl (ValueError ''accepted answer requires the matching completed response from this Turn'')))
     | None \<Rightarrow> commit_item thid tid producer iid ''agent_message'' (JObj []) (JObj [(''text'', JStr answer)]) st)"

definition complete_turn ::
  "string \<Rightarrow> string \<Rightarrow> string list \<Rightarrow> string \<Rightarrow> string \<Rightarrow> string \<Rightarrow> int option \<Rightarrow> string option
     \<Rightarrow> store \<Rightarrow> store result" where
  "complete_turn iid piid unintegrated tid answer producer expected source st =
     (if blank answer then Inl (ValueError ''answer must be non-empty'')
      else ebind (assert_no_pending_cancellation st tid) (\<lambda>_.
        if (case expected of None \<Rightarrow> False | Some n \<Rightarrow> user_input_revision st tid \<noteq> n)
        then Inl TurnInputChanged
        else ebind (running_turn st tid) (\<lambda>tu.
          if active_children st tid \<noteq> [] then Inl (TurnChildrenPending (active_children st tid))
          else if unintegrated \<noteq> [] then Inl (TurnChildrenPending unintegrated)
          else if \<not> owns_slot st tu then Inl (RuntimeError ''turn does not own the thread active slot'')
          else chain
            [commit_answer iid (tu_thread tu) tid answer producer source,
             append_terminal_plan_state piid (tu_thread tu) tid ''complete'' None,
             append_fact (tu_thread tu) (Some tid) producer
               (TurnFact (TurnCompleted tid (Some (case source of None \<Rightarrow> iid | Some s \<Rightarrow> s))))] st)))"

definition fail_turn ::
  "string \<Rightarrow> (string \<Rightarrow> string) \<Rightarrow> string \<Rightarrow> string \<Rightarrow> string \<Rightarrow> store \<Rightarrow> store result" where
  "fail_turn piid fresh tid reason message st =
     (if blank reason then Inl (ValueError ''Turn failure reason_code must be non-empty'')
      else if blank message then Inl (ValueError ''Turn failure message must be non-empty'')
      else ebind (running_turn st tid) (\<lambda>tu.
        if \<not> owns_slot st tu then Inl (RuntimeError ''failed Turn does not own the Thread active slot'')
        else chain
          [append_terminal_plan_state piid (tu_thread tu) tid ''blocked'' (Some (strip message)),
           finish_active_jobs fresh tid ''failed'',
           append_fact (tu_thread tu) (Some tid) ''verifier''
             (TurnFact (TurnFailed tid (strip reason) (Some (strip message))))] st))"

section \<open>Pausing, interrupting and cancelling\<close>

definition pause_turn ::
  "string \<Rightarrow> string \<Rightarrow> string \<Rightarrow> string option \<Rightarrow> int option \<Rightarrow> store \<Rightarrow> store result" where
  "pause_turn tid reason producer reason_code input_revision st =
     (if blank reason then Inl (ValueError ''Turn pause reason must be non-empty'')
      else if blank producer then Inl (ValueError ''Turn pause producer must be non-empty'')
      else ebind (running_turn st tid) (\<lambda>tu.
        if \<not> owns_slot st tu then Inl (RuntimeError ''paused Turn does not own the Thread active slot'')
        else append_fact (tu_thread tu) (Some tid) producer
          (TurnFact (TurnPaused tid reason_code input_revision)) st))"

definition has_operations :: "store \<Rightarrow> string \<Rightarrow> bool" where
  "has_operations st tid \<longleftrightarrow> list_model_operations st tid \<noteq> [] \<or> list_tool_operations st tid \<noteq> []
     \<or> list_interactions st tid \<noteq> [] \<or> select_rows (\<lambda>x. ap_turn x = tid) (approvals (proj st)) \<noteq> []"

definition interrupt_orphaned_turn :: "string \<Rightarrow> string \<Rightarrow> bool \<Rightarrow> store \<Rightarrow> store result" where
  "interrupt_orphaned_turn tid reason confirmed st =
     (if \<not> confirmed then Inl (RuntimeError ''orphan recovery requires explicit maintenance confirmation'')
      else if blank reason then Inl (ValueError ''Turn interruption reason must be non-empty'')
      else ebind (running_turn st tid) (\<lambda>tu.
        if \<not> owns_slot st tu then Inl (RuntimeError ''orphaned Turn does not own the Thread active slot'')
        else if has_operations st tid
        then Inl (RuntimeError ''pre-dispatch orphan recovery refuses Turns with durable operations'')
        else append_fact (tu_thread tu) (Some tid) ''recovery'' (TurnFact (TurnInterrupted tid)) st))"

definition unsafe_tool :: "store \<Rightarrow> string \<Rightarrow> bool" where
  "unsafe_tool st tid \<longleftrightarrow> (\<exists>x \<in> set (list_tool_operations st tid). to_status x \<in> {TRunning, TUnknown})"

definition pending_interactions :: "store \<Rightarrow> string \<Rightarrow> interaction_row list" where
  "pending_interactions st tid = filter (\<lambda>i. in_status i = InteractionPending) (list_interactions st tid)"

definition abort_operation :: "string \<Rightarrow> string \<Rightarrow> interaction_row \<Rightarrow> store \<Rightarrow> store result" where
  "abort_operation thid tid i st = (case in_op i of
       None \<Rightarrow> Inr st
     | Some op \<Rightarrow> (case tget (tool_operations (proj st)) op of
           None \<Rightarrow> Inl (RuntimeError ''cancel cannot discard a started or unknown tool operation'')
         | Some x \<Rightarrow>
             if to_status x \<noteq> TAwaitingApproval
             then Inl (RuntimeError ''cancel cannot discard a started or unknown tool operation'')
             else append_fact thid (Some tid) ''runtime'' (ToolFact (ToolApprovalResolved op TCancelled)) st))"

definition abort_interaction :: "string \<Rightarrow> string \<Rightarrow> interaction_row \<Rightarrow> store \<Rightarrow> store result" where
  "abort_interaction thid tid i = chain
     [append_fact thid (Some tid) ''user'' (InteractionFact (InteractionResolved (in_id i) (in_version i + 1)
        (JObj [(''action'', JStr ''abort'')]) (Some ApprovalDenied))),
      abort_operation thid tid i]"

definition cancel_turn :: "(string \<Rightarrow> string) \<Rightarrow> string \<Rightarrow> store \<Rightarrow> store result" where
  "cancel_turn fresh tid st = ebind (read_turn st tid) (\<lambda>tu.
     if tu_status tu \<notin> {Paused, Interrupted}
     then Inl (RuntimeError ''only a safely paused or interrupted Turn can be cancelled'')
     else if unsafe_tool st tid
     then Inl (RuntimeError ''cancel cannot discard a running or unknown tool operation'')
     else chain
       [chain (map (abort_interaction (tu_thread tu) tid) (pending_interactions st tid)),
        finish_active_jobs fresh tid ''cancelled'',
        append_fact (tu_thread tu) (Some tid) ''user'' (TurnFact (TurnCancelled tid None))] st)"

definition request_turn_cancellation :: "string \<Rightarrow> string \<Rightarrow> string \<Rightarrow> store \<Rightarrow> store result" where
  "request_turn_cancellation tid producer reason st =
     (if blank producer then Inl (ValueError ''cancellation producer must be non-empty'')
      else if blank reason then Inl (ValueError ''cancellation reason must be non-empty'')
      else ebind (read_turn st tid) (\<lambda>tu.
        if \<not> open_turn (tu_status tu) then Inr st
        else if \<not> owns_slot st tu
        then Inl (RuntimeError ''cancellation request cannot target a foreign active slot'')
        else if turn_cancellation_pending st tid then Inr st
        else append_fact (tu_thread tu) (Some tid) (strip producer)
          (TurnFact (TurnCancellationRequested tid)) st))"

section \<open>Resuming\<close>

fun pause_fact :: "fact \<Rightarrow> (string option \<times> int option) option" where
  "pause_fact (TurnFact (TurnPaused _ reason_code revision)) = Some (reason_code, revision)"
| "pause_fact _ = None"

definition latest_pause :: "store \<Rightarrow> string \<Rightarrow> (string option \<times> int option) option" where
  "latest_pause st tid = (case find (\<lambda>r. pause_fact (rr_fact r) \<noteq> None) (rev (list_turn_records st tid)) of
     None \<Rightarrow> None | Some r \<Rightarrow> pause_fact (rr_fact r))"

definition resume_child_wait :: "string \<Rightarrow> store \<Rightarrow> store result" where
  "resume_child_wait tid st = ebind (read_turn st tid) (\<lambda>tu.
     ebind (assert_no_pending_cancellation st tid) (\<lambda>_.
       case latest_pause st tid of
         Some (Some code, revision) \<Rightarrow>
           if tu_status tu \<noteq> Paused \<or> code \<noteq> ''attached_children''
           then Inl (RuntimeError ''Turn is not waiting for attached children'')
           else if active_children st tid \<noteq> [] \<and> Some (user_input_revision st tid) = revision
           then Inl (RuntimeError ''Attached children still require attention'')
           else ebind (read_thread st (tu_thread tu)) (\<lambda>th.
             if th_active th \<noteq> Some tid
             then Inl (RuntimeError ''child-wait Turn does not own the active slot'')
             else append_fact (tu_thread tu) (Some tid) ''runtime'' (TurnFact (TurnResumed tid)) st)
       | _ \<Rightarrow> Inl (RuntimeError ''Turn is not waiting for attached children'')))"

definition uncertain_execution :: "store \<Rightarrow> string \<Rightarrow> bool" where
  "uncertain_execution st tid \<longleftrightarrow> pending_interactions st tid \<noteq> [] \<or> unsafe_tool st tid
     \<or> (\<exists>m \<in> set (list_model_operations st tid). mo_status m \<in> {MDispatched, MUnknown})"

definition resume_cancelled_turn :: "string \<Rightarrow> store \<Rightarrow> store result" where
  "resume_cancelled_turn tid st = ebind (read_turn st tid) (\<lambda>tu.
     if tu_status tu \<noteq> Paused \<or> \<not> turn_cancellation_pending st tid
     then Inl (RuntimeError ''Turn has no paused cancellation to resume'')
     else ebind (read_thread st (tu_thread tu)) (\<lambda>th.
       if th_active th \<noteq> Some tid then Inl (RuntimeError ''cancelled Turn does not own the active slot'')
       else if uncertain_execution st tid
       then Inl (RuntimeError ''pending or uncertain execution must be resolved before resume'')
       else append_fact (tu_thread tu) (Some tid) ''user'' (TurnFact (TurnResumed tid)) st))"

section \<open>Clarifications and choices\<close>

definition ask_user :: "string \<Rightarrow> string \<Rightarrow> string \<Rightarrow> string \<Rightarrow> json \<Rightarrow> store \<Rightarrow> store result" where
  "ask_user req tid producer kind body st = ebind (running_turn st tid) (\<lambda>tu. chain
     [append_fact (tu_thread tu) (Some tid) producer
        (InteractionFact (InteractionRequested req kind None body)),
      append_fact (tu_thread tu) (Some tid) producer (TurnFact (TurnPaused tid None None))] st)"

definition request_clarification :: "string \<Rightarrow> string \<Rightarrow> string \<Rightarrow> store \<Rightarrow> store result" where
  "request_clarification req tid question st =
     (if blank question then Inl (ValueError ''clarification question must be non-empty'')
      else ask_user req tid ''verifier'' ''clarification'' (JObj [(''question'', JStr question)]) st)"

definition request_choice :: "string \<Rightarrow> string \<Rightarrow> string \<Rightarrow> string list \<Rightarrow> store \<Rightarrow> store result" where
  "request_choice req tid question options st =
     (if blank question then Inl (ValueError ''choice question must be non-empty'')
      else if length options < 2 \<or> list_ex blank options \<or> \<not> distinct options
      then Inl (ValueError ''choice options must contain at least two unique non-empty values'')
      else ask_user req tid ''runtime'' ''choice''
        (JObj [(''options'', JArr (map JStr options)), (''question'', JStr question)]) st)"

text \<open>The answer of the user to a pending interaction of a paused Turn.\<close>

definition pending_question :: "store \<Rightarrow> string \<Rightarrow> string \<Rightarrow> string \<Rightarrow> (turn_row \<times> interaction_row) result" where
  "pending_question st tid req kind = ebind (read_turn st tid) (\<lambda>tu.
     if tu_status tu \<noteq> Paused then Inl (RuntimeError ''response requires a paused Turn'')
     else ebind (assert_no_pending_cancellation st tid) (\<lambda>_.
       case tget (interactions (proj st)) req of
         None \<Rightarrow> Inl (KeyError ''unknown request'')
       | Some i \<Rightarrow>
           if in_turn i \<noteq> tid then Inl (KeyError ''unknown request'')
           else if in_kind i \<noteq> kind \<or> in_status i \<noteq> InteractionPending
           then Inl (RuntimeError ''interaction is not pending'')
           else Inr (tu, i)))"

definition answer_question ::
  "string \<Rightarrow> turn_row \<Rightarrow> interaction_row \<Rightarrow> string \<Rightarrow> json \<Rightarrow> string \<Rightarrow> store \<Rightarrow> store result" where
  "answer_question iid tu i tid response text = chain
     [append_fact (tu_thread tu) (Some tid) ''user''
        (InteractionFact (InteractionResolved (in_id i) (in_version i + 1) response None)),
      commit_item (tu_thread tu) tid ''user'' iid ''user_message'' (JObj []) (JObj [(''text'', JStr text)]),
      append_fact (tu_thread tu) (Some tid) ''runtime'' (TurnFact (TurnResumed tid))]"

definition resolve_clarification ::
  "string \<Rightarrow> string list \<Rightarrow> string \<Rightarrow> string \<Rightarrow> string \<Rightarrow> store \<Rightarrow> store result" where
  "resolve_clarification iid blob_errors tid req response st =
     (if blank response then Inl (ValueError ''clarification response must be non-empty'')
      else ebind (artifacts_intact blob_errors) (\<lambda>_.
        ebind (pending_question st tid req ''clarification'') (\<lambda>(tu, i).
          answer_question iid tu i tid (JObj [(''text'', JStr response)]) response st)))"

definition resolve_choice ::
  "string \<Rightarrow> string list \<Rightarrow> string \<Rightarrow> string \<Rightarrow> string \<Rightarrow> store \<Rightarrow> store result" where
  "resolve_choice iid blob_errors tid req selection st =
     (if blank selection then Inl (ValueError ''choice selection must be non-empty'')
      else ebind (artifacts_intact blob_errors) (\<lambda>_.
        ebind (pending_question st tid req ''choice'') (\<lambda>(tu, i).
          if JStr selection \<notin> set (case as_list (jget (in_request i) ''options'') of None \<Rightarrow> [] | Some xs \<Rightarrow> xs)
          then Inl (ValueError ''choice selection is not one of the frozen options'')
          else answer_question iid tu i tid (JObj [(''selection'', JStr selection)]) selection st)))"

end
