(* ===== verification/Budget_Ops.thy ===== *)
theory Budget_Ops
  imports Turn_Ops
begin

text \<open>
  Durable budget commands (\<open>harness/budget_ops.py\<close>): carving a child's budget out of its parent,
  settling it, recording the outcome of an attempt's reservation, and counted resource units.
  Workspace observation and the fresh Item identities are parameters, as in the Turn commands.
\<close>

section \<open>Child budgets\<close>

text \<open>\<open>execution_context.step_limit_from_binding\<close>\<close>

definition step_limit_from_binding :: "json \<Rightarrow> int option result" where
  "step_limit_from_binding binding = (case jget binding ''model_step_budget'' of
       JNull \<Rightarrow> Inr None
     | JInt n \<Rightarrow> if n < 1 then Inl (ValueError ''model_step_budget must be a positive integer or None'')
                 else Inr (Some n)
     | _ \<Rightarrow> Inl (ValueError ''model_step_budget must be a positive integer or None''))"

text \<open>The tokens granted out of the parent's normal remaining tokens.\<close>

definition grant_tokens :: "budget_state \<Rightarrow> int option \<Rightarrow> int option result" where
  "grant_tokens bs requested = ebind (normal_token_remaining bs) (\<lambda>remaining. case remaining of
       None \<Rightarrow> Inr requested
     | Some n \<Rightarrow>
         ebind (require (lim_tokens (limits bs)) (RuntimeError ''parent token limit disappeared'')) (\<lambda>cap.
           case requested of
             None \<Rightarrow> if n < 1 then Inl (BudgetLimitExceeded ''tokens'' cap cap 1) else Inr (Some n)
           | Some m \<Rightarrow> if m > n then Inl (BudgetLimitExceeded ''tokens'' cap (cap - n) m) else Inr (Some m)))"

definition grant_cost :: "budget_state \<Rightarrow> int option \<Rightarrow> int option result" where
  "grant_cost bs requested = (case remaining_cost bs of
       None \<Rightarrow> Inr requested
     | Some n \<Rightarrow> (case requested of
           None \<Rightarrow> Inl (ValueError ''child cost budget is required when the parent Turn has a cost cap'')
         | Some m \<Rightarrow>
             if m > n then ebind (require (lim_cost_micros (limits bs)) (RuntimeError ''parent cost limit disappeared''))
                 (\<lambda>cap. Inl (BudgetLimitExceeded ''cost_micros'' cap (cap - n) m))
             else Inr (Some m)))"

definition grant_steps :: "int option \<Rightarrow> int option \<Rightarrow> int option result" where
  "grant_steps parent child = (case parent of
       None \<Rightarrow> Inr child
     | Some p \<Rightarrow> (case child of
           None \<Rightarrow> Inr (Some p)
         | Some c \<Rightarrow> if c > p
             then Inl (ValueError ''child max_steps cannot exceed the frozen parent Turn limit'')
             else Inr (Some c)))"

definition budget_root :: "json \<Rightarrow> string \<Rightarrow> string" where
  "budget_root binding parent = (case jget binding ''budget_root_turn_id'' of
     JStr s \<Rightarrow> if s = [] then parent else s | _ \<Rightarrow> parent)"

definition child_allocation_id :: "string \<Rightarrow> string" where
  "child_allocation_id child = ''child_budget_'' @ child"

definition child_binding ::
  "json \<Rightarrow> int option \<Rightarrow> string \<Rightarrow> string \<Rightarrow> string \<Rightarrow> int option \<Rightarrow> int option \<Rightarrow> json" where
  "child_binding binding steps ancestor parent allocation tokens cost =
     jset (jset (jset (jset (jset (jset binding
       ''model_step_budget'' (of_opt_int steps))
       ''budget_root_turn_id'' (JStr ancestor))
       ''budget_parent_turn_id'' (JStr parent))
       ''budget_allocation_id'' (JStr allocation))
       ''model_token_budget_total'' (of_opt_int tokens))
       ''model_cost_budget_total_micros'' (of_opt_int cost)"

definition positive_or_none :: "int option \<Rightarrow> bool" where
  "positive_or_none x = (case x of None \<Rightarrow> True | Some n \<Rightarrow> 1 \<le> n)"

text \<open>
  The admission part of \<open>start_budgeted_child_turn\<close>: the parent must be running and not revoked,
  and the grant comes out of its remaining budget under the same write lock.
\<close>

definition child_grant :: "store \<Rightarrow> string \<Rightarrow> int option \<Rightarrow> int option \<Rightarrow> (turn_row \<times> int option \<times> int option) result" where
  "child_grant st parent tokens cost =
     ebind (read_turn st parent) (\<lambda>tu.
       if tu_status tu \<noteq> Running
       then Inl (RuntimeError ''child budget can only be allocated from a running parent Turn'')
       else ebind (assert_no_pending_cancellation st parent) (\<lambda>_.
            ebind (read_budget_state st parent) (\<lambda>bs.
            ebind (grant_tokens bs tokens) (\<lambda>gt.
            ebind (grant_cost bs cost) (\<lambda>gc. Inr (tu, gt, gc))))))"

definition start_budgeted_child_turn ::
  "(string \<Rightarrow> bool) \<Rightarrow> string \<Rightarrow> string \<Rightarrow> string \<Rightarrow> string \<Rightarrow> string \<Rightarrow> json \<Rightarrow> int option \<Rightarrow> int option
     \<Rightarrow> string option \<Rightarrow> store \<Rightarrow> store result" where
  "start_budgeted_child_turn is_dir iid parent child_thread child message binding tokens cost workspace st =
     (if blank parent then Inl (ValueError ''parent_turn_id must be non-empty'')
      else if blank child_thread then Inl (ValueError ''child_thread_id must be non-empty'')
      else if blank child then Inl (ValueError ''child_turn_id must be non-empty'')
      else if \<not> positive_or_none tokens
      then Inl (ValueError ''requested child token budget must be positive or None'')
      else if \<not> positive_or_none cost
      then Inl (ValueError ''requested child cost budget must be positive or None'')
      else ebind (child_grant st parent tokens cost) (\<lambda>(tu, gt, gc).
        ebind (read_thread st (tu_thread tu)) (\<lambda>th.
        ebind (create_thread is_dir [] (case workspace of None \<Rightarrow> th_workspace th | Some w \<Rightarrow> w)
                 (Some child_thread) st) (\<lambda>st1.
        ebind (step_limit_from_binding (tu_binding tu)) (\<lambda>parent_steps.
        ebind (step_limit_from_binding binding) (\<lambda>child_steps.
        ebind (grant_steps parent_steps child_steps) (\<lambda>steps. chain
          [append_fact child_thread None ''runtime''
             (BudgetFact (BudgetChildAllocated (child_allocation_id child) parent child gt gc)),
           start_turn [] iid child_thread message
             (child_binding binding steps (budget_root (tu_binding tu) parent) parent
               (child_allocation_id child) gt gc) [] (Some child) ''runtime''] st1))))))) "

definition settle_child_budget :: "string \<Rightarrow> store \<Rightarrow> store result" where
  "settle_child_budget child st =
     ebind (require (parent_allocation st child) (KeyError ''child Turn has no parent budget allocation'')) (\<lambda>al.
       if al_status al = AllocSettled then Inr st
       else ebind (read_turn st child) (\<lambda>tu.
         if \<not> terminal_turn (tu_status tu)
         then Inl (RuntimeError ''child budget can only settle after a terminal Turn'')
         else ebind (read_budget_state st child) (\<lambda>bs.
           if reserved bs \<noteq> 0 \<or> uncertain bs \<noteq> 0 \<or> child_reserved bs \<noteq> 0
           then Inl (RuntimeError ''child budget still has unresolved exposure'')
           else append_fact (al_thread al) (Some child) ''runtime''
             (BudgetFact (BudgetChildSettled (al_id al)
               (used bs + Usage 0 0 0 0 0 0 0 0 0 1 0 0 0 0 0 0))) st)))"

section \<open>Outcomes of a reservation\<close>

datatype budget_outcome = OutSettled json | OutSettledWithoutUsage | OutNotSent | OutReleased | OutUnknown

text \<open>
  \<open>_append_budget_outcome\<close>: nothing happens for an attempt without a reservation. The settled
  quantity keeps the retry count that was reserved.
\<close>

definition settled_usage :: "reservation_row \<Rightarrow> usage \<Rightarrow> usage" where
  "settled_usage x actual = set_retries actual (retries (rs_reserved x))"

definition open_row :: "reservation_row \<Rightarrow> bool" where
  "open_row x \<longleftrightarrow> rs_status x \<in> {Reserved, Dispatched, Unknown}"

definition outcome_fact :: "budget_outcome \<Rightarrow> reservation_row \<Rightarrow> fact option result" where
  "outcome_fact out x = (case out of
       OutSettled v \<Rightarrow>
         if \<not> open_row x then Inl (RuntimeError ''budget reservation cannot be settled'')
         else Inr (Some (BudgetFact (BudgetSettled (rs_id x)
           (settled_usage x (resource_usage_from_model_usage v)))))
     | OutSettledWithoutUsage \<Rightarrow>
         if \<not> open_row x then Inl (RuntimeError ''budget reservation cannot be settled'')
         else Inl (RuntimeError ''settled budget requires provider usage'')
     | OutNotSent \<Rightarrow>
         if \<not> open_row x then Inl (RuntimeError ''budget reservation cannot be settled'')
         else Inr (Some (BudgetFact (BudgetSettled (rs_id x) (settled_usage x 0))))
     | OutReleased \<Rightarrow>
         if \<not> open_row x then Inl (RuntimeError ''budget reservation cannot be released'')
         else Inr (Some (BudgetFact (BudgetReleased (rs_id x))))
     | OutUnknown \<Rightarrow>
         if rs_status x = Unknown then Inr None
         else if rs_status x \<noteq> Dispatched
         then Inl (RuntimeError ''only a dispatched budget can become unknown'')
         else Inr (Some (BudgetFact (BudgetUnknown (rs_id x)))))"

definition append_budget_outcome ::
  "string \<Rightarrow> string \<Rightarrow> string \<Rightarrow> budget_outcome \<Rightarrow> string \<Rightarrow> store \<Rightarrow> store result" where
  "append_budget_outcome thid tid att out producer st = (case reservation_row_for_attempt st att of
       None \<Rightarrow> Inr st
     | Some x \<Rightarrow> ebind (outcome_fact out x) (\<lambda>f. case f of
           None \<Rightarrow> Inr st
         | Some g \<Rightarrow> append_fact thid (Some tid) producer g st))"

section \<open>Counted units\<close>

definition counter_payload :: "string \<Rightarrow> int \<Rightarrow> int \<Rightarrow> json" where
  "counter_payload resource limit n =
     JObj [(''limit'', JInt limit), (''resource'', JStr resource), (''used'', JInt n)]"

definition reserve_resource_unit ::
  "string \<Rightarrow> string \<Rightarrow> string \<Rightarrow> int \<Rightarrow> int \<Rightarrow> store \<Rightarrow> (resource_counter \<times> store) result" where
  "reserve_resource_unit iid tid resource limit initial_used st =
     ebind (check_resource_input resource initial_used) (\<lambda>_.
       if \<not> (1 \<le> limit \<and> limit \<le> 256)
       then Inl (ValueError ''resource limit must be an integer between 1 and 256'')
       else ebind (running_turn st tid) (\<lambda>tu.
         ebind (read_resource_usage st tid resource initial_used) (\<lambda>c.
           if rc_limit c \<noteq> None \<and> rc_limit c \<noteq> Some limit then Inl (ValueError ''resource_limit_mismatch'')
           else if rc_used c \<ge> limit then Inl (ValueError ''resource_limit_exceeded'')
           else ebind (commit_item (tu_thread tu) tid ''runtime'' iid ''resource_usage'' (JObj [])
                         (counter_payload resource limit (rc_used c + 1)) st) (\<lambda>st'.
             Inr (\<lparr>rc_limit = Some limit, rc_used = rc_used c + 1, rc_item = Some iid\<rparr>, st')))))"

end
