(* ===== verification/Model_Ops.thy ===== *)
theory Model_Ops
  imports Budget_Ops
begin

text \<open>
  Model operations and attempts: \<open>harness/model_outputs.py\<close> (durable output Items of an attempt),
  \<open>harness/retry_policy.py\<close>, \<open>harness/model_ops.py\<close> and the schedule queries of
  \<open>harness/model_retry_ops.py\<close> that a dispatch needs. Clock readings are real-number arguments,
  so the code's rejections of non-finite floats do not occur. Frozen request artifacts are
  blobs: their content is not modelled, and a request carries its artifact identity.
\<close>

section \<open>Durable outputs of an attempt\<close>

definition attempt_is_active :: "string \<Rightarrow> int \<Rightarrow> model_op_row \<Rightarrow> bool" where
  "attempt_is_active att gen m \<longleftrightarrow> mo_status m = MDispatched \<and> mo_active m = att \<and> mo_generation m = gen"

definition active_attempt :: "store \<Rightarrow> string \<Rightarrow> string \<Rightarrow> int \<Rightarrow> model_op_row result" where
  "active_attempt st op att gen = ebind (read_model_operation st op) (\<lambda>m.
     if attempt_is_active att gen m then Inr m
     else Inl (RuntimeError ''model output requires the active dispatched attempt''))"

definition is_output_start :: "string \<Rightarrow> string \<Rightarrow> rollout_record \<Rightarrow> bool" where
  "is_output_start tid att r \<longleftrightarrow> is_item_start (rr_fact r) \<and> rr_turn r = Some tid
     \<and> started_kind (rr_fact r) = ''model_output''
     \<and> jget (started_meta (rr_fact r)) ''attempt_id'' = JStr att"

text \<open>\<open>_starts\<close>: the output starts of an attempt, in log order.\<close>

definition output_starts :: "store \<Rightarrow> string \<Rightarrow> rollout_record list result" where
  "output_starts st att =
     ebind (require (tget (model_attempts (proj st)) att) (KeyError ''unknown model attempt'')) (\<lambda>a.
     ebind (require (tget (model_operations (proj st)) (ma_op a))
              (RuntimeError ''model output attempt has no operation'')) (\<lambda>m.
       Inr (filter (is_output_start (mo_turn m) att) (log st))))"

fun started_item :: "fact \<Rightarrow> string" where
  "started_item (ItemFact (ItemStarted iid _ _)) = iid"
| "started_item _ = []"

definition start_output_id :: "rollout_record \<Rightarrow> json" where
  "start_output_id r = jget (started_meta (rr_fact r)) ''output_id''"

definition output_start :: "store \<Rightarrow> string \<Rightarrow> string \<Rightarrow> rollout_record option result" where
  "output_start st att oid = ebind (output_starts st att) (\<lambda>rs.
     case filter (\<lambda>r. start_output_id r = JStr oid) rs of
       [] \<Rightarrow> Inr None
     | [r] \<Rightarrow> Inr (Some r)
     | _ \<Rightarrow> Inl (RuntimeError ''model output has duplicate durable starts''))"

definition record_model_response_started ::
  "string \<Rightarrow> string \<Rightarrow> int \<Rightarrow> string option \<Rightarrow> store \<Rightarrow> store result" where
  "record_model_response_started op att gen provider st = ebind (active_attempt st op att gen) (\<lambda>m.
     append_fact (mo_thread m) (Some (mo_turn m)) ''runtime'' (ModelFact (ModelResponseStarted att provider)) st)"

definition output_meta :: "string \<Rightarrow> string \<Rightarrow> int \<Rightarrow> model_output \<Rightarrow> json" where
  "output_meta op att gen v = JObj
     [(''attempt_id'', JStr att), (''generation'', JInt gen), (''operation_id'', JStr op),
      (''output'', output_to_payload v), (''output_id'', JStr (out_id v)), (''output_kind'', JStr (out_kind v))]"

definition is_summary :: "model_op_row \<Rightarrow> bool" where
  "is_summary m \<longleftrightarrow> jget (mo_request_ref m) ''purpose'' = JStr ''context_summary''"

definition start_model_output ::
  "string \<Rightarrow> string \<Rightarrow> string \<Rightarrow> int \<Rightarrow> model_output \<Rightarrow> store \<Rightarrow> store result" where
  "start_model_output iid op att gen v st = ebind (active_attempt st op att gen) (\<lambda>m.
     if is_summary m then Inl (RuntimeError ''context summary must not publish model output Items'')
     else ebind (output_start st att (out_id v)) (\<lambda>s.
       if s \<noteq> None then Inl (RuntimeError ''model output already started'')
       else append_fact (mo_thread m) (Some (mo_turn m)) ''model''
         (ItemFact (ItemStarted iid ''model_output'' (output_meta op att gen v))) st))"

definition require_open_model_output ::
  "store \<Rightarrow> string \<Rightarrow> string \<Rightarrow> int \<Rightarrow> string \<Rightarrow> string \<Rightarrow> unit result" where
  "require_open_model_output st op att gen oid iid = ebind (active_attempt st op att gen) (\<lambda>_.
     case item_start st iid of
       None \<Rightarrow> Inl (RuntimeError ''model delta requires an open output'')
     | Some r \<Rightarrow>
         let meta = started_meta (rr_fact r) in
         if jget meta ''attempt_id'' \<noteq> JStr att \<or> jget meta ''output_id'' \<noteq> JStr oid
            \<or> jget meta ''operation_id'' \<noteq> JStr op \<or> jget meta ''generation'' \<noteq> JInt gen
            \<or> started_kind (rr_fact r) \<noteq> ''model_output''
         then Inl (RuntimeError ''model delta requires an open output'')
         else ebind (read_item st iid) (\<lambda>it.
           if it_status it \<noteq> ItemStartedStatus
           then Inl (RuntimeError ''model delta requires an open output'') else Inr ()))"

definition same_output_identity :: "model_output \<Rightarrow> model_output \<Rightarrow> bool" where
  "same_output_identity a b \<longleftrightarrow> out_kind a = out_kind b \<and> out_call a = out_call b \<and> out_tool a = out_tool b"

definition output_item_payload :: "model_output \<Rightarrow> json" where
  "output_item_payload v = JObj [(''output'', output_to_payload v)]"

definition complete_model_output ::
  "string \<Rightarrow> string \<Rightarrow> int \<Rightarrow> model_output \<Rightarrow> store \<Rightarrow> store result" where
  "complete_model_output op att gen v st = ebind (active_attempt st op att gen) (\<lambda>m.
     ebind (output_start st att (out_id v)) (\<lambda>s. case s of
         None \<Rightarrow> Inl (RuntimeError ''model output not started'')
       | Some r \<Rightarrow>
           ebind (read_item st (started_item (rr_fact r))) (\<lambda>it.
             if it_status it \<noteq> ItemStartedStatus then Inl (RuntimeError ''model output already completed'')
             else ebind (output_from_payload (jget (started_meta (rr_fact r)) ''output'')) (\<lambda>original.
               if \<not> same_output_identity original v then Inl (RuntimeError ''model output identity changed'')
               else append_fact (mo_thread m) (Some (mo_turn m)) ''model''
                 (ItemFact (ItemCompleted (started_item (rr_fact r)) None (output_item_payload v))) st))))"

text \<open>\<open>read_model_outputs\<close>: the committed content of each output, or its start.\<close>

definition committed_output :: "store \<Rightarrow> rollout_record \<Rightarrow> model_output result" where
  "committed_output st r = ebind (read_item st (started_item (rr_fact r))) (\<lambda>it.
     output_from_payload (jget_or (it_payload it) ''output'' (jget (started_meta (rr_fact r)) ''output'')))"

definition read_model_outputs :: "store \<Rightarrow> string \<Rightarrow> model_output list result" where
  "read_model_outputs st att = ebind (output_starts st att)
     (\<lambda>rs. sequence_result (map (committed_output st) rs))"

text \<open>Close an unfinished output with the partial content received, or with its start.\<close>

definition close_output :: "model_output list \<Rightarrow> rollout_record \<Rightarrow> store \<Rightarrow> store result" where
  "close_output partials r st = ebind (read_item st (started_item (rr_fact r))) (\<lambda>it.
     if it_status it \<noteq> ItemStartedStatus then Inr st
     else ebind (case find (\<lambda>v. JStr (out_id v) = start_output_id r) (rev partials) of
              Some v \<Rightarrow> Inr v
            | None \<Rightarrow> output_from_payload (jget (started_meta (rr_fact r)) ''output''))
       (\<lambda>v. append_fact (rr_thread r) (rr_turn r) ''runtime''
         (ItemFact (ItemCompleted (started_item (rr_fact r)) None (output_item_payload v))) st))"

definition close_model_outputs :: "string \<Rightarrow> string \<Rightarrow> string \<Rightarrow> model_output list \<Rightarrow> store \<Rightarrow> store result" where
  "close_model_outputs att status err partials st =
     (if status \<notin> {''failed'', ''cancelled'', ''outcome_unknown''} \<or> err = []
      then Inl (ValueError ''invalid interrupted model output outcome'')
      else ebind (output_starts st att) (\<lambda>rs. chain (map (close_output partials) rs) st))"

text \<open>One output of a successful return: start it if the stream did not, then complete it.\<close>

definition finish_output ::
  "(string \<Rightarrow> string) \<Rightarrow> string \<Rightarrow> string \<Rightarrow> int \<Rightarrow> model_output \<Rightarrow> store \<Rightarrow> store result" where
  "finish_output fresh op att gen v st = ebind (output_start st att (out_id v)) (\<lambda>s. case s of
       None \<Rightarrow> chain [start_model_output (fresh (out_id v)) op att gen v, complete_model_output op att gen v] st
     | Some r \<Rightarrow> ebind (read_item st (started_item (rr_fact r))) (\<lambda>it.
         if it_status it = ItemCompletedStatus
         then (if jget (it_payload it) ''output'' \<noteq> output_to_payload v
               then Inl (RuntimeError ''completed model output conflicts with response snapshot'') else Inr st)
         else complete_model_output op att gen v st))"

definition finish_model_outputs ::
  "(string \<Rightarrow> string) \<Rightarrow> string \<Rightarrow> string \<Rightarrow> int \<Rightarrow> model_output list \<Rightarrow> store \<Rightarrow> store result" where
  "finish_model_outputs fresh op att gen vs st = ebind (active_attempt st op att gen) (\<lambda>_.
     ebind (output_starts st att) (\<lambda>rs.
       if map start_output_id rs \<noteq> take (length rs) (map (JStr \<circ> out_id) vs)
       then Inl (RuntimeError ''model response output order conflicts with its stream'')
       else chain (map (finish_output fresh op att gen) vs) st))"

section \<open>Retry policy\<close>

record retry_policy =
  rp_max_retries :: int
  rp_max_elapsed :: int
  rp_base_delay :: int
  rp_max_delay :: int

definition default_policy :: retry_policy where
  "default_policy = \<lparr>rp_max_retries = 2, rp_max_elapsed = 120000, rp_base_delay = 500, rp_max_delay = 20000\<rparr>"

definition policy_ok :: "retry_policy \<Rightarrow> bool" where
  "policy_ok q \<longleftrightarrow> 0 \<le> rp_max_retries q \<and> 0 \<le> rp_max_elapsed q \<and> 0 \<le> rp_base_delay q \<and> 0 \<le> rp_max_delay q
     \<and> 1 \<le> rp_max_elapsed q \<and> rp_base_delay q \<le> rp_max_delay q"

definition policy_names :: "string list" where
  "policy_names = [''max_auto_retries'', ''max_elapsed_ms'', ''base_delay_ms'', ''max_delay_ms'']"

text \<open>\<open>from_binding\<close>: \<open>cls(**value)\<close> rejects unknown keys and values that are not integers.\<close>

definition policy_from_binding :: "json \<Rightarrow> retry_policy option result" where
  "policy_from_binding binding = (case jget binding ''model_retry_policy'' of
       JNull \<Rightarrow> Inr None
     | JObj kvs \<Rightarrow>
         if \<exists>k \<in> set (map fst kvs). k \<notin> set policy_names then Inl (TypeError ''unexpected keyword argument'')
         else
           let field = (\<lambda>k d. require (as_int (jget_or (JObj kvs) k (JInt d))) (ValueError k)) in
           ebind (field ''max_auto_retries'' 2) (\<lambda>a. ebind (field ''max_elapsed_ms'' 120000) (\<lambda>b.
           ebind (field ''base_delay_ms'' 500) (\<lambda>c. ebind (field ''max_delay_ms'' 20000) (\<lambda>d.
             let q = \<lparr>rp_max_retries = a, rp_max_elapsed = b, rp_base_delay = c, rp_max_delay = d\<rparr> in
             if policy_ok q then Inr (Some q) else Inl (ValueError ''invalid model retry delay bounds'')))))
     | _ \<Rightarrow> Inl (ValueError ''model_retry_policy must be an object''))"

definition transparent_failure :: "model_failure \<Rightarrow> bool" where
  "transparent_failure f \<longleftrightarrow> \<not> fl_output_started f \<and> fl_retryable f \<and> fl_provider f \<noteq> UnknownOutcome
     \<and> fl_kind f \<in> {RateLimited, ServerError, TransportNotSent}"

definition delay_ceiling :: "retry_policy \<Rightarrow> int \<Rightarrow> int" where
  "delay_ceiling q n = min (rp_max_delay q) (rp_base_delay q * 2 ^ nat (min n 63))"

text \<open>\<open>decide\<close>: the persisted due time, deadline and delay, or \<open>None\<close> to decline.\<close>

definition retry_decide ::
  "retry_policy \<Rightarrow> model_failure \<Rightarrow> int \<Rightarrow> real \<Rightarrow> real \<Rightarrow> real \<Rightarrow> (real \<times> real \<times> int) option result" where
  "retry_decide q f n first_at now jitter =
     (if \<not> (0 \<le> jitter \<and> jitter \<le> 1) then Inl (ValueError ''random_fraction must lie between zero and one'')
      else if n \<ge> rp_max_retries q \<or> now < first_at \<or> \<not> transparent_failure f then Inr None
      else
        let deadline = first_at + of_int (rp_max_elapsed q) / 1000;
            delay = \<lfloor>of_int (delay_ceiling q n) * jitter\<rfloor>;
            retry_at = max (now + of_int delay / 1000) (case fl_retry_at f of None \<Rightarrow> now | Some t \<Rightarrow> t)
        in if now > deadline \<or> retry_at > deadline then Inr None
           else Inr (Some (retry_at, deadline, py_round ((retry_at - now) * 1000))))"

section \<open>Schedules\<close>

fun schedule_of :: "string \<Rightarrow> fact \<Rightarrow> retry_schedule option" where
  "schedule_of op (ModelFact (ModelRetryScheduled s)) = (if sc_operation s = op then Some s else None)"
| "schedule_of _ _ = None"

definition schedules :: "store \<Rightarrow> model_op_row \<Rightarrow> retry_schedule list" where
  "schedules st m = map the (filter (\<lambda>s. s \<noteq> None)
     (map (schedule_of (mo_id m) \<circ> rr_fact) (list_turn_records st (mo_turn m))))"

text \<open>The schedule in force: for a waiting generation, or for the prepared one that follows it.\<close>

definition read_schedule :: "store \<Rightarrow> model_op_row \<Rightarrow> retry_schedule option" where
  "read_schedule st m = (case rev (schedules st m) of
       [] \<Rightarrow> None
     | s # _ \<Rightarrow>
         if mo_status m = MRetryWait \<and> mo_generation m = sc_generation s
            \<or> mo_status m = MPrepared \<and> mo_generation m = sc_generation s + 1
         then Some s else None)"

text \<open>\<open>_validate_time\<close> against a floor of observations.\<close>

definition validate_time :: "real \<Rightarrow> retry_schedule \<Rightarrow> real \<Rightarrow> unit result" where
  "validate_time observed s now =
     (if now < observed then Inl (RuntimeError ''clock moved backwards before model retry'')
      else if now > sc_deadline_at s then Inl (RuntimeError ''model retry deadline expired'')
      else if now < sc_retry_at s then Inl (RuntimeError ''model retry is not due'')
      else Inr ())"

text \<open>
  \<open>_validate_source\<close>. \<open>source_hash tid\<close> is the hash of the Turn's semantic source, which
  \<open>harness/context.py\<close> computes and this development does not model.
\<close>

definition validate_source :: "(string \<Rightarrow> json) \<Rightarrow> store \<Rightarrow> model_op_row \<Rightarrow> unit result" where
  "validate_source source_hash st m =
     ebind (assert_no_pending_cancellation st (mo_turn m)) (\<lambda>_.
     ebind (read_turn st (mo_turn m)) (\<lambda>tu.
       if tu_status tu \<noteq> Running then Inl (RuntimeError ''model retry requires a running Turn'')
       else ebind (request_input_revision (mo_request_ref m)) (\<lambda>rev.
         if rev \<noteq> user_input_revision st (mo_turn m) then Inl TurnInputChanged
         else
           let plan = jget (mo_request_ref m) ''compaction_plan'' in
           if is_summary m \<and> is_obj plan \<and> truthy (jget plan ''source_hash'')
              \<and> source_hash (mo_turn m) \<noteq> jget plan ''source_hash''
           then Inl (ContextSourceChanged ''Summary source changed before model retry dispatch.'')
           else Inr ())))"

fun prepared_time :: "string \<Rightarrow> fact \<Rightarrow> real option" where
  "prepared_time att (ModelFact (ModelRetryPrepared _ _ automatic t a _)) =
     (if automatic \<and> a = att then Some t else None)"
| "prepared_time _ _ = None"

definition prepared_times :: "store \<Rightarrow> model_op_row \<Rightarrow> real list" where
  "prepared_times st m = map the (filter (\<lambda>t. t \<noteq> None)
     (map (prepared_time (mo_active m) \<circ> rr_fact) (list_turn_records st (mo_turn m))))"

definition validate_scheduled_dispatch :: "(string \<Rightarrow> json) \<Rightarrow> store \<Rightarrow> string \<Rightarrow> real \<Rightarrow> unit result" where
  "validate_scheduled_dispatch source_hash st op now = ebind (read_model_operation st op) (\<lambda>m.
     if mo_generation m = 1 \<and> mo_status m = MPrepared then Inr ()
     else case read_schedule st m of
         None \<Rightarrow> Inr ()
       | Some s \<Rightarrow>
           ebind (validate_time (foldr max (prepared_times st m) (sc_observed_at s)) s now) (\<lambda>_.
           ebind (validate_source source_hash st m) (\<lambda>_.
             if mo_status m = MPrepared then
               (case reservation_row_for_attempt st (mo_active m) of
                  None \<Rightarrow> Inl (RuntimeError ''prepared retry lacks a fresh budget reservation'')
                | Some x \<Rightarrow> if rs_status x \<noteq> Reserved
                    then Inl (RuntimeError ''prepared retry lacks a fresh budget reservation'') else Inr ())
             else Inr ())))"

end
