(* ===== verification/Operation_Values.thy ===== *)
theory Operation_Values
  imports Records
begin

text \<open>
  The normal forms of tool effects and resources and the test that two claims conflict
  (\<open>harness/operation_values.py\<close>). A POSIX path is its root and its components, as
  \<open>pathlib.Path\<close> reads them: empty components and \<open>.\<close> are dropped, \<open>..\<close> is kept.
\<close>

section \<open>Normal forms\<close>

text \<open>\<open>sorted(set(values))\<close> over any strict order.\<close>

fun insert_sorted :: "('a \<Rightarrow> 'a \<Rightarrow> bool) \<Rightarrow> 'a \<Rightarrow> 'a list \<Rightarrow> 'a list" where
  "insert_sorted lt x [] = [x]"
| "insert_sorted lt x (y # ys) =
     (if x = y then y # ys else if lt x y then x # y # ys else y # insert_sorted lt x ys)"

definition sorted_set :: "('a \<Rightarrow> 'a \<Rightarrow> bool) \<Rightarrow> 'a list \<Rightarrow> 'a list" where
  "sorted_set lt xs = foldr (insert_sorted lt) xs []"

definition string_tuple :: "string list \<Rightarrow> string list result" where
  "string_tuple xs = (if [] \<in> set xs then Inl (ValueError ''tool effects must contain non-empty strings'')
     else Inr (sorted_set string_less xs))"

definition resource_less :: "tool_resource \<Rightarrow> tool_resource \<Rightarrow> bool" where
  "resource_less a b \<longleftrightarrow> string_less (tr_kind a) (tr_kind b)
     \<or> tr_kind a = tr_kind b \<and> (string_less (tr_identity a) (tr_identity b)
       \<or> tr_identity a = tr_identity b \<and> string_less (tr_access a) (tr_access b))"

definition is_absolute :: "string \<Rightarrow> bool" where
  "is_absolute s \<longleftrightarrow> take 1 s = ''/''"

definition resource_error :: "tool_resource \<Rightarrow> py_error option" where
  "resource_error v =
     (if tr_kind v = [] \<or> tr_identity v = [] \<or> tr_access v \<notin> {''read'', ''write''}
      then Some (ValueError ''tool resources require non-empty kind/identity and read/write access'')
      else if tr_kind v = ''filesystem'' \<and> \<not> is_absolute (tr_identity v)
      then Some (ValueError ''filesystem resource identity must be absolute'')
      else None)"

fun first_error :: "('a \<Rightarrow> py_error option) \<Rightarrow> 'a list \<Rightarrow> py_error option" where
  "first_error f [] = None"
| "first_error f (x # xs) = (case f x of Some e \<Rightarrow> Some e | None \<Rightarrow> first_error f xs)"

definition resource_tuple :: "tool_resource list \<Rightarrow> tool_resource list result" where
  "resource_tuple vs = (case first_error resource_error vs of
     Some e \<Rightarrow> Inl e | None \<Rightarrow> Inr (sorted_set resource_less vs))"

section \<open>Paths\<close>

fun path_split :: "string \<Rightarrow> string list" where
  "path_split [] = [[]]"
| "path_split (c # cs) = (if c = CHR ''/'' then [] # path_split cs
     else (case path_split cs of [] \<Rightarrow> [[c]] | w # ws \<Rightarrow> (c # w) # ws))"

definition path_parts :: "string \<Rightarrow> string list" where
  "path_parts s = filter (\<lambda>w. w \<noteq> [] \<and> w \<noteq> ''.'') (path_split s)"

text \<open>Exactly two leading slashes are a root of their own.\<close>

definition path_root :: "string \<Rightarrow> string" where
  "path_root s = (if take 1 s \<noteq> ''/'' then [] else if take 2 s = ''//'' \<and> take 3 s \<noteq> ''///'' then ''//'' else ''/'')"

definition is_prefix :: "'a list \<Rightarrow> 'a list \<Rightarrow> bool" where
  "is_prefix xs ys \<longleftrightarrow> take (length xs) ys = xs"

text \<open>\<open>Path(a).is_relative_to(Path(b))\<close>\<close>

definition is_relative_to :: "string \<Rightarrow> string \<Rightarrow> bool" where
  "is_relative_to a b \<longleftrightarrow> path_root a = path_root b \<and> is_prefix (path_parts b) (path_parts a)"

definition paths_overlap :: "string \<Rightarrow> string \<Rightarrow> bool" where
  "paths_overlap a b \<longleftrightarrow> is_relative_to a b \<or> is_relative_to b a"

section \<open>Conflicts\<close>

definition resources_conflict :: "tool_resource \<Rightarrow> tool_resource \<Rightarrow> bool" where
  "resources_conflict a b \<longleftrightarrow>
     \<not> (tr_access a = ''read'' \<and> tr_access b = ''read'')
     \<and> tr_kind a = tr_kind b
     \<and> (if tr_kind a \<noteq> ''filesystem'' then tr_identity a = tr_identity b
        else paths_overlap (tr_identity a) (tr_identity b))"

definition resource_sets_conflict :: "tool_resource list \<Rightarrow> tool_resource list \<Rightarrow> bool" where
  "resource_sets_conflict xs ys \<longleftrightarrow> list_ex (\<lambda>a. list_ex (resources_conflict a) ys) xs"

section \<open>Lemmas\<close>

lemma set_insert_sorted [simp]: "set (insert_sorted lt x xs) = insert x (set xs)"
  by (induction xs) auto

lemma set_sorted_set [simp]: "set (sorted_set lt xs) = set xs"
  by (induction xs) (auto simp: sorted_set_def)

lemma sorted_wrt_insert_sorted:
  assumes trans: "\<And>a b c. lt a b \<Longrightarrow> lt b c \<Longrightarrow> lt a c"
    and total: "\<And>a b. a \<noteq> b \<Longrightarrow> \<not> lt a b \<Longrightarrow> lt b a"
  shows "sorted_wrt lt xs \<Longrightarrow> sorted_wrt lt (insert_sorted lt x xs)"
  by (induction xs) (auto intro: trans total)

lemma sorted_wrt_sorted_set:
  assumes "\<And>a b c. lt a b \<Longrightarrow> lt b c \<Longrightarrow> lt a c"
    and "\<And>a b. a \<noteq> b \<Longrightarrow> \<not> lt a b \<Longrightarrow> lt b a"
  shows "sorted_wrt lt (sorted_set lt xs)"
proof (induction xs)
  case Nil
  then show ?case by (simp add: sorted_set_def)
next
  case (Cons x xs)
  then show ?case using sorted_wrt_insert_sorted [of lt, OF assms] by (auto simp: sorted_set_def)
qed

lemma resource_less_irrefl [simp]: "\<not> resource_less a a"
  by (simp add: resource_less_def)

lemma resource_less_trans: "resource_less a b \<Longrightarrow> resource_less b c \<Longrightarrow> resource_less a c"
  by (auto simp: resource_less_def intro: string_less_trans)

lemma resource_less_total:
  fixes a b :: tool_resource
  shows "a \<noteq> b \<Longrightarrow> \<not> resource_less a b \<Longrightarrow> resource_less b a"
  by (cases a; cases b) (auto simp: resource_less_def dest: string_less_total)

lemma paths_overlap_commute: "paths_overlap a b = paths_overlap b a"
  by (auto simp: paths_overlap_def)

lemma resources_conflict_commute: "resources_conflict a b = resources_conflict b a"
  by (auto simp: resources_conflict_def paths_overlap_commute [of "tr_identity a"])

lemma resource_sets_conflict_iff:
  "resource_sets_conflict xs ys \<longleftrightarrow> (\<exists>a \<in> set xs. \<exists>b \<in> set ys. resources_conflict a b)"
  by (simp add: resource_sets_conflict_def list_ex_iff)

lemma resource_sets_conflict_commute: "resource_sets_conflict xs ys = resource_sets_conflict ys xs"
  using resources_conflict_commute unfolding resource_sets_conflict_iff by blast

lemma path_overlap_refl: "paths_overlap a a"
  by (simp add: paths_overlap_def is_relative_to_def is_prefix_def)

end
