(* ===== verification/Planning.thy ===== *)
theory Planning
  imports Json
begin

text \<open>
  The advisory plan of a Turn (\<open>agent_runtime/planning.py\<close>): bounded steps and events, and the
  tracker that replaces or completes a plan. Text is over the code points below 256; the random
  part of an event identity is an argument.
\<close>

section \<open>Bounded text and identifiers\<close>

text \<open>Split at every character of a class, keeping empty pieces (\<open>str.split(sep)\<close>).\<close>

fun split_at :: "(char \<Rightarrow> bool) \<Rightarrow> string \<Rightarrow> string list" where
  "split_at P [] = [[]]"
| "split_at P (c # cs) = (if P c then [] # split_at P cs
     else (case split_at P cs of [] \<Rightarrow> [[c]] | w # ws \<Rightarrow> (c # w) # ws))"

text \<open>The non-empty pieces (\<open>str.split()\<close>, or a comprehension with \<open>if part\<close>).\<close>

definition pieces :: "(char \<Rightarrow> bool) \<Rightarrow> string \<Rightarrow> string list" where
  "pieces P s = filter (\<lambda>w. w \<noteq> []) (split_at P s)"

fun join :: "char \<Rightarrow> string list \<Rightarrow> string" where
  "join c [] = []"
| "join c [w] = w"
| "join c (w # v # ws) = w @ c # join c (v # ws)"

definition rstrip :: "string \<Rightarrow> string" where
  "rstrip s = rev (dropWhile is_py_space (rev s))"

definition is_alnum :: "char \<Rightarrow> bool" where
  "is_alnum c = (let n = (of_char c :: nat) in
     48 \<le> n \<and> n \<le> 57 \<or> 65 \<le> n \<and> n \<le> 90 \<or> 97 \<le> n \<and> n \<le> 122
     \<or> n \<in> {170, 178, 179, 181, 185, 186, 188, 189, 190}
     \<or> 192 \<le> n \<and> n \<le> 255 \<and> n \<noteq> 215 \<and> n \<noteq> 247)"

definition is_underscore :: "char \<Rightarrow> bool" where
  "is_underscore c \<longleftrightarrow> c = CHR ''_''"

definition clean_char :: "char \<Rightarrow> char" where
  "clean_char c = (if is_alnum c \<or> c = CHR ''_'' \<or> c = CHR ''-'' then c else CHR ''_'')"

definition clean :: "string \<Rightarrow> string" where
  "clean s = join (CHR ''_'') (pieces is_underscore (map clean_char (strip s)))"

definition starts_with :: "string \<Rightarrow> string \<Rightarrow> bool" where
  "starts_with s p \<longleftrightarrow> take (length p) s = p"

definition safe_identifier :: "string \<Rightarrow> string \<Rightarrow> string" where
  "safe_identifier v prefix =
     (if clean v = [] then prefix @ ''_unknown''
      else take 80 (if starts_with (clean v) (prefix @ ''_'') then clean v else prefix @ ''_'' @ clean v))"

definition bounded_text :: "string \<Rightarrow> nat \<Rightarrow> string" where
  "bounded_text v n = (let s = join (CHR '' '') (pieces is_py_space v) in
     if length s \<le> n then s else rstrip (take n s))"

definition max_plan_steps :: nat where "max_plan_steps = 12"
definition max_step_title :: nat where "max_step_title = 180"
definition max_summary :: nat where "max_summary = 800"
definition max_objective :: nat where "max_objective = 500"
definition max_step_refs :: nat where "max_step_refs = 16"

fun dedupe_from :: "nat \<Rightarrow> string list \<Rightarrow> string list \<Rightarrow> string list" where
  "dedupe_from n acc [] = acc"
| "dedupe_from n acc (v # vs) = (let t = bounded_text v max_summary in
     if t = [] \<or> t \<in> set acc then dedupe_from n acc vs
     else if length (acc @ [t]) \<ge> n then acc @ [t] else dedupe_from n (acc @ [t]) vs)"

definition dedupe_texts :: "string list \<Rightarrow> nat \<Rightarrow> string list" where
  "dedupe_texts vs n = dedupe_from n [] vs"

definition or_default :: "string \<Rightarrow> string \<Rightarrow> string" where
  "or_default s d = (if s = [] then d else s)"

section \<open>Steps, plans and events\<close>

datatype step_status = StepPending | StepInProgress | StepCompleted | StepBlocked | StepSkipped

datatype plan_status = PlanActive | PlanComplete | PlanBlocked | PlanNeedsReplan

datatype plan_event_type =
    EvInitialized | EvLlmUpdate | EvDecisionProgress | EvObservationProgress
  | EvNeedsReplan | EvCompleted | EvBlocked

record plan_step =
  ps_id :: string
  ps_title :: string
  ps_status :: step_status

record agent_plan =
  pl_objective :: string
  pl_status :: plan_status
  pl_revision :: int
  pl_active :: "string option"
  pl_steps :: "plan_step list"
  pl_summary :: "string option"

record plan_event =
  pe_id :: string
  pe_type :: plan_event_type
  pe_revision :: int
  pe_message :: string
  pe_related :: "string option"
  pe_calls :: "string list"
  pe_warnings :: "string list"

fun event_name :: "plan_event_type \<Rightarrow> string" where
  "event_name EvInitialized = ''initialized''"
| "event_name EvLlmUpdate = ''llm_update''"
| "event_name EvDecisionProgress = ''decision_progress''"
| "event_name EvObservationProgress = ''observation_progress''"
| "event_name EvNeedsReplan = ''needs_replan''"
| "event_name EvCompleted = ''completed''"
| "event_name EvBlocked = ''blocked''"

text \<open>The validated constructors.\<close>

definition make_step :: "string \<Rightarrow> string \<Rightarrow> step_status \<Rightarrow> plan_step" where
  "make_step i title st = \<lparr>ps_id = safe_identifier i ''step'',
     ps_title = or_default (bounded_text title max_step_title) ''Untitled step'', ps_status = st\<rparr>"

definition with_status :: "step_status \<Rightarrow> plan_step list \<Rightarrow> plan_step option" where
  "with_status st ss = find (\<lambda>s. ps_status s = st) ss"

definition fallback_step :: "plan_step list \<Rightarrow> plan_step option" where
  "fallback_step ss = (case with_status StepInProgress ss of
     Some s \<Rightarrow> Some s | None \<Rightarrow> with_status StepPending ss)"

definition valid_active_step_id :: "string option \<Rightarrow> plan_step list \<Rightarrow> string option" where
  "valid_active_step_id active ss = (case active of
       None \<Rightarrow> None
     | Some a \<Rightarrow>
         if safe_identifier a ''step'' \<in> ps_id ` set ss then Some (safe_identifier a ''step'')
         else (case fallback_step ss of
             Some s \<Rightarrow> Some (ps_id s)
           | None \<Rightarrow> (case ss of [] \<Rightarrow> None | s # _ \<Rightarrow> Some (ps_id s))))"

definition make_plan :: "agent_plan \<Rightarrow> agent_plan result" where
  "make_plan v =
     (if pl_revision v < 0 then Inl (ValueError ''revision'')
      else let ss = take max_plan_steps (pl_steps v) in Inr
        (v\<lparr>pl_objective := or_default (bounded_text (pl_objective v) max_objective) ''Current task'',
           pl_steps := ss,
           pl_summary := (case pl_summary v of None \<Rightarrow> None
              | Some s \<Rightarrow> if bounded_text s max_summary = [] then None else Some (bounded_text s max_summary)),
           pl_active := valid_active_step_id (pl_active v) ss\<rparr>))"

definition make_event :: "plan_event \<Rightarrow> plan_event result" where
  "make_event v =
     (if pe_revision v < 0 then Inl (ValueError ''plan_revision'')
      else Inr (v\<lparr>pe_id := safe_identifier (pe_id v) ''plan_event'',
        pe_message := or_default (bounded_text (pe_message v) max_summary) (event_name (pe_type v)),
        pe_related := map_option (\<lambda>s. safe_identifier s ''step'') (pe_related v),
        pe_calls := dedupe_texts (pe_calls v) max_step_refs,
        pe_warnings := dedupe_texts (pe_warnings v) max_step_refs\<rparr>))"

text \<open>\<open>model_visible_plan\<close> over the stored object: the steps under the tool's key names.\<close>

definition visible_step :: "json \<Rightarrow> json result" where
  "visible_step s =
     ebind (require (jfind s ''step_id'') (KeyError ''step_id'')) (\<lambda>i.
     ebind (require (jfind s ''title'') (KeyError ''title'')) (\<lambda>t.
     ebind (require (jfind s ''status'') (KeyError ''status'')) (\<lambda>st.
       Inr (JObj [(''status'', st), (''step'', t), (''step_id'', i)]))))"

fun visible_steps :: "json list \<Rightarrow> json list result" where
  "visible_steps [] = Inr []"
| "visible_steps (s # ss) = ebind (visible_step s) (\<lambda>v. ebind (visible_steps ss) (\<lambda>vs. Inr (v # vs)))"

definition model_visible_plan :: "json \<Rightarrow> json result" where
  "model_visible_plan plan = (case jfind plan ''steps'' of
       None \<Rightarrow> Inr (jset plan ''plan'' (JArr []))
     | Some (JArr ss) \<Rightarrow> ebind (visible_steps ss) (\<lambda>vs. Inr (jset (jdel plan ''steps'') ''plan'' (JArr vs)))
     | Some _ \<Rightarrow> Inl (TypeError ''steps''))"

section \<open>The tracker\<close>

definition tracker_event ::
  "string \<Rightarrow> plan_event_type \<Rightarrow> agent_plan \<Rightarrow> string \<Rightarrow> string option \<Rightarrow> string list \<Rightarrow> plan_event result" where
  "tracker_event uid ty plan message related warnings = make_event
     \<lparr>pe_id = ''plan_event_'' @ take 12 uid, pe_type = ty, pe_revision = pl_revision plan, pe_message = message,
      pe_related = related, pe_calls = [], pe_warnings = warnings\<rparr>"

definition initialize_task :: "string \<Rightarrow> string \<Rightarrow> (agent_plan \<times> plan_event) result" where
  "initialize_task uid task =
     (let s = make_step ''step_task'' ''Work on the current task.'' StepPending in
      ebind (make_plan \<lparr>pl_objective = task, pl_status = PlanActive, pl_revision = 0,
          pl_active = Some (ps_id s), pl_steps = [s], pl_summary = None\<rparr>) (\<lambda>plan.
      ebind (tracker_event uid EvInitialized plan ''Initialized advisory task plan.'' None [])
        (\<lambda>e. Inr (plan, e))))"

definition replaced_status :: "plan_step list \<Rightarrow> plan_status" where
  "replaced_status ss = (if ss \<noteq> [] \<and> list_all (\<lambda>s. ps_status s = StepCompleted) ss then PlanComplete else PlanActive)"

definition replace_from_tool ::
  "string \<Rightarrow> nat \<Rightarrow> agent_plan \<Rightarrow> plan_step list \<Rightarrow> string option \<Rightarrow> (agent_plan \<times> plan_event) result" where
  "replace_from_tool uid max_steps plan steps summary =
     (let ss = take max_steps steps in
      ebind (make_plan \<lparr>pl_objective = pl_objective plan, pl_status = replaced_status ss,
          pl_revision = pl_revision plan + 1, pl_active = map_option ps_id (fallback_step ss),
          pl_steps = ss, pl_summary = summary\<rparr>) (\<lambda>u.
      ebind (tracker_event uid EvLlmUpdate u ''Applied update_plan tool update.'' (pl_active u)
          (if length steps > max_steps then [''steps_truncated''] else []))
        (\<lambda>e. Inr (u, e))))"

definition completion_status :: "bool \<Rightarrow> agent_plan \<Rightarrow> plan_status" where
  "completion_status blocked plan =
     (if blocked then PlanBlocked
      else if list_all (\<lambda>s. ps_status s \<in> {StepCompleted, StepSkipped}) (pl_steps plan) then PlanComplete
      else PlanNeedsReplan)"

definition completion_event :: "bool \<Rightarrow> plan_status \<Rightarrow> plan_event_type \<times> string" where
  "completion_event blocked st =
     (if blocked then (EvBlocked, ''Turn blocked; reported steps retained.'')
      else if st = PlanComplete then (EvCompleted, ''Plan completed as reported.'')
      else (EvNeedsReplan, ''Turn ended with unfinished plan steps; review remaining work.''))"

definition record_completion ::
  "string \<Rightarrow> agent_plan option \<Rightarrow> bool \<Rightarrow> (agent_plan option \<times> plan_event list) result" where
  "record_completion uid plan blocked = (case plan of
       None \<Rightarrow> Inr (None, [])
     | Some p \<Rightarrow>
         let st = completion_status blocked p in
         if pl_status p = st then Inr (Some p, [])
         else let u = p\<lparr>pl_status := st, pl_revision := pl_revision p + 1\<rparr>;
                  (ty, text) = completion_event blocked st
              in ebind (tracker_event uid ty u text (pl_active u) []) (\<lambda>e. Inr (Some u, [e])))"

section \<open>Lemmas\<close>

lemma safe_identifier_length: "length prefix \<le> 72 \<Longrightarrow> length (safe_identifier v prefix) \<le> 80"
  by (simp add: safe_identifier_def)

lemma take_append_prefix: "length p \<le> n \<Longrightarrow> take (length p) (take n (p @ s)) = p"
  by (simp add: min_def)

lemma safe_identifier_prefix:
  assumes "length prefix < 80"
  shows "starts_with (safe_identifier v prefix) (prefix @ ''_'')"
proof (cases "clean v = []")
  case True
  then show ?thesis by (simp add: safe_identifier_def starts_with_def)
next
  case False
  let ?q = "prefix @ ''_''"
  obtain s where s: "(if starts_with (clean v) ?q then clean v else prefix @ ''_'' @ clean v) = ?q @ s"
  proof (cases "starts_with (clean v) ?q")
    case True
    then have "clean v = ?q @ drop (length ?q) (clean v)"
      unfolding starts_with_def by (metis append_take_drop_id)
    with True that show ?thesis by metis
  next
    case False
    with that show ?thesis by simp
  qed
  have "length ?q \<le> 80" using assms by simp
  then have "take (length ?q) (take 80 (?q @ s)) = ?q" by (rule take_append_prefix)
  with False s show ?thesis by (simp add: safe_identifier_def starts_with_def)
qed

lemma rstrip_length: "length (rstrip s) \<le> length s"
  using length_dropWhile_le [of is_py_space "rev s"] by (simp add: rstrip_def)

lemma bounded_text_length: "length (bounded_text v n) \<le> n"
  using rstrip_length [of "take n (join (CHR '' '') (pieces is_py_space v))"]
  by (auto simp: bounded_text_def Let_def)

definition refs_ok :: "nat \<Rightarrow> string list \<Rightarrow> bool" where
  "refs_ok n ts \<longleftrightarrow> distinct ts \<and> length ts \<le> n \<and> (\<forall>t \<in> set ts. t \<noteq> [] \<and> length t \<le> max_summary)"

lemma refs_ok_snoc:
  "refs_ok n acc \<Longrightarrow> length acc < n \<Longrightarrow> t \<noteq> [] \<Longrightarrow> t \<notin> set acc \<Longrightarrow> length t \<le> max_summary \<Longrightarrow> refs_ok n (acc @ [t])"
  by (auto simp: refs_ok_def)

lemma dedupe_from_ok: "refs_ok n acc \<Longrightarrow> length acc < n \<Longrightarrow> refs_ok n (dedupe_from n acc vs)"
proof (induction vs arbitrary: acc)
  case Nil
  then show ?case by simp
next
  case (Cons v vs)
  let ?t = "bounded_text v max_summary"
  show ?case
  proof (cases "?t = [] \<or> ?t \<in> set acc")
    case True
    with Cons show ?thesis by (auto simp: Let_def)
  next
    case False
    with Cons.prems have "refs_ok n (acc @ [?t])"
      by (intro refs_ok_snoc) (auto simp: bounded_text_length)
    with Cons.IH [of "acc @ [?t]"] False show ?thesis by (auto simp: Let_def)
  qed
qed

lemma fallback_step_elem: "fallback_step ss = Some s \<Longrightarrow> s \<in> set ss"
  by (auto simp: fallback_step_def with_status_def find_Some_iff split: option.splits)

lemma valid_active_elem: "valid_active_step_id a ss = Some i \<Longrightarrow> i \<in> ps_id ` set ss"
  by (auto simp: valid_active_step_id_def dest: fallback_step_elem split: option.splits if_splits list.splits)

lemma valid_active_None: "valid_active_step_id (Some a) ss = None \<longleftrightarrow> ss = []"
proof
  assume "valid_active_step_id (Some a) ss = None"
  then show "ss = []" by (auto simp: valid_active_step_id_def split: if_splits option.splits list.splits)
next
  assume "ss = []"
  then show "valid_active_step_id (Some a) ss = None"
    by (simp add: valid_active_step_id_def fallback_step_def with_status_def)
qed

end
