(* ===== verification/Value_Properties.thy ===== *)
theory Value_Properties
  imports Model_Ops Operation_Values Planning
begin

text \<open>
  Properties of the pure components: the budget accounting and its protected token tail, the
  stored forms of quantities and responses, the retry policy, resource claims, and the plan.
\<close>

section \<open>Budget accounting\<close>

lemma limit_quantity_add:
  "(name, cap, q) \<in> set (limit_fields l) \<Longrightarrow> q (a + b) = q a + q b"
  by (auto simp: limit_fields_def usage_inst usage_defs)

lemma reserve_cases:
  "reserve s rid op att a = (case ensure_within_limits s a of
     Some e \<Rightarrow> Inl e
   | None \<Rightarrow> if blank rid \<or> blank (scope_id s) \<or> blank op \<or> blank att then Inl (ValueError ''must be non-empty'')
       else Inr (s\<lparr>reserved := reserved s + a\<rparr>,
         \<lparr>reservation_id = rid, res_scope_id = scope_id s, res_operation_id = op, res_attempt_id = att,
          res_reserved = a, res_status = Reserved\<rparr>))"
  by (auto simp: reserve_def nonblank_reservation_def Let_def split: option.splits)

text \<open>C7: an admitted reservation adds exactly its amount to the exposure and leaves every
  limited resource within its limit; the view and its limits are otherwise unchanged.\<close>

theorem reserve_stays_within_limits:
  assumes "reserve s rid op att a = Inr (s', r)"
  shows "exposure s' = exposure s + a \<and> limits s' = limits s \<and> used s' = used s
    \<and> uncertain s' = uncertain s \<and> child_reserved s' = child_reserved s
    \<and> res_status r = Reserved \<and> res_reserved r = a
    \<and> (\<forall>name n q. (name, Some n, q) \<in> set (limit_fields (limits s)) \<longrightarrow> q (exposure s') \<le> n)"
proof -
  note d = reserveD [OF assms]
  have "check_limits (exposure s) a (limit_fields (limits s)) = None"
    using d(1) by (simp add: ensure_within_limits_def)
  then have "q (exposure s + a) \<le> n" if "(name, Some n, q) \<in> set (limit_fields (limits s))" for name n q
    using that limit_quantity_add [OF that, of "exposure s" a] by (fastforce simp: check_limits_None)
  with d show ?thesis by (auto simp: exposure_reserve)
qed

definition sample_state :: budget_state where
  "sample_state = \<lparr>scope_id = ''turn'', parent_scope_id = None,
     limits = \<lparr>lim_tokens = Some 100, lim_cost_micros = None, lim_model_calls = Some 2, lim_tool_calls = None,
       lim_retries = None, lim_subagents = None, lim_wall_ms = None, lim_tool_output_bytes = None\<rparr>,
     used = Usage 30 0 0 10 0 0 1 0 0 0 0 0 0 0 0 0, reserved = 0, uncertain = 0, child_reserved = 0\<rparr>"

definition sample_amount :: usage where
  "sample_amount = Usage 40 0 0 10 0 0 1 0 0 0 0 0 0 0 0 0"

lemmas sample_defs = sample_state_def sample_amount_def reserve_cases ensure_within_limits_def limit_fields_def
  exposure_def usage_inst usage_defs blank_iff is_py_space_def

lemma sample_reserved:
  "reserve sample_state ''r'' ''op'' ''att'' sample_amount =
     Inr (sample_state\<lparr>reserved := sample_amount\<rparr>, \<lparr>reservation_id = ''r'', res_scope_id = ''turn'',
       res_operation_id = ''op'', res_attempt_id = ''att'', res_reserved = sample_amount, res_status = Reserved\<rparr>)"
  by (simp add: sample_defs)

theorem reserve_stays_within_limits_witness:
  "total_tokens (exposure (sample_state\<lparr>reserved := sample_amount\<rparr>)) = 90"
  using reserve_stays_within_limits [OF sample_reserved] by (simp add: sample_defs)

text \<open>A reservation is refused exactly when a limit would be exceeded or an identity is
  blank, and the refusal names a resource whose limit really would be exceeded.\<close>

theorem reserve_refusal_is_justified:
  assumes "reserve s rid op att a = Inl e"
  shows "e = ValueError ''must be non-empty'' \<and> (blank rid \<or> blank (scope_id s) \<or> blank op \<or> blank att)
    \<or> (\<exists>name n q. (name, Some n, q) \<in> set (limit_fields (limits s)) \<and> q (exposure s) + q a > n
         \<and> e = BudgetLimitExceeded name n (q (exposure s)) (q a))"
proof (cases "ensure_within_limits s a")
  case None
  with assms show ?thesis by (simp add: reserve_cases split: if_splits)
next
  case (Some x)
  with assms have "check_limits (exposure s) a (limit_fields (limits s)) = Some e"
    by (simp add: reserve_cases ensure_within_limits_def)
  from check_limits_Some [OF this] show ?thesis by blast
qed

theorem reserve_refusal_is_justified_witness:
  "\<exists>name n q. (name, Some n, q) \<in> set (limit_fields (limits sample_state))
     \<and> q (exposure sample_state) + q (Usage 70 0 0 0 0 0 0 0 0 0 0 0 0 0 0 0) > n"
proof -
  have "reserve sample_state ''r'' ''op'' ''att'' (Usage 70 0 0 0 0 0 0 0 0 0 0 0 0 0 0 0)
      = Inl (BudgetLimitExceeded ''tokens'' 100 40 70)"
    by (simp add: sample_defs)
  from reserve_refusal_is_justified [OF this] show ?thesis by blast
qed

text \<open>C10: losing track of a dispatched call frees nothing; settling it afterwards replaces the
  held amount by the reported one, and the settled reservation accepts no further outcome.\<close>

theorem lost_call_is_conserved:
  assumes "bucket_holds s r" and "usage_ok (uncertain s)"
    and "mark_unknown s r = Inr (s1, r1)" and "settle s1 r1 a = Inr (s2, r2)"
  shows "exposure s1 = exposure s \<and> exposure s2 + res_reserved r = exposure s + a
    \<and> res_status r2 = Settled
    \<and> (\<exists>e. settle s2 r2 b = Inl e) \<and> (\<exists>e. release s2 r2 = Inl e) \<and> (\<exists>e. mark_unknown s2 r2 = Inl e)"
proof -
  have h1: "bucket_holds s1 r1" by (rule bucket_holds_after_lose [OF assms(2,3)])
  have lost: "exposure s1 = exposure s" using ledger.lose_law [OF assms(1,3)] by simp
  have total: "exposure s2 + res_reserved r = exposure s + a"
    by (rule ledger.lose_then_finish [OF assms(1,3) h1 assms(4)])
  have "res_status r2 = Settled" using ledger.finish_law [OF h1 assms(4)] by simp
  with lost total show ?thesis by (simp add: settle_def release_def mark_unknown_def)
qed

definition sample_reservation :: budget_reservation where
  "sample_reservation = \<lparr>reservation_id = ''r'', res_scope_id = ''turn'', res_operation_id = ''op'',
     res_attempt_id = ''att'', res_reserved = sample_amount, res_status = Dispatched\<rparr>"

lemma sample_holds: "bucket_holds (sample_state\<lparr>reserved := sample_amount\<rparr>) sample_reservation"
  unfolding bucket_holds_def by (auto simp: sample_reservation_def intro!: exI [of _ 0])

theorem lost_call_is_conserved_witness:
  "\<exists>s1 r1 s2 r2. exposure s2 + sample_amount
     = exposure (sample_state\<lparr>reserved := sample_amount\<rparr>) + Usage 5 0 0 1 0 0 1 0 0 0 0 0 0 0 0 0
     \<and> mark_unknown (sample_state\<lparr>reserved := sample_amount\<rparr>) sample_reservation = Inr (s1, r1)
     \<and> settle s1 r1 (Usage 5 0 0 1 0 0 1 0 0 0 0 0 0 0 0 0) = Inr (s2, r2)"
proof -
  let ?s = "sample_state\<lparr>reserved := sample_amount\<rparr>" and ?a = "Usage 5 0 0 1 0 0 1 0 0 0 0 0 0 0 0 0"
  obtain s1 r1 where 1: "mark_unknown ?s sample_reservation = Inr (s1, r1)" and u: "res_status r1 = Unknown"
    by (simp add: mark_unknown_def sample_reservation_def)
  obtain s2 r2 where 2: "settle s1 r1 ?a = Inr (s2, r2)" using u by (simp add: settle_def)
  have "usage_ok (uncertain ?s)" by (simp add: sample_state_def)
  from lost_call_is_conserved [OF sample_holds this 1 2] 1 2 show ?thesis
    by (auto simp: sample_reservation_def)
qed

text \<open>C35: whatever the limit, a request admitted without access to the protected tail leaves at
  least one token, and at most 8192, of a limit above one unspent.\<close>

theorem protected_tail_survives:
  assumes "lim_tokens (limits s) = Some cap" and "1 < cap" and "usage_ok (exposure s)"
    and "ensure_token_headroom s n False = Inr ()"
  shows "\<exists>p. protected_tokens_for_limit (Some cap) = Inr p \<and> 1 \<le> p \<and> p \<le> 8192 \<and> p < cap
    \<and> total_tokens (exposure s) + n \<le> cap - p"
proof -
  from assms(2) obtain p where p: "protected_tokens_for_limit (Some cap) = Inr p"
    by (simp add: protected_tokens_for_limit_def)
  note b = protected_bounds [OF p]
  from assms(1,4) p have "0 \<le> n" "total_tokens (exposure s) + n \<le> max (cap - p) 0"
    by (auto simp: ensure_token_headroom_def Let_def split: if_splits)
  with b assms(2) p show ?thesis by auto
qed

theorem protected_tail_survives_witness:
  "ensure_token_headroom sample_state 50 False = Inr () \<and> total_tokens (exposure sample_state) + 50 \<le> 100 - 10"
proof -
  have h: "ensure_token_headroom sample_state 50 False = Inr ()"
    by (simp add: ensure_token_headroom_def protected_tokens_for_limit_def sample_defs)
  have "usage_ok (exposure sample_state)" by (simp add: sample_defs)
  with protected_tail_survives [of sample_state 100 50] h show ?thesis
    by (simp add: sample_state_def protected_tokens_for_limit_def)
qed

text \<open>A quantity read back from its stored object is the quantity that was stored.\<close>

theorem usage_round_trip: "usage_ok u \<Longrightarrow> usage_from_dict (usage_to_dict u) = Inr u"
  by (rule usage_from_to_dict_raw)

theorem usage_round_trip_witness: "usage_from_dict (usage_to_dict sample_amount) = Inr sample_amount"
  by (rule usage_round_trip) (simp add: sample_defs)

section \<open>Model responses and retries\<close>





text \<open>C36: an automatic retry is granted only below the retry count, for an unambiguous transient
  failure; its due time is not in the past, respects the provider's own retry time, never passes
  the frozen deadline, and the delay stays under the policy's ceiling unless the provider asked
  for more.\<close>

theorem retry_is_bounded:
  assumes "policy_ok q" and "0 \<le> n" and "retry_decide q f n first_at now jitter = Inr (Some (retry_at, deadline, ms))"
  shows "n < rp_max_retries q \<and> transparent_failure f \<and> fl_provider f \<noteq> UnknownOutcome \<and> \<not> fl_output_started f
    \<and> now \<le> retry_at \<and> retry_at \<le> deadline \<and> deadline = first_at + of_int (rp_max_elapsed q) / 1000
    \<and> (case fl_retry_at f of None \<Rightarrow> retry_at \<le> now + of_int (rp_max_delay q) / 1000
       | Some t \<Rightarrow> t \<le> retry_at \<and> retry_at \<le> max t (now + of_int (rp_max_delay q) / 1000))"
proof -
  let ?c = "delay_ceiling q n"
  let ?t = "case fl_retry_at f of None \<Rightarrow> now | Some t \<Rightarrow> t"
  define d where "d = \<lfloor>of_int ?c * jitter\<rfloor>"
  from assms(3) have j: "0 \<le> jitter" "jitter \<le> 1" and n: "n < rp_max_retries q"
    and tr: "transparent_failure f" and r: "retry_at = max (now + of_int d / 1000) ?t"
    and dl: "deadline = first_at + of_int (rp_max_elapsed q) / 1000" and le: "retry_at \<le> deadline"
    by (auto simp: retry_decide_def Let_def d_def split: if_splits)
  have c: "0 \<le> ?c" "?c \<le> rp_max_delay q"
    using assms(1) by (auto simp: delay_ceiling_def policy_ok_def)
  have d0: "0 \<le> d" using c j by (simp add: d_def)
  have "of_int d \<le> of_int ?c * jitter" unfolding d_def by linarith
  also have "\<dots> \<le> of_int ?c * 1" using c j by (intro mult_left_mono) auto
  finally have "d \<le> rp_max_delay q" using c by linarith
  with d0 r have "now \<le> retry_at" and "?t \<le> retry_at"
    and "retry_at \<le> max ?t (now + of_int (rp_max_delay q) / 1000)"
    by (auto simp: max_def)
  with n tr dl le assms(1) show ?thesis
    by (auto simp: transparent_failure_def policy_ok_def split: option.splits)
qed

definition sample_failure :: model_failure where
  "sample_failure = \<lparr>fl_kind = RateLimited, fl_provider = RejectedOutcome, fl_billing = BillingReleased,
     fl_retry_at = Some 12, fl_retryable = True, fl_output_started = False\<rparr>"

lemma sample_decision: "retry_decide default_policy sample_failure 0 10 11 0 = Inr (Some (12, 130, 1000))"
  by (simp add: retry_decide_def default_policy_def sample_failure_def transparent_failure_def delay_ceiling_def
      Let_def py_round_def)

theorem retry_is_bounded_witness: "(12::real) \<le> 130 \<and> transparent_failure sample_failure"
  using retry_is_bounded [OF _ _ sample_decision] by (simp add: policy_ok_def default_policy_def sample_failure_def)

section \<open>Resource claims\<close>


definition sample_dir :: tool_resource where
  "sample_dir = \<lparr>tr_kind = ''filesystem'', tr_identity = ''/w'', tr_access = ''read''\<rparr>"

definition sample_file :: tool_resource where
  "sample_file = \<lparr>tr_kind = ''filesystem'', tr_identity = ''/w/./a//b'', tr_access = ''write''\<rparr>"



text \<open>The stored resources of an operation are the valid ones it declared, each once, in
  strictly increasing order; any invalid resource refuses the whole declaration.\<close>

theorem resource_tuple_normal_form:
  "case resource_tuple vs of
     Inr rs \<Rightarrow> sorted_wrt resource_less rs \<and> set rs = set vs \<and> (\<forall>v \<in> set vs. resource_error v = None)
   | Inl e \<Rightarrow> \<exists>v \<in> set vs. resource_error v = Some e"
proof -
  have none: "first_error resource_error vs = None \<longleftrightarrow> (\<forall>v \<in> set vs. resource_error v = None)"
    by (induction vs) (auto split: option.splits)
  have some: "first_error resource_error vs = Some e \<Longrightarrow> \<exists>v \<in> set vs. resource_error v = Some e" for e
    by (induction vs) (auto split: option.splits)
  have "sorted_wrt resource_less (sorted_set resource_less vs)"
    by (rule sorted_wrt_sorted_set) (auto intro: resource_less_trans dest: resource_less_total)
  with none some show ?thesis by (auto simp: resource_tuple_def split: option.splits)
qed

theorem resource_tuple_normal_form_witness:
  "resource_tuple [sample_file, sample_dir, sample_file] = Inr [sample_dir, sample_file]"
  using resource_tuple_normal_form [of "[sample_file, sample_dir, sample_file]"]
  by (simp add: resource_tuple_def sorted_set_def resource_less_def sample_dir_def sample_file_def
      resource_error_def is_absolute_def)

section \<open>The plan\<close>


lemma tracker_eventD:
  assumes "tracker_event uid ty plan text rel ws = Inr e"
  shows "pe_type e = ty" "pe_revision e = pl_revision plan" "refs_ok max_step_refs (pe_warnings e)"
  using assms dedupe_from_ok [of max_step_refs "[]" ws]
  by (auto simp: tracker_event_def make_event_def dedupe_texts_def refs_ok_def max_step_refs_def split: if_splits)


definition sample_plan :: agent_plan where
  "sample_plan = \<lparr>pl_objective = ''go'', pl_status = PlanActive, pl_revision = 3, pl_active = None,
     pl_steps = [], pl_summary = None\<rparr>"


text \<open>closing a plan gives the status its steps call for, with one more revision and one
  event when the status changes, and closing it again changes nothing.\<close>

theorem plan_completion_settles:
  assumes "record_completion uid (Some p) blocked = Inr (Some u, es)"
  shows "pl_status u = completion_status blocked p \<and> pl_steps u = pl_steps p
    \<and> (if pl_status p = completion_status blocked p then u = p \<and> es = []
       else pl_revision u = pl_revision p + 1 \<and> (\<exists>e. es = [e] \<and> pe_revision e = pl_revision u))
    \<and> record_completion uid' (Some u) blocked = Inr (Some u, [])"
  using assms
  by (auto simp: record_completion_def completion_status_def Let_def dest: tracker_eventD split: if_splits prod.splits)

theorem plan_completion_settles_witness:
  "\<exists>u es. record_completion ''u'' (Some sample_plan) False = Inr (Some u, es) \<and> pl_status u = PlanComplete
     \<and> record_completion ''v'' (Some u) False = Inr (Some u, [])"
proof -
  obtain u es where r: "record_completion ''u'' (Some sample_plan) False = Inr (Some u, es)"
    by (simp add: record_completion_def completion_status_def completion_event_def tracker_event_def make_event_def
        sample_plan_def Let_def)
  from plan_completion_settles [OF r] r show ?thesis
    by (auto simp: completion_status_def sample_plan_def)
qed



end
