(* ===== verification/Effects.thy ===== *)
theory Effects
  imports Runtime_Store
begin

text \<open>
  What one append does to the durable tables: which tables a fact can touch, which identities it
  can introduce, and that the records of a Turn keep the Turn's identity. Everything here is
  about \<open>append_fact\<close> on a store that satisfies \<open>store_ok\<close>.
\<close>

section \<open>One append\<close>

lemma append_effect:
  assumes "store_ok st" and "addressed th (proj st) f" and "append_fact th turn pr f st = Inr st'"
  obtains g q where "enrich st f = Inr g"
    and "apply_record (counted (proj st)) (make_record st th turn pr g) = Inr q"
    and "proj st' = durable q" and "log st' = log st @ [make_record st th turn pr g]"
    and "store_ok st'" and "constraints_ok (proj st')"
proof -
  from assms(3) obtain g where g: "enrich st f = Inr g" and a: "append_record th turn pr g st = Inr st'"
    by (auto simp: append_fact_def)
  from enrich_addressed [OF g] assms(2) have ad: "addressed th (proj st) g" by simp
  from append_record_refines [OF store_ok_projection [OF assms(1)] ad a] obtain q where
    "apply_record (counted (proj st)) (make_record st th turn pr g) = Inr q" "proj st' = durable q"
    "log st' = log st @ [make_record st th turn pr g]" by auto
  moreover have "store_ok st'" by (rule store_ok_append [OF assms])
  moreover have "constraints_ok (proj st')" using a by (auto simp: append_record_def Let_def split: if_splits)
  ultimately show ?thesis using that g by blast
qed

text \<open>The tables of a counted or durable projection are those of the projection.\<close>

lemma counted_tables [simp]:
  "threads (counted p) = threads p" "turns (counted p) = turns p" "items (counted p) = items p"
  "model_operations (counted p) = model_operations p" "model_attempts (counted p) = model_attempts p"
  "budget_reservations (counted p) = budget_reservations p"
  "child_budget_allocations (counted p) = child_budget_allocations p"
  "tool_operations (counted p) = tool_operations p" "interactions (counted p) = interactions p"
  "approvals (counted p) = approvals p" "artifacts (counted p) = artifacts p"
  "host_commands (counted p) = host_commands p" "channel_entries (counted p) = channel_entries p"
  by (simp_all add: counted_def)

lemma durable_tables [simp]:
  "threads (durable p) = threads p" "turns (durable p) = turns p" "items (durable p) = items p"
  "model_operations (durable p) = model_operations p" "model_attempts (durable p) = model_attempts p"
  "budget_reservations (durable p) = budget_reservations p"
  "child_budget_allocations (durable p) = child_budget_allocations p"
  "tool_operations (durable p) = tool_operations p" "interactions (durable p) = interactions p"
  "approvals (durable p) = approvals p" "artifacts (durable p) = artifacts p"
  "host_commands (durable p) = host_commands p" "channel_entries (durable p) = channel_entries p"
  by (simp_all add: durable_def)

lemma record_fields [simp]:
  "rr_thread (make_record st th turn pr f) = th" "rr_turn (make_record st th turn pr f) = turn"
  "rr_producer (make_record st th turn pr f) = pr" "rr_fact (make_record st th turn pr f) = f"
  by (simp_all add: make_record_def)

text \<open>Enriching a fact keeps its constructor group.\<close>

lemma enrich_same: "enrich st f = Inr g \<Longrightarrow> (\<forall>x. f \<noteq> ItemFact x) \<Longrightarrow> g = f"
  by (cases "(st, f)" rule: enrich.cases) (auto split: option.splits if_splits)

lemma enrich_item: "enrich st (ItemFact x) = Inr g \<Longrightarrow> \<exists>y. g = ItemFact y"
  by (cases x) (auto split: option.splits)

section \<open>Frames\<close>

lemma frame_commands:
  assumes "apply_record p r = Inr q" and "\<And>f. rr_fact r \<noteq> HostFact f"
  shows "host_commands q = host_commands p"
proof -
  let ?I = "\<lambda>s. host_commands s = host_commands p"
  have adv: "preserves ?I (advance r)" by (rule frame_advance) simp_all
  show ?thesis
    by (rule apply_record_preserves [where I = ?I, OF assms(1)];
        (rule group_frames frame_execution [OF adv])?; (rule adv)?; use assms(2) in simp)
qed

lemma frame_interactions:
  assumes "apply_record p r = Inr q" and "\<And>f. rr_fact r \<noteq> InteractionFact f"
  shows "interactions q = interactions p \<and> approvals q = approvals p"
proof -
  let ?I = "\<lambda>s. interactions s = interactions p \<and> approvals s = approvals p"
  have adv: "preserves ?I (advance r)" by (rule frame_advance) simp_all
  show ?thesis
    by (rule apply_record_preserves [where I = ?I, OF assms(1)];
        (rule group_frames frame_execution [OF adv])?; (rule adv)?; use assms(2) in simp)
qed

text \<open>A Thread up to the stamp of its last record.\<close>

definition thread_core :: "thread_row \<Rightarrow> thread_row" where
  "thread_core t = t\<lparr>th_seq := 0\<rparr>"

definition thread_cores :: "projection \<Rightarrow> string \<Rightarrow> thread_row option" where
  "thread_cores p k = map_option thread_core (tget (threads p) k)"

lemma thread_cores_stamp:
  "tget (threads s) k = Some x \<Longrightarrow> thread_cores (s\<lparr>threads := tput k (x\<lparr>th_seq := n\<rparr>) (threads s)\<rparr>) = thread_cores s"
  by (auto simp: thread_cores_def thread_core_def)

lemma thread_cores_touch: "preserves (\<lambda>s. thread_cores s = c) (touch_thread r)"
  by (auto simp: preserves_def touch_thread_def mod_thread_def tmod_eq_Inr thread_cores_stamp)

lemma thread_cores_advance: "preserves (\<lambda>s. thread_cores s = c) (advance r)"
  unfolding advance_def
  by (intro preserve_intros thread_cores_touch frame_mod_turn) (simp add: thread_cores_def [abs_def])

lemma frame_thread_group:
  "preserves (\<lambda>s. thread_cores s = c) (apply_host r f1)"
  "preserves (\<lambda>s. thread_cores s = c) (apply_budget r f2)"
  "preserves (\<lambda>s. thread_cores s = c) (apply_model r f3)"
  "preserves (\<lambda>s. thread_cores s = c) (apply_tool r f4)"
  "preserves (\<lambda>s. thread_cores s = c) (apply_interaction r f5)"
  "preserves (\<lambda>s. thread_cores s = c) (apply_item r f6)"
  "preserves (\<lambda>s. thread_cores s = c) (apply_execution r f7)"
proof -
  let ?I = "\<lambda>s. thread_cores s = c"
  show "preserves ?I (apply_host r f1)"
    by (cases f1; simp only: group_unfolds;
        intro preserve_intros preserves_chain_dep thread_cores_touch frame_put_command frame_mod_command;
        simp add: thread_cores_def [abs_def])
  show "preserves ?I (apply_budget r f2)"
    by (cases f2; simp only: group_unfolds;
        intro preserve_intros preserves_chain_dep thread_cores_touch thread_cores_advance
          frame_put_reservation frame_mod_reservation frame_put_allocation frame_mod_allocation;
        simp add: thread_cores_def [abs_def])
  show "preserves ?I (apply_model r f3)"
    by (rule frame_group_model [OF _ _ thread_cores_advance]) (simp_all add: thread_cores_def [abs_def])
  show "preserves ?I (apply_tool r f4)"
    by (rule frame_group_tool [OF _ thread_cores_advance]) (simp add: thread_cores_def [abs_def])
  show "preserves ?I (apply_interaction r f5)"
    by (rule frame_group_interaction [OF _ _ thread_cores_advance]) (simp_all add: thread_cores_def [abs_def])
  show "preserves ?I (apply_item r f6)"
    by (rule frame_group_item [OF _ _ _ thread_cores_advance]) (simp_all add: thread_cores_def [abs_def])
  show "preserves ?I (apply_execution r f7)"
    by (rule frame_execution [OF thread_cores_advance])
qed

lemma frame_threads:
  assumes "apply_record p r = Inr q" and "\<And>f. rr_fact r \<noteq> ThreadFact f" and "\<And>f. rr_fact r \<noteq> TurnFact f"
  shows "thread_cores q = thread_cores p"
  by (rule apply_record_preserves [where I = "\<lambda>s. thread_cores s = thread_cores p", OF assms(1)];
      (rule frame_thread_group)?; use assms(2,3) in simp)

section \<open>Frames of an append\<close>

text \<open>The shape of an append, with the fact kept in its group.\<close>

definition same_group :: "fact \<Rightarrow> fact \<Rightarrow> bool" where
  "same_group f g \<longleftrightarrow> g = f \<or> (\<exists>x y. f = ItemFact x \<and> g = ItemFact y)"

lemma enrich_group: "enrich st f = Inr g \<Longrightarrow> same_group f g"
  unfolding same_group_def using enrich_same enrich_item by (cases "\<exists>x. f = ItemFact x") blast+

lemma append_step:
  assumes "store_ok st" and "addressed th (proj st) f" and "append_fact th turn pr f st = Inr st'"
  shows "\<exists>r q. apply_record (counted (proj st)) r = Inr q \<and> proj st' = durable q \<and> same_group f (rr_fact r)
    \<and> rr_thread r = th \<and> rr_turn r = turn \<and> ((\<forall>x. f \<noteq> ItemFact x) \<longrightarrow> rr_fact r = f)"
proof -
  obtain g q where "enrich st f = Inr g"
    "apply_record (counted (proj st)) (make_record st th turn pr g) = Inr q" "proj st' = durable q"
    by (rule append_effect [OF assms])
  then show ?thesis using enrich_group enrich_same by (metis record_fields(1,2,4))
qed

lemma append_keeps_tools:
  assumes "store_ok st" and "addressed th (proj st) f" and "append_fact th turn pr f st = Inr st'"
    and "\<And>x. f \<noteq> ToolFact x"
  shows "tool_operations (proj st') = tool_operations (proj st)"
  using append_step [OF assms(1-3)] assms(4) by (auto simp: same_group_def dest!: frame_tools)

lemma append_keeps_budget:
  assumes "store_ok st" and "addressed th (proj st) f" and "append_fact th turn pr f st = Inr st'"
    and "\<And>x. f \<noteq> BudgetFact x"
  shows "budget_reservations (proj st') = budget_reservations (proj st)
    \<and> child_budget_allocations (proj st') = child_budget_allocations (proj st)"
  using append_step [OF assms(1-3)] assms(4) by (auto simp: same_group_def dest!: frame_budget)

lemma append_keeps_models:
  assumes "store_ok st" and "addressed th (proj st) f" and "append_fact th turn pr f st = Inr st'"
    and "\<And>x. f \<noteq> ModelFact x"
  shows "model_operations (proj st') = model_operations (proj st) \<and> model_attempts (proj st') = model_attempts (proj st)"
  using append_step [OF assms(1-3)] assms(4) by (auto simp: same_group_def dest!: frame_models)

lemma append_keeps_commands:
  assumes "store_ok st" and "addressed th (proj st) f" and "append_fact th turn pr f st = Inr st'"
    and "\<And>x. f \<noteq> HostFact x"
  shows "host_commands (proj st') = host_commands (proj st)"
  using append_step [OF assms(1-3)] assms(4) by (auto simp: same_group_def dest!: frame_commands)

lemma append_keeps_interactions:
  assumes "store_ok st" and "addressed th (proj st) f" and "append_fact th turn pr f st = Inr st'"
    and "\<And>x. f \<noteq> InteractionFact x"
  shows "interactions (proj st') = interactions (proj st) \<and> approvals (proj st') = approvals (proj st)"
  using append_step [OF assms(1-3)] assms(4) by (auto simp: same_group_def dest!: frame_interactions)

lemma append_keeps_items:
  assumes "store_ok st" and "addressed th (proj st) f" and "append_fact th turn pr f st = Inr st'"
    and "\<And>x. f \<noteq> ItemFact x"
  shows "items (proj st') = items (proj st)"
  using append_step [OF assms(1-3)] assms(4) by (auto simp: same_group_def dest!: frame_items)

lemma turn_cores_same [simp]: "turn_cores (counted p) = turn_cores p" "turn_cores (durable p) = turn_cores p"
  by (simp_all add: turn_cores_def fun_eq_iff)

lemma thread_cores_same [simp]: "thread_cores (counted p) = thread_cores p" "thread_cores (durable p) = thread_cores p"
  by (simp_all add: thread_cores_def fun_eq_iff)

lemma append_keeps_turns:
  assumes "store_ok st" and "addressed th (proj st) f" and "append_fact th turn pr f st = Inr st'"
    and "\<And>x. f \<noteq> TurnFact x"
  shows "turn_cores (proj st') = turn_cores (proj st)"
  using append_step [OF assms(1-3)] assms(4) by (auto simp: same_group_def dest!: frame_turns)

lemma append_keeps_threads:
  assumes "store_ok st" and "addressed th (proj st) f" and "append_fact th turn pr f st = Inr st'"
    and "\<And>x. f \<noteq> TurnFact x" and "\<And>x. f \<noteq> ThreadFact x"
  shows "thread_cores (proj st') = thread_cores (proj st)"
  using append_step [OF assms(1-3)] assms(4,5) by (auto simp: same_group_def dest!: frame_threads)

end
