(* ===== verification/Artifact_Ops.thy ===== *)
theory Artifact_Ops
  imports Turn_Ops
begin

text \<open>
  Durable artifact references (\<open>harness/artifact_ops.py\<close>). The blob files live in the file system:
  the hash and size of an installed blob, and the integrity errors of a stored one, are
  parameters.
\<close>

definition commit_artifact ::
  "string \<Rightarrow> string \<Rightarrow> string \<Rightarrow> int \<Rightarrow> string \<Rightarrow> string \<Rightarrow> store \<Rightarrow> store result" where
  "commit_artifact aid tid sha size_bytes media_type name st =
     (if blank media_type then Inl (ValueError ''artifact media_type must be non-empty'')
      else if blank name then Inl (ValueError ''artifact name must be non-empty'')
      else ebind (running_turn st tid) (\<lambda>tu.
        append_fact (tu_thread tu) (Some tid) ''runtime''
          (ItemFact (ArtifactCommitted aid sha size_bytes media_type name)) st))"

text \<open>\<open>_validate_artifact_references\<close>; \<open>blob_error aid\<close> says that the stored blob is damaged.\<close>

definition attachment_error :: "(string \<Rightarrow> bool) \<Rightarrow> store \<Rightarrow> json \<Rightarrow> py_error option" where
  "attachment_error blob_error st v =
     (if \<not> is_obj v then Some (RuntimeError ''tool result artifact attachment is malformed'')
      else case jget v ''artifact_id'' of
          JStr aid \<Rightarrow> (case tget (artifacts (proj st)) aid of
              None \<Rightarrow> Some (RuntimeError ''tool result references unknown artifact'')
            | Some a \<Rightarrow>
                if jget v ''media_type'' \<noteq> JStr (ar_media_type a) \<or> jget v ''name'' \<noteq> JStr (ar_name a)
                then Some (RuntimeError ''tool result artifact metadata conflicts with durable reference'')
                else if blob_error aid then Some (RuntimeError ''artifact integrity check failed'')
                else None)
        | _ \<Rightarrow> Some (RuntimeError ''tool result references an unknown artifact''))"

fun first_attachment_error :: "(string \<Rightarrow> bool) \<Rightarrow> store \<Rightarrow> json list \<Rightarrow> py_error option" where
  "first_attachment_error blob_error st [] = None"
| "first_attachment_error blob_error st (v # vs) = (case attachment_error blob_error st v of
       Some e \<Rightarrow> Some e | None \<Rightarrow> first_attachment_error blob_error st vs)"

definition validate_artifact_references :: "(string \<Rightarrow> bool) \<Rightarrow> store \<Rightarrow> json \<Rightarrow> unit result" where
  "validate_artifact_references blob_error st payload =
     (case jget_or payload ''attachments'' (JArr []) of
        JArr vs \<Rightarrow> (case first_attachment_error blob_error st vs of Some e \<Rightarrow> Inl e | None \<Rightarrow> Inr ())
      | _ \<Rightarrow> Inl (RuntimeError ''tool result artifact attachments must be a list''))"

end
