(* ===== verification/Model_Commands.thy ===== *)
theory Model_Commands
  imports Model_Ops Artifact_Ops
begin

text \<open>
  The commands of \<open>harness/model_ops.py\<close>: preparing a model operation once per request identity,
  dispatching its attempt under the Turn's budget, and every way an attempt ends. \<open>iid\<close>, \<open>uid\<close>,
  \<open>aid\<close> are fresh identities, \<open>content\<close> reads and parses a stored request artifact.
\<close>

section \<open>Preparing an operation\<close>

definition validate_turn_model_requests :: "store \<Rightarrow> string \<Rightarrow> unit result" where
  "validate_turn_model_requests st tid = ebind
     (sequence_result (map (\<lambda>m. request_input_revision (mo_request_ref m)) (list_model_operations st tid)))
     (\<lambda>_. Inr ())"

record request_hashes =
  rh_request :: string
  rh_context :: string
  rh_tool :: string
  rh_wire :: string

definition hashes_present :: "request_hashes \<Rightarrow> bool" where
  "hashes_present h \<longleftrightarrow> rh_request h \<noteq> [] \<and> rh_context h \<noteq> [] \<and> rh_tool h \<noteq> [] \<and> rh_wire h \<noteq> []"

definition op_hashes :: "model_op_row \<Rightarrow> request_hashes" where
  "op_hashes m = \<lparr>rh_request = mo_request_hash m, rh_context = mo_context_hash m,
     rh_tool = mo_tool_hash m, rh_wire = mo_wire_hash m\<rparr>"

definition request_payload :: "request_hashes \<Rightarrow> json \<Rightarrow> json" where
  "request_payload h ref = JObj
     [(''context_hash'', JStr (rh_context h)), (''request_hash'', JStr (rh_request h)), (''request_ref'', ref),
      (''tool_hash'', JStr (rh_tool h)), (''wire_hash'', JStr (rh_wire h))]"

text \<open>The operations of the Turn that already carry this request identity.\<close>

definition request_matches :: "store \<Rightarrow> string \<Rightarrow> string \<Rightarrow> model_op_row list" where
  "request_matches st tid rid = filter (\<lambda>m. jget (mo_request_ref m) ''request_id'' = JStr rid)
     (list_model_operations st tid)"

text \<open>\<open>str(value)\<close> of an artifact identity; a value that is not a string names no artifact.\<close>

definition artifact_content :: "(string \<Rightarrow> json result) \<Rightarrow> json \<Rightarrow> json result" where
  "artifact_content content v = (case v of JStr a \<Rightarrow> content a | _ \<Rightarrow> Inl (KeyError ''unknown artifact''))"

text \<open>A request identity can be used again only with the very same request.\<close>

definition same_request ::
  "(string \<Rightarrow> json result) \<Rightarrow> request_hashes \<Rightarrow> json \<Rightarrow> json \<Rightarrow> model_op_row \<Rightarrow> unit result" where
  "same_request content h payload ref m =
     (let stored = jget (mo_request_ref m) ''frozen_request_artifact'';
          incoming = jget ref ''frozen_request_artifact'';
          finally_same = (if op_hashes m \<noteq> h
              \<or> jdel (mo_request_ref m) ''frozen_request_artifact'' \<noteq> jdel ref ''frozen_request_artifact''
            then Inl (RuntimeError ''model request identity reused with conflicting payload'') else Inr ())
      in if incoming \<noteq> JNull \<and> incoming \<noteq> stored
         then Inl (RuntimeError ''model request identity reused with conflicting frozen artifact'')
         else if payload = JNull then finally_same
         else if stored = JNull
         then Inl (RuntimeError ''model request identity reused with conflicting frozen payload'')
         else ebind (artifact_content content stored) (\<lambda>v. if v \<noteq> payload
           then Inl (RuntimeError ''model request identity reused with conflicting frozen payload'')
           else finally_same))"

text \<open>The artifact of a new request: installed from the payload, or checked to be readable.\<close>

definition freeze_request ::
  "(string \<Rightarrow> json result) \<Rightarrow> string \<Rightarrow> string \<Rightarrow> int \<Rightarrow> string \<Rightarrow> json \<Rightarrow> json \<Rightarrow> store \<Rightarrow> (json \<times> store) result" where
  "freeze_request content aid sha size_bytes tid payload ref st =
     (if payload \<noteq> JNull then
        (if jfind ref ''frozen_request_artifact'' \<noteq> None
         then Inl (ValueError ''new model request must provide payload or artifact identity, not both'')
         else ebind (commit_artifact aid tid sha size_bytes ''application/json'' ''frozen-model-request.json'' st)
           (\<lambda>s. Inr (jset ref ''frozen_request_artifact'' (JStr aid), s)))
      else case jfind ref ''frozen_request_artifact'' of
          None \<Rightarrow> Inr (ref, st)
        | Some v \<Rightarrow> ebind (artifact_content content v) (\<lambda>_. Inr (ref, st)))"

definition append_prepared ::
  "string \<Rightarrow> string \<Rightarrow> string \<Rightarrow> string \<Rightarrow> string \<Rightarrow> request_hashes \<Rightarrow> json \<Rightarrow> store \<Rightarrow> store result" where
  "append_prepared thid tid op att riid h ref = chain
     [append_fact thid (Some tid) ''runtime'' (ModelFact (ModelOperationPrepared op att 1
        (rh_request h) (rh_context h) (rh_tool h) (rh_wire h) ref)),
      commit_item thid tid ''runtime'' riid ''model_request'' (JObj []) (request_payload h ref)]"

record fresh_request =
  fr_operation :: string
  fr_attempt :: string
  fr_item :: string
  fr_artifact :: string
  fr_sha256 :: string
  fr_size :: int

definition prepare_model_operation ::
  "(string \<Rightarrow> json result) \<Rightarrow> fresh_request \<Rightarrow> string \<Rightarrow> request_hashes \<Rightarrow> json \<Rightarrow> store
     \<Rightarrow> (string \<times> store) result" where
  "prepare_model_operation content fr tid h request_ref st =
     (let payload = jget request_ref ''frozen_request_payload'';
          ref = jdel request_ref ''frozen_request_payload''
      in if \<not> hashes_present h then Inl (ValueError ''model operation hashes must be non-empty strings'')
         else if payload \<noteq> JNull \<and> \<not> is_obj payload
         then Inl (TypeError ''frozen request payload must be an object'')
         else ebind (request_input_revision ref) (\<lambda>_.
           case jget ref ''request_id'' of
             JStr rid \<Rightarrow>
               if blank rid then Inl (ValueError ''model request_ref.request_id must be a non-empty string'')
               else ebind (running_turn st tid) (\<lambda>tu. case request_matches st tid rid of
                   [] \<Rightarrow> ebind (freeze_request content (fr_artifact fr) (fr_sha256 fr) (fr_size fr) tid payload ref st)
                     (\<lambda>(frozen, s). ebind
                       (append_prepared (tu_thread tu) tid (fr_operation fr) (fr_attempt fr) (fr_item fr) h frozen s)
                       (\<lambda>s'. Inr (fr_operation fr, s')))
                 | [m] \<Rightarrow> ebind (same_request content h payload ref m) (\<lambda>_. Inr (mo_id m, st))
                 | _ \<Rightarrow> Inl (RuntimeError ''duplicate durable model request identity''))
           | _ \<Rightarrow> Inl (ValueError ''model request_ref.request_id must be a non-empty string'')))"

definition supersede_prepared_model :: "string \<Rightarrow> store \<Rightarrow> store result" where
  "supersede_prepared_model op st =
     ebind (require (tget (model_operations (proj st)) op) (RuntimeError ''StopIteration'')) (\<lambda>m.
       if mo_status m \<noteq> MPrepared
       then Inl (RuntimeError ''only an undispatched prepared model can be superseded'')
       else append_fact (mo_thread m) (Some (mo_turn m)) ''runtime''
         (ModelFact (ModelAttemptRejected op (mo_active m) (Some ''input_superseded''))) st)"

section \<open>Dispatch\<close>

text \<open>The summary calls of the Turn that were dispatched under a plan's allowance.\<close>

definition plan_of :: "model_op_row \<Rightarrow> json" where
  "plan_of m = jget (mo_request_ref m) ''compaction_plan''"

definition same_plan :: "json \<Rightarrow> model_op_row \<Rightarrow> bool" where
  "same_plan plan m = (if truthy (jget plan ''job_id'')
     then jget (plan_of m) ''job_id'' = jget plan ''job_id''
     else jget (plan_of m) ''plan_id'' = jget plan ''plan_id'')"

definition dispatched_calls :: "store \<Rightarrow> string \<Rightarrow> model_op_row list \<Rightarrow> int" where
  "dispatched_calls st tid ms =
     (let sent = map (dispatched_attempt \<circ> rr_fact) (list_turn_records st tid)
      in int (length (filter (\<lambda>a. Some (ma_id a) \<in> set sent)
           (concat (map (\<lambda>m. list_model_attempts st (mo_id m)) ms)))))"

definition summary_operations :: "store \<Rightarrow> string \<Rightarrow> model_op_row list" where
  "summary_operations st tid = filter is_summary (list_model_operations st tid)"

definition check_call_limit :: "store \<Rightarrow> string \<Rightarrow> json \<Rightarrow> int \<Rightarrow> model_op_row list \<Rightarrow> unit result" where
  "check_call_limit st tid limit extra ms = (case limit of
       JNull \<Rightarrow> Inr ()
     | JInt n \<Rightarrow>
         if n < 1 then Inl (ValueError ''summary call allowance must be a positive integer'')
         else if dispatched_calls st tid ms \<ge> n + extra
         then Inl (BudgetLimitExceeded ''model_calls'' (n + extra) (dispatched_calls st tid ms) 1)
         else Inr ()
     | _ \<Rightarrow> Inl (ValueError ''summary call allowance must be a positive integer''))"

definition job_admissions :: "store \<Rightarrow> string \<Rightarrow> json \<Rightarrow> int" where
  "job_admissions st tid plan = (case jget plan ''job_id'' of
     JStr j \<Rightarrow> if j = [] then 0 else retry_admission_count st tid j | _ \<Rightarrow> 0)"

definition check_summary_calls :: "store \<Rightarrow> model_op_row \<Rightarrow> unit result" where
  "check_summary_calls st m =
     (let plan = plan_of m; tid = mo_turn m; ms = summary_operations st tid in
      if \<not> is_summary m \<or> plan = JNull then Inr ()
      else ebind (check_call_limit st tid (jget plan ''max_summary_calls'') 0 ms) (\<lambda>_.
        check_call_limit st tid (jget plan ''planned_summary_calls'') (job_admissions st tid plan)
          (filter (same_plan plan) ms)))"

text \<open>The job whose holds an attempt consumes: named by the request or by its plan.\<close>

definition dispatch_job :: "json \<Rightarrow> json" where
  "dispatch_job ref = (if jget ref ''compaction_job_id'' \<noteq> JNull then jget ref ''compaction_job_id''
     else jget (jget ref ''compaction_plan'') ''job_id'')"

text \<open>The tokens a summary outside any job must leave for the continuation.\<close>

definition continuation_reserve :: "model_op_row \<Rightarrow> usage \<Rightarrow> budget_state \<Rightarrow> int result" where
  "continuation_reserve m amount bs =
     (let plan = plan_of m in
      if \<not> is_summary m \<or> plan = JNull \<or> dispatch_job (mo_request_ref m) \<noteq> JNull then Inr 0
      else case as_int (jget plan ''continuation_token_reserve'') of
          None \<Rightarrow> Inl (ValueError ''summary plan must preserve a positive continuation token reserve'')
        | Some n \<Rightarrow>
            if n < 1 then Inl (ValueError ''summary plan must preserve a positive continuation token reserve'')
            else (case as_int (jget_or plan ''continuation_cost_reserve'' (JInt 0)) of
                None \<Rightarrow> Inl (ValueError ''summary continuation cost reserve must be non-negative'')
              | Some c \<Rightarrow>
                  if c < 0 then Inl (ValueError ''summary continuation cost reserve must be non-negative'')
                  else (case lim_cost_micros (limits bs) of
                      None \<Rightarrow> Inr n
                    | Some cap \<Rightarrow>
                        if cost_micros (exposure bs) + (cost_micros amount + c) > cap
                        then Inl (BudgetLimitExceeded ''cost_micros'' cap (cost_micros (exposure bs))
                               (cost_micros amount + c))
                        else Inr n)))"

definition reserve_attempt ::
  "string \<Rightarrow> string \<Rightarrow> model_op_row \<Rightarrow> usage \<Rightarrow> bool \<Rightarrow> store \<Rightarrow> store result" where
  "reserve_attempt iid uid m amount allow st =
     ebind (case dispatch_job (mo_request_ref m) of
         JNull \<Rightarrow> Inr st
       | JStr j \<Rightarrow> transfer_for_attempt iid uid (mo_turn m) j amount (request_purpose (mo_request_ref m)) st
       | _ \<Rightarrow> Inl (KeyError ''unknown compaction job'')) (\<lambda>s.
     ebind (read_budget_state s (mo_turn m)) (\<lambda>bs.
     ebind (continuation_reserve m amount bs) (\<lambda>extra.
     ebind (ensure_token_headroom bs (total_tokens amount + extra) (allow \<and> extra = 0)) (\<lambda>_.
     ebind (reserve bs (''reservation_'' @ mo_active m) (mo_id m) (mo_active m) amount) (\<lambda>(bs', r).
       append_fact (mo_thread m) (Some (mo_turn m)) ''runtime'' (budget_reserved_fact r) s)))))"

text \<open>
  The reservation of the attempt about to be sent, if it has one: a prepared retry already
  holds its own, a first attempt reserves now.
\<close>

definition admit_attempt ::
  "string \<Rightarrow> string \<Rightarrow> model_op_row \<Rightarrow> usage option \<Rightarrow> bool \<Rightarrow> store \<Rightarrow> (string option \<times> store) result" where
  "admit_attempt iid uid m request allow st = (case reservation_row_for_attempt st (mo_active m) of
       Some x \<Rightarrow>
         if rs_status x \<noteq> Reserved
         then Inl (RuntimeError ''prepared attempt has a non-reserved budget allocation'')
         else if rs_op x \<noteq> mo_id m
         then Inl (RuntimeError ''prepared attempt budget belongs to another operation'')
         else if (case request of None \<Rightarrow> False | Some a \<Rightarrow> rs_reserved x \<noteq> a)
         then Inl (RuntimeError ''prepared attempt budget differs from its frozen resource request'')
         else Inr (Some (rs_id x), st)
     | None \<Rightarrow> (case request of
           None \<Rightarrow> Inr (None, st)
         | Some a \<Rightarrow> ebind (reserve_attempt iid uid m a allow st)
             (\<lambda>s. Inr (Some (''reservation_'' @ mo_active m), s))))"

definition attempt_request :: "model_op_row \<Rightarrow> usage option \<Rightarrow> usage option" where
  "attempt_request m request = (if mo_generation m > 1 then map_option (\<lambda>a. set_retries a 1) request else request)"

definition send_attempt :: "model_op_row \<Rightarrow> string \<Rightarrow> real \<Rightarrow> real \<Rightarrow> string option \<Rightarrow> store \<Rightarrow> store result" where
  "send_attempt m worker now lease rid = chain
     [append_fact (mo_thread m) (Some (mo_turn m)) ''runtime''
        (ModelFact (ModelAttemptDispatched (mo_id m) (mo_active m) worker now (now + lease))),
      (case rid of None \<Rightarrow> Inr | Some k \<Rightarrow>
         append_fact (mo_thread m) (Some (mo_turn m)) ''runtime'' (BudgetFact (BudgetDispatched k)))]"

definition dispatch_checks :: "(string \<Rightarrow> json) \<Rightarrow> store \<Rightarrow> model_op_row \<Rightarrow> real \<Rightarrow> unit result" where
  "dispatch_checks source_hash st m now =
     ebind (validate_scheduled_dispatch source_hash st (mo_id m) now) (\<lambda>_.
     ebind (assert_no_pending_cancellation st (mo_turn m)) (\<lambda>_.
     ebind (request_input_revision (mo_request_ref m)) (\<lambda>revision.
       if jget (mo_request_ref m) ''purpose'' = JStr ''agent_step'' \<and> revision \<noteq> user_input_revision st (mo_turn m)
       then Inl TurnInputChanged
       else check_summary_calls st m)))"

definition dispatch_model_attempt ::
  "(string \<Rightarrow> json) \<Rightarrow> string list \<Rightarrow> string \<Rightarrow> string \<Rightarrow> string \<Rightarrow> string \<Rightarrow> real \<Rightarrow> real \<Rightarrow> usage option
     \<Rightarrow> bool \<Rightarrow> store \<Rightarrow> store result" where
  "dispatch_model_attempt source_hash blob_errors iid uid op worker lease now request allow st =
     (if blank worker then Inl (ValueError ''model worker_id must be non-empty'')
      else if lease \<le> 0 then Inl (ValueError ''model lease_seconds must be positive'')
      else ebind (read_model_operation st op) (\<lambda>m.
        ebind (artifacts_intact blob_errors) (\<lambda>_.
          if mo_status m \<noteq> MPrepared then Inl (RuntimeError ''model operation is not prepared'')
          else ebind (dispatch_checks source_hash st m now) (\<lambda>_.
            ebind (admit_attempt iid uid m (attempt_request m request) allow st) (\<lambda>(rid, s).
              send_attempt m worker now lease rid s)))))"

end
