(* ===== verification/Model_Outcomes.thy ===== *)
theory Model_Outcomes
  imports Model_Commands
begin

text \<open>
  How an attempt ends: the outcome commands of \<open>harness/model_ops.py\<close>, the settlement and
  scheduling of failures in \<open>harness/model_retry_ops.py\<close>, and the two compaction commands that
  prepare or reject a model operation (\<open>harness/compaction_jobs.py\<close>). Error texts are cut to the
  lengths the code stores only where a modelled fact keeps them.
\<close>

section \<open>Unknown, rejected and cancelled attempts\<close>

definition model_fact_by :: "model_op_row \<Rightarrow> string \<Rightarrow> fact \<Rightarrow> store \<Rightarrow> store result" where
  "model_fact_by m producer f = append_fact (mo_thread m) (Some (mo_turn m)) producer f"

definition attempt_outcome ::
  "model_op_row \<Rightarrow> string \<Rightarrow> budget_outcome \<Rightarrow> string \<Rightarrow> store \<Rightarrow> store result" where
  "attempt_outcome m att out producer = append_budget_outcome (mo_thread m) (mo_turn m) att out producer"

text \<open>An uncertain outcome stops a running Turn, and leaves any other as it is.\<close>

definition interrupt_if_running :: "model_op_row \<Rightarrow> string \<Rightarrow> store \<Rightarrow> store result" where
  "interrupt_if_running m producer st = (case tget (turns (proj st)) (mo_turn m) of
       None \<Rightarrow> Inr st
     | Some tu \<Rightarrow> if tu_status tu = Running
         then model_fact_by m producer (TurnFact (TurnInterrupted (mo_turn m))) st else Inr st)"

definition expire_model_attempt_dispatch :: "string \<Rightarrow> real \<Rightarrow> store \<Rightarrow> store result" where
  "expire_model_attempt_dispatch op now st = ebind (read_model_operation st op) (\<lambda>m.
     if mo_status m \<noteq> MDispatched then Inl (RuntimeError ''only a dispatched model attempt can expire'')
     else ebind (require (tget (model_attempts (proj st)) (mo_active m))
                  (RuntimeError ''active model attempt projection is missing'')) (\<lambda>a.
       if (case ma_lease a of None \<Rightarrow> True | Some t \<Rightarrow> now \<le> t)
       then Inl (RuntimeError ''model attempt dispatch lease has not expired'')
       else chain
         [model_fact_by m ''recovery'' (ModelFact (ModelAttemptUnknown op (ma_id a))),
          attempt_outcome m (ma_id a) OutUnknown ''recovery'',
          close_model_outputs (ma_id a) ''outcome_unknown'' ''model dispatch lease expired'' [],
          interrupt_if_running m ''recovery''] st))"

definition blank_text :: "string option \<Rightarrow> bool" where
  "blank_text x = (case x of None \<Rightarrow> False | Some s \<Rightarrow> blank s)"

definition mark_model_attempt_unknown ::
  "string \<Rightarrow> string \<Rightarrow> int \<Rightarrow> string option \<Rightarrow> string option \<Rightarrow> model_output list \<Rightarrow> store \<Rightarrow> store result" where
  "mark_model_attempt_unknown op att gen etype emsg outputs st =
     (if blank_text etype then Inl (ValueError ''model dispatch error_type must be non-empty'')
      else if blank_text emsg then Inl (ValueError ''model dispatch error_message must be non-empty'')
      else ebind (read_model_operation st op) (\<lambda>m.
        if \<not> attempt_is_active att gen m
        then Inl (RuntimeError ''only the active dispatched model attempt can become unknown'')
        else chain
          [model_fact_by m ''runtime'' (ModelFact (ModelAttemptUnknown op att)),
           attempt_outcome m att OutUnknown ''runtime'',
           close_model_outputs att ''outcome_unknown''
             (case emsg of None \<Rightarrow> ''model outcome is unknown'' | Some s \<Rightarrow> take 2000 (strip s)) outputs,
           interrupt_if_running m ''runtime''] st))"

definition rejection_outcome :: "string \<Rightarrow> budget_outcome option" where
  "rejection_outcome s = (if s = ''released'' then Some OutReleased
     else if s = ''unknown'' then Some OutUnknown
     else if s = ''settled'' then Some (OutSettled (JObj [])) else None)"

definition rejection_type :: "string option \<Rightarrow> model_failure option \<Rightarrow> string option" where
  "rejection_type etype failure = (case etype of
     Some s \<Rightarrow> Some (take 120 (strip s)) | None \<Rightarrow> map_option (kind_name \<circ> fl_kind) failure)"

definition reject_model_attempt ::
  "string \<Rightarrow> string \<Rightarrow> int \<Rightarrow> string \<Rightarrow> string option \<Rightarrow> string option \<Rightarrow> model_output list \<Rightarrow> string
     \<Rightarrow> model_failure option \<Rightarrow> store \<Rightarrow> store result" where
  "reject_model_attempt op att gen reason etype emsg outputs outcome failure st =
     (if blank reason then Inl (ValueError ''model rejection reason must be non-empty'')
      else case rejection_outcome outcome of
          None \<Rightarrow> Inl (ValueError ''model rejection budget_outcome is unsupported'')
        | Some out \<Rightarrow>
            if blank_text etype then Inl (ValueError ''model rejection error_type must be non-empty'')
            else if blank_text emsg then Inl (ValueError ''model rejection error_message must be non-empty'')
            else ebind (read_model_operation st op) (\<lambda>m.
              if \<not> attempt_is_active att gen m
              then Inl (RuntimeError ''only the active dispatched model attempt can be rejected'')
              else chain
                [model_fact_by m ''runtime''
                   (ModelFact (ModelAttemptRejected op att (rejection_type etype failure))),
                 attempt_outcome m att out ''runtime'',
                 close_model_outputs att ''failed''
                   (take 2000 (strip (case emsg of None \<Rightarrow> reason | Some s \<Rightarrow> s))) outputs] st))"

definition cancel_model_attempt ::
  "string \<Rightarrow> string \<Rightarrow> int \<Rightarrow> string \<Rightarrow> model_output list \<Rightarrow> store \<Rightarrow> store result" where
  "cancel_model_attempt op att gen reason outputs st =
     (if blank reason then Inl (ValueError ''model cancellation reason must be non-empty'')
      else ebind (read_model_operation st op) (\<lambda>m.
        if \<not> attempt_is_active att gen m
        then Inl (RuntimeError ''only the active dispatched model attempt can be cancelled'')
        else chain
          [model_fact_by m ''runtime'' (ModelFact (ModelAttemptCancelled op att)),
           attempt_outcome m att OutUnknown ''runtime'',
           close_model_outputs att ''cancelled'' (take 2000 (strip reason)) outputs,
           model_fact_by m ''runtime'' (TurnFact (TurnCancelled (mo_turn m) None))] st))"

section \<open>Retries and completion\<close>

definition prepare_model_retry ::
  "string list \<Rightarrow> string \<Rightarrow> string \<Rightarrow> bool \<Rightarrow> real \<Rightarrow> store \<Rightarrow> store result" where
  "prepare_model_retry blob_errors att op automatic now st = ebind (read_model_operation st op) (\<lambda>m.
     ebind (artifacts_intact blob_errors) (\<lambda>_.
       if mo_status m \<noteq> (if automatic then MRetryWait else MUnknown)
       then Inl (RuntimeError ''model operation is not eligible for retry'')
       else ebind (model_fact_by m ''runtime'' (ModelFact (ModelRetryPrepared op (mo_active m) automatic now att
              (mo_generation m + 1))) st) (\<lambda>s.
         case tget (turns (proj s)) (mo_turn m) of
           None \<Rightarrow> Inl (RuntimeError ''model retry requires a running, paused or interrupted Turn'')
         | Some tu \<Rightarrow>
             if automatic
             then (if tu_status tu \<noteq> Running
                   then Inl (RuntimeError ''automatic model retry requires a running Turn'') else Inr s)
             else if tu_status tu \<notin> {Paused, Interrupted}
             then Inl (RuntimeError ''model retry requires a paused or interrupted Turn'')
             else model_fact_by m ''runtime'' (TurnFact (TurnResumed (mo_turn m))) s)))"

definition response_meta :: "bool \<Rightarrow> string \<Rightarrow> json" where
  "response_meta summary att = JObj ((''attempt_id'', JStr att) #
     (if summary then [] else [(''channel'', JStr ''agent_message''),
        (''output_protocol'', JStr ''model-outputs-v1'')]))"

text \<open>The committed payload: the response, with the conventions frozen in the Turn's binding.\<close>

definition recovery_feedback :: "bool \<Rightarrow> json \<Rightarrow> model_response \<Rightarrow> bool" where
  "recovery_feedback summary binding v \<longleftrightarrow> \<not> summary \<and> re_status v = ''incomplete''
     \<and> is_obj (jget binding ''model_response_recovery'')
     \<and> jget (jget binding ''model_response_recovery'') ''revision'' = JStr ''split-step-v2''"

definition committed_response :: "bool \<Rightarrow> json \<Rightarrow> model_response \<Rightarrow> json" where
  "committed_response summary binding v =
     (let p = model_response_payload v;
          p' = (if recovery_feedback summary binding v then jset p ''explicit_recovery_feedback'' (JBool True) else p)
      in if jget (jget binding ''execution_context_policy'') ''tool_result_order'' = JStr ''call-v1''
         then jset p' ''tool_result_order'' (JStr ''call-v1'') else p')"

definition empty_answer :: "model_response \<Rightarrow> bool" where
  "empty_answer v \<longleftrightarrow> re_status v = ''completed'' \<and> blank (response_text v) \<and> response_tool_calls v = []"

definition is_current_attempt :: "string \<Rightarrow> int \<Rightarrow> model_op_row \<Rightarrow> bool" where
  "is_current_attempt att gen m \<longleftrightarrow> attempt_is_active att gen m \<and> mo_response m = None"

definition commit_response ::
  "string \<Rightarrow> model_op_row \<Rightarrow> string \<Rightarrow> model_response \<Rightarrow> store \<Rightarrow> store result" where
  "commit_response riid m att v = chain
     [model_fact_by m ''runtime'' (ModelFact (ModelAttemptCompleted (mo_id m) att riid (re_provider v) (re_usage v))),
      attempt_outcome m att (OutSettled (re_usage v)) ''runtime'',
      model_fact_by m ''model'' (ItemFact (ItemStarted riid
        (if is_summary m then ''context_summary_response'' else ''model_response'')
        (response_meta (is_summary m) att))),
      (\<lambda>s. ebind (read_turn s (mo_turn m)) (\<lambda>tu. model_fact_by m ''model''
        (ItemFact (ItemCompleted riid None (committed_response (is_summary m) (tu_binding tu) v))) s))]"

text \<open>\<open>complete_model_attempt\<close>: a response for anything but the current attempt changes nothing.\<close>

definition complete_model_attempt ::
  "(string \<Rightarrow> string) \<Rightarrow> string \<Rightarrow> string \<Rightarrow> string \<Rightarrow> int \<Rightarrow> model_response \<Rightarrow> store \<Rightarrow> (bool \<times> store) result" where
  "complete_model_attempt fresh riid op att gen v st =
     (if empty_answer v then Inl (ValueError ''model response must contain text or tool calls'')
      else ebind (read_model_operation st op) (\<lambda>m.
        if \<not> is_current_attempt att gen m then Inr (False, st)
        else ebind (if is_summary m then Inr st
              else finish_model_outputs fresh op att gen (re_outputs v) st)
          (\<lambda>s. ebind (commit_response riid m att v s) (\<lambda>s'. Inr (True, s')))))"

section \<open>Failures and their schedules\<close>

fun dispatch_time :: "string \<Rightarrow> fact \<Rightarrow> real option" where
  "dispatch_time op (ModelFact (ModelAttemptDispatched o' _ _ t _)) = (if o' = op then Some t else None)"
| "dispatch_time op _ = None"

definition dispatch_times :: "store \<Rightarrow> model_op_row \<Rightarrow> real list" where
  "dispatch_times st m = map the (filter (\<lambda>t. t \<noteq> None)
     (map (dispatch_time (mo_id m) \<circ> rr_fact) (list_turn_records st (mo_turn m))))"

text \<open>A failure whose effect at the provider is not known.\<close>

definition uncertain_failure :: "model_failure \<Rightarrow> bool" where
  "uncertain_failure f \<longleftrightarrow> fl_provider f = UnknownOutcome \<and> (fl_kind f \<noteq> ProtocolError \<or> fl_output_started f)"

definition failure_fact :: "string \<Rightarrow> string \<Rightarrow> model_failure \<Rightarrow> fact" where
  "failure_fact op att f = (if uncertain_failure f then ModelFact (ModelAttemptUnknown op att)
     else ModelFact (ModelAttemptRejected op att (Some (kind_name (fl_kind f)))))"

definition failure_budget :: "model_failure \<Rightarrow> budget_outcome" where
  "failure_budget f = (if fl_billing f = BillingUnknown then OutUnknown
     else if fl_provider f = RejectedOutcome then OutSettled (JObj []) else OutNotSent)"

text \<open>Every observation is a floor for the clock.\<close>

definition clock_floor :: "store \<Rightarrow> model_op_row \<Rightarrow> real \<Rightarrow> real" where
  "clock_floor st m first_at = foldr max (map sc_observed_at (schedules st m) @ dispatch_times st m) first_at"

definition schedule_fact :: "model_op_row \<Rightarrow> retry_policy \<Rightarrow> model_failure \<Rightarrow> int \<Rightarrow> real \<Rightarrow> real \<Rightarrow> real \<Rightarrow> fact" where
  "schedule_fact m q f n now retry_at deadline = ModelFact (ModelRetryScheduled
     \<lparr>sc_operation = mo_id m, sc_attempt = mo_active m, sc_generation = mo_generation m,
      sc_retry_number = n + 1, sc_max_retries = rp_max_retries q, sc_observed_at = now,
      sc_retry_at = retry_at, sc_deadline_at = deadline, sc_failure = failure_to_payload f\<rparr>)"

definition failure_reason ::
  "retry_policy option \<Rightarrow> model_failure \<Rightarrow> int \<Rightarrow> real \<Rightarrow> real \<Rightarrow> string \<times> string" where
  "failure_reason policy f n now lowest = (case policy of
       Some q \<Rightarrow>
         if fl_retryable f \<and> \<not> fl_output_started f \<and> fl_provider f \<noteq> UnknownOutcome then
           (if now < lowest
            then (''model_retry_clock_invalid'', ''Automatic retry stopped because the clock moved backwards.'')
            else if n \<ge> rp_max_retries q
            then (''model_retry_exhausted'', ''Automatic model retry allowance exhausted.'')
            else (''model_retry_deadline_exceeded'', ''Automatic retry would exceed its frozen deadline.''))
         else (kind_name (fl_kind f), failure_message (fl_kind f))
     | None \<Rightarrow> (kind_name (fl_kind f), failure_message (fl_kind f)))"

definition failure_decision ::
  "store \<Rightarrow> model_op_row \<Rightarrow> retry_policy option \<Rightarrow> model_failure \<Rightarrow> real \<Rightarrow> real \<Rightarrow> real
     \<Rightarrow> (retry_policy \<times> real \<times> real \<times> int) option result" where
  "failure_decision st m policy f first_at now jitter = (case policy of
       None \<Rightarrow> Inr None
     | Some q \<Rightarrow>
         if now < clock_floor st m first_at then Inr None
         else ebind (retry_decide q f (int (length (schedules st m))) first_at now jitter)
           (\<lambda>d. Inr (map_option (\<lambda>(t, l, ms). (q, t, l, ms)) d)))"

text \<open>What follows a recorded failure: a scheduled retry, an interrupted Turn, or a failed one.\<close>

definition after_failure ::
  "string \<Rightarrow> (string \<Rightarrow> string) \<Rightarrow> model_op_row \<Rightarrow> model_failure \<Rightarrow> real \<Rightarrow> real \<Rightarrow> store \<Rightarrow> (string \<times> store) result" where
  "after_failure piid fresh m f now jitter st =
     ebind (read_turn st (mo_turn m)) (\<lambda>tu.
     ebind (require (case dispatch_times st m of [] \<Rightarrow> None | t # _ \<Rightarrow> Some t) (RuntimeError ''IndexError'')) (\<lambda>first_at.
     ebind (policy_from_binding (tu_binding tu)) (\<lambda>policy.
     ebind (failure_decision st m policy f first_at now jitter) (\<lambda>d.
       let n = int (length (schedules st m)) in
       case d of
         Some (q, retry_at, deadline, _) \<Rightarrow>
           ebind (model_fact_by m ''runtime'' (schedule_fact m q f n now retry_at deadline) st)
             (\<lambda>s. Inr (''scheduled'', s))
       | None \<Rightarrow>
           if uncertain_failure f
           then ebind (model_fact_by m ''runtime'' (TurnFact (TurnInterrupted (mo_turn m))) st)
             (\<lambda>s. Inr (''paused'', s))
           else
             let (code, text) = failure_reason policy f n now (clock_floor st m first_at)
             in ebind (fail_turn piid fresh (mo_turn m) code text st) (\<lambda>s. Inr (''failed'', s))))))"

definition record_failure ::
  "string \<Rightarrow> (string \<Rightarrow> string) \<Rightarrow> string \<Rightarrow> string \<Rightarrow> int \<Rightarrow> model_failure \<Rightarrow> model_output list \<Rightarrow> real \<Rightarrow> real
     \<Rightarrow> store \<Rightarrow> (string \<times> store) result" where
  "record_failure piid fresh op att gen f outputs now jitter st =
     ebind (read_model_operation st op) (\<lambda>m.
       if \<not> attempt_is_active att gen m
       then Inl (RuntimeError ''only the active dispatched model attempt can fail'')
       else ebind (chain
         [model_fact_by m ''runtime'' (failure_fact op att f),
          attempt_outcome m att (failure_budget f) ''runtime'',
          close_model_outputs att (if uncertain_failure f then ''outcome_unknown'' else ''failed'')
            (failure_message (fl_kind f)) outputs] st)
         (\<lambda>s. after_failure piid fresh m f now jitter s))"

definition prepare_scheduled_retry ::
  "(string \<Rightarrow> json) \<Rightarrow> string list \<Rightarrow> (nat \<Rightarrow> string) \<Rightarrow> string \<Rightarrow> string \<Rightarrow> usage \<Rightarrow> real \<Rightarrow> store \<Rightarrow> store result" where
  "prepare_scheduled_retry source_hash blob_errors fresh att op request now st =
     ebind (read_model_operation st op) (\<lambda>m.
       if mo_status m \<noteq> MRetryWait then Inl (RuntimeError ''model operation is not waiting for retry'')
       else ebind (require (read_schedule st m) (RuntimeError ''model retry schedule is missing'')) (\<lambda>s.
         ebind (validate_time (sc_observed_at s) s now) (\<lambda>_.
         ebind (validate_source source_hash st m) (\<lambda>_.
           let amount = set_retries request 1 in chain
             [admit_retry (fresh 0) (fresh 1) (fresh 2) (mo_turn m) op amount,
              prepare_model_retry blob_errors att op True now,
              (case request_job (mo_request_ref m) of
                 JNull \<Rightarrow> Inr
               | JStr j \<Rightarrow> transfer_for_attempt (fresh 3) (fresh 4) (mo_turn m) j amount
                   (request_purpose (mo_request_ref m))
               | _ \<Rightarrow> (\<lambda>_. Inl (KeyError ''unknown compaction job''))),
              (\<lambda>t. ebind (read_budget_state t (mo_turn m)) (\<lambda>bs.
                 ebind (ensure_token_headroom bs (total_tokens amount) False) (\<lambda>_.
                 ebind (reserve bs (''reservation_'' @ att) op att amount) (\<lambda>(bs', r).
                   model_fact_by m ''runtime'' (budget_reserved_fact r) t))))] st))))"

definition cancel_scheduled_retry ::
  "(string \<Rightarrow> string) \<Rightarrow> string \<Rightarrow> string \<Rightarrow> bool \<Rightarrow> store \<Rightarrow> store result" where
  "cancel_scheduled_retry fresh op code cancel st = ebind (read_model_operation st op) (\<lambda>m.
     if mo_status m \<notin> {MRetryWait, MPrepared} \<or> read_schedule st m = None
     then Inl (RuntimeError ''only an unstarted scheduled retry can be cancelled'')
     else chain
       ([if mo_status m = MPrepared then attempt_outcome m (mo_active m) OutReleased ''runtime'' else Inr,
         model_fact_by m ''runtime'' (ModelFact (ModelRetryCancelled op (mo_active m) (mo_generation m) code))]
        @ (if cancel then
             [(\<lambda>s. ebind (read_turn s (mo_turn m)) (\<lambda>tu. if tu_status tu = Running
                 then model_fact_by m ''runtime'' (TurnFact (TurnInterrupted (mo_turn m))) s else Inr s)),
              cancel_turn fresh (mo_turn m)]
           else [])) st)"

definition fail_unstarted_retry ::
  "string \<Rightarrow> (string \<Rightarrow> string) \<Rightarrow> string \<Rightarrow> string \<Rightarrow> string \<Rightarrow> store \<Rightarrow> store result" where
  "fail_unstarted_retry piid fresh op code message st = ebind (read_model_operation st op) (\<lambda>m. chain
     [cancel_scheduled_retry fresh op code False,
      fail_turn piid fresh (mo_turn m) code message] st)"

section \<open>Compaction commands over model operations\<close>

record prepared_call =
  pc_hashes :: request_hashes
  pc_ref :: json
  pc_request :: usage

text \<open>
  \<open>install_candidate\<close>: \<open>install\<close> is the caller's replacement of the candidate; the continuation
  operation, its reservation and the job's end are one commit.
\<close>

definition install_candidate ::
  "(string \<Rightarrow> json result) \<Rightarrow> (nat \<Rightarrow> string) \<Rightarrow> fresh_request \<Rightarrow> string \<Rightarrow> string \<Rightarrow> (store \<Rightarrow> store result)
     \<Rightarrow> prepared_call \<Rightarrow> store \<Rightarrow> store result" where
  "install_candidate content fresh fr tid jid install call st =
     ebind (read_job st tid jid) (\<lambda>j.
       if cj_revision j \<noteq> JInt (user_input_revision st tid)
       then Inl (ContextSourceChanged ''Compaction job source revision changed before install.'')
       else ebind (install st) (\<lambda>s1.
         ebind (record_job (fresh 0)
           (j\<lparr>cj_status := JStr ''candidate_ready'', cj_continuation := pc_ref call\<rparr>) s1) (\<lambda>s2.
         ebind (prepare_model_operation content fr tid (pc_hashes call) (pc_ref call) s2) (\<lambda>(op, s3).
         ebind (transfer_for_attempt (fresh 1) (fresh 2) tid jid (pc_request call) ''agent_step'' s3) (\<lambda>s4.
         ebind (read_model_operation s4 op) (\<lambda>m. chain
           [turn_fact_by_runtime tid (BudgetFact (BudgetReserved (''reservation_'' @ mo_active m) tid op
              (mo_active m) (pc_request call))),
            finish_job (fresh 3) tid jid ''installed''] s4))))))"

definition abandoned_job :: "model_op_row \<Rightarrow> string option" where
  "abandoned_job m = (case jget (plan_of m) ''job_id'' of JStr j \<Rightarrow> if j = [] then None else Some j | _ \<Rightarrow> None)"

definition finish_abandoned :: "string \<Rightarrow> string \<Rightarrow> model_op_row \<Rightarrow> store \<Rightarrow> store result" where
  "finish_abandoned iid tid m = (case abandoned_job m of None \<Rightarrow> Inr | Some j \<Rightarrow> finish_job iid tid j ''superseded'')"

definition release_unsent :: "string \<Rightarrow> model_op_row \<Rightarrow> store \<Rightarrow> store result" where
  "release_unsent tid m st =
     (if mo_status m = MUnknown then Inr st
      else case reservation_row_for_attempt st (mo_active m) of
          None \<Rightarrow> Inr st
        | Some x \<Rightarrow> if rs_status x = Reserved
            then turn_fact_by_runtime tid (BudgetFact (BudgetReleased (rs_id x))) st else Inr st)"

definition abandon_saved_summary ::
  "string \<Rightarrow> (string \<Rightarrow> string) \<Rightarrow> string \<Rightarrow> string \<Rightarrow> store \<Rightarrow> store result" where
  "abandon_saved_summary iid fresh tid op st =
     ebind (require (find (\<lambda>m. mo_id m = op) (list_model_operations st tid)) (RuntimeError ''StopIteration'')) (\<lambda>m.
       if \<not> is_summary m \<or> mo_status m \<notin> {MPrepared, MUnknown, MRetryWait}
       then Inl (RuntimeError ''only an uncompleted saved summary can be abandoned'')
       else if read_schedule st m \<noteq> None
       then chain [cancel_scheduled_retry fresh op ''context_source_superseded'' False,
                   finish_abandoned iid tid m] st
       else chain
         [append_fact (mo_thread m) (Some tid) ''runtime''
            (ModelFact (ModelAttemptRejected op (mo_active m) (Some ''context_source_superseded''))),
          release_unsent tid m,
          finish_abandoned iid tid m,
          (\<lambda>s. ebind (read_turn s tid) (\<lambda>tu. if tu_status tu \<in> {Paused, Interrupted}
             then append_fact (mo_thread m) (Some tid) ''runtime'' (TurnFact (TurnResumed tid)) s
             else Inr s))] st)"

end
