(* ===== verification/Tool_Ops.thy ===== *)
theory Tool_Ops
  imports Model_Outcomes Operation_Values Planning
begin

text \<open>
  The tool commands of \<open>harness/tool_ops.py\<close>: recording calls and prepared operations, claiming
  under a fence, committing outcomes and results, approvals, reconciliation, and the Items that
  record continuations, verifications and checkpoints. Fresh identities are arguments (\<open>iid\<close>
  an Item, \<open>req\<close> an interaction, \<open>fence\<close> a fencing token); \<open>blob_errors\<close> and \<open>blob_error\<close> are
  the integrity findings of the blob files. \<open>shown\<close> is Python's \<open>str\<close> on floats and containers.
\<close>

section \<open>Calls and prepared operations\<close>

definition call_payload :: "string \<Rightarrow> string \<Rightarrow> json \<Rightarrow> json \<Rightarrow> string option \<Rightarrow> json" where
  "call_payload call tool arguments origin err = JObj
     ((case err of None \<Rightarrow> [] | Some e \<Rightarrow> [(''argument_error'', JStr e)]) @
      [(''arguments'', arguments), (''origin'', origin), (''tool_call_id'', JStr call), (''tool_name'', JStr tool)])"

definition items_of_kind :: "store \<Rightarrow> string \<Rightarrow> string \<Rightarrow> item_row list" where
  "items_of_kind st tid kind = filter (\<lambda>it. it_kind it = kind) (list_items st tid)"

definition completed_of_kind :: "store \<Rightarrow> string \<Rightarrow> string \<Rightarrow> item_row list" where
  "completed_of_kind st tid kind = filter (\<lambda>it. it_status it = ItemCompletedStatus) (items_of_kind st tid kind)"

definition record_tool_call ::
  "string \<Rightarrow> string \<Rightarrow> string \<Rightarrow> string \<Rightarrow> json \<Rightarrow> json \<Rightarrow> string option \<Rightarrow> store \<Rightarrow> store result" where
  "record_tool_call iid tid call tool arguments origin err st =
     (if call = [] \<or> tool = [] then Inl (ValueError ''tool call identity must be non-empty'')
      else ebind (running_turn st tid) (\<lambda>tu.
        case filter (\<lambda>it. jget (it_payload it) ''tool_call_id'' = JStr call) (items_of_kind st tid ''tool_call'') of
          [] \<Rightarrow> commit_item (tu_thread tu) tid ''model'' iid ''tool_call'' (JObj [])
                  (call_payload call tool arguments origin err) st
        | [it] \<Rightarrow> if it_status it \<noteq> ItemCompletedStatus
                     \<or> it_payload it \<noteq> call_payload call tool arguments origin err
            then Inl (RuntimeError ''tool call identity conflicts with committed payload'') else Inr st
        | _ \<Rightarrow> Inl (RuntimeError ''tool call identity has multiple canonical Items'')))"

definition call_operation :: "store \<Rightarrow> string \<Rightarrow> string \<Rightarrow> tool_op_row option" where
  "call_operation st tid call = first_row (\<lambda>x. to_turn x = tid \<and> to_call x = call) (tool_operations (proj st))"

definition same_tool_identity :: "tool_spec \<Rightarrow> tool_op_row \<Rightarrow> bool" where
  "same_tool_identity s x \<longleftrightarrow> to_call x = ts_call s \<and> to_name x = ts_name s \<and> to_digest x = ts_digest s
     \<and> to_revision x = ts_revision s \<and> to_idempotent x = ts_idempotent s \<and> to_effects x = ts_effects s
     \<and> to_resources x = ts_resources s"

text \<open>\<open>record_tool_execution_state\<close>: first \<open>prepared\<close>, then only \<open>prepared\<close> to \<open>ready\<close>.\<close>

definition execution_state_fact :: "store \<Rightarrow> string \<Rightarrow> tool_spec \<Rightarrow> fact result" where
  "execution_state_fact st tid s = (case tget (tool_operations (proj st)) (ts_operation s) of
       None \<Rightarrow>
         if ts_status s \<noteq> TPrepared
         then Inl (RuntimeError ''first durable tool operation state must be prepared'')
         else if call_operation st tid (ts_call s) \<noteq> None
         then Inl (RuntimeError ''tool call already has an operation'')
         else Inr (ToolFact (ToolPrepared s))
     | Some x \<Rightarrow>
         if \<not> same_tool_identity s x then Inl (RuntimeError ''tool operation identity changed across states'')
         else if to_status x \<noteq> TPrepared
         then Inl (RuntimeError ''prepared-state API cannot mutate claimed or terminal operation'')
         else if ts_status s \<noteq> TReady then Inl (RuntimeError ''invalid tool operation transition'')
         else if ts_attempts s < to_attempts x
         then Inl (RuntimeError ''tool operation attempt count cannot decrease'')
         else Inr (ToolFact (ToolStatusChanged (ts_operation s) (ts_status s) (ts_attempts s) (ts_error s)
                (ts_reconcile s))))"

definition freeze_spec :: "tool_spec \<Rightarrow> tool_spec result" where
  "freeze_spec s = ebind (string_tuple (ts_effects s)) (\<lambda>es. ebind (resource_tuple (ts_resources s)) (\<lambda>rs.
     Inr (s\<lparr>ts_effects := es, ts_resources := rs\<rparr>)))"

definition record_tool_execution_state :: "string \<Rightarrow> tool_spec \<Rightarrow> store \<Rightarrow> store result" where
  "record_tool_execution_state tid s st =
     (if ts_status s \<notin> {TPrepared, TReady} then Inl (ValueError ''unsupported tool operation status'')
      else ebind (freeze_spec s) (\<lambda>frozen. ebind (running_turn st tid) (\<lambda>tu.
        ebind (execution_state_fact st tid frozen) (\<lambda>f.
          append_fact (tu_thread tu) (Some tid) ''runtime'' f st))))"

section \<open>Claims\<close>

definition active_tool :: "tool_op_row \<Rightarrow> bool" where
  "active_tool x \<longleftrightarrow> to_status x \<in> {TRunning, TUnknown}"

definition claim_conflict :: "store \<Rightarrow> tool_op_row \<Rightarrow> tool_op_row option" where
  "claim_conflict st x = find (\<lambda>y. resource_sets_conflict (to_resources x) (to_resources y))
     (select_rows (\<lambda>y. active_tool y \<and> to_id y \<noteq> to_id x) (tool_operations (proj st)))"

definition tool_fact_by :: "tool_op_row \<Rightarrow> string \<Rightarrow> fact \<Rightarrow> store \<Rightarrow> store result" where
  "tool_fact_by x producer f = append_fact (to_thread x) (Some (to_turn x)) producer f"

definition claim_tool_operation ::
  "string list \<Rightarrow> string \<Rightarrow> string \<Rightarrow> string \<Rightarrow> real \<Rightarrow> real \<Rightarrow> store \<Rightarrow> store result" where
  "claim_tool_operation blob_errors fence op worker lease now st =
     (if blank worker then Inl (ValueError ''worker_id must be non-empty'')
      else if lease \<le> 0 then Inl (ValueError ''lease_seconds must be positive'')
      else ebind (read_tool_operation st op) (\<lambda>x.
        ebind (artifacts_intact blob_errors) (\<lambda>_.
        ebind (assert_no_pending_cancellation st (to_turn x)) (\<lambda>_.
          if to_status x \<noteq> TReady then Inl (RuntimeError ''only a ready tool operation can be claimed'')
          else case claim_conflict st x of
              Some y \<Rightarrow> Inl (ResourceClaimConflict (to_id y))
            | None \<Rightarrow> tool_fact_by x ''runtime'' (ToolFact (ToolClaimed op (to_generation x + 1) fence worker
                (now + lease) (to_attempts x + 1))) st))))"

definition reject_ready_tool_operation :: "string \<Rightarrow> string \<Rightarrow> store \<Rightarrow> store result" where
  "reject_ready_tool_operation op err st =
     (if err = [] then Inl (ValueError ''start rejection error_code must be non-empty'')
      else ebind (read_tool_operation st op) (\<lambda>x.
        if to_status x \<noteq> TReady then Inl (RuntimeError ''only a ready tool operation can be rejected'')
        else tool_fact_by x ''runtime'' (ToolFact (ToolStartRejected op (to_attempts x) err)) st))"

definition ask_reconciliation :: "tool_op_row \<Rightarrow> string \<Rightarrow> string \<Rightarrow> json \<Rightarrow> store \<Rightarrow> store result" where
  "ask_reconciliation x producer req body = tool_fact_by x producer
     (InteractionFact (InteractionRequested req ''tool_reconciliation'' (Some (to_id x)) body))"

definition pause_tool_turn :: "tool_op_row \<Rightarrow> string \<Rightarrow> store \<Rightarrow> store result" where
  "pause_tool_turn x producer = tool_fact_by x producer (TurnFact (TurnPaused (to_turn x) None None))"

definition pause_if_running :: "tool_op_row \<Rightarrow> string \<Rightarrow> store \<Rightarrow> store result" where
  "pause_if_running x producer st = (case tget (turns (proj st)) (to_turn x) of
     None \<Rightarrow> Inr st
   | Some tu \<Rightarrow> if tu_status tu = Running then pause_tool_turn x producer st else Inr st)"

definition expire_tool_operation_claim :: "string \<Rightarrow> string \<Rightarrow> real \<Rightarrow> store \<Rightarrow> store result" where
  "expire_tool_operation_claim req op now st = ebind (read_tool_operation st op) (\<lambda>x.
     if to_status x \<noteq> TRunning then Inl (RuntimeError ''only a running tool operation claim can expire'')
     else if (case to_lease x of None \<Rightarrow> True | Some t \<Rightarrow> now \<le> t)
     then Inl (RuntimeError ''tool operation claim has not expired'')
     else chain
       [tool_fact_by x ''recovery'' (ToolFact (ToolClaimExpired op)),
        ask_reconciliation x ''recovery'' req (JObj
          [(''claim_generation'', JInt (to_generation x)), (''claim_owner'', of_opt_str (to_owner x)),
           (''idempotent'', JBool (to_idempotent x)),
           (''reason'', JStr ''tool outcome unknown after lease expiry'')]),
        pause_if_running x ''recovery''] st)"

definition tool_status_name :: "tool_status \<Rightarrow> string" where
  "tool_status_name s = (case s of
     TPrepared \<Rightarrow> ''prepared'' | TReady \<Rightarrow> ''ready'' | TAwaitingApproval \<Rightarrow> ''awaiting_approval''
   | TRunning \<Rightarrow> ''running'' | TSucceeded \<Rightarrow> ''succeeded'' | TFailed \<Rightarrow> ''failed'' | TUnknown \<Rightarrow> ''unknown''
   | TDenied \<Rightarrow> ''denied'' | TCancelled \<Rightarrow> ''cancelled'' | TSuperseded \<Rightarrow> ''superseded'')"

definition pending_of_kind :: "store \<Rightarrow> string \<Rightarrow> string \<Rightarrow> interaction_row list" where
  "pending_of_kind st tid kind = filter (\<lambda>i. in_kind i = kind) (pending_interactions st tid)"

definition mark_tool_result_missing :: "string \<Rightarrow> string \<Rightarrow> store \<Rightarrow> store result" where
  "mark_tool_result_missing req op st = ebind (read_tool_operation st op) (\<lambda>x.
     if to_status x \<notin> {TSucceeded, TFailed}
     then Inl (RuntimeError ''missing-result recovery requires a committed execution outcome'')
     else if to_result x \<noteq> None then Inl (RuntimeError ''tool operation already has a canonical result'')
     else if (case tget (turns (proj st)) (to_turn x) of None \<Rightarrow> True | Some tu \<Rightarrow> tu_status tu \<noteq> Running)
     then Inl (RuntimeError ''missing-result recovery requires a running Turn'')
     else if pending_of_kind st (to_turn x) ''tool_reconciliation'' \<noteq> []
     then Inl (RuntimeError ''tool reconciliation is already pending'')
     else chain
       [tool_fact_by x ''recovery'' (ToolFact (ToolResultMissing op)),
        ask_reconciliation x ''recovery'' req (JObj
          [(''committed_execution_status'', JStr (tool_status_name (to_status x))),
           (''idempotent'', JBool (to_idempotent x)),
           (''reason'', JStr ''tool execution outcome committed but ToolResult is missing'')]),
        pause_tool_turn x ''recovery''] st)"

section \<open>Outcomes\<close>

definition current_claim :: "tool_op_row \<Rightarrow> int \<Rightarrow> string \<Rightarrow> bool" where
  "current_claim x gen fence \<longleftrightarrow> to_status x = TRunning \<and> to_generation x = gen \<and> to_fence x = Some fence"

record tool_outcome_report =
  or_status :: tool_status
  or_attempts :: int
  or_error :: "string option"
  or_reconcile :: bool
  or_duration :: "real option"

definition unknown_request :: "tool_op_row \<Rightarrow> int \<Rightarrow> tool_outcome_report \<Rightarrow> json" where
  "unknown_request x gen v = JObj
     [(''claim_generation'', JInt gen), (''claim_owner'', of_opt_str (to_owner x)),
      (''error_code'', of_opt_str (or_error v)), (''idempotent'', JBool (to_idempotent x)),
      (''reason'', JStr ''tool execution outcome is unknown'')]"

definition commit_tool_operation_outcome ::
  "string \<Rightarrow> string \<Rightarrow> int \<Rightarrow> string \<Rightarrow> tool_outcome_report \<Rightarrow> store \<Rightarrow> (bool \<times> store) result" where
  "commit_tool_operation_outcome req op gen fence v st =
     (if or_status v \<notin> {TSucceeded, TFailed, TUnknown}
      then Inl (ValueError ''unsupported claimed tool outcome'')
      else if (case or_duration v of None \<Rightarrow> False | Some d \<Rightarrow> d < 0)
      then Inl (ValueError ''tool duration must be finite and non-negative'')
      else ebind (read_tool_operation st op) (\<lambda>x.
        if \<not> current_claim x gen fence then Inr (False, st)
        else ebind (chain
          (tool_fact_by x ''runtime'' (ToolFact (ToolOutcomeCommitted op (or_status v) (or_attempts v)
             (or_error v) (or_reconcile v) (or_duration v)))
           # (if or_status v = TUnknown
              then [ask_reconciliation x ''runtime'' req (unknown_request x gen v), pause_tool_turn x ''runtime'']
              else [])) st) (\<lambda>s. Inr (True, s))))"

end
