(* ===== verification/Tool_Results.thy ===== *)
theory Tool_Results
  imports Tool_Ops
begin

text \<open>
  The rest of \<open>harness/tool_ops.py\<close>: canonical results with the plan they may publish, results
  committed together with their outcome, reconciliation, approvals, and the Items for
  continuations, verifications and workspace checkpoints.
\<close>

section \<open>The plan of an update\_plan result\<close>

definition digit :: "nat \<Rightarrow> char" where
  "digit n = (char_of (48 + n mod 10 :: nat) :: char)"

fun nat_digits :: "nat \<Rightarrow> string" where
  "nat_digits n = (if n < 10 then [digit n] else nat_digits (n div 10) @ [digit n])"

definition int_text :: "int \<Rightarrow> string" where
  "int_text n = (if n < 0 then ''-'' @ nat_digits (nat (- n)) else nat_digits (nat n))"

text \<open>\<open>str(value)\<close>\<close>

definition py_str :: "(json \<Rightarrow> string) \<Rightarrow> json \<Rightarrow> string" where
  "py_str shown v = (case v of
       JStr s \<Rightarrow> s
     | JNull \<Rightarrow> ''None''
     | JBool b \<Rightarrow> if b then ''True'' else ''False''
     | JInt n \<Rightarrow> int_text n
     | _ \<Rightarrow> shown v)"

fun step_status_of :: "json \<Rightarrow> step_status option" where
  "step_status_of (JStr s) = (if s = ''pending'' then Some StepPending
     else if s = ''completed'' then Some StepCompleted
     else if s = ''in_progress'' then Some StepInProgress else None)"
| "step_status_of _ = None"

fun step_status_name :: "step_status \<Rightarrow> string" where
  "step_status_name StepPending = ''pending''"
| "step_status_name StepInProgress = ''in_progress''"
| "step_status_name StepCompleted = ''completed''"
| "step_status_name StepBlocked = ''blocked''"
| "step_status_name StepSkipped = ''skipped''"

text \<open>The steps of the call, numbered from \<open>n\<close>; entries of another shape are skipped.\<close>

definition call_step :: "(json \<Rightarrow> string) \<Rightarrow> nat \<Rightarrow> json \<Rightarrow> plan_step option" where
  "call_step shown n v = (if \<not> is_obj v then None
     else map_option (make_step
       (if truthy (jget v ''step_id'') then py_str shown (jget v ''step_id'') else ''step_'' @ nat_digits n)
       (py_str shown (jget_or v ''step'' (JStr []))))
       (step_status_of (jget v ''status'')))"

fun call_steps :: "(json \<Rightarrow> string) \<Rightarrow> nat \<Rightarrow> json list \<Rightarrow> plan_step list" where
  "call_steps shown n [] = []"
| "call_steps shown n (v # vs) = (case call_step shown n v of
     None \<Rightarrow> call_steps shown (n + 1) vs | Some s \<Rightarrow> s # call_steps shown (n + 1) vs)"

definition step_payload :: "plan_step \<Rightarrow> json" where
  "step_payload s = JObj [(''status'', JStr (step_status_name (ps_status s))), (''step_id'', JStr (ps_id s)),
     (''title'', JStr (ps_title s))]"

definition plan_snapshot :: "int \<Rightarrow> json \<Rightarrow> plan_step list \<Rightarrow> json \<Rightarrow> json" where
  "plan_snapshot revision objective steps summary = JObj
     [(''active_step_id'', of_opt_str (map_option ps_id (fallback_step steps))), (''objective'', objective),
      (''revision'', JInt revision), (''status'', JStr ''active''), (''steps'', JArr (map step_payload steps)),
      (''summary'', summary)]"

definition plan_update_event :: "json \<Rightarrow> plan_step list \<Rightarrow> string \<Rightarrow> json" where
  "plan_update_event explanation steps call = JObj
     [(''event_type'', JStr ''llm_update''),
      (''message'', (case explanation of JStr s \<Rightarrow> JStr s | _ \<Rightarrow> JStr ''Applied update_plan tool update.'')),
      (''related_step_id'', of_opt_str (map_option ps_id (fallback_step steps))),
      (''tool_call_ids'', JArr [JStr call])]"

definition turn_objective :: "store \<Rightarrow> string \<Rightarrow> json" where
  "turn_objective st tid = (case items_of_kind st tid ''user_message'' of
     [] \<Rightarrow> JStr ''Current task'' | it # _ \<Rightarrow> jget_or (it_payload it) ''text'' (JStr ''Current task''))"

text \<open>The revision and payload of the \<open>plan_state\<close> Item, if the result publishes one.\<close>

definition is_plan_result :: "tool_op_row \<Rightarrow> json \<Rightarrow> bool" where
  "is_plan_result x v \<longleftrightarrow> to_name x = ''update_plan'' \<and> jget v ''is_error'' \<noteq> JBool True"

definition result_plan ::
  "(json \<Rightarrow> string) \<Rightarrow> store \<Rightarrow> string \<Rightarrow> tool_op_row \<Rightarrow> json \<Rightarrow> (int \<times> json) option result" where
  "result_plan shown st tid x v =
     (if \<not> is_plan_result x v then Inr None
      else case as_int (jget (jget v ''structured_content'') ''revision'') of
          None \<Rightarrow> Inl (RuntimeError ''successful update_plan result requires a canonical revision'')
        | Some n \<Rightarrow>
            if n < 0 then Inl (RuntimeError ''successful update_plan result requires a canonical revision'')
            else (case filter (\<lambda>it. jget (it_payload it) ''tool_call_id'' = JStr (to_call x))
                    (completed_of_kind st tid ''tool_call'') of
                [it] \<Rightarrow>
                  let arguments = jget (it_payload it) ''arguments'';
                      steps = (case jget_or arguments ''plan'' (JArr []) of
                        JArr vs \<Rightarrow> call_steps shown 1 vs | _ \<Rightarrow> []);
                      revision = int (length (items_of_kind st tid ''plan_state'')) + 1
                  in if \<not> is_obj arguments
                     then Inl (RuntimeError ''successful update_plan ToolCall arguments are malformed'')
                     else Inr (Some (revision, JObj
                       [(''event'', plan_update_event (jget arguments ''explanation'') steps (to_call x)),
                        (''plan'', plan_snapshot revision (turn_objective st tid) steps
                           (jget arguments ''explanation''))]))
              | _ \<Rightarrow> Inl (RuntimeError ''successful update_plan result requires one canonical ToolCall'')))"

section \<open>Canonical results\<close>

definition result_meta :: "tool_op_row option \<Rightarrow> json \<Rightarrow> json" where
  "result_meta x v = (case x of
       None \<Rightarrow> JObj [(''tool_call_id'', jget v ''tool_call_id''), (''tool_name'', jget v ''tool_name'')]
     | Some o' \<Rightarrow> JObj
         ((if to_generation o' > 0
           then [(''attempt_generation'', JInt (to_generation o')), (''operation_id'', JStr (to_id o'))] else [])
          @ [(''tool_call_id'', JStr (to_call o')), (''tool_name'', JStr (to_name o'))]))"

definition result_statuses :: "tool_status set" where
  "result_statuses = {TSucceeded, TFailed, TDenied, TCancelled, TUnknown}"

text \<open>When a result can be recorded: for a finished operation, in a running Turn or under reconciliation.\<close>

definition result_allowed :: "store \<Rightarrow> turn_row \<Rightarrow> tool_op_row option \<Rightarrow> py_error option" where
  "result_allowed st tu x = (case x of
       None \<Rightarrow> if tu_status tu \<noteq> Running then Some (RuntimeError ''turn is not running'') else None
     | Some o' \<Rightarrow>
         if to_status o' \<notin> result_statuses
         then Some (RuntimeError ''tool result requires a terminal operation state'')
         else if tu_status tu = Paused \<and> to_status o' = TUnknown then
           (if length (filter (\<lambda>i. in_op i = Some (to_id o'))
                 (pending_of_kind st (tu_id tu) ''tool_reconciliation'')) \<noteq> 1
            then Some (RuntimeError ''paused unknown tool result requires one reconciliation interaction'')
            else None)
         else if tu_status tu \<noteq> Running then Some (RuntimeError ''turn is not running'')
         else None)"

definition result_operation :: "store \<Rightarrow> string \<Rightarrow> string option \<Rightarrow> tool_op_row option result" where
  "result_operation st tid op = (case op of
       None \<Rightarrow> Inr None
     | Some k \<Rightarrow> (case tget (tool_operations (proj st)) k of
           None \<Rightarrow> Inl (KeyError ''unknown tool operation'')
         | Some x \<Rightarrow> if to_turn x \<noteq> tid then Inl (KeyError ''unknown tool operation'') else Inr (Some x)))"

definition plan_facts :: "string \<Rightarrow> string \<Rightarrow> string \<Rightarrow> (int \<times> json) option \<Rightarrow> store \<Rightarrow> store result" where
  "plan_facts thid tid piid plan = (case plan of
       None \<Rightarrow> Inr
     | Some (revision, payload) \<Rightarrow>
         commit_item thid tid ''runtime'' piid ''plan_state'' (JObj [(''revision'', JInt revision)]) payload)"

definition link_result :: "string \<Rightarrow> string \<Rightarrow> string \<Rightarrow> tool_op_row option \<Rightarrow> store \<Rightarrow> store result" where
  "link_result thid tid iid x = (case x of
       None \<Rightarrow> Inr
     | Some o' \<Rightarrow> append_fact thid (Some tid) ''runtime'' (ToolFact (ToolResultLinked (to_id o') iid)))"

definition record_tool_result ::
  "(string \<Rightarrow> bool) \<Rightarrow> (json \<Rightarrow> string) \<Rightarrow> string \<Rightarrow> string \<Rightarrow> string \<Rightarrow> string option \<Rightarrow> json \<Rightarrow> store \<Rightarrow> store result" where
  "record_tool_result blob_error shown iid piid tid op v st =
     ebind (validate_artifact_references blob_error st v) (\<lambda>_.
     ebind (read_turn st tid) (\<lambda>tu.
     ebind (result_operation st tid op) (\<lambda>x.
       case result_allowed st tu x of
         Some e \<Rightarrow> Inl e
       | None \<Rightarrow> ebind (case x of None \<Rightarrow> Inr None | Some o' \<Rightarrow> result_plan shown st tid o' v) (\<lambda>plan. chain
           [commit_item (tu_thread tu) tid ''tool'' iid ''tool_result'' (result_meta x v) v,
            plan_facts (tu_thread tu) tid piid plan,
            link_result (tu_thread tu) tid iid x] st))))"

definition commit_tool_operation_result ::
  "(string \<Rightarrow> bool) \<Rightarrow> (json \<Rightarrow> string) \<Rightarrow> string \<Rightarrow> string \<Rightarrow> string \<Rightarrow> string \<Rightarrow> string \<Rightarrow> int \<Rightarrow> string
     \<Rightarrow> tool_outcome_report \<Rightarrow> json \<Rightarrow> store \<Rightarrow> (bool \<times> store) result" where
  "commit_tool_operation_result blob_error shown iid piid req tid op gen fence v payload st =
     ebind (commit_tool_operation_outcome req op gen fence v st) (\<lambda>(accepted, s).
       if \<not> accepted then Inr (False, s)
       else ebind (record_tool_result blob_error shown iid piid tid (Some op) payload s) (\<lambda>s'. Inr (True, s')))"

section \<open>Reconciliation\<close>

definition resolve_interaction ::
  "string \<Rightarrow> string \<Rightarrow> string \<Rightarrow> interaction_row \<Rightarrow> json \<Rightarrow> approval_status option \<Rightarrow> store \<Rightarrow> store result" where
  "resolve_interaction thid tid producer i response ap = append_fact thid (Some tid) producer
     (InteractionFact (InteractionResolved (in_id i) (in_version i + 1) response ap))"

definition bound_operation :: "store \<Rightarrow> interaction_row \<Rightarrow> tool_status \<Rightarrow> string \<Rightarrow> tool_op_row result" where
  "bound_operation st i status msg = (case in_op i of
       None \<Rightarrow> Inl (RuntimeError msg)
     | Some op \<Rightarrow> (case tget (tool_operations (proj st)) op of
           None \<Rightarrow> Inl (RuntimeError msg)
         | Some x \<Rightarrow> if to_status x \<noteq> status then Inl (RuntimeError msg) else Inr x))"

definition paused_turn :: "store \<Rightarrow> string \<Rightarrow> turn_row result" where
  "paused_turn st tid = ebind (read_turn st tid) (\<lambda>tu.
     if tu_status tu \<noteq> Paused then Inl (RuntimeError ''turn is not paused'') else Inr tu)"

definition the_pending :: "store \<Rightarrow> string \<Rightarrow> string \<Rightarrow> interaction_row result" where
  "the_pending st tid kind = (case pending_of_kind st tid kind of
     [i] \<Rightarrow> Inr i | _ \<Rightarrow> Inl (RuntimeError ''requires exactly one pending interaction''))"

definition reconciled_payload :: "string \<Rightarrow> tool_status \<Rightarrow> json \<Rightarrow> json" where
  "reconciled_payload revision status v = JObj
     [(''reconciler_revision'', JStr revision), (''result'', v), (''status'', JStr (tool_status_name status))]"

definition resolve_tool_reconciliation ::
  "string list \<Rightarrow> string \<Rightarrow> string \<Rightarrow> tool_status \<Rightarrow> json \<Rightarrow> string \<Rightarrow> store \<Rightarrow> store result" where
  "resolve_tool_reconciliation blob_errors iid tid status v revision st =
     (if status \<notin> {TSucceeded, TFailed, TCancelled}
      then Inl (ValueError ''reconciled tool status is unsupported'')
      else ebind (artifacts_intact blob_errors) (\<lambda>_.
        if blank revision then Inl (ValueError ''reconciler_revision must be non-empty'')
        else ebind (paused_turn st tid) (\<lambda>tu. ebind (the_pending st tid ''tool_reconciliation'') (\<lambda>i.
          ebind (bound_operation st i TUnknown ''reconciliation interaction is not bound to an unknown operation'')
            (\<lambda>x. chain
              [resolve_interaction (tu_thread tu) tid ''reconciler'' i (JObj
                 [(''reconciler_revision'', JStr revision), (''status'', JStr (tool_status_name status))]) None,
               append_fact (tu_thread tu) (Some tid) ''reconciler'' (ToolFact (ToolReconciled (to_id x) status
                 (as_str (jget v ''error_code'')))),
               commit_item (tu_thread tu) tid ''reconciler'' iid ''tool_reconciliation''
                 (JObj [(''operation_id'', JStr (to_id x)), (''reconciler_revision'', JStr revision)])
                 (reconciled_payload revision status v),
               append_fact (tu_thread tu) (Some tid) ''reconciler'' (ToolFact (ToolResultLinked (to_id x) iid)),
               append_fact (tu_thread tu) (Some tid) ''reconciler'' (TurnFact (TurnResumed tid))] st)))))"

section \<open>Approvals\<close>

definition resolve_tool_approval ::
  "string list \<Rightarrow> string \<Rightarrow> string \<Rightarrow> bool \<Rightarrow> store \<Rightarrow> store result" where
  "resolve_tool_approval blob_errors tid decision recheck st =
     (if decision \<notin> {''approve'', ''deny''} then Inl (ValueError ''approval decision must be approve or deny'')
      else ebind (artifacts_intact blob_errors) (\<lambda>_.
        ebind (paused_turn st tid) (\<lambda>tu. ebind (the_pending st tid ''tool_approval'') (\<lambda>i.
        ebind (bound_operation st i TAwaitingApproval ''pending approval is not bound to an awaiting operation'')
          (\<lambda>x. chain
            [resolve_interaction (tu_thread tu) tid ''user'' i
               (JObj ((''decision'', JStr decision) # (if recheck then [(''policy_recheck'', JBool True)] else [])))
               (Some (if decision = ''approve'' then ApprovalApproved else ApprovalDenied)),
             append_fact (tu_thread tu) (Some tid) ''runtime'' (ToolFact (ToolApprovalResolved (to_id x)
               (if decision = ''approve'' then TReady else TDenied))),
             append_fact (tu_thread tu) (Some tid) ''runtime'' (TurnFact (TurnResumed tid))] st)))))"

definition ask_approval :: "string \<Rightarrow> string \<Rightarrow> string \<Rightarrow> string option \<Rightarrow> json \<Rightarrow> store \<Rightarrow> store result" where
  "ask_approval thid tid req op body = append_fact thid (Some tid) ''runtime''
     (InteractionFact (InteractionRequested req ''tool_approval'' op body))"

definition await_approval :: "string \<Rightarrow> string \<Rightarrow> string \<Rightarrow> string option \<Rightarrow> store \<Rightarrow> store result" where
  "await_approval thid tid req op = (case op of
       None \<Rightarrow> (\<lambda>_. Inl (KeyError ''operation_id''))
     | Some k \<Rightarrow> append_fact thid (Some tid) ''runtime'' (ToolFact (ToolApprovalRequested k req)))"

definition unexecuted_approvals :: "store \<Rightarrow> string \<Rightarrow> interaction_row list result" where
  "unexecuted_approvals st tid = sequence_result (map (\<lambda>x. read_interaction st (the (to_approval x)))
     (filter (\<lambda>x. to_status x \<in> {TAwaitingApproval, TReady} \<and> to_approval x \<noteq> None)
       (list_tool_operations st tid)))"

definition retire_approval :: "string \<Rightarrow> string \<Rightarrow> interaction_row \<Rightarrow> store \<Rightarrow> store result" where
  "retire_approval thid tid i = (if in_status i = InteractionPending
     then resolve_interaction thid tid ''runtime'' i (JObj [(''action'', JStr ''recheck'')]) (Some ApprovalInvalid)
     else append_fact thid (Some tid) ''runtime'' (InteractionFact (ApprovalInvalidated (in_id i))))"

definition refresh_tool_approval :: "string \<Rightarrow> string \<Rightarrow> json \<Rightarrow> store \<Rightarrow> store result" where
  "refresh_tool_approval req tid body st = ebind (read_turn st tid) (\<lambda>tu.
     ebind (unexecuted_approvals st tid) (\<lambda>cs. case cs of
         [i] \<Rightarrow>
           if tu_status tu \<notin> {Paused, Running}
           then Inl (RuntimeError ''approval refresh requires one unexecuted operation'')
           else if in_status i = InteractionResolvedStatus
                   \<and> jget (in_response i) ''policy_recheck'' \<noteq> JBool True
           then Inl (RuntimeError ''only a policy recheck can reopen a resolved approval'')
           else chain
             [retire_approval (tu_thread tu) tid i,
              ask_approval (tu_thread tu) tid req (in_op i) body,
              await_approval (tu_thread tu) tid req (in_op i),
              (if tu_status tu = Running
               then append_fact (tu_thread tu) (Some tid) ''runtime'' (TurnFact (TurnPaused tid None None))
               else Inr)] st
       | _ \<Rightarrow> Inl (RuntimeError ''approval refresh requires one unexecuted operation'')))"

definition invalidate_tool_approval :: "string \<Rightarrow> string \<Rightarrow> store \<Rightarrow> store result" where
  "invalidate_tool_approval tid reason st =
     (if blank reason then Inl (ValueError ''approval invalidation reason must be non-empty'')
      else ebind (paused_turn st tid) (\<lambda>tu. ebind (the_pending st tid ''tool_approval'') (\<lambda>i.
        ebind (bound_operation st i TAwaitingApproval ''approval is not bound to an awaiting operation'') (\<lambda>x. chain
          [resolve_interaction (tu_thread tu) tid ''user'' i (JObj
             [(''decision'', JStr ''approve''), (''invalidation_reason'', JStr reason)]) (Some ApprovalApproved),
           append_fact (tu_thread tu) (Some tid) ''runtime'' (InteractionFact (ApprovalInvalidated (in_id i))),
           append_fact (tu_thread tu) (Some tid) ''runtime'' (ToolFact (ToolSuperseded (to_id x)))] st))))"

text \<open>The newest resolved approval, if it approved an operation that has not started.\<close>

definition newest_resolved_approval :: "store \<Rightarrow> string \<Rightarrow> interaction_row option" where
  "newest_resolved_approval st tid =
     find (\<lambda>i. in_kind i = ''tool_approval'' \<and> in_status i = InteractionResolvedStatus)
       (rev (list_interactions st tid))"

definition approved_ready :: "store \<Rightarrow> interaction_row \<Rightarrow> string \<Rightarrow> bool" where
  "approved_ready st i op \<longleftrightarrow>
     (case (tget (tool_operations (proj st)) op, tget (approvals (proj st)) (in_id i)) of
        (Some x, Some a) \<Rightarrow> to_status x = TReady \<and> ap_status a = ApprovalApproved
      | _ \<Rightarrow> False)"

definition invalidate_resolved_tool_approval :: "string \<Rightarrow> string \<Rightarrow> store \<Rightarrow> store result" where
  "invalidate_resolved_tool_approval tid reason st =
     (if blank reason then Inl (ValueError ''approval invalidation reason must be non-empty'')
      else ebind (read_turn st tid) (\<lambda>tu.
        if tu_status tu \<noteq> Running
        then Inl (RuntimeError ''resolved approval recovery requires a running Turn'')
        else case newest_resolved_approval st tid of
            None \<Rightarrow> Inl (RuntimeError ''no resolved approved operation can be invalidated'')
          | Some i \<Rightarrow> (case in_op i of
                None \<Rightarrow> Inl (RuntimeError ''no resolved approved operation can be invalidated'')
              | Some op \<Rightarrow>
                  if jget (in_response i) ''decision'' \<noteq> JStr ''approve''
                  then Inl (RuntimeError ''no resolved approved operation can be invalidated'')
                  else if \<not> approved_ready st i op
                  then Inl (RuntimeError ''resolved approval is not bound to a ready operation'')
                  else chain
                    [append_fact (tu_thread tu) (Some tid) ''runtime''
                       (InteractionFact (ApprovalInvalidated (in_id i))),
                     append_fact (tu_thread tu) (Some tid) ''runtime'' (ToolFact (ToolSuperseded op)),
                     append_fact (tu_thread tu) (Some tid) ''recovery''
                       (TurnFact (TurnPaused tid None None))] st)))"

text \<open>A second approval scope must reuse the operation that has not started.\<close>

definition reusable_operation :: "tool_spec \<Rightarrow> tool_op_row \<Rightarrow> bool" where
  "reusable_operation s x \<longleftrightarrow> to_status x = TReady \<and> to_approval x \<noteq> None \<and> to_digest x = ts_digest s
     \<and> to_revision x = ts_revision s \<and> to_name x = ts_name s \<and> to_effects x = ts_effects s
     \<and> to_resources x = ts_resources s"

definition fresh_spec :: "tool_spec \<Rightarrow> tool_spec" where
  "fresh_spec s = s\<lparr>ts_status := TPrepared, ts_attempts := 0, ts_error := None, ts_reconcile := False\<rparr>"

definition request_tool_approval :: "string \<Rightarrow> string \<Rightarrow> tool_spec \<Rightarrow> json \<Rightarrow> store \<Rightarrow> store result" where
  "request_tool_approval req tid s body st =
     ebind (freeze_spec s) (\<lambda>frozen. ebind (running_turn st tid) (\<lambda>tu.
       ebind (case call_operation st tid (ts_call frozen) of
           None \<Rightarrow> Inr (ts_operation frozen,
             append_fact (tu_thread tu) (Some tid) ''runtime'' (ToolFact (ToolPrepared (fresh_spec frozen))))
         | Some x \<Rightarrow> if \<not> reusable_operation frozen x
             then Inl (RuntimeError ''tool call already has an operation'') else Inr (to_id x, Inr))
         (\<lambda>(op, prepare). chain
           [prepare,
            ask_approval (tu_thread tu) tid req (Some op) body,
            await_approval (tu_thread tu) tid req (Some op),
            append_fact (tu_thread tu) (Some tid) ''runtime'' (TurnFact (TurnPaused tid None None))] st)))"

section \<open>Continuations, verifications and checkpoints\<close>

definition record_tool_continuation :: "string \<Rightarrow> string \<Rightarrow> string \<Rightarrow> json \<Rightarrow> store \<Rightarrow> store result" where
  "record_tool_continuation iid op key v st = ebind (read_tool_operation st op) (\<lambda>x. case to_result x of
       None \<Rightarrow> Inl (RuntimeError ''continuation requires a committed launch result'')
     | Some source \<Rightarrow>
         if list_ex (\<lambda>it. jget (it_payload it) ''operation_id'' = JStr op)
              (items_of_kind st (to_turn x) ''tool_continuation'')
         then Inr st
         else commit_item (to_thread x) (to_turn x) ''runtime'' iid ''tool_continuation'' (JObj [])
           (jset (jset (jset v ''operation_id'' (JStr op)) ''key'' (JStr key))
              ''source_result_item_id'' (JStr source)) st)"

definition verification_kinds :: "string list" where
  "verification_kinds = [''test'', ''static_analysis'', ''assertion'', ''inspection'']"

definition verification_payload :: "tool_op_row \<Rightarrow> string \<Rightarrow> string \<Rightarrow> string \<Rightarrow> string list \<Rightarrow> json" where
  "verification_payload x source kind verifier resources = JObj
     [(''arguments_digest'', JStr (to_digest x)), (''operation_id'', JStr (to_id x)),
      (''source_result_item_id'', JStr source), (''tool_call_id'', JStr (to_call x)),
      (''verification_kind'', JStr kind), (''verified_resources'', JArr (map JStr resources)),
      (''verifier'', JStr (strip verifier))]"

definition record_verification ::
  "string \<Rightarrow> string \<Rightarrow> string \<Rightarrow> string \<Rightarrow> string \<Rightarrow> string list \<Rightarrow> store \<Rightarrow> store result" where
  "record_verification iid tid op kind verifier resources st =
     (if kind \<notin> set verification_kinds then Inl (ValueError ''unsupported verification kind'')
      else if blank verifier then Inl (ValueError ''verification verifier must be non-empty'')
      else ebind (result_operation st tid (Some op)) (\<lambda>found. case found of
          None \<Rightarrow> Inl (KeyError ''unknown tool operation'')
        | Some x \<Rightarrow> (case to_result x of
              None \<Rightarrow> Inl (RuntimeError ''verification requires a committed successful ToolResult'')
            | Some source \<Rightarrow>
                if to_status x \<noteq> TSucceeded
                then Inl (RuntimeError ''verification requires a committed successful ToolResult'')
                else if list_ex (\<lambda>it. jget (it_payload it) ''operation_id'' = JStr op)
                  (completed_of_kind st tid ''verification'')
                then Inr st
                else commit_item (to_thread x) tid ''runtime'' iid ''verification'' (JObj [])
                  (verification_payload x source kind verifier resources) st)))"

definition same_checkpoint :: "string \<Rightarrow> string \<Rightarrow> item_row \<Rightarrow> bool" where
  "same_checkpoint cid trigger it \<longleftrightarrow> jget (it_payload it) ''checkpoint_id'' = JStr cid
     \<or> trigger = ''pre_write'' \<and> jget (it_payload it) ''trigger'' = JStr ''pre_write''"

definition record_workspace_checkpoint ::
  "string \<Rightarrow> string \<Rightarrow> string \<Rightarrow> string \<Rightarrow> string option \<Rightarrow> int \<Rightarrow> real \<Rightarrow> store \<Rightarrow> store result" where
  "record_workspace_checkpoint iid tid cid trigger tree changed wall st =
     (if trigger \<notin> {''pre_write'', ''restore''} then Inl (ValueError ''unsupported checkpoint trigger'')
      else if blank cid then Inl (ValueError ''checkpoint_id must be a non-empty string'')
      else ebind (read_turn st tid) (\<lambda>tu.
        if list_ex (same_checkpoint cid trigger) (completed_of_kind st tid ''workspace_checkpoint'') then Inr st
        else commit_item (tu_thread tu) tid ''runtime'' iid ''workspace_checkpoint'' (JObj [])
          (JObj [(''changed_file_count'', JInt changed), (''checkpoint_id'', JStr cid),
                 (''tree_sha256'', of_opt_str tree), (''trigger'', JStr trigger), (''wall_time'', JFloat wall)]) st))"

end
