(* ===== verification/Execution_Facts.thy ===== *)
theory Execution_Facts
  imports Tool_Results
begin

text \<open>
  Durable handling receipts (\<open>harness/execution_facts.py\<close>): the adoption of the execution
  protocol, the decision about a response, and the admission of a whole tool batch before its
  first call starts; then the canonical results that replay reads.
\<close>

fun is_adoption :: "fact \<Rightarrow> bool" where
  "is_adoption (ExecutionFact ExecutionProtocolAdopted) = True"
| "is_adoption _ = False"

fun handled_response :: "fact \<Rightarrow> string option" where
  "handled_response (ExecutionFact (ResponseHandlingDecided _ item)) = Some item"
| "handled_response _ = None"

fun admitted_batch :: "string \<Rightarrow> fact \<Rightarrow> string list option" where
  "admitted_batch item (ExecutionFact (ToolBatchAdmitted i calls)) = (if i = item then Some calls else None)"
| "admitted_batch _ _ = None"

definition adopt_execution_protocol :: "string \<Rightarrow> store \<Rightarrow> store result" where
  "adopt_execution_protocol tid st =
     (if list_ex (is_adoption \<circ> rr_fact) (list_turn_records st tid) then Inr st
      else ebind (read_turn st tid) (\<lambda>tu.
        append_fact (tu_thread tu) (Some tid) ''runtime'' (ExecutionFact ExecutionProtocolAdopted) st))"

definition response_handled :: "string \<Rightarrow> string \<Rightarrow> string \<Rightarrow> store \<Rightarrow> store result" where
  "response_handled tid op item st =
     (if list_ex (\<lambda>r. handled_response (rr_fact r) = Some item) (list_turn_records st tid) then Inr st
      else ebind (require (find (\<lambda>m. mo_id m = op) (list_model_operations st tid)) (RuntimeError ''StopIteration''))
        (\<lambda>m. if mo_status m \<noteq> MCompleted \<or> mo_response m \<noteq> Some item
          then Inl (RuntimeError ''response handling requires the canonical completed operation'')
          else append_fact (mo_thread m) (Some tid) ''runtime''
            (ExecutionFact (ResponseHandlingDecided op item)) st))"

text \<open>One call of a response: its identity, tool, arguments, parse error and origin.\<close>

record batch_call =
  bc_call :: string
  bc_tool :: string
  bc_arguments :: json
  bc_error :: "string option"
  bc_origin :: json

definition record_batch_call :: "(string \<Rightarrow> string) \<Rightarrow> string \<Rightarrow> batch_call \<Rightarrow> store \<Rightarrow> store result" where
  "record_batch_call fresh tid c st =
     (if \<not> is_obj (bc_arguments c) then Inl (TypeError ''tool arguments must be an object'')
      else record_tool_call (fresh (bc_call c)) tid (bc_call c) (bc_tool c) (bc_arguments c) (bc_origin c)
        (bc_error c) st)"

definition prior_batch :: "store \<Rightarrow> string \<Rightarrow> string \<Rightarrow> string list option" where
  "prior_batch st tid item = (case filter (\<lambda>x. x \<noteq> None) (map (admitted_batch item \<circ> rr_fact) (list_turn_records st tid)) of
     [] \<Rightarrow> None | x # _ \<Rightarrow> x)"

definition admit_tool_batch ::
  "(string \<Rightarrow> string) \<Rightarrow> string \<Rightarrow> string \<Rightarrow> batch_call list \<Rightarrow> store \<Rightarrow> store result" where
  "admit_tool_batch fresh tid item calls st = (case prior_batch st tid item of
       Some original \<Rightarrow>
         if list_ex (\<lambda>c. bc_call c \<notin> set original) calls
         then Inl (RuntimeError ''recovered tool batch conflicts with its committed response'') else Inr st
     | None \<Rightarrow> ebind (read_item st item) (\<lambda>it.
         if it_turn it \<noteq> tid \<or> it_kind it \<noteq> ''model_response'' \<or> it_status it \<noteq> ItemCompletedStatus
         then Inl (RuntimeError ''tool batch requires a committed model response'')
         else chain (map (record_batch_call fresh tid) calls
           @ [append_fact (it_thread it) (Some tid) ''runtime''
                (ExecutionFact (ToolBatchAdmitted item (map bc_call calls)))]) st))"

definition handled_response_ids :: "rollout_record list \<Rightarrow> string list" where
  "handled_response_ids rs = map the (filter (\<lambda>x. x \<noteq> None) (map (handled_response \<circ> rr_fact) rs))"

section \<open>Canonical results\<close>

text \<open>\<open>{op.tool_call_id: op for op in ...}\<close>: the last operation of a call.\<close>

definition operation_of_call :: "store \<Rightarrow> string \<Rightarrow> string \<Rightarrow> tool_op_row option" where
  "operation_of_call st tid call = find (\<lambda>x. to_call x = call) (rev (list_tool_operations st tid))"

definition reconciled_result :: "store \<Rightarrow> string \<Rightarrow> item_row \<Rightarrow> (string \<times> json) option" where
  "reconciled_result st tid it =
     (let v = jget (it_payload it) ''result'' in
      case jget v ''tool_call_id'' of
        JStr call \<Rightarrow> (case operation_of_call st tid call of
            None \<Rightarrow> None
          | Some x \<Rightarrow> if to_result x = Some (it_id it) then Some (it_id it, v) else None)
      | _ \<Rightarrow> None)"

definition direct_result :: "store \<Rightarrow> string \<Rightarrow> item_row \<Rightarrow> (string \<times> json) option" where
  "direct_result st tid it = (case jget (it_payload it) ''tool_call_id'' of
       JStr call \<Rightarrow> (case operation_of_call st tid call of
           None \<Rightarrow> Some (it_id it, it_payload it)
         | Some x \<Rightarrow> if to_result x \<noteq> None \<and> to_result x \<noteq> Some (it_id it) then None
             else Some (it_id it, it_payload it))
     | _ \<Rightarrow> None)"

definition canonical_result :: "store \<Rightarrow> string \<Rightarrow> item_row \<Rightarrow> (string \<times> json) option" where
  "canonical_result st tid it =
     (if it_status it \<noteq> ItemCompletedStatus then None
      else if it_kind it = ''tool_reconciliation'' \<and> it_producer it = ''reconciler'' then reconciled_result st tid it
      else if it_kind it = ''tool_result'' then direct_result st tid it else None)"

definition canonical_tool_results :: "store \<Rightarrow> string \<Rightarrow> (string \<times> json) list" where
  "canonical_tool_results st tid = map the (filter (\<lambda>x. x \<noteq> None) (map (canonical_result st tid) (list_items st tid)))"

end
