(* ===== verification/Host_Ops.thy ===== *)
theory Host_Ops
  imports Turn_Ops
begin

text \<open>
  The durable command queue of the host (\<open>harness/host_ops.py\<close>): receipts under a caller-chosen
  identity, claims with a lease and a generation, and settlement. \<open>sha\<close> is the hash of a canonical
  object, \<open>name_hash\<close> that of a command identity; \<open>is_origin\<close> and \<open>database\<close> describe where the
  store file lives; \<open>authorized\<close> is the channel check of \<open>channel_ops.authorize_command\<close>.
\<close>

definition control_kinds :: "string list" where
  "control_kinds = [''input'', ''cancel'']"

definition driver_kinds :: "string list" where
  "driver_kinds = [''start'', ''resume'']"

definition read_command :: "store \<Rightarrow> string \<Rightarrow> host_command_row result" where
  "read_command st cid = require (tget (host_commands (proj st)) cid) (KeyError ''unknown host command'')"

definition list_commands :: "store \<Rightarrow> string option \<Rightarrow> host_command_row list" where
  "list_commands st thread = select_rows
     (\<lambda>c. case thread of None \<Rightarrow> True | Some t \<Rightarrow> hc_thread c = t) (host_commands (proj st))"

section \<open>Receiving\<close>

definition command_identity :: "string \<Rightarrow> string \<Rightarrow> string \<Rightarrow> string \<Rightarrow> json \<Rightarrow> json" where
  "command_identity workspace kind thread turn payload = JObj
     [(''kind'', JStr kind), (''payload'', payload), (''thread_id'', JStr thread), (''turn_id'', JStr turn),
      (''workspace'', JStr workspace)]"

definition agent_of :: "json \<Rightarrow> json" where
  "agent_of payload = jget (jget payload ''configuration'') ''agent''"

definition with_database :: "json \<Rightarrow> string \<Rightarrow> json" where
  "with_database payload db = jset payload ''configuration''
     (jset (jget payload ''configuration'') ''agent'' (jset (agent_of payload) ''checkpoint_db'' (JStr db)))"

text \<open>\<open>_matches_relocated_start\<close>: the same start, received before the store file moved.\<close>

definition matches_relocated_start ::
  "(json \<Rightarrow> string) \<Rightarrow> (string \<Rightarrow> bool) \<Rightarrow> string \<Rightarrow> host_command_row \<Rightarrow> string \<Rightarrow> string \<Rightarrow> string \<Rightarrow> string
     \<Rightarrow> json \<Rightarrow> bool" where
  "matches_relocated_start sha is_origin database prior workspace kind thread turn payload \<longleftrightarrow>
     hc_kind prior = ''start'' \<and> kind = ''start''
     \<and> is_obj (jget (hc_request prior) ''configuration'') \<and> is_obj (jget payload ''configuration'')
     \<and> is_obj (agent_of (hc_request prior)) \<and> is_obj (agent_of payload)
     \<and> (case jget (agent_of (hc_request prior)) ''checkpoint_db'' of
          JStr old \<Rightarrow> is_origin old \<and> jget (agent_of payload) ''checkpoint_db'' = JStr database
            \<and> sha (command_identity workspace kind thread turn (with_database payload old)) = hc_request_hash prior
        | _ \<Rightarrow> False)"

record command_place =
  cp_command :: string
  cp_thread :: string
  cp_turn :: string

text \<open>The identities a command gets: a start may leave thread and Turn to be derived.\<close>

definition command_identities ::
  "(string \<Rightarrow> string) \<Rightarrow> string \<Rightarrow> string \<Rightarrow> string option \<Rightarrow> string option \<Rightarrow> string option \<Rightarrow> command_place result" where
  "command_identities name_hash uid kind command_id thread_id turn_id =
     (let cid = (case command_id of None \<Rightarrow> uid | Some c \<Rightarrow> c);
          given = (\<lambda>x prefix. case x of
            Some (c # cs) \<Rightarrow> Some (c # cs)
          | _ \<Rightarrow> if kind = ''start'' then Some (prefix @ name_hash cid) else None)
      in if blank cid \<or> length cid > 500
         then Inl (ValueError ''command_id must be nonempty and at most 500 characters'')
         else case (given thread_id ''thread_bg_'', given turn_id ''turn_bg_'') of
             (Some t, Some u) \<Rightarrow> Inr \<lparr>cp_command = cid, cp_thread = t, cp_turn = u\<rparr>
           | _ \<Rightarrow> Inl (ValueError ''control/resume requires explicit thread_id and turn_id''))"

definition target_error :: "store \<Rightarrow> string \<Rightarrow> command_place \<Rightarrow> py_error option" where
  "target_error st kind pl =
     (if kind = ''start'' then
        (if tget (turns (proj st)) (cp_turn pl) \<noteq> None
         then Some (ValueError ''start identity conflicts with an existing Turn'') else None)
      else case tget (turns (proj st)) (cp_turn pl) of
          None \<Rightarrow> if list_ex (\<lambda>c. hc_kind c = ''start'' \<and> hc_turn c = cp_turn pl) (list_commands st (Some (cp_thread pl)))
            then None else Some (PermissionError ''command has no owned target Turn'')
        | Some tu \<Rightarrow> if tu_thread tu \<noteq> cp_thread pl
            then Some (PermissionError ''command targets another Thread's Turn'') else None)"

definition admit_thread :: "(string \<Rightarrow> bool) \<Rightarrow> string \<Rightarrow> string \<Rightarrow> string \<Rightarrow> store \<Rightarrow> store result" where
  "admit_thread is_dir workspace kind thread st = (case tget (threads (proj st)) thread of
       Some _ \<Rightarrow> Inr st
     | None \<Rightarrow> if kind \<noteq> ''start'' then Inl (PermissionError ''command has no owned thread'')
               else create_thread is_dir [] workspace (Some thread) st)"

text \<open>\<open>receive_command\<close>; \<open>workspace\<close> is the resolved path, \<open>resolve\<close> resolves a stored one.\<close>

definition receive_command ::
  "(json \<Rightarrow> string) \<Rightarrow> (string \<Rightarrow> string) \<Rightarrow> (string \<Rightarrow> bool) \<Rightarrow> string \<Rightarrow> (string \<Rightarrow> bool) \<Rightarrow> (string \<Rightarrow> string)
     \<Rightarrow> string \<Rightarrow> string \<Rightarrow> string \<Rightarrow> json \<Rightarrow> string option \<Rightarrow> string option \<Rightarrow> string option
     \<Rightarrow> store \<Rightarrow> store result" where
  "receive_command sha name_hash is_origin database is_dir resolve uid workspace kind payload command_id
     thread_id turn_id st =
     (if kind \<notin> set (control_kinds @ driver_kinds) then Inl (ValueError ''unsupported host command'')
      else ebind (command_identities name_hash uid kind command_id thread_id turn_id) (\<lambda>pl.
        let digest = sha (command_identity workspace kind (cp_thread pl) (cp_turn pl) payload) in
        case tget (host_commands (proj st)) (cp_command pl) of
          Some prior \<Rightarrow>
            if hc_request_hash prior \<noteq> digest
               \<and> \<not> matches_relocated_start sha is_origin database prior workspace kind (cp_thread pl) (cp_turn pl) payload
            then Inl (ValueError ''host command identity conflicts with an earlier request'') else Inr st
        | None \<Rightarrow> ebind (admit_thread is_dir workspace kind (cp_thread pl) st) (\<lambda>s.
            ebind (read_thread s (cp_thread pl)) (\<lambda>th.
              if resolve (th_workspace th) \<noteq> workspace
              then Inl (PermissionError ''host command belongs to another workspace'')
              else case target_error s kind pl of
                  Some e \<Rightarrow> Inl e
                | None \<Rightarrow> append_fact (cp_thread pl) None ''host''
                    (HostFact (HostCommandReceived (cp_command pl) (cp_turn pl) kind digest payload)) s))))"

section \<open>Claims\<close>

definition claimable :: "bool \<Rightarrow> string list \<Rightarrow> real \<Rightarrow> host_command_row list \<Rightarrow> host_command_row \<Rightarrow> bool" where
  "claimable control excluded now commands c \<longleftrightarrow>
     hc_id c \<notin> set excluded
     \<and> hc_kind c \<in> set (if control then control_kinds else driver_kinds)
     \<and> hc_available c \<le> now
     \<and> \<not> (hc_status c = CmdClaimed \<and> (case hc_lease c of None \<Rightarrow> False | Some t \<Rightarrow> t > now))
     \<and> (control \<or> \<not> list_ex (\<lambda>d. hc_thread d = hc_thread c \<and> hc_id d \<noteq> hc_id c
          \<and> hc_kind d \<in> set driver_kinds \<and> hc_status d = CmdClaimed) commands)"

definition host_fact_for :: "host_command_row \<Rightarrow> host_fact \<Rightarrow> store \<Rightarrow> store result" where
  "host_fact_for c f = append_fact (hc_thread c) None ''host'' (HostFact f)"

definition revoke_command :: "host_command_row \<Rightarrow> store \<Rightarrow> store result" where
  "revoke_command c = host_fact_for c (HostCommandSettled (hc_id c) CmdRejected
     (JObj [(''reason'', JStr ''channel_authority_revoked'')]) 0)"

definition take_claim :: "string \<Rightarrow> real \<Rightarrow> host_command_row \<Rightarrow> store \<Rightarrow> store result" where
  "take_claim owner lease_until c = host_fact_for c
     (HostCommandClaimed (hc_id c) owner (hc_generation c + 1) lease_until)"

text \<open>The scan of \<open>claim_next\<close> over the open commands, in insertion order.\<close>

fun scan_commands ::
  "(store \<Rightarrow> host_command_row \<Rightarrow> bool) \<Rightarrow> (host_command_row \<Rightarrow> bool) \<Rightarrow> string \<Rightarrow> real
     \<Rightarrow> host_command_row list \<Rightarrow> store \<Rightarrow> (string option \<times> store) result" where
  "scan_commands authorized ok owner lease_until [] st = Inr (None, st)"
| "scan_commands authorized ok owner lease_until (c # cs) st =
     (if \<not> ok c then scan_commands authorized ok owner lease_until cs st
      else if \<not> authorized st c
      then ebind (revoke_command c st) (scan_commands authorized ok owner lease_until cs)
      else ebind (take_claim owner lease_until c st) (\<lambda>s. Inr (Some (hc_id c), s)))"

definition open_commands :: "store \<Rightarrow> host_command_row list" where
  "open_commands st = select_rows (\<lambda>c. hc_status c \<in> {CmdPending, CmdClaimed}) (host_commands (proj st))"

definition claim_next ::
  "(store \<Rightarrow> host_command_row \<Rightarrow> bool) \<Rightarrow> string \<Rightarrow> bool \<Rightarrow> real \<Rightarrow> real \<Rightarrow> string list \<Rightarrow> store
     \<Rightarrow> (string option \<times> store) result" where
  "claim_next authorized owner control now lease excluded st =
     (if lease \<le> 0 then Inl (ValueError ''host time and lease must be finite and lease positive'')
      else if blank owner then Inl (ValueError ''host owner must be nonempty'')
      else scan_commands authorized (claimable control excluded now (open_commands st)) owner (now + lease)
        (open_commands st) st)"

text \<open>A claim is the row its holder was given; it is current while owner and generation match.\<close>

definition claim_current :: "store \<Rightarrow> host_command_row \<Rightarrow> bool result" where
  "claim_current st claim = ebind (read_command st (hc_id claim)) (\<lambda>c. Inr
     (hc_status c = CmdClaimed \<and> hc_owner c = hc_owner claim \<and> hc_generation c = hc_generation claim))"

definition if_current ::
  "host_command_row \<Rightarrow> (store \<Rightarrow> store result) \<Rightarrow> store \<Rightarrow> (bool \<times> store) result" where
  "if_current claim act st = ebind (claim_current st claim) (\<lambda>current.
     if current then ebind (act st) (\<lambda>s. Inr (True, s)) else Inr (False, st))"

definition renew_claim :: "host_command_row \<Rightarrow> real \<Rightarrow> real \<Rightarrow> store \<Rightarrow> (bool \<times> store) result" where
  "renew_claim claim now lease st =
     (if lease \<le> 0 then Inl (ValueError ''host time and lease must be finite and lease positive'')
      else if_current claim (\<lambda>s. case hc_owner claim of
          None \<Rightarrow> Inl (TypeError ''owner'')
        | Some w \<Rightarrow> host_fact_for claim (HostCommandRenewed (hc_id claim) w (hc_generation claim) (now + lease)) s) st)"

definition settle_command ::
  "host_command_row \<Rightarrow> command_status \<Rightarrow> json \<Rightarrow> real \<Rightarrow> real \<Rightarrow> store \<Rightarrow> (bool \<times> store) result" where
  "settle_command claim status v now retry_after st =
     (if status \<notin> {CmdApplied, CmdRejected, CmdBlocked, CmdPending}
      then Inl (ValueError ''invalid host receipt status'')
      else if retry_after < 0 then Inl (ValueError ''retry_after must be finite and nonnegative'')
      else if_current claim (host_fact_for claim (if status = CmdPending
          then HostCommandReleased (hc_id claim) status v (now + retry_after)
          else HostCommandSettled (hc_id claim) status v 0)) st)"

definition reject_queued_start :: "string \<Rightarrow> store \<Rightarrow> (bool \<times> store) result" where
  "reject_queued_start cid st = ebind (read_command st cid) (\<lambda>c.
     if hc_kind c \<noteq> ''start'' \<or> hc_status c \<notin> {CmdPending, CmdClaimed} then Inr (False, st)
     else if tget (turns (proj st)) (hc_turn c) \<noteq> None
     then Inl (RuntimeError ''an existing Turn must use canonical cancellation'')
     else ebind (host_fact_for c (HostCommandSettled cid CmdRejected
            (JObj [(''reason'', JStr ''cancelled_before_start'')]) 0) st) (\<lambda>s. Inr (True, s)))"

definition release_orphan_claims :: "string \<Rightarrow> real \<Rightarrow> store \<Rightarrow> store result" where
  "release_orphan_claims owner now st = chain
     (map (\<lambda>c s. ebind (settle_command c CmdPending (JObj [(''reason'', JStr ''previous_host_stopped'')]) now 0 s)
        (\<lambda>(_, t). Inr t))
       (filter (\<lambda>c. hc_status c = CmdClaimed \<and> hc_owner c \<noteq> Some owner) (list_commands st None))) st"

lemma parent_allocation_child:
  "parent_allocation st cur = Some al \<Longrightarrow> cur \<in> al_child ` set (trows (child_budget_allocations (proj st)))"
  by (auto simp: parent_allocation_def first_row_def find_Some_iff)

text \<open>
  \<open>background_submission\<close>: up the child allocations to the Turn that a host command started. A
  Turn is visited once; \<open>bound\<close> limits the Turns to the ones the store names.
\<close>

function submission_walk :: "store \<Rightarrow> string list \<Rightarrow> string \<Rightarrow> host_command_row result" where
  "submission_walk st seen cur =
     (if cur \<in> set seen then Inl (ValueError ''Turn has no durable background submission'')
      else case first_row (\<lambda>c. hc_kind c = ''start'' \<and> hc_turn c = cur) (host_commands (proj st)) of
          Some c \<Rightarrow> Inr c
        | None \<Rightarrow> (case parent_allocation st cur of
              None \<Rightarrow> Inl (ValueError ''Turn has no durable background submission'')
            | Some al \<Rightarrow> submission_walk st (cur # seen) (al_parent al)))"
  by pat_completeness auto

termination
proof (relation "measure (\<lambda>(st, seen, cur).
    card (al_child ` set (trows (child_budget_allocations (proj st))) - set seen))")
  fix st seen cur al
  assume "\<not> cur \<in> set seen" and "parent_allocation st cur = Some al"
  then have "al_child ` set (trows (child_budget_allocations (proj st))) - set (cur # seen)
      \<subset> al_child ` set (trows (child_budget_allocations (proj st))) - set seen"
    by (auto dest: parent_allocation_child)
  from psubset_card_mono [OF _ this] show "((st, cur # seen, al_parent al), (st, seen, cur))
      \<in> measure (\<lambda>(st, seen, cur). card (al_child ` set (trows (child_budget_allocations (proj st))) - set seen))"
    by simp
qed simp

declare submission_walk.simps [simp del]

definition background_submission :: "store \<Rightarrow> string \<Rightarrow> host_command_row result" where
  "background_submission st tid = submission_walk st [] tid"

end
