(* ===== verification/Append_Frames.thy ===== *)
theory Append_Frames
  imports Effects
begin

text \<open>
  What \<open>append_record\<close> can change, whatever identities its fact names. The tables of other groups
  keep their rows, Turns and Threads keep everything but their sequence stamp, the tables stay
  well formed, the log only grows and stays numbered. None of this needs the fact to address
  fresh rows, so it holds of every append of every command.
\<close>

section \<open>Slices of a table\<close>

definition part_of :: "('r \<Rightarrow> 'c) \<Rightarrow> 'r table \<Rightarrow> 'r table \<Rightarrow> bool" where
  "part_of c slice t \<longleftrightarrow> distinct (tkeys slice)
     \<and> (\<forall>k row. tget slice k = Some row \<longrightarrow> (\<exists>old. tget t k = Some old \<and> c row = c old))"

lemma part_of_Cons:
  assumes "part_of c ((k, row) # slice) t"
  shows "\<exists>old. tget t k = Some old \<and> c row = c old" and "part_of c slice t" and "k \<notin> set (tkeys slice)"
proof -
  from assms have d: "distinct (k # tkeys slice)" by (simp add: part_of_def tkeys_def)
  then show k: "k \<notin> set (tkeys slice)" by simp
  from assms show "\<exists>old. tget t k = Some old \<and> c row = c old" by (auto simp: part_of_def tget_def)
  have "tget ((k, row) # slice) j = tget slice j" if "tget slice j \<noteq> None" for j
    using that k by (auto simp: tget_def tkeys_def map_of_eq_None_iff split: if_splits)
  with assms d show "part_of c slice t" unfolding part_of_def by (metis distinct.simps(2) option.distinct(1))
qed

lemma part_of_table:
  assumes "part_of c slice t" and "\<And>k. map_option c (tget u k) = map_option c (tget t k)"
  shows "part_of c slice u"
  using assms unfolding part_of_def by (metis map_option_eq_Some)

lemma persist_rows_Cons:
  "persist_rows q m n ((k, row) # slice) t = persist_rows q m n slice (if q row = n then upsert m k row t else t)"
  by (simp add: persist_rows_def)

lemma persist_rows_Nil [simp]: "persist_rows q m n [] t = t"
  by (simp add: persist_rows_def)

lemma persist_part:
  assumes "part_of c slice t" and "\<And>old new. c new = c old \<Longrightarrow> c (m old new) = c old"
  shows "map_option c (tget (persist_rows q m n slice t) k) = map_option c (tget t k)"
  using assms(1)
proof (induction slice arbitrary: t)
  case Nil
  then show ?case by simp
next
  case (Cons p slice)
  obtain j row where p: "p = (j, row)" by (cases p)
  note parts = part_of_Cons [OF Cons.prems [unfolded p]]
  from parts(1) obtain old where old: "tget t j = Some old" "c row = c old" by blast
  let ?u = "if q row = n then upsert m j row t else t"
  have same: "map_option c (tget ?u i) = map_option c (tget t i)" for i
    using old assms(2) by (simp add: upsert_def)
  from Cons.IH [OF part_of_table [OF parts(2) same]] same show ?case by (simp add: p persist_rows_Cons)
qed

lemma persist_same:
  assumes "part_of (\<lambda>x. x) slice t" and "\<And>x. m x x = x"
  shows "persist_rows q m n slice t = t"
  using assms(1)
proof (induction slice)
  case Nil
  then show ?case by simp
next
  case (Cons p slice)
  obtain j row where p: "p = (j, row)" by (cases p)
  note parts = part_of_Cons [OF Cons.prems [unfolded p]]
  from parts(1) assms(2) have "upsert m j row t = t" by (auto simp: upsert_def tput_same)
  with Cons.IH [OF parts(2)] show ?case by (simp add: p persist_rows_Cons)
qed

text \<open>A row after the write-back is an old one, or comes from the slice.\<close>

lemma persist_rows_elem:
  assumes "y \<in> set (trows (persist_rows q m n slice t))" and "distinct (tkeys slice)"
  shows "y \<in> set (trows t) \<or> (\<exists>k row. tget slice k = Some row \<and> q row = n
     \<and> y = (case tget t k of None \<Rightarrow> row | Some old \<Rightarrow> m old row))"
  using assms
proof (induction slice arbitrary: t)
  case Nil
  then show ?case by simp
next
  case (Cons p slice)
  obtain j row where p: "p = (j, row)" by (cases p)
  with Cons.prems have j: "j \<notin> set (tkeys slice)" and d: "distinct (tkeys slice)" by (auto simp: tkeys_def)
  let ?u = "if q row = n then upsert m j row t else t"
  have here: "tget (p # slice) j = Some row" by (simp add: p tget_def)
  have later: "tget (p # slice) k = tget slice k" if "tget slice k \<noteq> None" for k
    using that j by (auto simp: p tget_def tkeys_def map_of_eq_None_iff split: if_splits)
  have new: "y = (case tget t j of None \<Rightarrow> row | Some old \<Rightarrow> m old row)"
    if "y \<in> set (trows ?u)" "y \<notin> set (trows t)"
    using that by (auto simp: upsert_def split: if_splits dest: trows_tput_elem)
  have keep: "tget ?u k = tget t k" if "tget slice k = Some r" for k r
    using that j by (auto simp: upsert_def tget_Some_key)
  from Cons.prems(1) have "y \<in> set (trows (persist_rows q m n slice ?u))" by (simp add: p persist_rows_Cons)
  from Cons.IH [OF this d] show ?case
  proof
    assume y: "y \<in> set (trows ?u)"
    show ?thesis
    proof (cases "y \<in> set (trows t)")
      case False
      then have "q row = n" using y by (auto split: if_splits)
      with here new [OF y False] show ?thesis by blast
    qed simp
  next
    assume "\<exists>k r. tget slice k = Some r \<and> q r = n \<and> y = (case tget ?u k of None \<Rightarrow> r | Some old \<Rightarrow> m old r)"
    then obtain k r where "tget slice k = Some r" "q r = n" "y = (case tget ?u k of None \<Rightarrow> r | Some old \<Rightarrow> m old r)"
      by blast
    with later keep show ?thesis by (metis option.distinct(1))
  qed
qed

text \<open>The row of a key after the write-back.\<close>

lemma tget_persist_rows:
  assumes "distinct (tkeys slice)"
  shows "tget (persist_rows q m n slice t) k = (case tget slice k of
     None \<Rightarrow> tget t k
   | Some row \<Rightarrow> if q row = n then Some (case tget t k of None \<Rightarrow> row | Some old \<Rightarrow> m old row) else tget t k)"
  using assms
proof (induction slice arbitrary: t)
  case Nil
  then show ?case by simp
next
  case (Cons p slice)
  obtain j row where p: "p = (j, row)" by (cases p)
  with Cons.prems have "j \<notin> set (tkeys slice)" and d: "distinct (tkeys slice)" by (auto simp: tkeys_def)
  then have j: "tget slice j = None" by (simp add: tget_None_iff)
  have "tget (p # slice) k = (if k = j then Some row else tget slice k)" by (simp add: p tget_def)
  with j show ?case
    unfolding p persist_rows_Cons Cons.IH [OF d] by (auto simp: upsert_def split: option.splits)
qed

lemma table_ok_persist:
  assumes "table_ok ident t" and "table_ok ident slice"
    and "\<And>old new. ident new = ident old \<Longrightarrow> ident (m old new) = ident old"
  shows "table_ok ident (persist_rows q m n slice t)"
  using assms(1,2)
proof (induction slice arbitrary: t)
  case Nil
  then show ?case by simp
next
  case (Cons p slice)
  obtain j row where p: "p = (j, row)" by (cases p)
  with Cons.prems have i: "ident row = j" and ok: "table_ok ident slice" by (auto simp: table_ok_def tkeys_def)
  let ?u = "if q row = n then upsert m j row t else t"
  have "table_ok ident ?u"
    using Cons.prems(1) i assms(3)
    by (auto simp: upsert_def table_ok_ident intro!: table_ok_tput split: option.splits)
  from Cons.IH [OF this ok] show ?case by (simp add: p persist_rows_Cons)
qed

section \<open>The slice of a record\<close>

lemma part_load_rows [simp]: "part_of (\<lambda>x. x) (load_rows local t ks) t"
  by (auto simp: part_of_def tget_load_rows split: if_splits)

lemma part_Nil [simp]: "part_of c [] t"
  by (simp add: part_of_def tkeys_def)

lemma slice_parts:
  "part_of (\<lambda>x. x) (threads (load_slice p r)) (threads p)"
  "part_of (\<lambda>x. x) (turns (load_slice p r)) (turns p)"
  "part_of (\<lambda>x. x) (items (load_slice p r)) (items p)"
  "part_of (\<lambda>x. x) (model_operations (load_slice p r)) (model_operations p)"
  "part_of (\<lambda>x. x) (model_attempts (load_slice p r)) (model_attempts p)"
  "part_of (\<lambda>x. x) (budget_reservations (load_slice p r)) (budget_reservations p)"
  "part_of (\<lambda>x. x) (child_budget_allocations (load_slice p r)) (child_budget_allocations p)"
  "part_of (\<lambda>x. x) (tool_operations (load_slice p r)) (tool_operations p)"
  "part_of (\<lambda>x. x) (interactions (load_slice p r)) (interactions p)"
  "part_of (\<lambda>x. x) (approvals (load_slice p r)) (approvals p)"
  "part_of (\<lambda>x. x) (artifacts (load_slice p r)) (artifacts p)"
  "part_of (\<lambda>x. x) (host_commands (load_slice p r)) (host_commands p)"
  "part_of (\<lambda>x. x) (channel_entries (load_slice p r)) (channel_entries p)"
  by (auto simp: load_slice_def empty_projection_def Let_def split: option.splits)
    (simp add: part_of_def tkeys_def tget_def)

lemma table_ok_part:
  assumes "table_ok ident t" and "part_of (\<lambda>x. x) slice t"
  shows "table_ok ident slice"
proof -
  have "ident row = k" if "(k, row) \<in> set slice" for k row
  proof -
    have "tget slice k = Some row" using that assms(2) by (simp add: part_of_def tget_def tkeys_def)
    with assms(2) have "tget t k = Some row" by (auto simp: part_of_def)
    with assms(1) show ?thesis by (rule table_ok_ident)
  qed
  with assms(2) show ?thesis by (auto simp: table_ok_def part_of_def list_all_iff)
qed

lemma projection_ok_slice: "projection_ok p \<Longrightarrow> projection_ok (load_slice p r)"
  unfolding projection_ok_def by (intro conjI) (auto intro: table_ok_part slice_parts)

section \<open>The shape of an append\<close>

lemma append_shape:
  assumes "append_fact th turn pr f st = Inr st'"
  obtains r s where "apply_record (load_slice (proj st) r) r = Inr s"
    and "proj st' = persist_slice (rr_seq r) s (proj st)" and "constraints_ok (proj st')"
    and "log st' = log st @ [r]" and "rr_thread r = th" and "rr_turn r = turn" and "rr_producer r = pr"
    and "same_group f (rr_fact r)" and "(\<And>x. f \<noteq> ItemFact x) \<Longrightarrow> rr_fact r = f"
    and "\<exists>g. r = make_record st th turn pr g"
proof -
  from assms obtain g where g: "enrich st f = Inr g" and a: "append_record th turn pr g st = Inr st'"
    by (auto simp: append_fact_def)
  let ?r = "make_record st th turn pr g"
  from a obtain s where "apply_record (load_slice (proj st) ?r) ?r = Inr s"
    "st' = \<lparr>log = log st @ [?r], proj = persist_slice (rr_seq ?r) s (proj st)\<rparr>"
    "constraints_ok (persist_slice (rr_seq ?r) s (proj st))"
    by (auto simp: append_record_def Let_def split: if_splits)
  then show ?thesis using that [of ?r s] enrich_group [OF g] enrich_same [OF g] by auto
qed

lemma persist_slice_tables:
  "threads (persist_slice n s p) = persist_rows th_seq merge_thread n (threads s) (threads p)"
  "turns (persist_slice n s p) = persist_rows tu_seq merge_turn n (turns s) (turns p)"
  "items (persist_slice n s p) = persist_rows it_seq merge_item n (items s) (items p)"
  "model_operations (persist_slice n s p)
     = persist_rows mo_seq merge_model_op n (model_operations s) (model_operations p)"
  "model_attempts (persist_slice n s p) = persist_rows ma_seq merge_attempt n (model_attempts s) (model_attempts p)"
  "budget_reservations (persist_slice n s p)
     = persist_rows rs_seq merge_reservation n (budget_reservations s) (budget_reservations p)"
  "child_budget_allocations (persist_slice n s p)
     = persist_rows al_seq merge_allocation n (child_budget_allocations s) (child_budget_allocations p)"
  "tool_operations (persist_slice n s p) = persist_rows to_seq merge_tool_op n (tool_operations s) (tool_operations p)"
  "interactions (persist_slice n s p) = persist_rows in_seq merge_interaction n (interactions s) (interactions p)"
  "approvals (persist_slice n s p) = persist_rows ap_seq merge_approval n (approvals s) (approvals p)"
  "artifacts (persist_slice n s p) = persist_rows ar_seq merge_artifact n (artifacts s) (artifacts p)"
  "host_commands (persist_slice n s p) = persist_rows hc_seq merge_command n (host_commands s) (host_commands p)"
  "channel_entries (persist_slice n s p) = persist_rows ch_seq merge_channel n (channel_entries s) (channel_entries p)"
  by (simp_all add: persist_slice_def)

section \<open>Well-formed stores\<close>

definition well_formed :: "store \<Rightarrow> bool" where
  "well_formed st \<longleftrightarrow> projection_ok (proj st) \<and> constraints_ok (proj st) \<and> numbered (log st)"

lemma well_formed_empty: "well_formed empty_store"
proof -
  have "constraints_ok empty_projection"
    by (simp add: constraints_ok_def empty_projection_def unique_on_def all_rows_def trows_def)
  then show ?thesis by (simp add: well_formed_def empty_store_def projection_ok_empty numbered_def)
qed

lemma merge_idents:
  "th_id new = th_id old \<Longrightarrow> th_id (merge_thread old new) = th_id old"
  "tu_id (merge_turn old1 new1) = tu_id old1" "it_id (merge_item old2 new2) = it_id old2"
  "mo_id (merge_model_op old3 new3) = mo_id old3" "ma_id (merge_attempt old4 new4) = ma_id old4"
  "rs_id (merge_reservation old5 new5) = rs_id old5" "al_id (merge_allocation old6 new6) = al_id old6"
  "to_id (merge_tool_op old7 new7) = to_id old7" "in_id (merge_interaction old8 new8) = in_id old8"
  "ap_id (merge_approval old9 new9) = ap_id old9" "ar_id (merge_artifact old10 new10) = ar_id old10"
  "hc_id (merge_command old11 new11) = hc_id old11" "ch_id (merge_channel old12 new12) = ch_id old12"
  by (simp_all add: merge_defs)

lemma projection_ok_persist:
  "projection_ok p \<Longrightarrow> projection_ok s \<Longrightarrow> projection_ok (persist_slice n s p)"
  unfolding projection_ok_def persist_slice_tables
  by (intro conjI; (elim conjE)?; rule table_ok_persist) (simp_all add: merge_idents)

lemma append_well_formed:
  assumes "well_formed st" and "append_fact th turn pr f st = Inr st'"
  shows "well_formed st'"
proof -
  from assms(2) obtain r s where r: "apply_record (load_slice (proj st) r) r = Inr s"
    "proj st' = persist_slice (rr_seq r) s (proj st)" "constraints_ok (proj st')" "log st' = log st @ [r]"
    and mk: "\<exists>g. r = make_record st th turn pr g"
    by (rule append_shape)
  from assms(1) have p: "projection_ok (proj st)" by (simp add: well_formed_def)
  have "projection_ok s" by (rule projection_ok_apply_record [OF projection_ok_slice [OF p] r(1)])
  then have "projection_ok (proj st')" unfolding r(2) by (rule projection_ok_persist [OF p])
  moreover have "numbered (log st')" using assms(1) mk r(4) by (auto simp: well_formed_def intro: numbered_snoc)
  ultimately show ?thesis using r(3) by (simp add: well_formed_def)
qed

section \<open>Tables of other groups\<close>

lemma any_append_tools:
  assumes "append_fact th turn pr f st = Inr st'" and "\<And>x. f \<noteq> ToolFact x"
  shows "tool_operations (proj st') = tool_operations (proj st)"
  by (rule append_shape [OF assms(1)])
    (use assms(2) in \<open>auto simp: persist_slice_tables same_group_def slice_parts intro!: persist_same dest!: frame_tools\<close>)

lemma any_append_commands:
  assumes "append_fact th turn pr f st = Inr st'" and "\<And>x. f \<noteq> HostFact x"
  shows "host_commands (proj st') = host_commands (proj st)"
  by (rule append_shape [OF assms(1)])
    (use assms(2) in \<open>auto simp: persist_slice_tables same_group_def slice_parts intro!: persist_same dest!: frame_commands\<close>)

lemma any_append_budget:
  assumes "append_fact th turn pr f st = Inr st'" and "\<And>x. f \<noteq> BudgetFact x"
  shows "budget_reservations (proj st') = budget_reservations (proj st)"
    and "child_budget_allocations (proj st') = child_budget_allocations (proj st)"
  by (rule append_shape [OF assms(1)],
      use assms(2) in \<open>auto simp: persist_slice_tables same_group_def slice_parts intro!: persist_same dest!: frame_budget\<close>)+

lemma any_append_models:
  assumes "append_fact th turn pr f st = Inr st'" and "\<And>x. f \<noteq> ModelFact x"
  shows "model_operations (proj st') = model_operations (proj st)"
    and "model_attempts (proj st') = model_attempts (proj st)"
  by (rule append_shape [OF assms(1)],
      use assms(2) in \<open>auto simp: persist_slice_tables same_group_def slice_parts intro!: persist_same dest!: frame_models\<close>)+

lemma any_append_interactions:
  assumes "append_fact th turn pr f st = Inr st'" and "\<And>x. f \<noteq> InteractionFact x"
  shows "interactions (proj st') = interactions (proj st)" and "approvals (proj st') = approvals (proj st)"
  by (rule append_shape [OF assms(1)],
      use assms(2) in \<open>auto simp: persist_slice_tables same_group_def slice_parts intro!: persist_same dest!: frame_interactions\<close>)+

lemma any_append_items:
  assumes "append_fact th turn pr f st = Inr st'" and "\<And>x. f \<noteq> ItemFact x"
  shows "items (proj st') = items (proj st)"
  by (rule append_shape [OF assms(1)])
    (use assms(2) in \<open>auto simp: persist_slice_tables same_group_def slice_parts intro!: persist_same dest!: frame_items\<close>)

section \<open>Turns and Threads\<close>

lemma part_turn_core:
  assumes "projection_ok p" and "apply_record (load_slice p r) r = Inr s" and "turn_cores s = turn_cores (load_slice p r)"
  shows "part_of turn_core (turns s) (turns p)"
proof -
  have ok: "projection_ok s" by (rule projection_ok_apply_record [OF projection_ok_slice [OF assms(1)] assms(2)])
  have "\<exists>old. tget (turns p) k = Some old \<and> turn_core row = turn_core old" if "tget (turns s) k = Some row" for k row
  proof -
    have "turn_cores (load_slice p r) k = Some (turn_core row)"
      using that fun_cong [OF assms(3), of k] by (simp add: turn_cores_def)
    then obtain old where "tget (turns (load_slice p r)) k = Some old" "turn_core row = turn_core old"
      by (auto simp: turn_cores_def)
    with slice_parts(2) [of p r] show ?thesis by (auto simp: part_of_def)
  qed
  with ok show ?thesis by (simp add: part_of_def projection_ok_def table_ok_def)
qed

lemma part_thread_core:
  assumes "projection_ok p" and "apply_record (load_slice p r) r = Inr s" and "thread_cores s = thread_cores (load_slice p r)"
  shows "part_of thread_core (threads s) (threads p)"
proof -
  have ok: "projection_ok s" by (rule projection_ok_apply_record [OF projection_ok_slice [OF assms(1)] assms(2)])
  have "\<exists>old. tget (threads p) k = Some old \<and> thread_core row = thread_core old" if "tget (threads s) k = Some row" for k row
  proof -
    have "thread_cores (load_slice p r) k = Some (thread_core row)"
      using that fun_cong [OF assms(3), of k] by (simp add: thread_cores_def)
    then obtain old where "tget (threads (load_slice p r)) k = Some old" "thread_core row = thread_core old"
      by (auto simp: thread_cores_def)
    with slice_parts(1) [of p r] show ?thesis by (auto simp: part_of_def)
  qed
  with ok show ?thesis by (simp add: part_of_def projection_ok_def table_ok_def)
qed

lemma merge_turn_core: "turn_core new = turn_core old \<Longrightarrow> turn_core (merge_turn old new) = turn_core old"
proof -
  assume h: "turn_core new = turn_core old"
  from arg_cong [OF h, of tu_id] arg_cong [OF h, of tu_thread] have "merge_turn old new = new"
    by (simp add: merge_turn_fix turn_core_def)
  with h show ?thesis by (simp only:)
qed

lemma turn_cores_persist:
  assumes "part_of turn_core (turns s) (turns p)"
  shows "turn_cores (persist_slice n s p) = turn_cores p"
proof
  show "turn_cores (persist_slice n s p) k = turn_cores p k" for k
    using persist_part [where c = turn_core and m = merge_turn and q = tu_seq and n = n and k = k, OF assms]
      merge_turn_core by (simp add: turn_cores_def persist_slice_tables)
qed

lemma thread_cores_persist:
  assumes "part_of thread_core (threads s) (threads p)"
  shows "thread_cores (persist_slice n s p) = thread_cores p"
proof
  show "thread_cores (persist_slice n s p) k = thread_cores p k" for k
    using persist_part [where c = thread_core and m = merge_thread and q = th_seq and n = n and k = k, OF assms]
    by (simp add: thread_cores_def persist_slice_tables merge_thread_def)
qed

lemma any_append_turns:
  assumes "projection_ok (proj st)" and "append_fact th turn pr f st = Inr st'" and "\<And>x. f \<noteq> TurnFact x"
  shows "turn_cores (proj st') = turn_cores (proj st)"
proof -
  from assms(2) obtain r s where r: "apply_record (load_slice (proj st) r) r = Inr s"
    "proj st' = persist_slice (rr_seq r) s (proj st)" and g: "same_group f (rr_fact r)"
    by (rule append_shape)
  have "turn_cores s = turn_cores (load_slice (proj st) r)"
    by (rule frame_turns [OF r(1)]) (use g assms(3) in \<open>auto simp: same_group_def\<close>)
  from turn_cores_persist [OF part_turn_core [OF assms(1) r(1) this]] show ?thesis by (simp add: r(2))
qed

lemma any_append_threads:
  assumes "projection_ok (proj st)" and "append_fact th turn pr f st = Inr st'"
    and "\<And>x. f \<noteq> TurnFact x" and "\<And>x. f \<noteq> ThreadFact x"
  shows "thread_cores (proj st') = thread_cores (proj st)"
proof -
  from assms(2) obtain r s where r: "apply_record (load_slice (proj st) r) r = Inr s"
    "proj st' = persist_slice (rr_seq r) s (proj st)" and g: "same_group f (rr_fact r)"
    by (rule append_shape)
  have "thread_cores s = thread_cores (load_slice (proj st) r)"
    by (rule frame_threads [OF r(1)]) (use g assms(3,4) in \<open>auto simp: same_group_def\<close>)
  from thread_cores_persist [OF part_thread_core [OF assms(1) r(1) this]] show ?thesis by (simp add: r(2))
qed

end
