(* ===== verification/Footprints.thy ===== *)
theory Footprints
  imports Append_Frames Tool_Results Execution_Facts Host_Ops Model_Outcomes Artifact_Ops Budget_Ops
begin

text \<open>
  The footprint of a command: the groups of facts it may append. \<open>appends G s t\<close> says that \<open>t\<close>
  extends \<open>s\<close> by appends of facts from \<open>G\<close>; \<open>runs G s r\<close> says so of every state a command can
  return. Footprints compose along the control structure of the commands, and a quantity that no
  append of a group changes is unchanged by every command with that footprint.
\<close>

section \<open>Sequences of appends\<close>

inductive appends :: "fact set \<Rightarrow> store \<Rightarrow> store \<Rightarrow> bool" for G where
  appends_refl: "appends G s s"
| appends_step: "appends G s t \<Longrightarrow> f \<in> G \<Longrightarrow> append_fact th turn pr f t = Inr u \<Longrightarrow> appends G s u"

lemma appends_one: "f \<in> G \<Longrightarrow> append_fact th turn pr f s = Inr t \<Longrightarrow> appends G s t"
  by (rule appends_step [OF appends_refl])

lemma appends_trans: "appends G t u \<Longrightarrow> appends G s t \<Longrightarrow> appends G s u"
  by (induction rule: appends.induct) (auto intro: appends_step)

lemma appends_mono: "appends G s t \<Longrightarrow> G \<subseteq> H \<Longrightarrow> appends H s t"
  by (induction rule: appends.induct) (auto intro: appends.intros)

text \<open>A predicate that every append of the group keeps, or a quantity none of them changes.\<close>

locale kept_by =
  fixes G :: "fact set" and I :: "store \<Rightarrow> bool"
  assumes keeps_append: "f \<in> G \<Longrightarrow> append_fact th turn pr f s = Inr t \<Longrightarrow> I s \<Longrightarrow> I t"
begin

lemma keeps: "appends G s t \<Longrightarrow> I s \<Longrightarrow> I t"
  by (induction rule: appends.induct) (auto intro: keeps_append)

end

locale unchanged_by =
  fixes G :: "fact set" and obs :: "store \<Rightarrow> 'a"
  assumes same_append: "f \<in> G \<Longrightarrow> append_fact th turn pr f s = Inr t \<Longrightarrow> well_formed s \<Longrightarrow> obs t = obs s"
begin

lemma same: "appends G s t \<Longrightarrow> well_formed s \<Longrightarrow> well_formed t \<and> obs t = obs s"
  by (induction rule: appends.induct) (auto intro: append_well_formed dest: same_append)

end

interpretation forms: kept_by UNIV well_formed
  by unfold_locales (rule append_well_formed)

lemma log_grows: "appends G s t \<Longrightarrow> \<exists>rs. log t = log s @ rs"
proof (induction rule: appends.induct)
  case appends_refl
  then show ?case by simp
next
  case (appends_step s t f th turn pr u)
  from appends_step(3) obtain r where "log u = log t @ [r]" by (rule append_shape)
  with appends_step.IH show ?case by auto
qed

section \<open>Groups\<close>

abbreviation "thread_facts \<equiv> range ThreadFact"
abbreviation "host_facts \<equiv> range HostFact"
abbreviation "turn_facts \<equiv> range TurnFact"
abbreviation "model_facts \<equiv> range ModelFact"
abbreviation "budget_facts \<equiv> range BudgetFact"
abbreviation "tool_facts \<equiv> range ToolFact"
abbreviation "interaction_facts \<equiv> range InteractionFact"
abbreviation "item_facts \<equiv> range ItemFact"
abbreviation "execution_facts \<equiv> range ExecutionFact"

text \<open>Tool facts after which no operation has become running: every one but a claim.\<close>

fun idle_tool :: "tool_fact \<Rightarrow> bool" where
  "idle_tool (ToolMigrated _ _) = False"
| "idle_tool (ToolClaimed _ _ _ _ _ _) = False"
| "idle_tool (ToolStatusChanged _ st _ _ _) = (st \<noteq> TRunning)"
| "idle_tool (ToolOutcomeCommitted _ st _ _ _ _) = (st \<noteq> TRunning)"
| "idle_tool (ToolReconciled _ st _) = (st \<noteq> TRunning)"
| "idle_tool (ToolApprovalResolved _ st) = (st \<noteq> TRunning)"
| "idle_tool _ = True"

abbreviation "idle_tools \<equiv> ToolFact ` Collect idle_tool"

text \<open>Host facts after which no command has become claimed.\<close>

fun idle_host :: "host_fact \<Rightarrow> bool" where
  "idle_host (HostCommandReceived _ _ _ _ _) = True"
| "idle_host (HostCommandSettled _ st _ _) = (st \<noteq> CmdClaimed)"
| "idle_host (HostCommandReleased _ st _ _) = (st \<noteq> CmdClaimed)"
| "idle_host _ = False"

abbreviation "idle_hosts \<equiv> HostFact ` Collect idle_host"

text \<open>The Turns and Threads of a store, up to their stamps.\<close>

definition cores :: "store \<Rightarrow> (string \<Rightarrow> turn_row option) \<times> (string \<Rightarrow> thread_row option)" where
  "cores s = (turn_cores (proj s), thread_cores (proj s))"

interpretation quiet: unchanged_by "- (turn_facts \<union> thread_facts)" cores
proof
  fix f th turn pr s t
  assume f: "f \<in> - (turn_facts \<union> thread_facts)" and a: "append_fact th turn pr f s = Inr t" and "well_formed s"
  then have p: "projection_ok (proj s)" by (simp add: well_formed_def)
  from f have "\<And>x. f \<noteq> TurnFact x" "\<And>x. f \<noteq> ThreadFact x" by auto
  with any_append_turns [OF p a] any_append_threads [OF p a] show "cores t = cores s" by (simp add: cores_def)
qed

interpretation tools_same: unchanged_by "- tool_facts" "\<lambda>s. tool_operations (proj s)"
  by unfold_locales (auto dest: any_append_tools)

interpretation commands_same: unchanged_by "- host_facts" "\<lambda>s. host_commands (proj s)"
  by unfold_locales (auto dest: any_append_commands)

interpretation items_same: unchanged_by "- item_facts" "\<lambda>s. items (proj s)"
  by unfold_locales (auto dest: any_append_items)

interpretation budget_same: unchanged_by "- budget_facts"
  "\<lambda>s. (budget_reservations (proj s), child_budget_allocations (proj s))"
  by unfold_locales (auto dest: any_append_budget)

interpretation models_same: unchanged_by "- model_facts" "\<lambda>s. (model_operations (proj s), model_attempts (proj s))"
  by unfold_locales (auto dest: any_append_models)

interpretation interactions_same: unchanged_by "- interaction_facts" "\<lambda>s. (interactions (proj s), approvals (proj s))"
  by unfold_locales (auto dest: any_append_interactions)

section \<open>Footprints of results\<close>

definition runs :: "fact set \<Rightarrow> store \<Rightarrow> store result \<Rightarrow> bool" where
  "runs G s r \<longleftrightarrow> (\<forall>t. r = Inr t \<longrightarrow> appends G s t)"

definition runs_with :: "fact set \<Rightarrow> store \<Rightarrow> ('a \<times> store) result \<Rightarrow> bool" where
  "runs_with G s r \<longleftrightarrow> (\<forall>a t. r = Inr (a, t) \<longrightarrow> appends G s t)"

named_theorems footprints "footprints of the commands and of their control structure"

lemma runsD: "runs G s r \<Longrightarrow> r = Inr t \<Longrightarrow> appends G s t"
  by (simp add: runs_def)

lemma runs_withD: "runs_with G s r \<Longrightarrow> r = Inr (a, t) \<Longrightarrow> appends G s t"
  by (simp add: runs_with_def)

lemma runs_append:
  "thread_facts \<subseteq> G \<Longrightarrow> runs G s (append_fact th turn pr (ThreadFact f1) s)"
  "idle_host f2 \<Longrightarrow> idle_hosts \<subseteq> G \<Longrightarrow> runs G s (append_fact th turn pr (HostFact f2) s)"
  "turn_facts \<subseteq> G \<Longrightarrow> runs G s (append_fact th turn pr (TurnFact f3) s)"
  "model_facts \<subseteq> G \<Longrightarrow> runs G s (append_fact th turn pr (ModelFact f4) s)"
  "budget_facts \<subseteq> G \<Longrightarrow> runs G s (append_fact th turn pr (BudgetFact f5) s)"
  "idle_tool f6 \<Longrightarrow> idle_tools \<subseteq> G \<Longrightarrow> runs G s (append_fact th turn pr (ToolFact f6) s)"
  "interaction_facts \<subseteq> G \<Longrightarrow> runs G s (append_fact th turn pr (InteractionFact f7) s)"
  "item_facts \<subseteq> G \<Longrightarrow> runs G s (append_fact th turn pr (ItemFact f8) s)"
  "execution_facts \<subseteq> G \<Longrightarrow> runs G s (append_fact th turn pr (ExecutionFact f9) s)"
  by (auto simp: runs_def intro: appends_one)

lemma runs_claim:
  "tool_facts \<subseteq> G \<Longrightarrow> runs G s (append_fact th turn pr (ToolFact f) s)"
  "host_facts \<subseteq> G \<Longrightarrow> runs G s (append_fact th turn pr (HostFact g) s)"
  by (auto simp: runs_def intro: appends_one)

lemma runs_Inl: "runs G s (Inl e)" "runs_with G s (Inl e)"
  by (simp_all add: runs_def runs_with_def)

lemma runs_Inr: "runs G s (Inr s)" "runs_with G s (Inr (a, s))"
  by (simp_all add: runs_def runs_with_def appends_refl)

lemma runs_if:
  "(b \<Longrightarrow> runs G s x) \<Longrightarrow> (\<not> b \<Longrightarrow> runs G s y) \<Longrightarrow> runs G s (if b then x else y)"
  "(b \<Longrightarrow> runs_with G s x') \<Longrightarrow> (\<not> b \<Longrightarrow> runs_with G s y') \<Longrightarrow> runs_with G s (if b then x' else y')"
  "(b \<Longrightarrow> runs G s (f s)) \<Longrightarrow> (\<not> b \<Longrightarrow> runs G s (g s)) \<Longrightarrow> runs G s ((if b then f else g) s)"
  by auto

lemma runs_bind:
  assumes "runs G s m" and "\<And>t. runs G t (k t)"
  shows "runs G s (ebind m k)"
  using assms by (cases m) (auto simp: runs_def intro: appends_trans)

lemma runs_bind_with:
  assumes "runs G s m" and "\<And>t. runs_with G t (k t)"
  shows "runs_with G s (ebind m k)"
  using assms by (cases m) (auto simp: runs_def runs_with_def intro: appends_trans)

lemma runs_with_bind:
  assumes "runs_with G s m" and "\<And>a t. runs G t (k (a, t))"
  shows "runs G s (ebind m k)"
  unfolding runs_def
proof (intro allI impI)
  fix u
  assume "ebind m k = Inr u"
  then obtain a t where m: "m = Inr (a, t)" and k: "k (a, t) = Inr u" by auto
  from runsD [OF assms(2) k] runs_withD [OF assms(1) m] show "appends G s u" by (rule appends_trans)
qed

lemma runs_with_bind_with:
  assumes "runs_with G s m" and "\<And>a t. runs_with G t (k (a, t))"
  shows "runs_with G s (ebind m k)"
  unfolding runs_with_def
proof (intro allI impI)
  fix b u
  assume "ebind m k = Inr (b, u)"
  then obtain a t where m: "m = Inr (a, t)" and k: "k (a, t) = Inr (b, u)" by auto
  from runs_withD [OF assms(2) k] runs_withD [OF assms(1) m] show "appends G s u" by (rule appends_trans)
qed

lemma runs_split_bind:
  "runs_with G s m \<Longrightarrow> (\<And>a t. runs G t (k a t)) \<Longrightarrow> runs G s (ebind m (\<lambda>(a, t). k a t))"
  "runs_with G s m \<Longrightarrow> (\<And>a t. runs_with G t (k' a t)) \<Longrightarrow> runs_with G s (ebind m (\<lambda>(a, t). k' a t))"
  by (auto intro: runs_with_bind runs_with_bind_with)

lemma runs_query:
  "(\<And>a. q = Inr a \<Longrightarrow> runs G s (k a)) \<Longrightarrow> runs G s (ebind q k)"
  "(\<And>a. q = Inr a \<Longrightarrow> runs_with G s (k' a)) \<Longrightarrow> runs_with G s (ebind q k')"
  by (cases q; simp add: runs_def runs_with_def)+

lemma runs_chain:
  "runs G s (chain [] s)"
  "runs G s (f s) \<Longrightarrow> (\<And>t. runs G t (chain fs t)) \<Longrightarrow> runs G s (chain (f # fs) s)"
  by (auto simp: runs_def appends_refl intro: appends_trans)

lemma runs_chain_map:
  assumes "\<And>x t. x \<in> set xs \<Longrightarrow> runs G t (f x t)"
  shows "runs G s (chain (map f xs) s)"
  using assms
proof (induction xs arbitrary: s)
  case Nil
  then show ?case by (simp add: runs_def appends_refl)
next
  case (Cons x xs)
  have "runs G s (ebind (f x s) (chain (map f xs)))"
    by (rule runs_bind) (use Cons in auto)
  then show ?case by simp
qed

lemma runs_chain_append:
  assumes "runs G s (chain fs s)" and "\<And>t. runs G t (chain gs t)"
  shows "runs G s (chain (fs @ gs) s)"
  unfolding chain_append by (rule runs_bind [OF assms])

text \<open>Case distinctions.\<close>

lemma runs_option:
  "(x = None \<Longrightarrow> runs G s a) \<Longrightarrow> (\<And>y. x = Some y \<Longrightarrow> runs G s (b y)) \<Longrightarrow> runs G s (case x of None \<Rightarrow> a | Some y \<Rightarrow> b y)"
  "(x = None \<Longrightarrow> runs_with G s a') \<Longrightarrow> (\<And>y. x = Some y \<Longrightarrow> runs_with G s (b' y)) \<Longrightarrow>
     runs_with G s (case x of None \<Rightarrow> a' | Some y \<Rightarrow> b' y)"
  "(x = None \<Longrightarrow> runs G s (f s)) \<Longrightarrow> (\<And>y. x = Some y \<Longrightarrow> runs G s (g y s)) \<Longrightarrow>
     runs G s ((case x of None \<Rightarrow> f | Some y \<Rightarrow> g y) s)"
  by (auto split: option.splits)

lemma runs_prod:
  "(\<And>a b. x = (a, b) \<Longrightarrow> runs G s (f a b)) \<Longrightarrow> runs G s (case x of (a, b) \<Rightarrow> f a b)"
  "(\<And>a b. x = (a, b) \<Longrightarrow> runs_with G s (f' a b)) \<Longrightarrow> runs_with G s (case x of (a, b) \<Rightarrow> f' a b)"
  "(\<And>a b. x = (a, b) \<Longrightarrow> runs G s (g a b s)) \<Longrightarrow> runs G s ((case x of (a, b) \<Rightarrow> g a b) s)"
  by (auto split: prod.splits)

lemma runs_list:
  "runs G s a \<Longrightarrow> (\<And>y ys. runs G s (b y ys)) \<Longrightarrow> runs G s (case xs of [] \<Rightarrow> a | y # ys \<Rightarrow> b y ys)"
  "runs_with G s a' \<Longrightarrow> (\<And>y ys. runs_with G s (b' y ys)) \<Longrightarrow> runs_with G s (case xs of [] \<Rightarrow> a' | y # ys \<Rightarrow> b' y ys)"
  by (auto split: list.splits)

lemma runs_json:
  "runs G s a \<Longrightarrow> (\<And>v. runs G s (b v)) \<Longrightarrow> (\<And>v. runs G s (c v)) \<Longrightarrow> (\<And>v. runs G s (d v)) \<Longrightarrow>
     (\<And>v. runs G s (e v)) \<Longrightarrow> (\<And>v. runs G s (f v)) \<Longrightarrow> (\<And>v. runs G s (g v)) \<Longrightarrow>
     runs G s (case_json a b c d e f g v)"
  "runs_with G s a' \<Longrightarrow> (\<And>v. runs_with G s (b' v)) \<Longrightarrow> (\<And>v. runs_with G s (c' v)) \<Longrightarrow> (\<And>v. runs_with G s (d' v)) \<Longrightarrow>
     (\<And>v. runs_with G s (e' v)) \<Longrightarrow> (\<And>v. runs_with G s (f' v)) \<Longrightarrow> (\<And>v. runs_with G s (g' v)) \<Longrightarrow>
     runs_with G s (case_json a' b' c' d' e' f' g' v)"
  "runs G s (a1 s) \<Longrightarrow> (\<And>v. runs G s (b1 v s)) \<Longrightarrow> (\<And>v. runs G s (c1 v s)) \<Longrightarrow> (\<And>v. runs G s (d1 v s)) \<Longrightarrow>
     (\<And>v. runs G s (e1 v s)) \<Longrightarrow> (\<And>v. runs G s (f1 v s)) \<Longrightarrow> (\<And>v. runs G s (g1 v s)) \<Longrightarrow>
     runs G s (case_json a1 b1 c1 d1 e1 f1 g1 v s)"
  by (cases v; simp)+

lemmas run_structure = runs_append runs_Inl runs_Inr runs_if runs_chain runs_option runs_prod runs_list runs_json

end
