(* ===== verification/Command_Footprints.thy ===== *)
theory Command_Footprints
  imports Footprints
begin

text \<open>
  The footprint of every command of the model. Each follows from the command's own text: the rules
  of \<open>run_control\<close> walk its guards, and \<open>footprints\<close> holds what the commands it calls append.
\<close>

lemmas run_units = model_fact_by_def tool_fact_by_def host_fact_for_def budget_reserved_fact_def
  schedule_fact_def failure_fact_def

lemma runs_fact_if:
  "runs G s (append_fact th turn pr f s) \<Longrightarrow> runs G s (append_fact th turn pr g s) \<Longrightarrow>
     runs G s (append_fact th turn pr (if b then f else g) s)"
  by simp

lemma runs_host_if:
  "runs G s (append_fact th turn pr (HostFact f) s) \<Longrightarrow> runs G s (append_fact th turn pr (HostFact g) s) \<Longrightarrow>
     runs G s (append_fact th turn pr (HostFact (if b then f else g)) s)"
  by simp

lemma runs_chain_if:
  "runs G s (chain fs s) \<Longrightarrow> runs G s (chain gs s) \<Longrightarrow> runs G s (chain (if b then fs else gs) s)"
  by simp

lemmas run_control = run_structure runs_chain_if runs_fact_if runs_host_if runs_chain_map runs_chain_append runs_split_bind runs_bind runs_bind_with
  runs_with_bind runs_with_bind_with runs_query

lemma turn_fact_by_runtime_runs [footprints]:
  "budget_facts \<subseteq> G \<Longrightarrow> runs G s (turn_fact_by_runtime tid (BudgetFact f) s)"
  unfolding turn_fact_by_runtime_def by (rule run_control | assumption)+

lemma if_current_runs [footprints]:
  "(\<And>t. runs G t (act t)) \<Longrightarrow> runs_with G s (if_current c act s)"
  unfolding if_current_def by (rule run_control | assumption)+

lemma commit_item_runs [footprints]:
  "item_facts \<subseteq> G \<Longrightarrow> runs G s (commit_item x0 x1 x2 x3 x4 x5 x6 s)"
  unfolding commit_item_def Let_def run_units by (rule footprints run_control | assumption)+

lemma record_job_runs [footprints]:
  "item_facts \<subseteq> G \<Longrightarrow> runs G s (record_job x0 x1 s)"
  unfolding record_job_def Let_def run_units by (rule footprints run_control | assumption)+

lemma reserve_hold_runs [footprints]:
  "budget_facts \<subseteq> G \<Longrightarrow> runs G s (reserve_hold x0 x1 x2 x3 x4 s)"
  unfolding reserve_hold_def Let_def run_units by (rule footprints run_control | assumption)+

lemma release_holds_runs [footprints]:
  "budget_facts \<subseteq> G \<Longrightarrow> runs G s (release_holds x0 x1 s)"
  unfolding release_holds_def Let_def run_units by (rule footprints run_control | assumption)+

lemma open_job_runs [footprints]:
  "budget_facts \<subseteq> G \<Longrightarrow> item_facts \<subseteq> G \<Longrightarrow> runs_with G s (open_job x0 x1 x2 x3 x4 x5 x6 s)"
  unfolding open_job_def Let_def run_units by (rule footprints run_control | assumption)+

lemma transfer_for_attempt_runs [footprints]:
  "budget_facts \<subseteq> G \<Longrightarrow> item_facts \<subseteq> G \<Longrightarrow> runs G s (transfer_for_attempt x0 x1 x2 x3 x4 x5 s)"
  unfolding transfer_for_attempt_def Let_def run_units by (rule footprints run_control | assumption)+

lemma record_node_runs [footprints]:
  "item_facts \<subseteq> G \<Longrightarrow> runs G s (record_node x0 x1 x2 x3 x4 x5 x6 s)"
  unfolding record_node_def Let_def run_units by (rule footprints run_control | assumption)+

lemma finish_job_runs [footprints]:
  "budget_facts \<subseteq> G \<Longrightarrow> item_facts \<subseteq> G \<Longrightarrow> runs G s (finish_job x0 x1 x2 x3 s)"
  unfolding finish_job_def Let_def run_units by (rule footprints run_control | assumption)+

lemma finish_active_jobs_runs [footprints]:
  "budget_facts \<subseteq> G \<Longrightarrow> item_facts \<subseteq> G \<Longrightarrow> runs G s (finish_active_jobs x0 x1 x2 s)"
  unfolding finish_active_jobs_def Let_def run_units by (rule footprints run_control | assumption)+

lemma admit_retry_runs [footprints]:
  "budget_facts \<subseteq> G \<Longrightarrow> item_facts \<subseteq> G \<Longrightarrow> runs G s (admit_retry x0 x1 x2 x3 x4 x5 s)"
  unfolding admit_retry_def Let_def run_units by (rule footprints run_control | assumption)+

lemma create_thread_runs [footprints]:
  "thread_facts \<subseteq> G \<Longrightarrow> runs G s (create_thread x0 x1 x2 x3 s)"
  unfolding create_thread_def Let_def run_units by (rule footprints run_control | assumption)+

lemma update_session_settings_runs [footprints]:
  "thread_facts \<subseteq> G \<Longrightarrow> runs G s (update_session_settings x0 x1 x2 s)"
  unfolding update_session_settings_def Let_def run_units by (rule footprints run_control | assumption)+

lemma fork_thread_runs [footprints]:
  "thread_facts \<subseteq> G \<Longrightarrow> runs G s (fork_thread x0 x1 s)"
  unfolding fork_thread_def Let_def run_units by (rule footprints run_control | assumption)+

lemma commit_files_runs [footprints]:
  "item_facts \<subseteq> G \<Longrightarrow> runs G s (commit_files x0 x1 x2 s)"
  unfolding commit_files_def Let_def run_units by (rule footprints run_control | assumption)+

lemma start_turn_runs [footprints]:
  "turn_facts \<subseteq> G \<Longrightarrow> item_facts \<subseteq> G \<Longrightarrow> runs G s (start_turn x0 x1 x2 x3 x4 x5 x6 x7 s)"
  unfolding start_turn_def Let_def run_units by (rule footprints run_control | assumption)+

lemma receive_turn_input_runs [footprints]:
  "item_facts \<subseteq> G \<Longrightarrow> runs G s (receive_turn_input x0 x1 x2 x3 x4 x5 x6 x7 s)"
  unfolding receive_turn_input_def Let_def run_units by (rule footprints run_control | assumption)+

lemma append_terminal_plan_state_runs [footprints]:
  "item_facts \<subseteq> G \<Longrightarrow> runs G s (append_terminal_plan_state x0 x1 x2 x3 x4 s)"
  unfolding append_terminal_plan_state_def Let_def run_units by (rule footprints run_control | assumption)+

lemma commit_answer_runs [footprints]:
  "item_facts \<subseteq> G \<Longrightarrow> runs G s (commit_answer x0 x1 x2 x3 x4 x5 s)"
  unfolding commit_answer_def Let_def run_units by (rule footprints run_control | assumption)+

lemma complete_turn_runs [footprints]:
  "turn_facts \<subseteq> G \<Longrightarrow> item_facts \<subseteq> G \<Longrightarrow> runs G s (complete_turn x0 x1 x2 x3 x4 x5 x6 x7 s)"
  unfolding complete_turn_def Let_def run_units by (rule footprints run_control | assumption)+

lemma fail_turn_runs [footprints]:
  "turn_facts \<subseteq> G \<Longrightarrow> budget_facts \<subseteq> G \<Longrightarrow> item_facts \<subseteq> G \<Longrightarrow> runs G s (fail_turn x0 x1 x2 x3 x4 s)"
  unfolding fail_turn_def Let_def run_units by (rule footprints run_control | assumption)+

lemma pause_turn_runs [footprints]:
  "turn_facts \<subseteq> G \<Longrightarrow> runs G s (pause_turn x0 x1 x2 x3 x4 s)"
  unfolding pause_turn_def Let_def run_units by (rule footprints run_control | assumption)+

lemma interrupt_orphaned_turn_runs [footprints]:
  "turn_facts \<subseteq> G \<Longrightarrow> runs G s (interrupt_orphaned_turn x0 x1 x2 s)"
  unfolding interrupt_orphaned_turn_def Let_def run_units by (rule footprints run_control | assumption)+

lemma abort_operation_runs [footprints]:
  "idle_tools \<subseteq> G \<Longrightarrow> runs G s (abort_operation x0 x1 x2 s)"
  unfolding abort_operation_def Let_def run_units by (rule footprints run_control | assumption | (auto; fail))+

lemma abort_interaction_runs [footprints]:
  "idle_tools \<subseteq> G \<Longrightarrow> interaction_facts \<subseteq> G \<Longrightarrow> runs G s (abort_interaction x0 x1 x2 s)"
  unfolding abort_interaction_def Let_def run_units by (rule footprints run_control | assumption)+

lemma cancel_turn_runs [footprints]:
  "turn_facts \<subseteq> G \<Longrightarrow> budget_facts \<subseteq> G \<Longrightarrow> idle_tools \<subseteq> G \<Longrightarrow> interaction_facts \<subseteq> G \<Longrightarrow> item_facts \<subseteq> G \<Longrightarrow> runs G s (cancel_turn x0 x1 s)"
  unfolding cancel_turn_def Let_def run_units by (rule footprints run_control | assumption)+

lemma request_turn_cancellation_runs [footprints]:
  "turn_facts \<subseteq> G \<Longrightarrow> runs G s (request_turn_cancellation x0 x1 x2 s)"
  unfolding request_turn_cancellation_def Let_def run_units by (rule footprints run_control | assumption)+

lemma resume_child_wait_runs [footprints]:
  "turn_facts \<subseteq> G \<Longrightarrow> runs G s (resume_child_wait x0 s)"
  unfolding resume_child_wait_def Let_def run_units by (rule footprints run_control | assumption)+

lemma resume_cancelled_turn_runs [footprints]:
  "turn_facts \<subseteq> G \<Longrightarrow> runs G s (resume_cancelled_turn x0 s)"
  unfolding resume_cancelled_turn_def Let_def run_units by (rule footprints run_control | assumption)+

lemma ask_user_runs [footprints]:
  "turn_facts \<subseteq> G \<Longrightarrow> interaction_facts \<subseteq> G \<Longrightarrow> runs G s (ask_user x0 x1 x2 x3 x4 s)"
  unfolding ask_user_def Let_def run_units by (rule footprints run_control | assumption)+

lemma request_clarification_runs [footprints]:
  "turn_facts \<subseteq> G \<Longrightarrow> interaction_facts \<subseteq> G \<Longrightarrow> runs G s (request_clarification x0 x1 x2 s)"
  unfolding request_clarification_def Let_def run_units by (rule footprints run_control | assumption)+

lemma request_choice_runs [footprints]:
  "turn_facts \<subseteq> G \<Longrightarrow> interaction_facts \<subseteq> G \<Longrightarrow> runs G s (request_choice x0 x1 x2 x3 s)"
  unfolding request_choice_def Let_def run_units by (rule footprints run_control | assumption)+

lemma answer_question_runs [footprints]:
  "turn_facts \<subseteq> G \<Longrightarrow> interaction_facts \<subseteq> G \<Longrightarrow> item_facts \<subseteq> G \<Longrightarrow> runs G s (answer_question x0 x1 x2 x3 x4 x5 s)"
  unfolding answer_question_def Let_def run_units by (rule footprints run_control | assumption)+

lemma resolve_clarification_runs [footprints]:
  "turn_facts \<subseteq> G \<Longrightarrow> interaction_facts \<subseteq> G \<Longrightarrow> item_facts \<subseteq> G \<Longrightarrow> runs G s (resolve_clarification x0 x1 x2 x3 x4 s)"
  unfolding resolve_clarification_def Let_def run_units by (rule footprints run_control | assumption)+

lemma resolve_choice_runs [footprints]:
  "turn_facts \<subseteq> G \<Longrightarrow> interaction_facts \<subseteq> G \<Longrightarrow> item_facts \<subseteq> G \<Longrightarrow> runs G s (resolve_choice x0 x1 x2 x3 x4 s)"
  unfolding resolve_choice_def Let_def run_units by (rule footprints run_control | assumption)+

lemma start_budgeted_child_turn_runs [footprints]:
  "thread_facts \<subseteq> G \<Longrightarrow> turn_facts \<subseteq> G \<Longrightarrow> budget_facts \<subseteq> G \<Longrightarrow> item_facts \<subseteq> G \<Longrightarrow> runs G s (start_budgeted_child_turn x0 x1 x2 x3 x4 x5 x6 x7 x8 x9 s)"
  unfolding start_budgeted_child_turn_def Let_def run_units by (rule footprints run_control | assumption)+

lemma settle_child_budget_runs [footprints]:
  "budget_facts \<subseteq> G \<Longrightarrow> runs G s (settle_child_budget x0 s)"
  unfolding settle_child_budget_def Let_def run_units by (rule footprints run_control | assumption)+

lemma append_budget_outcome_runs [footprints]:
  "budget_facts \<subseteq> G \<Longrightarrow> runs G s (append_budget_outcome x0 x1 x2 x3 x4 s)"
  unfolding append_budget_outcome_def
  by (auto simp: runs_def outcome_fact_def appends_refl split: option.splits budget_outcome.splits if_splits
      intro: appends_one)

lemma reserve_resource_unit_runs [footprints]:
  "item_facts \<subseteq> G \<Longrightarrow> runs_with G s (reserve_resource_unit x0 x1 x2 x3 x4 s)"
  unfolding reserve_resource_unit_def Let_def run_units by (rule footprints run_control | assumption)+

lemma record_model_response_started_runs [footprints]:
  "model_facts \<subseteq> G \<Longrightarrow> runs G s (record_model_response_started x0 x1 x2 x3 s)"
  unfolding record_model_response_started_def Let_def run_units by (rule footprints run_control | assumption)+

lemma start_model_output_runs [footprints]:
  "item_facts \<subseteq> G \<Longrightarrow> runs G s (start_model_output x0 x1 x2 x3 x4 s)"
  unfolding start_model_output_def Let_def run_units by (rule footprints run_control | assumption)+

lemma complete_model_output_runs [footprints]:
  "item_facts \<subseteq> G \<Longrightarrow> runs G s (complete_model_output x0 x1 x2 x3 s)"
  unfolding complete_model_output_def Let_def run_units by (rule footprints run_control | assumption)+

lemma close_output_runs [footprints]:
  "item_facts \<subseteq> G \<Longrightarrow> runs G s (close_output x0 x1 s)"
  unfolding close_output_def Let_def run_units by (rule footprints run_control | assumption)+

lemma close_model_outputs_runs [footprints]:
  "item_facts \<subseteq> G \<Longrightarrow> runs G s (close_model_outputs x0 x1 x2 x3 s)"
  unfolding close_model_outputs_def Let_def run_units by (rule footprints run_control | assumption)+

lemma finish_output_runs [footprints]:
  "item_facts \<subseteq> G \<Longrightarrow> runs G s (finish_output x0 x1 x2 x3 x4 s)"
  unfolding finish_output_def Let_def run_units by (rule footprints run_control | assumption)+

lemma finish_model_outputs_runs [footprints]:
  "item_facts \<subseteq> G \<Longrightarrow> runs G s (finish_model_outputs x0 x1 x2 x3 x4 s)"
  unfolding finish_model_outputs_def Let_def run_units by (rule footprints run_control | assumption)+

lemma commit_artifact_runs [footprints]:
  "item_facts \<subseteq> G \<Longrightarrow> runs G s (commit_artifact x0 x1 x2 x3 x4 x5 s)"
  unfolding commit_artifact_def Let_def run_units by (rule footprints run_control | assumption)+

lemma freeze_request_runs [footprints]:
  "item_facts \<subseteq> G \<Longrightarrow> runs_with G s (freeze_request x0 x1 x2 x3 x4 x5 x6 s)"
  unfolding freeze_request_def Let_def run_units by (rule footprints run_control | assumption)+

lemma append_prepared_runs [footprints]:
  "model_facts \<subseteq> G \<Longrightarrow> item_facts \<subseteq> G \<Longrightarrow> runs G s (append_prepared x0 x1 x2 x3 x4 x5 x6 s)"
  unfolding append_prepared_def Let_def run_units by (rule footprints run_control | assumption)+

lemma prepare_model_operation_runs [footprints]:
  "model_facts \<subseteq> G \<Longrightarrow> item_facts \<subseteq> G \<Longrightarrow> runs_with G s (prepare_model_operation x0 x1 x2 x3 x4 s)"
  unfolding prepare_model_operation_def Let_def run_units by (rule footprints run_control | assumption)+

lemma supersede_prepared_model_runs [footprints]:
  "model_facts \<subseteq> G \<Longrightarrow> runs G s (supersede_prepared_model x0 s)"
  unfolding supersede_prepared_model_def Let_def run_units by (rule footprints run_control | assumption)+

lemma reserve_attempt_runs [footprints]:
  "budget_facts \<subseteq> G \<Longrightarrow> item_facts \<subseteq> G \<Longrightarrow> runs G s (reserve_attempt x0 x1 x2 x3 x4 s)"
  unfolding reserve_attempt_def Let_def run_units by (rule footprints run_control | assumption)+

lemma admit_attempt_runs [footprints]:
  "budget_facts \<subseteq> G \<Longrightarrow> item_facts \<subseteq> G \<Longrightarrow> runs_with G s (admit_attempt x0 x1 x2 x3 x4 s)"
  unfolding admit_attempt_def Let_def run_units by (rule footprints run_control | assumption)+

lemma send_attempt_runs [footprints]:
  "model_facts \<subseteq> G \<Longrightarrow> budget_facts \<subseteq> G \<Longrightarrow> runs G s (send_attempt x0 x1 x2 x3 x4 s)"
  unfolding send_attempt_def Let_def run_units by (rule footprints run_control | assumption)+

lemma dispatch_model_attempt_runs [footprints]:
  "model_facts \<subseteq> G \<Longrightarrow> budget_facts \<subseteq> G \<Longrightarrow> item_facts \<subseteq> G \<Longrightarrow> runs G s (dispatch_model_attempt x0 x1 x2 x3 x4 x5 x6 x7 x8 x9 s)"
  unfolding dispatch_model_attempt_def Let_def run_units by (rule footprints run_control | assumption)+

lemma attempt_outcome_runs [footprints]:
  "budget_facts \<subseteq> G \<Longrightarrow> runs G s (attempt_outcome x0 x1 x2 x3 s)"
  unfolding attempt_outcome_def Let_def run_units by (rule footprints run_control | assumption)+

lemma interrupt_if_running_runs [footprints]:
  "turn_facts \<subseteq> G \<Longrightarrow> runs G s (interrupt_if_running x0 x1 s)"
  unfolding interrupt_if_running_def Let_def run_units by (rule footprints run_control | assumption)+

lemma expire_model_attempt_dispatch_runs [footprints]:
  "turn_facts \<subseteq> G \<Longrightarrow> model_facts \<subseteq> G \<Longrightarrow> budget_facts \<subseteq> G \<Longrightarrow> item_facts \<subseteq> G \<Longrightarrow> runs G s (expire_model_attempt_dispatch x0 x1 s)"
  unfolding expire_model_attempt_dispatch_def Let_def run_units by (rule footprints run_control | assumption)+

lemma mark_model_attempt_unknown_runs [footprints]:
  "turn_facts \<subseteq> G \<Longrightarrow> model_facts \<subseteq> G \<Longrightarrow> budget_facts \<subseteq> G \<Longrightarrow> item_facts \<subseteq> G \<Longrightarrow> runs G s (mark_model_attempt_unknown x0 x1 x2 x3 x4 x5 s)"
  unfolding mark_model_attempt_unknown_def Let_def run_units by (rule footprints run_control | assumption)+

lemma reject_model_attempt_runs [footprints]:
  "model_facts \<subseteq> G \<Longrightarrow> budget_facts \<subseteq> G \<Longrightarrow> item_facts \<subseteq> G \<Longrightarrow> runs G s (reject_model_attempt x0 x1 x2 x3 x4 x5 x6 x7 x8 s)"
  unfolding reject_model_attempt_def Let_def run_units by (rule footprints run_control | assumption)+

lemma cancel_model_attempt_runs [footprints]:
  "turn_facts \<subseteq> G \<Longrightarrow> model_facts \<subseteq> G \<Longrightarrow> budget_facts \<subseteq> G \<Longrightarrow> item_facts \<subseteq> G \<Longrightarrow> runs G s (cancel_model_attempt x0 x1 x2 x3 x4 s)"
  unfolding cancel_model_attempt_def Let_def run_units by (rule footprints run_control | assumption)+

lemma prepare_model_retry_runs [footprints]:
  "turn_facts \<subseteq> G \<Longrightarrow> model_facts \<subseteq> G \<Longrightarrow> runs G s (prepare_model_retry x0 x1 x2 x3 x4 s)"
  unfolding prepare_model_retry_def Let_def run_units by (rule footprints run_control | assumption)+

lemma commit_response_runs [footprints]:
  "model_facts \<subseteq> G \<Longrightarrow> budget_facts \<subseteq> G \<Longrightarrow> item_facts \<subseteq> G \<Longrightarrow> runs G s (commit_response x0 x1 x2 x3 s)"
  unfolding commit_response_def Let_def run_units by (rule footprints run_control | assumption)+

lemma complete_model_attempt_runs [footprints]:
  "model_facts \<subseteq> G \<Longrightarrow> budget_facts \<subseteq> G \<Longrightarrow> item_facts \<subseteq> G \<Longrightarrow> runs_with G s (complete_model_attempt x0 x1 x2 x3 x4 x5 s)"
  unfolding complete_model_attempt_def Let_def run_units by (rule footprints run_control | assumption)+

lemma after_failure_runs [footprints]:
  "turn_facts \<subseteq> G \<Longrightarrow> model_facts \<subseteq> G \<Longrightarrow> budget_facts \<subseteq> G \<Longrightarrow> item_facts \<subseteq> G \<Longrightarrow> runs_with G s (after_failure x0 x1 x2 x3 x4 x5 s)"
  unfolding after_failure_def Let_def run_units by (rule footprints run_control | assumption)+

lemma record_failure_runs [footprints]:
  "turn_facts \<subseteq> G \<Longrightarrow> model_facts \<subseteq> G \<Longrightarrow> budget_facts \<subseteq> G \<Longrightarrow> item_facts \<subseteq> G \<Longrightarrow> runs_with G s (record_failure x0 x1 x2 x3 x4 x5 x6 x7 x8 s)"
  unfolding record_failure_def Let_def run_units by (rule footprints run_control | assumption)+

lemma prepare_scheduled_retry_runs [footprints]:
  "turn_facts \<subseteq> G \<Longrightarrow> model_facts \<subseteq> G \<Longrightarrow> budget_facts \<subseteq> G \<Longrightarrow> item_facts \<subseteq> G \<Longrightarrow> runs G s (prepare_scheduled_retry x0 x1 x2 x3 x4 x5 x6 s)"
  unfolding prepare_scheduled_retry_def Let_def run_units by (rule footprints run_control | assumption)+

lemma cancel_scheduled_retry_runs [footprints]:
  "turn_facts \<subseteq> G \<Longrightarrow> model_facts \<subseteq> G \<Longrightarrow> budget_facts \<subseteq> G \<Longrightarrow> idle_tools \<subseteq> G \<Longrightarrow> interaction_facts \<subseteq> G \<Longrightarrow> item_facts \<subseteq> G \<Longrightarrow> runs G s (cancel_scheduled_retry x0 x1 x2 x3 s)"
  unfolding cancel_scheduled_retry_def Let_def run_units by (rule footprints run_control | assumption)+

lemma fail_unstarted_retry_runs [footprints]:
  "turn_facts \<subseteq> G \<Longrightarrow> model_facts \<subseteq> G \<Longrightarrow> budget_facts \<subseteq> G \<Longrightarrow> idle_tools \<subseteq> G \<Longrightarrow> interaction_facts \<subseteq> G \<Longrightarrow> item_facts \<subseteq> G \<Longrightarrow> runs G s (fail_unstarted_retry x0 x1 x2 x3 x4 s)"
  unfolding fail_unstarted_retry_def Let_def run_units by (rule footprints run_control | assumption)+

lemma finish_abandoned_runs [footprints]:
  "budget_facts \<subseteq> G \<Longrightarrow> item_facts \<subseteq> G \<Longrightarrow> runs G s (finish_abandoned x0 x1 x2 s)"
  unfolding finish_abandoned_def Let_def run_units by (rule footprints run_control | assumption)+

lemma release_unsent_runs [footprints]:
  "budget_facts \<subseteq> G \<Longrightarrow> runs G s (release_unsent x0 x1 s)"
  unfolding release_unsent_def Let_def run_units by (rule footprints run_control | assumption)+

lemma abandon_saved_summary_runs [footprints]:
  "turn_facts \<subseteq> G \<Longrightarrow> model_facts \<subseteq> G \<Longrightarrow> budget_facts \<subseteq> G \<Longrightarrow> idle_tools \<subseteq> G \<Longrightarrow> interaction_facts \<subseteq> G \<Longrightarrow> item_facts \<subseteq> G \<Longrightarrow> runs G s (abandon_saved_summary x0 x1 x2 x3 s)"
  unfolding abandon_saved_summary_def Let_def run_units by (rule footprints run_control | assumption)+

lemma record_tool_call_runs [footprints]:
  "item_facts \<subseteq> G \<Longrightarrow> runs G s (record_tool_call x0 x1 x2 x3 x4 x5 x6 s)"
  unfolding record_tool_call_def Let_def run_units by (rule footprints run_control | assumption)+

lemma execution_state_fact_runs:
  "execution_state_fact st tid x = Inr f \<Longrightarrow> idle_tools \<subseteq> G \<Longrightarrow> runs G s (append_fact th turn pr f s)"
  by (auto simp: execution_state_fact_def intro: runs_append split: option.splits if_splits)

lemma record_tool_execution_state_runs [footprints]:
  "idle_tools \<subseteq> G \<Longrightarrow> runs G s (record_tool_execution_state x0 x1 s)"
  unfolding record_tool_execution_state_def
  by (rule footprints run_control | assumption | (erule (1) execution_state_fact_runs))+

lemma claim_tool_operation_runs [footprints]:
  "tool_facts \<subseteq> G \<Longrightarrow> runs G s (claim_tool_operation x0 x1 x2 x3 x4 x5 s)"
  unfolding claim_tool_operation_def Let_def run_units by (rule runs_claim run_control | assumption)+

lemma reject_ready_tool_operation_runs [footprints]:
  "idle_tools \<subseteq> G \<Longrightarrow> runs G s (reject_ready_tool_operation x0 x1 s)"
  unfolding reject_ready_tool_operation_def Let_def run_units by (rule footprints run_control | assumption | (auto; fail))+

lemma ask_reconciliation_runs [footprints]:
  "interaction_facts \<subseteq> G \<Longrightarrow> runs G s (ask_reconciliation x0 x1 x2 x3 s)"
  unfolding ask_reconciliation_def Let_def run_units by (rule footprints run_control | assumption)+

lemma pause_tool_turn_runs [footprints]:
  "turn_facts \<subseteq> G \<Longrightarrow> runs G s (pause_tool_turn x0 x1 s)"
  unfolding pause_tool_turn_def Let_def run_units by (rule footprints run_control | assumption)+

lemma pause_if_running_runs [footprints]:
  "turn_facts \<subseteq> G \<Longrightarrow> runs G s (pause_if_running x0 x1 s)"
  unfolding pause_if_running_def Let_def run_units by (rule footprints run_control | assumption)+

lemma expire_tool_operation_claim_runs [footprints]:
  "turn_facts \<subseteq> G \<Longrightarrow> idle_tools \<subseteq> G \<Longrightarrow> interaction_facts \<subseteq> G \<Longrightarrow> runs G s (expire_tool_operation_claim x0 x1 x2 s)"
  unfolding expire_tool_operation_claim_def Let_def run_units by (rule footprints run_control | assumption | (auto; fail))+

lemma mark_tool_result_missing_runs [footprints]:
  "turn_facts \<subseteq> G \<Longrightarrow> idle_tools \<subseteq> G \<Longrightarrow> interaction_facts \<subseteq> G \<Longrightarrow> runs G s (mark_tool_result_missing x0 x1 s)"
  unfolding mark_tool_result_missing_def Let_def run_units by (rule footprints run_control | assumption | (auto; fail))+

lemma commit_tool_operation_outcome_runs [footprints]:
  "turn_facts \<subseteq> G \<Longrightarrow> idle_tools \<subseteq> G \<Longrightarrow> interaction_facts \<subseteq> G \<Longrightarrow> runs_with G s (commit_tool_operation_outcome x0 x1 x2 x3 x4 s)"
  unfolding commit_tool_operation_outcome_def Let_def run_units by (rule footprints run_control | assumption | (auto; fail))+

lemma plan_facts_runs [footprints]:
  "item_facts \<subseteq> G \<Longrightarrow> runs G s (plan_facts x0 x1 x2 x3 s)"
  unfolding plan_facts_def Let_def run_units by (rule footprints run_control | assumption)+

lemma link_result_runs [footprints]:
  "idle_tools \<subseteq> G \<Longrightarrow> runs G s (link_result x0 x1 x2 x3 s)"
  unfolding link_result_def Let_def run_units by (rule footprints run_control | assumption | (auto; fail))+

lemma record_tool_result_runs [footprints]:
  "idle_tools \<subseteq> G \<Longrightarrow> item_facts \<subseteq> G \<Longrightarrow> runs G s (record_tool_result x0 x1 x2 x3 x4 x5 x6 s)"
  unfolding record_tool_result_def Let_def run_units by (rule footprints run_control | assumption)+

lemma commit_tool_operation_result_runs [footprints]:
  "turn_facts \<subseteq> G \<Longrightarrow> idle_tools \<subseteq> G \<Longrightarrow> interaction_facts \<subseteq> G \<Longrightarrow> item_facts \<subseteq> G \<Longrightarrow> runs_with G s (commit_tool_operation_result x0 x1 x2 x3 x4 x5 x6 x7 x8 x9 x10 s)"
  unfolding commit_tool_operation_result_def Let_def run_units by (rule footprints run_control | assumption)+

lemma resolve_interaction_runs [footprints]:
  "interaction_facts \<subseteq> G \<Longrightarrow> runs G s (resolve_interaction x0 x1 x2 x3 x4 x5 s)"
  unfolding resolve_interaction_def Let_def run_units by (rule footprints run_control | assumption)+

lemma resolve_tool_reconciliation_runs [footprints]:
  "turn_facts \<subseteq> G \<Longrightarrow> idle_tools \<subseteq> G \<Longrightarrow> interaction_facts \<subseteq> G \<Longrightarrow> item_facts \<subseteq> G \<Longrightarrow> runs G s (resolve_tool_reconciliation x0 x1 x2 x3 x4 x5 s)"
  unfolding resolve_tool_reconciliation_def Let_def run_units by (rule footprints run_control | assumption | (auto; fail))+

lemma resolve_tool_approval_runs [footprints]:
  "turn_facts \<subseteq> G \<Longrightarrow> idle_tools \<subseteq> G \<Longrightarrow> interaction_facts \<subseteq> G \<Longrightarrow> runs G s (resolve_tool_approval x0 x1 x2 x3 s)"
  unfolding resolve_tool_approval_def Let_def run_units by (rule footprints run_control | assumption | (auto; fail))+

lemma ask_approval_runs [footprints]:
  "interaction_facts \<subseteq> G \<Longrightarrow> runs G s (ask_approval x0 x1 x2 x3 x4 s)"
  unfolding ask_approval_def Let_def run_units by (rule footprints run_control | assumption)+

lemma await_approval_runs [footprints]:
  "idle_tools \<subseteq> G \<Longrightarrow> runs G s (await_approval x0 x1 x2 x3 s)"
  unfolding await_approval_def Let_def run_units by (rule footprints run_control | assumption | (auto; fail))+

lemma retire_approval_runs [footprints]:
  "interaction_facts \<subseteq> G \<Longrightarrow> runs G s (retire_approval x0 x1 x2 s)"
  unfolding retire_approval_def Let_def run_units by (rule footprints run_control | assumption)+

lemma refresh_tool_approval_runs [footprints]:
  "turn_facts \<subseteq> G \<Longrightarrow> idle_tools \<subseteq> G \<Longrightarrow> interaction_facts \<subseteq> G \<Longrightarrow> runs G s (refresh_tool_approval x0 x1 x2 s)"
  unfolding refresh_tool_approval_def Let_def run_units by (rule footprints run_control | assumption)+

lemma invalidate_tool_approval_runs [footprints]:
  "idle_tools \<subseteq> G \<Longrightarrow> interaction_facts \<subseteq> G \<Longrightarrow> runs G s (invalidate_tool_approval x0 x1 s)"
  unfolding invalidate_tool_approval_def Let_def run_units by (rule footprints run_control | assumption | (auto; fail))+

lemma invalidate_resolved_tool_approval_runs [footprints]:
  "turn_facts \<subseteq> G \<Longrightarrow> idle_tools \<subseteq> G \<Longrightarrow> interaction_facts \<subseteq> G \<Longrightarrow> runs G s (invalidate_resolved_tool_approval x0 x1 s)"
  unfolding invalidate_resolved_tool_approval_def Let_def run_units by (rule footprints run_control | assumption | (auto; fail))+

lemma prepare_runs:
  assumes "(case call_operation st tid call of
       None \<Rightarrow> Inr (op, append_fact th turn pr (ToolFact (ToolPrepared f)))
     | Some x \<Rightarrow> if \<not> reusable_operation y x then Inl e else Inr (to_id x, Inr)) = Inr a"
    and "a = (k, prepare)" and "idle_tools \<subseteq> G"
  shows "runs G t (prepare t)"
  using assms by (auto intro: runs_append runs_Inr split: option.splits if_splits)

lemma request_tool_approval_runs [footprints]:
  "turn_facts \<subseteq> G \<Longrightarrow> idle_tools \<subseteq> G \<Longrightarrow> interaction_facts \<subseteq> G \<Longrightarrow> runs G s (request_tool_approval x0 x1 x2 x3 s)"
  unfolding request_tool_approval_def
  by (rule footprints run_control | assumption | (erule (2) prepare_runs) | (auto; fail))+

lemma record_tool_continuation_runs [footprints]:
  "item_facts \<subseteq> G \<Longrightarrow> runs G s (record_tool_continuation x0 x1 x2 x3 s)"
  unfolding record_tool_continuation_def Let_def run_units by (rule footprints run_control | assumption)+

lemma record_verification_runs [footprints]:
  "item_facts \<subseteq> G \<Longrightarrow> runs G s (record_verification x0 x1 x2 x3 x4 x5 s)"
  unfolding record_verification_def Let_def run_units by (rule footprints run_control | assumption)+

lemma record_workspace_checkpoint_runs [footprints]:
  "item_facts \<subseteq> G \<Longrightarrow> runs G s (record_workspace_checkpoint x0 x1 x2 x3 x4 x5 x6 s)"
  unfolding record_workspace_checkpoint_def Let_def run_units by (rule footprints run_control | assumption)+

lemma adopt_execution_protocol_runs [footprints]:
  "execution_facts \<subseteq> G \<Longrightarrow> runs G s (adopt_execution_protocol x0 s)"
  unfolding adopt_execution_protocol_def Let_def run_units by (rule footprints run_control | assumption)+

lemma response_handled_runs [footprints]:
  "execution_facts \<subseteq> G \<Longrightarrow> runs G s (response_handled x0 x1 x2 s)"
  unfolding response_handled_def Let_def run_units by (rule footprints run_control | assumption)+

lemma record_batch_call_runs [footprints]:
  "item_facts \<subseteq> G \<Longrightarrow> runs G s (record_batch_call x0 x1 x2 s)"
  unfolding record_batch_call_def Let_def run_units by (rule footprints run_control | assumption)+

lemma admit_tool_batch_runs [footprints]:
  "item_facts \<subseteq> G \<Longrightarrow> execution_facts \<subseteq> G \<Longrightarrow> runs G s (admit_tool_batch x0 x1 x2 x3 s)"
  unfolding admit_tool_batch_def Let_def run_units by (rule footprints run_control | assumption)+

lemma admit_thread_runs [footprints]:
  "thread_facts \<subseteq> G \<Longrightarrow> runs G s (admit_thread x0 x1 x2 x3 s)"
  unfolding admit_thread_def Let_def run_units by (rule footprints run_control | assumption)+

lemma receive_command_runs [footprints]:
  "thread_facts \<subseteq> G \<Longrightarrow> idle_hosts \<subseteq> G \<Longrightarrow> runs G s (receive_command x0 x1 x2 x3 x4 x5 x6 x7 x8 x9 x10 x11 x12 s)"
  unfolding receive_command_def Let_def run_units by (rule footprints run_control | assumption | (auto; fail))+

lemma revoke_command_runs [footprints]:
  "idle_hosts \<subseteq> G \<Longrightarrow> runs G s (revoke_command x0 s)"
  unfolding revoke_command_def Let_def run_units by (rule footprints run_control | assumption | (auto; fail))+

lemma take_claim_runs [footprints]:
  "host_facts \<subseteq> G \<Longrightarrow> runs G s (take_claim x0 x1 x2 s)"
  unfolding take_claim_def Let_def run_units by (rule runs_claim footprints run_control | assumption | (auto; fail))+

lemma scan_commands_runs [footprints]:
  "host_facts \<subseteq> G \<Longrightarrow> runs_with G s (scan_commands authorized ok owner lease cs s)"
proof (induction cs arbitrary: s)
  case Nil
  then show ?case by (simp add: runs_Inr)
next
  case (Cons c cs)
  have "idle_hosts \<subseteq> G" using Cons.prems by auto
  note ih = Cons.IH [OF Cons.prems]
  show ?case unfolding scan_commands.simps
    by (rule runs_claim footprints run_control ih Cons.prems \<open>idle_hosts \<subseteq> G\<close>)+
qed

lemma claim_next_runs [footprints]:
  "host_facts \<subseteq> G \<Longrightarrow> runs_with G s (claim_next x0 x1 x2 x3 x4 x5 s)"
  unfolding claim_next_def Let_def run_units by (rule runs_claim footprints run_control | assumption | (auto; fail))+

lemma renew_claim_runs [footprints]:
  "host_facts \<subseteq> G \<Longrightarrow> runs_with G s (renew_claim x0 x1 x2 s)"
  unfolding renew_claim_def Let_def run_units by (rule runs_claim footprints run_control | assumption | (auto; fail))+

lemma settle_command_runs [footprints]:
  "idle_hosts \<subseteq> G \<Longrightarrow> runs_with G s (settle_command x0 x1 x2 x3 x4 s)"
  unfolding settle_command_def Let_def run_units by (rule footprints run_control | assumption | (auto; fail))+

lemma reject_queued_start_runs [footprints]:
  "idle_hosts \<subseteq> G \<Longrightarrow> runs_with G s (reject_queued_start x0 s)"
  unfolding reject_queued_start_def Let_def run_units by (rule footprints run_control | assumption | (auto; fail))+

lemma release_orphan_claims_runs [footprints]:
  "idle_hosts \<subseteq> G \<Longrightarrow> runs G s (release_orphan_claims x0 x1 s)"
  unfolding release_orphan_claims_def Let_def run_units by (rule footprints run_control | assumption | (auto; fail))+

lemma install_candidate_runs [footprints]:
  "model_facts \<subseteq> G \<Longrightarrow> budget_facts \<subseteq> G \<Longrightarrow> item_facts \<subseteq> G \<Longrightarrow> (\<And>t. runs G t (install t)) \<Longrightarrow>
     runs G s (install_candidate content fresh fr tid jid install call s)"
  unfolding install_candidate_def Let_def run_units by (rule footprints run_control | assumption)+

lemma create_job_runs:
  "create_job iid u1 u2 identity tid plan revision s = Some r \<Longrightarrow> budget_facts \<subseteq> G \<Longrightarrow> item_facts \<subseteq> G \<Longrightarrow>
     runs_with G s r"
  unfolding create_job_def by (auto split: option.splits intro: runs_Inr open_job_runs)

end
