(* ===== verification/Slots.thy ===== *)
theory Slots
  imports Command_Footprints
begin

text \<open>
  The active slot of a Thread. A Turn that can still change (running, paused or interrupted) holds
  the active slot of its Thread, and a slot names such a Turn of that Thread; so a Thread never
  has two open Turns. This theory says how each Turn fact moves Turns and slots, and which facts
  are \<open>lawful\<close>: the ones that keep the slots consistent and leave finished Turns alone.
\<close>

section \<open>Consistent slots\<close>

text \<open>The Thread of an open Turn, and the Turn in the slot of a Thread.\<close>

definition open_thread :: "store \<Rightarrow> string \<Rightarrow> string option" where
  "open_thread s tid = (case tget (turns (proj s)) tid of
     None \<Rightarrow> None | Some tu \<Rightarrow> if open_turn (tu_status tu) then Some (tu_thread tu) else None)"

definition active_turn :: "store \<Rightarrow> string \<Rightarrow> string option" where
  "active_turn s th = (case tget (threads (proj s)) th of None \<Rightarrow> None | Some h \<Rightarrow> th_active h)"

definition slot_ok :: "store \<Rightarrow> bool" where
  "slot_ok s \<longleftrightarrow> (\<forall>tid th. open_thread s tid = Some th \<longleftrightarrow> active_turn s th = Some tid)"

lemma core_fields [simp]:
  "tu_id (turn_core tu) = tu_id tu" "tu_thread (turn_core tu) = tu_thread tu" "tu_status (turn_core tu) = tu_status tu"
  "th_active (thread_core th) = th_active th" "th_id (thread_core th) = th_id th"
  by (simp_all add: turn_core_def thread_core_def)

lemma open_thread_cores: "open_thread s tid = (case turn_cores (proj s) tid of
     None \<Rightarrow> None | Some tu \<Rightarrow> if open_turn (tu_status tu) then Some (tu_thread tu) else None)"
  by (simp add: open_thread_def turn_cores_def split: option.splits)

lemma active_turn_cores: "active_turn s th = (case thread_cores (proj s) th of None \<Rightarrow> None | Some h \<Rightarrow> th_active h)"
  by (simp add: active_turn_def thread_cores_def split: option.splits)

lemma open_thread_Some:
  "open_thread s tid = Some th \<longleftrightarrow> (\<exists>tu. tget (turns (proj s)) tid = Some tu \<and> open_turn (tu_status tu) \<and> tu_thread tu = th)"
  by (auto simp: open_thread_def split: option.splits)

section \<open>What a Turn fact does\<close>

lemma slice_turn:
  assumes "tget (turns (load_slice p r)) k = Some tu"
  shows "rr_turn r = Some k" and "tu_thread tu = rr_thread r" and "tget (turns p) k = Some tu"
  using assms by (auto simp: load_slice_def empty_projection_def Let_def tget_load_rows the_list_def
      split: option.splits if_splits)

lemma slice_thread:
  assumes "tget (threads (load_slice p r)) k = Some th"
  shows "k = rr_thread r" and "tget (threads p) k = Some th"
  using assms by (auto simp: load_slice_def empty_projection_def Let_def tget_def split: option.splits if_splits)

text \<open>An append whose fact is addressed acts on the complete tables as the reducer does.\<close>

lemma append_reduces:
  assumes "well_formed s" and "append_fact th turn pr f s = Inr t" and "addressed th (proj s) f"
    and "\<And>x. f \<noteq> ItemFact x"
  shows "\<exists>r q s'. apply_record (counted (proj s)) r = Inr q \<and> proj t = durable q
    \<and> apply_record (load_slice (proj s) r) r = Inr s'
    \<and> rr_thread r = th \<and> rr_turn r = turn \<and> rr_fact r = f \<and> rr_producer r = pr \<and> rr_version r = 9"
proof -
  from assms(2) obtain g where g: "enrich s f = Inr g" and a: "append_record th turn pr g s = Inr t"
    by (auto simp: append_fact_def)
  with assms(4) have gf: "g = f" by (simp add: enrich_same)
  let ?r = "make_record s th turn pr f"
  from assms(1) have "projection_ok (proj s)" by (simp add: well_formed_def)
  from append_record_refines [OF this assms(3) a [unfolded gf]] obtain q where
    "apply_record (counted (proj s)) ?r = Inr q" "proj t = durable q" by blast
  moreover from a obtain s' where "apply_record (load_slice (proj s) ?r) ?r = Inr s'"
    by (auto simp: gf append_record_def Let_def)
  moreover have "rr_version ?r = 9" by (simp add: make_record_def)
  moreover have "rr_thread ?r = th" "rr_turn ?r = turn" "rr_fact ?r = f" "rr_producer ?r = pr" by simp_all
  ultimately show ?thesis by blast
qed

lemmas turn_effect_defs = apply_record_def apply_fact_def supported_version_def turn_of_def set_turn_status_def
  end_turn_def touch_thread_def mod_turn_def mod_thread_def tmod_eq_Inr put_turn_def put_thread_def

lemma turn_cores_step:
  "\<forall>k. k \<noteq> tid \<longrightarrow> tget (turns q) k = tget (turns p) k \<Longrightarrow> k \<noteq> tid \<Longrightarrow> turn_cores q k = turn_cores p k"
  by (simp add: turn_cores_def)

text \<open>The Turn a fact moves, and the status it gets; \<open>None\<close> for a fact that moves none.\<close>

definition moved_to :: "turn_fact \<Rightarrow> (string \<times> turn_status) option" where
  "moved_to f = (case f of
     TurnStarted tid _ _ _ \<Rightarrow> Some (tid, Running)
   | TurnPaused tid _ _ \<Rightarrow> Some (tid, Paused)
   | TurnInterrupted tid \<Rightarrow> Some (tid, Interrupted)
   | TurnResumed tid \<Rightarrow> Some (tid, Running)
   | TurnCancellationRequested _ \<Rightarrow> None
   | TurnCompleted tid _ \<Rightarrow> Some (tid, Completed)
   | TurnFailed tid _ _ \<Rightarrow> Some (tid, Failed)
   | TurnCancelled tid _ \<Rightarrow> Some (tid, Cancelled))"

definition starts_turn :: "turn_fact \<Rightarrow> bool" where
  "starts_turn f = (case f of TurnStarted _ _ _ _ \<Rightarrow> True | _ \<Rightarrow> False)"

lemma addressed_turn: "\<not> starts_turn f \<Longrightarrow> addressed th p (TurnFact f)"
  by (cases f) (simp_all add: starts_turn_def)

text \<open>A fact about an existing Turn succeeds only on a Turn of the record's Thread.\<close>

lemma moved_turn:
  assumes "well_formed s" and "append_fact th turn pr (TurnFact f) s = Inr t"
    and "moved_to f = Some (tid, st)" and "\<not> starts_turn f"
  shows "\<exists>tu. tget (turns (proj s)) tid = Some tu \<and> tu_thread tu = th \<and> turn = Some tid"
proof -
  from append_reduces [OF assms(1,2) addressed_turn [OF assms(4)]] obtain r s' where
    s': "apply_record (load_slice (proj s) r) r = Inr s'"
    and r: "rr_thread r = th" "rr_turn r = turn" "rr_fact r = TurnFact f" by blast
  have "\<exists>tu. tget (turns (load_slice (proj s) r)) tid = Some tu"
    using s' r assms(3,4) by (cases f) (auto simp: turn_effect_defs moved_to_def starts_turn_def split: if_splits)
  then obtain tu where "tget (turns (load_slice (proj s) r)) tid = Some tu" by blast
  from slice_turn [OF this] r show ?thesis by auto
qed

lemma moved_cores:
  assumes "well_formed s" and "append_fact th turn pr (TurnFact f) s = Inr t"
    and "moved_to f = Some (tid, st)" and "starts_turn f \<Longrightarrow> tget (turns (proj s)) tid = None"
  shows "\<exists>tu. tget (turns (proj t)) tid = Some tu \<and> tu_status tu = st \<and> tu_thread tu = th"
    and "k \<noteq> tid \<Longrightarrow> turn_cores (proj t) k = turn_cores (proj s) k"
    and "active_turn t = (if starts_turn f then (active_turn s)(th \<mapsto> tid)
       else if terminal_turn st then (active_turn s)(th := None) else active_turn s)"
proof -
  have "addressed th (proj s) (TurnFact f)"
    using assms(3,4) by (cases f) (simp_all add: moved_to_def starts_turn_def)
  from append_reduces [OF assms(1,2) this] obtain r q where
    q: "apply_record (counted (proj s)) r = Inr q" and t: "proj t = durable q"
    and r: "rr_thread r = th" "rr_turn r = turn" "rr_fact r = TurnFact f" by blast
  have old: "\<not> starts_turn f \<Longrightarrow> \<exists>tu. tget (turns (proj s)) tid = Some tu \<and> tu_thread tu = th"
    using moved_turn [OF assms(1-3)] by blast
  show "\<exists>tu. tget (turns (proj t)) tid = Some tu \<and> tu_status tu = st \<and> tu_thread tu = th"
    using q r old assms(3)
    by (cases f) (auto simp: t turn_effect_defs moved_to_def starts_turn_def split: if_splits)
  show "turn_cores (proj t) k = turn_cores (proj s) k" if "k \<noteq> tid"
    using q r assms(3) that
    by (cases f) (auto simp: t turn_effect_defs moved_to_def turn_cores_def split: if_splits)
  show "active_turn t = (if starts_turn f then (active_turn s)(th \<mapsto> tid)
       else if terminal_turn st then (active_turn s)(th := None) else active_turn s)"
    using q r assms(3)
    by (cases f) (auto simp: t turn_effect_defs moved_to_def starts_turn_def active_turn_def terminal_turn_def fun_eq_iff
        split: if_splits option.splits)
qed

section \<open>Lawful facts\<close>

fun lawful :: "store \<Rightarrow> string \<Rightarrow> fact \<Rightarrow> bool" where
  "lawful s th (TurnFact f) = (case moved_to f of
     None \<Rightarrow> True
   | Some (tid, _) \<Rightarrow> if starts_turn f then tget (turns (proj s)) tid = None \<and> active_turn s th = None
       else open_thread s tid \<noteq> None)"
| "lawful s th (ThreadFact (ThreadCreated _)) = (tget (threads (proj s)) th = None)"
| "lawful s th (ThreadFact (ThreadForked _ _ _)) = (tget (threads (proj s)) th = None)"
| "lawful s th _ = True"

text \<open>A finished Turn keeps its row, its stamp aside.\<close>

definition finished_kept :: "store \<Rightarrow> store \<Rightarrow> bool" where
  "finished_kept s t \<longleftrightarrow> (\<forall>k tu. turn_cores (proj s) k = Some tu \<and> terminal_turn (tu_status tu)
     \<longrightarrow> turn_cores (proj t) k = Some tu)"

lemma finished_kept_refl: "finished_kept s s"
  by (simp add: finished_kept_def)

lemma finished_kept_trans: "finished_kept s t \<Longrightarrow> finished_kept t u \<Longrightarrow> finished_kept s u"
  unfolding finished_kept_def by blast

lemma slot_ok_same: "cores t = cores s \<Longrightarrow> slot_ok t = slot_ok s \<and> open_thread t = open_thread s \<and> finished_kept s t"
  by (simp add: slot_ok_def open_thread_cores active_turn_cores cores_def finished_kept_def fun_eq_iff)

lemma thread_fact_effect:
  assumes "well_formed s" and "append_fact th turn pr (ThreadFact f) s = Inr t" and "lawful s th (ThreadFact f)"
  shows "turn_cores (proj t) = turn_cores (proj s)" and "active_turn t = active_turn s"
proof -
  from assms(1) have p: "projection_ok (proj s)" by (simp add: well_formed_def)
  show "turn_cores (proj t) = turn_cores (proj s)" by (rule any_append_turns [OF p assms(2)]) simp
  show "active_turn t = active_turn s"
  proof (cases "\<exists>eid kind key v. f = ChannelEntryUpdated eid kind key v")
    case True
    then obtain eid kind key v where f: "f = ChannelEntryUpdated eid kind key v" by blast
    from assms(2) obtain r s' where s': "apply_record (load_slice (proj s) r) r = Inr s'"
      and t: "proj t = persist_slice (rr_seq r) s' (proj s)"
      and r: "rr_fact r = ThreadFact f" "rr_thread r = th"
      by (rule append_shape) auto
    let ?c = "thread_cores (load_slice (proj s) r)"
    have keep: "preserves (\<lambda>x. thread_cores x = ?c)
        (chain [put_channel \<lparr>ch_id = eid, ch_thread = rr_thread r, ch_kind = kind, ch_key = key,
          ch_value = v, ch_seq = rr_seq r\<rparr>, touch_thread r])"
      by (intro preserve_intros thread_cores_touch frame_put_channel) (simp add: thread_cores_def fun_eq_iff)
    have "apply_thread r f (load_slice (proj s) r) = Inr s'"
      using s' r by (simp add: apply_record_def apply_fact_def split: if_splits)
    with preservesD [OF keep refl] have "thread_cores s' = ?c" by (simp only: f apply_thread.simps)
    from thread_cores_persist [OF part_thread_core [OF p s' this]] show ?thesis
      by (simp add: t active_turn_cores fun_eq_iff)
  next
    case False
    then have "addressed th (proj s) (ThreadFact f)" by (cases f) auto
    from append_reduces [OF assms(1,2) this] obtain r q where
      q: "apply_record (counted (proj s)) r = Inr q" and t: "proj t = durable q"
      and r: "rr_thread r = th" "rr_fact r = ThreadFact f" by blast
    show ?thesis
      using q r assms(3) False
      by (cases f) (auto simp: t turn_effect_defs new_thread_def active_turn_def fun_eq_iff split: if_splits option.splits)
  qed
qed

lemma same_turn_facts:
  assumes "well_formed s" and "append_fact th turn pr (TurnFact f) s = Inr t" and "moved_to f = None"
  shows "cores t = cores s"
proof -
  from assms(3) obtain tid where f: "f = TurnCancellationRequested tid" by (cases f) (simp_all add: moved_to_def)
  have "addressed th (proj s) (TurnFact f)" by (simp add: f)
  from append_reduces [OF assms(1,2) this] obtain r q where
    q: "apply_record (counted (proj s)) r = Inr q" and t: "proj t = durable q"
    and r: "rr_thread r = th" "rr_fact r = TurnFact f" by blast
  from q r show ?thesis
    by (auto simp: t f turn_effect_defs cores_def turn_cores_def thread_cores_def turn_core_def thread_core_def fun_eq_iff
        split: if_splits)
qed

theorem lawful_append:
  assumes "well_formed s" and "slot_ok s" and "lawful s th f" and "append_fact th turn pr f s = Inr t"
  shows "slot_ok t \<and> finished_kept s t"
proof (cases "f \<in> turn_facts \<union> thread_facts")
  case False
  with quiet.same_append [OF _ assms(4,1)] slot_ok_same assms(2) show ?thesis by blast
next
  case True
  then consider (thread) g where "f = ThreadFact g" | (turn) g where "f = TurnFact g" by blast
  then show ?thesis
  proof cases
    case thread
    note e = thread_fact_effect [OF assms(1) assms(4)[unfolded thread] assms(3)[unfolded thread]]
    with assms(2) show ?thesis by (simp add: slot_ok_def open_thread_cores finished_kept_def)
  next
    case turn
    show ?thesis
    proof (cases "moved_to g")
      case None
      from slot_ok_same [OF same_turn_facts [OF assms(1) assms(4)[unfolded turn] None]] assms(2) show ?thesis by blast
    next
      case (Some m)
      obtain tid st where m: "moved_to g = Some (tid, st)" using Some by (cases m) auto
      from assms(3) turn m have law: "if starts_turn g then tget (turns (proj s)) tid = None \<and> active_turn s th = None
        else open_thread s tid \<noteq> None" by simp
      note e = moved_cores [OF assms(1) assms(4)[unfolded turn] m]
      have fresh: "starts_turn g \<Longrightarrow> tget (turns (proj s)) tid = None" using law by simp
      from e(1) [OF fresh] obtain tu where tu: "tget (turns (proj t)) tid = Some tu" "tu_status tu = st" "tu_thread tu = th"
        by blast
      have others: "open_thread t k = open_thread s k" if "k \<noteq> tid" for k
        using e(2) [OF fresh that] by (simp add: open_thread_cores)
      have here: "open_thread t tid = (if open_turn st then Some th else None)"
        using tu by (simp add: open_thread_def)
      have was: "\<not> starts_turn g \<Longrightarrow> open_thread s tid = Some th"
        using law moved_turn [OF assms(1) assms(4)[unfolded turn] m]
        by (auto simp: open_thread_def split: if_splits)
      have act: "active_turn t = (if starts_turn g then (active_turn s)(th \<mapsto> tid)
        else if terminal_turn st then (active_turn s)(th := None) else active_turn s)"
        by (rule e(3) [OF fresh])
      have start: "starts_turn g \<Longrightarrow> st = Running \<and> open_thread s tid = None \<and> active_turn s th = None"
        using law m by (auto simp: starts_turn_def moved_to_def open_thread_def split: turn_fact.splits)
      have "slot_ok t"
        unfolding slot_ok_def
      proof (intro allI)
        fix k h
        have old: "open_thread s k = Some h \<longleftrightarrow> active_turn s h = Some k" using assms(2) by (simp add: slot_ok_def)
        have own: "open_thread s tid = Some h \<longleftrightarrow> active_turn s h = Some tid" using assms(2) by (simp add: slot_ok_def)
        show "open_thread t k = Some h \<longleftrightarrow> active_turn t h = Some k"
        proof (cases "starts_turn g")
          case True
          with start have o: "open_turn st" "open_thread s tid = None" "active_turn s th = None"
            by (simp_all add: open_turn_def)
          show ?thesis using True old own others here act o by (cases "k = tid") auto
        next
          case False
          with was have o: "open_thread s tid = Some th" by simp
          then show ?thesis
            using False old own others here act assms(2) by (cases "k = tid") (auto simp: open_turn_iff slot_ok_def)
        qed
      qed
      moreover have "finished_kept s t"
        unfolding finished_kept_def
      proof (intro allI impI)
        fix k tu'
        assume k: "turn_cores (proj s) k = Some tu' \<and> terminal_turn (tu_status tu')"
        have "k \<noteq> tid"
        proof
          assume "k = tid"
          with k have "open_thread s tid = None" and "tget (turns (proj s)) tid \<noteq> None"
            by (auto simp: open_thread_cores open_turn_iff turn_cores_def)
          with law show False by (simp split: if_splits)
        qed
        with e(2) [OF fresh] k show "turn_cores (proj t) k = Some tu'" by simp
      qed
      ultimately show ?thesis by simp
    qed
  qed
qed

end
