(* ===== verification/Orderly.thy ===== *)
theory Orderly
  imports Slots
begin

text \<open>
  Every command keeps the slots consistent and leaves finished Turns alone. \<open>guided O O' s r\<close> is a
  partial-correctness triple over the states a command passes through: from a state whose slots
  are consistent and where the Turns of \<open>O\<close> are open, each returned state is consistent again and
  has the Turns of \<open>O'\<close> open. Commands without Turn or Thread facts are covered by their
  footprints; the others are walked along their guards.
\<close>

definition stage :: "string set \<Rightarrow> store \<Rightarrow> bool" where
  "stage O' s \<longleftrightarrow> well_formed s \<and> slot_ok s \<and> (\<forall>tid \<in> O'. open_thread s tid \<noteq> None)"

definition guided :: "string set \<Rightarrow> string set \<Rightarrow> store \<Rightarrow> store result \<Rightarrow> bool" where
  "guided A B s r \<longleftrightarrow> (stage A s \<longrightarrow> (\<forall>t. r = Inr t \<longrightarrow> stage B t \<and> finished_kept s t))"

definition guided_with :: "string set \<Rightarrow> string set \<Rightarrow> store \<Rightarrow> ('a \<times> store) result \<Rightarrow> bool" where
  "guided_with A B s r \<longleftrightarrow> (stage A s \<longrightarrow> (\<forall>x t. r = Inr (x, t) \<longrightarrow> stage B t \<and> finished_kept s t))"

lemma guidedI: "(\<And>t. stage A s \<Longrightarrow> r = Inr t \<Longrightarrow> stage B t \<and> finished_kept s t) \<Longrightarrow> guided A B s r"
  by (simp add: guided_def)

lemma guidedD: "guided A B s r \<Longrightarrow> stage A s \<Longrightarrow> r = Inr t \<Longrightarrow> stage B t \<and> finished_kept s t"
  by (simp add: guided_def)

lemma guided_withD: "guided_with A B s r \<Longrightarrow> stage A s \<Longrightarrow> r = Inr (x, t) \<Longrightarrow> stage B t \<and> finished_kept s t"
  by (simp add: guided_with_def)

lemma stage_subset: "stage A s \<Longrightarrow> B \<subseteq> A \<Longrightarrow> stage B s"
  by (auto simp: stage_def)

section \<open>Control structure\<close>

lemma guided_bind:
  assumes "guided A A s m" and "\<And>t. guided A B t (k t)"
  shows "guided A B s (ebind m k)"
proof (rule guidedI)
  fix u
  assume s: "stage A s" and "ebind m k = Inr u"
  then obtain t where m: "m = Inr t" and k: "k t = Inr u" by auto
  from guidedD [OF assms(1) s m] guidedD [OF assms(2) _ k] show "stage B u \<and> finished_kept s u"
    by (auto intro: finished_kept_trans)
qed

lemma guided_with_bind:
  assumes "guided_with A A s m" and "\<And>x t. guided A B t (k x t)"
  shows "guided A B s (ebind m (\<lambda>(x, t). k x t))"
proof (rule guidedI)
  fix u
  assume s: "stage A s" and "ebind m (\<lambda>(x, t). k x t) = Inr u"
  then obtain x t where m: "m = Inr (x, t)" and k: "k x t = Inr u" by auto
  from guided_withD [OF assms(1) s m] guidedD [OF assms(2) _ k] show "stage B u \<and> finished_kept s u"
    by (auto intro: finished_kept_trans)
qed

lemma guided_bind_with:
  assumes "guided A A s m" and "\<And>t. guided_with A B t (k t)"
  shows "guided_with A B s (ebind m k)"
  unfolding guided_with_def
proof (intro impI allI)
  fix x u
  assume s: "stage A s" and "ebind m k = Inr (x, u)"
  then obtain t where m: "m = Inr t" and k: "k t = Inr (x, u)" by auto
  from guidedD [OF assms(1) s m] guided_withD [OF assms(2) _ k] show "stage B u \<and> finished_kept s u"
    by (auto intro: finished_kept_trans)
qed

lemma guided_then_return:
  "guided A B s m \<Longrightarrow> guided_with A B s (ebind m (\<lambda>t. Inr (x, t)))"
  by (cases m) (auto simp: guided_def guided_with_def)

lemma guided_with_bind_with:
  assumes "guided_with A A s m" and "\<And>x t. guided_with A B t (k x t)"
  shows "guided_with A B s (ebind m (\<lambda>(x, t). k x t))"
  unfolding guided_with_def
proof (intro impI allI)
  fix y u
  assume s: "stage A s" and "ebind m (\<lambda>(x, t). k x t) = Inr (y, u)"
  then obtain x t where m: "m = Inr (x, t)" and k: "k x t = Inr (y, u)" by auto
  from guided_withD [OF assms(1) s m] guided_withD [OF assms(2) _ k] show "stage B u \<and> finished_kept s u"
    by (auto intro: finished_kept_trans)
qed

lemma guided_query:
  "(\<And>a. q = Inr a \<Longrightarrow> guided A B s (k a)) \<Longrightarrow> guided A B s (ebind q k)"
  "(\<And>a. q = Inr a \<Longrightarrow> guided_with A B s (k' a)) \<Longrightarrow> guided_with A B s (ebind q k')"
  by (cases q; simp add: guided_def guided_with_def)+

lemma guided_Inl: "guided A B s (Inl e)" "guided_with A B s (Inl e)"
  by (simp_all add: guided_def guided_with_def)

lemma guided_Inr: "guided A A s (Inr s)" "guided_with A A s (Inr (x, s))"
  "guided A {} s (Inr s)" "guided_with A {} s (Inr (x, s))"
  by (simp_all add: guided_def guided_with_def finished_kept_refl stage_def)

lemma guided_if:
  "(b \<Longrightarrow> guided A B s x) \<Longrightarrow> (\<not> b \<Longrightarrow> guided A B s y) \<Longrightarrow> guided A B s (if b then x else y)"
  "(b \<Longrightarrow> guided_with A B s x') \<Longrightarrow> (\<not> b \<Longrightarrow> guided_with A B s y') \<Longrightarrow> guided_with A B s (if b then x' else y')"
  "(b \<Longrightarrow> guided A B s (f s)) \<Longrightarrow> (\<not> b \<Longrightarrow> guided A B s (g s)) \<Longrightarrow> guided A B s ((if b then f else g) s)"
  by auto

lemma guided_option:
  "(x = None \<Longrightarrow> guided A B s a) \<Longrightarrow> (\<And>y. x = Some y \<Longrightarrow> guided A B s (b y)) \<Longrightarrow>
     guided A B s (case x of None \<Rightarrow> a | Some y \<Rightarrow> b y)"
  "(x = None \<Longrightarrow> guided_with A B s a') \<Longrightarrow> (\<And>y. x = Some y \<Longrightarrow> guided_with A B s (b' y)) \<Longrightarrow>
     guided_with A B s (case x of None \<Rightarrow> a' | Some y \<Rightarrow> b' y)"
  by (auto split: option.splits)

lemma guided_prod:
  "(\<And>a b. x = (a, b) \<Longrightarrow> guided A B s (f a b)) \<Longrightarrow> guided A B s (case x of (a, b) \<Rightarrow> f a b)"
  "(\<And>a b. x = (a, b) \<Longrightarrow> guided_with A B s (f' a b)) \<Longrightarrow> guided_with A B s (case x of (a, b) \<Rightarrow> f' a b)"
  by (auto split: prod.splits)

lemma guided_list:
  "guided A B s a \<Longrightarrow> (\<And>y ys. guided A B s (b y ys)) \<Longrightarrow> guided A B s (case xs of [] \<Rightarrow> a | y # ys \<Rightarrow> b y ys)"
  by (auto split: list.splits)

lemma guided_chain:
  "guided A {} s (chain [] s)"
  "guided A A s (chain [] s)"
  "guided A B s (f s) \<Longrightarrow> guided A B s (chain [f] s)"
  by (simp_all only: chain_single) (simp_all add: guided_Inr)

lemma guided_chain_Cons:
  "guided A A s (f s) \<Longrightarrow> (\<And>t. guided A B t (chain fs t)) \<Longrightarrow> guided A B s (chain (f # fs) s)"
  by (simp add: guided_bind)

lemma guided_weaken: "guided (insert x A) (insert x A) s r \<Longrightarrow> guided (insert x A) {} s r"
  by (auto simp: guided_def intro: stage_subset)

lemma guided_with_weaken: "guided_with (insert x A) (insert x A) s r \<Longrightarrow> guided_with (insert x A) {} s r"
  by (auto simp: guided_with_def intro: stage_subset)

lemma guided_fewer: "guided B C s r \<Longrightarrow> B \<subseteq> A \<Longrightarrow> guided A C s r"
  by (auto simp: guided_def intro: stage_subset)

section \<open>Quiet commands\<close>

abbreviation "quiet_facts \<equiv> - (turn_facts \<union> thread_facts)"

lemma stage_quiet:
  assumes "appends quiet_facts s t" and "stage A s"
  shows "stage A t \<and> finished_kept s t"
proof -
  have wf: "well_formed s" using assms(2) by (simp add: stage_def)
  from quiet.same [OF assms(1) wf] have c: "well_formed t" "cores t = cores s" by simp_all
  from slot_ok_same [OF c(2)] c(1) assms(2) show ?thesis by (simp add: stage_def)
qed

lemma guided_quiet: "runs quiet_facts s r \<Longrightarrow> guided A A s r"
  by (rule guidedI) (rule stage_quiet [OF runsD])

lemma guided_quiet_with: "runs_with quiet_facts s r \<Longrightarrow> guided_with A A s r"
  unfolding guided_with_def by (intro impI allI) (rule stage_quiet [OF runs_withD])

lemma quiet_groups:
  "host_facts \<subseteq> quiet_facts" "model_facts \<subseteq> quiet_facts" "budget_facts \<subseteq> quiet_facts" "tool_facts \<subseteq> quiet_facts"
  "interaction_facts \<subseteq> quiet_facts" "item_facts \<subseteq> quiet_facts" "execution_facts \<subseteq> quiet_facts" "idle_tools \<subseteq> quiet_facts"
  by auto

section \<open>Turn facts\<close>

lemma open_thread_move:
  assumes "well_formed s" and "append_fact th turn pr (TurnFact f) s = Inr t" and "moved_to f = Some (tid, st)"
    and "\<not> starts_turn f" and "open_turn st" and "open_thread s k \<noteq> None"
  shows "open_thread t k \<noteq> None"
proof (cases "k = tid")
  case True
  from moved_cores(1) [OF assms(1-3)] assms(4) obtain tu where
    "tget (turns (proj t)) tid = Some tu" "tu_status tu = st" by auto
  with assms(5) True show ?thesis by (simp add: open_thread_def)
next
  case False
  have "turn_cores (proj t) k = turn_cores (proj s) k"
    by (rule moved_cores(2) [OF assms(1-3)]) (use assms(4) False in auto)
  with assms(6) show ?thesis by (simp add: open_thread_cores)
qed

lemma guided_move:
  assumes "moved_to f = Some (tid, st)" and "\<not> starts_turn f" and "open_turn st" and "tid \<in> A"
  shows "guided A A s (append_fact th turn pr (TurnFact f) s)"
proof (rule guidedI)
  fix t
  assume s: "stage A s" and a: "append_fact th turn pr (TurnFact f) s = Inr t"
  then have wf: "well_formed s" "slot_ok s" by (simp_all add: stage_def)
  have "lawful s th (TurnFact f)" using s assms by (auto simp: stage_def)
  from lawful_append [OF wf this a] append_well_formed [OF wf(1) a] open_thread_move [OF wf(1) a assms(1-3)] s
  show "stage A t \<and> finished_kept s t" by (auto simp: stage_def)
qed

lemma guided_end:
  assumes "moved_to f = Some (tid, st)" and "\<not> starts_turn f" and "tid \<in> A"
  shows "guided A {} s (append_fact th turn pr (TurnFact f) s)"
proof (rule guidedI)
  fix t
  assume s: "stage A s" and a: "append_fact th turn pr (TurnFact f) s = Inr t"
  then have wf: "well_formed s" "slot_ok s" by (simp_all add: stage_def)
  have "lawful s th (TurnFact f)" using s assms by (auto simp: stage_def)
  from lawful_append [OF wf this a] append_well_formed [OF wf(1) a]
  show "stage {} t \<and> finished_kept s t" by (simp add: stage_def)
qed

lemma guided_turn_facts:
  "tid \<in> A \<Longrightarrow> guided A A s (append_fact th turn pr (TurnFact (TurnPaused tid code revision)) s)"
  "tid \<in> A \<Longrightarrow> guided A A s (append_fact th turn pr (TurnFact (TurnInterrupted tid)) s)"
  "tid \<in> A \<Longrightarrow> guided A A s (append_fact th turn pr (TurnFact (TurnResumed tid)) s)"
  "tid \<in> A \<Longrightarrow> guided A {} s (append_fact th turn pr (TurnFact (TurnCompleted tid answer)) s)"
  "tid \<in> A \<Longrightarrow> guided A {} s (append_fact th turn pr (TurnFact (TurnFailed tid reason msg)) s)"
  "tid \<in> A \<Longrightarrow> guided A {} s (append_fact th turn pr (TurnFact (TurnCancelled tid msg)) s)"
  by (rule guided_move [where st = Paused and tid = tid] guided_move [where st = Interrupted and tid = tid]
      guided_move [where st = Running and tid = tid] guided_end [where st = Completed and tid = tid]
      guided_end [where st = Failed and tid = tid] guided_end [where st = Cancelled and tid = tid];
      simp add: moved_to_def starts_turn_def open_turn_def; fail)+

lemma guided_request: "guided A A s (append_fact th turn pr (TurnFact (TurnCancellationRequested tid)) s)"
proof (rule guidedI)
  fix t
  assume s: "stage A s" and a: "append_fact th turn pr (TurnFact (TurnCancellationRequested tid)) s = Inr t"
  then have wf: "well_formed s" by (simp add: stage_def)
  have "moved_to (TurnCancellationRequested tid) = None" by (simp add: moved_to_def)
  from slot_ok_same [OF same_turn_facts [OF wf a this]] append_well_formed [OF wf a] s
  show "stage A t \<and> finished_kept s t" by (simp add: stage_def)
qed

text \<open>A Thread fact moves no Turn; a Turn starts in a Thread whose slot is free.\<close>

lemma guided_thread_fact:
  assumes "lawful s th (ThreadFact f)"
  shows "guided A A s (append_fact th turn pr (ThreadFact f) s)"
proof (rule guidedI)
  fix t
  assume s: "stage A s" and a: "append_fact th turn pr (ThreadFact f) s = Inr t"
  then have wf: "well_formed s" "slot_ok s" by (simp_all add: stage_def)
  from thread_fact_effect(1) [OF wf(1) a assms] have "open_thread t = open_thread s"
    by (simp add: open_thread_cores fun_eq_iff)
  with lawful_append [OF wf assms a] append_well_formed [OF wf(1) a] s
  show "stage A t \<and> finished_kept s t" by (simp add: stage_def)
qed

lemma guided_start:
  assumes "tget (turns (proj s)) tid = None" and "active_turn s th = None"
  shows "guided A A s (append_fact th turn pr (TurnFact (TurnStarted tid parent idx b)) s)"
proof (rule guidedI)
  fix t
  assume s: "stage A s" and a: "append_fact th turn pr (TurnFact (TurnStarted tid parent idx b)) s = Inr t"
  then have wf: "well_formed s" "slot_ok s" by (simp_all add: stage_def)
  have law: "lawful s th (TurnFact (TurnStarted tid parent idx b))"
    using assms by (simp add: moved_to_def starts_turn_def)
  have "open_thread t k \<noteq> None" if "k \<in> A" for k
  proof -
    from that s have o: "open_thread s k \<noteq> None" by (simp add: stage_def)
    with assms(1) have "k \<noteq> tid" by (auto simp: open_thread_def)
    with moved_cores(2) [OF wf(1) a, of tid Running k] assms(1)
    have "turn_cores (proj t) k = turn_cores (proj s) k" by (simp add: moved_to_def)
    with o show ?thesis by (simp add: open_thread_cores)
  qed
  with lawful_append [OF wf law a] append_well_formed [OF wf(1) a]
  show "stage A t \<and> finished_kept s t" by (simp add: stage_def)
qed

text \<open>A guard that has read an open Turn puts it into the open set.\<close>

lemma guided_learn:
  assumes "open_thread s tid \<noteq> None" and "guided (insert tid A) B s r"
  shows "guided A B s r"
proof (rule guidedI)
  fix t
  assume "stage A s" and "r = Inr t"
  with assms(1) have "stage (insert tid A) s" by (simp add: stage_def)
  from guidedD [OF assms(2) this \<open>r = Inr t\<close>] show "stage B t \<and> finished_kept s t" .
qed

lemma guided_with_learn:
  assumes "open_thread s tid \<noteq> None" and "guided_with (insert tid A) B s r"
  shows "guided_with A B s r"
  using assms unfolding guided_with_def stage_def by blast

lemma guided_visit:
  assumes "open_thread s tid \<noteq> None" and "guided (insert tid A) (insert tid A) s r"
  shows "guided A A s r"
  using guided_learn [OF assms] by (auto simp: guided_def intro: stage_subset)

lemma read_open: "read_turn s tid = Inr tu \<Longrightarrow> open_turn (tu_status tu) \<Longrightarrow> open_thread s tid \<noteq> None"
  by (simp add: read_turn_def open_thread_def)

lemma running_open: "running_turn s tid = Inr tu \<Longrightarrow> open_thread s tid \<noteq> None"
  by (auto simp: running_turn_def read_turn_def open_thread_def open_turn_def split: if_splits)

lemma paused_open: "paused_turn s tid = Inr tu \<Longrightarrow> open_thread s tid \<noteq> None"
  by (auto simp: paused_turn_def read_turn_def open_thread_def open_turn_def split: if_splits)

lemma question_open: "pending_question s tid req kind = Inr x \<Longrightarrow> open_thread s tid \<noteq> None"
  by (auto simp: pending_question_def read_turn_def open_thread_def open_turn_def split: if_splits)

lemma guided_running:
  "(\<And>tu. guided (insert tid A) B s (k tu)) \<Longrightarrow> guided A B s (ebind (running_turn s tid) k)"
  by (rule guided_query, rule guided_learn) (auto dest: running_open)

lemma guided_paused:
  "(\<And>tu. guided (insert tid A) B s (k tu)) \<Longrightarrow> guided A B s (ebind (paused_turn s tid) k)"
  by (rule guided_query, rule guided_learn) (auto dest: paused_open)

lemma guided_question:
  "(\<And>tu i. guided (insert tid A) B s (k tu i)) \<Longrightarrow>
     guided A B s (ebind (pending_question s tid req kind) (\<lambda>(tu, i). k tu i))"
  by (rule guided_query, rule guided_learn) (auto dest: question_open split: prod.splits)

end
