(* ===== verification/Command_Order.thy ===== *)
theory Command_Order
  imports Orderly
begin

text \<open>
  The triple of every command that appends Turn or Thread facts. Three commands append a Turn fact
  without having read that the Turn is open (\<open>cancel_model_attempt\<close>, the unknown branch of
  \<open>commit_tool_operation_outcome\<close> and the uncertain branch of \<open>record_failure\<close>); theirs have that
  as a precondition. Commands that create a Thread or a Turn need its identity to be new.
\<close>

lemmas guided_control = guided_turn_facts guided_request guided_Inl guided_Inr guided_if guided_option guided_list
  guided_running guided_paused guided_question guided_chain guided_chain_Cons guided_then_return guided_with_bind
  guided_bind guided_with_bind_with guided_bind_with guided_query guided_prod
  guided_quiet guided_quiet_with guided_weaken

section \<open>Turns\<close>

lemma pause_turn_order: "guided {} {} s (pause_turn tid reason pr code revision s)"
  unfolding pause_turn_def by (rule guided_control insertI1)+

lemma interrupt_orphaned_turn_order: "guided {} {} s (interrupt_orphaned_turn tid reason confirmed s)"
  unfolding interrupt_orphaned_turn_def by (rule guided_control insertI1)+

lemma complete_turn_order: "guided {} {} s (complete_turn iid piid unint tid answer pr expected source s)"
  unfolding complete_turn_def by (rule guided_control insertI1 footprints quiet_groups)+

lemma fail_turn_order: "guided A {} s (fail_turn piid fresh tid reason message s)"
  unfolding fail_turn_def by (rule guided_control insertI1 footprints quiet_groups)+

lemma request_turn_cancellation_order: "guided A A s (request_turn_cancellation tid pr reason s)"
  unfolding request_turn_cancellation_def by (rule guided_control)+

lemma cancel_turn_order: "guided A {} s (cancel_turn fresh tid s)"
  unfolding cancel_turn_def
proof (rule guided_query)
  fix tu
  assume tu: "read_turn s tid = Inr tu"
  let ?r = "chain
       [chain (map (abort_interaction (tu_thread tu) tid) (pending_interactions s tid)),
        finish_active_jobs fresh tid ''cancelled'',
        append_fact (tu_thread tu) (Some tid) ''user'' (TurnFact (TurnCancelled tid None))] s"
  have quiet: "runs quiet_facts u (chain (map (abort_interaction th tid) is') u)" for th is' u
    by (rule run_control footprints quiet_groups)+
  have "guided A {} s ?r" if "tu_status tu \<in> {Paused, Interrupted}"
  proof (rule guided_learn)
    show "open_thread s tid \<noteq> None" by (rule read_open [OF tu]) (use that in \<open>auto simp: open_turn_def\<close>)
    show "guided (insert tid A) {} s ?r"
      by (rule guided_chain_Cons guided_chain guided_quiet quiet guided_turn_facts insertI1 footprints quiet_groups)+
  qed
  then show "guided A {} s (if tu_status tu \<notin> {Paused, Interrupted}
     then Inl (RuntimeError ''only a safely paused or interrupted Turn can be cancelled'')
     else if unsafe_tool s tid
     then Inl (RuntimeError ''cancel cannot discard a running or unknown tool operation'')
     else ?r)"
    by (simp add: guided_Inl)
qed

text \<open>Moving a Turn that the guards have just read as open.\<close>

lemma guided_read_facts:
  assumes "tget (turns (proj s)) tid = Some tu" and "open_turn (tu_status tu)"
  shows "guided A A s (append_fact th turn pr (TurnFact (TurnPaused tid code revision)) s)"
    and "guided A A s (append_fact th turn pr (TurnFact (TurnInterrupted tid)) s)"
    and "guided A A s (append_fact th turn pr (TurnFact (TurnResumed tid)) s)"
proof -
  have "open_thread s tid \<noteq> None" using assms by (simp add: open_thread_def)
  note v = guided_visit [OF this]
  show "guided A A s (append_fact th turn pr (TurnFact (TurnPaused tid code revision)) s)"
    and "guided A A s (append_fact th turn pr (TurnFact (TurnInterrupted tid)) s)"
    and "guided A A s (append_fact th turn pr (TurnFact (TurnResumed tid)) s)"
    by (rule v, rule guided_turn_facts, rule insertI1)+
qed

lemma resume_child_wait_order: "guided A A s (resume_child_wait tid s)"
proof (rule guidedI)
  fix t
  assume s: "stage A s" and r: "resume_child_wait tid s = Inr t"
  then obtain tu where tu: "tget (turns (proj s)) tid = Some tu" "tu_status tu = Paused"
    and a: "append_fact (tu_thread tu) (Some tid) ''runtime'' (TurnFact (TurnResumed tid)) s = Inr t"
    by (auto simp: resume_child_wait_def read_turn_def split: option.splits prod.splits if_splits)
  from guidedD [OF guided_read_facts(3) [OF tu(1)] s a] tu(2) show "stage A t \<and> finished_kept s t"
    by (simp add: open_turn_def)
qed

lemma resume_cancelled_turn_order: "guided A A s (resume_cancelled_turn tid s)"
proof (rule guidedI)
  fix t
  assume s: "stage A s" and r: "resume_cancelled_turn tid s = Inr t"
  then obtain tu where tu: "tget (turns (proj s)) tid = Some tu" "tu_status tu = Paused"
    and a: "append_fact (tu_thread tu) (Some tid) ''user'' (TurnFact (TurnResumed tid)) s = Inr t"
    by (auto simp: resume_cancelled_turn_def read_turn_def split: if_splits)
  from guidedD [OF guided_read_facts(3) [OF tu(1)] s a] tu(2) show "stage A t \<and> finished_kept s t"
    by (simp add: open_turn_def)
qed

lemma ask_user_order: "guided {} {} s (ask_user req tid pr kind body s)"
  unfolding ask_user_def by (rule guided_control insertI1 runs_claim runs_append quiet_groups)+

lemma request_clarification_order: "guided {} {} s (request_clarification req tid question s)"
  unfolding request_clarification_def by (rule guided_control ask_user_order)+

lemma request_choice_order: "guided {} {} s (request_choice req tid question options s)"
  unfolding request_choice_def by (rule guided_control ask_user_order)+

lemma answer_question_order: "guided (insert tid A) {} s (answer_question iid tu i tid response text s)"
  unfolding answer_question_def by (rule guided_control footprints runs_claim runs_append quiet_groups insertI1)+

lemma resolve_clarification_order: "guided {} {} s (resolve_clarification iid errs tid req response s)"
  unfolding resolve_clarification_def by (rule answer_question_order guided_control insertI1)+

lemma resolve_choice_order: "guided {} {} s (resolve_choice iid errs tid req selection s)"
  unfolding resolve_choice_def by (rule answer_question_order guided_control insertI1)+

section \<open>Model operations\<close>

lemma interrupt_if_running_order: "guided A A s (interrupt_if_running m pr s)"
  unfolding interrupt_if_running_def model_fact_by_def
  by (rule guided_option guided_if guided_Inr guided_read_facts | assumption | simp add: open_turn_def)+


lemma expire_model_attempt_dispatch_order: "guided A A s (expire_model_attempt_dispatch op now s)"
  unfolding expire_model_attempt_dispatch_def model_fact_by_def attempt_outcome_def
  by (rule interrupt_if_running_order guided_control footprints runs_claim runs_append quiet_groups)+

lemma mark_model_attempt_unknown_order: "guided A A s (mark_model_attempt_unknown op att gen etype emsg outputs s)"
  unfolding mark_model_attempt_unknown_def model_fact_by_def attempt_outcome_def
  by (rule interrupt_if_running_order guided_control footprints runs_claim runs_append quiet_groups)+

text \<open>The commands that do not read the Turn get it as a hypothesis.\<close>

definition target_open :: "store \<Rightarrow> string \<Rightarrow> bool" where
  "target_open s op \<longleftrightarrow> (\<forall>m. read_model_operation s op = Inr m \<longrightarrow> open_thread s (mo_turn m) \<noteq> None)"

lemma cancel_model_attempt_order:
  assumes "target_open s op"
  shows "guided A {} s (cancel_model_attempt op att gen reason outputs s)"
  unfolding cancel_model_attempt_def
proof (intro guided_if guided_Inl guided_query)
  fix m
  assume "read_model_operation s op = Inr m"
  with assms have "open_thread s (mo_turn m) \<noteq> None" by (simp add: target_open_def)
  then show "guided A {} s (chain
      [model_fact_by m ''runtime'' (ModelFact (ModelAttemptCancelled op att)),
       attempt_outcome m att OutUnknown ''runtime'',
       close_model_outputs att ''cancelled'' (take 2000 (strip reason)) outputs,
       model_fact_by m ''runtime'' (TurnFact (TurnCancelled (mo_turn m) None))] s)"
    unfolding model_fact_by_def attempt_outcome_def
    by (rule guided_learn) (rule guided_control footprints runs_claim runs_append quiet_groups insertI1)+
qed


lemma guided_resume_read: "guided A A s (case tget (turns (proj s)) tid of
     None \<Rightarrow> Inl e
   | Some tu \<Rightarrow> if automatic
       then (if tu_status tu \<noteq> Running then Inl e1 else Inr s)
       else if tu_status tu \<notin> {Paused, Interrupted} then Inl e2
       else append_fact th (Some tid) pr (TurnFact (TurnResumed tid)) s)"
proof (cases "tget (turns (proj s)) tid")
  case (Some tu)
  then show ?thesis using guided_read_facts(3) [OF Some]
    by (auto intro!: guided_Inl guided_Inr simp: open_turn_def)
qed (simp add: guided_Inl)

lemma prepare_model_retry_order: "guided A A s (prepare_model_retry errs att op automatic now s)"
  unfolding prepare_model_retry_def model_fact_by_def
  by (rule guided_resume_read guided_control footprints runs_claim runs_append quiet_groups)+

lemma after_failure_order: "guided_with (insert (mo_turn m) A) {} s (after_failure piid fresh m f now jitter s)"
  unfolding after_failure_def run_units Let_def
  by (rule guided_with_weaken fail_turn_order guided_control footprints runs_claim runs_append quiet_groups insertI1)+


lemma failure_prefix_runs:
  "model_facts \<subseteq> G \<Longrightarrow> budget_facts \<subseteq> G \<Longrightarrow> item_facts \<subseteq> G \<Longrightarrow> runs G s (chain
     [model_fact_by m ''runtime'' (failure_fact op att f), attempt_outcome m att out ''runtime'',
      close_model_outputs att kind text outputs] s)"
  unfolding run_units by (rule footprints run_control | assumption)+

lemma record_failure_order:
  assumes "target_open s op"
  shows "guided_with A {} s (record_failure piid fresh op att gen f outputs now jitter s)"
  unfolding record_failure_def
proof (rule guided_query)
  fix m
  assume "read_model_operation s op = Inr m"
  with assms have o: "open_thread s (mo_turn m) \<noteq> None" by (simp add: target_open_def)
  let ?pre = "chain
     [model_fact_by m ''runtime'' (failure_fact op att f),
      attempt_outcome m att (failure_budget f) ''runtime'',
      close_model_outputs att (if uncertain_failure f then ''outcome_unknown'' else ''failed'')
        (failure_message (fl_kind f)) outputs] s"
  have pre: "guided (insert (mo_turn m) A) (insert (mo_turn m) A) s ?pre"
    by (rule guided_quiet [OF failure_prefix_runs [OF quiet_groups(2,3,6)]])
  have "guided_with (insert (mo_turn m) A) {} s
      (ebind ?pre (\<lambda>s. after_failure piid fresh m f now jitter s))"
    by (rule guided_bind_with [OF pre after_failure_order])
  from guided_with_learn [OF o this]
  have "guided_with A {} s (ebind ?pre (\<lambda>s. after_failure piid fresh m f now jitter s))" .
  then show "guided_with A {} s (if \<not> attempt_is_active att gen m
      then Inl (RuntimeError ''only the active dispatched model attempt can fail'')
      else ebind ?pre (\<lambda>s. after_failure piid fresh m f now jitter s))"
    by (rule guided_if(2) [OF guided_Inl(2)])
qed

lemma guided_transfer: "guided A A s ((case job of
       JNull \<Rightarrow> Inr
     | JStr j \<Rightarrow> transfer_for_attempt f1 f2 tid j amount purpose
     | _ \<Rightarrow> (\<lambda>_. Inl e)) s)"
  by (cases job) (simp_all add: guided_Inl guided_Inr guided_quiet [OF transfer_for_attempt_runs [OF quiet_groups(3,6)]])

lemma prepare_scheduled_retry_order:
  "guided A A s (prepare_scheduled_retry source_hash errs fresh att op request now s)"
  unfolding prepare_scheduled_retry_def Let_def run_units
  by (rule prepare_model_retry_order guided_transfer guided_control footprints runs_claim runs_append quiet_groups)+

lemma guided_interrupt_read: "guided A A s (ebind (read_turn s tid) (\<lambda>tu. if tu_status tu = Running
     then append_fact th (Some tid) pr (TurnFact (TurnInterrupted tid)) s else Inr s))"
proof (cases "tget (turns (proj s)) tid")
  case (Some tu)
  then show ?thesis using guided_read_facts(2) [OF Some]
    by (auto intro!: guided_Inl guided_Inr simp: open_turn_def read_turn_def)
qed (simp add: guided_Inl read_turn_def)

lemma cancel_scheduled_retry_order:
  "guided A A s (cancel_scheduled_retry fresh op code False s)"
  "guided A {} s (cancel_scheduled_retry fresh op code True s)"
  unfolding cancel_scheduled_retry_def run_units if_True if_False append.simps append_Nil2
  by (rule guided_interrupt_read cancel_turn_order guided_control footprints runs_claim runs_append quiet_groups)+


lemma fail_unstarted_retry_order: "guided A {} s (fail_unstarted_retry piid fresh op code message s)"
  unfolding fail_unstarted_retry_def
  by (rule cancel_scheduled_retry_order fail_turn_order guided_control)+

lemma guided_resume_stopped: "guided A A s (ebind (read_turn s tid) (\<lambda>tu. if tu_status tu \<in> {Paused, Interrupted}
     then append_fact th (Some tid) pr (TurnFact (TurnResumed tid)) s else Inr s))"
proof (cases "tget (turns (proj s)) tid")
  case (Some tu)
  then show ?thesis using guided_read_facts(3) [OF Some]
    by (auto intro!: guided_Inl guided_Inr simp: open_turn_def read_turn_def)
qed (simp add: guided_Inl read_turn_def)

lemma abandon_saved_summary_order: "guided A A s (abandon_saved_summary iid fresh tid op s)"
  unfolding abandon_saved_summary_def
  by (rule guided_resume_stopped cancel_scheduled_retry_order guided_control footprints runs_claim runs_append quiet_groups)+

section \<open>Tool operations\<close>

lemma pause_if_running_order: "guided A A s (pause_if_running x pr s)"
  unfolding pause_if_running_def pause_tool_turn_def tool_fact_by_def
  by (rule guided_option guided_if guided_Inr guided_read_facts | assumption | simp add: open_turn_def)+

lemma expire_tool_operation_claim_order: "guided A A s (expire_tool_operation_claim req op now s)"
  unfolding expire_tool_operation_claim_def ask_reconciliation_def run_units
  by (rule pause_if_running_order guided_control footprints runs_claim runs_append quiet_groups)+

lemma mark_tool_result_missing_order: "guided {} {} s (mark_tool_result_missing req op s)"
  unfolding mark_tool_result_missing_def
proof (intro guided_query guided_if guided_Inl)
  fix x :: tool_op_row
  assume "\<not> (case tget (turns (proj s)) (to_turn x) of None \<Rightarrow> True | Some tu \<Rightarrow> tu_status tu \<noteq> Running)"
  then have "open_thread s (to_turn x) \<noteq> None"
    by (auto simp: open_thread_def open_turn_def split: option.splits)
  then show "guided {} {} s (chain
     [tool_fact_by x ''recovery'' (ToolFact (ToolResultMissing op)),
      ask_reconciliation x ''recovery'' req (JObj
        [(''committed_execution_status'', JStr (tool_status_name (to_status x))),
         (''idempotent'', JBool (to_idempotent x)),
         (''reason'', JStr ''tool execution outcome committed but ToolResult is missing'')]),
      pause_tool_turn x ''recovery''] s)"
    unfolding ask_reconciliation_def pause_tool_turn_def run_units
    by (rule guided_learn) (rule guided_control footprints runs_claim runs_append quiet_groups insertI1)+
qed

definition tool_target_open :: "store \<Rightarrow> string \<Rightarrow> bool" where
  "tool_target_open s op \<longleftrightarrow> (\<forall>x. read_tool_operation s op = Inr x \<longrightarrow> open_thread s (to_turn x) \<noteq> None)"

lemma commit_tool_operation_outcome_order:
  assumes "tool_target_open s op"
  shows "guided_with A {} s (commit_tool_operation_outcome req op gen fence v s)"
  unfolding commit_tool_operation_outcome_def
proof (rule guided_if(2) [OF guided_Inl(2) guided_if(2) [OF guided_Inl(2) guided_query(2)]])
  fix x
  assume "read_tool_operation s op = Inr x"
  with assms have o: "open_thread s (to_turn x) \<noteq> None" by (simp add: tool_target_open_def)
  have "guided_with A {} s (ebind (chain
     (tool_fact_by x ''runtime'' (ToolFact (ToolOutcomeCommitted op (or_status v) (or_attempts v)
        (or_error v) (or_reconcile v) (or_duration v)))
      # (if or_status v = TUnknown
         then [ask_reconciliation x ''runtime'' req (unknown_request x gen v), pause_tool_turn x ''runtime'']
         else [])) s) (\<lambda>s. Inr (True, s)))"
    unfolding ask_reconciliation_def pause_tool_turn_def run_units
    by (rule guided_with_learn [OF o], rule guided_then_return, cases "or_status v = TUnknown"; simp only: simp_thms if_True if_False;
      (rule guided_control footprints runs_claim runs_append quiet_groups insertI1)+)
  with guided_Inr(4) show "guided_with A {} s (if \<not> current_claim x gen fence then Inr (False, s)
     else ebind (chain
       (tool_fact_by x ''runtime'' (ToolFact (ToolOutcomeCommitted op (or_status v) (or_attempts v)
          (or_error v) (or_reconcile v) (or_duration v)))
        # (if or_status v = TUnknown
           then [ask_reconciliation x ''runtime'' req (unknown_request x gen v), pause_tool_turn x ''runtime'']
           else [])) s) (\<lambda>s. Inr (True, s)))" by (rule guided_if(2))
qed


lemma guided_with_seq:
  assumes "guided_with A B s m" and "\<And>x t. guided_with B C t (k x t)"
  shows "guided_with A C s (ebind m (\<lambda>(x, t). k x t))"
  unfolding guided_with_def
proof (intro impI allI)
  fix y u
  assume s: "stage A s" and "ebind m (\<lambda>(x, t). k x t) = Inr (y, u)"
  then obtain x t where m: "m = Inr (x, t)" and k: "k x t = Inr (y, u)" by auto
  from guided_withD [OF assms(1) s m] guided_withD [OF assms(2) _ k] show "stage C u \<and> finished_kept s u"
    by (auto intro: finished_kept_trans)
qed

lemma commit_tool_operation_result_order:
  assumes "tool_target_open s op"
  shows "guided_with A {} s (commit_tool_operation_result blob_error shown iid piid req tid op gen fence v payload s)"
  unfolding commit_tool_operation_result_def
  by (rule guided_with_seq [OF commit_tool_operation_outcome_order [OF assms]])
    (rule guided_control footprints quiet_groups)+

lemma resolve_tool_reconciliation_order:
  "guided {} {} s (resolve_tool_reconciliation errs iid tid status v revision s)"
  unfolding resolve_tool_reconciliation_def
  by (rule guided_control footprints runs_claim runs_append quiet_groups insertI1)+

lemma resolve_tool_approval_order: "guided {} {} s (resolve_tool_approval errs tid decision recheck s)"
  unfolding resolve_tool_approval_def
  by (rule guided_control footprints runs_claim runs_append quiet_groups insertI1)+

lemma invalidate_tool_approval_order: "guided A A s (invalidate_tool_approval tid reason s)"
  by (rule guided_quiet) (rule footprints quiet_groups)+

lemma refresh_tool_approval_order: "guided A A s (refresh_tool_approval req tid body s)"
proof (rule guidedI)
  fix t
  assume s: "stage A s" and r: "refresh_tool_approval req tid body s = Inr t"
  then obtain tu i where tu: "read_turn s tid = Inr tu" "tu_status tu \<in> {Paused, Running}"
    and run: "chain
       [retire_approval (tu_thread tu) tid i,
        ask_approval (tu_thread tu) tid req (in_op i) body,
        await_approval (tu_thread tu) tid req (in_op i),
        (if tu_status tu = Running
         then append_fact (tu_thread tu) (Some tid) ''runtime'' (TurnFact (TurnPaused tid None None))
         else Inr)] s = Inr t" (is "?r = _")
    by (auto simp: refresh_tool_approval_def simp del: chain.simps split: list.splits if_splits)
  have "guided A A s ?r"
  proof (rule guided_visit)
    show "open_thread s tid \<noteq> None" by (rule read_open [OF tu(1)]) (use tu(2) in \<open>auto simp: open_turn_def\<close>)
    show "guided (insert tid A) (insert tid A) s ?r"
      by (rule guided_control footprints runs_claim runs_append quiet_groups insertI1)+
  qed
  from guidedD [OF this s run] show "stage A t \<and> finished_kept s t" .
qed


lemma invalidate_resolved_tool_approval_order: "guided A A s (invalidate_resolved_tool_approval tid reason s)"
proof (rule guidedI)
  fix t
  assume s: "stage A s" and r: "invalidate_resolved_tool_approval tid reason s = Inr t"
  then obtain tu op and i :: interaction_row where tu: "read_turn s tid = Inr tu" "tu_status tu = Running"
    and run: "chain
       [append_fact (tu_thread tu) (Some tid) ''runtime'' (InteractionFact (ApprovalInvalidated (in_id i))),
        append_fact (tu_thread tu) (Some tid) ''runtime'' (ToolFact (ToolSuperseded op)),
        append_fact (tu_thread tu) (Some tid) ''recovery'' (TurnFact (TurnPaused tid None None))] s = Inr t"
      (is "?r = _")
    by (auto simp: invalidate_resolved_tool_approval_def simp del: chain.simps split: option.splits if_splits)
  have "guided A A s ?r"
  proof (rule guided_visit)
    show "open_thread s tid \<noteq> None" by (rule read_open [OF tu(1)]) (simp add: tu(2) open_turn_def)
    show "guided (insert tid A) (insert tid A) s ?r"
      by (rule guided_control footprints runs_claim runs_append quiet_groups insertI1)+
  qed
  from guidedD [OF this s run] show "stage A t \<and> finished_kept s t" .
qed

lemma request_tool_approval_order: "guided {} {} s (request_tool_approval req tid sp body s)"
  unfolding request_tool_approval_def
  by ((rule guided_quiet, erule (1) prepare_runs, rule quiet_groups)
      | rule guided_control footprints runs_claim runs_append quiet_groups insertI1)+

section \<open>New Threads and Turns\<close>

definition new_thread_id :: "store \<Rightarrow> string \<Rightarrow> bool" where
  "new_thread_id s th \<longleftrightarrow> tget (threads (proj s)) th = None"

definition new_turn_id :: "store \<Rightarrow> string \<Rightarrow> bool" where
  "new_turn_id s tid \<longleftrightarrow> tget (turns (proj s)) tid = None"

lemma create_thread_order:
  assumes "new_thread_id s (case given of None \<Rightarrow> fresh | Some t \<Rightarrow> t)"
  shows "guided A A s (create_thread is_dir fresh workspace given s)"
  unfolding create_thread_def
  by (intro guided_if guided_Inl guided_thread_fact) (use assms in \<open>simp add: new_thread_id_def\<close>)

lemma fork_thread_order: "new_thread_id s fresh \<Longrightarrow> guided A A s (fork_thread fresh from_turn s)"
  unfolding fork_thread_def
  by (intro guided_query guided_if guided_Inl guided_thread_fact) (simp add: new_thread_id_def)

lemma update_session_settings_order: "guided A A s (update_session_settings th settings expected s)"
  unfolding update_session_settings_def
  by (intro guided_query guided_if guided_Inl guided_thread_fact) simp

lemma start_turn_order:
  assumes "new_turn_id s (case given of None \<Rightarrow> fresh | Some t \<Rightarrow> t)"
  shows "guided A A s (start_turn fresh iid th message binding files given producer s)"
  unfolding start_turn_def Let_def
proof (intro guided_query guided_if guided_Inl)
  fix h
  assume "read_thread s th = Inr h" and "\<not> th_active h \<noteq> None"
  then have "active_turn s th = None"
    by (auto simp: read_thread_def active_turn_def)
  with assms show "guided A A s (chain
     [append_fact th (Some (case given of None \<Rightarrow> fresh | Some t \<Rightarrow> t)) producer
        (TurnFact (TurnStarted (case given of None \<Rightarrow> fresh | Some t \<Rightarrow> t) (th_head h) (next_turn_index s th) binding)),
      commit_item th (case given of None \<Rightarrow> fresh | Some t \<Rightarrow> t) ''user'' iid ''user_message'' (JObj [])
        (JObj [(''text'', JStr message)]),
      commit_files th (case given of None \<Rightarrow> fresh | Some t \<Rightarrow> t) files] s)"
    by (intro guided_chain_Cons guided_start) (unfold new_turn_id_def,
      (assumption | rule guided_chain guided_quiet footprints quiet_groups)+)
qed

lemma new_turn_id_kept:
  assumes "well_formed s" and "append_fact th turn pr f s = Inr t" and "f \<in> - turn_facts" and "new_turn_id s tid"
  shows "new_turn_id t tid"
proof -
  have "projection_ok (proj s)" using assms(1) by (simp add: well_formed_def)
  from any_append_turns [OF this assms(2)] assms(3) have "turn_cores (proj t) = turn_cores (proj s)" by blast
  from fun_cong [OF this, of tid] assms(4) show ?thesis by (simp add: turn_cores_def new_turn_id_def split: option.splits)
qed


lemma create_thread_keeps_turns:
  assumes "well_formed s" and "create_thread is_dir fresh workspace given s = Inr t"
  shows "new_turn_id t tid = new_turn_id s tid" and "well_formed t"
proof -
  from assms(2) obtain th where a: "append_fact th None ''runtime'' (ThreadFact (ThreadCreated workspace)) s = Inr t"
    by (auto simp: create_thread_def split: if_splits)
  have "projection_ok (proj s)" using assms(1) by (simp add: well_formed_def)
  from any_append_turns [OF this a] have "turn_cores (proj t) tid = turn_cores (proj s) tid" by simp
  then show "new_turn_id t tid = new_turn_id s tid"
    by (cases "tget (turns (proj s)) tid") (auto simp: turn_cores_def new_turn_id_def)
  show "well_formed t" by (rule append_well_formed [OF assms(1) a])
qed

lemma start_budgeted_child_turn_order:
  assumes "new_thread_id s child_thread" and "new_turn_id s child"
  shows "guided A A s (start_budgeted_child_turn is_dir iid parent child_thread child message binding tokens cost ws s)"
proof (rule guidedI)
  fix t
  assume s: "stage A s"
    and r: "start_budgeted_child_turn is_dir iid parent child_thread child message binding tokens cost ws s = Inr t"
  then have wf: "well_formed s" by (simp add: stage_def)
  from r obtain w s1 f s2 b where c: "create_thread is_dir [] w (Some child_thread) s = Inr s1"
    and a: "append_fact child_thread None ''runtime'' (BudgetFact f) s1 = Inr s2"
    and st: "start_turn [] iid child_thread message b [] (Some child) ''runtime'' s2 = Inr t"
    by (auto simp: start_budgeted_child_turn_def split: if_splits prod.splits)
  have 1: "stage A s1 \<and> finished_kept s s1"
    by (rule guidedD [OF create_thread_order s c]) (use assms(1) in simp)
  then have 2: "stage A s2 \<and> finished_kept s1 s2"
    by (intro guidedD [OF guided_quiet [OF runs_append(5) [OF quiet_groups(3)]] _ a]) simp
  have "new_turn_id s1 child" using create_thread_keeps_turns(1) [OF wf c] assms(2) by simp
  from new_turn_id_kept [OF create_thread_keeps_turns(2) [OF wf c] a _ this] have "new_turn_id s2 child" by auto
  then have "stage A t \<and> finished_kept s2 t"
    using 2 by (intro guidedD [OF start_turn_order _ st]) simp_all
  with 1 2 show "stage A t \<and> finished_kept s t" by (meson finished_kept_trans)
qed

lemma admit_thread_order: "guided A A s (admit_thread is_dir workspace kind th s)"
  unfolding admit_thread_def
  by (intro guided_option guided_if guided_Inl guided_Inr create_thread_order) (simp add: new_thread_id_def)

lemma receive_command_order:
  "guided A A s (receive_command sha name_hash is_origin database is_dir resolve uid workspace kind payload cid thid tid s)"
  unfolding receive_command_def Let_def
  by (rule admit_thread_order guided_control footprints runs_claim runs_append quiet_groups)+

end
