(* ===== verification/Exclusivity.thy ===== *)
theory Exclusivity
  imports Command_Footprints
begin

text \<open>
  Two exclusion properties of the store. Tool operations that run at the same time never claim
  conflicting resources, whatever Turns and Threads they belong to. And each Thread has at most one
  claimed driver command, so that one host at a time drives it. Both hold after every command:
  all but the claiming ones append only facts that keep them.
\<close>

section \<open>Running tool operations\<close>

definition exclusive_tools :: "store \<Rightarrow> bool" where
  "exclusive_tools s \<longleftrightarrow> (\<forall>j k x y. tget (tool_operations (proj s)) j = Some x \<and> tget (tool_operations (proj s)) k = Some y
     \<and> j \<noteq> k \<and> to_status x = TRunning \<and> to_status y = TRunning
     \<longrightarrow> \<not> resource_sets_conflict (to_resources x) (to_resources y))"

lemma slice_tool:
  "tget (tool_operations (load_slice p r)) k = Some x \<Longrightarrow> tget (tool_operations p) k = Some x"
  using slice_parts(8) [of p r] by (auto simp: part_of_def)

lemma tool_rows_after:
  assumes "well_formed s" and "append_fact th turn pr (ToolFact f) s = Inr t"
  obtains r s' where "apply_record (load_slice (proj s) r) r = Inr s'" and "rr_fact r = ToolFact f"
    and "\<And>k. tget (tool_operations (proj t)) k = (case tget (tool_operations s') k of
        None \<Rightarrow> tget (tool_operations (proj s)) k
      | Some row \<Rightarrow> if to_seq row = rr_seq r
          then Some (case tget (tool_operations (proj s)) k of None \<Rightarrow> row | Some old \<Rightarrow> merge_tool_op old row)
          else tget (tool_operations (proj s)) k)"
proof -
  from assms(2) obtain r s' where r: "apply_record (load_slice (proj s) r) r = Inr s'"
    "proj t = persist_slice (rr_seq r) s' (proj s)" "rr_fact r = ToolFact f"
    by (rule append_shape) auto
  from assms(1) have "projection_ok (proj s)" by (simp add: well_formed_def)
  from projection_ok_apply_record [OF projection_ok_slice [OF this] r(1)]
  have "distinct (tkeys (tool_operations s'))" by (simp add: projection_ok_def table_ok_def)
  from tget_persist_rows [OF this] r that show thesis by (auto simp: persist_slice_tables)
qed

lemmas tool_step_defs = apply_record_def apply_fact_def supported_version_def turn_of_def move_tool_def
  put_tool_op_def mod_tool_op_def tmod_eq_Inr tool_outcome_def tool_unknown_def advance_def touch_thread_def
  new_tool_op_def mod_thread_def mod_turn_def merge_tool_op_def

text \<open>An idle fact makes nothing running; a claim makes its own operation running.\<close>

lemma idle_append:
  assumes "well_formed s" and "append_fact th turn pr (ToolFact f) s = Inr t" and "idle_tool f"
    and "tget (tool_operations (proj t)) k = Some y" and "to_status y = TRunning"
  shows "\<exists>x. tget (tool_operations (proj s)) k = Some x \<and> to_status x = TRunning \<and> to_resources x = to_resources y"
proof -
  from assms(1,2) obtain r s' where r: "apply_record (load_slice (proj s) r) r = Inr s'" "rr_fact r = ToolFact f"
    and rows: "\<And>k. tget (tool_operations (proj t)) k = (case tget (tool_operations s') k of
        None \<Rightarrow> tget (tool_operations (proj s)) k
      | Some row \<Rightarrow> if to_seq row = rr_seq r
          then Some (case tget (tool_operations (proj s)) k of None \<Rightarrow> row | Some old \<Rightarrow> merge_tool_op old row)
          else tget (tool_operations (proj s)) k)"
    by (rule tool_rows_after) blast
  show ?thesis
    using assms(3-5) r rows [of k]
    by (cases f) (auto simp: tool_step_defs split: if_splits option.splits dest!: slice_tool)
qed

lemma claim_append:
  assumes "well_formed s" and "append_fact th turn pr (ToolFact (ToolClaimed op gen fence w l n)) s = Inr t"
    and "tget (tool_operations (proj t)) k = Some y" and "to_status y = TRunning"
  shows "\<exists>x. tget (tool_operations (proj s)) k = Some x \<and> to_resources x = to_resources y \<and> (k = op \<or> to_status x = TRunning)"
proof -
  from assms(1,2) obtain r s' where r: "apply_record (load_slice (proj s) r) r = Inr s'"
    "rr_fact r = ToolFact (ToolClaimed op gen fence w l n)"
    and rows: "\<And>k. tget (tool_operations (proj t)) k = (case tget (tool_operations s') k of
        None \<Rightarrow> tget (tool_operations (proj s)) k
      | Some row \<Rightarrow> if to_seq row = rr_seq r
          then Some (case tget (tool_operations (proj s)) k of None \<Rightarrow> row | Some old \<Rightarrow> merge_tool_op old row)
          else tget (tool_operations (proj s)) k)"
    by (rule tool_rows_after) blast
  show ?thesis
    using assms(3,4) r rows [of k]
    by (auto simp: tool_step_defs split: if_splits option.splits dest!: slice_tool)
qed

text \<open>Commands of an idle footprint keep the exclusion.\<close>

abbreviation "idle_facts \<equiv> - tool_facts \<union> idle_tools"

definition tools_apart :: "store \<Rightarrow> bool" where
  "tools_apart s \<longleftrightarrow> well_formed s \<and> exclusive_tools s"

interpretation idle: kept_by idle_facts tools_apart
proof
  fix f th turn pr s t
  assume f: "f \<in> idle_facts" and a: "append_fact th turn pr f s = Inr t" and s: "tools_apart s"
  then have wf: "well_formed s" "exclusive_tools s" by (simp_all add: tools_apart_def)
  have "exclusive_tools t"
  proof (cases "f \<in> tool_facts")
    case False
    then have "tool_operations (proj t) = tool_operations (proj s)" by (intro any_append_tools [OF a]) auto
    with wf(2) show ?thesis by (simp add: exclusive_tools_def)
  next
    case True
    with f obtain g where g: "f = ToolFact g" "idle_tool g" by auto
    note old = idle_append [OF wf(1) a [unfolded g(1)] g(2)]
    show ?thesis
      unfolding exclusive_tools_def
    proof (intro allI impI, elim conjE)
      fix j k x y
      assume "tget (tool_operations (proj t)) j = Some x" "tget (tool_operations (proj t)) k = Some y"
        "j \<noteq> k" "to_status x = TRunning" "to_status y = TRunning"
      with old [of j x] old [of k y] wf(2) show "\<not> resource_sets_conflict (to_resources x) (to_resources y)"
        unfolding exclusive_tools_def by metis
    qed
  qed
  with append_well_formed [OF wf(1) a] show "tools_apart t" by (simp add: tools_apart_def)
qed

lemma idle_groups:
  "thread_facts \<subseteq> idle_facts" "host_facts \<subseteq> idle_facts" "turn_facts \<subseteq> idle_facts" "model_facts \<subseteq> idle_facts"
  "budget_facts \<subseteq> idle_facts" "idle_tools \<subseteq> idle_facts" "interaction_facts \<subseteq> idle_facts"
  "item_facts \<subseteq> idle_facts" "execution_facts \<subseteq> idle_facts"
  by auto

lemma tget_trows: "tget t k = Some y \<Longrightarrow> y \<in> set (trows t)"
  by (auto simp: tget_def trows_def dest: map_of_SomeD intro!: image_eqI [where x = "(k, y)"])

lemma claim_conflict_None:
  assumes "well_formed s" and "claim_conflict s x = None" and "tget (tool_operations (proj s)) k = Some y"
    and "active_tool y" and "k \<noteq> to_id x"
  shows "\<not> resource_sets_conflict (to_resources x) (to_resources y)"
proof -
  from assms(1,3) have "to_id y = k"
    by (auto simp: well_formed_def projection_ok_def intro: table_ok_ident)
  with assms(2-5) tget_trows [OF assms(3)] show ?thesis
    by (auto simp: claim_conflict_def find_None_iff select_rows_def)
qed

lemma claim_keeps_tools_apart:
  assumes "tools_apart s" and "claim_tool_operation errs fence op w lease now s = Inr t"
  shows "tools_apart t"
proof -
  from assms(1) have wf: "well_formed s" "exclusive_tools s" by (simp_all add: tools_apart_def)
  from assms(2) obtain x where x: "tget (tool_operations (proj s)) op = Some x" and free: "claim_conflict s x = None"
    and a: "append_fact (to_thread x) (Some (to_turn x)) ''runtime''
      (ToolFact (ToolClaimed op (to_generation x + 1) fence w (now + lease) (to_attempts x + 1))) s = Inr t"
    by (auto simp: claim_tool_operation_def read_tool_operation_def tool_fact_by_def require_def
        split: if_splits option.splits)
  have "to_id x = op"
    using wf(1) x by (auto simp: well_formed_def projection_ok_def intro: table_ok_ident)
  note alone = claim_conflict_None [OF wf(1) free, unfolded this]
  note old = claim_append [OF wf(1) a]
  have "exclusive_tools t"
    unfolding exclusive_tools_def
  proof (intro allI impI, elim conjE)
    fix j k y z
    assume j: "tget (tool_operations (proj t)) j = Some y" "to_status y = TRunning"
      and k: "tget (tool_operations (proj t)) k = Some z" "to_status z = TRunning" and "j \<noteq> k"
    from old [OF j] obtain y' where y': "tget (tool_operations (proj s)) j = Some y'" "to_resources y' = to_resources y"
      "j = op \<or> to_status y' = TRunning" by blast
    from old [OF k] obtain z' where z': "tget (tool_operations (proj s)) k = Some z'" "to_resources z' = to_resources z"
      "k = op \<or> to_status z' = TRunning" by blast
    consider "j = op" "k \<noteq> op" | "k = op" "j \<noteq> op" | "j \<noteq> op" "k \<noteq> op" using \<open>j \<noteq> k\<close> by blast
    then show "\<not> resource_sets_conflict (to_resources y) (to_resources z)"
    proof cases
      case 1
      with alone [OF z'(1)] z' y' x show ?thesis by (auto simp: active_tool_def)
    next
      case 2
      with alone [OF y'(1)] z' y' x show ?thesis
        by (auto simp: active_tool_def resource_sets_conflict_commute)
    next
      case 3
      with y' z' wf(2) \<open>j \<noteq> k\<close> show ?thesis unfolding exclusive_tools_def by metis
    qed
  qed
  with append_well_formed [OF wf(1) a] show ?thesis by (simp add: tools_apart_def)
qed


section \<open>Claimed driver commands\<close>

definition driver :: "host_command_row \<Rightarrow> bool" where
  "driver c \<longleftrightarrow> hc_kind c \<in> set driver_kinds \<and> hc_status c = CmdClaimed"

definition exclusive_drivers :: "store \<Rightarrow> bool" where
  "exclusive_drivers s \<longleftrightarrow> (\<forall>j k x y. tget (host_commands (proj s)) j = Some x \<and> tget (host_commands (proj s)) k = Some y
     \<and> j \<noteq> k \<and> driver x \<and> driver y \<longrightarrow> hc_thread x \<noteq> hc_thread y)"

lemma slice_command:
  "tget (host_commands (load_slice p r)) k = Some x \<Longrightarrow> tget (host_commands p) k = Some x"
  using slice_parts(12) [of p r] by (auto simp: part_of_def)

lemma command_rows_after:
  assumes "well_formed s" and "append_fact th turn pr (HostFact f) s = Inr t"
  obtains r s' where "apply_record (load_slice (proj s) r) r = Inr s'" and "rr_fact r = HostFact f"
    and "\<And>k. tget (host_commands (proj t)) k = (case tget (host_commands s') k of
        None \<Rightarrow> tget (host_commands (proj s)) k
      | Some row \<Rightarrow> if hc_seq row = rr_seq r
          then Some (case tget (host_commands (proj s)) k of None \<Rightarrow> row | Some old \<Rightarrow> merge_command old row)
          else tget (host_commands (proj s)) k)"
proof -
  from assms(2) obtain r s' where r: "apply_record (load_slice (proj s) r) r = Inr s'"
    "proj t = persist_slice (rr_seq r) s' (proj s)" "rr_fact r = HostFact f"
    by (rule append_shape) auto
  from assms(1) have "projection_ok (proj s)" by (simp add: well_formed_def)
  from projection_ok_apply_record [OF projection_ok_slice [OF this] r(1)]
  have "distinct (tkeys (host_commands s'))" by (simp add: projection_ok_def table_ok_def)
  from tget_persist_rows [OF this] r that show thesis by (auto simp: persist_slice_tables)
qed

lemmas host_step_defs = apply_record_def apply_fact_def supported_version_def mod_command_def tmod_eq_Inr put_command_def
  touch_thread_def mod_thread_def claim_command_def close_command_def merge_command_def

text \<open>Where a claimed command comes from: it was claimed before, or this fact claims it.\<close>

definition was_claimed :: "store \<Rightarrow> string \<Rightarrow> host_command_row \<Rightarrow> bool" where
  "was_claimed s k y \<longleftrightarrow> (\<exists>x. tget (host_commands (proj s)) k = Some x \<and> hc_kind x = hc_kind y
     \<and> hc_thread x = hc_thread y \<and> hc_status x = CmdClaimed)"

lemma idle_host_append:
  assumes "well_formed s" and "append_fact th turn pr (HostFact f) s = Inr t" and "idle_host f"
    and "tget (host_commands (proj t)) k = Some y" and "hc_status y = CmdClaimed"
  shows "was_claimed s k y"
proof -
  from assms(1,2) obtain r s' where r: "apply_record (load_slice (proj s) r) r = Inr s'" "rr_fact r = HostFact f"
    and rows: "\<And>k. tget (host_commands (proj t)) k = (case tget (host_commands s') k of
        None \<Rightarrow> tget (host_commands (proj s)) k
      | Some row \<Rightarrow> if hc_seq row = rr_seq r
          then Some (case tget (host_commands (proj s)) k of None \<Rightarrow> row | Some old \<Rightarrow> merge_command old row)
          else tget (host_commands (proj s)) k)"
    by (rule command_rows_after) blast
  show ?thesis
    using assms(3-5) r rows [of k] unfolding was_claimed_def
    by (cases f) (auto simp: host_step_defs split: if_splits option.splits dest!: slice_command)
qed

fun claims_command :: "host_fact \<Rightarrow> string option" where
  "claims_command (HostCommandClaimed cid _ _ _) = Some cid"
| "claims_command (HostCommandRenewed cid _ _ _) = Some cid"
| "claims_command _ = None"

lemma command_claim_append:
  assumes "well_formed s" and "append_fact th turn pr (HostFact f) s = Inr t" and "claims_command f = Some cid"
    and "tget (host_commands (proj t)) k = Some y" and "hc_status y = CmdClaimed"
  shows "if k = cid then \<exists>x. tget (host_commands (proj s)) k = Some x \<and> hc_kind x = hc_kind y \<and> hc_thread x = hc_thread y
    else was_claimed s k y"
proof -
  from assms(1,2) obtain r s' where r: "apply_record (load_slice (proj s) r) r = Inr s'" "rr_fact r = HostFact f"
    and rows: "\<And>k. tget (host_commands (proj t)) k = (case tget (host_commands s') k of
        None \<Rightarrow> tget (host_commands (proj s)) k
      | Some row \<Rightarrow> if hc_seq row = rr_seq r
          then Some (case tget (host_commands (proj s)) k of None \<Rightarrow> row | Some old \<Rightarrow> merge_command old row)
          else tget (host_commands (proj s)) k)"
    by (rule command_rows_after) blast
  show ?thesis
    using assms(3-5) r rows [of k] unfolding was_claimed_def
    by (cases f) (auto simp: host_step_defs split: if_splits option.splits dest!: slice_command)
qed


definition drivers_apart :: "store \<Rightarrow> bool" where
  "drivers_apart s \<longleftrightarrow> well_formed s \<and> exclusive_drivers s"

lemma driver_was: "was_claimed s k y \<Longrightarrow> driver y \<Longrightarrow>
    \<exists>x. tget (host_commands (proj s)) k = Some x \<and> hc_thread x = hc_thread y \<and> driver x"
  by (auto simp: was_claimed_def driver_def)

lemma exclusive_drivers_was:
  assumes "exclusive_drivers s"
    and "\<And>k y. tget (host_commands (proj t)) k = Some y \<Longrightarrow> hc_status y = CmdClaimed \<Longrightarrow> was_claimed s k y"
  shows "exclusive_drivers t"
  unfolding exclusive_drivers_def
proof (intro allI impI, elim conjE)
  fix j k x y
  assume xy: "tget (host_commands (proj t)) j = Some x" "tget (host_commands (proj t)) k = Some y"
    "j \<noteq> k" "driver x" "driver y"
  then have "was_claimed s j x" "was_claimed s k y" using assms(2) by (simp_all add: driver_def)
  from driver_was [OF this(1) xy(4)] driver_was [OF this(2) xy(5)] assms(1) xy(3)
  show "hc_thread x \<noteq> hc_thread y" unfolding exclusive_drivers_def by metis
qed

abbreviation "unclaiming_facts \<equiv> - host_facts \<union> idle_hosts"

lemma was_claimed_refl: "tget (host_commands (proj s)) k = Some y \<Longrightarrow> hc_status y = CmdClaimed \<Longrightarrow> was_claimed s k y"
  by (simp add: was_claimed_def)

lemma unclaiming_append:
  assumes "well_formed s" and "append_fact th turn pr f s = Inr t" and "f \<in> unclaiming_facts"
    and "tget (host_commands (proj t)) k = Some y" and "hc_status y = CmdClaimed"
  shows "was_claimed s k y"
proof (cases "f \<in> host_facts")
  case False
  then have "host_commands (proj t) = host_commands (proj s)" by (intro any_append_commands [OF assms(2)]) auto
  with assms(4,5) show ?thesis by (simp add: was_claimed_def)
next
  case True
  with assms(3) obtain g where "f = HostFact g" "idle_host g" by auto
  with idle_host_append assms show ?thesis by blast
qed

interpretation unclaiming: kept_by unclaiming_facts drivers_apart
proof
  fix f th turn pr s t
  assume f: "f \<in> unclaiming_facts" and a: "append_fact th turn pr f s = Inr t" and s: "drivers_apart s"
  then have wf: "well_formed s" "exclusive_drivers s" by (simp_all add: drivers_apart_def)
  from exclusive_drivers_was [OF wf(2) unclaiming_append [OF wf(1) a f]] append_well_formed [OF wf(1) a]
  show "drivers_apart t" by (simp add: drivers_apart_def)
qed

lemma unclaiming_groups:
  "thread_facts \<subseteq> unclaiming_facts" "idle_hosts \<subseteq> unclaiming_facts" "turn_facts \<subseteq> unclaiming_facts"
  "model_facts \<subseteq> unclaiming_facts" "budget_facts \<subseteq> unclaiming_facts" "idle_tools \<subseteq> unclaiming_facts"
  "interaction_facts \<subseteq> unclaiming_facts" "item_facts \<subseteq> unclaiming_facts" "execution_facts \<subseteq> unclaiming_facts"
  "tool_facts \<subseteq> unclaiming_facts"
  by auto

text \<open>A renewal acts on a command that is claimed.\<close>

lemma renew_keeps_drivers_apart:
  assumes "drivers_apart s" and "renew_claim claim now lease s = Inr (b, t)"
  shows "drivers_apart t"
proof (cases b)
  case False
  with assms show ?thesis by (auto simp: renew_claim_def if_current_def split: if_splits option.splits)
next
  case True
  from assms(1) have wf: "well_formed s" "exclusive_drivers s" by (simp_all add: drivers_apart_def)
  from assms(2) True obtain w where cur: "claim_current s claim = Inr True"
    and a: "append_fact (hc_thread claim) None ''host''
      (HostFact (HostCommandRenewed (hc_id claim) w (hc_generation claim) (now + lease))) s = Inr t"
    by (auto simp: renew_claim_def if_current_def host_fact_for_def split: if_splits option.splits)
  from cur obtain c where c: "tget (host_commands (proj s)) (hc_id claim) = Some c" "hc_status c = CmdClaimed"
    by (auto simp: claim_current_def read_command_def require_def split: option.splits)
  have "was_claimed s k y" if "tget (host_commands (proj t)) k = Some y" "hc_status y = CmdClaimed" for k y
    using command_claim_append [OF wf(1) a _ that] c by (auto simp: was_claimed_def split: if_splits)
  from exclusive_drivers_was [OF wf(2) this] append_well_formed [OF wf(1) a]
  show ?thesis by (simp add: drivers_apart_def)
qed

text \<open>
  The scan of \<open>claim_next\<close> decides on the commands it read first; the ones it revokes on its way
  only end claims.
\<close>

definition scan_state :: "store \<Rightarrow> store \<Rightarrow> bool" where
  "scan_state s0 s \<longleftrightarrow> drivers_apart s
     \<and> (\<forall>k y. tget (host_commands (proj s)) k = Some y \<longrightarrow> (\<exists>x. tget (host_commands (proj s0)) k = Some x
          \<and> hc_kind x = hc_kind y \<and> hc_thread x = hc_thread y \<and> (hc_status y = CmdClaimed \<longrightarrow> hc_status x = CmdClaimed)))"

lemma settle_rows:
  assumes "well_formed s" and "append_fact th turn pr (HostFact (HostCommandSettled cid st v a)) s = Inr t"
    and "tget (host_commands (proj t)) k = Some y"
  shows "\<exists>x. tget (host_commands (proj s)) k = Some x \<and> hc_kind x = hc_kind y \<and> hc_thread x = hc_thread y"
proof -
  from assms(1,2) obtain r s' where r: "apply_record (load_slice (proj s) r) r = Inr s'"
      "rr_fact r = HostFact (HostCommandSettled cid st v a)"
    and rows: "\<And>k. tget (host_commands (proj t)) k = (case tget (host_commands s') k of
        None \<Rightarrow> tget (host_commands (proj s)) k
      | Some row \<Rightarrow> if hc_seq row = rr_seq r
          then Some (case tget (host_commands (proj s)) k of None \<Rightarrow> row | Some old \<Rightarrow> merge_command old row)
          else tget (host_commands (proj s)) k)"
    by (rule command_rows_after) blast
  show ?thesis
    using assms(3) r rows [of k]
    by (auto simp: host_step_defs split: if_splits option.splits dest!: slice_command)
qed

lemma revoke_scan_state:
  assumes "scan_state s0 s" and "revoke_command c s = Inr t"
  shows "scan_state s0 t"
proof -
  from assms(1) have wf: "well_formed s" "drivers_apart s" by (simp_all add: scan_state_def drivers_apart_def)
  from assms(2) have a: "append_fact (hc_thread c) None ''host'' (HostFact (HostCommandSettled (hc_id c) CmdRejected
      (JObj [(''reason'', JStr ''channel_authority_revoked'')]) 0)) s = Inr t"
    by (simp add: revoke_command_def host_fact_for_def)
  have "drivers_apart t" by (rule unclaiming.keeps_append [OF _ a wf(2)]) auto
  moreover have "\<exists>x. tget (host_commands (proj s0)) k = Some x \<and> hc_kind x = hc_kind y \<and> hc_thread x = hc_thread y
      \<and> (hc_status y = CmdClaimed \<longrightarrow> hc_status x = CmdClaimed)"
    if y: "tget (host_commands (proj t)) k = Some y" for k y
  proof -
    from settle_rows [OF wf(1) a y] obtain x where
      x: "tget (host_commands (proj s)) k = Some x" "hc_kind x = hc_kind y" "hc_thread x = hc_thread y" by blast
    from idle_host_append [OF wf(1) a _ y] x have "hc_status y = CmdClaimed \<longrightarrow> hc_status x = CmdClaimed"
      by (auto simp: was_claimed_def)
    with assms(1) x show ?thesis unfolding scan_state_def by metis
  qed
  ultimately show ?thesis by (simp add: scan_state_def)
qed


lemma open_command_row:
  assumes "well_formed s" and "tget (host_commands (proj s)) k = Some c" and "hc_status c = CmdClaimed"
  shows "c \<in> set (open_commands s)" and "hc_id c = k"
proof -
  show "c \<in> set (open_commands s)"
    using tget_trows [OF assms(2)] assms(3) by (simp add: open_commands_def select_rows_def)
  show "hc_id c = k" using assms(1,2) by (auto simp: well_formed_def projection_ok_def intro: table_ok_ident)
qed

lemma claimable_alone:
  assumes "claimable control excluded now cs c" and "hc_kind c \<in> set driver_kinds" and "d \<in> set cs"
    and "hc_id d \<noteq> hc_id c" and "driver d"
  shows "hc_thread d \<noteq> hc_thread c"
  using assms by (auto simp: claimable_def driver_def control_kinds_def driver_kinds_def list_ex_iff split: if_splits)

lemma take_keeps_drivers_apart:
  assumes "scan_state s0 s" and "well_formed s0" and "c \<in> set (open_commands s0)"
    and "claimable control excluded now (open_commands s0) c" and "take_claim owner lease c s = Inr t"
  shows "drivers_apart t"
proof -
  from assms(1) have wf: "well_formed s" "exclusive_drivers s" by (simp_all add: scan_state_def drivers_apart_def)
  from assms(5) have a: "append_fact (hc_thread c) None ''host''
      (HostFact (HostCommandClaimed (hc_id c) owner (hc_generation c + 1) lease)) s = Inr t"
    by (simp add: take_claim_def host_fact_for_def)
  from assms(2,3) have c: "tget (host_commands (proj s0)) (hc_id c) = Some c"
    by (auto simp: open_commands_def select_rows_def well_formed_def projection_ok_def intro: table_ok_row)
  have here: "hc_kind y = hc_kind c \<and> hc_thread y = hc_thread c"
    if y: "tget (host_commands (proj t)) (hc_id c) = Some y" "driver y" for y
  proof -
    from command_claim_append [OF wf(1) a _ y(1)] y(2) obtain x where
      "tget (host_commands (proj s)) (hc_id c) = Some x" "hc_kind x = hc_kind y" "hc_thread x = hc_thread y"
      by (auto simp: driver_def)
    with assms(1) c show ?thesis unfolding scan_state_def by (metis option.inject)
  qed
  have other: "was_claimed s k y" if "tget (host_commands (proj t)) k = Some y" "driver y" "k \<noteq> hc_id c" for k y
    using command_claim_append [OF wf(1) a _ that(1)] that(2,3) by (auto simp: driver_def)
  have apart: "hc_thread y \<noteq> hc_thread c"
    if y: "tget (host_commands (proj t)) k = Some y" "driver y" "k \<noteq> hc_id c" "hc_kind c \<in> set driver_kinds" for k y
  proof -
    from other [OF y(1-3)] obtain x where x: "tget (host_commands (proj s)) k = Some x" "hc_kind x = hc_kind y"
      "hc_thread x = hc_thread y" "hc_status x = CmdClaimed" by (auto simp: was_claimed_def)
    with assms(1) obtain z where z: "tget (host_commands (proj s0)) k = Some z" "hc_kind z = hc_kind y"
      "hc_thread z = hc_thread y" "hc_status z = CmdClaimed" unfolding scan_state_def by metis
    from y(2) z have "driver z" by (simp add: driver_def)
    with claimable_alone [OF assms(4) y(4) open_command_row(1) [OF assms(2) z(1,4)]]
      open_command_row(2) [OF assms(2) z(1,4)] y(3) z(3) show ?thesis by simp
  qed
  have "exclusive_drivers t"
    unfolding exclusive_drivers_def
  proof (intro allI impI, elim conjE)
    fix j k x y
    assume x: "tget (host_commands (proj t)) j = Some x" "driver x" and y: "tget (host_commands (proj t)) k = Some y" "driver y"
      and "j \<noteq> k"
    then consider "j = hc_id c" "k \<noteq> hc_id c" | "k = hc_id c" "j \<noteq> hc_id c" | "j \<noteq> hc_id c" "k \<noteq> hc_id c" by blast
    then show "hc_thread x \<noteq> hc_thread y"
    proof cases
      case 1
      with here [of x] x have "hc_kind c \<in> set driver_kinds" "hc_thread x = hc_thread c" by (auto simp: driver_def)
      with apart [OF y 1(2)] show ?thesis by auto
    next
      case 2
      with here [of y] y have "hc_kind c \<in> set driver_kinds" "hc_thread y = hc_thread c" by (auto simp: driver_def)
      with apart [OF x 2(2)] show ?thesis by auto
    next
      case 3
      from driver_was [OF other [OF x 3(1)] x(2)] driver_was [OF other [OF y 3(2)] y(2)] wf(2) \<open>j \<noteq> k\<close>
      show ?thesis unfolding exclusive_drivers_def by metis
    qed
  qed
  with append_well_formed [OF wf(1) a] show ?thesis by (simp add: drivers_apart_def)
qed

lemma scan_keeps_drivers_apart:
  assumes "well_formed s0" and "set cs \<subseteq> set (open_commands s0)" and "scan_state s0 s"
    and "scan_commands authorized (claimable control excluded now (open_commands s0)) owner lease cs s = Inr (r, t)"
  shows "drivers_apart t"
  using assms(2-4)
proof (induction cs arbitrary: s)
  case Nil
  then show ?case by (simp add: scan_state_def)
next
  case (Cons c cs)
  show ?case
  proof (cases "claimable control excluded now (open_commands s0) c")
    case False
    with Cons show ?thesis by simp
  next
    case True
    show ?thesis
    proof (cases "authorized s c")
      case True
      with Cons.prems \<open>claimable _ _ _ _ _\<close> obtain u where "take_claim owner lease c s = Inr u" "t = u" by auto
      with take_keeps_drivers_apart [OF Cons.prems(2) assms(1) _ \<open>claimable _ _ _ _ _\<close>] Cons.prems(1) show ?thesis by simp
    next
      case False
      with Cons.prems True obtain u where u: "revoke_command c s = Inr u"
        and rest: "scan_commands authorized (claimable control excluded now (open_commands s0)) owner lease cs u = Inr (r, t)"
        by auto
      from Cons.IH [OF _ revoke_scan_state [OF Cons.prems(2) u] rest] Cons.prems(1) show ?thesis by simp
    qed
  qed
qed

lemma claim_next_keeps_drivers_apart:
  assumes "drivers_apart s" and "claim_next authorized owner control now lease excluded s = Inr (r, t)"
  shows "drivers_apart t"
proof -
  have "scan_state s s" using assms(1) by (auto simp: scan_state_def)
  with assms show ?thesis
    by (intro scan_keeps_drivers_apart [of s "open_commands s" s])
      (auto simp: claim_next_def drivers_apart_def split: if_splits)
qed

end
