(* ===== verification/Reachable.thy ===== *)
theory Reachable
  imports Command_Order Exclusivity
begin

text \<open>
  The transition system of the store. A step is one committed transaction: a command that returned
  a new store. The identities that the code draws at random are new; a caller that names a Thread or
  Turn itself names a new one, as \<open>host_ops.receive_command\<close> and \<open>session.py\<close> see to; and the three
  commands that move a Turn without reading its status are called on an open Turn. From the empty
  store every reachable store is well formed, keeps one open Turn per Thread at most, and keeps
  running tools and driving hosts apart.
\<close>

section \<open>Threads, Turns, child budgets and counted units\<close>

inductive turn_step :: "store \<Rightarrow> store \<Rightarrow> bool" where
  turn_does_create_thread: "new_thread_id s (case given of None \<Rightarrow> fresh | Some k \<Rightarrow> k) \<Longrightarrow>
     create_thread is_dir fresh workspace given s = Inr t \<Longrightarrow>
     turn_step s t"
| turn_does_fork_thread: "new_thread_id s fresh \<Longrightarrow>
     fork_thread fresh origin s = Inr t \<Longrightarrow>
     turn_step s t"
| turn_does_update_session_settings: "update_session_settings thid settings expected s = Inr t \<Longrightarrow> turn_step s t"
| turn_does_start_turn: "new_turn_id s (case given of None \<Rightarrow> fresh | Some k \<Rightarrow> k) \<Longrightarrow>
     start_turn fresh iid th message binding files given producer s = Inr t \<Longrightarrow>
     turn_step s t"
| turn_does_receive_turn_input: "receive_turn_input fresh digest thid tid text files input_id paths s = Inr t \<Longrightarrow>
     turn_step s t"
| turn_does_complete_turn: "complete_turn iid piid unintegrated tid answer producer expected source s = Inr t \<Longrightarrow>
     turn_step s t"
| turn_does_fail_turn: "fail_turn piid fresh tid reason message s = Inr t \<Longrightarrow> turn_step s t"
| turn_does_pause_turn: "pause_turn tid reason producer reason_code input_revision s = Inr t \<Longrightarrow> turn_step s t"
| turn_does_interrupt_orphaned_turn: "interrupt_orphaned_turn tid reason confirmed s = Inr t \<Longrightarrow> turn_step s t"
| turn_does_cancel_turn: "cancel_turn fresh tid s = Inr t \<Longrightarrow> turn_step s t"
| turn_does_request_turn_cancellation: "request_turn_cancellation tid producer reason s = Inr t \<Longrightarrow> turn_step s t"
| turn_does_resume_child_wait: "resume_child_wait tid s = Inr t \<Longrightarrow> turn_step s t"
| turn_does_resume_cancelled_turn: "resume_cancelled_turn tid s = Inr t \<Longrightarrow> turn_step s t"
| turn_does_request_clarification: "request_clarification req tid question s = Inr t \<Longrightarrow> turn_step s t"
| turn_does_request_choice: "request_choice req tid question options s = Inr t \<Longrightarrow> turn_step s t"
| turn_does_resolve_clarification: "resolve_clarification iid blob_errors tid req response s = Inr t \<Longrightarrow> turn_step s t"
| turn_does_resolve_choice: "resolve_choice iid blob_errors tid req selection s = Inr t \<Longrightarrow> turn_step s t"
| turn_does_start_budgeted_child_turn: "new_thread_id s child_thread \<Longrightarrow>
     new_turn_id s child \<Longrightarrow>
     start_budgeted_child_turn is_dir iid parent child_thread child message binding tokens cost workspace s = Inr t \<Longrightarrow>
     turn_step s t"
| turn_does_settle_child_budget: "settle_child_budget child s = Inr t \<Longrightarrow> turn_step s t"
| turn_does_reserve_resource_unit: "reserve_resource_unit iid tid resource limit initial_used s = Inr (a, t) \<Longrightarrow>
     turn_step s t"

section \<open>Model operations, their retries and outcomes\<close>

inductive model_step :: "store \<Rightarrow> store \<Rightarrow> bool" where
  model_does_freeze_request: "freeze_request content aid sha size_bytes tid payload ref s = Inr (a, t) \<Longrightarrow>
     model_step s t"
| model_does_prepare_model_operation: "prepare_model_operation content fr tid h request_ref s = Inr (a, t) \<Longrightarrow> model_step s t"
| model_does_supersede_prepared_model: "supersede_prepared_model op s = Inr t \<Longrightarrow> model_step s t"
| model_does_dispatch_model_attempt: "dispatch_model_attempt source_hash blob_errors iid uid op worker lease now request allow s = Inr t \<Longrightarrow>
     model_step s t"
| model_does_record_model_response_started: "record_model_response_started op att gen provider s = Inr t \<Longrightarrow> model_step s t"
| model_does_start_model_output: "start_model_output iid op att gen v s = Inr t \<Longrightarrow> model_step s t"
| model_does_complete_model_output: "complete_model_output op att gen v s = Inr t \<Longrightarrow> model_step s t"
| model_does_finish_model_outputs: "finish_model_outputs fresh op att gen vs s = Inr t \<Longrightarrow> model_step s t"
| model_does_expire_model_attempt_dispatch: "expire_model_attempt_dispatch op now s = Inr t \<Longrightarrow> model_step s t"
| model_does_mark_model_attempt_unknown: "mark_model_attempt_unknown op att gen etype emsg outputs s = Inr t \<Longrightarrow> model_step s t"
| model_does_reject_model_attempt: "reject_model_attempt op att gen reason etype emsg outputs outcome failure s = Inr t \<Longrightarrow>
     model_step s t"
| model_does_cancel_model_attempt: "target_open s op \<Longrightarrow>
     cancel_model_attempt op att gen reason outputs s = Inr t \<Longrightarrow>
     model_step s t"
| model_does_prepare_model_retry: "prepare_model_retry blob_errors att op automatic now s = Inr t \<Longrightarrow> model_step s t"
| model_does_complete_model_attempt: "complete_model_attempt fresh riid op att gen v s = Inr (a, t) \<Longrightarrow> model_step s t"
| model_does_record_failure: "target_open s op \<Longrightarrow>
     record_failure piid fresh op att gen f outputs now jitter s = Inr (a, t) \<Longrightarrow>
     model_step s t"
| model_does_prepare_scheduled_retry: "prepare_scheduled_retry source_hash blob_errors fresh att op request now s = Inr t \<Longrightarrow>
     model_step s t"
| model_does_cancel_scheduled_retry: "cancel_scheduled_retry fresh op code cancel s = Inr t \<Longrightarrow> model_step s t"
| model_does_fail_unstarted_retry: "fail_unstarted_retry piid fresh op code message s = Inr t \<Longrightarrow> model_step s t"
| model_does_abandon_saved_summary: "abandon_saved_summary iid fresh tid op s = Inr t \<Longrightarrow> model_step s t"

section \<open>Tool operations, results, approvals and execution facts\<close>

inductive tool_step :: "store \<Rightarrow> store \<Rightarrow> bool" where
  tool_does_record_tool_call: "record_tool_call iid tid call tool arguments origin err s = Inr t \<Longrightarrow> tool_step s t"
| tool_does_record_tool_execution_state: "record_tool_execution_state tid sp s = Inr t \<Longrightarrow> tool_step s t"
| tool_does_claim_tool_operation: "claim_tool_operation blob_errors fence op worker lease now s = Inr t \<Longrightarrow> tool_step s t"
| tool_does_reject_ready_tool_operation: "reject_ready_tool_operation op err s = Inr t \<Longrightarrow> tool_step s t"
| tool_does_expire_tool_operation_claim: "expire_tool_operation_claim req op now s = Inr t \<Longrightarrow> tool_step s t"
| tool_does_mark_tool_result_missing: "mark_tool_result_missing req op s = Inr t \<Longrightarrow> tool_step s t"
| tool_does_commit_tool_operation_outcome: "tool_target_open s op \<Longrightarrow>
     commit_tool_operation_outcome req op gen fence v s = Inr (a, t) \<Longrightarrow>
     tool_step s t"
| tool_does_record_tool_result: "record_tool_result blob_error shown iid piid tid op v s = Inr t \<Longrightarrow> tool_step s t"
| tool_does_commit_tool_operation_result: "tool_target_open s op \<Longrightarrow>
     commit_tool_operation_result blob_error shown iid piid req tid op gen fence v payload s = Inr (a, t) \<Longrightarrow>
     tool_step s t"
| tool_does_resolve_tool_reconciliation: "resolve_tool_reconciliation blob_errors iid tid status v revision s = Inr t \<Longrightarrow>
     tool_step s t"
| tool_does_resolve_tool_approval: "resolve_tool_approval blob_errors tid decision recheck s = Inr t \<Longrightarrow> tool_step s t"
| tool_does_refresh_tool_approval: "refresh_tool_approval req tid body s = Inr t \<Longrightarrow> tool_step s t"
| tool_does_invalidate_tool_approval: "invalidate_tool_approval tid reason s = Inr t \<Longrightarrow> tool_step s t"
| tool_does_invalidate_resolved_tool_approval: "invalidate_resolved_tool_approval tid reason s = Inr t \<Longrightarrow> tool_step s t"
| tool_does_request_tool_approval: "request_tool_approval req tid sp body s = Inr t \<Longrightarrow> tool_step s t"
| tool_does_record_tool_continuation: "record_tool_continuation iid op key v s = Inr t \<Longrightarrow> tool_step s t"
| tool_does_record_verification: "record_verification iid tid op kind verifier resources s = Inr t \<Longrightarrow> tool_step s t"
| tool_does_record_workspace_checkpoint: "record_workspace_checkpoint iid tid cid trigger tree changed wall s = Inr t \<Longrightarrow>
     tool_step s t"
| tool_does_adopt_execution_protocol: "adopt_execution_protocol tid s = Inr t \<Longrightarrow> tool_step s t"
| tool_does_response_handled: "response_handled tid op item s = Inr t \<Longrightarrow> tool_step s t"
| tool_does_admit_tool_batch: "admit_tool_batch fresh tid item calls s = Inr t \<Longrightarrow> tool_step s t"

section \<open>Host commands\<close>

inductive host_step :: "store \<Rightarrow> store \<Rightarrow> bool" where
  host_does_receive_command: "receive_command sha name_hash is_origin database is_dir resolve uid workspace kind payload command_id thread_id turn_id s = Inr t \<Longrightarrow>
     host_step s t"
| host_does_claim_next: "claim_next authorized owner control now lease excluded s = Inr (a, t) \<Longrightarrow>
     host_step s t"
| host_does_renew_claim: "renew_claim claim now lease s = Inr (a, t) \<Longrightarrow> host_step s t"
| host_does_settle_command: "settle_command claim status v now retry_after s = Inr (a, t) \<Longrightarrow> host_step s t"
| host_does_reject_queued_start: "reject_queued_start cid s = Inr (a, t) \<Longrightarrow> host_step s t"
| host_does_release_orphan_claims: "release_orphan_claims owner now s = Inr t \<Longrightarrow> host_step s t"

section \<open>Compaction jobs and artifacts\<close>

inductive job_step :: "store \<Rightarrow> store \<Rightarrow> bool" where
  job_does_record_node: "record_node iid tid jid node source res op s = Inr t \<Longrightarrow> job_step s t"
| job_does_finish_job: "finish_job iid tid jid status s = Inr t \<Longrightarrow> job_step s t"
| job_does_finish_active_jobs: "finish_active_jobs fresh tid status s = Inr t \<Longrightarrow> job_step s t"
| job_does_transfer_for_attempt: "transfer_for_attempt iid uid tid jid amount purpose s = Inr t \<Longrightarrow> job_step s t"
| job_does_admit_retry: "admit_retry iid uid jiid tid op amount s = Inr t \<Longrightarrow> job_step s t"
| job_does_commit_artifact: "commit_artifact aid tid sha size_bytes media_type name s = Inr t \<Longrightarrow> job_step s t"
| job_does_create_job: "create_job iid u1 u2 identity tid plan revision s = Some (Inr (j, t)) \<Longrightarrow> job_step s t"

section \<open>The whole store\<close>

inductive step :: "store \<Rightarrow> store \<Rightarrow> bool" where
  step_turn: "turn_step s t \<Longrightarrow> step s t"
| step_model: "model_step s t \<Longrightarrow> step s t"
| step_tool: "tool_step s t \<Longrightarrow> step s t"
| step_host: "host_step s t \<Longrightarrow> step s t"
| step_job: "job_step s t \<Longrightarrow> step s t"

inductive_cases step_elims: "step s t"

definition reachable :: "store \<Rightarrow> bool" where
  "reachable s \<longleftrightarrow> step\<^sup>*\<^sup>* empty_store s"

section \<open>What every step does\<close>

lemmas orders = create_thread_order fork_thread_order update_session_settings_order start_turn_order complete_turn_order
  fail_turn_order pause_turn_order interrupt_orphaned_turn_order cancel_turn_order request_turn_cancellation_order
  resume_child_wait_order resume_cancelled_turn_order request_clarification_order request_choice_order
  resolve_clarification_order resolve_choice_order start_budgeted_child_turn_order
  expire_model_attempt_dispatch_order mark_model_attempt_unknown_order cancel_model_attempt_order
  prepare_model_retry_order prepare_scheduled_retry_order fail_unstarted_retry_order
  abandon_saved_summary_order expire_tool_operation_claim_order mark_tool_result_missing_order
  resolve_tool_reconciliation_order resolve_tool_approval_order refresh_tool_approval_order
  invalidate_tool_approval_order invalidate_resolved_tool_approval_order request_tool_approval_order
  receive_command_order

lemma cancel_scheduled_retry_any: "guided {} {} s (cancel_scheduled_retry fresh op code cancel s)"
  using cancel_scheduled_retry_order by (cases cancel) auto

lemmas with_orders = record_failure_order commit_tool_operation_outcome_order commit_tool_operation_result_order

lemma ordered:
  "stage {} s \<Longrightarrow> r = Inr t \<Longrightarrow> guided {} {} s r \<Longrightarrow> stage {} t \<and> finished_kept s t"
  "stage {} s \<Longrightarrow> r' = Inr (a, t) \<Longrightarrow> guided_with {} {} s r' \<Longrightarrow> stage {} t \<and> finished_kept s t"
  by (simp_all add: guided_def guided_with_def)

lemma turn_step_ordered: "turn_step s t \<Longrightarrow> stage {} s \<Longrightarrow> stage {} t \<and> finished_kept s t"
  by (erule turn_step.cases; simp only:; erule (1) ordered;
    (rule orders guided_quiet guided_quiet_with footprints quiet_groups | assumption)+)

lemma model_step_ordered: "model_step s t \<Longrightarrow> stage {} s \<Longrightarrow> stage {} t \<and> finished_kept s t"
  by (erule model_step.cases; simp only:; erule (1) ordered;
    (rule orders with_orders cancel_scheduled_retry_any guided_quiet guided_quiet_with footprints quiet_groups | assumption)+)

lemma tool_step_ordered: "tool_step s t \<Longrightarrow> stage {} s \<Longrightarrow> stage {} t \<and> finished_kept s t"
  by (erule tool_step.cases; simp only:; erule (1) ordered;
    (rule orders with_orders guided_quiet guided_quiet_with footprints quiet_groups | assumption)+)

lemma idle_hosts_quiet: "idle_hosts \<subseteq> quiet_facts"
  by auto

lemma host_step_ordered: "host_step s t \<Longrightarrow> stage {} s \<Longrightarrow> stage {} t \<and> finished_kept s t"
  by (erule host_step.cases; simp only:; erule (1) ordered;
    (rule orders guided_quiet guided_quiet_with footprints idle_hosts_quiet quiet_groups | assumption)+)

lemma created_job:
  "create_job iid u1 u2 identity tid plan revision s = Some (Inr (j, t)) \<Longrightarrow> budget_facts \<subseteq> G \<Longrightarrow> item_facts \<subseteq> G \<Longrightarrow>
     appends G s t"
  by (rule runs_withD [OF create_job_runs]) simp_all

lemma committed: "r = Inr t \<Longrightarrow> runs G s r \<Longrightarrow> appends G s t"
  by (simp add: runs_def)

lemma job_step_appends: "job_step s t \<Longrightarrow> budget_facts \<subseteq> G \<Longrightarrow> item_facts \<subseteq> G \<Longrightarrow> appends G s t"
  by (erule job_step.cases; simp only:; (erule (2) created_job | (erule committed, (rule footprints | assumption)+)))

lemma job_step_ordered: "job_step s t \<Longrightarrow> stage {} s \<Longrightarrow> stage {} t \<and> finished_kept s t"
  using stage_quiet [OF job_step_appends] quiet_groups(3,6) by blast

theorem step_ordered: "step s t \<Longrightarrow> stage {} s \<Longrightarrow> stage {} t \<and> finished_kept s t"
  by (erule step.cases) (simp_all add: turn_step_ordered model_step_ordered tool_step_ordered host_step_ordered job_step_ordered)

section \<open>Exclusion\<close>

lemma idle_kept:
  "tools_apart s \<Longrightarrow> r = Inr t \<Longrightarrow> runs idle_facts s r \<Longrightarrow> tools_apart t"
  "tools_apart s \<Longrightarrow> r' = Inr (a, t) \<Longrightarrow> runs_with idle_facts s r' \<Longrightarrow> tools_apart t"
  by (auto simp: runs_def runs_with_def intro: idle.keeps)

lemma unclaiming_kept:
  "drivers_apart s \<Longrightarrow> r = Inr t \<Longrightarrow> runs unclaiming_facts s r \<Longrightarrow> drivers_apart t"
  "drivers_apart s \<Longrightarrow> r' = Inr (a, t) \<Longrightarrow> runs_with unclaiming_facts s r' \<Longrightarrow> drivers_apart t"
  by (auto simp: runs_def runs_with_def intro: unclaiming.keeps)

lemma host_in_idle: "host_facts \<subseteq> idle_facts" "idle_hosts \<subseteq> idle_facts"
  by auto

lemma turn_step_tools: "turn_step s t \<Longrightarrow> tools_apart s \<Longrightarrow> tools_apart t"
  by (erule turn_step.cases; simp only:; erule (1) idle_kept; (rule footprints idle_groups)+)

lemma model_step_tools: "model_step s t \<Longrightarrow> tools_apart s \<Longrightarrow> tools_apart t"
  by (erule model_step.cases; simp only:; erule (1) idle_kept; (rule footprints idle_groups)+)

lemma tool_step_tools: "tool_step s t \<Longrightarrow> tools_apart s \<Longrightarrow> tools_apart t"
  by (erule tool_step.cases; simp only:;
    (erule (1) claim_keeps_tools_apart | (erule (1) idle_kept, (rule footprints idle_groups)+)))

lemma host_step_tools: "host_step s t \<Longrightarrow> tools_apart s \<Longrightarrow> tools_apart t"
  by (erule host_step.cases; simp only:; erule (1) idle_kept; (rule footprints idle_groups host_in_idle)+)

theorem step_tools_apart: "step s t \<Longrightarrow> tools_apart s \<Longrightarrow> tools_apart t"
  using idle.keeps [OF job_step_appends] idle_groups(5,8)
  by (erule_tac step.cases) (simp_all add: turn_step_tools model_step_tools tool_step_tools host_step_tools)

lemma turn_step_drivers: "turn_step s t \<Longrightarrow> drivers_apart s \<Longrightarrow> drivers_apart t"
  by (erule turn_step.cases; simp only:; erule (1) unclaiming_kept; (rule footprints unclaiming_groups)+)

lemma model_step_drivers: "model_step s t \<Longrightarrow> drivers_apart s \<Longrightarrow> drivers_apart t"
  by (erule model_step.cases; simp only:; erule (1) unclaiming_kept; (rule footprints unclaiming_groups)+)

lemma tool_step_drivers: "tool_step s t \<Longrightarrow> drivers_apart s \<Longrightarrow> drivers_apart t"
  by (erule tool_step.cases; simp only:; erule (1) unclaiming_kept; (rule footprints unclaiming_groups)+)

lemma host_step_drivers: "host_step s t \<Longrightarrow> drivers_apart s \<Longrightarrow> drivers_apart t"
  by (erule host_step.cases; simp only:;
    (erule (1) claim_next_keeps_drivers_apart | erule (1) renew_keeps_drivers_apart
     | (erule (1) unclaiming_kept, (rule footprints unclaiming_groups)+)))

theorem step_drivers_apart: "step s t \<Longrightarrow> drivers_apart s \<Longrightarrow> drivers_apart t"
  using unclaiming.keeps [OF job_step_appends] unclaiming_groups(5,8)
  by (erule_tac step.cases) (simp_all add: turn_step_drivers model_step_drivers tool_step_drivers host_step_drivers)

end
