(* ===== verification/Scenario.thy ===== *)
theory Scenario
  imports Reachable
begin

text \<open>
  A concrete run of the store, from which the witnesses take their instances: a Thread, a Turn in
  it, two tool operations that are prepared, made ready and claimed, the Turn's failure, and a
  second Turn. \<open>after\<close> is the store a command returned.
\<close>

definition after :: "store result \<Rightarrow> store" where
  "after r = (case r of Inl _ \<Rightarrow> empty_store | Inr s \<Rightarrow> s)"

definition succeeds :: "store result \<Rightarrow> bool" where
  "succeeds r = (case r of Inl _ \<Rightarrow> False | Inr _ \<Rightarrow> True)"

definition after_pair :: "(bool \<times> store) result \<Rightarrow> store" where
  "after_pair r = (case r of Inl _ \<Rightarrow> empty_store | Inr p \<Rightarrow> snd p)"

definition accepts :: "(bool \<times> store) result \<Rightarrow> bool" where
  "accepts r = (case r of Inl _ \<Rightarrow> False | Inr p \<Rightarrow> fst p)"

lemma succeeds_after: "succeeds r \<Longrightarrow> r = Inr (after r)"
  by (auto simp: succeeds_def after_def split: sum.splits)

lemma accepts_after: "accepts r \<Longrightarrow> r = Inr (True, after_pair r)"
  by (auto simp: accepts_def after_pair_def split: sum.splits)

definition write_call :: "string \<Rightarrow> string \<Rightarrow> tool_status \<Rightarrow> tool_spec" where
  "write_call op path st = \<lparr>ts_operation = op, ts_call = op, ts_name = ''write_file'', ts_digest = ''d'', ts_revision = ''1'',
     ts_effects = [''write''], ts_resources = [\<lparr>tr_kind = ''path'', tr_identity = path, tr_access = ''write''\<rparr>],
     ts_idempotent = False, ts_status = st, ts_attempts = 0, ts_error = None, ts_reconcile = False\<rparr>"

definition run_thread :: "store result" where
  "run_thread = create_thread (\<lambda>_. True) ''thread'' ''/w'' None empty_store"

definition run_turn :: "string \<Rightarrow> string \<Rightarrow> store \<Rightarrow> store result" where
  "run_turn tid iid = start_turn tid iid ''thread'' ''hello'' (JObj []) [] None ''user''"

definition run_tool :: "string \<Rightarrow> string \<Rightarrow> store \<Rightarrow> store result" where
  "run_tool op path = chain
     [record_tool_execution_state ''turn'' (write_call op path TPrepared),
      record_tool_execution_state ''turn'' (write_call op path TReady),
      claim_tool_operation [] (''fence_'' @ op) op ''worker'' 30 100]"

definition run_failure :: "store \<Rightarrow> store result" where
  "run_failure = fail_turn ''plan'' (\<lambda>_. ''job'') ''turn'' ''verifier'' ''not done''"

definition threaded :: store where "threaded = after run_thread"
definition started :: store where "started = after (run_turn ''turn'' ''item'' threaded)"
definition failed :: store where "failed = after (run_failure started)"
definition restarted :: store where "restarted = after (run_turn ''turn2'' ''item2'' failed)"
definition writing :: store where "writing = after (run_tool ''op'' ''/w/a'' started)"
definition writing_both :: store where "writing_both = after (run_tool ''op2'' ''/w/b'' writing)"

lemma succeeds_bind: "succeeds (ebind m k) \<longleftrightarrow> succeeds m \<and> succeeds (k (after m))"
  by (cases m) (simp_all add: succeeds_def after_def)

text \<open>Each line of the run is evaluated once.\<close>

lemma first_line: "succeeds (ebind run_thread (\<lambda>s. ebind (run_turn ''turn'' ''item'' s) (\<lambda>s.
    ebind (run_failure s) (run_turn ''turn2'' ''item2''))))"
  by code_simp

definition running_op :: "store \<Rightarrow> string \<Rightarrow> bool" where
  "running_op s k \<longleftrightarrow> (case tget (tool_operations (proj s)) k of None \<Rightarrow> False | Some x \<Rightarrow> to_status x = TRunning)"

definition fulfils :: "(store \<Rightarrow> bool) \<Rightarrow> store result \<Rightarrow> bool" where
  "fulfils P r = (case r of Inl _ \<Rightarrow> False | Inr s \<Rightarrow> P s)"

lemma fulfils_iff: "fulfils P r \<longleftrightarrow> succeeds r \<and> P (after r)"
  by (cases r) (simp_all add: fulfils_def succeeds_def after_def)

lemma fulfils_bind: "fulfils P (ebind m k) \<longleftrightarrow> succeeds m \<and> fulfils P (k (after m))"
  by (cases m) (simp_all add: fulfils_def succeeds_def after_def)

lemma second_line: "fulfils (\<lambda>s. running_op s ''op'' \<and> running_op s ''op2'')
    (ebind run_thread (\<lambda>s. ebind (run_turn ''turn'' ''item'' s) (\<lambda>s.
      ebind (run_tool ''op'' ''/w/a'' s) (run_tool ''op2'' ''/w/b''))))"
  by code_simp

lemma runs_ok:
  "run_thread = Inr threaded" "run_turn ''turn'' ''item'' threaded = Inr started" "run_failure started = Inr failed"
  "run_turn ''turn2'' ''item2'' failed = Inr restarted" "run_tool ''op'' ''/w/a'' started = Inr writing"
  "run_tool ''op2'' ''/w/b'' writing = Inr writing_both"
  using first_line second_line
  unfolding fulfils_bind unfolding fulfils_iff succeeds_bind threaded_def started_def failed_def restarted_def writing_def writing_both_def
  by (auto intro: succeeds_after)

lemma both_running: "running_op writing_both ''op''" "running_op writing_both ''op2''"
  using second_line
  unfolding fulfils_bind unfolding fulfils_iff threaded_def started_def writing_def writing_both_def by auto

section \<open>The run is a run of the transition system\<close>

lemma new_ids: "new_thread_id empty_store k" "new_turn_id empty_store k"
  by (simp_all add: new_thread_id_def new_turn_id_def empty_store_def empty_projection_def)

lemma threaded_step: "step empty_store threaded"
  using runs_ok(1) unfolding run_thread_def
  by (intro step_turn turn_does_create_thread) (simp_all add: new_ids)

lemma threaded_turns: "turns (proj threaded) = []" and started_turns: "tkeys (turns (proj failed)) = [''turn'']"
  by code_simp+

lemma started_step: "step threaded started"
  using runs_ok(2) unfolding run_turn_def
  by (intro step_turn turn_does_start_turn) (simp_all add: new_turn_id_def threaded_turns)

lemma failed_step: "step started failed"
  using runs_ok(3) unfolding run_failure_def by (intro step_turn turn_does_fail_turn)

lemma restarted_step: "step failed restarted"
  using runs_ok(4) started_turns unfolding run_turn_def
  by (intro step_turn turn_does_start_turn) (auto simp: new_turn_id_def tget_None_iff)

lemma run_tool_steps:
  assumes "run_tool op path s = Inr t"
  shows "step\<^sup>*\<^sup>* s t"
proof -
  from assms obtain u v where
    u: "record_tool_execution_state ''turn'' (write_call op path TPrepared) s = Inr u"
    and v: "record_tool_execution_state ''turn'' (write_call op path TReady) u = Inr v"
    and t: "claim_tool_operation [] (''fence_'' @ op) op ''worker'' 30 100 v = Inr t"
    by (auto simp: run_tool_def)
  have "step s u" "step u v" "step v t"
    by (intro step_tool tool_does_record_tool_execution_state tool_does_claim_tool_operation, rule u v t)+
  then show ?thesis by (meson rtranclp.rtrancl_into_rtrancl rtranclp.rtrancl_refl)
qed

lemma run_reachable:
  "reachable threaded" "reachable started" "reachable failed" "reachable restarted"
  "reachable writing" "reachable writing_both"
proof -
  show 1: "reachable threaded" using threaded_step by (auto simp: reachable_def)
  then show 2: "reachable started" using started_step by (auto simp: reachable_def)
  then show 3: "reachable failed" using failed_step by (auto simp: reachable_def)
  then show "reachable restarted" using restarted_step by (auto simp: reachable_def)
  from 2 show 5: "reachable writing" using run_tool_steps [OF runs_ok(5)] by (auto simp: reachable_def)
  then show "reachable writing_both" using run_tool_steps [OF runs_ok(6)] by (auto simp: reachable_def)
qed


section \<open>A host that drives a Thread\<close>

definition run_receive :: "store \<Rightarrow> store result" where
  "run_receive = receive_command (\<lambda>_. ''hash'') (\<lambda>x. x) (\<lambda>_. False) ''db'' (\<lambda>_. True) (\<lambda>x. x) ''uid'' ''/w'' ''start''
     (JObj []) (Some ''cmd'') (Some ''thread'') (Some ''turn'')"

definition run_claim :: "store \<Rightarrow> (string option \<times> store) result" where
  "run_claim = claim_next (\<lambda>_ _. True) ''host'' False 0 30 []"

definition commanded :: store where "commanded = after (run_receive threaded)"

definition driven :: store where
  "driven = (case run_claim commanded of Inl _ \<Rightarrow> empty_store | Inr p \<Rightarrow> snd p)"

lemma commanded_ok: "succeeds (run_receive threaded)"
  by code_simp

lemma driven_ok: "case run_claim commanded of Inl _ \<Rightarrow> False | Inr p \<Rightarrow> fst p = Some ''cmd''
    \<and> (case tget (host_commands (proj (snd p))) ''cmd'' of None \<Rightarrow> False
       | Some c \<Rightarrow> driver c \<and> hc_thread c = ''thread'')"
  by code_simp

lemma driven_command: "\<exists>c. tget (host_commands (proj driven)) ''cmd'' = Some c \<and> driver c \<and> hc_thread c = ''thread''"
  using driven_ok by (auto simp: driven_def split: sum.splits option.splits)

lemma driven_reachable: "reachable driven"
proof -
  have "step threaded commanded"
    using succeeds_after [OF commanded_ok, folded commanded_def] unfolding run_receive_def
    by (intro step_host host_does_receive_command)
  moreover have "\<exists>a. run_claim commanded = Inr (a, driven)"
    using driven_ok by (auto simp: driven_def split: sum.splits)
  then have "step commanded driven" unfolding run_claim_def by (auto intro: step_host host_does_claim_next)
  ultimately show ?thesis using run_reachable(1) by (auto simp: reachable_def)
qed


section \<open>A Turn that fails while its tool still runs\<close>

definition unknown_report :: tool_outcome_report where
  "unknown_report = \<lparr>or_status = TUnknown, or_attempts = 1, or_error = None, or_reconcile = True, or_duration = None\<rparr>"

definition run_report :: "store \<Rightarrow> (bool \<times> store) result" where
  "run_report = commit_tool_operation_outcome ''req'' ''op'' 1 ''fence_op'' unknown_report"

definition abandoned :: store where "abandoned = after (run_failure writing)"
definition reopened :: store where "reopened = after_pair (run_report abandoned)"

definition late_report :: "store \<Rightarrow> bool" where
  "late_report s \<longleftrightarrow> open_thread s ''turn'' = None \<and> (case run_report s of Inl _ \<Rightarrow> False
     | Inr p \<Rightarrow> fst p \<and> open_thread (snd p) ''turn'' = Some ''thread'' \<and> active_turn (snd p) ''thread'' = None)"

lemma third_line: "fulfils late_report (ebind run_thread (\<lambda>s. ebind (run_turn ''turn'' ''item'' s) (\<lambda>s.
    ebind (run_tool ''op'' ''/w/a'' s) run_failure)))"
  by code_simp

lemma abandoned_facts: "succeeds (run_failure writing)" "late_report abandoned"
  using third_line
  unfolding fulfils_bind unfolding fulfils_iff threaded_def started_def writing_def abandoned_def by auto

lemma abandoned_reachable: "reachable abandoned"
proof -
  have "step writing abandoned"
    using succeeds_after [OF abandoned_facts(1), folded abandoned_def] unfolding run_failure_def
    by (intro step_turn turn_does_fail_turn)
  then show ?thesis using run_reachable(5) by (auto simp: reachable_def)
qed

end
