(* ===== verification/System_Properties.thy ===== *)
theory System_Properties
  imports Scenario
begin

text \<open>
  What holds in every reachable store, and between a store and its successors. The invariants come
  from \<open>Reachable\<close>; the witnesses instantiate each property on the run of \<open>Scenario\<close>.
\<close>

section \<open>Invariants of the reachable stores\<close>

lemma empty_rows [simp]: "tget (turns (proj empty_store)) k = None" "tget (threads (proj empty_store)) k = None"
  "tget (tool_operations (proj empty_store)) k = None" "tget (host_commands (proj empty_store)) k = None"
  by (simp_all add: empty_store_def empty_projection_def)

lemma stage_empty: "stage {} empty_store"
  by (simp add: stage_def well_formed_empty slot_ok_def open_thread_def active_turn_def)

lemma reachable_invariants:
  assumes "reachable s"
  shows "stage {} s" and "tools_apart s" and "drivers_apart s"
proof -
  have "step\<^sup>*\<^sup>* empty_store s" using assms by (simp add: reachable_def)
  then have "stage {} s \<and> tools_apart s \<and> drivers_apart s"
  proof (induction rule: rtranclp_induct)
    case base
    have "tools_apart empty_store" "drivers_apart empty_store"
      by (simp_all add: tools_apart_def drivers_apart_def well_formed_empty exclusive_tools_def exclusive_drivers_def)
    with stage_empty show ?case by simp
  next
    case (step s t)
    with step_ordered step_tools_apart step_drivers_apart show ?case by blast
  qed
  then show "stage {} s" and "tools_apart s" and "drivers_apart s" by simp_all
qed









text \<open>C5: two tool operations that run at the same time never claim conflicting resources, whatever
  Turns and Threads they belong to.\<close>

theorem running_tools_do_not_conflict:
  assumes "reachable s" and "tget (tool_operations (proj s)) j = Some x" and "tget (tool_operations (proj s)) k = Some y"
    and "j \<noteq> k" and "to_status x = TRunning" and "to_status y = TRunning"
  shows "\<not> resource_sets_conflict (to_resources x) (to_resources y)"
  using reachable_invariants(2) [OF assms(1)] assms(2-6) unfolding tools_apart_def exclusive_tools_def by blast

lemma running_tools_do_not_conflict_witness:
  "\<exists>x y. tget (tool_operations (proj writing_both)) ''op'' = Some x
     \<and> tget (tool_operations (proj writing_both)) ''op2'' = Some y
     \<and> \<not> resource_sets_conflict (to_resources x) (to_resources y)"
proof -
  from both_running obtain x y :: tool_op_row where
    "tget (tool_operations (proj writing_both)) ''op'' = Some x" "to_status x = TRunning"
    "tget (tool_operations (proj writing_both)) ''op2'' = Some y" "to_status y = TRunning"
    by (auto simp: running_op_def split: option.splits)
  moreover from running_tools_do_not_conflict [OF run_reachable(6) this(1,3) _ this(2,4)]
  have "\<not> resource_sets_conflict (to_resources x) (to_resources y)" by simp
  ultimately show ?thesis by blast
qed


text \<open>C6: at most one command that drives a Thread is claimed at a time, in every reachable store.\<close>

theorem one_driver_per_thread:
  assumes "reachable s" and "tget (host_commands (proj s)) j = Some c" and "tget (host_commands (proj s)) k = Some d"
    and "driver c" and "driver d" and "hc_thread c = hc_thread d"
  shows "j = k"
  using reachable_invariants(3) [OF assms(1)] assms(2-6) unfolding drivers_apart_def exclusive_drivers_def by blast

lemma one_driver_per_thread_witness:
  "\<exists>c. tget (host_commands (proj driven)) ''cmd'' = Some c \<and> driver c \<and> hc_thread c = ''thread''"
proof -
  from driven_command obtain c where c: "tget (host_commands (proj driven)) ''cmd'' = Some c" "driver c"
    "hc_thread c = ''thread''" by blast
  from one_driver_per_thread [OF driven_reachable c(1) c(1) c(2) c(2) refl] c show ?thesis by blast
qed


text \<open>C28: the guard that the outcome report of a tool operation lacks. A Turn can fail while one of its tool
  operations runs; the late report that the outcome is unknown is then accepted and makes the failed
  Turn paused again, while the active slot of its Thread stays free for another Turn.\<close>

theorem late_unknown_outcome_reopens_the_turn:
  "\<exists>s t. reachable s \<and> open_thread s ''turn'' = None
     \<and> commit_tool_operation_outcome ''req'' ''op'' 1 ''fence_op'' unknown_report s = Inr (True, t)
     \<and> open_thread t ''turn'' = Some ''thread'' \<and> active_turn t ''thread'' = None"
proof -
  from abandoned_facts(2) obtain t where
    "open_thread abandoned ''turn'' = None" "run_report abandoned = Inr (True, t)"
    "open_thread t ''turn'' = Some ''thread''" "active_turn t ''thread'' = None"
    by (auto simp: late_report_def split: sum.splits)
  with abandoned_reachable show ?thesis unfolding run_report_def by blast
qed

end
