(* ===== verification/Once_Only.thy ===== *)
theory Once_Only
  imports Reachable
begin

text \<open>
  Reports that arrive twice. The outcome of a claimed tool operation and the response to a
  dispatched model attempt are accepted once: the fact that accepts them moves the operation out of
  the status that a report needs, and nothing in the same transaction moves it back.
\<close>

section \<open>The status after one append\<close>

lemma tool_status_after:
  assumes "well_formed s" and "append_fact th turn pr (ToolFact (ToolOutcomeCommitted op st n err rec d)) s = Inr t"
  shows "\<exists>y. tget (tool_operations (proj t)) op = Some y \<and> to_status y = st"
proof -
  have "addressed th (proj s) (ToolFact (ToolOutcomeCommitted op st n err rec d))" by simp
  from append_reduces [OF assms this] obtain r q where
    "apply_record (counted (proj s)) r = Inr q" "proj t = durable q"
    "rr_fact r = ToolFact (ToolOutcomeCommitted op st n err rec d)" by blast
  then show ?thesis by (auto simp: tool_step_defs durable_def split: if_splits)
qed

lemma model_status_after:
  assumes "well_formed s" and "append_fact th turn pr (ModelFact f) s = Inr t"
    and "f = ModelAttemptCompleted op att resp provider usg \<and> st = MCompleted
       \<or> f = ModelAttemptDispatched op att w now lease \<and> st = MDispatched"
  shows "\<exists>m. tget (model_operations (proj t)) op = Some m \<and> mo_status m = st"
proof -
  have "addressed th (proj s) (ModelFact f)" using assms(3) by auto
  from append_reduces [OF assms(1,2) this] obtain r q where
    "apply_record (counted (proj s)) r = Inr q" "proj t = durable q" "rr_fact r = ModelFact f" by blast
  with assms(3) show ?thesis
    by (auto simp: apply_record_def apply_fact_def supported_version_def set_op_status_def mod_model_op_def mod_attempt_def
        tmod_eq_Inr advance_def touch_thread_def mod_thread_def mod_turn_def turn_of_def durable_def split: if_splits)
qed

section \<open>Tool outcomes\<close>

lemma outcome_moves:
  assumes "well_formed s" and "commit_tool_operation_outcome req op gen fence v s = Inr (True, t)"
  shows "\<exists>y. tget (tool_operations (proj t)) op = Some y \<and> to_status y \<noteq> TRunning"
proof -
  from assms(2) obtain x u where v: "or_status v \<in> {TSucceeded, TFailed, TUnknown}"
    and a: "tool_fact_by x ''runtime'' (ToolFact (ToolOutcomeCommitted op (or_status v) (or_attempts v)
             (or_error v) (or_reconcile v) (or_duration v))) s = Inr u"
    and rest: "chain (if or_status v = TUnknown
              then [ask_reconciliation x ''runtime'' req (unknown_request x gen v), pause_tool_turn x ''runtime'']
              else []) u = Inr t"
    by (auto simp: commit_tool_operation_outcome_def split: if_splits)
  from tool_status_after [OF assms(1) a [unfolded tool_fact_by_def]] obtain y where
    y: "tget (tool_operations (proj u)) op = Some y" "to_status y = or_status v" by blast
  from append_well_formed [OF assms(1) a [unfolded tool_fact_by_def]] have wf: "well_formed u" .
  have "runs (- tool_facts) u (chain (if or_status v = TUnknown
      then [ask_reconciliation x ''runtime'' req (unknown_request x gen v), pause_tool_turn x ''runtime''] else []) u)"
    by (rule footprints run_control | auto; fail)+
  from tools_same.same [OF runsD [OF this rest] wf] y v show ?thesis by auto
qed

lemma no_second_outcome:
  assumes "tget (tool_operations (proj s)) op = Some y" and "to_status y \<noteq> TRunning"
    and "commit_tool_operation_outcome req op gen fence v s = Inr (b, t)"
  shows "\<not> b \<and> t = s"
  using assms by (auto simp: commit_tool_operation_outcome_def read_tool_operation_def require_def current_claim_def
      split: if_splits)

section \<open>Model responses\<close>

lemma response_moves:
  assumes "well_formed s" and "complete_model_attempt fresh riid op att gen v s = Inr (True, t)"
  shows "\<exists>m. tget (model_operations (proj t)) op = Some m \<and> mo_status m = MCompleted"
proof -
  from assms(2) obtain m u where m: "tget (model_operations (proj s)) op = Some m"
    and fin: "(if is_summary m then Inr s else finish_model_outputs fresh op att gen (re_outputs v) s) = Inr u"
    and c: "commit_response riid m att v u = Inr t"
    by (auto simp: complete_model_attempt_def read_model_operation_def require_def split: if_splits option.splits)
  have id: "mo_id m = op" using assms(1) m by (auto simp: well_formed_def projection_ok_def intro: table_ok_ident)
  have "runs UNIV s (if is_summary m then Inr s else finish_model_outputs fresh op att gen (re_outputs v) s)"
    by (rule footprints run_control subset_UNIV)+
  from forms.keeps [OF runsD [OF this fin] assms(1)] have wf: "well_formed u" .
  from c obtain w where a: "model_fact_by m ''runtime'' (ModelFact (ModelAttemptCompleted (mo_id m) att riid
      (re_provider v) (re_usage v))) u = Inr w"
    and rest: "chain [attempt_outcome m att (OutSettled (re_usage v)) ''runtime'',
      model_fact_by m ''model'' (ItemFact (ItemStarted riid
        (if is_summary m then ''context_summary_response'' else ''model_response'') (response_meta (is_summary m) att))),
      (\<lambda>s. ebind (read_turn s (mo_turn m)) (\<lambda>tu. model_fact_by m ''model''
        (ItemFact (ItemCompleted riid None (committed_response (is_summary m) (tu_binding tu) v))) s))] w = Inr t"
    by (auto simp: commit_response_def)
  from model_status_after [OF wf a [unfolded model_fact_by_def]] id obtain n where
    n: "tget (model_operations (proj w)) op = Some n" "mo_status n = MCompleted" by blast
  from append_well_formed [OF wf a [unfolded model_fact_by_def]] have w: "well_formed w" .
  have "runs (- model_facts) w (chain [attempt_outcome m att (OutSettled (re_usage v)) ''runtime'',
      model_fact_by m ''model'' (ItemFact (ItemStarted riid
        (if is_summary m then ''context_summary_response'' else ''model_response'') (response_meta (is_summary m) att))),
      (\<lambda>s. ebind (read_turn s (mo_turn m)) (\<lambda>tu. model_fact_by m ''model''
        (ItemFact (ItemCompleted riid None (committed_response (is_summary m) (tu_binding tu) v))) s))] w)"
    unfolding model_fact_by_def by (rule footprints run_control | auto; fail)+
  from models_same.same [OF runsD [OF this rest] w] n show ?thesis by auto
qed

lemma no_second_response:
  assumes "tget (model_operations (proj s)) op = Some m" and "mo_status m = MCompleted"
    and "complete_model_attempt fresh riid op att gen v s = Inr (b, t)"
  shows "\<not> b \<and> t = s"
  using assms by (auto simp: complete_model_attempt_def read_model_operation_def require_def is_current_attempt_def
      attempt_is_active_def split: if_splits)

end
