(* ===== verification/Receipts.thy ===== *)
theory Receipts
  imports Once_Only
begin

text \<open>
  Requests that arrive twice. A host command and an input message carry an identity chosen by the
  sender; received a second time they change nothing and are not refused. The section on Items says
  what a committed Item looks like afterwards, which later proofs share.
\<close>

section \<open>Committed Items\<close>

lemma append_item_reduces:
  assumes "well_formed s" and "append_fact th turn pr (ItemFact f) s = Inr t" and "addressed th (proj s) (ItemFact f)"
  shows "\<exists>r q g. apply_record (counted (proj s)) r = Inr q \<and> proj t = durable q \<and> rr_fact r = ItemFact g
    \<and> rr_thread r = th \<and> rr_turn r = turn \<and> rr_producer r = pr
    \<and> (case f of ItemCompleted iid _ payload \<Rightarrow> \<exists>k. g = ItemCompleted iid k payload | _ \<Rightarrow> g = f)"
proof -
  from assms(2) obtain g where g: "enrich s (ItemFact f) = Inr g" and a: "append_record th turn pr g s = Inr t"
    by (auto simp: append_fact_def)
  from enrich_addressed [OF g] assms(3) have ad: "addressed th (proj s) g" by simp
  from assms(1) have "projection_ok (proj s)" by (simp add: well_formed_def)
  from append_record_refines [OF this ad a] obtain q where
    q: "apply_record (counted (proj s)) (make_record s th turn pr g) = Inr q" "proj t = durable q" by blast
  from g obtain h where h: "g = ItemFact h"
    "case f of ItemCompleted iid _ payload \<Rightarrow> \<exists>k. h = ItemCompleted iid k payload | _ \<Rightarrow> h = f"
    by (cases f) (auto split: option.splits)
  show ?thesis
    by (rule exI [of _ "make_record s th turn pr g"], rule exI [of _ q], rule exI [of _ h])
      (use q h in \<open>simp add: make_record_def\<close>)
qed

lemmas item_step_defs = apply_record_def apply_fact_def supported_version_def turn_of_def put_item_def mod_item_def
  bump_item_sequence_def tmod_eq_Inr lookup_def advance_def touch_thread_def mod_thread_def mod_turn_def

lemma item_started:
  assumes "well_formed s" and "append_fact th (Some tid) pr (ItemFact (ItemStarted iid kind meta)) s = Inr t"
    and "tget (items (proj s)) iid = None"
  shows "(\<exists>it. tget (items (proj t)) iid = Some it \<and> it_thread it = th \<and> it_turn it = tid \<and> it_kind it = kind
      \<and> it_producer it = pr) \<and> (\<forall>k. k \<noteq> iid \<longrightarrow> tget (items (proj t)) k = tget (items (proj s)) k)"
proof -
  have "addressed th (proj s) (ItemFact (ItemStarted iid kind meta))" using assms(3) by simp
  from append_item_reduces [OF assms(1,2) this] obtain r q where
    "apply_record (counted (proj s)) r = Inr q" "proj t = durable q" "rr_fact r = ItemFact (ItemStarted iid kind meta)"
    "rr_thread r = th" "rr_turn r = Some tid" "rr_producer r = pr" by auto
  then show ?thesis by (auto simp: item_step_defs durable_def counted_def split: if_splits)
qed

lemma item_completed:
  assumes "well_formed s" and "append_fact th (Some tid) pr (ItemFact (ItemCompleted iid kind payload)) s = Inr t"
    and "tget (items (proj s)) iid = Some it"
  shows "(\<exists>x. tget (items (proj t)) iid = Some x \<and> it_thread x = it_thread it \<and> it_turn x = it_turn it \<and> it_kind x = it_kind it
      \<and> it_producer x = it_producer it \<and> it_status x = ItemCompletedStatus \<and> it_payload x = payload)
    \<and> (\<forall>k. k \<noteq> iid \<longrightarrow> tget (items (proj t)) k = tget (items (proj s)) k)"
proof -
  have "addressed th (proj s) (ItemFact (ItemCompleted iid kind payload))" by simp
  from append_item_reduces [OF assms(1,2) this] obtain r q k where
    "apply_record (counted (proj s)) r = Inr q" "proj t = durable q" "rr_fact r = ItemFact (ItemCompleted iid k payload)"
    by auto
  with assms(3) show ?thesis by (auto simp: item_step_defs durable_def counted_def split: if_splits)
qed

lemma committed_item:
  assumes "well_formed s" and "commit_item th tid pr iid kind meta payload s = Inr t" and "tget (items (proj s)) iid = None"
  shows "\<exists>it. tget (items (proj t)) iid = Some it \<and> it_thread it = th \<and> it_turn it = tid \<and> it_kind it = kind
      \<and> it_producer it = pr \<and> it_payload it = payload \<and> it_status it = ItemCompletedStatus"
    and "k \<noteq> iid \<Longrightarrow> tget (items (proj t)) k = tget (items (proj s)) k" and "well_formed t"
proof -
  from assms(2) obtain u where
    u: "append_fact th (Some tid) pr (ItemFact (ItemStarted iid kind meta)) s = Inr u"
    and t: "append_fact th (Some tid) pr (ItemFact (ItemCompleted iid None payload)) u = Inr t"
    by (auto simp: commit_item_def)
  from item_started [OF assms(1) u assms(3)] obtain it where
    it: "tget (items (proj u)) iid = Some it" "it_thread it = th" "it_turn it = tid" "it_kind it = kind" "it_producer it = pr"
    and same: "\<And>k. k \<noteq> iid \<Longrightarrow> tget (items (proj u)) k = tget (items (proj s)) k" by blast
  note fin = item_completed [OF append_well_formed [OF assms(1) u] t it(1)]
  from fin it show "\<exists>it. tget (items (proj t)) iid = Some it \<and> it_thread it = th \<and> it_turn it = tid \<and> it_kind it = kind
      \<and> it_producer it = pr \<and> it_payload it = payload \<and> it_status it = ItemCompletedStatus" by auto
  from fin same show "k \<noteq> iid \<Longrightarrow> tget (items (proj t)) k = tget (items (proj s)) k" by simp
  show "well_formed t" by (rule append_well_formed [OF append_well_formed [OF assms(1) u] t])
qed


text \<open>An Item fact changes no other Item, whether its own is new or not.\<close>

fun item_target :: "item_fact \<Rightarrow> string" where
  "item_target (ItemStarted iid _ _) = iid"
| "item_target (ItemCompleted iid _ _) = iid"
| "item_target (ArtifactCommitted aid _ _ _ _) = []"

lemma slice_item: "tget (items (load_slice p r)) k = Some x \<Longrightarrow> tget (items p) k = Some x"
  using slice_parts(3) [of p r] by (auto simp: part_of_def)

lemma enrich_target: "enrich s (ItemFact f) = Inr g \<Longrightarrow> \<exists>h. g = ItemFact h \<and> item_target h = item_target f"
  by (cases f) (auto split: option.splits)

lemma item_other:
  assumes "well_formed s" and "append_fact th turn pr (ItemFact f) s = Inr t" and "k \<noteq> item_target f"
  shows "tget (items (proj t)) k = tget (items (proj s)) k"
proof -
  from assms(2) obtain g where g: "enrich s (ItemFact f) = Inr g" and a: "append_record th turn pr g s = Inr t"
    by (auto simp: append_fact_def)
  from enrich_target [OF g] assms(3) obtain h where h: "g = ItemFact h" "k \<noteq> item_target h" by auto
  let ?r = "make_record s th turn pr g"
  from a obtain s' where s': "apply_record (load_slice (proj s) ?r) ?r = Inr s'"
    and t: "proj t = persist_slice (rr_seq ?r) s' (proj s)"
    by (auto simp: append_record_def Let_def split: if_splits)
  from assms(1) have p: "projection_ok (proj s)" by (simp add: well_formed_def)
  from projection_ok_apply_record [OF projection_ok_slice [OF p] s']
  have d: "distinct (tkeys (items s'))" by (simp add: projection_ok_def table_ok_def)
  have "tget (items s') k = tget (items (load_slice (proj s) ?r)) k"
    using s' h by (cases h) (auto simp: item_step_defs put_artifact_def make_record_def split: if_splits)
  moreover have "merge_item x x = x" for x by (simp add: merge_item_def)
  ultimately show ?thesis
    using tget_persist_rows [OF d, of it_seq merge_item "rr_seq ?r" "items (proj s)" k]
    by (auto simp: t persist_slice_tables split: option.splits dest: slice_item)
qed

lemma commit_item_other:
  assumes "well_formed s" and "commit_item th tid pr iid kind meta payload s = Inr t" and "k \<noteq> iid"
  shows "tget (items (proj t)) k = tget (items (proj s)) k \<and> well_formed t"
proof -
  from assms(2) obtain u where
    u: "append_fact th (Some tid) pr (ItemFact (ItemStarted iid kind meta)) s = Inr u"
    and t: "append_fact th (Some tid) pr (ItemFact (ItemCompleted iid None payload)) u = Inr t"
    by (auto simp: commit_item_def)
  have w: "well_formed u" by (rule append_well_formed [OF assms(1) u])
  from item_other [OF assms(1) u, of k] item_other [OF w t, of k] append_well_formed [OF w t] assms(3)
  show ?thesis by simp
qed

lemma commit_files_other:
  "well_formed s \<Longrightarrow> commit_files th tid files s = Inr t \<Longrightarrow> k \<notin> fst ` set files \<Longrightarrow>
     tget (items (proj t)) k = tget (items (proj s)) k \<and> well_formed t"
proof (induction files arbitrary: s)
  case Nil
  then show ?case by (simp add: commit_files_def)
next
  case (Cons f files)
  obtain iid v where f: "f = (iid, v)" by (cases f)
  with Cons.prems(2) obtain u where
    u: "commit_item th tid ''user'' iid ''input_file'' (JObj []) v s = Inr u" and t: "commit_files th tid files u = Inr t"
    by (auto simp: commit_files_def)
  from Cons.prems(3) f have k: "k \<noteq> iid" "k \<notin> fst ` set files" by auto
  from commit_item_other [OF Cons.prems(1) u k(1)] have "tget (items (proj u)) k = tget (items (proj s)) k" "well_formed u"
    by simp_all
  with Cons.IH [OF _ t k(2)] show ?case by simp
qed

section \<open>Input messages\<close>

lemma receive_turn_input_again:
  assumes "well_formed s" and "receive_turn_input fresh digest thid tid text files (Some iid) paths s = Inr t"
    and "iid \<notin> fst ` set files"
  shows "receive_turn_input fresh' digest thid tid text files' (Some iid) paths t = Inr t"
proof (cases "tget (items (proj s)) iid")
  case (Some it)
  with assms(2) have "t = s" by (auto simp: receive_turn_input_def split: if_splits)
  with Some assms(2) show ?thesis by (auto simp: receive_turn_input_def split: if_splits)
next
  case None
  let ?payload = "input_payload text (user_input_revision s tid + 1) (Some (digest, map_option (input_request text) paths))"
  from assms(2) None obtain u where plain: "\<not> blank text" "\<not> blank iid"
    and u: "commit_item thid tid ''user'' iid ''user_message'' (JObj []) ?payload s = Inr u"
    and t: "commit_files thid tid files u = Inr t"
    by (auto simp: receive_turn_input_def split: if_splits option.splits)
  from committed_item [OF assms(1) u None] obtain it where
    it: "tget (items (proj u)) iid = Some it" "it_thread it = thid" "it_turn it = tid" "it_kind it = ''user_message''"
      "it_producer it = ''user''" "it_payload it = ?payload" and w: "well_formed u" by auto
  from commit_files_other [OF w t assms(3)] it(1) have "tget (items (proj t)) iid = Some it" by simp
  moreover have "receipt_matches it thid tid digest (map_option (input_request text) paths)"
    using it by (auto simp: receipt_matches_def input_payload_def jget_def split: option.splits)
  ultimately show ?thesis using plain by (simp add: receive_turn_input_def)
qed

section \<open>Host commands\<close>

lemma received_command:
  assumes "well_formed s" and "append_fact th None pr (HostFact (HostCommandReceived cid tid kind digest payload)) s = Inr t"
    and "tget (host_commands (proj s)) cid = None"
  shows "\<exists>c. tget (host_commands (proj t)) cid = Some c \<and> hc_request_hash c = digest"
proof -
  have "addressed th (proj s) (HostFact (HostCommandReceived cid tid kind digest payload))" using assms(3) by simp
  from append_reduces [OF assms(1,2) this] obtain r q where
    "apply_record (counted (proj s)) r = Inr q" "proj t = durable q"
    "rr_fact r = HostFact (HostCommandReceived cid tid kind digest payload)" by blast
  then show ?thesis by (auto simp: host_step_defs durable_def split: if_splits)
qed

lemma receive_command_again:
  assumes "well_formed s"
    and "receive_command sha name_hash is_origin database is_dir resolve uid workspace kind payload (Some cid) thid tid s = Inr t"
  shows "receive_command sha name_hash is_origin database is_dir resolve uid' workspace kind payload (Some cid) thid tid t = Inr t"
proof -
  from assms(2) obtain pl where kind: "kind \<in> set (control_kinds @ driver_kinds)"
    and pl: "command_identities name_hash uid kind (Some cid) thid tid = Inr pl"
    by (auto simp: receive_command_def split: if_splits)
  from pl have pl': "command_identities name_hash uid' kind (Some cid) thid tid = Inr pl"
    by (simp add: command_identities_def)
  let ?d = "sha (command_identity workspace kind (cp_thread pl) (cp_turn pl) payload)"
  show ?thesis
  proof (cases "tget (host_commands (proj s)) (cp_command pl)")
    case (Some prior)
    with assms(2) kind pl have "t = s" by (auto simp: receive_command_def Let_def split: if_splits)
    with Some assms(2) kind pl pl' show ?thesis by (auto simp: receive_command_def Let_def split: if_splits)
  next
    case None
    with assms(2) kind pl obtain u where
      u: "admit_thread is_dir workspace kind (cp_thread pl) s = Inr u"
      and a: "append_fact (cp_thread pl) None ''host''
        (HostFact (HostCommandReceived (cp_command pl) (cp_turn pl) kind ?d payload)) u = Inr t"
      by (auto simp: receive_command_def Let_def split: if_splits option.splits)
    have "runs thread_facts s (admit_thread is_dir workspace kind (cp_thread pl) s)" by (rule footprints subset_refl)+
    from runsD [OF this u] have g: "appends (- host_facts) s u" by (rule appends_mono) auto
    from commands_same.same [OF g assms(1)] None have "well_formed u" "tget (host_commands (proj u)) (cp_command pl) = None"
      by simp_all
    from received_command [OF this(1) a this(2)] kind pl' show ?thesis
      by (auto simp: receive_command_def Let_def)
  qed
qed

end
