(* ===== verification/Ledger.thy ===== *)
theory Ledger
  imports Receipts
begin

text \<open>
  The budget of a Turn lives twice: as reservation rows in the store, and as the \<open>budget_state\<close> that
  \<open>read_budget_state\<close> adds up from them for the pure accounting of \<open>budget.py\<close>. A fact about a
  reservation moves one row; this theory shows that it moves the state exactly as the accounting
  function of the same name does.
\<close>

section \<open>One reservation row moves\<close>

text \<open>The rows of a Turn with one row in the middle.\<close>

definition rows_around :: "store \<Rightarrow> string \<Rightarrow> reservation_row list \<Rightarrow> reservation_row \<Rightarrow> reservation_row list \<Rightarrow> bool" where
  "rows_around s tid us x vs \<longleftrightarrow> turn_reservations s tid = us @ x # vs"

lemma tput_around:
  assumes "tget t k = Some x" and "P x" and "P y"
  shows "\<exists>us vs. select_rows P t = us @ x # vs \<and> select_rows P (tput k y t) = us @ y # vs"
proof -
  from tput_split [OF assms(1)] obtain us vs where "t = us @ (k, x) # vs" "\<And>q. tput k q t = us @ (k, q) # vs" by blast
  then show ?thesis
    using assms(2,3) by (auto simp: select_rows_def trows_def)
qed

fun reservation_move :: "budget_fact \<Rightarrow> (string \<times> reservation_status list \<times> (reservation_row \<Rightarrow> reservation_row)) option" where
  "reservation_move (BudgetDispatched rid) = Some (rid, [Reserved], \<lambda>x. x\<lparr>rs_status := Dispatched\<rparr>)"
| "reservation_move (BudgetSettled rid actual) =
     Some (rid, [Reserved, Dispatched, Unknown], \<lambda>x. x\<lparr>rs_status := Settled, rs_actual := actual\<rparr>)"
| "reservation_move (BudgetReleased rid) = Some (rid, [Reserved, Dispatched, Unknown], \<lambda>x. x\<lparr>rs_status := Released\<rparr>)"
| "reservation_move (BudgetUnknown rid) = Some (rid, [Dispatched], \<lambda>x. x\<lparr>rs_status := Unknown\<rparr>)"
| "reservation_move _ = None"

lemma moved_reservation:
  assumes "well_formed s" and "append_fact th turn pr (BudgetFact f) s = Inr t" and "reservation_move f = Some (rid, allowed, g)"
  shows "\<exists>x n. tget (budget_reservations (proj s)) rid = Some x \<and> rs_status x \<in> set allowed
    \<and> budget_reservations (proj t) = tput rid ((g x)\<lparr>rs_seq := n\<rparr>) (budget_reservations (proj s))
    \<and> child_budget_allocations (proj t) = child_budget_allocations (proj s)"
proof -
  have "addressed th (proj s) (BudgetFact f)" using assms(3) by (cases f) auto
  from append_reduces [OF assms(1,2) this] obtain r q where
    q: "apply_record (counted (proj s)) r = Inr q" "proj t = durable q" "rr_fact r = BudgetFact f" by blast
  have "\<exists>x. tget (budget_reservations (proj s)) rid = Some x \<and> rs_status x \<in> set allowed
    \<and> budget_reservations (proj t) = tput rid ((g x)\<lparr>rs_seq := rr_seq r\<rparr>) (budget_reservations (proj s))
    \<and> child_budget_allocations (proj t) = child_budget_allocations (proj s)"
    using q assms(3)
    by (cases f) (auto simp: apply_record_def apply_fact_def supported_version_def move_reservation_def lookup_def
        mod_reservation_def tmod_eq_Inr advance_def touch_thread_def mod_thread_def mod_turn_def turn_of_def
        durable_def counted_def split: if_splits)
  then show ?thesis by blast
qed

text \<open>Nothing else that the budget state is read from changes.\<close>

definition budget_base :: "store \<Rightarrow> string \<Rightarrow> (turn_row option \<times> tool_op_row table \<times> model_op_row table \<times> attempt_row table)" where
  "budget_base s tid = (turn_cores (proj s) tid, tool_operations (proj s), model_operations (proj s), model_attempts (proj s))"

lemma budget_fact_base:
  assumes "well_formed s" and "append_fact th turn pr (BudgetFact f) s = Inr t"
  shows "budget_base t tid = budget_base s tid" and "tool_duration t h tid = tool_duration s h tid"
proof -
  from assms(1) have p: "projection_ok (proj s)" by (simp add: well_formed_def)
  from any_append_turns [OF p assms(2)] have "turn_cores (proj t) = turn_cores (proj s)" by simp
  with any_append_tools [OF assms(2)] any_append_models [OF assms(2)]
  show "budget_base t tid = budget_base s tid" by (simp add: budget_base_def)
  from assms(2) obtain r where "log t = log s @ [r]" "rr_fact r = BudgetFact f" by (rule append_shape) auto
  then show "tool_duration t h tid = tool_duration s h tid"
    by (simp add: tool_duration_def list_records_def)
qed

lemma read_turn_cores: "read_turn s tid = (case tget (turns (proj s)) tid of None \<Rightarrow> Inl (KeyError ''unknown turn'') | Some tu \<Rightarrow> Inr tu)"
  by (simp add: read_turn_def require_def)

lemma untracked_same:
  assumes "budget_base t tid = budget_base s tid"
    and "rs_attempt ` set (turn_reservations t tid) = rs_attempt ` set (turn_reservations s tid)"
  shows "untracked_amount t tid = untracked_amount s tid"
  using assms by (simp add: untracked_amount_def budget_base_def list_model_attempts_def list_model_operations_def)

lemma core_binding: "tu_binding (turn_core tu) = tu_binding tu"
  by (simp add: turn_core_def)

lemma budget_after:
  assumes "budget_base t tid = budget_base s tid" and "\<And>h. tool_duration t h tid = tool_duration s h tid"
    and "child_budget_allocations (proj t) = child_budget_allocations (proj s)"
    and "rs_attempt ` set (turn_reservations t tid) = rs_attempt ` set (turn_reservations s tid)"
    and "read_budget_state s tid = Inr b"
  shows "\<exists>rest. used b = settled_amount (turn_reservations s tid) + rest
    \<and> reserved b = held_amount [Reserved, Dispatched] (turn_reservations s tid)
    \<and> uncertain b = held_amount [Unknown] (turn_reservations s tid)
    \<and> read_budget_state t tid = Inr (b\<lparr>used := settled_amount (turn_reservations t tid) + rest,
        reserved := held_amount [Reserved, Dispatched] (turn_reservations t tid),
        uncertain := held_amount [Unknown] (turn_reservations t tid)\<rparr>)"
proof -
  from assms(5) obtain tu where tu: "tget (turns (proj s)) tid = Some tu"
    by (auto simp: read_budget_state_def read_turn_cores split: option.splits)
  with assms(1) obtain tu' where tu': "tget (turns (proj t)) tid = Some tu'" "turn_core tu' = turn_core tu"
    by (auto simp: budget_base_def turn_cores_def split: option.splits)
  then have fields: "tu_binding tu' = tu_binding tu" "tu_thread tu' = tu_thread tu"
    using core_binding [of tu'] core_binding [of tu] core_fields(2) by metis+
  have tools: "tool_amount t th tid = tool_amount s th tid" for th
    using assms(1,2) by (simp add: tool_amount_def budget_base_def list_tool_operations_def)
  have children: "child_allocations t tid = child_allocations s tid"
    using assms(3) by (simp add: child_allocations_def)
  note un = untracked_same [OF assms(1,4)]
  from assms(5) tu obtain a where "tool_amount s (tu_thread tu) tid = Inr a"
    by (auto simp: read_budget_state_def read_turn_cores)
  with assms(5) tu tu'(1) fields show ?thesis
    by (auto simp: read_budget_state_def read_turn_cores tools children un Let_def add.assoc
        intro!: exI [of _ "untracked_amount s tid + (a + child_used (child_allocations s tid))"])
qed


section \<open>The moves refine the accounting\<close>

definition holds_ok :: "store \<Rightarrow> string \<Rightarrow> bool" where
  "holds_ok s tid \<longleftrightarrow> list_all (\<lambda>x. usage_ok (rs_reserved x)) (turn_reservations s tid)"

lemma usage_ok_held: "list_all (\<lambda>x. usage_ok (rs_reserved x)) rows \<Longrightarrow> usage_ok (held_amount sts rows)"
  by (auto simp: held_amount_def list_all_iff intro: usage_ok_sum_list)

lemma held_append: "held_amount sts (us @ vs) = held_amount sts us + held_amount sts vs"
  by (simp add: held_amount_def)

lemma held_Cons: "held_amount sts (x # vs) = (if rs_status x \<in> set sts then rs_reserved x else 0) + held_amount sts vs"
  by (simp add: held_amount_def)

lemma settled_append: "settled_amount (us @ vs) = settled_amount us + settled_amount vs"
  by (simp add: settled_amount_def)

lemma settled_Cons: "settled_amount (x # vs) = (if rs_status x = Settled then rs_actual x else 0) + settled_amount vs"
  by (simp add: settled_amount_def)

lemma floor_middle: "usage_ok (a + b) \<Longrightarrow> subtract_floor_zero (a + (r + b)) r = a + b"
  using subtract_floor_zero_add [of "a + b" r] by (simp add: ac_simps)

lemma reservation_moves:
  assumes "well_formed s" and "append_fact th turn pr (BudgetFact f) s = Inr t" and "reservation_move f = Some (rid, allowed, g)"
    and "read_budget_state s tid = Inr b" and "tget (budget_reservations (proj s)) rid = Some x" and "rs_turn x = tid"
    and "holds_ok s tid"
  shows "\<exists>us vs rest y. rs_status x \<in> set allowed \<and> y = g x \<and> (\<forall>sts. usage_ok (held_amount sts us + held_amount sts vs))
    \<and> used b = settled_amount (us @ x # vs) + rest \<and> reserved b = held_amount [Reserved, Dispatched] (us @ x # vs)
    \<and> uncertain b = held_amount [Unknown] (us @ x # vs)
    \<and> read_budget_state t tid = Inr (b\<lparr>used := settled_amount (us @ y # vs) + rest,
        reserved := held_amount [Reserved, Dispatched] (us @ y # vs), uncertain := held_amount [Unknown] (us @ y # vs)\<rparr>)"
proof -
  from moved_reservation [OF assms(1-3)] assms(5) obtain n where
    st: "rs_status x \<in> set allowed"
    and rows: "budget_reservations (proj t) = tput rid ((g x)\<lparr>rs_seq := n\<rparr>) (budget_reservations (proj s))"
    and ch: "child_budget_allocations (proj t) = child_budget_allocations (proj s)" by auto
  let ?y = "(g x)\<lparr>rs_seq := n\<rparr>"
  have g: "rs_turn (g x) = rs_turn x" "rs_attempt (g x) = rs_attempt x" using assms(3) by (cases f; auto)+
  from tput_around [OF assms(5), of "\<lambda>x. rs_turn x = tid" ?y] assms(6) g obtain us vs where
    s: "turn_reservations s tid = us @ x # vs" and t: "turn_reservations t tid = us @ ?y # vs"
    by (auto simp: turn_reservations_def rows)
  have "rs_attempt ` set (turn_reservations t tid) = rs_attempt ` set (turn_reservations s tid)"
    by (simp add: s t g)
  from budget_after [OF budget_fact_base [OF assms(1,2)] ch this assms(4)] obtain rest where
    "used b = settled_amount (us @ x # vs) + rest" "reserved b = held_amount [Reserved, Dispatched] (us @ x # vs)"
    "uncertain b = held_amount [Unknown] (us @ x # vs)"
    "read_budget_state t tid = Inr (b\<lparr>used := settled_amount (us @ ?y # vs) + rest,
        reserved := held_amount [Reserved, Dispatched] (us @ ?y # vs), uncertain := held_amount [Unknown] (us @ ?y # vs)\<rparr>)"
    unfolding s t by blast
  moreover have "\<forall>sts. usage_ok (held_amount sts us + held_amount sts vs)"
    using assms(7) by (simp add: holds_ok_def s usage_ok_held)
  ultimately have "used b = settled_amount (us @ x # vs) + rest \<and> reserved b = held_amount [Reserved, Dispatched] (us @ x # vs)
    \<and> uncertain b = held_amount [Unknown] (us @ x # vs)
    \<and> read_budget_state t tid = Inr (b\<lparr>used := settled_amount (us @ g x # vs) + rest,
        reserved := held_amount [Reserved, Dispatched] (us @ g x # vs), uncertain := held_amount [Unknown] (us @ g x # vs)\<rparr>)
    \<and> (\<forall>sts. usage_ok (held_amount sts us + held_amount sts vs))"
    by (simp add: settled_append settled_Cons held_append held_Cons)
  with st show ?thesis by blast
qed

text \<open>The accounting function of a reservation fact.\<close>

fun account :: "budget_fact \<Rightarrow> budget_state \<Rightarrow> budget_reservation \<Rightarrow> budget_mutation result" where
  "account (BudgetDispatched _) b r = mark_dispatched b r"
| "account (BudgetSettled _ actual) b r = settle b r actual"
| "account (BudgetReleased _) b r = release b r"
| "account (BudgetUnknown _) b r = mark_unknown b r"
| "account _ b r = Inl (TypeError ''reservation'')"

lemma moves_refine:
  assumes "well_formed s" and "append_fact th turn pr (BudgetFact f) s = Inr t" and "reservation_move f = Some (rid, allowed, g)"
    and "read_budget_state s tid = Inr b" and "tget (budget_reservations (proj s)) rid = Some x" and "rs_turn x = tid"
    and "holds_ok s tid"
  shows "\<exists>b' r'. account f b (reservation_of x) = Inr (b', r') \<and> read_budget_state t tid = Inr b'"
proof -
  from reservation_moves [OF assms] obtain us vs rest where
    st: "rs_status x \<in> set allowed"
    and floor: "\<And>sts r. subtract_floor_zero (held_amount sts us + (r + held_amount sts vs)) r = held_amount sts us + held_amount sts vs"
    and b: "used b = settled_amount (us @ x # vs) + rest" "reserved b = held_amount [Reserved, Dispatched] (us @ x # vs)"
      "uncertain b = held_amount [Unknown] (us @ x # vs)"
    and t: "read_budget_state t tid = Inr (b\<lparr>used := settled_amount (us @ g x # vs) + rest,
        reserved := held_amount [Reserved, Dispatched] (us @ g x # vs), uncertain := held_amount [Unknown] (us @ g x # vs)\<rparr>)"
    using floor_middle by blast
  let ?r = "reservation_of x"
  have parts: "used b = settled_amount us + ((if rs_status x = Settled then rs_actual x else 0) + settled_amount vs) + rest"
    "reserved b = held_amount [Reserved, Dispatched] us
      + ((if rs_status x \<in> {Reserved, Dispatched} then rs_reserved x else 0) + held_amount [Reserved, Dispatched] vs)"
    "uncertain b = held_amount [Unknown] us + ((if rs_status x = Unknown then rs_reserved x else 0) + held_amount [Unknown] vs)"
    by (simp_all add: b settled_append settled_Cons held_append held_Cons)
  note rows = settled_append settled_Cons held_append held_Cons
  show ?thesis
  proof (cases f)
    case (BudgetDispatched k)
    with assms(3) st have x: "rs_status x = Reserved" and g: "g x = x\<lparr>rs_status := Dispatched\<rparr>" by auto
    have "read_budget_state t tid = Inr b" unfolding t by (simp add: g x b rows)
    with x BudgetDispatched show ?thesis by (simp add: mark_dispatched_def reservation_of_def)
  next
    case (BudgetUnknown k)
    with assms(3) st have x: "rs_status x = Dispatched" and g: "g x = x\<lparr>rs_status := Unknown\<rparr>" by auto
    have "mark_unknown b (reservation_of x) = Inr (b\<lparr>reserved := held_amount [Reserved, Dispatched] us + held_amount [Reserved, Dispatched] vs,
        uncertain := uncertain b + rs_reserved x\<rparr>, (reservation_of x)\<lparr>res_status := Unknown\<rparr>)"
      using x by (simp add: mark_unknown_def reservation_of_def parts floor)
    with BudgetUnknown t x g show ?thesis by (simp add: parts rows ac_simps)
  next
    case (BudgetSettled k actual)
    with assms(3) st have x: "rs_status x \<in> {Reserved, Dispatched, Unknown}"
      and g: "g x = x\<lparr>rs_status := Settled, rs_actual := actual\<rparr>" by auto
    from x have "read_budget_state t tid = Inr ((if rs_status x = Unknown
        then b\<lparr>uncertain := held_amount [Unknown] us + held_amount [Unknown] vs\<rparr>
        else b\<lparr>reserved := held_amount [Reserved, Dispatched] us + held_amount [Reserved, Dispatched] vs\<rparr>)
          \<lparr>used := used b + actual\<rparr>)"
      unfolding t by (auto simp: g b rows ac_simps)
    with x BudgetSettled show ?thesis by (auto simp: settle_def reservation_of_def Let_def parts floor)
  next
    case (BudgetReleased k)
    with assms(3) st have x: "rs_status x \<in> {Reserved, Dispatched, Unknown}" and g: "g x = x\<lparr>rs_status := Released\<rparr>" by auto
    from x have "read_budget_state t tid = Inr (if rs_status x = Unknown
        then b\<lparr>uncertain := held_amount [Unknown] us + held_amount [Unknown] vs\<rparr>
        else b\<lparr>reserved := held_amount [Reserved, Dispatched] us + held_amount [Reserved, Dispatched] vs\<rparr>)"
      unfolding t by (auto simp: g b rows)
    with x BudgetReleased show ?thesis by (auto simp: release_def reservation_of_def parts floor)
  qed (use assms(3) in simp_all)
qed


section \<open>A new reservation\<close>

definition uncompleted :: "store \<Rightarrow> string \<Rightarrow> bool" where
  "uncompleted s att \<longleftrightarrow> list_all (\<lambda>a. ma_id a = att \<longrightarrow> ma_status a \<noteq> ACompleted) (trows (model_attempts (proj s)))"

lemma new_reservation:
  assumes "well_formed s" and "append_fact th (Some tid) pr (BudgetFact (BudgetReserved rid scope op att amount)) s = Inr t"
    and fresh: "tget (budget_reservations (proj s)) rid = None"
  shows "\<exists>x. rs_turn x = tid \<and> rs_attempt x = att \<and> rs_reserved x = amount \<and> rs_status x = Reserved
    \<and> turn_reservations t tid = turn_reservations s tid @ [x]
    \<and> child_budget_allocations (proj t) = child_budget_allocations (proj s)"
proof -
  have "addressed th (proj s) (BudgetFact (BudgetReserved rid scope op att amount))" using fresh by simp
  from append_reduces [OF assms(1,2) this] obtain r q where
    q: "apply_record (counted (proj s)) r = Inr q" "proj t = durable q"
      "rr_fact r = BudgetFact (BudgetReserved rid scope op att amount)" "rr_turn r = Some tid" by blast
  then show ?thesis
    using trows_tput_fresh [of rid "budget_reservations (proj s)"] fresh
    by (auto simp: apply_record_def apply_fact_def supported_version_def put_reservation_def advance_def touch_thread_def
        mod_thread_def mod_turn_def tmod_eq_Inr turn_of_def durable_def counted_def turn_reservations_def select_rows_def
        tget_None_iff split: if_splits)
qed


lemma untracked_new:
  assumes "budget_base t tid = budget_base s tid" and "uncompleted s att"
    and "turn_reservations t tid = turn_reservations s tid @ [x]" and "rs_attempt x = att"
  shows "untracked_amount t tid = untracked_amount s tid"
proof -
  have "a \<in> set (list_model_attempts s op) \<Longrightarrow> ma_id a = att \<Longrightarrow> ma_status a \<noteq> ACompleted" for a op
    using assms(2) by (auto simp: uncompleted_def list_all_iff list_model_attempts_def select_rows_def)
  then have keep: "filter (\<lambda>a. ma_id a \<noteq> att \<and> ma_id a \<notin> rs_attempt ` set (turn_reservations s tid) \<and> ma_status a = ACompleted)
      (concat (map (\<lambda>m. list_model_attempts s (mo_id m)) ms))
    = filter (\<lambda>a. ma_id a \<notin> rs_attempt ` set (turn_reservations s tid) \<and> ma_status a = ACompleted)
      (concat (map (\<lambda>m. list_model_attempts s (mo_id m)) ms))" for ms
    by (intro filter_cong) auto
  have "list_model_attempts t = list_model_attempts s" "list_model_operations t tid = list_model_operations s tid"
    using assms(1) by (simp_all add: budget_base_def list_model_attempts_def list_model_operations_def fun_eq_iff)
  then have "untracked_amount t tid = sum_list (map (\<lambda>a. resource_usage_from_model_usage (ma_usage a))
     (filter (\<lambda>a. ma_id a \<noteq> att \<and> ma_id a \<notin> rs_attempt ` set (turn_reservations s tid) \<and> ma_status a = ACompleted)
       (concat (map (\<lambda>m. list_model_attempts s (mo_id m)) (list_model_operations s tid)))))"
    by (simp add: untracked_amount_def assms(3,4))
  then show ?thesis unfolding keep untracked_amount_def .
qed

lemma reserve_refines:
  assumes "well_formed s" and "append_fact th (Some tid) pr (BudgetFact (BudgetReserved rid scope op att amount)) s = Inr t"
    and "tget (budget_reservations (proj s)) rid = None" and "uncompleted s att" and "read_budget_state s tid = Inr b"
  shows "read_budget_state t tid = Inr (b\<lparr>reserved := reserved b + amount\<rparr>)"
proof -
  from new_reservation [OF assms(1-3)] obtain x where
    x: "rs_attempt x = att" "rs_reserved x = amount" "rs_status x = Reserved"
    and rows: "turn_reservations t tid = turn_reservations s tid @ [x]"
    and ch: "child_budget_allocations (proj t) = child_budget_allocations (proj s)" by blast
  note base = budget_fact_base [OF assms(1,2)]
  note un = untracked_new [OF base(1) assms(4) rows x(1)]
  from assms(5) obtain tu where tu: "tget (turns (proj s)) tid = Some tu"
    by (auto simp: read_budget_state_def read_turn_cores split: option.splits)
  with base(1) [of tid] obtain tu' where tu': "tget (turns (proj t)) tid = Some tu'" "turn_core tu' = turn_core tu"
    by (auto simp: budget_base_def turn_cores_def split: option.splits)
  then have fields: "tu_binding tu' = tu_binding tu" "tu_thread tu' = tu_thread tu"
    using core_binding [of tu'] core_binding [of tu] core_fields(2) by metis+
  have tools: "tool_amount t th tid = tool_amount s th tid" for th
    using base(1) [of tid] base(2) by (simp add: tool_amount_def budget_base_def list_tool_operations_def)
  have children: "child_allocations t tid = child_allocations s tid"
    using ch by (simp add: child_allocations_def)
  have sums: "settled_amount (rs @ [x]) = settled_amount rs" "held_amount [Unknown] (rs @ [x]) = held_amount [Unknown] rs"
    "held_amount [Reserved, Dispatched] (rs @ [x]) = held_amount [Reserved, Dispatched] rs + amount" for rs
    using x by (simp_all add: settled_append settled_Cons held_append held_Cons) (simp_all add: settled_amount_def held_amount_def)
  from assms(5) tu tu'(1) fields show ?thesis
    by (auto simp: read_budget_state_def read_turn_cores tools children un rows sums Let_def)
qed

end
