(* ===== verification/Call_Budget.thy ===== *)
theory Call_Budget
  imports Ledger
begin

text \<open>
  Sending a model call under the Turn's budget. \<open>dispatch_model_attempt\<close> reserves the amount of the
  call, records the dispatch and marks the reservation dispatched in one transaction; this theory
  adds the three moves up to one statement about the budget state.
\<close>

section \<open>The record of the dispatch\<close>

lemma dispatch_record:
  assumes "well_formed s" and "append_fact th turn pr (ModelFact (ModelAttemptDispatched op att w now lease)) s = Inr t"
  shows "\<exists>m m' a a'. tget (model_operations (proj s)) op = Some m \<and> model_operations (proj t) = tput op m' (model_operations (proj s))
    \<and> mo_id m' = mo_id m \<and> mo_turn m' = mo_turn m
    \<and> tget (model_attempts (proj s)) att = Some a \<and> model_attempts (proj t) = tput att a' (model_attempts (proj s))
    \<and> ma_id a = att \<and> ma_id a' = att"
proof -
  have "addressed th (proj s) (ModelFact (ModelAttemptDispatched op att w now lease))" by simp
  from append_reduces [OF assms this] obtain r q where
    q: "apply_record (counted (proj s)) r = Inr q" "proj t = durable q"
      "rr_fact r = ModelFact (ModelAttemptDispatched op att w now lease)" by blast
  have id: "tget (model_attempts (proj s)) att = Some a \<Longrightarrow> ma_id a = att" for a
    using assms(1) by (auto simp: well_formed_def projection_ok_def intro: table_ok_ident)
  from q obtain m a where m: "tget (model_operations (proj s)) op = Some m" and a: "tget (model_attempts (proj s)) att = Some a"
    and mt: "model_operations (proj t) = tput op (m\<lparr>mo_status := MDispatched, mo_seq := rr_seq r\<rparr>) (model_operations (proj s))"
    and at: "model_attempts (proj t) = tput att (a\<lparr>ma_status := ADispatched, ma_owner := Some w, ma_lease := Some lease,
        ma_seq := rr_seq r\<rparr>) (model_attempts (proj s))"
    by (auto simp: apply_record_def apply_fact_def supported_version_def set_op_status_def mod_model_op_def mod_attempt_def
        tmod_eq_Inr advance_def touch_thread_def mod_thread_def mod_turn_def turn_of_def durable_def counted_def split: if_splits)
  show ?thesis
    by (rule exI, rule exI, rule exI, rule exI) (intro conjI, rule m, rule mt, simp, simp, rule a, rule at, simp_all add: id [OF a])
qed

lemma attempts_dispatched:
  assumes "tget t att = Some a" and "ma_id a = att" and "ma_id a' = att" and "att \<in> T"
  shows "filter (\<lambda>x. ma_id x \<notin> T \<and> Q x) (sort_key ma_generation (select_rows P (tput att a' t)))
    = filter (\<lambda>x. ma_id x \<notin> T \<and> Q x) (sort_key ma_generation (select_rows P t))"
proof -
  from tput_split [OF assms(1)] obtain us vs where "t = us @ (att, a) # vs" "\<And>q. tput att q t = us @ (att, q) # vs" by blast
  with assms(2-4) have "filter (\<lambda>x. ma_id x \<notin> T \<and> Q x) (select_rows P (tput att a' t)) = filter (\<lambda>x. ma_id x \<notin> T \<and> Q x) (select_rows P t)"
    by (simp add: select_rows_def trows_def)
  then show ?thesis by (simp only: filter_sort)
qed

lemma operations_dispatched:
  assumes "tget t op = Some m" and "mo_id m' = mo_id m" and "mo_turn m' = mo_turn m"
  shows "map mo_id (select_rows (\<lambda>x. mo_turn x = tid) (tput op m' t)) = map mo_id (select_rows (\<lambda>x. mo_turn x = tid) t)"
  using tput_split [OF assms(1)] assms(2,3) by (auto simp: select_rows_def trows_def)

lemma untracked_dispatched:
  assumes "well_formed s" and "append_fact th turn pr (ModelFact (ModelAttemptDispatched op att w now lease)) s = Inr t"
    and "att \<in> rs_attempt ` set (turn_reservations s tid)"
  shows "untracked_amount t tid = untracked_amount s tid"
proof -
  from dispatch_record [OF assms(1,2)] obtain m m' a a' where
    ops: "tget (model_operations (proj s)) op = Some m" "mo_id m' = mo_id m" "mo_turn m' = mo_turn m"
    and mt: "model_operations (proj t) = tput op m' (model_operations (proj s))"
    and at: "model_attempts (proj t) = tput att a' (model_attempts (proj s))"
    and atts: "tget (model_attempts (proj s)) att = Some a" "ma_id a = att" "ma_id a' = att" by blast
  let ?T = "rs_attempt ` set (turn_reservations s tid)"
  have rows: "turn_reservations t tid = turn_reservations s tid"
    using any_append_budget(1) [OF assms(2)] by (simp add: turn_reservations_def)
  have expand: "filter P (concat (map (\<lambda>m. f (mo_id m)) ms)) = concat (map (\<lambda>k. filter P (f k)) (map mo_id ms))"
    for P :: "attempt_row \<Rightarrow> bool" and f and ms :: "model_op_row list"
    by (induction ms) simp_all
  have "map mo_id (list_model_operations t tid) = map mo_id (list_model_operations s tid)"
    unfolding list_model_operations_def mt by (rule operations_dispatched [OF ops])
  moreover have "filter (\<lambda>x. ma_id x \<notin> ?T \<and> ma_status x = ACompleted) (list_model_attempts t k)
      = filter (\<lambda>x. ma_id x \<notin> ?T \<and> ma_status x = ACompleted) (list_model_attempts s k)" for k
    unfolding list_model_attempts_def at by (rule attempts_dispatched [OF atts assms(3)])
  ultimately show ?thesis by (simp add: untracked_amount_def rows expand)
qed

lemma dispatch_keeps_budget:
  assumes "well_formed s" and "append_fact th turn pr (ModelFact (ModelAttemptDispatched op att w now lease)) s = Inr t"
    and "att \<in> rs_attempt ` set (turn_reservations s tid)" and "read_budget_state s tid = Inr b"
  shows "read_budget_state t tid = Inr b"
proof -
  from assms(1) have p: "projection_ok (proj s)" by (simp add: well_formed_def)
  from any_append_turns [OF p assms(2)] have cores: "turn_cores (proj t) = turn_cores (proj s)" by simp
  from assms(4) obtain tu where tu: "tget (turns (proj s)) tid = Some tu"
    by (auto simp: read_budget_state_def read_turn_cores split: option.splits)
  with fun_cong [OF cores, of tid] obtain tu' where tu': "tget (turns (proj t)) tid = Some tu'" "turn_core tu' = turn_core tu"
    by (auto simp: turn_cores_def)
  then have fields: "tu_binding tu' = tu_binding tu" "tu_thread tu' = tu_thread tu"
    using core_binding [of tu'] core_binding [of tu] core_fields(2) by metis+
  from assms(2) obtain r where "log t = log s @ [r]"
    "rr_fact r = ModelFact (ModelAttemptDispatched op att w now lease)" by (rule append_shape) auto
  then have "tool_duration t h tid = tool_duration s h tid" for h
    by (simp add: tool_duration_def list_records_def)
  with any_append_tools [OF assms(2)] have tools: "tool_amount t h tid = tool_amount s h tid" for h
    by (simp add: tool_amount_def list_tool_operations_def)
  have "child_allocations t tid = child_allocations s tid" "turn_reservations t tid = turn_reservations s tid"
    using any_append_budget [OF assms(2)] by (simp_all add: child_allocations_def turn_reservations_def)
  with assms(4) tu tu'(1) fields show ?thesis
    by (simp add: read_budget_state_def read_turn_cores tools untracked_dispatched [OF assms(1-3)])
qed


section \<open>The mark on the reservation\<close>

lemma mark_keeps_budget:
  assumes "well_formed s" and "append_fact th turn pr (BudgetFact (BudgetDispatched rid)) s = Inr t"
    and "tget (budget_reservations (proj s)) rid = Some x" and "rs_turn x = tid" and "read_budget_state s tid = Inr b"
  shows "read_budget_state t tid = Inr b"
proof -
  from moved_reservation [OF assms(1,2)] assms(3) obtain n where
    st: "rs_status x = Reserved"
    and rows: "budget_reservations (proj t) = tput rid (x\<lparr>rs_status := Dispatched, rs_seq := n\<rparr>) (budget_reservations (proj s))"
    and ch: "child_budget_allocations (proj t) = child_budget_allocations (proj s)" by auto
  from tput_around [OF assms(3), of "\<lambda>x. rs_turn x = tid" "x\<lparr>rs_status := Dispatched, rs_seq := n\<rparr>"] assms(4) obtain us vs where
    s: "turn_reservations s tid = us @ x # vs"
    and t: "turn_reservations t tid = us @ x\<lparr>rs_status := Dispatched, rs_seq := n\<rparr> # vs"
    by (auto simp: turn_reservations_def rows)
  have "rs_attempt ` set (turn_reservations t tid) = rs_attempt ` set (turn_reservations s tid)" by (simp add: s t)
  from budget_after [OF budget_fact_base [OF assms(1,2)] ch this assms(5)] show ?thesis
    by (auto simp: s t settled_append settled_Cons held_append held_Cons st)
qed

section \<open>Sending an attempt\<close>

lemma reserved_row:
  assumes "well_formed s" and "append_fact th (Some tid) pr (BudgetFact (BudgetReserved rid scope op att amount)) s = Inr t"
    and "tget (budget_reservations (proj s)) rid = None"
  shows "\<exists>x. tget (budget_reservations (proj t)) rid = Some x \<and> rs_turn x = tid \<and> rs_attempt x = att"
proof -
  have "addressed th (proj s) (BudgetFact (BudgetReserved rid scope op att amount))" using assms(3) by simp
  from append_reduces [OF assms(1,2) this] obtain r q where
    q: "apply_record (counted (proj s)) r = Inr q" "proj t = durable q"
      "rr_fact r = BudgetFact (BudgetReserved rid scope op att amount)" "rr_turn r = Some tid" by blast
  then show ?thesis
    by (auto simp: apply_record_def apply_fact_def supported_version_def put_reservation_def advance_def touch_thread_def
        mod_thread_def mod_turn_def tmod_eq_Inr turn_of_def durable_def counted_def split: if_splits)
qed

text \<open>The three moves of one transaction: reserve, dispatch, mark.\<close>

lemma sent_budget:
  assumes "well_formed s" and "tget (budget_reservations (proj s)) rid = None" and "uncompleted s (mo_active m)"
    and "append_fact th (Some (mo_turn m)) pr (BudgetFact (BudgetReserved rid scope op (mo_active m) amount)) s = Inr u"
    and "send_attempt m worker now lease (Some rid) u = Inr t" and "read_budget_state s (mo_turn m) = Inr b"
  shows "read_budget_state t (mo_turn m) = Inr (b\<lparr>reserved := reserved b + amount\<rparr>)"
proof -
  let ?b = "b\<lparr>reserved := reserved b + amount\<rparr>"
  from assms(5) obtain v where
    v: "append_fact (mo_thread m) (Some (mo_turn m)) ''runtime''
          (ModelFact (ModelAttemptDispatched (mo_id m) (mo_active m) worker now (now + lease))) u = Inr v"
    and t: "append_fact (mo_thread m) (Some (mo_turn m)) ''runtime'' (BudgetFact (BudgetDispatched rid)) v = Inr t"
    by (auto simp: send_attempt_def)
  have wu: "well_formed u" and wv: "well_formed v"
    using append_well_formed [OF assms(1,4)] append_well_formed [OF append_well_formed [OF assms(1,4)] v] by simp_all
  from reserve_refines [OF assms(1,4,2,3,6)] have bu: "read_budget_state u (mo_turn m) = Inr ?b" .
  from reserved_row [OF assms(1,4,2)] obtain x where
    x: "tget (budget_reservations (proj u)) rid = Some x" "rs_turn x = mo_turn m" "rs_attempt x = mo_active m" by blast
  then have "x \<in> set (turn_reservations u (mo_turn m))"
    by (auto simp: turn_reservations_def select_rows_def intro: tget_trows)
  with x(3) have "mo_active m \<in> rs_attempt ` set (turn_reservations u (mo_turn m))" by force
  from dispatch_keeps_budget [OF wu v this bu] have bv: "read_budget_state v (mo_turn m) = Inr ?b" .
  have "budget_reservations (proj v) = budget_reservations (proj u)" using any_append_budget(1) [OF v] by simp
  with x(1) have "tget (budget_reservations (proj v)) rid = Some x" by simp
  from mark_keeps_budget [OF wv t this x(2) bv] show ?thesis .
qed

lemma reserve_attempt_parts:
  assumes "reserve_attempt iid uid m amount allow s = Inr u" and "dispatch_job (mo_request_ref m) = JNull"
  shows "\<exists>b extra b' r. read_budget_state s (mo_turn m) = Inr b \<and> continuation_reserve m amount b = Inr extra
    \<and> ensure_token_headroom b (total_tokens amount + extra) (allow \<and> extra = 0) = Inr ()
    \<and> reserve b (''reservation_'' @ mo_active m) (mo_id m) (mo_active m) amount = Inr (b', r)
    \<and> append_fact (mo_thread m) (Some (mo_turn m)) ''runtime'' (budget_reserved_fact r) s = Inr u"
  using assms by (auto simp: reserve_attempt_def)

text \<open>
  A first attempt outside any compaction job. \<open>requested\<close> is the amount of the call, with the one
  retry that a later generation counts.
\<close>

lemma dispatch_holds:
  assumes "well_formed s"
    and "dispatch_model_attempt sh be iid uid op worker lease now (Some requested) allow s = Inr t"
    and "tget (model_operations (proj s)) op = Some m" and "dispatch_job (mo_request_ref m) = JNull"
    and "reservation_row_for_attempt s (mo_active m) = None"
    and "tget (budget_reservations (proj s)) (''reservation_'' @ mo_active m) = None" and "uncompleted s (mo_active m)"
  shows "\<exists>b amount extra. attempt_request m (Some requested) = Some amount \<and> read_budget_state s (mo_turn m) = Inr b
    \<and> ensure_within_limits b amount = None
    \<and> ensure_token_headroom b (total_tokens amount + extra) (allow \<and> extra = 0) = Inr ()
    \<and> read_budget_state t (mo_turn m) = Inr (b\<lparr>reserved := reserved b + amount\<rparr>)"
proof -
  define amount where "amount = (if 1 < mo_generation m then set_retries requested 1 else requested)"
  then have a: "attempt_request m (Some requested) = Some amount"
    by (simp add: attempt_request_def)
  with assms(2,3,5) obtain u where
    u: "reserve_attempt iid uid m amount allow s = Inr u"
    and t: "send_attempt m worker now lease (Some (''reservation_'' @ mo_active m)) u = Inr t"
    by (auto simp: dispatch_model_attempt_def read_model_operation_def require_def admit_attempt_def split: if_splits)
  from reserve_attempt_parts [OF u assms(4)] obtain b extra b' r where
    b: "read_budget_state s (mo_turn m) = Inr b"
    and head: "ensure_token_headroom b (total_tokens amount + extra) (allow \<and> extra = 0) = Inr ()"
    and r: "reserve b (''reservation_'' @ mo_active m) (mo_id m) (mo_active m) amount = Inr (b', r)"
    and f: "append_fact (mo_thread m) (Some (mo_turn m)) ''runtime'' (budget_reserved_fact r) s = Inr u" by blast
  note d = reserveD [OF r]
  have fact: "budget_reserved_fact r = BudgetFact (BudgetReserved (''reservation_'' @ mo_active m) (scope_id b) (mo_id m) (mo_active m) amount)"
    using d by (simp add: budget_reserved_fact_def)
  from sent_budget [OF assms(1,6,7) f [unfolded fact] t b] a b head d(1) show ?thesis by blast
qed

end
