(* ===== verification/Progress.thy ===== *)
theory Progress
  imports Reachable
begin

text \<open>
  Commands that must succeed. A fact that only moves an open Turn passes the reducer and the SQL
  constraints whenever the store is well formed, so that the commands whose guards hold return a
  store: a running Turn can always be paused, and an idle one stopped.
\<close>

section \<open>Constraints after a move\<close>

lemma trows_update:
  assumes "tget t k = Some r" and "g r' = g r"
  shows "map g (trows (tput k r' t)) = map g (trows t)"
  by (rule map_trows_tput_same [OF assms])

lemma unique_on_update: "tget t k = Some r \<Longrightarrow> g r' = g r \<Longrightarrow> unique_on g (tput k r' t) = unique_on g t"
  by (simp add: unique_on_def trows_update)

lemma all_rows_update: "all_rows P t \<Longrightarrow> P r' \<Longrightarrow> all_rows P (tput k r' t)"
  by (auto simp: all_rows_def list_all_iff dest: trows_tput_elem)

lemma refers_update: "tget t k = Some r \<Longrightarrow> refers (tput k r' t) = refers t"
  by (auto simp: refers_def fun_eq_iff)

lemma all_rows_get: "all_rows P t \<Longrightarrow> tget t k = Some r \<Longrightarrow> P r"
  by (auto simp: all_rows_def list_all_iff intro: tget_trows)

text \<open>A Turn and its Thread change, in no column that a constraint reads.\<close>

lemma constraints_move:
  assumes "constraints_ok p" and "tget (turns p) tid = Some tu" and "tget (threads p) th = Some h"
    and "tu_thread tu' = tu_thread tu" and "tu_index tu' = tu_index tu"
    and "turns q = tput tid tu' (turns p)" and "threads q = tput th h' (threads p)"
    and "items q = items p" and "model_operations q = model_operations p" and "model_attempts q = model_attempts p"
    and "budget_reservations q = budget_reservations p" and "child_budget_allocations q = child_budget_allocations p"
    and "tool_operations q = tool_operations p" and "interactions q = interactions p" and "approvals q = approvals p"
    and "artifacts q = artifacts p" and "host_commands q = host_commands p"
  shows "constraints_ok q"
proof -
  have r: "refers (turns q) = refers (turns p)" "refers (threads q) = refers (threads p)"
    using assms(2,3,6,7) by (simp_all add: refers_update)
  have "refers (threads p) (tu_thread tu)"
    using assms(1,2) all_rows_get [of "\<lambda>x. refers (threads p) (tu_thread x)" "turns p"]
    by (simp add: constraints_ok_def)
  then have "all_rows (\<lambda>x. refers (threads p) (tu_thread x)) (turns q)"
    using assms(1,4) unfolding assms(6) by (intro all_rows_update) (simp_all add: constraints_ok_def)
  moreover have "unique_on (\<lambda>x. (tu_thread x, tu_index x)) (turns q)"
    using assms(1,2,4,5) unfolding assms(6)
    by (subst unique_on_update [where r = tu]) (simp_all add: constraints_ok_def)
  moreover note assms(1)[unfolded constraints_ok_def]
  ultimately show ?thesis unfolding constraints_ok_def assms(8-17) r by simp
qed

section \<open>A Turn fact that must succeed\<close>

fun plain_move :: "turn_fact \<Rightarrow> bool" where
  "plain_move (TurnStarted _ _ _ _) = False"
| "plain_move (TurnCompleted _ _) = False"
| "plain_move _ = True"

lemma slice_of_turn:
  assumes "tget (turns p) tid = Some tu" and "tget (threads p) (tu_thread tu) = Some h"
    and "rr_thread r = tu_thread tu" and "rr_turn r = Some tid"
  shows "tget (turns (load_slice p r)) tid = Some tu" and "tget (threads (load_slice p r)) (tu_thread tu) = Some h"
  using assms by (auto simp: load_slice_def Let_def tget_load_rows the_list_def) (simp add: tget_def)

lemma move_succeeds:
  assumes "well_formed s" and "tget (turns (proj s)) tid = Some tu" and "plain_move f"
    and "moved_to f = Some (tid, st) \<or> f = TurnCancellationRequested tid"
  shows "\<exists>t. append_fact (tu_thread tu) (Some tid) pr (TurnFact f) s = Inr t"
proof -
  let ?r = "make_record s (tu_thread tu) (Some tid) pr (TurnFact f)"
  let ?p = "proj s"
  from assms(1) have ok: "projection_ok ?p" "constraints_ok ?p" by (simp_all add: well_formed_def)
  from ok(2) assms(2) all_rows_get [of "\<lambda>x. refers (threads ?p) (tu_thread x)" "turns ?p"]
  obtain h where h: "tget (threads ?p) (tu_thread tu) = Some h" by (auto simp: constraints_ok_def refers_def)
  have r: "rr_thread ?r = tu_thread tu" "rr_turn ?r = Some tid" "rr_fact ?r = TurnFact f" "rr_version ?r = 9"
    by (simp_all add: make_record_def)
  note slice = slice_of_turn [OF assms(2) h r(1,2)]
  have "\<exists>s'. apply_record (load_slice ?p ?r) ?r = Inr s'"
    using slice r assms(3,4)
    by (cases f) (auto simp: apply_record_def apply_fact_def supported_version_def set_turn_status_def end_turn_def touch_thread_def
        mod_turn_def mod_thread_def tmod_def moved_to_def)
  then obtain s' where s': "apply_record (load_slice ?p ?r) ?r = Inr s'" by blast
  have a: "addressed (rr_thread ?r) ?p (rr_fact ?r)" using assms(3) by (cases f) (simp_all add: r)
  from sim_apply_record [OF a slice_reads_load [OF a s'] sim_load [OF ok(1)] s']
  obtain q where q: "apply_record (counted ?p) ?r = Inr q" and sim: "sim (rr_seq ?r) ?p s' q" by auto
  let ?tu = "the (tget (turns q) tid)" and ?h = "the (tget (threads q) (tu_thread tu))"
  have new: "tu_thread ?tu = tu_thread tu \<and> tu_index ?tu = tu_index tu \<and> turns q = tput tid ?tu (turns ?p)
      \<and> threads q = tput (tu_thread tu) ?h (threads ?p)
      \<and> durable q = ?p\<lparr>turns := turns q, threads := threads q, item_sequences := (\<lambda>_. 0)\<rparr>"
    using q r assms(2,3,4) h
    by (cases f) (auto simp: turn_effect_defs moved_to_def durable_def counted_def split: if_splits)
  then have rest: "durable q = ?p\<lparr>turns := turns q, threads := threads q, item_sequences := (\<lambda>_. 0)\<rparr>" by blast
  from new obtain tu' h' where new: "tu_thread tu' = tu_thread tu" "tu_index tu' = tu_index tu"
    "turns q = tput tid tu' (turns ?p)" "threads q = tput (tu_thread tu) h' (threads ?p)" by blast
  have "constraints_ok (durable q)"
    by (rule constraints_move [OF ok(2) assms(2) h new(1,2)]) (simp_all add: rest new(3,4))
  then show ?thesis
    using s' persist_overlay [OF sim] by (simp add: append_fact_def append_record_def Let_def)
qed


section \<open>Stopping a Turn\<close>

lemma running_holds_slot:
  assumes "stage {} s" and "tget (turns (proj s)) tid = Some tu" and "tu_status tu = Running"
  shows "owns_slot s tu"
proof -
  have "open_thread s tid = Some (tu_thread tu)" using assms(2,3) by (simp add: open_thread_def open_turn_def)
  with assms(1) have "active_turn s (tu_thread tu) = Some tid" by (simp add: stage_def slot_ok_def)
  moreover have "tu_id tu = tid"
    using assms(1,2) by (auto simp: stage_def well_formed_def projection_ok_def intro: table_ok_ident)
  ultimately show ?thesis by (auto simp: owns_slot_def active_turn_def split: option.splits)
qed

lemma pause_succeeds:
  assumes "stage {} s" and "tget (turns (proj s)) tid = Some tu" and "tu_status tu = Running"
    and "\<not> blank reason" and "\<not> blank pr"
  shows "\<exists>t tu'. pause_turn tid reason pr code revision s = Inr t
    \<and> tget (turns (proj t)) tid = Some tu' \<and> tu_status tu' = Paused \<and> tu_thread tu' = tu_thread tu"
proof -
  have wf: "well_formed s" using assms(1) by (simp add: stage_def)
  have m: "moved_to (TurnPaused tid code revision) = Some (tid, Paused)" by (simp add: moved_to_def)
  from move_succeeds [OF wf assms(2), of "TurnPaused tid code revision" Paused pr] m obtain t where
    t: "append_fact (tu_thread tu) (Some tid) pr (TurnFact (TurnPaused tid code revision)) s = Inr t" by auto
  moreover from moved_cores(1) [OF wf t m] obtain tu' where
    "tget (turns (proj t)) tid = Some tu'" "tu_status tu' = Paused" "tu_thread tu' = tu_thread tu"
    by (auto simp: starts_turn_def)
  ultimately show ?thesis
    using assms running_holds_slot [OF assms(1-3)]
    by (auto simp: pause_turn_def running_turn_def read_turn_def require_def)
qed

text \<open>Nothing that a cancellation has to settle first.\<close>

definition idle_turn :: "store \<Rightarrow> string \<Rightarrow> bool" where
  "idle_turn s tid \<longleftrightarrow> pending_interactions s tid = [] \<and> \<not> unsafe_tool s tid
     \<and> filter (\<lambda>(j, it). live_status (jget (it_payload it) ''status'')) (newest_jobs [] (rev (list_items s tid))) = []"

lemma cancel_succeeds:
  assumes "well_formed s" and "tget (turns (proj s)) tid = Some tu" and "tu_status tu \<in> {Paused, Interrupted}"
    and "idle_turn s tid"
  shows "\<exists>t. cancel_turn fresh tid s = Inr t \<and> active_turn t (tu_thread tu) = None \<and> open_thread t tid = None"
proof -
  have m: "moved_to (TurnCancelled tid None) = Some (tid, Cancelled)" by (simp add: moved_to_def)
  from move_succeeds [OF assms(1,2), of "TurnCancelled tid None" Cancelled "''user''"] m obtain t where
    t: "append_fact (tu_thread tu) (Some tid) ''user'' (TurnFact (TurnCancelled tid None)) s = Inr t" by auto
  from moved_cores(1) [OF assms(1) t m] obtain tu' where
    "tget (turns (proj t)) tid = Some tu'" "tu_status tu' = Cancelled" by (auto simp: starts_turn_def)
  moreover from moved_cores(3) [OF assms(1) t m] have "active_turn t (tu_thread tu) = None"
    by (auto simp: starts_turn_def terminal_turn_def)
  moreover have "cancel_turn fresh tid s = Inr t"
    using assms t by (simp add: cancel_turn_def read_turn_def require_def idle_turn_def finish_active_jobs_def)
  ultimately show ?thesis by (auto simp: open_thread_def open_turn_def)
qed

lemma idle_turn_paused:
  assumes "well_formed s" and "append_fact th turn pr (TurnFact f) s = Inr t" and "idle_turn s tid"
  shows "idle_turn t tid"
proof -
  have "interactions (proj t) = interactions (proj s)" "tool_operations (proj t) = tool_operations (proj s)"
    "items (proj t) = items (proj s)"
    using any_append_interactions(1) [OF assms(2)] any_append_tools [OF assms(2)] any_append_items [OF assms(2)] by simp_all
  with assms(3) show ?thesis
    by (simp add: idle_turn_def pending_interactions_def list_interactions_def unsafe_tool_def list_tool_operations_def
        list_items_def)
qed

lemma stop_succeeds:
  assumes "stage {} s" and "tget (turns (proj s)) tid = Some tu" and "tu_status tu = Running" and "idle_turn s tid"
    and "\<not> blank reason" and "\<not> blank pr"
  shows "\<exists>t u. pause_turn tid reason pr code revision s = Inr t \<and> cancel_turn fresh tid t = Inr u
    \<and> open_thread u tid = None \<and> active_turn u (tu_thread tu) = None"
proof -
  from pause_succeeds [OF assms(1-3,5,6)] obtain t tu' where
    t: "pause_turn tid reason pr code revision s = Inr t" "tget (turns (proj t)) tid = Some tu'" "tu_status tu' = Paused"
      "tu_thread tu' = tu_thread tu" by blast
  from assms(1) guidedD [OF pause_turn_order assms(1) t(1)] have wf: "well_formed s" "well_formed t" by (simp_all add: stage_def)
  from t(1) assms(2) have "append_fact (tu_thread tu) (Some tid) pr (TurnFact (TurnPaused tid code revision)) s = Inr t"
    by (auto simp: pause_turn_def running_turn_def read_turn_def split: if_splits)
  from cancel_succeeds [OF wf(2) t(2) _ idle_turn_paused [OF wf(1) this assms(4)], of fresh] t show ?thesis by auto
qed

end
