(* ===== verification/Scenario_Calls.thy ===== *)
theory Scenario_Calls
  imports System_Properties Scenario Call_Budget Progress
begin

text \<open>
  Further lines of the concrete run: an input message with a receipt, a reservation that is dispatched
  and lost, and a model operation that is prepared, dispatched and answered.
\<close>

definition started_line :: "store result" where
  "started_line = ebind run_thread (run_turn ''turn'' ''item'')"

lemma started_line: "started_line = Inr started"
  unfolding started_line_def runs_ok(1) ebind_Inr by (rule runs_ok(2))

lemma on_started: "fulfils P (ebind started_line k) \<longleftrightarrow> succeeds (k started) \<and> P (after (k started))"
  by (simp add: started_line fulfils_iff)

section \<open>Input\<close>

definition run_input :: "store \<Rightarrow> store result" where
  "run_input = receive_turn_input ''fresh'' ''digest'' ''thread'' ''turn'' ''more'' [] (Some ''in'') (Some [])"

definition idle_line :: "store \<Rightarrow> bool" where
  "idle_line s \<longleftrightarrow> (case tget (turns (proj s)) ''turn'' of None \<Rightarrow> False | Some tu \<Rightarrow> tu_status tu = Running)
     \<and> idle_turn s ''turn'' \<and> succeeds (run_input s)"

lemma input_line: "fulfils idle_line (ebind run_thread (run_turn ''turn'' ''item''))"
  by code_simp

lemma idle_started: "idle_line started"
  using input_line [folded started_line_def] by (simp add: started_line fulfils_def)

section \<open>A reservation that is lost\<close>

definition call_amount :: usage where
  "call_amount = Usage 40 0 0 10 0 0 1 0 0 0 0 0 0 0 0 0"

definition budget_append :: "budget_fact \<Rightarrow> store \<Rightarrow> store result" where
  "budget_append f = append_fact ''thread'' (Some ''turn'') ''runtime'' (BudgetFact f)"

definition run_hold :: "store \<Rightarrow> store result" where
  "run_hold = chain [budget_append (BudgetReserved ''r'' ''turn'' ''o'' ''a'' call_amount), budget_append (BudgetDispatched ''r'')]"

definition held_line :: "store \<Rightarrow> bool" where
  "held_line s \<longleftrightarrow> (case tget (budget_reservations (proj s)) ''r'' of None \<Rightarrow> False | Some x \<Rightarrow> rs_turn x = ''turn'')
     \<and> holds_ok s ''turn'' \<and> \<not> isl (read_budget_state s ''turn'') \<and> succeeds (budget_append (BudgetUnknown ''r'') s)"

lemma lost_line: "fulfils held_line (ebind started_line run_hold)"
  unfolding started_line_def by code_simp

section \<open>A model call\<close>

definition model_append :: "model_fact \<Rightarrow> store \<Rightarrow> store result" where
  "model_append f = append_fact ''thread'' (Some ''turn'') ''runtime'' (ModelFact f)"

definition run_prepare :: "store \<Rightarrow> store result" where
  "run_prepare = model_append (ModelOperationPrepared ''o'' ''a'' 1 [] [] [] []
     (JObj [(''input_revision'', JInt 1), (''purpose'', JStr ''agent_step'')]))"

definition answer_output :: model_output where
  "answer_output = \<lparr>out_id = ''o1'', out_kind = ''text'', out_content = ''hi'', out_call = None, out_tool = None,
     out_arguments = JNull, out_argument_error = None, out_provider_data = JObj []\<rparr>"

definition answer_response :: model_response where
  "answer_response = \<lparr>re_outputs = [answer_output], re_provider = None, re_usage = JObj [], re_status = ''completed'',
     re_incomplete = None, re_stop = None\<rparr>"

definition run_dispatch :: "store \<Rightarrow> store result" where
  "run_dispatch = dispatch_model_attempt (\<lambda>_. JNull) [] ''i'' ''u'' ''o'' ''w'' 30 0 (Some call_amount) True"

definition run_answer :: "store \<Rightarrow> (bool \<times> store) result" where
  "run_answer = complete_model_attempt (\<lambda>x. x) ''resp'' ''o'' ''a'' 1 answer_response"

definition unreserved :: "store \<Rightarrow> bool" where
  "unreserved s \<longleftrightarrow> (case tget (model_operations (proj s)) ''o'' of None \<Rightarrow> False
     | Some m \<Rightarrow> mo_active m = ''a'' \<and> mo_turn m = ''turn''
       \<and> (case dispatch_job (mo_request_ref m) of JNull \<Rightarrow> True | _ \<Rightarrow> False))
     \<and> (case reservation_row_for_attempt s ''a'' of None \<Rightarrow> True | _ \<Rightarrow> False)
     \<and> (case tget (budget_reservations (proj s)) ''reservation_a'' of None \<Rightarrow> True | _ \<Rightarrow> False)
     \<and> uncompleted s ''a'' \<and> succeeds (run_dispatch s)"

lemma dispatch_line: "fulfils unreserved (ebind started_line run_prepare)"
  unfolding started_line_def by code_simp

definition run_sent :: "store \<Rightarrow> store result" where
  "run_sent = chain [run_prepare, model_append (ModelAttemptDispatched ''o'' ''a'' ''w'' 0 30)]"

lemma answer_line: "fulfils (\<lambda>s. accepts (run_answer s)) (ebind started_line run_sent)"
  unfolding started_line_def by code_simp

definition held :: store where "held = after (run_hold started)"
definition prepared :: store where "prepared = after (run_prepare started)"
definition sending :: store where "sending = after (run_sent started)"

lemmas line_facts = lost_line [unfolded on_started, folded held_def] dispatch_line [unfolded on_started, folded prepared_def]
  answer_line [unfolded on_started, folded sending_def]

text \<open>The stores of these lines are well-formed, since each step appends a fact to a well-formed store.\<close>

lemma started_well_formed: "well_formed started"
  using reachable_invariants(1) [OF run_reachable(2)] by (simp add: stage_def)

lemma held_well_formed: "well_formed held"
proof -
  from line_facts(1) have "run_hold started = Inr held" unfolding held_def by (intro succeeds_after) simp
  then obtain u where "append_fact ''thread'' (Some ''turn'') ''runtime'' (BudgetFact (BudgetReserved ''r'' ''turn'' ''o'' ''a'' call_amount)) started = Inr u"
    and "append_fact ''thread'' (Some ''turn'') ''runtime'' (BudgetFact (BudgetDispatched ''r'')) u = Inr held"
    unfolding run_hold_def budget_append_def by (auto simp: ebind_eq_Inr)
  then show ?thesis using append_well_formed started_well_formed by blast
qed

lemma prepared_line: "run_prepare started = Inr prepared"
  using line_facts(2) unfolding prepared_def by (intro succeeds_after) simp

lemma prepared_well_formed: "well_formed prepared"
  using prepared_line append_well_formed [OF started_well_formed] unfolding run_prepare_def model_append_def by blast

lemma sending_well_formed: "well_formed sending"
proof -
  from line_facts(3) have "run_sent started = Inr sending" unfolding sending_def by (intro succeeds_after) simp
  then obtain u where "run_prepare started = Inr u"
    and "append_fact ''thread'' (Some ''turn'') ''runtime'' (ModelFact (ModelAttemptDispatched ''o'' ''a'' ''w'' 0 30)) u = Inr sending"
    unfolding run_sent_def model_append_def by (auto simp: ebind_eq_Inr)
  then show ?thesis using append_well_formed prepared_well_formed prepared_line by auto
qed

end
