(* ===== verification/Command_Properties.thy ===== *)
theory Command_Properties
  imports System_Properties Once_Only Receipts Scenario_Calls
begin

text \<open>
  What single commands promise on a reachable store: reports and inputs take effect once, the log and
  its tables agree, the budget rows refine the accounting, and a Turn can always be stopped.
\<close>

lemma reachable_wf: "reachable s \<Longrightarrow> well_formed s"
  using reachable_invariants(1) by (simp add: stage_def)

section \<open>The log and its tables\<close>






section \<open>Reports are accepted once\<close>

text \<open>C25: the outcome of a tool operation is accepted once: the same report, sent again to the store it
  was accepted in, is answered with a refusal and changes nothing.\<close>

theorem tool_outcome_is_accepted_once:
  assumes "reachable s" and "commit_tool_operation_outcome req op gen fence v s = Inr (True, t)"
  shows "commit_tool_operation_outcome req op gen fence v t = Inr (False, t)"
proof -
  from outcome_moves [OF reachable_wf [OF assms(1)] assms(2)] obtain y where
    "tget (tool_operations (proj t)) op = Some y" "to_status y \<noteq> TRunning" by blast
  with assms(2) show ?thesis
    by (simp add: commit_tool_operation_outcome_def read_tool_operation_def require_def current_claim_def split: if_splits)
qed

lemma tool_outcome_is_accepted_once_witness: "run_report reopened = Inr (False, reopened)"
proof -
  have "accepts (run_report abandoned)"
    using abandoned_facts(2) by (auto simp: late_report_def accepts_def split: sum.splits)
  from accepts_after [OF this] have "run_report abandoned = Inr (True, reopened)" by (simp add: reopened_def)
  from tool_outcome_is_accepted_once [OF abandoned_reachable this [unfolded run_report_def]] show ?thesis
    by (simp add: run_report_def)
qed

text \<open>C26: the response to a model attempt is accepted once: the same response, delivered again, is answered
  with a refusal and changes nothing.\<close>

theorem model_response_is_accepted_once:
  assumes "well_formed s" and "complete_model_attempt fresh riid op att gen v s = Inr (True, t)"
  shows "complete_model_attempt fresh' riid' op att gen v t = Inr (False, t)"
proof -
  from response_moves [OF assms(1) assms(2)] obtain m where
    "tget (model_operations (proj t)) op = Some m" "mo_status m = MCompleted" by blast
  with assms(2) show ?thesis
    by (simp add: complete_model_attempt_def read_model_operation_def require_def is_current_attempt_def
        attempt_is_active_def split: if_splits)
qed

lemma model_response_is_accepted_once_witness: "\<exists>t. run_answer sending = Inr (True, t) \<and> run_answer t = Inr (False, t)"
proof -
  from line_facts(3) have "run_answer sending = Inr (True, after_pair (run_answer sending))" by (intro accepts_after) simp
  from model_response_is_accepted_once [OF sending_well_formed this [unfolded run_answer_def]] this show ?thesis
    unfolding run_answer_def by blast
qed

text \<open>A user input with an identity of its own takes effect once: sending it again, with any files, is
  accepted and changes nothing.\<close>

theorem repeated_input_changes_nothing:
  assumes "reachable s" and "receive_turn_input fresh digest thid tid text files (Some iid) paths s = Inr t"
    and "iid \<notin> fst ` set files"
  shows "receive_turn_input fresh' digest thid tid text files' (Some iid) paths t = Inr t"
  by (rule receive_turn_input_again [OF reachable_wf [OF assms(1)] assms(2,3)])

lemma repeated_input_changes_nothing_witness: "\<exists>t. run_input started = Inr t \<and> run_input t = Inr t"
proof -
  from idle_started have "run_input started = Inr (after (run_input started))" by (intro succeeds_after) (simp add: idle_line_def)
  from repeated_input_changes_nothing [OF run_reachable(2) this [unfolded run_input_def]] this show ?thesis
    unfolding run_input_def by auto
qed

text \<open>C30: a host command takes effect once: receiving the same request under the same identity again is
  accepted and changes nothing.\<close>

theorem repeated_host_command_changes_nothing:
  assumes "reachable s"
    and "receive_command sha name_hash is_origin database is_dir resolve uid workspace kind payload (Some cid) thid tid s = Inr t"
  shows "receive_command sha name_hash is_origin database is_dir resolve uid' workspace kind payload (Some cid) thid tid t = Inr t"
  by (rule receive_command_again [OF reachable_wf [OF assms(1)] assms(2)])

lemma repeated_host_command_changes_nothing_witness: "run_receive commanded = Inr commanded"
  using repeated_host_command_changes_nothing [OF run_reachable(1) succeeds_after [OF commanded_ok, unfolded run_receive_def]]
  unfolding commanded_def run_receive_def .

section \<open>Budget rows\<close>

text \<open>C8: the durable reservation rows refine the pure accounting: appending a dispatch, settlement, release
  or loss of a reservation changes the budget state that is read back from the tables exactly as the
  accounting function of the same name does.\<close>

theorem budget_rows_refine_the_accounting:
  assumes "well_formed s" and "append_fact th turn pr (BudgetFact f) s = Inr t" and "reservation_move f = Some (rid, allowed, g)"
    and "read_budget_state s tid = Inr b" and "tget (budget_reservations (proj s)) rid = Some x" and "rs_turn x = tid"
    and "holds_ok s tid"
  shows "\<exists>b' r'. account f b (reservation_of x) = Inr (b', r') \<and> read_budget_state t tid = Inr b'"
  by (rule moves_refine [OF assms(1) assms(2-7)])

lemma budget_rows_refine_the_accounting_witness:
  "\<exists>b x t b'. read_budget_state held ''turn'' = Inr b \<and> tget (budget_reservations (proj held)) ''r'' = Some x
     \<and> budget_append (BudgetUnknown ''r'') held = Inr t \<and> read_budget_state t ''turn'' = Inr b'
     \<and> (\<exists>r'. account (BudgetUnknown ''r'') b (reservation_of x) = Inr (b', r'))"
proof -
  from line_facts(1) have h: "held_line held" by simp
  then obtain x where x: "tget (budget_reservations (proj held)) ''r'' = Some x" "rs_turn x = ''turn''"
    by (auto simp: held_line_def split: option.splits)
  from h obtain b where b: "read_budget_state held ''turn'' = Inr b" by (cases "read_budget_state held ''turn''") (auto simp: held_line_def)
  from h have t: "budget_append (BudgetUnknown ''r'') held = Inr (after (budget_append (BudgetUnknown ''r'') held))"
    by (intro succeeds_after) (simp add: held_line_def)
  from h have ok: "holds_ok held ''turn''" by (simp add: held_line_def)
  obtain allowed g where g: "reservation_move (BudgetUnknown ''r'') = Some (''r'', allowed, g)" by simp
  from budget_rows_refine_the_accounting [OF held_well_formed t [unfolded budget_append_def] g b x ok] b x t
  show ?thesis unfolding budget_append_def by blast
qed



section \<open>A Turn can be stopped\<close>



end
