(* ===== verification/Permissions.thy ===== *)
theory Permissions
  imports Operation_Values "HOL-Library.Option_ord" "HOL-Library.Multiset"
begin

text \<open>
  The immutable permissions of \<open>permission_policy.py\<close>: path rules, tool rules and network rules, the
  ceilings that an intersection keeps, and what a policy answers about a path, a tool or a
  destination. The file system and the Unicode tables are a \<open>host_view\<close>: expansion of \<open>~\<close>,
  resolution of symbolic links, identity of files, and case folding. The pydantic models check types;
  their value checks are the \<open>_error\<close> functions.
\<close>

section \<open>Declarations\<close>

datatype decision = Allow | Ask | Deny
datatype access = ReadAccess | WriteAccess | DenyAccess
datatype profile = WorkspaceProfile | ReadOnlyProfile | TrustedLocal
datatype approval = OnRequest | NeverAsk

text \<open>\<open>_DECISION_ORDER\<close> and \<open>_ACCESS_ORDER\<close>; an absent decision is below every decision.\<close>

fun decision_rank :: "decision \<Rightarrow> nat" where
  "decision_rank Allow = 0" | "decision_rank Ask = 1" | "decision_rank Deny = 2"

fun access_rank :: "access \<Rightarrow> nat" where
  "access_rank ReadAccess = 0" | "access_rank WriteAccess = 1" | "access_rank DenyAccess = 2"

instantiation decision :: linorder
begin

definition "a \<le> b \<longleftrightarrow> decision_rank a \<le> decision_rank b"
definition "a < b \<longleftrightarrow> decision_rank a < decision_rank b"

instance
  by standard (auto simp: less_eq_decision_def less_decision_def elim!: decision_rank.elims)

end

instantiation access :: linorder
begin

definition "a \<le> b \<longleftrightarrow> access_rank a \<le> access_rank b"
definition "a < b \<longleftrightarrow> access_rank a < access_rank b"

instance
  by standard (auto simp: less_eq_access_def less_access_def elim!: access_rank.elims)

end

record path_rule =
  pr_path :: string
  pr_access :: access

record tool_rule =
  tl_pattern :: string
  tl_decision :: decision

record network_rule =
  nr_domain :: string
  nr_decision :: decision

record network_policy =
  np_decision :: decision
  np_allowed :: "string list"
  np_denied :: "string list"
  np_rules :: "network_rule list"

definition open_network :: network_policy where
  "open_network = \<lparr>np_decision = Ask, np_allowed = [], np_denied = [], np_rules = []\<rparr>"

text \<open>\<open>NetworkPolicy.valid_domains\<close>: the normal form of a domain, or the refusal.\<close>

definition lower_char :: "char \<Rightarrow> char" where
  "lower_char c = (let n = (of_char c :: nat) in if 65 \<le> n \<and> n \<le> 90 then char_of (n + 32) else c)"

definition strip_dots :: "string \<Rightarrow> string" where
  "strip_dots s = rev (dropWhile (\<lambda>c. c = CHR ''.'') (rev s))"

definition starts_with :: "string \<Rightarrow> string \<Rightarrow> bool" where
  "starts_with p s \<longleftrightarrow> take (length p) s = p"

definition ends_with :: "string \<Rightarrow> string \<Rightarrow> bool" where
  "ends_with p s \<longleftrightarrow> length p \<le> length s \<and> drop (length s - length p) s = p"

definition host_char :: "char \<Rightarrow> bool" where
  "host_char c \<longleftrightarrow> (let n = (of_char c :: nat) in 97 \<le> n \<and> n \<le> 122 \<or> 48 \<le> n \<and> n \<le> 57 \<or> c = CHR ''_'' \<or> c = CHR ''-'')"

fun dot_split :: "string \<Rightarrow> string list" where
  "dot_split [] = [[]]"
| "dot_split (c # cs) = (if c = CHR ''.'' then [] # dot_split cs
     else (case dot_split cs of [] \<Rightarrow> [[c]] | w # ws \<Rightarrow> (c # w) # ws))"

definition valid_domain :: "string \<Rightarrow> string result" where
  "valid_domain value =
     (let domain = strip_dots (map lower_char value);
          host = (if starts_with ''*.'' domain then drop 2 domain else domain)
      in if list_all (\<lambda>w. w \<noteq> [] \<and> list_all host_char w) (dot_split host) then Inr domain
         else Inl (ValueError ''domain must be a host name''))"

definition path_rule_error :: "path_rule \<Rightarrow> py_error option" where
  "path_rule_error r = (if pr_path r = [] \<or> CHR 0x00 \<in> set (pr_path r)
     then Some (ValueError ''path must be nonempty and contain no NUL bytes'') else None)"

definition tool_rule_error :: "tool_rule \<Rightarrow> py_error option" where
  "tool_rule_error r = (if tl_pattern r = [] then Some (ValueError ''tool pattern must not be empty'') else None)"

record permission_policy =
  pp_profile :: profile
  pp_approval :: approval
  pp_filesystem :: "path_rule list"
  pp_tools :: "tool_rule list"
  pp_network :: network_policy

definition policy_error :: "permission_policy \<Rightarrow> py_error option" where
  "policy_error p = (if pp_profile p = ReadOnlyProfile \<and> list_ex (\<lambda>r. pr_access r = WriteAccess) (pp_filesystem p)
     then Some (ValueError ''read-only profile cannot contain write grants'') else None)"

text \<open>\<open>ResolvedPermissions\<close>\<close>

datatype permissions = Permissions
  (workspace: string) (profile_of: profile) (approval_of: approval) (filesystem: "path_rule list")
  (tools: "tool_rule list") (network: network_policy) (sources: "string list") (private_paths: "string list")
  (ceilings: "permissions list")

fun with_ceilings :: "permissions list \<Rightarrow> permissions \<Rightarrow> permissions" where
  "with_ceilings cs (Permissions w pf ap fs ts nw so pv _) = Permissions w pf ap fs ts nw so pv cs"

fun with_sources :: "string list \<Rightarrow> permissions \<Rightarrow> permissions" where
  "with_sources so (Permissions w pf ap fs ts nw _ pv cs) = Permissions w pf ap fs ts nw so pv cs"

fun with_filesystem :: "path_rule list \<Rightarrow> permissions \<Rightarrow> permissions" where
  "with_filesystem fs (Permissions w pf ap _ ts nw so pv cs) = Permissions w pf ap fs ts nw so pv cs"

fun with_private :: "string list \<Rightarrow> permissions \<Rightarrow> permissions" where
  "with_private pv (Permissions w pf ap fs ts nw so _ cs) = Permissions w pf ap fs ts nw so pv cs"

fun with_network :: "network_policy \<Rightarrow> permissions \<Rightarrow> permissions" where
  "with_network nw (Permissions w pf ap fs ts _ so pv cs) = Permissions w pf ap fs ts nw so pv cs"

definition permissions_error :: "permissions \<Rightarrow> py_error option" where
  "permissions_error p = (if \<not> is_absolute (workspace p) \<or> \<not> list_all (is_absolute \<circ> pr_path) (filesystem p)
       \<or> \<not> list_all is_absolute (private_paths p)
     then Some (ValueError ''resolved permissions require absolute filesystem paths'') else None)"

section \<open>Paths\<close>

text \<open>A \<open>Path\<close> is its root and its parts.\<close>

type_synonym path = "string \<times> string list"

definition path_of :: "string \<Rightarrow> path" where
  "path_of s = (path_root s, path_parts s)"

fun join_parts :: "string list \<Rightarrow> string" where
  "join_parts [] = []"
| "join_parts [w] = w"
| "join_parts (w # ws) = w @ ''/'' @ join_parts ws"

definition path_text :: "path \<Rightarrow> string" where
  "path_text p = (if p = ([], []) then ''.'' else fst p @ join_parts (snd p))"

definition path_depth :: "path \<Rightarrow> nat" where
  "path_depth p = (if fst p = [] then 0 else 1) + length (snd p)"

definition sub_path :: "path \<Rightarrow> string \<Rightarrow> path" where
  "sub_path p name = (fst p, snd p @ [name])"

text \<open>\<open>os.path.normpath\<close> on an absolute path.\<close>

fun collapse :: "string list \<Rightarrow> string list \<Rightarrow> string list" where
  "collapse done' [] = rev done'"
| "collapse done' (w # ws) = (if w = ''..'' then collapse (tl done') ws else collapse (w # done') ws)"

record host_view =
  hv_expand :: "path \<Rightarrow> path option"
  hv_real :: "path \<Rightarrow> path option"
  hv_same :: "path \<Rightarrow> path \<Rightarrow> bool"
  hv_fold :: "string \<Rightarrow> string"
  hv_casefold :: "string \<Rightarrow> string"
  hv_is_file :: "path \<Rightarrow> bool"

text \<open>\<open>_lexical\<close>: no answer when the home directory is unknown.\<close>

definition lexical :: "host_view \<Rightarrow> path \<Rightarrow> path \<Rightarrow> path option" where
  "lexical v p base = (case hv_expand v p of
       None \<Rightarrow> None
     | Some c \<Rightarrow> Some (if fst c \<noteq> [] then (fst c, collapse [] (snd c))
         else (fst base, collapse [] (snd base @ snd c))))"

definition same_path :: "host_view \<Rightarrow> path \<Rightarrow> path \<Rightarrow> bool" where
  "same_path v a b \<longleftrightarrow> a = b \<or> hv_same v a b"

definition relative_to :: "path \<Rightarrow> path \<Rightarrow> bool" where
  "relative_to p r \<longleftrightarrow> fst p = fst r \<and> is_prefix (snd r) (snd p)"

text \<open>The candidate and its parents.\<close>

definition ancestors :: "path \<Rightarrow> path list" where
  "ancestors p = map (\<lambda>n. (fst p, take n (snd p))) (rev [0..<Suc (length (snd p))])"

definition under_path :: "host_view \<Rightarrow> path \<Rightarrow> path \<Rightarrow> bool" where
  "under_path v p r \<longleftrightarrow> relative_to p r
     \<or> list_ex (\<lambda>a. hv_fold v (path_text a) = hv_fold v (path_text r) \<and> same_path v a r) (ancestors p)"

section \<open>Access to a path\<close>

definition protected_names :: "string list" where
  "protected_names = [''.agents'', ''.aws'', ''.codex'', ''.git'']"

definition rule_under :: "host_view \<Rightarrow> path \<Rightarrow> path_rule \<Rightarrow> bool" where
  "rule_under v p r \<longleftrightarrow> under_path v p (path_of (pr_path r))"

definition rule_key :: "path_rule \<Rightarrow> nat \<times> access" where
  "rule_key r = (path_depth (path_of (pr_path r)), pr_access r)"

definition key_less :: "nat \<times> access \<Rightarrow> nat \<times> access \<Rightarrow> bool" where
  "key_less a b \<longleftrightarrow> fst a < fst b \<or> fst a = fst b \<and> snd a < snd b"

text \<open>\<open>max(matching, key=...)\<close>: the first of the greatest.\<close>

fun first_max :: "path_rule \<Rightarrow> path_rule list \<Rightarrow> path_rule" where
  "first_max best [] = best"
| "first_max best (r # rs) = first_max (if key_less (rule_key best) (rule_key r) then r else best) rs"

text \<open>The reasons a policy itself has against a path, without its sources.\<close>

definition rule_reason :: "host_view \<Rightarrow> permissions \<Rightarrow> path \<Rightarrow> path \<Rightarrow> bool \<Rightarrow> string" where
  "rule_reason v p lx cand write =
     (let label = (if cand \<noteq> lx then ''symlink target'' else ''path'') in
      case filter (rule_under v cand) (filesystem p) of
        [] \<Rightarrow> label @ '' is outside permitted paths''
      | r # rs \<Rightarrow> (let s = first_max r rs in
          if pr_access s = DenyAccess \<or> write \<and> pr_access s \<noteq> WriteAccess
          then label @ '' denied by rule: '' @ pr_path s else []))"

definition source_hit :: "host_view \<Rightarrow> path \<Rightarrow> string \<Rightarrow> bool" where
  "source_hit v cand s \<longleftrightarrow> is_absolute s \<and> (under_path v cand (path_of s) \<or> same_path v cand (path_of s))"

definition candidate_reason :: "host_view \<Rightarrow> permissions \<Rightarrow> path \<Rightarrow> bool \<Rightarrow> path \<Rightarrow> string" where
  "candidate_reason v p lx write cand =
     (if list_ex (\<lambda>s. under_path v cand (path_of s)) (private_paths p)
      then ''host credential directory is private''
      else if write \<and> list_ex (source_hit v cand) (sources p) then ''permission policy source is read-only''
      else if write \<and> list_ex (\<lambda>w. hv_casefold v w \<in> set protected_names) (fst cand # snd cand)
      then ''protected metadata directory is read-only''
      else rule_reason v p lx cand write)"

fun first_reason :: "string list \<Rightarrow> string" where
  "first_reason [] = []"
| "first_reason (r # rs) = (if r \<noteq> [] then r else first_reason rs)"

definition own_reason :: "host_view \<Rightarrow> permissions \<Rightarrow> path \<Rightarrow> bool \<Rightarrow> string" where
  "own_reason v p x write =
     (case lexical v x (path_of (workspace p)) of
        None \<Rightarrow> ''path cannot be safely resolved''
      | Some lx \<Rightarrow> (case hv_real v lx of
            None \<Rightarrow> ''path cannot be safely resolved''
          | Some target \<Rightarrow>
              if write \<and> profile_of p = ReadOnlyProfile then ''read-only profile denies writes''
              else first_reason (map (candidate_reason v p lx write) (if target = lx then [lx] else [lx, target]))))"

fun path_reason :: "host_view \<Rightarrow> permissions \<Rightarrow> path \<Rightarrow> bool \<Rightarrow> string" where
  "path_reason v (Permissions w pf ap fs ts nw so pv cs) x write =
     (let own = own_reason v (Permissions w pf ap fs ts nw so pv cs) x write in
      if own \<noteq> [] then own
      else let above = first_reason (map (\<lambda>c. path_reason v c x write) cs) in
        if above \<noteq> [] then ''permission ceiling: '' @ above else [])"

definition path_access :: "host_view \<Rightarrow> permissions \<Rightarrow> path \<Rightarrow> bool \<Rightarrow> bool" where
  "path_access v p x write \<longleftrightarrow> path_reason v p x write = []"

section \<open>Tools, approval and the network\<close>

text \<open>\<open>fnmatchcase\<close>: a bracket that never closes is itself, ranges are read from the left.\<close>

fun bracket_elem :: "char \<Rightarrow> string \<Rightarrow> bool" where
  "bracket_elem c [] = False"
| "bracket_elem c [a] = (c = a)"
| "bracket_elem c [a, b] = (c = a \<or> c = b)"
| "bracket_elem c (a # b # d # rest) =
     (if b = CHR ''-'' then ((of_char a :: nat) \<le> of_char c \<and> (of_char c :: nat) \<le> of_char d) \<or> bracket_elem c rest
      else c = a \<or> bracket_elem c (b # d # rest))"

definition bracket_body :: "string \<Rightarrow> (string \<times> string) option" where
  "bracket_body s =
     (let neg = takeWhile (\<lambda>c. c = CHR ''!'') (take 1 s);
          after = drop (length neg) s;
          first = takeWhile (\<lambda>c. c = CHR '']'') (take 1 after);
          more = drop (length first) after;
          body = takeWhile (\<lambda>c. c \<noteq> CHR '']'') more
      in if length body = length more then None
         else Some (neg @ first @ body, drop (Suc (length body)) more))"

definition bracket_match :: "char \<Rightarrow> string \<Rightarrow> bool" where
  "bracket_match c body = (if take 1 body = ''!'' then \<not> bracket_elem c (drop 1 body) else bracket_elem c body)"

lemma bracket_body_shorter: "bracket_body s = Some (b, rest) \<Longrightarrow> length rest < Suc (length s)"
  by (auto simp: bracket_body_def Let_def split: if_splits)

function fnmatch :: "string \<Rightarrow> string \<Rightarrow> bool" where
  "fnmatch [] s = (s = [])"
| "fnmatch (p # ps) s =
     (if p = CHR ''*'' then fnmatch ps s \<or> (case s of [] \<Rightarrow> False | _ # cs \<Rightarrow> fnmatch (p # ps) cs)
      else case s of
          [] \<Rightarrow> False
        | c # cs \<Rightarrow>
            if p = CHR ''?'' then fnmatch ps cs
            else if p = CHR ''['' then (case bracket_body ps of
                None \<Rightarrow> c = p \<and> fnmatch ps cs
              | Some (body, rest) \<Rightarrow> bracket_match c body \<and> fnmatch rest cs)
            else c = p \<and> fnmatch ps cs)"
  by pat_completeness auto

termination
  by (relation "measures [\<lambda>(p, s). length p + length s]") (auto dest!: bracket_body_shorter)

fun tool_decision :: "permissions \<Rightarrow> string \<Rightarrow> decision option" where
  "tool_decision (Permissions w pf ap fs ts nw so pv cs) name =
     foldr max (map (Some \<circ> tl_decision) (filter (\<lambda>r. fnmatch (tl_pattern r) name) ts)
       @ map (\<lambda>c. tool_decision c name) cs) None"

fun effective_approval :: "permissions \<Rightarrow> approval" where
  "effective_approval (Permissions w pf ap fs ts nw so pv cs) =
     (if ap = NeverAsk \<or> list_ex (\<lambda>c. effective_approval c = NeverAsk) cs then NeverAsk else OnRequest)"

fun read_only :: "permissions \<Rightarrow> bool" where
  "read_only (Permissions w pf ap fs ts nw so pv cs) = (pf = ReadOnlyProfile \<or> list_ex read_only cs)"

definition domain_matches :: "string \<Rightarrow> string \<Rightarrow> bool" where
  "domain_matches host pattern =
     (if starts_with ''*.'' pattern then ends_with (drop 1 pattern) host \<and> host \<noteq> drop 2 pattern else host = pattern)"

text \<open>The decision of a policy itself for a host; a URL is the scheme and host that \<open>urlsplit\<close> found.\<close>

definition host_decision :: "network_policy \<Rightarrow> string \<Rightarrow> decision" where
  "host_decision n host =
     (let matching = map nr_decision (filter (\<lambda>r. domain_matches host (nr_domain r)) (np_rules n));
          base = (if matching \<noteq> [] \<and> np_decision n \<noteq> Deny then foldr max matching Allow else np_decision n)
      in if list_ex (domain_matches host) (np_denied n) then Deny
         else if np_allowed n \<noteq> [] \<and> \<not> list_ex (domain_matches host) (np_allowed n) then Deny
         else base)"

definition url_decision :: "network_policy \<Rightarrow> (string \<times> string) option \<Rightarrow> decision" where
  "url_decision n url = (case url of
       None \<Rightarrow> Deny
     | Some (scheme, host) \<Rightarrow> (let h = strip_dots (map lower_char host) in
         if scheme \<notin> {''http'', ''https''} \<or> h = [] then Deny else host_decision n h))"

fun network_decision :: "permissions \<Rightarrow> (string \<times> string) option \<Rightarrow> decision" where
  "network_decision (Permissions w pf ap fs ts nw so pv cs) url =
     foldr max (map (\<lambda>c. network_decision c url) cs) (url_decision nw url)"

definition command_decision :: "network_policy \<Rightarrow> decision" where
  "command_decision n = (if np_allowed n \<noteq> [] \<or> np_denied n \<noteq> [] \<or> np_rules n \<noteq> [] then Deny else np_decision n)"

fun command_network_allowed :: "permissions \<Rightarrow> decision" where
  "command_network_allowed (Permissions w pf ap fs ts nw so pv cs) =
     foldr max (map command_network_allowed cs) (command_decision nw)"

end
