(* ===== verification/Permission_Ops.thy ===== *)
theory Permission_Ops
  imports Permissions
begin

text \<open>
  Making and restricting policies (\<open>permission_policy.py\<close>): resolution of a declaration, selected
  files, the revision that identifies a policy, intersection, and the policy of a child workspace.
\<close>

section \<open>Resolving a declaration\<close>

fun lex_less :: "string list \<Rightarrow> string list \<Rightarrow> bool" where
  "lex_less _ [] = False"
| "lex_less [] (_ # _) = True"
| "lex_less (a # as) (b # bs) = (if a = b then lex_less as bs else string_less a b)"

definition path_less :: "path \<Rightarrow> path \<Rightarrow> bool" where
  "path_less a b \<longleftrightarrow> lex_less (fst a # snd a) (fst b # snd b)"

definition lexical_rule :: "host_view \<Rightarrow> path \<Rightarrow> path_rule \<Rightarrow> path_rule result" where
  "lexical_rule v base r = (case lexical v (path_of (pr_path r)) base of
       None \<Rightarrow> Inl (RuntimeError ''could not determine home directory'')
     | Some p \<Rightarrow> Inr (r\<lparr>pr_path := path_text p\<rparr>))"

text \<open>\<open>dict.fromkeys\<close>: the first of every value.\<close>

definition remdups_first :: "'a list \<Rightarrow> 'a list" where
  "remdups_first xs = rev (remdups (rev xs))"

fun map_result :: "('a \<Rightarrow> 'b result) \<Rightarrow> 'a list \<Rightarrow> 'b list result" where
  "map_result f [] = Inr []"
| "map_result f (x # xs) = ebind (f x) (\<lambda>y. ebind (map_result f xs) (\<lambda>ys. Inr (y # ys)))"

lemma map_result_cong [fundef_cong]:
  "xs = ys \<Longrightarrow> (\<And>x. x \<in> set ys \<Longrightarrow> f x = g x) \<Longrightarrow> map_result f xs = map_result g ys"
  by (induction ys arbitrary: xs) auto

definition rule_at :: "path \<Rightarrow> access \<Rightarrow> path_rule" where
  "rule_at p a = \<lparr>pr_path = path_text p, pr_access = a\<rparr>"

definition resolve_root :: "host_view \<Rightarrow> path \<Rightarrow> path result" where
  "resolve_root v p = (case hv_expand v p of
       None \<Rightarrow> Inl (RuntimeError ''could not determine home directory'')
     | Some c \<Rightarrow> (case hv_real v c of None \<Rightarrow> Inl (RuntimeError ''cannot resolve'') | Some r \<Rightarrow> Inr r))"

definition protective_rules :: "host_view \<Rightarrow> permissions \<Rightarrow> path list \<Rightarrow> path_rule list" where
  "protective_rules v p directories = concat (map (\<lambda>d. map (\<lambda>name.
     rule_at (sub_path d name) (if path_access v p (sub_path d name) False then ReadAccess else DenyAccess))
       protected_names) directories)"

definition resolve_policy :: "host_view \<Rightarrow> string \<Rightarrow> permission_policy \<Rightarrow> path \<Rightarrow> permissions result" where
  "resolve_policy v state_directory d ws = ebind (resolve_root v ws) (\<lambda>root.
     ebind (map_result (lexical_rule v root) (pp_filesystem d)) (\<lambda>declared.
       let rules = rule_at root (if pp_profile d = ReadOnlyProfile then ReadAccess else WriteAccess)
             # (if pp_profile d = TrustedLocal then [rule_at (''/'', []) ReadAccess] else []) @ declared;
           p = Permissions (path_text root) (pp_profile d) (pp_approval d) rules (pp_tools d) (pp_network d)
             [''default''] [] [];
           directories = sorted_set path_less
             (root # map (path_of \<circ> pr_path) (filter (\<lambda>r. pr_access r \<noteq> DenyAccess) rules))
       in Inr (with_private [state_directory]
            (with_filesystem (rules @ protective_rules v p directories) p))))"

section \<open>Selected files\<close>

definition read_file_rules :: "host_view \<Rightarrow> permissions \<Rightarrow> path \<Rightarrow> path_rule list result" where
  "read_file_rules v p x = (case lexical v x (path_of (workspace p)) of
       None \<Rightarrow> Inl (RuntimeError ''could not determine home directory'')
     | Some lx \<Rightarrow> (case hv_real v lx of
           None \<Rightarrow> Inl (RuntimeError ''cannot resolve'')
         | Some target \<Rightarrow>
             if \<not> hv_is_file v target then Inr []
             else Inr (map (\<lambda>c. rule_at c ReadAccess)
               (filter (\<lambda>c. \<not> list_ex (\<lambda>r. pr_access r = DenyAccess \<and> rule_under v c r) (filesystem p)
                    \<and> \<not> path_access v p c False)
                 (if target = lx then [lx] else [lx, target])))))"

definition with_read_files :: "host_view \<Rightarrow> path list \<Rightarrow> permissions \<Rightarrow> permissions result" where
  "with_read_files v xs p = ebind (map_result (read_file_rules v p) xs) (\<lambda>added.
     Inr (with_filesystem (remdups_first (filesystem p @ concat added)) p))"

section \<open>Revisions\<close>

text \<open>
  The canonical JSON of a policy without its sources and ceilings: the lists are sorted in it, so two
  policies have the same text when the lists are permutations of each other.
\<close>

record policy_atom =
  at_workspace :: string
  at_profile :: profile
  at_approval :: approval
  at_filesystem :: "path_rule multiset"
  at_tools :: "tool_rule multiset"
  at_network :: decision
  at_allowed :: "string multiset"
  at_denied :: "string multiset"
  at_network_rules :: "network_rule multiset"
  at_private :: "string multiset"

definition atom_of :: "permissions \<Rightarrow> policy_atom" where
  "atom_of p = \<lparr>at_workspace = workspace p, at_profile = profile_of p, at_approval = approval_of p,
     at_filesystem = mset (filesystem p), at_tools = mset (tools p), at_network = np_decision (network p),
     at_allowed = mset (np_allowed (network p)), at_denied = mset (np_denied (network p)),
     at_network_rules = mset (np_rules (network p)), at_private = mset (private_paths p)\<rparr>"

text \<open>A policy and every ceiling below it, in the order of the recursion.\<close>

fun family :: "permissions \<Rightarrow> permissions list" where
  "family (Permissions w pf ap fs ts nw so pv cs) = Permissions w pf ap fs ts nw so pv cs # concat (map family cs)"

text \<open>The revision: \<open>digest\<close> is SHA-256 of the canonical text of the atoms and the absolute sources.\<close>

type_synonym 'h digest = "policy_atom set \<times> string set \<Rightarrow> 'h"

definition revision :: "'h digest \<Rightarrow> permissions \<Rightarrow> 'h" where
  "revision digest p = digest (atom_of ` set (family p), set (filter is_absolute (concat (map sources (family p)))))"

section \<open>Intersection\<close>

text \<open>The state of \<open>retain\<close>: revisions seen, ceilings kept, sources gathered.\<close>

type_synonym 'h retained = "'h set \<times> permissions list \<times> string list"

definition atom_key :: "'h digest \<Rightarrow> permissions \<Rightarrow> 'h" where
  "atom_key digest p = revision digest (with_sources [] (with_ceilings [] p))"

definition retain_one :: "'h digest \<Rightarrow> permissions \<Rightarrow> 'h retained \<Rightarrow> 'h retained" where
  "retain_one digest p st = (case st of (seen, kept, gathered) \<Rightarrow>
     if atom_key digest p \<in> seen then (seen, kept, gathered @ sources p)
     else (insert (atom_key digest p) seen, kept @ [with_ceilings [] p], gathered @ sources p))"

fun retain :: "'h digest \<Rightarrow> permissions \<Rightarrow> 'h retained \<Rightarrow> 'h retained" where
  "retain digest (Permissions w pf ap fs ts nw so pv cs) st =
     fold (retain digest) cs (retain_one digest (Permissions w pf ap fs ts nw so pv cs) st)"

definition intersection :: "'h digest \<Rightarrow> permissions \<Rightarrow> permissions \<Rightarrow> permissions result" where
  "intersection digest p q =
     (if workspace p \<noteq> workspace q
      then Inl (ValueError ''cannot intersect permission policies from different workspaces'')
      else if revision digest p = revision digest q
        \<or> list_ex (\<lambda>c. revision digest c = revision digest q) (ceilings p) then Inr p
      else (case retain digest q (fold (retain digest) (ceilings p) ({atom_key digest p}, [], sources p)) of
        (seen, kept, gathered) \<Rightarrow> Inr (with_sources (remdups_first gathered) (with_ceilings kept p))))"

section \<open>Children and startup\<close>

text \<open>The policy of another workspace: paths under \<open>source\<close> move, nothing outside is granted.\<close>

definition move_path :: "path \<Rightarrow> path \<Rightarrow> string \<Rightarrow> string" where
  "move_path source destination s = (let p = path_of s in
     if relative_to p source then path_text (fst destination, snd destination @ drop (length (snd source)) (snd p)) else s)"

definition boundary_policy :: "host_view \<Rightarrow> string \<Rightarrow> bool \<Rightarrow> path \<Rightarrow> permissions result" where
  "boundary_policy v state_directory ro destination = ebind
     (resolve_policy v state_directory \<lparr>pp_profile = if ro then ReadOnlyProfile else WorkspaceProfile,
        pp_approval = OnRequest, pp_filesystem = [], pp_tools = [], pp_network = open_network\<rparr> destination)
     (\<lambda>b. Inr (with_network (open_network\<lparr>np_decision := Allow\<rparr>) b))"

fun relocate :: "'h digest \<Rightarrow> host_view \<Rightarrow> string \<Rightarrow> path \<Rightarrow> path \<Rightarrow> permissions \<Rightarrow> permissions result" where
  "relocate digest v state_directory source destination (Permissions w pf ap fs ts nw so pv cs) =
     ebind (map_result (relocate digest v state_directory source destination) cs) (\<lambda>above.
     ebind (boundary_policy v state_directory (read_only (Permissions w pf ap fs ts nw so pv cs)) destination) (\<lambda>boundary.
       intersection digest
         (Permissions (path_text destination) pf ap (map (\<lambda>r. r\<lparr>pr_path := move_path source destination (pr_path r)\<rparr>) fs)
            ts nw so
            (remdups_first (map (move_path source destination) pv @ [path_text (sub_path destination ''.praxis'')])) above)
         boundary))"

text \<open>
  \<open>resolve_permission_sources\<close> after the files were read: \<open>user\<close> and \<open>managed\<close> are the resolved
  policies of the user and of the administrator.
\<close>

definition resolve_permission_sources ::
  "'h digest \<Rightarrow> host_view \<Rightarrow> permissions \<Rightarrow> permissions option \<Rightarrow> path list \<Rightarrow> string list \<Rightarrow> string list \<Rightarrow> permissions result" where
  "resolve_permission_sources digest v user managed read_files automatic private =
     ebind (with_read_files v read_files user) (\<lambda>p.
     ebind (case managed of None \<Rightarrow> Inr p | Some m \<Rightarrow> intersection digest p m) (\<lambda>q.
       Inr (with_private (remdups_first (private_paths q @ private))
         (with_sources (remdups_first (sources q @ automatic)) q))))"

section \<open>The projection for process sandboxes\<close>

fun boundary_paths :: "permissions \<Rightarrow> string list" where
  "boundary_paths (Permissions w pf ap fs ts nw so pv cs) =
     map pr_path fs @ filter is_absolute so @ pv @ concat (map boundary_paths cs)"

definition boundary_less :: "string \<Rightarrow> string \<Rightarrow> bool" where
  "boundary_less a b \<longleftrightarrow> path_depth (path_of a) < path_depth (path_of b)
     \<or> path_depth (path_of a) = path_depth (path_of b) \<and> string_less a b"

definition sandbox_filesystem :: "host_view \<Rightarrow> permissions \<Rightarrow> path_rule list" where
  "sandbox_filesystem v p = map (\<lambda>s. \<lparr>pr_path = s, pr_access =
       if path_access v p (path_of s) True then WriteAccess
       else if path_access v p (path_of s) False then ReadAccess else DenyAccess\<rparr>)
     (sorted_set boundary_less (boundary_paths p))"

end
