(* ===== verification/Tool_Permissions.thy ===== *)
theory Tool_Permissions
  imports Permission_Ops
begin

text \<open>
  Whether a tool call may run: the decision of \<open>tools/permissions.py\<close> from the resolved effects and
  targets of a call, the hard guards that no approval bypasses, the restriction of a context by a
  live one or by a saved policy, and the reusable command grants of \<open>approval.py\<close>. A context carries
  the policy that its provider returned; \<open>tools\<close> themselves run outside the model.
\<close>

section \<open>Calls and contexts\<close>

datatype tool_effect = ReadsWorkspace | WritesWorkspace | ExecutesProcess | UsesNetwork | Destructive

fun effect_name :: "tool_effect \<Rightarrow> string" where
  "effect_name ReadsWorkspace = ''read_workspace''"
| "effect_name WritesWorkspace = ''write_workspace''"
| "effect_name ExecutesProcess = ''execute_process''"
| "effect_name UsesNetwork = ''network''"
| "effect_name Destructive = ''destructive''"

definition effect_order :: "tool_effect list" where
  "effect_order = [Destructive, ExecutesProcess, UsesNetwork, ReadsWorkspace, WritesWorkspace]"

datatype approval_profile = RestrictedReadOnlyProcess | PublicWebRead | McpAction
datatype cancellation_mode = Cooperative | ManagedProcess | RemoteBestEffort | NotCancellable
datatype approval_mode = AskMode | AutoMode | FullMode

fun mode_rank :: "approval_mode \<Rightarrow> nat" where
  "mode_rank AskMode = 0" | "mode_rank AutoMode = 1" | "mode_rank FullMode = 2"

record tool =
  tn_name :: string
  tn_profile :: "approval_profile option"
  tn_cancellation :: cancellation_mode
  tn_revision :: string
  tn_static :: "tool_effect set"

record resolved_use =
  ru_effects :: "tool_effect set"
  ru_targets :: "(string \<times> string) list"

record 'h command_grant =
  cg_argv :: "string list"
  cg_parameters :: json
  cg_tool_revision :: string
  cg_permissions_revision :: "'h option"
  cg_workspace :: string
  cg_cwd :: string
  cg_targets :: "(string \<times> string) list"

record 'h tool_context =
  cx_workspace :: "path option"
  cx_cwd :: "path option"
  cx_write :: bool
  cx_execute :: bool
  cx_web :: bool
  cx_skills :: "string set"
  cx_deny_effects :: "tool_effect set"
  cx_confirm :: "string set"
  cx_denied_tools :: "string set"
  cx_sandboxed :: bool
  cx_mode :: approval_mode
  cx_grants :: "'h command_grant list"
  cx_permissions :: "permissions option"
  cx_provided :: "permissions option"

definition effective_permissions :: "'h digest \<Rightarrow> 'h tool_context \<Rightarrow> permissions option result" where
  "effective_permissions digest cx = (case cx_provided cx of
       None \<Rightarrow> Inr (cx_permissions cx)
     | Some p \<Rightarrow> (case cx_permissions cx of
           None \<Rightarrow> Inr (Some p)
         | Some q \<Rightarrow> ebind (intersection digest p q) (\<lambda>r. Inr (Some r))))"

text \<open>\<open>refreshed\<close>: a context can only lose authority to the live one.\<close>

definition refreshed :: "'h digest \<Rightarrow> 'h tool_context option \<Rightarrow> 'h tool_context \<Rightarrow> 'h tool_context result" where
  "refreshed digest live cx = (case live of
       None \<Rightarrow> Inr cx
     | Some lv \<Rightarrow> ebind (effective_permissions digest cx) (\<lambda>effective.
         ebind (effective_permissions digest lv) (\<lambda>current.
         ebind (case (effective, current) of
             (Some p, Some q) \<Rightarrow> ebind (intersection digest p q) (\<lambda>r. Inr (Some r))
           | (None, _) \<Rightarrow> Inr current
           | (Some p, None) \<Rightarrow> Inr (Some p)) (\<lambda>perms. Inr (cx
           \<lparr>cx_permissions := perms, cx_provided := cx_provided lv,
            cx_write := cx_write cx \<and> cx_write lv, cx_execute := cx_execute cx \<and> cx_execute lv,
            cx_web := cx_web cx \<and> cx_web lv, cx_sandboxed := cx_sandboxed cx \<and> cx_sandboxed lv,
            cx_mode := (if mode_rank (cx_mode lv) < mode_rank (cx_mode cx) then cx_mode lv else cx_mode cx),
            cx_grants := filter (\<lambda>g. g \<in> set (cx_grants lv)) (cx_grants cx),
            cx_deny_effects := cx_deny_effects cx \<union> cx_deny_effects lv,
            cx_denied_tools := cx_denied_tools cx \<union> cx_denied_tools lv,
            cx_confirm := cx_confirm cx \<union> cx_confirm lv\<rparr>)))))"

text \<open>A saved policy; an absent flag is not restored.\<close>

record saved_policy =
  sv_write :: "bool option"
  sv_execute :: "bool option"
  sv_web :: "bool option"
  sv_sandboxed :: "bool option"
  sv_deny_effects :: "tool_effect set"
  sv_denied_tools :: "string set"
  sv_confirm :: "string set"
  sv_skills :: "string set option"
  sv_permissions :: "permissions option"

definition restored_flag :: "bool \<Rightarrow> bool \<Rightarrow> bool option \<Rightarrow> bool" where
  "restored_flag grants now saved = (case saved of None \<Rightarrow> now | Some b \<Rightarrow> if grants then b else b \<and> now)"

definition restore_tool_policy ::
  "'h digest \<Rightarrow> 'h tool_context \<Rightarrow> saved_policy \<Rightarrow> bool \<Rightarrow> 'h tool_context result" where
  "restore_tool_policy digest cx sv grants = ebind (effective_permissions digest cx) (\<lambda>current.
     ebind (case (current, sv_permissions sv) of
         (Some p, Some q) \<Rightarrow> ebind (intersection digest p q) (\<lambda>r. Inr (Some r))
       | (Some p, None) \<Rightarrow> Inr (Some p)
       | (None, Some q) \<Rightarrow> Inr (Some q)
       | (None, None) \<Rightarrow> Inr (cx_permissions cx)) (\<lambda>perms. Inr (cx
       \<lparr>cx_permissions := perms,
        cx_write := restored_flag grants (cx_write cx) (sv_write sv),
        cx_execute := restored_flag grants (cx_execute cx) (sv_execute sv),
        cx_web := restored_flag grants (cx_web cx) (Some (case sv_web sv of None \<Rightarrow> False | Some b \<Rightarrow> b)),
        cx_sandboxed := restored_flag grants (cx_sandboxed cx) (sv_sandboxed sv),
        cx_skills := (case sv_skills sv of None \<Rightarrow> cx_skills cx | Some ks \<Rightarrow> ks),
        cx_deny_effects := sv_deny_effects sv \<union> cx_deny_effects cx,
        cx_denied_tools := sv_denied_tools sv \<union> cx_denied_tools cx,
        cx_confirm := sv_confirm sv \<union> cx_confirm cx\<rparr>)))"

section \<open>Command grants\<close>

text \<open>\<open>shlex.split\<close> on a text without backslashes: quotes join, blanks separate.\<close>

definition shell_blank :: "char \<Rightarrow> bool" where
  "shell_blank c \<longleftrightarrow> c \<in> {CHR '' '', CHR 0x09, CHR 0x0D, CHR 0x0A}"

fun shell_words :: "char option \<Rightarrow> string option \<Rightarrow> string \<Rightarrow> string list result" where
  "shell_words (Some q) word [] = Inl (ValueError ''No closing quotation'')"
| "shell_words None word [] = Inr (case word of None \<Rightarrow> [] | Some w \<Rightarrow> [w])"
| "shell_words (Some q) word (c # cs) =
     (if c = q then shell_words None word cs
      else shell_words (Some q) (Some ((case word of None \<Rightarrow> [] | Some w \<Rightarrow> w) @ [c])) cs)"
| "shell_words None word (c # cs) =
     (if shell_blank c then ebind (shell_words None None cs)
          (\<lambda>ws. Inr (case word of None \<Rightarrow> ws | Some w \<Rightarrow> w # ws))
      else if c = CHR 0x27 \<or> c = CHR 0x22
      then shell_words (Some c) (Some (case word of None \<Rightarrow> [] | Some w \<Rightarrow> w)) cs
      else shell_words None (Some ((case word of None \<Rightarrow> [] | Some w \<Rightarrow> w) @ [c])) cs)"

definition shell_syntax :: string where
  "shell_syntax = '';&|<>$`(){}*?[]'' @ [CHR 0x5C, CHR 0x0A, CHR 0x0D, CHR 0x00]"

definition interpreter :: "string \<Rightarrow> bool" where
  "interpreter w \<longleftrightarrow> ends_with ''sh'' w
     \<or> w \<in> {''fish'', ''node'', ''ruby'', ''perl'', ''php'', ''lua'', ''eval'', ''exec'', ''env'', ''xargs''}
     \<or> starts_with ''python'' w \<and> list_all (\<lambda>c. c = CHR ''.'' \<or> 48 \<le> (of_char c :: nat) \<and> (of_char c :: nat) \<le> 57) (drop 6 w)"

definition path_name :: "string \<Rightarrow> string" where
  "path_name s = (if path_parts s = [] then [] else last (path_parts s))"

definition plain_argv :: "string list \<Rightarrow> bool" where
  "plain_argv ws \<longleftrightarrow> ws \<noteq> [] \<and> CHR ''='' \<notin> set (hd ws)
     \<and> \<not> list_ex (\<lambda>w. interpreter (path_name w) \<or> w \<in> {''-c'', ''--eval''}
          \<or> list_ex (\<lambda>e. ends_with e w) [''.sh'', ''.py'', ''.js'', ''.rb'', ''.pl'']) ws"

definition opt_path_text :: "path option \<Rightarrow> string" where
  "opt_path_text x = (case x of None \<Rightarrow> ''None'' | Some p \<Rightarrow> path_text p)"

definition command_grant ::
  "'h digest \<Rightarrow> tool \<Rightarrow> json \<Rightarrow> resolved_use \<Rightarrow> 'h tool_context \<Rightarrow> 'h command_grant option result" where
  "command_grant digest t args ru cx =
     (if tn_name t \<noteq> ''run_command'' \<or> tn_profile t \<noteq> Some RestrictedReadOnlyProcess
         \<or> tn_cancellation t \<noteq> ManagedProcess \<or> ru_effects ru \<noteq> {ReadsWorkspace, ExecutesProcess}
         \<or> (''execution_mode'', ''restricted_sandbox'') \<notin> set (ru_targets ru) \<or> tn_name t \<in> cx_confirm cx
      then Inr None
      else case jget args ''command'' of
          JStr command \<Rightarrow>
            if list_ex (\<lambda>c. c \<in> set shell_syntax) command then Inr None
            else (case shell_words None None command of
                Inl _ \<Rightarrow> Inr None
              | Inr argv \<Rightarrow>
                  if \<not> plain_argv argv then Inr None
                  else ebind (effective_permissions digest cx) (\<lambda>perms.
                    if (case perms of None \<Rightarrow> False | Some p \<Rightarrow> tool_decision p (tn_name t) \<in> {Some Ask, Some Deny})
                    then Inr None
                    else Inr (Some \<lparr>cg_argv = argv, cg_parameters = jdel args ''command'', cg_tool_revision = tn_revision t,
                      cg_permissions_revision = map_option (revision digest) perms,
                      cg_workspace = opt_path_text (cx_workspace cx), cg_cwd = opt_path_text (cx_cwd cx),
                      cg_targets = ru_targets ru\<rparr>)))
        | _ \<Rightarrow> Inr None)"

definition grant_matches :: "'h command_grant \<Rightarrow> 'h command_grant \<Rightarrow> bool" where
  "grant_matches g other \<longleftrightarrow> is_prefix (cg_argv g) (cg_argv other)
     \<and> cg_parameters g = cg_parameters other \<and> cg_tool_revision g = cg_tool_revision other
     \<and> cg_permissions_revision g = cg_permissions_revision other \<and> cg_workspace g = cg_workspace other
     \<and> cg_cwd g = cg_cwd other \<and> cg_targets g = cg_targets other"

section \<open>The decision\<close>

type_synonym tool_verdict = "decision \<times> string \<times> string"

fun join_with :: "string \<Rightarrow> string list \<Rightarrow> string" where
  "join_with sep [] = []"
| "join_with sep [w] = w"
| "join_with sep (w # ws) = w @ sep @ join_with sep ws"

definition approval_reasons :: "'h tool_context \<Rightarrow> tool_effect set \<Rightarrow> bool \<Rightarrow> string list" where
  "approval_reasons cx effects net =
     (if WritesWorkspace \<in> effects \<and> \<not> cx_write cx \<and> cx_mode cx \<noteq> AutoMode then [''workspace write''] else [])
     @ (if ExecutesProcess \<in> effects \<and> \<not> cx_execute cx then [''process execution''] else [])
     @ (if Destructive \<in> effects then [''destructive operation''] else [])
     @ (if net then [''network access''] else [])"

definition granted_command ::
  "'h digest \<Rightarrow> tool \<Rightarrow> json \<Rightarrow> resolved_use \<Rightarrow> 'h tool_context \<Rightarrow> bool result" where
  "granted_command digest t args ru cx = (if cx_grants cx = [] then Inr False
     else ebind (command_grant digest t args ru cx) (\<lambda>candidate. Inr (case candidate of
         None \<Rightarrow> False | Some c \<Rightarrow> list_ex (\<lambda>g. grant_matches g c) (cx_grants cx))))"

definition web_preapproved :: "tool \<Rightarrow> resolved_use \<Rightarrow> 'h tool_context \<Rightarrow> bool" where
  "web_preapproved t ru cx \<longleftrightarrow> (cx_web cx \<or> cx_mode cx = AutoMode) \<and> tn_profile t = Some PublicWebRead
     \<and> tn_name t \<in> {''web_search'', ''web_fetch''} \<and> ru_effects ru = {UsesNetwork}
     \<and> list_ex (\<lambda>x. fst x = ''public_web'') (ru_targets ru)"

definition sandbox_preapproved :: "tool \<Rightarrow> resolved_use \<Rightarrow> 'h tool_context \<Rightarrow> bool" where
  "sandbox_preapproved t ru cx \<longleftrightarrow> (cx_sandboxed cx \<or> cx_mode cx = AutoMode)
     \<and> tn_profile t = Some RestrictedReadOnlyProcess \<and> tn_cancellation t = ManagedProcess
     \<and> ExecutesProcess \<in> ru_effects ru \<and> WritesWorkspace \<notin> ru_effects ru \<and> Destructive \<notin> ru_effects ru
     \<and> (''execution_mode'', ''restricted_sandbox'') \<in> set (ru_targets ru)"

definition needed_approval :: "resolved_use \<Rightarrow> 'h tool_context \<Rightarrow> bool \<Rightarrow> tool_verdict" where
  "needed_approval ru cx preapproved =
     (let separate = UsesNetwork \<in> ru_effects ru \<and> ExecutesProcess \<in> ru_effects ru \<and> \<not> preapproved;
          reasons = approval_reasons cx (ru_effects ru) (UsesNetwork \<in> ru_effects ru \<and> \<not> preapproved \<and> \<not> separate)
      in if reasons \<noteq> []
         then (Ask, ''approval required for '' @ join_with '', '' reasons
           @ (if separate then ''; network access requires a separate approval'' else []), ''tool'')
         else if separate then (Ask, ''approval required for network access'', ''network'')
         else (Allow, ''resolved effects are allowed'', ''tool''))"

definition default_tool_decision ::
  "'h digest \<Rightarrow> tool \<Rightarrow> json \<Rightarrow> resolved_use \<Rightarrow> 'h tool_context \<Rightarrow> bool \<Rightarrow> tool_verdict result" where
  "default_tool_decision digest t args ru cx preapproved =
     (if tn_name t \<in> cx_denied_tools cx then Inr (Deny, ''tool blocked by runtime policy: '' @ tn_name t, ''tool'')
      else if ru_effects ru \<inter> cx_deny_effects cx \<noteq> {}
      then Inr (Deny, ''effects denied by runtime policy: ''
        @ join_with '', '' (map effect_name (filter (\<lambda>e. e \<in> ru_effects ru \<inter> cx_deny_effects cx) effect_order)), ''tool'')
      else if tn_name t \<in> cx_confirm cx \<or> tn_profile t = Some McpAction
      then Inr (Ask, ''runtime policy requires confirmation for tool: '' @ tn_name t, ''tool'')
      else if cx_mode cx = FullMode then Inr (Allow, ''user selected full approval within permission limits'', ''tool'')
      else ebind (granted_command digest t args ru cx) (\<lambda>granted.
        if granted then Inr (Allow, ''command matches a current Session grant'', ''tool'')
        else if web_preapproved t ru cx then Inr (Allow, ''public web reading is pre-approved by runtime policy'', ''tool'')
        else if sandbox_preapproved t ru cx
        then Inr (Allow, ''restricted sandbox execution is pre-approved by runtime policy'', ''tool'')
        else Inr (needed_approval ru cx preapproved)))"

text \<open>The first target path that the policy refuses.\<close>

definition writes :: "resolved_use \<Rightarrow> bool" where
  "writes ru \<longleftrightarrow> WritesWorkspace \<in> ru_effects ru"

definition denied_target :: "host_view \<Rightarrow> permissions \<Rightarrow> resolved_use \<Rightarrow> (string \<times> string) option" where
  "denied_target v p ru = find (\<lambda>(kind, value). kind = ''workspace_path''
     \<and> \<not> path_access v p (path_of value) (writes ru)) (ru_targets ru)"

definition network_outcome :: "(string \<Rightarrow> (string \<times> string) option) \<Rightarrow> permissions \<Rightarrow> resolved_use \<Rightarrow> decision option" where
  "network_outcome urlsplit p ru =
     (if UsesNetwork \<notin> ru_effects ru then None
      else let urls = map snd (filter (\<lambda>x. fst x = ''public_web'') (ru_targets ru));
               outcomes = (if urls \<noteq> [] then map (\<lambda>u. network_decision p (urlsplit u)) urls else [command_network_allowed p])
           in Some (if Deny \<in> set outcomes then Deny else if Ask \<in> set outcomes then Ask else Allow))"

definition under_policy ::
  "permissions \<Rightarrow> tool \<Rightarrow> resolved_use \<Rightarrow> 'h tool_context \<Rightarrow> decision option \<Rightarrow> tool_verdict \<Rightarrow> tool_verdict" where
  "under_policy p t ru cx net decided =
     (let rule = tool_decision p (tn_name t);
          ruled = (if rule = Some Ask then (Ask, ''permission rule requires approval: '' @ tn_name t, ''tool'')
            else if rule = Some Allow \<and> Destructive \<notin> ru_effects ru \<and> tn_name t \<notin> cx_confirm cx
                 \<and> tn_profile t \<noteq> Some McpAction
            then (Allow, ''permission rule allows tool: '' @ tn_name t, ''tool'') else decided);
          preapproved = (cx_web cx \<or> cx_mode cx \<in> {AutoMode, FullMode}) \<and> tn_profile t = Some PublicWebRead
            \<and> tn_name t \<in> {''web_search'', ''web_fetch''};
          asked = (if net = Some Ask \<and> fst ruled = Allow \<and> \<not> preapproved \<and> cx_mode cx \<noteq> FullMode
            then (Ask, ''permission policy requires network approval'', ''network'') else ruled)
      in if effective_approval p = NeverAsk \<and> fst asked = Ask
         then (Deny, ''approval is required but permission policy disables prompts'', ''tool'') else asked)"

definition can_use_tool ::
  "'h digest \<Rightarrow> host_view \<Rightarrow> (string \<Rightarrow> (string \<times> string) option) \<Rightarrow> tool \<Rightarrow> json \<Rightarrow> resolved_use \<Rightarrow> 'h tool_context
     \<Rightarrow> tool_verdict result" where
  "can_use_tool digest v urlsplit t args ru cx = ebind (effective_permissions digest cx) (\<lambda>perms. case perms of
       None \<Rightarrow> default_tool_decision digest t args ru cx False
     | Some p \<Rightarrow>
         if tool_decision p (tn_name t) = Some Deny
         then Inr (Deny, ''permission rule denies tool: '' @ tn_name t, ''tool'')
         else (case denied_target v p ru of
             Some (kind, value) \<Rightarrow> Inr (Deny, path_reason v p (path_of value) (writes ru), ''tool'')
           | None \<Rightarrow>
               if read_only p \<and> (ru_effects ru \<inter> {WritesWorkspace, Destructive} \<noteq> {} \<or> tn_profile t = Some McpAction)
               then Inr (Deny, ''read-only permission profile forbids mutation'', ''tool'')
               else let net = network_outcome urlsplit p ru in
                 if net = Some Deny
                 then Inr (Deny, ''network destination denied by permission policy'', ''tool'')
                 else ebind (default_tool_decision digest t args ru cx (net = Some Allow)) (\<lambda>decided.
                   if fst decided = Deny then Inr decided else Inr (under_policy p t ru cx net decided))))"

section \<open>Hard guards\<close>

definition contained :: "host_view \<Rightarrow> path \<Rightarrow> path \<Rightarrow> string \<Rightarrow> unit result" where
  "contained v place p code = (case hv_expand v p of
       None \<Rightarrow> Inl (RuntimeError ''could not determine home directory'')
     | Some c \<Rightarrow> (case hv_real v (if fst c \<noteq> [] then c else (fst place, snd place @ snd c)) of
           None \<Rightarrow> Inl (RuntimeError ''cannot resolve'')
         | Some target \<Rightarrow> if relative_to target place then Inr () else Inl (ValueError code)))"

fun all_pass :: "('a \<Rightarrow> unit result) \<Rightarrow> 'a list \<Rightarrow> unit result" where
  "all_pass f [] = Inr ()"
| "all_pass f (x # xs) = ebind (f x) (\<lambda>_. all_pass f xs)"

definition guard_workspace_target ::
  "'h digest \<Rightarrow> host_view \<Rightarrow> resolved_use \<Rightarrow> 'h tool_context \<Rightarrow> string \<Rightarrow> unit result" where
  "guard_workspace_target digest v ru cx value = (case cx_workspace cx of
       None \<Rightarrow> Inl (ValueError ''workspace_root_unavailable'')
     | Some place \<Rightarrow> ebind (effective_permissions digest cx) (\<lambda>perms. case perms of
           None \<Rightarrow> contained v place (path_of value) ''workspace_escape''
         | Some p \<Rightarrow> if path_access v p (path_of value) (writes ru) then Inr ()
             else Inl (ValueError ''filesystem_denied'')))"

definition guard_cwd_target :: "host_view \<Rightarrow> 'h tool_context \<Rightarrow> string \<Rightarrow> unit result" where
  "guard_cwd_target v cx value = (case cx_cwd cx of
       None \<Rightarrow> Inl (ValueError ''cwd_required'') | Some cwd \<Rightarrow> contained v cwd (path_of value) ''cwd_escape'')"

definition targets_of :: "string \<Rightarrow> resolved_use \<Rightarrow> string list" where
  "targets_of kind ru = map snd (filter (\<lambda>x. fst x = kind) (ru_targets ru))"

definition enforce_hard_guards ::
  "'h digest \<Rightarrow> host_view \<Rightarrow> tool \<Rightarrow> resolved_use \<Rightarrow> 'h tool_context \<Rightarrow> unit result" where
  "enforce_hard_guards digest v t ru cx =
     (if \<not> tn_static t \<subseteq> ru_effects ru then Inl (ValueError ''effect_floor_violation'')
      else if WritesWorkspace \<in> ru_effects ru \<and> targets_of ''workspace_path'' ru = []
      then Inl (ValueError ''workspace_target_required'')
      else ebind (all_pass (guard_workspace_target digest v ru cx) (targets_of ''workspace_path'' ru)) (\<lambda>_.
        if ExecutesProcess \<in> ru_effects ru \<and> cx_cwd cx = None then Inl (ValueError ''cwd_required'')
        else ebind (all_pass (guard_cwd_target v cx) (targets_of ''cwd_path'' ru)) (\<lambda>_.
          if list_ex (\<lambda>s. s \<notin> cx_skills cx) (targets_of ''active_skill'' ru) then Inl (ValueError ''skill_not_active'')
          else case (cx_workspace cx, cx_cwd cx) of
              (Some place, Some cwd) \<Rightarrow> contained v place cwd ''cwd_escape''
            | _ \<Rightarrow> Inr ())))"

end
