(* ===== verification/Permission_Laws.thy ===== *)
theory Permission_Laws
  imports Permission_Ops
begin

text \<open>
  What a policy answers, stated over its family: the policy and all its ceilings. Every answer about
  paths is the conjunction, and every decision the maximum, over the family; a member contributes
  through its atom and its sources only. So an intersection, whose family has the atoms and the
  sources of both operands, answers exactly what both would.
\<close>

section \<open>Answers over the family\<close>

lemma first_reason_Nil: "first_reason rs = [] \<longleftrightarrow> (\<forall>r \<in> set rs. r = [])"
  by (induction rs) auto

lemma family_own: "p \<in> set (family p)"
  by (cases p) simp

lemma family_ceiling: "c \<in> set (ceilings p) \<Longrightarrow> x \<in> set (family c) \<Longrightarrow> x \<in> set (family p)"
  by (cases p) auto

lemma path_access_family: "path_access v p x w \<longleftrightarrow> (\<forall>c \<in> set (family p). own_reason v c x w = [])"
proof (induction p rule: family.induct)
  case (1 ws pf ap fs ts nw so pv cs)
  have "path_access v (Permissions ws pf ap fs ts nw so pv cs) x w \<longleftrightarrow>
      own_reason v (Permissions ws pf ap fs ts nw so pv cs) x w = [] \<and> (\<forall>c \<in> set cs. path_access v c x w)"
    by (auto simp: path_access_def Let_def first_reason_Nil)
  with 1 show ?case by auto
qed

text \<open>The maximum over a list, with a bottom value for the empty one.\<close>

lemma foldr_max_set: "foldr max xs (b :: 'a :: linorder) = Max (insert b (set xs))"
  by (induction xs) (auto simp: insert_commute max_def)

lemma foldr_max_append:
  "(\<And>x. (b :: 'a :: linorder) \<le> x) \<Longrightarrow> foldr max (xs @ ys) b = max (foldr max xs b) (foldr max ys b)"
  by (induction xs) (simp_all add: max.assoc max_absorb2)

lemma foldr_max_concat:
  "(\<And>x. (b :: 'a :: linorder) \<le> x) \<Longrightarrow> foldr max (concat xss) b = foldr max (map (\<lambda>xs. foldr max xs b) xss) b"
  by (induction xss) (simp_all add: foldr_max_append del: foldr_append)

definition over_family :: "'a :: linorder \<Rightarrow> (permissions \<Rightarrow> 'a) \<Rightarrow> permissions \<Rightarrow> 'a" where
  "over_family b f p = foldr max (map f (family p)) b"

lemma over_family_unfold:
  assumes "\<And>x. b \<le> x"
  shows "over_family b f (Permissions ws pf ap fs ts nw so pv cs) =
    max (f (Permissions ws pf ap fs ts nw so pv cs)) (foldr max (map (over_family b f) cs) b)"
  using foldr_max_concat [OF assms, of "map (map f \<circ> family) cs"]
  by (simp add: over_family_def [abs_def] map_concat comp_def)

lemma over_family_cong: "f ` set (family p) = g ` set (family q) \<Longrightarrow> over_family b f p = over_family b g q"
  by (simp add: over_family_def foldr_max_set)

lemma over_family_Un:
  assumes "f ` set (family r) = f ` set (family p) \<union> f ` set (family q)"
  shows "over_family b f r = max (over_family b f p) (over_family b f q)"
proof -
  have "Max (insert b (A \<union> B)) = max (Max (insert b A)) (Max (insert b B))" if "finite A" "finite B" for A B
    using Max_Un [of "insert b A" "insert b B"] that by simp
  then show ?thesis by (simp add: over_family_def foldr_max_set assms)
qed

definition own_tool :: "permissions \<Rightarrow> string \<Rightarrow> decision option" where
  "own_tool p name = foldr max (map (Some \<circ> tl_decision) (filter (\<lambda>r. fnmatch (tl_pattern r) name) (tools p))) None"

lemma None_least: "(None :: decision option) \<le> x"
  by simp

lemma Allow_least: "Allow \<le> x"
  by (cases x) (simp_all add: less_eq_decision_def)

lemma max_Allow [simp]: "max x Allow = x" "max Allow x = x"
  using Allow_least by (simp_all add: max_absorb1 max_absorb2)

lemma tool_decision_family: "tool_decision p name = over_family None (\<lambda>c. own_tool c name) p"
proof (induction p rule: family.induct)
  case (1 ws pf ap fs ts nw so pv cs)
  then have eq: "map (\<lambda>c. tool_decision c name) cs = map (over_family None (\<lambda>c. own_tool c name)) cs" by simp
  have "own_tool (Permissions ws pf ap fs ts nw so pv cs) name
      = foldr max (map (Some \<circ> tl_decision) (filter (\<lambda>r. fnmatch (tl_pattern r) name) ts)) None"
    by (simp add: own_tool_def)
  then show ?case
    by (simp only: over_family_unfold [OF None_least] tool_decision.simps foldr_max_append [OF None_least] eq)
qed

lemma foldr_max_base: "foldr max xs (b :: decision) = max b (foldr max xs Allow)"
  by (induction xs) (simp_all add: max.left_commute)

lemma network_decision_family: "network_decision p url = over_family Allow (\<lambda>c. url_decision (network c) url) p"
proof (induction p rule: family.induct)
  case (1 ws pf ap fs ts nw so pv cs)
  then have eq: "map (\<lambda>c. network_decision c url) cs = map (over_family Allow (\<lambda>c. url_decision (network c) url)) cs" by simp
  then show ?case
    by (simp only: over_family_unfold [OF Allow_least] network_decision.simps foldr_max_base [where b = "url_decision nw url"]
        eq permissions.sel)
qed

lemma command_network_family: "command_network_allowed p = over_family Allow (\<lambda>c. command_decision (network c)) p"
proof (induction p rule: family.induct)
  case (1 ws pf ap fs ts nw so pv cs)
  then have eq: "map command_network_allowed cs = map (over_family Allow (\<lambda>c. command_decision (network c))) cs" by simp
  then show ?case
    by (simp only: over_family_unfold [OF Allow_least] command_network_allowed.simps
        foldr_max_base [where b = "command_decision nw"] eq permissions.sel)
qed

lemma approval_family: "effective_approval p = NeverAsk \<longleftrightarrow> (\<exists>c \<in> set (family p). approval_of c = NeverAsk)"
  by (induction p rule: family.induct) (auto simp: list_ex_iff)

lemma read_only_family: "read_only p \<longleftrightarrow> (\<exists>c \<in> set (family p). profile_of c = ReadOnlyProfile)"
  by (induction p rule: family.induct) (auto simp: list_ex_iff)

end
