(* ===== verification/Permission_Meet.thy ===== *)
theory Permission_Meet
  imports Permission_Laws
begin

text \<open>
  Intersection as a meet. A member of a family grants a path through its atom, and its sources only
  forbid writes; \<open>intersection\<close> collects the atoms and the sources of both operands once each.
\<close>

section \<open>What one member contributes\<close>

lemma key_less_trans: "key_less a b \<Longrightarrow> key_less b c \<Longrightarrow> key_less a c"
  by (auto simp: key_less_def)

lemma key_less_linear: "key_less a b \<or> a = b \<or> key_less b a"
  by (cases a; cases b) (auto simp: key_less_def)

lemma key_less_irrefl: "\<not> key_less a a"
  by (simp add: key_less_def)

lemma first_max_in: "first_max b rs \<in> insert b (set rs)"
  by (induction b rs rule: first_max.induct) (auto split: if_splits)

lemma first_max_greatest: "r \<in> insert b (set rs) \<Longrightarrow> \<not> key_less (rule_key (first_max b rs)) (rule_key r)"
proof (induction b rs arbitrary: r rule: first_max.induct)
  case (1 best)
  then show ?case by (simp add: key_less_irrefl)
next
  case (2 best x rs)
  let ?n = "if key_less (rule_key best) (rule_key x) then x else best"
  have new: "\<not> key_less (rule_key (first_max ?n rs)) (rule_key ?n)" by (rule "2.IH") simp
  show ?case
  proof (cases "r \<in> insert ?n (set rs)")
    case True
    then have "\<not> key_less (rule_key (first_max ?n rs)) (rule_key r)" by (rule "2.IH")
    then show ?thesis by simp
  next
    case False
    with "2.prems" have "key_less (rule_key r) (rule_key ?n) \<or> rule_key r = rule_key ?n"
      using key_less_linear [of "rule_key best" "rule_key x"] by (auto split: if_splits)
    with new have "\<not> key_less (rule_key (first_max ?n rs)) (rule_key r)" using key_less_trans by metis
    then show ?thesis by simp
  qed
qed

text \<open>The access of the most specific rule over a path, read from the set of rules.\<close>

definition rules_grant :: "host_view \<Rightarrow> path_rule set \<Rightarrow> path \<Rightarrow> bool \<Rightarrow> bool" where
  "rules_grant v fs cand w \<longleftrightarrow> (\<exists>r \<in> fs. rule_under v cand r
     \<and> (\<forall>q \<in> fs. rule_under v cand q \<longrightarrow> \<not> key_less (rule_key r) (rule_key q))
     \<and> pr_access r \<noteq> DenyAccess \<and> (w \<longrightarrow> pr_access r = WriteAccess))"

lemma rule_reason_Nil: "rule_reason v p lx cand w = [] \<longleftrightarrow> rules_grant v (set (filesystem p)) cand w"
proof (cases "filter (rule_under v cand) (filesystem p)")
  case Nil
  then have "\<not> rules_grant v (set (filesystem p)) cand w" by (auto simp: rules_grant_def filter_empty_conv)
  with Nil show ?thesis by (simp add: rule_reason_def)
next
  case (Cons r rs)
  let ?s = "first_max r rs"
  have mem: "insert r (set rs) = {q \<in> set (filesystem p). rule_under v cand q}"
    using arg_cong [OF Cons, of set] by simp
  then have s: "?s \<in> set (filesystem p)" "rule_under v cand ?s" using first_max_in [of r rs] by auto
  have top: "\<not> key_less (rule_key ?s) (rule_key q)" if "q \<in> set (filesystem p)" "rule_under v cand q" for q
    using that mem first_max_greatest [of q r rs] by blast
  have "pr_access q = pr_access ?s"
    if "q \<in> set (filesystem p)" "rule_under v cand q" "\<not> key_less (rule_key q) (rule_key ?s)" for q
    using key_less_linear [of "rule_key q" "rule_key ?s"] top [OF that(1,2)] that(3) by (simp add: rule_key_def)
  with s top have "rules_grant v (set (filesystem p)) cand w
      \<longleftrightarrow> pr_access ?s \<noteq> DenyAccess \<and> (w \<longrightarrow> pr_access ?s = WriteAccess)"
    unfolding rules_grant_def by metis
  with Cons show ?thesis by (auto simp: rule_reason_def Let_def)
qed

definition atom_grants :: "host_view \<Rightarrow> policy_atom \<Rightarrow> path \<Rightarrow> bool \<Rightarrow> bool" where
  "atom_grants v a x w \<longleftrightarrow> (\<exists>lx target. lexical v x (path_of (at_workspace a)) = Some lx \<and> hv_real v lx = Some target
     \<and> \<not> (w \<and> at_profile a = ReadOnlyProfile)
     \<and> (\<forall>c \<in> {lx, target}. (\<forall>s \<in># at_private a. \<not> under_path v c (path_of s))
         \<and> \<not> (w \<and> (\<exists>n \<in> set (fst c # snd c). hv_casefold v n \<in> set protected_names))
         \<and> rules_grant v (set_mset (at_filesystem a)) c w))"

text \<open>No source protects the path, for the lexical path and its target.\<close>

definition source_clear :: "host_view \<Rightarrow> string \<Rightarrow> path \<Rightarrow> string set \<Rightarrow> bool" where
  "source_clear v ws x S \<longleftrightarrow> (\<forall>lx target. lexical v x (path_of ws) = Some lx \<longrightarrow> hv_real v lx = Some target \<longrightarrow>
     (\<forall>c \<in> {lx, target}. \<forall>s \<in> S. \<not> source_hit v c s))"

lemma candidate_reason_Nil:
  "candidate_reason v p lx w c = [] \<longleftrightarrow> (\<forall>s \<in> set (private_paths p). \<not> under_path v c (path_of s))
     \<and> \<not> (w \<and> (\<exists>s \<in> set (sources p). source_hit v c s))
     \<and> \<not> (w \<and> (\<exists>n \<in> set (fst c # snd c). hv_casefold v n \<in> set protected_names))
     \<and> rules_grant v (set (filesystem p)) c w"
  unfolding candidate_reason_def list_ex_iff by (cases w) (auto simp: rule_reason_Nil)

lemma own_reason_Nil:
  "own_reason v p x w = [] \<longleftrightarrow> atom_grants v (atom_of p) x w
     \<and> (w \<longrightarrow> source_clear v (workspace p) x (set (sources p)))"
proof (cases "lexical v x (path_of (workspace p))")
  case None
  then show ?thesis by (simp add: own_reason_def atom_grants_def atom_of_def)
next
  case (Some lx)
  show ?thesis
  proof (cases "hv_real v lx")
    case None
    with Some show ?thesis by (simp add: own_reason_def atom_grants_def atom_of_def)
  next
    case (Some t)
    note t = this
    have "own_reason v p x w = [] \<longleftrightarrow> \<not> (w \<and> profile_of p = ReadOnlyProfile)
        \<and> (\<forall>c \<in> {lx, t}. candidate_reason v p lx w c = [])"
      using \<open>lexical v x _ = Some lx\<close> t by (auto simp: own_reason_def first_reason_Nil)
    then show ?thesis
      using \<open>lexical v x _ = Some lx\<close> t
      by (cases lx; cases t; cases w; simp add: candidate_reason_Nil atom_grants_def source_clear_def atom_of_def; blast)
  qed
qed

section \<open>A whole family\<close>

definition atoms :: "permissions \<Rightarrow> policy_atom set" where
  "atoms p = atom_of ` set (family p)"

definition guarded_sources :: "permissions \<Rightarrow> string set" where
  "guarded_sources p = {s \<in> \<Union> (set ` sources ` set (family p)). is_absolute s}"

text \<open>Every ceiling speaks about the same workspace, as \<open>intersection\<close> demands of its operands.\<close>

definition one_workspace :: "permissions \<Rightarrow> bool" where
  "one_workspace p \<longleftrightarrow> list_all (\<lambda>c. workspace c = workspace p) (family p)"

lemma source_clear_cong:
  "{s \<in> S. is_absolute s} = {s \<in> T. is_absolute s} \<Longrightarrow> source_clear v ws x S = source_clear v ws x T"
  unfolding source_clear_def source_hit_def by blast

lemma path_access_atoms:
  assumes "one_workspace p"
  shows "path_access v p x w \<longleftrightarrow> (\<forall>a \<in> atoms p. atom_grants v a x w)
    \<and> (w \<longrightarrow> source_clear v (workspace p) x (guarded_sources p))"
proof -
  have "(\<forall>c \<in> set (family p). source_clear v (workspace c) x (set (sources c)))
      \<longleftrightarrow> source_clear v (workspace p) x (\<Union> (set ` sources ` set (family p)))"
    using assms unfolding one_workspace_def list_all_iff source_clear_def by fastforce
  also have "\<dots> \<longleftrightarrow> source_clear v (workspace p) x (guarded_sources p)"
    by (rule source_clear_cong) (auto simp: guarded_sources_def)
  finally show ?thesis
    unfolding path_access_family own_reason_Nil atoms_def by auto
qed

lemma revision_atoms: "revision digest p = digest (atoms p, guarded_sources p)"
  by (auto simp: revision_def atoms_def guarded_sources_def intro!: arg_cong [where f = digest])

section \<open>The members of an intersection\<close>

lemma atom_of_strip [simp]: "atom_of (with_ceilings cs p) = atom_of p" "atom_of (with_sources ss p) = atom_of p"
  by (cases p; simp add: atom_of_def)+

lemma with_sel [simp]:
  "ceilings (with_ceilings cs p) = cs" "sources (with_ceilings cs p) = sources p" "workspace (with_ceilings cs p) = workspace p"
  "ceilings (with_sources ss p) = ceilings p" "sources (with_sources ss p) = ss" "workspace (with_sources ss p) = workspace p"
  by (cases p; simp)+

lemma family_alt: "family p = p # concat (map family (ceilings p))"
  by (cases p) simp

lemma atom_key_eq: "inj digest \<Longrightarrow> atom_key digest p = atom_key digest q \<longleftrightarrow> atom_of p = atom_of q"
  by (simp add: atom_key_def revision_atoms atoms_def guarded_sources_def family_alt inj_eq)

lemma fold_concat: "fold f (concat xss) st = fold (fold f) xss st"
  by (induction xss arbitrary: st) simp_all

lemma retain_flat: "retain digest p st = fold (retain_one digest) (family p) st"
proof (induction digest p st rule: retain.induct)
  case (1 digest ws pf ap fs ts nw so pv cs st)
  have "fold (retain digest) cs t = fold (\<lambda>c. fold (retain_one digest) (family c)) cs t"
    if "\<And>c u. c \<in> set cs \<Longrightarrow> retain digest c u = fold (retain_one digest) (family c) u" for t
    using that by (intro fold_cong) (auto simp: fun_eq_iff)
  with 1 show ?case by (simp add: fold_concat fold_map comp_def)
qed

lemma atom_key_strip [simp]: "atom_key digest (with_ceilings cs p) = atom_key digest p"
  by (cases p) (simp add: atom_key_def)

lemma retained:
  "fold (retain_one digest) ps (seen, kept, g) = (seen', kept', g') \<Longrightarrow>
     g' = g @ concat (map sources ps) \<and> seen' = seen \<union> atom_key digest ` set ps
     \<and> (\<exists>new. kept' = kept @ new \<and> distinct (map (atom_key digest) new)
         \<and> atom_key digest ` set new = atom_key digest ` set ps - seen
         \<and> (\<forall>k \<in> set new. \<exists>c \<in> set ps. k = with_ceilings [] c))"
proof (induction ps arbitrary: seen kept g)
  case Nil
  then show ?case by simp
next
  case (Cons p ps)
  let ?k = "atom_key digest p"
  show ?case
  proof (cases "?k \<in> seen")
    case True
    then have "retain_one digest p (seen, kept, g) = (seen, kept, g @ sources p)" by (simp add: retain_one_def)
    with Cons.prems have "fold (retain_one digest) ps (seen, kept, g @ sources p) = (seen', kept', g')" by simp
    from Cons.IH [OF this] True show ?thesis by auto
  next
    case False
    then have "retain_one digest p (seen, kept, g) = (insert ?k seen, kept @ [with_ceilings [] p], g @ sources p)"
      by (simp add: retain_one_def)
    with Cons.prems
    have "fold (retain_one digest) ps (insert ?k seen, kept @ [with_ceilings [] p], g @ sources p) = (seen', kept', g')" by simp
    from Cons.IH [OF this] obtain new where
      "g' = (g @ sources p) @ concat (map sources ps)" "seen' = insert ?k seen \<union> atom_key digest ` set ps"
      and new: "kept' = (kept @ [with_ceilings [] p]) @ new" "distinct (map (atom_key digest) new)"
        "atom_key digest ` set new = atom_key digest ` set ps - insert ?k seen"
        "\<forall>k \<in> set new. \<exists>c \<in> set ps. k = with_ceilings [] c" by blast
    moreover have "atom_key digest ` set (with_ceilings [] p # new) = atom_key digest ` set (p # ps) - seen"
      using new(3) False by auto
    ultimately show ?thesis
      by (intro conjI exI [of _ "with_ceilings [] p # new"]) auto
  qed
qed

lemma intersection_cases:
  assumes "intersection digest p q = Inr r"
  shows "workspace p = workspace q"
    and "(revision digest p = revision digest q \<or> (\<exists>c \<in> set (ceilings p). revision digest c = revision digest q)) \<and> r = p
      \<or> (\<exists>kept. r = with_sources (remdups_first (sources p @ concat (map sources (concat (map family (ceilings p)) @ family q))))
            (with_ceilings kept p)
          \<and> distinct (map (atom_key digest) kept)
          \<and> atom_key digest ` set kept = atom_key digest ` set (concat (map family (ceilings p)) @ family q) - {atom_key digest p}
          \<and> (\<forall>k \<in> set kept. \<exists>c \<in> set (concat (map family (ceilings p)) @ family q). k = with_ceilings [] c))"
proof -
  show "workspace p = workspace q" using assms by (auto simp: intersection_def split: if_splits)
  let ?ps = "concat (map family (ceilings p)) @ family q" and ?st = "({atom_key digest p}, [], sources p)"
  have "fold (retain digest) (ceilings p) ?st = fold (retain_one digest) (concat (map family (ceilings p))) ?st"
    by (simp add: fold_concat fold_map comp_def retain_flat [abs_def])
  then have flat: "retain digest q (fold (retain digest) (ceilings p) ?st) = fold (retain_one digest) ?ps ?st"
    by (simp add: retain_flat)
  obtain seen kept g where f: "fold (retain_one digest) ?ps ?st = (seen, kept, g)"
    by (cases "fold (retain_one digest) ?ps ?st") auto
  from retained [OF f] have "g = sources p @ concat (map sources ?ps)" "distinct (map (atom_key digest) kept)"
    "atom_key digest ` set kept = atom_key digest ` set ?ps - {atom_key digest p}"
    "\<forall>k \<in> set kept. \<exists>c \<in> set ?ps. k = with_ceilings [] c" by auto
  moreover have "revision digest p = revision digest q \<or> (\<exists>c \<in> set (ceilings p). revision digest c = revision digest q) \<longrightarrow> r = p"
    "\<not> (revision digest p = revision digest q \<or> (\<exists>c \<in> set (ceilings p). revision digest c = revision digest q))
      \<longrightarrow> r = with_sources (remdups_first g) (with_ceilings kept p)"
    using assms unfolding intersection_def flat f list_ex_iff by (auto split: if_splits)
  ultimately show "(revision digest p = revision digest q \<or> (\<exists>c \<in> set (ceilings p). revision digest c = revision digest q)) \<and> r = p
      \<or> (\<exists>kept. r = with_sources (remdups_first (sources p @ concat (map sources ?ps))) (with_ceilings kept p)
          \<and> distinct (map (atom_key digest) kept)
          \<and> atom_key digest ` set kept = atom_key digest ` set ?ps - {atom_key digest p}
          \<and> (\<forall>k \<in> set kept. \<exists>c \<in> set ?ps. k = with_ceilings [] c))" by blast
qed

lemma atom_key_atom: "atom_key digest p = digest ({atom_of p}, {})"
  by (simp add: atom_key_def revision_atoms atoms_def guarded_sources_def family_alt)

lemma atoms_alt: "atoms p = insert (atom_of p) (atom_of ` set (concat (map family (ceilings p))))"
  by (cases p) (simp add: atoms_def)

lemma guarded_alt: "guarded_sources p = {s \<in> set (sources p @ concat (map sources (concat (map family (ceilings p))))). is_absolute s}"
  by (cases p) (auto simp: guarded_sources_def)

lemma ceiling_parts:
  assumes "c \<in> set (ceilings p)"
  shows "atoms c \<subseteq> atoms p" and "guarded_sources c \<subseteq> guarded_sources p"
  using family_ceiling [OF assms] by (auto simp: atoms_def guarded_sources_def)

lemma set_remdups_first [simp]: "set (remdups_first xs) = set xs"
  by (simp add: remdups_first_def)

lemma family_flat:
  assumes "\<forall>k \<in> set kept. ceilings k = []"
  shows "concat (map family kept) = kept"
  using assms by (induction kept) (simp_all add: family_alt)

lemma intersection_parts:
  assumes "inj digest" and "intersection digest p q = Inr r"
  shows "atoms r = atoms p \<union> atoms q" and "guarded_sources r = guarded_sources p \<union> guarded_sources q"
    and "workspace r = workspace p"
proof -
  let ?ps = "concat (map family (ceilings p)) @ family q"
  from intersection_cases(2) [OF assms(2)]
  have "atoms r = atoms p \<union> atoms q \<and> guarded_sources r = guarded_sources p \<union> guarded_sources q \<and> workspace r = workspace p"
  proof (elim disjE conjE exE)
    assume "revision digest p = revision digest q" and r: "r = p"
    then have "atoms p = atoms q" "guarded_sources p = guarded_sources q"
      using assms(1) by (simp_all add: revision_atoms inj_eq)
    with r show ?thesis by simp
  next
    assume "\<exists>c \<in> set (ceilings p). revision digest c = revision digest q" and r: "r = p"
    then obtain c where "c \<in> set (ceilings p)" "atoms c = atoms q" "guarded_sources c = guarded_sources q"
      using assms(1) by (auto simp: revision_atoms inj_eq)
    with ceiling_parts r show ?thesis by blast
  next
    fix kept
    assume r: "r = with_sources (remdups_first (sources p @ concat (map sources ?ps))) (with_ceilings kept p)"
      and keys: "atom_key digest ` set kept = atom_key digest ` set ?ps - {atom_key digest p}"
      and kept: "\<forall>k \<in> set kept. \<exists>c \<in> set ?ps. k = with_ceilings [] c"
    define F where "F = (\<lambda>a. digest ({a}, {}))"
    have F: "inj F" using assms(1) by (auto simp: inj_def F_def)
    have "F ` atom_of ` set kept = F ` atom_of ` set ?ps - F ` {atom_of p}"
      using keys by (simp only: image_image atom_key_atom [abs_def] F_def image_insert image_empty)
    also have "\<dots> = F ` (atom_of ` set ?ps - {atom_of p})" by (simp only: image_set_diff [OF F])
    finally have ats: "atom_of ` set kept = atom_of ` set ?ps - {atom_of p}" by (simp only: inj_image_eq_iff [OF F])
    have "concat (map family kept) = kept" using kept by (intro family_flat) auto
    then have fam: "concat (map family (ceilings r)) = kept" by (simp add: r)
    have "atom_of r = atom_of p" by (simp add: r)
    then have "atoms r = insert (atom_of p) (atom_of ` set ?ps)" by (simp add: atoms_alt [of r] fam ats)
    also have "\<dots> = atoms p \<union> atoms q" by (simp add: atoms_alt [of p] atoms_def [of q] image_Un)
    finally have a: "atoms r = atoms p \<union> atoms q" .
    have "set (concat (map sources kept)) \<subseteq> set (concat (map sources ?ps))" using kept by fastforce
    moreover have "set (sources r) = set (sources p @ concat (map sources ?ps))" by (simp add: r)
    ultimately have "guarded_sources r = {s \<in> set (sources p @ concat (map sources ?ps)). is_absolute s}"
      unfolding guarded_alt [of r] fam set_append by blast
    also have "\<dots> = guarded_sources p \<union> guarded_sources q" by (auto simp: guarded_alt [of p] guarded_sources_def [of q])
    finally have g: "guarded_sources r = guarded_sources p \<union> guarded_sources q" .
    with a show ?thesis by (simp add: r)
  qed
  then show "atoms r = atoms p \<union> atoms q" "guarded_sources r = guarded_sources p \<union> guarded_sources q"
    "workspace r = workspace p" by simp_all
qed

section \<open>Answers of an intersection\<close>

lemma one_workspace_atoms: "one_workspace p \<longleftrightarrow> (\<forall>a \<in> atoms p. at_workspace a = workspace p)"
  by (simp add: one_workspace_def list_all_iff atoms_def atom_of_def)

lemma source_clear_Un: "source_clear v ws x (S \<union> T) \<longleftrightarrow> source_clear v ws x S \<and> source_clear v ws x T"
  unfolding source_clear_def by blast

lemma meet_path:
  assumes "inj digest" and "intersection digest p q = Inr r" and "one_workspace p" and "one_workspace q"
  shows "one_workspace r" and "path_access v r x w \<longleftrightarrow> path_access v p x w \<and> path_access v q x w"
proof -
  note parts = intersection_parts [OF assms(1,2)] intersection_cases(1) [OF assms(2)]
  show r: "one_workspace r" using assms(3,4) by (auto simp: one_workspace_atoms parts)
  show "path_access v r x w \<longleftrightarrow> path_access v p x w \<and> path_access v q x w"
    unfolding path_access_atoms [OF r] path_access_atoms [OF assms(3)] path_access_atoms [OF assms(4)] parts(1-3)
      source_clear_Un parts(4) [symmetric] by blast
qed

lemma image_family:
  assumes "\<And>c d. atom_of c = atom_of d \<Longrightarrow> f c = f d" and "atoms r = atoms p \<union> atoms q"
  shows "f ` set (family r) = f ` set (family p) \<union> f ` set (family q)"
proof -
  have "f ` set (family s) = (\<lambda>a. f (SOME c. atom_of c = a)) ` atoms s" for s
  proof -
    have "f c = f (SOME d. atom_of d = atom_of c)" for c
      by (rule assms(1) [symmetric]) (rule someI [of "\<lambda>d. atom_of d = atom_of c" c], simp)
    then show ?thesis by (auto simp: atoms_def image_image)
  qed
  then show ?thesis by (simp add: assms(2) image_Un)
qed

lemma own_tool_atom: "atom_of c = atom_of d \<Longrightarrow> own_tool c name = own_tool d name"
  by (auto simp: own_tool_def foldr_max_set atom_of_def dest!: mset_eq_setD)

lemma set_empty_eq: "set xs = set ys \<Longrightarrow> xs = [] \<longleftrightarrow> ys = []"
  by (cases xs; cases ys) auto

lemma host_decision_cong:
  assumes "np_decision m = np_decision n" and "set (np_allowed m) = set (np_allowed n)"
    and "set (np_denied m) = set (np_denied n)" and "set (np_rules m) = set (np_rules n)"
  shows "host_decision m host = host_decision n host" and "command_decision m = command_decision n"
  using assms set_empty_eq [OF assms(2)] set_empty_eq [OF assms(3)] set_empty_eq [OF assms(4)]
  by (auto simp: host_decision_def command_decision_def Let_def foldr_max_set list_ex_iff filter_empty_conv)

lemma network_atom:
  "atom_of c = atom_of d \<Longrightarrow> url_decision (network c) url = url_decision (network d) url"
  "atom_of c = atom_of d \<Longrightarrow> command_decision (network c) = command_decision (network d)"
  using host_decision_cong [of "network c" "network d"]
  by (auto simp: atom_of_def url_decision_def Let_def dest!: mset_eq_setD split: option.splits)

lemma meet_decisions:
  assumes "inj digest" and "intersection digest p q = Inr r"
  shows "tool_decision r name = max (tool_decision p name) (tool_decision q name)"
    and "network_decision r url = max (network_decision p url) (network_decision q url)"
    and "command_network_allowed r = max (command_network_allowed p) (command_network_allowed q)"
    and "effective_approval r = NeverAsk \<longleftrightarrow> effective_approval p = NeverAsk \<or> effective_approval q = NeverAsk"
    and "read_only r \<longleftrightarrow> read_only p \<or> read_only q"
proof -
  note at = intersection_parts(1) [OF assms]
  show "tool_decision r name = max (tool_decision p name) (tool_decision q name)"
    unfolding tool_decision_family by (rule over_family_Un image_family own_tool_atom at | assumption)+
  show "network_decision r url = max (network_decision p url) (network_decision q url)"
    unfolding network_decision_family by (rule over_family_Un image_family network_atom at | assumption)+
  show "command_network_allowed r = max (command_network_allowed p) (command_network_allowed q)"
    unfolding command_network_family by (rule over_family_Un image_family network_atom at | assumption)+
  have ap: "effective_approval s = NeverAsk \<longleftrightarrow> (\<exists>a \<in> atoms s. at_approval a = NeverAsk)" for s
    by (auto simp: approval_family atoms_def atom_of_def)
  show "effective_approval r = NeverAsk \<longleftrightarrow> effective_approval p = NeverAsk \<or> effective_approval q = NeverAsk"
    unfolding ap at by blast
  have ro: "read_only s \<longleftrightarrow> (\<exists>a \<in> atoms s. at_profile a = ReadOnlyProfile)" for s
    by (auto simp: read_only_family atoms_def atom_of_def)
  show "read_only r \<longleftrightarrow> read_only p \<or> read_only q"
    unfolding ro at by blast
qed

end
