(* ===== verification/Permission_Properties.thy ===== *)
theory Permission_Properties
  imports Permission_Meet
begin

text \<open>
  The security contract of the permissions: intersections restrict exactly as both operands do and do
  not grow when they are repeated, selected files add reads of these files only, and the policy of a
  child workspace grants nothing outside it.
\<close>

section \<open>Repeated intersection\<close>

lemma remdups_absorb: "set xs \<subseteq> set ys \<Longrightarrow> remdups (xs @ ys) = remdups ys"
  by (induction xs) auto

lemma remdups_first_absorb: "set ys \<subseteq> set xs \<Longrightarrow> remdups_first (remdups_first xs @ ys) = remdups_first xs"
  by (simp add: remdups_first_def remdups_absorb distinct_remdups_id)

lemma with_same: "ceilings p = cs \<Longrightarrow> with_ceilings cs p = p" "sources p = ss \<Longrightarrow> with_sources ss p = p"
  by (cases p; simp)+

lemma retain_seen:
  "atom_key digest ` set ps \<subseteq> seen \<Longrightarrow> fold (retain_one digest) ps (seen, kept, g) = (seen, kept, g @ concat (map sources ps))"
  by (induction ps arbitrary: g) (simp_all add: retain_one_def [of _ _ "(_, _, _)"])

lemma retain_new:
  "distinct (map (atom_key digest) ps) \<Longrightarrow> seen \<inter> atom_key digest ` set ps = {} \<Longrightarrow> \<forall>p \<in> set ps. ceilings p = [] \<Longrightarrow>
     fold (retain_one digest) ps (seen, kept, g) = (seen \<union> atom_key digest ` set ps, kept @ ps, g @ concat (map sources ps))"
proof (induction ps arbitrary: seen kept g)
  case (Cons p ps)
  from Cons.prems have "retain_one digest p (seen, kept, g) = (insert (atom_key digest p) seen, kept @ [p], g @ sources p)"
    by (simp add: retain_one_def with_same)
  with Cons.IH [of "insert (atom_key digest p) seen" "kept @ [p]" "g @ sources p"] Cons.prems show ?case by auto
qed simp

lemma intersection_again:
  assumes "intersection digest p q = Inr r"
  shows "intersection digest r q = Inr r"
proof -
  let ?ps = "concat (map family (ceilings p)) @ family q"
  note ws = intersection_cases(1) [OF assms]
  from intersection_cases(2) [OF assms] show ?thesis
  proof (elim disjE conjE exE)
    fix kept
    assume r: "r = with_sources (remdups_first (sources p @ concat (map sources ?ps))) (with_ceilings kept p)"
      and d: "distinct (map (atom_key digest) kept)"
      and keys: "atom_key digest ` set kept = atom_key digest ` set ?ps - {atom_key digest p}"
      and kept: "\<forall>k \<in> set kept. \<exists>c \<in> set ?ps. k = with_ceilings [] c"
    from kept have flat: "\<forall>k \<in> set kept. ceilings k = []" by auto
    have key: "atom_key digest r = atom_key digest p" by (cases p) (simp add: r atom_key_def)
    let ?st = "({atom_key digest r}, [], sources r)"
    have one: "fold (retain digest) (ceilings r) ?st
        = ({atom_key digest r} \<union> atom_key digest ` set kept, kept, sources r @ concat (map sources kept))"
      using retain_new [OF d _ flat, of "{atom_key digest r}" "[]" "sources r"] keys key family_flat [OF flat]
      by (simp add: r retain_flat [abs_def] flip: fold_concat fold_map [unfolded comp_def])
    have "atom_key digest ` set (family q) \<subseteq> {atom_key digest r} \<union> atom_key digest ` set kept"
      using keys key by auto
    from retain_seen [OF this, of kept "sources r @ concat (map sources kept)"] one
    have two: "retain digest q (fold (retain digest) (ceilings r) ?st)
        = ({atom_key digest r} \<union> atom_key digest ` set kept, kept,
           sources r @ concat (map sources kept) @ concat (map sources (family q)))"
      by (simp add: retain_flat)
    have "set (concat (map sources kept)) \<subseteq> set (concat (map sources ?ps))" using kept by fastforce
    then have "remdups_first (sources r @ concat (map sources kept) @ concat (map sources (family q))) = sources r"
      unfolding r with_sel by (intro remdups_first_absorb) auto
    moreover have "ceilings r = kept" "workspace r = workspace q" using ws by (simp_all add: r)
    ultimately show ?thesis using two by (simp add: intersection_def with_same)
  qed (use assms in \<open>simp_all add: intersection_def ws list_ex_iff\<close>)
qed

section \<open>Selected files\<close>

lemma map_result_Inr: "map_result f xs = Inr ys \<Longrightarrow> y \<in> set ys \<Longrightarrow> \<exists>x \<in> set xs. f x = Inr y"
  by (induction xs arbitrary: ys) auto

text \<open>The paths a selection may open: an existing regular file, by its own path or through its link.\<close>

definition selected_file :: "host_view \<Rightarrow> permissions \<Rightarrow> path list \<Rightarrow> path \<Rightarrow> bool" where
  "selected_file v p xs f \<longleftrightarrow> (\<exists>x \<in> set xs. \<exists>lx target. lexical v x (path_of (workspace p)) = Some lx
     \<and> hv_real v lx = Some target \<and> hv_is_file v target \<and> (f = lx \<or> f = target)
     \<and> \<not> list_ex (\<lambda>r. pr_access r = DenyAccess \<and> rule_under v f r) (filesystem p))"

lemma read_file_rule:
  assumes "read_file_rules v p x = Inr rs" and "r \<in> set rs" and "x \<in> set xs"
  shows "pr_access r = ReadAccess \<and> (\<exists>f. selected_file v p xs f \<and> pr_path r = path_text f)"
proof -
  from assms(1,2) obtain lx target where lx: "lexical v x (path_of (workspace p)) = Some lx" "hv_real v lx = Some target"
    by (auto simp: read_file_rules_def split: option.splits)
  with assms(1,2) have regular: "hv_is_file v target" by (auto simp: read_file_rules_def split: if_splits)
  let ?free = "\<lambda>f. \<not> list_ex (\<lambda>r. pr_access r = DenyAccess \<and> rule_under v f r) (filesystem p)"
  from regular assms(1,2) lx have "r = rule_at lx ReadAccess \<and> ?free lx \<or> r = rule_at target ReadAccess \<and> ?free target"
    by (auto simp: read_file_rules_def split: if_splits)
  then obtain f where f: "f = lx \<or> f = target" "r = rule_at f ReadAccess" "?free f" by metis
  with lx regular assms(3) have "selected_file v p xs f" unfolding selected_file_def by blast
  moreover have "pr_path r = path_text f" "pr_access r = ReadAccess" using f(2) by (simp_all add: rule_at_def)
  ultimately show ?thesis by blast
qed

lemma with_filesystem_sel [simp]:
  "ceilings (with_filesystem fs p) = ceilings p" "workspace (with_filesystem fs p) = workspace p"
  "atom_of (with_filesystem fs p) = (atom_of p)\<lparr>at_filesystem := mset fs\<rparr>"
  "sources (with_filesystem fs p) = sources p"
  by (cases p; simp add: atom_of_def)+

lemma reads_only_add:
  assumes "rules_grant v (fs \<union> A) c w" and "\<forall>r \<in> A. pr_access r = ReadAccess"
  shows "rules_grant v fs c w \<or> \<not> w \<and> (\<exists>r \<in> A. rule_under v c r)"
  using assms unfolding rules_grant_def by (metis Un_iff access.distinct(1))

lemma with_read_files_adds:
  assumes "with_read_files v xs p = Inr p'" and "path_access v p' x w"
  shows "path_access v p x w \<or> \<not> w \<and> (\<exists>lx target. lexical v x (path_of (workspace p)) = Some lx
    \<and> hv_real v lx = Some target \<and> (\<exists>c \<in> {lx, target}. \<exists>f. selected_file v p xs f \<and> under_path v c (path_of (path_text f))))"
proof -
  from assms(1) obtain added where added: "map_result (read_file_rules v p) xs = Inr added"
    and p': "p' = with_filesystem (remdups_first (filesystem p @ concat added)) p"
    by (auto simp: with_read_files_def)
  let ?A = "set (concat added)"
  have A: "pr_access r = ReadAccess \<and> (\<exists>f. selected_file v p xs f \<and> pr_path r = path_text f)" if "r \<in> ?A" for r
  proof -
    from that obtain rs where "rs \<in> set added" "r \<in> set rs" by auto
    with map_result_Inr [OF added] obtain y where "y \<in> set xs" "read_file_rules v p y = Inr rs" by blast
    from read_file_rule [OF this(2) \<open>r \<in> set rs\<close> this(1)] show ?thesis .
  qed
  have split: "path_access v s x w \<longleftrightarrow> own_reason v s x w = [] \<and> (\<forall>c \<in> set (concat (map family (ceilings s))). own_reason v c x w = [])"
    for s by (cases s) (simp add: path_access_family)
  from assms(2) have "own_reason v p' x w = []" and rest: "\<forall>c \<in> set (concat (map family (ceilings p))). own_reason v c x w = []"
    by (simp_all add: split p')
  then have own: "atom_grants v ((atom_of p)\<lparr>at_filesystem := mset (remdups_first (filesystem p @ concat added))\<rparr>) x w"
    "w \<longrightarrow> source_clear v (workspace p) x (set (sources p))"
    by (simp_all add: own_reason_Nil p')
  then obtain lx target where x: "lexical v x (path_of (workspace p)) = Some lx" "hv_real v lx = Some target"
    and ok: "\<forall>c \<in> {lx, target}. rules_grant v (set (filesystem p) \<union> ?A) c w"
    by (auto simp: atom_grants_def atom_of_def)
  show ?thesis
  proof (cases "\<forall>c \<in> {lx, target}. rules_grant v (set (filesystem p)) c w")
    case True
    with own(1) x have "atom_grants v (atom_of p) x w" by (auto simp: atom_grants_def atom_of_def)
    with own(2) rest show ?thesis by (simp add: split own_reason_Nil)
  next
    case False
    then obtain c where c: "c \<in> {lx, target}" "\<not> rules_grant v (set (filesystem p)) c w" by blast
    with ok have "rules_grant v (set (filesystem p) \<union> ?A) c w" by blast
    from reads_only_add [OF this] A c(2) obtain r where "\<not> w" "r \<in> ?A" "rule_under v c r" by blast
    moreover from A [OF this(2)] obtain f where "selected_file v p xs f" "pr_path r = path_text f" by blast
    ultimately have "\<not> w \<and> (\<exists>f. selected_file v p xs f \<and> under_path v c (path_of (path_text f)))"
      unfolding rule_under_def by metis
    with x c(1) show ?thesis by blast
  qed
qed

section \<open>The policy of a child\<close>

lemma map_result_all2: "map_result f xs = Inr ys \<Longrightarrow> list_all2 (\<lambda>x y. f x = Inr y) xs ys"
  by (induction xs arbitrary: ys) auto

lemma foldr_max_mono: "list_all2 (\<le>) xs ys \<Longrightarrow> foldr max xs (b :: 'a :: linorder) \<le> foldr max ys b"
  by (induction rule: list_all2_induct) (auto simp: le_max_iff_disj max.coboundedI1 max.coboundedI2)

text \<open>One policy restricts at least as much as another.\<close>

definition stricter :: "permissions \<Rightarrow> permissions \<Rightarrow> bool" where
  "stricter p r \<longleftrightarrow> (\<forall>name. tool_decision p name \<le> tool_decision r name)
     \<and> (\<forall>url. network_decision p url \<le> network_decision r url)
     \<and> command_network_allowed p \<le> command_network_allowed r
     \<and> (effective_approval p = NeverAsk \<longrightarrow> effective_approval r = NeverAsk) \<and> (read_only p \<longrightarrow> read_only r)"

lemma stricter_trans: "stricter p q \<Longrightarrow> stricter q r \<Longrightarrow> stricter p r"
  unfolding stricter_def by (meson order_trans)

lemma stricter_intersection: "inj digest \<Longrightarrow> intersection digest p q = Inr r \<Longrightarrow> stricter p r"
  unfolding stricter_def by (simp add: meet_decisions)

lemma stricter_ceilings:
  assumes "list_all2 stricter cs ds"
  shows "stricter (Permissions ws pf ap fs ts nw so pv cs) (Permissions ws' pf ap fs' ts nw so' pv' ds)"
proof -
  have pointwise: "list_all2 (\<le>) (map f cs) (map f ds)" if "\<And>p r. stricter p r \<Longrightarrow> f p \<le> f r" for f :: "permissions \<Rightarrow> 'b :: linorder"
    using assms that by (auto simp: list_all2_map1 list_all2_map2 intro: list_all2_mono)
  have "list_all2 (\<le>) (map (Some \<circ> tl_decision) (filter (\<lambda>r. fnmatch (tl_pattern r) name) ts))
      (map (Some \<circ> tl_decision) (filter (\<lambda>r. fnmatch (tl_pattern r) name) ts))" for name
    by (simp add: list_all2_refl)
  then have tool: "tool_decision (Permissions ws pf ap fs ts nw so pv cs) name
      \<le> tool_decision (Permissions ws' pf ap fs' ts nw so' pv' ds) name" for name
    unfolding tool_decision.simps
    by (intro foldr_max_mono list_all2_appendI pointwise) (auto simp: stricter_def)
  have net: "network_decision (Permissions ws pf ap fs ts nw so pv cs) url
      \<le> network_decision (Permissions ws' pf ap fs' ts nw so' pv' ds) url" for url
    unfolding network_decision.simps by (intro foldr_max_mono pointwise) (simp add: stricter_def)
  have cmd: "command_network_allowed (Permissions ws pf ap fs ts nw so pv cs)
      \<le> command_network_allowed (Permissions ws' pf ap fs' ts nw so' pv' ds)"
    unfolding command_network_allowed.simps by (intro foldr_max_mono pointwise) (simp add: stricter_def)
  have some: "list_ex P cs \<Longrightarrow> list_ex P ds" if "\<And>p r. stricter p r \<Longrightarrow> P p \<Longrightarrow> P r" for P
    using assms that by (induction rule: list_all2_induct) auto
  show ?thesis
    using tool net cmd some [of "\<lambda>c. effective_approval c = NeverAsk"] some [of read_only]
    by (auto simp: stricter_def)
qed

lemma relocate_stricter: "relocate digest v sd source destination p = Inr r \<Longrightarrow> inj digest \<Longrightarrow> stricter p r"
proof (induction digest v sd source destination p arbitrary: r rule: relocate.induct)
  case (1 digest v sd source destination ws pf ap fs ts nw so pv cs)
  from "1.prems" obtain above boundary ws' fs' pv' where
    above: "map_result (relocate digest v sd source destination) cs = Inr above"
    and r: "intersection digest (Permissions ws' pf ap fs' ts nw so pv' above) boundary = Inr r"
    using that by auto
  have "list_all2 stricter cs above"
    using map_result_all2 [OF above] "1.IH" "1.prems"(2) by (auto simp: list_all2_conv_all_nth)
  then have "stricter (Permissions ws pf ap fs ts nw so pv cs) (Permissions ws' pf ap fs' ts nw so pv' above)"
    by (rule stricter_ceilings)
  with stricter_intersection [OF "1.prems"(2) r] show ?case by (rule stricter_trans [rotated])
qed

lemma granted_rules:
  assumes "path_access v r x w" and "atoms b \<subseteq> atoms r"
  shows "\<exists>lx target. lexical v x (path_of (workspace b)) = Some lx \<and> hv_real v lx = Some target
    \<and> \<not> (w \<and> profile_of b = ReadOnlyProfile) \<and> (\<forall>c \<in> {lx, target}. rules_grant v (set (filesystem b)) c w)"
proof -
  have "atom_of b \<in> atoms r" using assms(2) family_own by (auto simp: atoms_def)
  with assms(1) have "atom_grants v (atom_of b) x w" by (auto simp: path_access_family own_reason_Nil atoms_def)
  then show ?thesis by (auto simp: atom_grants_def atom_of_def)
qed

lemma protective_rule:
  assumes "r \<in> set (protective_rules v p ds)"
  shows "\<exists>d \<in> set ds. \<exists>n \<in> set protected_names. pr_path r = path_text (sub_path d n)"
proof -
  from assms obtain d n where "d \<in> set ds" "n \<in> set protected_names"
    "r = rule_at (sub_path d n) (if path_access v p (sub_path d n) False then ReadAccess else DenyAccess)"
    unfolding protective_rules_def set_concat set_map image_image by blast
  then show ?thesis unfolding rule_at_def by (metis path_rule.select_convs(1))
qed

lemma boundary_rules:
  assumes "boundary_policy v sd ro destination = Inr b" and "resolve_root v destination = Inr place"
    and "path_of (path_text place) = place"
  shows "workspace b = path_text place" and "profile_of b = (if ro then ReadOnlyProfile else WorkspaceProfile)"
    and "r \<in> set (filesystem b) \<Longrightarrow> pr_path r = path_text place \<or> (\<exists>n \<in> set protected_names. pr_path r = path_text (sub_path place n))"
proof -
  from assms obtain a p where
    b: "filesystem b = rule_at place a # protective_rules v p (sorted_set path_less [place, place])"
    "workspace b = path_text place" "profile_of b = (if ro then ReadOnlyProfile else WorkspaceProfile)"
    by (auto simp: boundary_policy_def resolve_policy_def rule_at_def Let_def split: if_splits)
  show "workspace b = path_text place" "profile_of b = (if ro then ReadOnlyProfile else WorkspaceProfile)" by (fact b)+
  assume "r \<in> set (filesystem b)"
  then consider "r = rule_at place a" | "r \<in> set (protective_rules v p (sorted_set path_less [place, place]))"
    by (auto simp: b(1))
  then show "pr_path r = path_text place \<or> (\<exists>n \<in> set protected_names. pr_path r = path_text (sub_path place n))"
  proof cases
    case 1
    then show ?thesis by (simp add: rule_at_def)
  next
    case 2
    from protective_rule [OF this] show ?thesis by (simp only: set_sorted_set) auto
  qed
qed

lemma relocated_boundary:
  assumes "inj digest" and "relocate digest v sd source destination p = Inr r"
  shows "\<exists>b. boundary_policy v sd (read_only p) destination = Inr b \<and> atoms b \<subseteq> atoms r"
proof (cases p)
  case (Permissions ws pf ap fs ts nw so pv cs)
  from assms(2) obtain t b where "boundary_policy v sd (read_only p) destination = Inr b" "intersection digest t b = Inr r"
    unfolding Permissions by auto
  with intersection_parts(1) [OF assms(1)] show ?thesis by blast
qed

section \<open>Properties\<close>

text \<open>The digest is free of collisions; \<open>id\<close> is such a digest.\<close>

definition sample_view :: host_view where
  "sample_view = \<lparr>hv_expand = Some, hv_real = Some, hv_same = (=), hv_fold = id, hv_casefold = map lower_char,
     hv_is_file = (\<lambda>p. snd p = [''x'', ''notes'']) \<rparr>"

definition own_policy :: permissions where
  "own_policy = Permissions ''/w'' WorkspaceProfile OnRequest [\<lparr>pr_path = ''/w'', pr_access = WriteAccess\<rparr>]
     [\<lparr>tl_pattern = ''sh*'', tl_decision = Ask\<rparr>] open_network [''default''] [''/home/key''] []"

definition managed_policy :: permissions where
  "managed_policy = Permissions ''/w'' WorkspaceProfile NeverAsk
     [\<lparr>pr_path = ''/w'', pr_access = WriteAccess\<rparr>, \<lparr>pr_path = ''/w/secret'', pr_access = DenyAccess\<rparr>]
     [\<lparr>tl_pattern = ''shell'', tl_decision = Deny\<rparr>] open_network [''/w/policy''] [] []"

lemma sample_intersection: "\<exists>r. intersection id own_policy managed_policy = Inr r"
  by (simp add: intersection_def own_policy_def managed_policy_def split: prod.split)

lemma sample_workspaces: "one_workspace own_policy" "one_workspace managed_policy"
  by (simp_all add: one_workspace_def own_policy_def managed_policy_def)

text \<open>C13: an intersection is exactly as strict as its two operands together: it grants a path when both
  grant it, and its decision about a tool, a destination or a command is the stricter of the two; it
  asks or writes only when both allow asking or writing.\<close>

theorem intersection_is_the_meet:
  assumes "inj digest" and "intersection digest p q = Inr r" and "one_workspace p" and "one_workspace q"
  shows "(path_access v r x w \<longleftrightarrow> path_access v p x w \<and> path_access v q x w)
    \<and> tool_decision r name = max (tool_decision p name) (tool_decision q name)
    \<and> network_decision r url = max (network_decision p url) (network_decision q url)
    \<and> command_network_allowed r = max (command_network_allowed p) (command_network_allowed q)
    \<and> (effective_approval r = NeverAsk \<longleftrightarrow> effective_approval p = NeverAsk \<or> effective_approval q = NeverAsk)
    \<and> (read_only r \<longleftrightarrow> read_only p \<or> read_only q)"
  using meet_path(2) [OF assms] meet_decisions [OF assms(1,2)] by blast

lemma intersection_is_the_meet_witness:
  "\<exists>r. intersection id own_policy managed_policy = Inr r
     \<and> path_access sample_view r (''/'', [''w'', ''a'']) True \<and> \<not> path_access sample_view r (''/'', [''w'', ''secret'', ''a'']) False
     \<and> tool_decision r ''shell'' = Some Deny"
proof -
  from sample_intersection obtain r where r: "intersection id own_policy managed_policy = Inr r" ..
  note meet = intersection_is_the_meet [OF inj_on_id r sample_workspaces]
  have "path_access sample_view own_policy (''/'', [''w'', ''a'']) True" "path_access sample_view managed_policy (''/'', [''w'', ''a'']) True"
    "\<not> path_access sample_view managed_policy (''/'', [''w'', ''secret'', ''a'']) False"
    "tool_decision managed_policy ''shell'' = Some Deny" "tool_decision own_policy ''shell'' = Some Ask"
    by code_simp+
  with r meet [of sample_view "(''/'', [''w'', ''a''])" True] meet [of sample_view "(''/'', [''w'', ''secret'', ''a''])" False "''shell''"]
  show ?thesis by (auto simp: max_def less_eq_decision_def)
qed

text \<open>restricting a policy a second time with the same policy changes nothing, so a policy that is
  saved and restored any number of times does not grow.\<close>

theorem repeated_intersection_is_stable:
  assumes "intersection digest p q = Inr r"
  shows "intersection digest r q = Inr r"
  by (rule intersection_again [OF assms])

lemma repeated_intersection_is_stable_witness:
  "\<exists>r. intersection id own_policy managed_policy = Inr r \<and> intersection id r managed_policy = Inr r"
  using sample_intersection repeated_intersection_is_stable [of id own_policy managed_policy] by blast

text \<open>selecting files adds reads only, and only of an existing regular file that no rule of the
  policy denies, or of what is below it: every other access was granted before.\<close>

theorem selected_files_add_only_reads:
  assumes "with_read_files v xs p = Inr p'" and "path_access v p' x w"
  shows "path_access v p x w \<or> \<not> w \<and> (\<exists>lx target. lexical v x (path_of (workspace p)) = Some lx
    \<and> hv_real v lx = Some target \<and> (\<exists>c \<in> {lx, target}. \<exists>f. selected_file v p xs f \<and> under_path v c (path_of (path_text f))))"
  by (rule with_read_files_adds [OF assms])

lemma selected_files_add_only_reads_witness:
  "\<exists>p'. with_read_files sample_view [(''/'', [''x'', ''notes''])] own_policy = Inr p'
     \<and> path_access sample_view p' (''/'', [''x'', ''notes'']) False
     \<and> (\<exists>f. selected_file sample_view own_policy [(''/'', [''x'', ''notes''])] f)"
proof -
  have ok: "case with_read_files sample_view [(''/'', [''x'', ''notes''])] own_policy of Inl _ \<Rightarrow> False
      | Inr p' \<Rightarrow> path_access sample_view p' (''/'', [''x'', ''notes'']) False"
    and before: "\<not> path_access sample_view own_policy (''/'', [''x'', ''notes'']) False"
    by code_simp+
  from ok obtain p' where p': "with_read_files sample_view [(''/'', [''x'', ''notes''])] own_policy = Inr p'"
    "path_access sample_view p' (''/'', [''x'', ''notes'']) False" by (auto split: sum.splits)
  from selected_files_add_only_reads [OF this] before p' show ?thesis by blast
qed

text \<open>C32: whatever the parent was granted, the policy of a child workspace grants only paths that lie,
  with their link targets, in the resolved workspace or its protected directories, and no write when
  the parent is read-only.\<close>

theorem child_policy_is_confined:
  assumes "inj digest" and "relocate digest v state_directory source destination p = Inr r"
    and "resolve_root v destination = Inr place" and "path_of (path_text place) = place" and "path_access v r x w"
  shows "(read_only p \<longrightarrow> \<not> w) \<and> (\<exists>lx target. lexical v x place = Some lx \<and> hv_real v lx = Some target
    \<and> (\<forall>c \<in> {lx, target}. under_path v c place
        \<or> (\<exists>n \<in> set protected_names. under_path v c (path_of (path_text (sub_path place n))))))"
proof -
  from relocated_boundary [OF assms(1,2)] obtain b where
    b: "boundary_policy v state_directory (read_only p) destination = Inr b" "atoms b \<subseteq> atoms r" by blast
  note rules = boundary_rules [OF b(1) assms(3,4)]
  from granted_rules [OF assms(5) b(2)] obtain lx target where
    x: "lexical v x place = Some lx" "hv_real v lx = Some target" "\<not> (w \<and> read_only p)"
    and grant: "\<forall>c \<in> {lx, target}. rules_grant v (set (filesystem b)) c w"
    by (auto simp: rules(1,2) assms(4) split: if_splits)
  have "under_path v c place \<or> (\<exists>n \<in> set protected_names. under_path v c (path_of (path_text (sub_path place n))))"
    if "c \<in> {lx, target}" for c
  proof -
    from grant that obtain q where "q \<in> set (filesystem b)" "rule_under v c q" unfolding rules_grant_def by blast
    with rules(3) [of q] assms(4) show ?thesis unfolding rule_under_def by metis
  qed
  with x show ?thesis by blast
qed

lemma child_policy_is_confined_witness:
  "\<exists>r lx. relocate id sample_view ''/s'' (''/'', [''w'']) (''/'', [''c'']) own_policy = Inr r
     \<and> path_access sample_view r (''/'', [''c'', ''a'']) True
     \<and> lexical sample_view (''/'', [''c'', ''a'']) (''/'', [''c'']) = Some lx"
proof -
  have ok: "case relocate id sample_view ''/s'' (''/'', [''w'']) (''/'', [''c'']) own_policy of Inl _ \<Rightarrow> False
      | Inr r \<Rightarrow> path_access sample_view r (''/'', [''c'', ''a'']) True"
    and place: "resolve_root sample_view (''/'', [''c'']) = Inr (''/'', [''c''])" "path_of (path_text (''/'', [''c''])) = (''/'', [''c''])"
    by code_simp+
  from ok obtain r where r: "relocate id sample_view ''/s'' (''/'', [''w'']) (''/'', [''c'']) own_policy = Inr r"
    "path_access sample_view r (''/'', [''c'', ''a'']) True" by (auto split: sum.splits)
  from child_policy_is_confined [OF inj_on_id r(1) place r(2)] r show ?thesis by blast
qed

text \<open>Moving a policy to a child workspace never loosens a decision about a tool, a destination or
  a command, never turns asking back on, and keeps a read-only parent read-only.\<close>

theorem child_policy_keeps_decisions:
  assumes "inj digest" and "relocate digest v state_directory source destination p = Inr r"
  shows "tool_decision p name \<le> tool_decision r name \<and> network_decision p url \<le> network_decision r url
    \<and> command_network_allowed p \<le> command_network_allowed r
    \<and> (effective_approval p = NeverAsk \<longrightarrow> effective_approval r = NeverAsk) \<and> (read_only p \<longrightarrow> read_only r)"
  using relocate_stricter [OF assms(2,1)] unfolding stricter_def by blast

lemma child_policy_keeps_decisions_witness:
  "\<exists>r. relocate id sample_view ''/s'' (''/'', [''w'']) (''/'', [''c'']) managed_policy = Inr r
     \<and> tool_decision r ''shell'' = Some Deny \<and> effective_approval r = NeverAsk"
proof -
  have ok: "case relocate id sample_view ''/s'' (''/'', [''w'']) (''/'', [''c'']) managed_policy of Inl _ \<Rightarrow> False | Inr r \<Rightarrow> True"
    and denied: "tool_decision managed_policy ''shell'' = Some Deny" "effective_approval managed_policy = NeverAsk"
    by code_simp+
  from ok obtain r where r: "relocate id sample_view ''/s'' (''/'', [''w'']) (''/'', [''c'']) managed_policy = Inr r"
    by (auto split: sum.splits)
  have top: "Some Deny \<le> d \<Longrightarrow> d = Some Deny" for d
    by (cases d; cases "the d") (auto simp: less_eq_decision_def)
  from child_policy_keeps_decisions [OF inj_on_id r, of "''shell''"] denied top r show ?thesis by auto
qed

end
