(* ===== verification/Channel_Values.thy ===== *)
theory Channel_Values
  imports Host_Ops "HOL-Library.Monad_Syntax"
begin

text \<open>
  The stored values of \<open>harness/channel_ops.py\<close>: an entry is a JSON object under the hash of its
  kind and key. A source keeps the operator's configuration; a binding names the conversation that
  may reach a Thread, a grant the operations of a principal there, an outbox row a notification with
  its delivery state. Integral zero times are stored as floats here.
\<close>

section \<open>Bindings and grants\<close>

record binding =
  bi_source :: string
  bi_conversation :: string
  bi_thread :: string
  bi_workspace :: string
  bi_destination :: string
  bi_enabled :: bool
  bi_revision :: int

definition binding_json :: "binding \<Rightarrow> json" where
  "binding_json b = JObj
     [(''conversation_id'', JStr (bi_conversation b)), (''destination'', JStr (bi_destination b)),
      (''enabled'', JBool (bi_enabled b)), (''revision'', JInt (bi_revision b)), (''source_id'', JStr (bi_source b)),
      (''thread_id'', JStr (bi_thread b)), (''workspace'', JStr (bi_workspace b))]"

fun as_bool :: "json \<Rightarrow> bool option" where
  "as_bool (JBool b) = Some b"
| "as_bool _ = None"

fun as_real :: "json \<Rightarrow> real option" where
  "as_real (JFloat x) = Some x"
| "as_real (JInt n) = Some (of_int n)"
| "as_real _ = None"

fun as_opt_str :: "json \<Rightarrow> string option option" where
  "as_opt_str JNull = Some None"
| "as_opt_str (JStr s) = Some (Some s)"
| "as_opt_str _ = None"

fun all_strs :: "json list \<Rightarrow> string list option" where
  "all_strs [] = Some []"
| "all_strs (v # vs) = do {s \<leftarrow> as_str v; ss \<leftarrow> all_strs vs; Some (s # ss)}"

definition binding_of :: "json \<Rightarrow> binding option" where
  "binding_of v = do {
     conversation \<leftarrow> as_str (jget v ''conversation_id'');
     destination \<leftarrow> as_str (jget v ''destination'');
     enabled \<leftarrow> as_bool (jget v ''enabled'');
     revision \<leftarrow> as_int (jget v ''revision'');
     source \<leftarrow> as_str (jget v ''source_id'');
     thread \<leftarrow> as_str (jget v ''thread_id'');
     workspace \<leftarrow> as_str (jget v ''workspace'');
     Some \<lparr>bi_source = source, bi_conversation = conversation, bi_thread = thread, bi_workspace = workspace,
       bi_destination = destination, bi_enabled = enabled, bi_revision = revision\<rparr>}"

record grant =
  gr_id :: string
  gr_source :: string
  gr_principal :: string
  gr_conversation :: string
  gr_thread :: string
  gr_workspace :: string
  gr_identity :: string
  gr_role :: string
  gr_operations :: "string list"
  gr_revision :: int
  gr_enabled :: bool

definition grant_json :: "grant \<Rightarrow> json" where
  "grant_json g = JObj
     [(''conversation_id'', JStr (gr_conversation g)), (''enabled'', JBool (gr_enabled g)), (''grant_id'', JStr (gr_id g)),
      (''identity'', JStr (gr_identity g)), (''operations'', JArr (map JStr (gr_operations g))),
      (''principal'', JStr (gr_principal g)), (''revision'', JInt (gr_revision g)), (''role'', JStr (gr_role g)),
      (''source_id'', JStr (gr_source g)), (''thread_id'', JStr (gr_thread g)), (''workspace'', JStr (gr_workspace g))]"

definition grant_of :: "json \<Rightarrow> grant option" where
  "grant_of v = do {
     conversation \<leftarrow> as_str (jget v ''conversation_id'');
     enabled \<leftarrow> as_bool (jget v ''enabled'');
     gid \<leftarrow> as_str (jget v ''grant_id'');
     ident \<leftarrow> as_str (jget v ''identity'');
     listed \<leftarrow> as_list (jget v ''operations'');
     operations \<leftarrow> all_strs listed;
     principal \<leftarrow> as_str (jget v ''principal'');
     revision \<leftarrow> as_int (jget v ''revision'');
     role \<leftarrow> as_str (jget v ''role'');
     source \<leftarrow> as_str (jget v ''source_id'');
     thread \<leftarrow> as_str (jget v ''thread_id'');
     workspace \<leftarrow> as_str (jget v ''workspace'');
     Some \<lparr>gr_id = gid, gr_source = source, gr_principal = principal, gr_conversation = conversation, gr_thread = thread,
       gr_workspace = workspace, gr_identity = ident, gr_role = role, gr_operations = operations, gr_revision = revision,
       gr_enabled = enabled\<rparr>}"

section \<open>Outbox rows\<close>

datatype delivery_status =
  NPending | NClaimed | NSending | NAcknowledged | NUncertain | NBlocked | NAbandoned

fun delivery_name :: "delivery_status \<Rightarrow> string" where
  "delivery_name NPending = ''pending''"
| "delivery_name NClaimed = ''claimed''"
| "delivery_name NSending = ''sending''"
| "delivery_name NAcknowledged = ''acknowledged''"
| "delivery_name NUncertain = ''uncertain''"
| "delivery_name NBlocked = ''blocked''"
| "delivery_name NAbandoned = ''abandoned''"

definition delivery_statuses :: "delivery_status list" where
  "delivery_statuses = [NPending, NClaimed, NSending, NAcknowledged, NUncertain, NBlocked, NAbandoned]"

definition delivery_of :: "string \<Rightarrow> delivery_status option" where
  "delivery_of s = find (\<lambda>x. delivery_name x = s) delivery_statuses"

record outbox =
  ob_facts :: json
  ob_id :: string
  ob_thread :: string
  ob_turn :: string
  ob_grant :: string
  ob_source :: string
  ob_source_revision :: int
  ob_destination :: string
  ob_grant_revision :: int
  ob_binding_revision :: int
  ob_summary :: json
  ob_text :: string
  ob_status :: delivery_status
  ob_attempt :: int
  ob_generation :: int
  ob_owner :: "string option"
  ob_lease :: real
  ob_available :: real
  ob_deadline :: real
  ob_max_attempts :: int
  ob_remote :: "string option"
  ob_reason :: "string option"

definition outbox_json :: "outbox \<Rightarrow> json" where
  "outbox_json x = JObj
     [(''attempt'', JInt (ob_attempt x)), (''available_at'', JFloat (ob_available x)),
      (''binding_revision'', JInt (ob_binding_revision x)), (''deadline'', JFloat (ob_deadline x)),
      (''destination'', JStr (ob_destination x)), (''fact_snapshot'', ob_facts x), (''generation'', JInt (ob_generation x)),
      (''grant_id'', JStr (ob_grant x)), (''grant_revision'', JInt (ob_grant_revision x)),
      (''lease_expires_at'', JFloat (ob_lease x)), (''max_attempts'', JInt (ob_max_attempts x)),
      (''outbox_id'', JStr (ob_id x)), (''owner'', of_opt_str (ob_owner x)), (''reason'', of_opt_str (ob_reason x)),
      (''remote_id'', of_opt_str (ob_remote x)), (''source_id'', JStr (ob_source x)),
      (''source_revision'', JInt (ob_source_revision x)), (''status'', JStr (delivery_name (ob_status x))),
      (''summary'', ob_summary x), (''text'', JStr (ob_text x)), (''thread_id'', JStr (ob_thread x)),
      (''turn_id'', JStr (ob_turn x))]"

definition outbox_of :: "json \<Rightarrow> outbox option" where
  "outbox_of v = do {
     attempt \<leftarrow> as_int (jget v ''attempt'');
     available \<leftarrow> as_real (jget v ''available_at'');
     binding_revision \<leftarrow> as_int (jget v ''binding_revision'');
     deadline \<leftarrow> as_real (jget v ''deadline'');
     destination \<leftarrow> as_str (jget v ''destination'');
     generation \<leftarrow> as_int (jget v ''generation'');
     gid \<leftarrow> as_str (jget v ''grant_id'');
     grant_revision \<leftarrow> as_int (jget v ''grant_revision'');
     lease \<leftarrow> as_real (jget v ''lease_expires_at'');
     max_attempts \<leftarrow> as_int (jget v ''max_attempts'');
     oid \<leftarrow> as_str (jget v ''outbox_id'');
     owner \<leftarrow> as_opt_str (jget v ''owner'');
     reason \<leftarrow> as_opt_str (jget v ''reason'');
     remote \<leftarrow> as_opt_str (jget v ''remote_id'');
     source \<leftarrow> as_str (jget v ''source_id'');
     source_revision \<leftarrow> as_int (jget v ''source_revision'');
     status \<leftarrow> as_str (jget v ''status'');
     state \<leftarrow> delivery_of status;
     text \<leftarrow> as_str (jget v ''text'');
     thread \<leftarrow> as_str (jget v ''thread_id'');
     turn \<leftarrow> as_str (jget v ''turn_id'');
     Some \<lparr>ob_facts = jget v ''fact_snapshot'', ob_id = oid, ob_thread = thread, ob_turn = turn, ob_grant = gid,
       ob_source = source, ob_source_revision = source_revision, ob_destination = destination,
       ob_grant_revision = grant_revision, ob_binding_revision = binding_revision, ob_summary = jget v ''summary'',
       ob_text = text, ob_status = state, ob_attempt = attempt, ob_generation = generation, ob_owner = owner,
       ob_lease = lease, ob_available = available, ob_deadline = deadline, ob_max_attempts = max_attempts,
       ob_remote = remote, ob_reason = reason\<rparr>}"

section \<open>Reading back what was stored\<close>

lemma all_strs_map [simp]: "all_strs (map JStr ss) = Some ss"
  by (induction ss) simp_all

lemma as_opt_str_of [simp]: "as_opt_str (of_opt_str x) = Some x"
  by (cases x) (simp_all add: of_opt_str_def)

lemma delivery_of_name [simp]: "delivery_of (delivery_name s) = Some s"
  by (cases s) (simp_all add: delivery_of_def delivery_statuses_def)

lemma binding_round_trip [simp]: "binding_of (binding_json b) = Some b"
  by (simp add: binding_of_def binding_json_def)

lemma grant_round_trip [simp]: "grant_of (grant_json g) = Some g"
  by (simp add: grant_of_def grant_json_def)

lemma outbox_json_fields:
  "jget (outbox_json x) ''fact_snapshot'' = ob_facts x" "jget (outbox_json x) ''summary'' = ob_summary x"
  by (simp_all add: outbox_json_def)

lemma outbox_round_trip [simp]: "outbox_of (outbox_json x) = Some x"
  by (simp add: outbox_of_def outbox_json_def)

lemma outbox_json_inject: "outbox_json x = outbox_json y \<longleftrightarrow> x = y"
  using outbox_round_trip by (metis option.inject)

end
