(* ===== verification/Channel_Ops.thy ===== *)
theory Channel_Ops
  imports Channel_Values
begin

text \<open>
  Channel authority, receipts and delivery of \<open>harness/channel_ops.py\<close>. \<open>ident\<close> is the hash of a
  canonical list of texts, \<open>canon\<close> the canonical text of a value, \<open>delivery\<close> the status that
  \<open>delivery.inspect\<close> reads from the workspace. Each operation runs in one transaction: a raise
  leaves the store as it was.
\<close>

type_synonym identity = "string list \<Rightarrow> string"

section \<open>Entries\<close>

definition get_entry :: "identity \<Rightarrow> store \<Rightarrow> string \<Rightarrow> string \<Rightarrow> json option" where
  "get_entry ident st kind key = map_option ch_value (tget (channel_entries (proj st)) (ident [kind, key]))"

definition entries :: "store \<Rightarrow> string \<Rightarrow> json list" where
  "entries st kind = map ch_value (select_rows (\<lambda>c. ch_kind c = kind) (channel_entries (proj st)))"

definition put_entry :: "identity \<Rightarrow> string \<Rightarrow> string \<Rightarrow> string \<Rightarrow> json \<Rightarrow> store \<Rightarrow> store result" where
  "put_entry ident th kind key v st =
     (case tget (channel_entries (proj st)) (ident [kind, key]) of
        Some prior \<Rightarrow> if ch_thread prior \<noteq> th then Inl (PermissionError ''channel identity belongs to another Thread'')
          else append_fact th None ''channel'' (ThreadFact (ChannelEntryUpdated (ident [kind, key]) kind key v)) st
      | None \<Rightarrow> append_fact th None ''channel'' (ThreadFact (ChannelEntryUpdated (ident [kind, key]) kind key v)) st)"

text \<open>A stored entry that lacks a field raises when the field is read.\<close>

definition decoded :: "(json \<Rightarrow> 'a option) \<Rightarrow> json option \<Rightarrow> 'a option result" where
  "decoded of_json x = (case x of None \<Rightarrow> Inr None
     | Some v \<Rightarrow> (case of_json v of None \<Rightarrow> Inl (KeyError ''channel entry'') | Some a \<Rightarrow> Inr (Some a)))"

definition get_binding :: "identity \<Rightarrow> store \<Rightarrow> string \<Rightarrow> string \<Rightarrow> binding option result" where
  "get_binding ident st source conversation =
     decoded binding_of (get_entry ident st ''binding'' (ident [source, conversation]))"

definition get_grant :: "identity \<Rightarrow> store \<Rightarrow> string \<Rightarrow> grant option result" where
  "get_grant ident st key = decoded grant_of (get_entry ident st ''grant'' key)"

definition get_outbox :: "identity \<Rightarrow> store \<Rightarrow> string \<Rightarrow> outbox option result" where
  "get_outbox ident st oid = decoded outbox_of (get_entry ident st ''outbox'' oid)"

definition put_outbox :: "identity \<Rightarrow> outbox \<Rightarrow> store \<Rightarrow> store result" where
  "put_outbox ident x = put_entry ident (ob_thread x) ''outbox'' (ob_id x) (outbox_json x)"

definition entry_revision :: "json \<Rightarrow> int result" where
  "entry_revision v = require (as_int (jget v ''revision'')) (KeyError ''revision'')"

section \<open>Authority\<close>

definition configure_source :: "identity \<Rightarrow> string \<Rightarrow> json \<Rightarrow> store \<Rightarrow> (json \<times> store) result" where
  "configure_source ident th config st =
     ebind (require (as_str (jget config ''source_id'')) (KeyError ''source_id'')) (\<lambda>sid.
     ebind (case get_entry ident st ''source'' sid of None \<Rightarrow> Inr 1 | Some old \<Rightarrow> ebind (entry_revision old) (\<lambda>n. Inr (n + 1)))
       (\<lambda>n. let v = jset (jset config ''thread_id'' (JStr th)) ''revision'' (JInt n) in
         ebind (put_entry ident th ''source'' sid v st) (\<lambda>s. Inr (v, s))))"

definition bind_channel ::
  "identity \<Rightarrow> string \<Rightarrow> string \<Rightarrow> string \<Rightarrow> string \<Rightarrow> bool \<Rightarrow> store \<Rightarrow> (binding \<times> store) result" where
  "bind_channel ident source conversation th destination enabled st =
     (if get_entry ident st ''source'' source = None then Inl (ValueError ''unknown channel source'')
      else ebind (get_binding ident st source conversation) (\<lambda>prior.
        ebind (read_thread st th) (\<lambda>t.
          let b = \<lparr>bi_source = source, bi_conversation = conversation, bi_thread = th, bi_workspace = th_workspace t,
                bi_destination = destination, bi_enabled = enabled,
                bi_revision = (case prior of None \<Rightarrow> 1 | Some old \<Rightarrow> bi_revision old + 1)\<rparr>
          in ebind (put_entry ident th ''binding'' (ident [source, conversation]) (binding_json b) st) (\<lambda>s. Inr (b, s)))))"

definition grant_operations :: "string list" where
  "grant_operations = [''input'', ''status'', ''respond'', ''cancel'', ''notify'', ''evidence'', ''push'', ''open_pr'', ''review_reply'']"

definition set_grant ::
  "identity \<Rightarrow> string \<Rightarrow> string \<Rightarrow> string \<Rightarrow> string \<Rightarrow> string list \<Rightarrow> string \<Rightarrow> bool \<Rightarrow> string option \<Rightarrow> store
     \<Rightarrow> (grant \<times> store) result" where
  "set_grant ident source who conversation th operations role enabled local_identity st =
     (if who = [] \<or> role = [] \<or> \<not> set operations \<subseteq> set grant_operations
      then Inl (ValueError ''invalid channel grant'')
      else let key = ident [source, who, conversation] in
        ebind (get_grant ident st key) (\<lambda>prior.
        ebind (read_thread st th) (\<lambda>t.
          let g = \<lparr>gr_id = key, gr_source = source, gr_principal = who, gr_conversation = conversation,
                gr_thread = th, gr_workspace = th_workspace t,
                gr_identity = (case local_identity of Some (c # cs) \<Rightarrow> c # cs | _ \<Rightarrow> ident [source, who]),
                gr_role = role, gr_operations = operations,
                gr_revision = (case prior of None \<Rightarrow> 1 | Some old \<Rightarrow> gr_revision old + 1), gr_enabled = enabled\<rparr>
          in ebind (put_entry ident th ''grant'' key (grant_json g) st) (\<lambda>s. Inr (g, s)))))"

definition unauthorized :: py_error where
  "unauthorized = PermissionError ''channel authority unavailable or revoked''"

definition grant_in_force :: "binding \<Rightarrow> grant \<Rightarrow> string \<Rightarrow> bool" where
  "grant_in_force b g operation \<longleftrightarrow> bi_enabled b \<and> gr_enabled g \<and> operation \<in> set (gr_operations g)
     \<and> gr_thread g = bi_thread b \<and> gr_workspace g = bi_workspace b"

definition authorize :: "identity \<Rightarrow> store \<Rightarrow> string \<Rightarrow> string \<Rightarrow> string \<Rightarrow> string \<Rightarrow> int option \<Rightarrow> grant result" where
  "authorize ident st source who conversation operation expected =
     ebind (get_binding ident st source conversation) (\<lambda>binding.
     ebind (get_grant ident st (ident [source, who, conversation])) (\<lambda>grant.
       case (get_entry ident st ''source'' source, binding, grant) of
         (Some src, Some b, Some g) \<Rightarrow>
           if \<not> truthy src \<or> \<not> truthy (jget src ''enabled'') \<or> \<not> grant_in_force b g operation then Inl unauthorized
           else ebind (read_thread st (bi_thread b)) (\<lambda>t.
             if th_workspace t \<noteq> gr_workspace g \<or> (case expected of None \<Rightarrow> False | Some n \<Rightarrow> gr_revision g \<noteq> n)
             then Inl unauthorized else Inr g)
       | _ \<Rightarrow> Inl unauthorized))"

text \<open>\<open>channels/ci.py: authorize\<close>: the authority that a CI subscription was created under.\<close>

definition authorize_ci :: "identity \<Rightarrow> store \<Rightarrow> json \<Rightarrow> bool \<Rightarrow> unit result" where
  "authorize_ci ident st sub repair =
     (let ref = jget sub ''grant_ref'' in
      ebind (require (as_str (jget ref ''source_id'')) (KeyError ''source_id'')) (\<lambda>source.
      case get_entry ident st ''source'' source of
        None \<Rightarrow> Inl (PermissionError ''CI source configuration changed'')
      | Some src \<Rightarrow>
          if jget src ''kind'' \<noteq> JStr ''github'' \<or> jget src ''repository'' \<noteq> jget sub ''repository''
             \<or> (jfind ref ''source_revision'' \<noteq> None \<and> jget src ''revision'' \<noteq> jget ref ''source_revision'')
          then Inl (PermissionError ''CI source configuration changed'')
          else (case (as_str (jget ref ''principal''), as_str (jget ref ''conversation_id''), as_int (jget ref ''revision''),
                 as_int (jget ref ''binding_revision''), as_str (jget sub ''thread_id'')) of
              (Some who, Some conversation, Some n, Some m, Some th) \<Rightarrow>
                ebind (authorize ident st source who conversation (if repair then ''input'' else ''status'') (Some n)) (\<lambda>g.
                ebind (get_binding ident st source conversation) (\<lambda>b. case b of
                    None \<Rightarrow> Inl (PermissionError ''CI subscription authorization changed'')
                  | Some b \<Rightarrow> if bi_revision b \<noteq> m \<or> gr_thread g \<noteq> th
                      then Inl (PermissionError ''CI subscription authorization changed'') else Inr ()))
            | _ \<Rightarrow> Inl (KeyError ''grant_ref''))))"

definition authorize_ci_command :: "identity \<Rightarrow> real \<Rightarrow> store \<Rightarrow> host_command_row \<Rightarrow> unit result" where
  "authorize_ci_command ident now st c =
     (let authority = jget (hc_request c) ''ci_authority'' in
      if authority = JNull then Inr ()
      else ebind (require (as_str (jget authority ''subscription_id'')) (KeyError ''subscription_id'')) (\<lambda>sid.
        case get_entry ident st ''ci_subscription'' sid of
          None \<Rightarrow> Inl (PermissionError ''CI continuation no longer authorized for this head'')
        | Some sub \<Rightarrow>
            if \<not> truthy (jget sub ''enabled'') \<or> jget sub ''head_sha'' \<noteq> jget authority ''head_sha''
               \<or> jget sub ''thread_id'' \<noteq> JStr (hc_thread c)
            then Inl (PermissionError ''CI continuation no longer authorized for this head'')
            else (case as_real (jget (jget sub ''repair_allowance'') ''deadline'') of
                None \<Rightarrow> Inl (KeyError ''deadline'')
              | Some d \<Rightarrow> if now \<ge> d then Inl (PermissionError ''CI continuation no longer authorized for this head'')
                  else authorize_ci ident st sub True)))"

definition authorize_channel_command :: "identity \<Rightarrow> store \<Rightarrow> host_command_row \<Rightarrow> unit result" where
  "authorize_channel_command ident st c =
     (let authority = jget (hc_request c) ''channel_authority'' in
      if authority = JNull then Inr ()
      else (case (as_str (jget authority ''source_id''), as_str (jget authority ''principal''),
               as_str (jget authority ''conversation_id''), as_str (jget authority ''operation''),
               as_int (jget authority ''revision''), as_int (jget authority ''binding_revision'')) of
          (Some source, Some who, Some conversation, Some operation, Some n, Some m) \<Rightarrow>
            ebind (authorize ident st source who conversation operation (Some n)) (\<lambda>g.
            ebind (get_binding ident st source conversation) (\<lambda>b. case b of
                None \<Rightarrow> Inl (PermissionError ''channel command binding changed'')
              | Some b \<Rightarrow> if gr_thread g \<noteq> hc_thread c \<or> bi_revision b \<noteq> m
                  then Inl (PermissionError ''channel command binding changed'') else Inr ()))
        | _ \<Rightarrow> Inl (KeyError ''channel_authority'')))"

definition authorize_command :: "identity \<Rightarrow> real \<Rightarrow> store \<Rightarrow> host_command_row \<Rightarrow> unit result" where
  "authorize_command ident now st c =
     ebind (authorize_ci_command ident now st c) (\<lambda>_. authorize_channel_command ident st c)"

section \<open>The outbox\<close>

definition notification_authority :: "identity \<Rightarrow> store \<Rightarrow> outbox \<Rightarrow> grant result" where
  "notification_authority ident st x = (case get_entry ident st ''source'' (ob_source x) of
       None \<Rightarrow> Inl (PermissionError ''notification source configuration changed'')
     | Some src \<Rightarrow>
         if jget src ''revision'' \<noteq> JInt (ob_source_revision x)
         then Inl (PermissionError ''notification source configuration changed'')
         else ebind (get_grant ident st (ob_grant x)) (\<lambda>grant. case grant of
             None \<Rightarrow> Inl (PermissionError ''notification grant missing'')
           | Some g \<Rightarrow> ebind (authorize ident st (gr_source g) (gr_principal g) (gr_conversation g) ''notify''
                 (Some (ob_grant_revision x))) (\<lambda>g.
               ebind (get_binding ident st (gr_source g) (gr_conversation g)) (\<lambda>b. case b of
                   None \<Rightarrow> Inl (PermissionError ''notification audience changed'')
                 | Some b \<Rightarrow> if bi_revision b \<noteq> ob_binding_revision x \<or> bi_destination b \<noteq> ob_destination x
                     then Inl (PermissionError ''notification audience changed'') else Inr g))))"

fun turn_status_name :: "turn_status \<Rightarrow> string" where
  "turn_status_name Running = ''running''"
| "turn_status_name Paused = ''paused''"
| "turn_status_name Interrupted = ''interrupted''"
| "turn_status_name Completed = ''completed''"
| "turn_status_name Failed = ''failed''"
| "turn_status_name Cancelled = ''cancelled''"

definition stale_facts :: py_error where
  "stale_facts = PermissionError ''notification facts changed since queueing''"

definition check :: "bool \<Rightarrow> 'e \<Rightarrow> 'e + unit" where
  "check ok e = (if ok then Inr () else Inl e)"

fun all_checks :: "('e + unit) list \<Rightarrow> 'e + unit" where
  "all_checks [] = Inr ()"
| "all_checks (c # cs) = ebind c (\<lambda>_. all_checks cs)"

definition remote_current :: "identity \<Rightarrow> store \<Rightarrow> json \<Rightarrow> unit result" where
  "remote_current ident st snapshot =
     ebind (require (as_str (jget snapshot ''subscription'')) (KeyError ''subscription'')) (\<lambda>sid.
       case get_entry ident st ''ci_subscription'' sid of
         None \<Rightarrow> Inl stale_facts
       | Some sub \<Rightarrow>
           if \<not> truthy (jget sub ''enabled'') then Inl stale_facts
           else ebind (require (jfind snapshot ''head_sha'') (KeyError ''head_sha'')) (\<lambda>sha.
             if jget sub ''head_sha'' \<noteq> sha then Inl stale_facts
             else ebind (require (jfind snapshot ''status'') (KeyError ''status'')) (\<lambda>status.
               check (jget sub ''remote_status'' = status) stale_facts)))"

definition turn_facts_current :: "(store \<Rightarrow> string \<Rightarrow> string) \<Rightarrow> store \<Rightarrow> json \<Rightarrow> unit result" where
  "turn_facts_current delivery st expected = (case jget expected ''turn_id'' of
       JStr tid \<Rightarrow> ebind (read_turn st tid) (\<lambda>tu.
         ebind (require (jfind expected ''status'') (KeyError ''status'')) (\<lambda>status. check
           (status = JStr (turn_status_name (tu_status tu)) \<and> jget expected ''delivery'' = JStr (delivery st tid))
           stale_facts))
     | _ \<Rightarrow> Inr ())"

definition request_current :: "store \<Rightarrow> json \<Rightarrow> unit result" where
  "request_current st expected = (case jget expected ''request_id'' of
       JStr rid \<Rightarrow> if rid = [] then Inr () else (case tget (interactions (proj st)) rid of
           None \<Rightarrow> Inl stale_facts | Some i \<Rightarrow> check (in_status i = InteractionPending) stale_facts)
     | _ \<Rightarrow> Inr ())"

definition notification_facts :: "identity \<Rightarrow> (store \<Rightarrow> string \<Rightarrow> string) \<Rightarrow> store \<Rightarrow> outbox \<Rightarrow> unit result" where
  "notification_facts ident delivery st x =
     (let expected = ob_facts x in
      if expected = JNull then Inr ()
      else ebind (read_thread st (ob_thread x)) (\<lambda>t.
        if JStr (th_id t) \<noteq> jget expected ''thread_id'' \<or> of_opt_str (th_head t) \<noteq> jget expected ''turn_id''
        then Inl stale_facts
        else all_checks ([turn_facts_current delivery st expected, request_current st expected]
          @ map (remote_current ident st) (case as_list (jget expected ''remote'') of None \<Rightarrow> [] | Some vs \<Rightarrow> vs))))"

definition source_revision :: "identity \<Rightarrow> store \<Rightarrow> string \<Rightarrow> int result" where
  "source_revision ident st source = (case get_entry ident st ''source'' source of
       None \<Rightarrow> Inl (PermissionError ''unknown source'') | Some v \<Rightarrow> entry_revision v)"

text \<open>The facts a notification is about; a queued one about the same Turn is superseded.\<close>

definition fact_projection :: "json \<Rightarrow> json" where
  "fact_projection v = (if jfind v ''thread_id'' = None then JNull
     else JObj (filter (\<lambda>(k, _). k \<in> {''thread_id'', ''turn_id'', ''status'', ''delivery'', ''request_id'', ''remote''})
       (case v of JObj kvs \<Rightarrow> kvs | _ \<Rightarrow> [])))"

definition superseded_by :: "string \<Rightarrow> string \<Rightarrow> string \<Rightarrow> outbox \<Rightarrow> bool" where
  "superseded_by source destination turn old \<longleftrightarrow> ob_status old = NPending \<and> ob_source old = source
     \<and> ob_destination old = destination \<and> ob_turn old = turn \<and> ob_facts old \<noteq> JNull
     \<and> jfind (ob_summary old) ''request'' = None"

fun decode_all :: "(json \<Rightarrow> 'a option) \<Rightarrow> json list \<Rightarrow> 'a list result" where
  "decode_all of_json [] = Inr []"
| "decode_all of_json (v # vs) = (case of_json v of None \<Rightarrow> Inl (KeyError ''channel entry'')
     | Some a \<Rightarrow> ebind (decode_all of_json vs) (\<lambda>as. Inr (a # as)))"

definition outbox_rows :: "store \<Rightarrow> outbox list result" where
  "outbox_rows st = decode_all outbox_of (entries st ''outbox'')"

definition supersede :: "identity \<Rightarrow> string \<Rightarrow> string \<Rightarrow> string \<Rightarrow> store \<Rightarrow> store result" where
  "supersede ident source destination turn st = ebind (outbox_rows st) (\<lambda>rows. chain
     (map (\<lambda>old. put_outbox ident (old\<lparr>ob_status := NAbandoned, ob_reason := Some ''superseded_by_current_facts''\<rparr>))
       (filter (superseded_by source destination turn) rows)) st)"

definition new_notification ::
  "string \<Rightarrow> grant \<Rightarrow> binding \<Rightarrow> string \<Rightarrow> string \<Rightarrow> json \<Rightarrow> json \<Rightarrow> string \<Rightarrow> int \<Rightarrow> real \<Rightarrow> real \<Rightarrow> int \<Rightarrow> outbox" where
  "new_notification oid g b grant_id turn summary projection text n now deadline_seconds max_attempts =
     \<lparr>ob_facts = projection, ob_id = oid, ob_thread = gr_thread g, ob_turn = turn, ob_grant = grant_id,
      ob_source = gr_source g, ob_source_revision = n, ob_destination = bi_destination b,
      ob_grant_revision = gr_revision g, ob_binding_revision = bi_revision b, ob_summary = summary,
      ob_text = ''Praxis '' @ text, ob_status = NPending, ob_attempt = 0, ob_generation = 0,
      ob_owner = None, ob_lease = 0, ob_available = now, ob_deadline = now + deadline_seconds,
      ob_max_attempts = max_attempts, ob_remote = None, ob_reason = None\<rparr>"

text \<open>A notification is queued once; a newer one supersedes those about older facts of its Turn.\<close>

definition queue_notification ::
  "identity \<Rightarrow> (json \<Rightarrow> string) \<Rightarrow> grant \<Rightarrow> binding \<Rightarrow> string \<Rightarrow> string \<Rightarrow> json \<Rightarrow> json \<Rightarrow> real \<Rightarrow> int \<Rightarrow> real \<Rightarrow> store
     \<Rightarrow> (outbox \<times> store) result" where
  "queue_notification ident canon g b grant_id turn summary projection now max_attempts deadline_seconds st =
     (let oid = ident [gr_source g, bi_destination b, turn, canon summary] in
      ebind (get_outbox ident st oid) (\<lambda>prior. case prior of
          Some x \<Rightarrow> Inr (x, st)
        | None \<Rightarrow>
          ebind (if projection \<noteq> JNull \<and> jfind summary ''request'' = None
                 then supersede ident (gr_source g) (bi_destination b) turn st else Inr st) (\<lambda>s.
          ebind (source_revision ident s (gr_source g)) (\<lambda>n.
            let x = new_notification oid g b grant_id turn summary projection (canon summary) n now deadline_seconds max_attempts
            in ebind (put_outbox ident x s) (\<lambda>t. Inr (x, t))))))"

definition enqueue_notification ::
  "identity \<Rightarrow> (json \<Rightarrow> string) \<Rightarrow> string \<Rightarrow> string \<Rightarrow> json \<Rightarrow> real \<Rightarrow> int \<Rightarrow> real \<Rightarrow> json option \<Rightarrow> store
     \<Rightarrow> (outbox \<times> store) result" where
  "enqueue_notification ident canon grant_id turn summary now max_attempts deadline_seconds snapshot st =
     (if \<not> (1 \<le> max_attempts \<and> max_attempts \<le> 20) \<or> \<not> (0 < deadline_seconds \<and> deadline_seconds \<le> 86400)
      then Inl (ValueError ''notification retry bounds invalid'')
      else if length (canon summary) > 4000 then Inl (ValueError ''notification summary exceeds limit'')
      else ebind (get_grant ident st grant_id) (\<lambda>grant. case grant of
          None \<Rightarrow> Inl (PermissionError ''unknown notification grant'')
        | Some g \<Rightarrow>
            ebind (authorize ident st (gr_source g) (gr_principal g) (gr_conversation g) ''notify'' None) (\<lambda>_.
            ebind (get_binding ident st (gr_source g) (gr_conversation g)) (\<lambda>binding.
            ebind (require binding (TypeError ''binding'')) (\<lambda>b.
              queue_notification ident canon g b grant_id turn summary
                (fact_projection (case snapshot of None \<Rightarrow> summary | Some v \<Rightarrow> v)) now max_attempts deadline_seconds st)))))"

section \<open>Sending\<close>

text \<open>An expired lease: a sender that had dispatched leaves an uncertain delivery.\<close>

definition lapse :: "real \<Rightarrow> outbox \<Rightarrow> outbox option" where
  "lapse now x = (if ob_lease x \<le> now then (case ob_status x of
       NSending \<Rightarrow> Some (x\<lparr>ob_status := NUncertain, ob_owner := None, ob_reason := Some ''sender_stopped_after_dispatch''\<rparr>)
     | NClaimed \<Rightarrow> Some (x\<lparr>ob_status := NPending, ob_owner := None, ob_reason := Some ''claim_expired''\<rparr>)
     | _ \<Rightarrow> None) else None)"

definition may_send :: "identity \<Rightarrow> (store \<Rightarrow> string \<Rightarrow> string) \<Rightarrow> store \<Rightarrow> outbox \<Rightarrow> unit result" where
  "may_send ident delivery st x =
     ebind (notification_authority ident st x) (\<lambda>_. notification_facts ident delivery st x)"

definition exhausted :: "real \<Rightarrow> outbox \<Rightarrow> bool" where
  "exhausted now x \<longleftrightarrow> ob_deadline x \<le> now \<or> ob_attempt x \<ge> ob_max_attempts x"

definition claimed_by :: "string \<Rightarrow> real \<Rightarrow> outbox \<Rightarrow> outbox" where
  "claimed_by owner lease_until x =
     x\<lparr>ob_status := NClaimed, ob_owner := Some owner, ob_generation := ob_generation x + 1, ob_lease := lease_until\<rparr>"

definition blocked_because :: "string \<Rightarrow> outbox \<Rightarrow> outbox" where
  "blocked_because reason x = x\<lparr>ob_status := NBlocked, ob_reason := Some reason\<rparr>"

text \<open>One row of the scan: the row to go on with, or the claim that was made.\<close>

definition consider_row ::
  "identity \<Rightarrow> (store \<Rightarrow> string \<Rightarrow> string) \<Rightarrow> string \<Rightarrow> real \<Rightarrow> real \<Rightarrow> outbox \<Rightarrow> store \<Rightarrow> (outbox option \<times> store) result" where
  "consider_row ident delivery owner now lease_until x st =
     (if ob_status x \<noteq> NPending then Inr (None, st)
      else case may_send ident delivery st x of
        Inl (PermissionError _) \<Rightarrow> ebind (put_outbox ident (blocked_because ''authority_revoked'' x) st) (\<lambda>s. Inr (None, s))
      | Inl e \<Rightarrow> Inl e
      | Inr _ \<Rightarrow>
          if exhausted now x
          then ebind (put_outbox ident (blocked_because ''retry_bound_exhausted'' x) st) (\<lambda>s. Inr (None, s))
          else if ob_available x > now then Inr (None, st)
          else ebind (put_outbox ident (claimed_by owner lease_until x) st) (\<lambda>s. Inr (Some (claimed_by owner lease_until x), s)))"

definition scan_row ::
  "identity \<Rightarrow> (store \<Rightarrow> string \<Rightarrow> string) \<Rightarrow> string \<Rightarrow> real \<Rightarrow> real \<Rightarrow> outbox \<Rightarrow> store \<Rightarrow> (outbox option \<times> store) result" where
  "scan_row ident delivery owner now lease_until x st = (case lapse now x of
       None \<Rightarrow> consider_row ident delivery owner now lease_until x st
     | Some y \<Rightarrow> ebind (put_outbox ident y st) (consider_row ident delivery owner now lease_until y))"

fun scan_outbox ::
  "identity \<Rightarrow> (store \<Rightarrow> string \<Rightarrow> string) \<Rightarrow> string \<Rightarrow> real \<Rightarrow> real \<Rightarrow> string option \<Rightarrow> outbox list \<Rightarrow> store
     \<Rightarrow> (outbox option \<times> store) result" where
  "scan_outbox ident delivery owner now lease_until workspace [] st = Inr (None, st)"
| "scan_outbox ident delivery owner now lease_until workspace (x # xs) st =
     ebind (case workspace of None \<Rightarrow> Inr True
        | Some w \<Rightarrow> ebind (read_thread st (ob_thread x)) (\<lambda>t. Inr (th_workspace t = w))) (\<lambda>here.
       if \<not> here then scan_outbox ident delivery owner now lease_until workspace xs st
       else ebind (scan_row ident delivery owner now lease_until x st) (\<lambda>(claim, s). case claim of
           Some c \<Rightarrow> Inr (Some c, s)
         | None \<Rightarrow> scan_outbox ident delivery owner now lease_until workspace xs s))"

definition claim_notification ::
  "identity \<Rightarrow> (store \<Rightarrow> string \<Rightarrow> string) \<Rightarrow> string \<Rightarrow> real \<Rightarrow> real \<Rightarrow> string option \<Rightarrow> store
     \<Rightarrow> (outbox option \<times> store) result" where
  "claim_notification ident delivery owner now lease_seconds workspace st =
     (if owner = [] \<or> \<not> (0 < lease_seconds \<and> lease_seconds \<le> 300) then Inl (ValueError ''invalid notification owner/lease'')
      else ebind (outbox_rows st) (\<lambda>rows. scan_outbox ident delivery owner now (now + lease_seconds) workspace rows st))"

text \<open>A claim is the row its holder was given.\<close>

definition current_notification :: "identity \<Rightarrow> store \<Rightarrow> outbox \<Rightarrow> outbox result" where
  "current_notification ident st claim = ebind (get_outbox ident st (ob_id claim)) (\<lambda>row. case row of
       None \<Rightarrow> Inl (ValueError ''notification claim superseded'')
     | Some x \<Rightarrow> if ob_status x \<notin> {NClaimed, NSending} \<or> ob_owner x \<noteq> ob_owner claim \<or> ob_generation x \<noteq> ob_generation claim
         then Inl (ValueError ''notification claim superseded'') else Inr x)"

definition dispatched :: "outbox \<Rightarrow> outbox" where
  "dispatched x = x\<lparr>ob_status := NSending, ob_attempt := ob_attempt x + 1\<rparr>"

definition begin_send ::
  "identity \<Rightarrow> (store \<Rightarrow> string \<Rightarrow> string) \<Rightarrow> outbox \<Rightarrow> real \<Rightarrow> store \<Rightarrow> (outbox \<times> store) result" where
  "begin_send ident delivery claim now st = ebind (current_notification ident st claim) (\<lambda>x.
     if ob_status x \<noteq> NClaimed \<or> min (ob_lease x) (ob_deadline x) \<le> now
     then Inl (ValueError ''notification dispatch expired or already started'')
     else ebind (may_send ident delivery st x) (\<lambda>_.
       ebind (put_outbox ident (dispatched x) st) (\<lambda>s. Inr (dispatched x, s))))"

definition send_outcomes :: "string list" where
  "send_outcomes = [''acknowledged'', ''unsent'', ''uncertain'', ''blocked'']"

text \<open>What the provider's answer makes of the row; \<open>jitter\<close> is the random factor in [0, 1).\<close>

definition answered :: "string \<Rightarrow> string option \<Rightarrow> real option \<Rightarrow> string option \<Rightarrow> real \<Rightarrow> real \<Rightarrow> outbox \<Rightarrow> outbox" where
  "answered outcome remote_id retry_after reason now jitter x =
     (let y = x\<lparr>ob_remote := remote_id, ob_reason := reason, ob_owner := None\<rparr> in
      if outcome = ''unsent''
      then let delay = max (case retry_after of None \<Rightarrow> 0 | Some r \<Rightarrow> r)
                 (min 300 (2 ^ nat (ob_attempt x)) * (1 / 2 + jitter * (1 / 2)));
               z = y\<lparr>ob_status := NPending, ob_available := now + delay\<rparr>
           in if ob_attempt z \<ge> ob_max_attempts z \<or> ob_available z \<ge> ob_deadline z
              then blocked_because ''retry_bound_exhausted'' z else z
      else y\<lparr>ob_status := (if outcome = ''acknowledged'' then NAcknowledged
          else if outcome = ''uncertain'' then NUncertain else NBlocked)\<rparr>)"

definition finish_send ::
  "identity \<Rightarrow> outbox \<Rightarrow> string \<Rightarrow> string option \<Rightarrow> real option \<Rightarrow> string option \<Rightarrow> real \<Rightarrow> real \<Rightarrow> store \<Rightarrow> store result" where
  "finish_send ident claim outcome remote_id retry_after reason now jitter st =
     (if outcome \<notin> set send_outcomes then Inl (ValueError ''invalid provider delivery outcome'')
      else if (case retry_after of None \<Rightarrow> False | Some r \<Rightarrow> r < 0) then Inl (ValueError ''invalid Retry-After'')
      else ebind (current_notification ident st claim) (\<lambda>x.
        if ob_status x \<noteq> NSending then Inl (ValueError ''notification has no dispatched attempt'')
        else put_outbox ident (answered outcome remote_id retry_after reason now jitter x) st))"

definition finish_preflight ::
  "identity \<Rightarrow> outbox \<Rightarrow> string \<Rightarrow> real option \<Rightarrow> string option \<Rightarrow> real \<Rightarrow> real \<Rightarrow> store \<Rightarrow> store result" where
  "finish_preflight ident claim outcome retry_after reason now jitter st =
     ebind (current_notification ident st claim) (\<lambda>x.
       if ob_status x \<noteq> NClaimed \<or> outcome \<notin> {''unsent'', ''blocked''}
       then Inl (ValueError ''invalid unsent preflight outcome'')
       else ebind (put_outbox ident (dispatched x) st) (finish_send ident claim outcome None retry_after reason now jitter))"

section \<open>Operator decisions\<close>

definition retry_notification ::
  "identity \<Rightarrow> (store \<Rightarrow> string \<Rightarrow> string) \<Rightarrow> string \<Rightarrow> real \<Rightarrow> store \<Rightarrow> store result" where
  "retry_notification ident delivery oid now st = ebind (get_outbox ident st oid) (\<lambda>row. case row of
       None \<Rightarrow> Inl (ValueError ''unknown delivery must be reconciled, never blindly retried'')
     | Some x \<Rightarrow> if ob_status x \<notin> {NBlocked, NPending}
         then Inl (ValueError ''unknown delivery must be reconciled, never blindly retried'')
         else ebind (may_send ident delivery st x) (\<lambda>_.
           if exhausted now x
           then Inl (ValueError ''notification retry authorization exhausted; create an explicit new notification'')
           else put_outbox ident (x\<lparr>ob_status := NPending, ob_available := now, ob_reason := None\<rparr>) st))"

definition abandon_notification :: "identity \<Rightarrow> string \<Rightarrow> store \<Rightarrow> store result" where
  "abandon_notification ident oid st = ebind (get_outbox ident st oid) (\<lambda>row. case row of
       None \<Rightarrow> Inl (ValueError ''cannot abandon an active or acknowledged send'')
     | Some x \<Rightarrow> if ob_status x \<in> {NClaimed, NSending, NAcknowledged}
         then Inl (ValueError ''cannot abandon an active or acknowledged send'')
         else put_outbox ident (x\<lparr>ob_status := NAbandoned\<rparr>) st)"

definition reconcile_notification :: "identity \<Rightarrow> string \<Rightarrow> string option \<Rightarrow> store \<Rightarrow> store result" where
  "reconcile_notification ident oid remote_id st = ebind (get_outbox ident st oid) (\<lambda>row. case row of
       None \<Rightarrow> Inl (ValueError ''notification does not require reconciliation'')
     | Some x \<Rightarrow> if ob_status x \<noteq> NUncertain then Inl (ValueError ''notification does not require reconciliation'')
         else ebind (notification_authority ident st x) (\<lambda>_. case remote_id of
             None \<Rightarrow> Inr st
           | Some r \<Rightarrow> put_outbox ident (x\<lparr>ob_status := NAcknowledged, ob_remote := Some r,
               ob_reason := Some ''provider_correlation_matched''\<rparr>) st))"

definition reauthorize_notification ::
  "identity \<Rightarrow> (store \<Rightarrow> string \<Rightarrow> string) \<Rightarrow> string \<Rightarrow> string \<Rightarrow> real \<Rightarrow> store \<Rightarrow> store result" where
  "reauthorize_notification ident delivery oid grant_id now st =
     ebind (get_outbox ident st oid) (\<lambda>row. ebind (get_grant ident st grant_id) (\<lambda>grant. case (row, grant) of
       (Some x, Some g) \<Rightarrow>
         if ob_status x \<notin> {NBlocked, NPending}
         then Inl (ValueError ''only a confirmed unsent notification can be reauthorized'')
         else ebind (authorize ident st (gr_source g) (gr_principal g) (gr_conversation g) ''notify'' None) (\<lambda>_.
           ebind (get_binding ident st (gr_source g) (gr_conversation g)) (\<lambda>binding. case binding of
               None \<Rightarrow> Inl (PermissionError ''reauthorization may not change the original audience or workspace'')
             | Some b \<Rightarrow>
                 if gr_thread g \<noteq> ob_thread x \<or> gr_source g \<noteq> ob_source x \<or> bi_destination b \<noteq> ob_destination x
                 then Inl (PermissionError ''reauthorization may not change the original audience or workspace'')
                 else ebind (source_revision ident st (gr_source g)) (\<lambda>n.
                   ebind (put_outbox ident (x\<lparr>ob_grant := grant_id, ob_grant_revision := gr_revision g,
                     ob_binding_revision := bi_revision b, ob_source_revision := n\<rparr>) st)
                   (retry_notification ident delivery oid now))))
     | _ \<Rightarrow> Inl (ValueError ''only a confirmed unsent notification can be reauthorized'')))"

section \<open>Receiving provider events\<close>

record envelope =
  en_source :: string
  en_event :: string
  en_digest :: string
  en_native :: string
  en_principal :: string
  en_user :: bool
  en_conversation :: string
  en_destination :: string
  en_operation :: string
  en_text :: string
  en_request :: "string option"
  en_action :: "string option"
  en_attachments :: "string list"
  en_evidence :: json
  en_dump :: json

text \<open>The hashes, paths and observations that the host supplies.\<close>

record channel_host =
  ch_ident :: identity
  ch_canon :: "json \<Rightarrow> string"
  ch_sha :: "json \<Rightarrow> string"
  ch_name_hash :: "string \<Rightarrow> string"
  ch_is_origin :: "string \<Rightarrow> bool"
  ch_database :: string
  ch_is_dir :: "string \<Rightarrow> bool"
  ch_resolve :: "string \<Rightarrow> string"
  ch_uid :: string
  ch_delivery :: "store \<Rightarrow> string \<Rightarrow> string"

definition event_key :: "identity \<Rightarrow> envelope \<Rightarrow> string" where
  "event_key ident e = ident [en_source e, en_event e]"

definition native_key :: "identity \<Rightarrow> envelope \<Rightarrow> string" where
  "native_key ident e = ident [en_source e, if en_native e \<noteq> [] then en_native e else en_digest e]"

definition prior_event :: "identity \<Rightarrow> envelope \<Rightarrow> store \<Rightarrow> json option" where
  "prior_event ident e st = (case get_entry ident st ''inbox'' (event_key ident e) of
       Some v \<Rightarrow> Some v | None \<Rightarrow> get_entry ident st ''native_inbox'' (native_key ident e))"

definition status_summary :: "channel_host \<Rightarrow> thread_row \<Rightarrow> store \<Rightarrow> json result" where
  "status_summary h t st = (case th_head t of
       None \<Rightarrow> Inr (JObj [(''delivery'', JNull), (''status'', JStr ''queued''), (''thread_id'', JStr (th_id t)), (''turn_id'', JNull)])
     | Some tid \<Rightarrow> ebind (read_turn st tid) (\<lambda>tu. Inr (JObj
         [(''delivery'', JStr (ch_delivery h st tid)), (''status'', JStr (turn_status_name (tu_status tu))),
          (''thread_id'', JStr (th_id t)), (''turn_id'', JStr tid)])))"

definition observe_event ::
  "channel_host \<Rightarrow> envelope \<Rightarrow> grant \<Rightarrow> thread_row \<Rightarrow> real \<Rightarrow> json \<Rightarrow> store \<Rightarrow> (json \<times> store) result" where
  "observe_event h e g t now receipt st =
     (if en_operation e = ''status''
      then ebind (status_summary h t st) (\<lambda>summary.
        ebind (if ''notify'' \<in> set (gr_operations g)
               then ebind (enqueue_notification (ch_ident h) (ch_canon h) (gr_id g)
                   (case th_head t of Some (c # cs) \<Rightarrow> c # cs | _ \<Rightarrow> ''queued'')
                   (jset summary ''request'' (JStr (en_event e))) now 5 3600 None st) (\<lambda>(x, s). Inr s)
               else Inr st) (\<lambda>s. Inr (jset receipt ''summary'' summary, s)))
      else ebind (put_entry (ch_ident h) (th_id t) ''evidence'' (event_key (ch_ident h) e)
          (JObj [(''event_id'', JStr (en_event e)), (''evidence'', en_evidence e), (''source_id'', JStr (en_source e)),
                 (''text'', JStr (en_text e)), (''thread_id'', JStr (th_id t))]) st) (\<lambda>s. Inr (receipt, s)))"

text \<open>The Turn that an event addresses: a queued start, the head, or the last start.\<close>

definition queued_starts :: "store \<Rightarrow> string \<Rightarrow> host_command_row list" where
  "queued_starts st th = filter (\<lambda>c. hc_kind c = ''start'' \<and> hc_status c \<in> {CmdPending, CmdClaimed}
     \<and> tget (turns (proj st)) (hc_turn c) = None) (list_commands st (Some th))"

definition event_turn :: "store \<Rightarrow> thread_row \<Rightarrow> string result" where
  "event_turn st t =
     (if queued_starts st (th_id t) \<noteq> [] then Inr (hc_turn (last (queued_starts st (th_id t))))
      else case th_head t of
          Some tid \<Rightarrow> Inr tid
        | None \<Rightarrow> let starts = filter (\<lambda>c. hc_kind c = ''start'') (list_commands st (Some (th_id t))) in
            if starts = [] then Inl (ValueError ''channel target has no configured submission'')
            else Inr (hc_turn (last starts)))"

definition input_text :: "(json \<Rightarrow> string) \<Rightarrow> envelope \<Rightarrow> string" where
  "input_text canon e = (if en_attachments e = [] then en_text e
     else en_text e @ [CHR 0x0A] @ ''Provider attachment references (untrusted, not local paths): ''
       @ canon (JArr (map JStr (en_attachments e))))"

definition copied_keys :: "json \<Rightarrow> string list \<Rightarrow> json \<Rightarrow> json" where
  "copied_keys source ks v = fold (\<lambda>k acc. case jfind source k of None \<Rightarrow> acc | Some x \<Rightarrow> jset acc k x) ks v"

text \<open>The kind, the Turn and the payload of the host command for an event.\<close>

definition input_command ::
  "channel_host \<Rightarrow> envelope \<Rightarrow> json \<Rightarrow> string \<Rightarrow> turn_row option \<Rightarrow> store \<Rightarrow> (string \<times> string \<times> json) result" where
  "input_command h e payload tid turn st =
     (if blank (en_text e) \<and> en_attachments e = [] then Inl (ValueError ''empty channel input'')
      else let p = jset payload ''text'' (JStr (input_text (ch_canon h) e)) in
        case turn of
          None \<Rightarrow> Inr (''input'', tid, p)
        | Some tu \<Rightarrow>
            if terminal_turn (tu_status tu)
            then ebind (background_submission st tid) (\<lambda>source. Inr (''start'', ''turn_channel_'' @ event_key (ch_ident h) e,
              jset (jset (copied_keys (hc_request source) [''configuration'', ''options''] p)
                ''previous_turn_id'' (JStr tid)) ''files'' (JArr [])))
            else if tu_status tu \<noteq> Running
            then Inl (ValueError ''paused target requires explicit response to its current interaction'')
            else Inr (''input'', tid, p))"

definition respond_command ::
  "envelope \<Rightarrow> json \<Rightarrow> string \<Rightarrow> turn_row option \<Rightarrow> store \<Rightarrow> (string \<times> string \<times> json) result" where
  "respond_command e payload tid turn st = (case (en_request e, en_action e, turn) of
       (Some (r # rs), Some (a # as), Some tu) \<Rightarrow> (case tget (interactions (proj st)) (r # rs) of
           None \<Rightarrow> Inl (ValueError ''response does not match a pending target interaction'')
         | Some i \<Rightarrow>
             if in_turn i \<noteq> tid \<or> in_status i \<noteq> InteractionPending
             then Inl (ValueError ''response does not match a pending target interaction'')
             else Inr (''resume'', tid, jset (jset (jset (jset payload ''request_id'' (JStr (r # rs))) ''action'' (JStr (a # as)))
               ''text'' (if en_text e = [] then JNull else JStr (en_text e)))
               ''authorization_revision'' (JInt (int (tu_seq tu)))))
     | _ \<Rightarrow> Inl (ValueError ''response requires a concrete current request''))"

definition event_command ::
  "channel_host \<Rightarrow> envelope \<Rightarrow> json \<Rightarrow> thread_row \<Rightarrow> store \<Rightarrow> (string \<times> string \<times> json) result" where
  "event_command h e payload t st = ebind (event_turn st t) (\<lambda>tid.
     let turn = tget (turns (proj st)) tid in
     if en_operation e = ''input'' then input_command h e payload tid turn st
     else if en_operation e = ''respond'' then respond_command e payload tid turn st
     else if en_operation e = ''cancel'' then Inr (''cancel'', tid, payload)
     else Inl (KeyError ''operation''))"

definition submit_event ::
  "channel_host \<Rightarrow> envelope \<Rightarrow> json \<Rightarrow> thread_row \<Rightarrow> json \<Rightarrow> store \<Rightarrow> (json \<times> store) result" where
  "submit_event h e payload t receipt st = ebind (event_command h e payload t st) (\<lambda>(kind, tid, p).
     let cid = ''channel_'' @ event_key (ch_ident h) e in
     ebind (receive_command (ch_sha h) (ch_name_hash h) (ch_is_origin h) (ch_database h) (ch_is_dir h) (ch_resolve h)
       (ch_uid h) (ch_resolve h (th_workspace t)) kind p (Some cid) (Some (th_id t)) (Some tid) st) (\<lambda>s.
     ebind (read_command s cid) (\<lambda>c.
       Inr (jset (jset receipt ''command_id'' (JStr (hc_id c))) ''turn_id'' (JStr (hc_turn c)), s))))"

definition event_authority :: "grant \<Rightarrow> binding \<Rightarrow> envelope \<Rightarrow> json" where
  "event_authority g b e = JObj
     [(''binding_revision'', JInt (bi_revision b)), (''conversation_id'', JStr (gr_conversation g)),
      (''operation'', JStr (en_operation e)), (''principal'', JStr (gr_principal g)), (''revision'', JInt (gr_revision g)),
      (''source_id'', JStr (gr_source g))]"

definition first_receipt :: "identity \<Rightarrow> envelope \<Rightarrow> string \<Rightarrow> json" where
  "first_receipt ident e th = JObj
     [(''command_id'', JNull), (''input_id'', JStr (event_key ident e)), (''status'', JStr ''accepted''),
      (''thread_id'', JStr th)]"

definition inbox_entry :: "envelope \<Rightarrow> string \<Rightarrow> json \<Rightarrow> json" where
  "inbox_entry e th receipt = JObj
     [(''digest'', JStr (en_digest e)), (''envelope'', en_dump e), (''principal'', JStr (en_principal e)),
      (''receipt'', receipt), (''source_id'', JStr (en_source e)), (''thread_id'', JStr th)]"

definition receive_new ::
  "channel_host \<Rightarrow> envelope \<Rightarrow> grant \<Rightarrow> binding \<Rightarrow> real \<Rightarrow> store \<Rightarrow> (json \<times> store) result" where
  "receive_new h e g b now st = ebind (read_thread st (bi_thread b)) (\<lambda>t.
     let receipt = first_receipt (ch_ident h) e (bi_thread b) in
     ebind (if en_operation e \<in> {''status'', ''evidence''} then observe_event h e g t now receipt st
            else submit_event h e (JObj [(''channel_authority'', event_authority g b e)]) t receipt st) (\<lambda>(receipt, s).
     ebind (put_entry (ch_ident h) (bi_thread b) ''inbox'' (event_key (ch_ident h) e)
         (inbox_entry e (bi_thread b) receipt) s) (\<lambda>s.
     ebind (put_entry (ch_ident h) (bi_thread b) ''native_inbox'' (native_key (ch_ident h) e)
         (inbox_entry e (bi_thread b) receipt) s) (\<lambda>s. Inr (receipt, s)))))"

definition receive_event :: "channel_host \<Rightarrow> envelope \<Rightarrow> real \<Rightarrow> store \<Rightarrow> (json \<times> store) result" where
  "receive_event h e now st =
     ebind (authorize (ch_ident h) st (en_source e) (en_principal e) (en_conversation e) (en_operation e) None) (\<lambda>g.
     ebind (get_binding (ch_ident h) st (en_source e) (en_conversation e)) (\<lambda>binding.
     ebind (require binding (TypeError ''binding'')) (\<lambda>b.
       if bi_destination b \<noteq> en_destination e
       then Inl (PermissionError ''channel audience differs from explicit binding'')
       else if \<not> en_user e \<and> en_operation e \<noteq> ''evidence''
       then Inl (PermissionError ''provider evidence cannot control execution'')
       else case prior_event (ch_ident h) e st of
           Some v \<Rightarrow>
             if jget v ''digest'' \<noteq> JStr (en_digest e) \<or> jget v ''principal'' \<noteq> JStr (en_principal e)
             then Inl (ValueError ''channel event identity conflicts with earlier payload'')
             else Inr (jget v ''receipt'', st)
         | None \<Rightarrow> receive_new h e g b now st)))"

end
