(* ===== verification/Channel_Laws.thy ===== *)
theory Channel_Laws
  imports Channel_Ops Append_Frames
begin

text \<open>
  The state machine of a notification and the channel entries as a map: each operation of
  \<open>Channel_Ops\<close> is a sequence of moves of that map, an append of any other fact is none.
\<close>

section \<open>Entries as a map\<close>

type_synonym entry_view = "string \<times> string \<times> string \<times> json"

definition entry_view :: "channel_row \<Rightarrow> entry_view" where
  "entry_view c = (ch_kind c, ch_key c, ch_thread c, ch_value c)"

definition channel_map :: "store \<Rightarrow> string \<Rightarrow> entry_view option" where
  "channel_map st k = map_option entry_view (tget (channel_entries (proj st)) k)"

definition channel_fact :: "fact \<Rightarrow> bool" where
  "channel_fact f \<longleftrightarrow> (\<exists>eid kind key v. f = ThreadFact (ChannelEntryUpdated eid kind key v))"

lemma frame_channels:
  assumes "apply_record p r = Inr q" and "\<not> channel_fact (rr_fact r)"
  shows "channel_entries q = channel_entries p"
proof -
  let ?I = "\<lambda>s. channel_entries s = channel_entries p"
  have adv: "preserves ?I (advance r)" by (rule frame_advance) simp_all
  have thr: "preserves ?I (apply_thread r f)" if "rr_fact r = ThreadFact f" for f
    using that assms(2)
    by (cases f; simp only: group_unfolds; (intro preserve_intros preserves_chain_dep frame_intros)?; simp add: channel_fact_def)
  show ?thesis
    by (rule apply_record_preserves [where I = ?I, OF assms(1)];
        (rule thr, assumption)?; (rule group_frames frame_execution [OF adv])?; (rule adv)?; simp)
qed

lemma other_append_channels:
  assumes "append_fact th turn pr f st = Inr st'" and "\<not> channel_fact f"
  shows "channel_map st' = channel_map st"
proof (rule append_shape [OF assms(1)])
  fix r s
  assume r: "apply_record (load_slice (proj st) r) r = Inr s" "proj st' = persist_slice (rr_seq r) s (proj st)"
    and g: "same_group f (rr_fact r)" "(\<And>x. f \<noteq> ItemFact x) \<Longrightarrow> rr_fact r = f"
  have "\<not> channel_fact (rr_fact r)"
    using g assms(2) by (cases "\<exists>x. f = ItemFact x") (auto simp: channel_fact_def same_group_def)
  from frame_channels [OF r(1) this]
  have "channel_entries (proj st') = channel_entries (proj st)"
    by (simp add: r(2) persist_slice_tables persist_same slice_parts)
  then show "channel_map st' = channel_map st" by (simp add: channel_map_def fun_eq_iff)
qed

lemma channel_append:
  assumes "append_fact th turn pr (ThreadFact (ChannelEntryUpdated eid kind key v)) st = Inr st'"
  shows "channel_map st' = (channel_map st)(eid \<mapsto> (case channel_map st eid of
     None \<Rightarrow> (kind, key, th, v) | Some (a, b, c, d) \<Rightarrow> (a, b, c, v)))"
proof (rule append_shape [OF assms])
  fix r s
  assume r: "apply_record (load_slice (proj st) r) r = Inr s" "proj st' = persist_slice (rr_seq r) s (proj st)"
    and th: "rr_thread r = th" and fact: "(\<And>x. ThreadFact (ChannelEntryUpdated eid kind key v) \<noteq> ItemFact x)
      \<Longrightarrow> rr_fact r = ThreadFact (ChannelEntryUpdated eid kind key v)"
  let ?new = "\<lparr>ch_id = eid, ch_thread = th, ch_kind = kind, ch_key = key, ch_value = v, ch_seq = rr_seq r\<rparr>"
  have f: "rr_fact r = ThreadFact (ChannelEntryUpdated eid kind key v)" by (rule fact) simp
  let ?old = "channel_entries (load_slice (proj st) r)"
  from r(1) have s: "channel_entries s = tput eid ?new ?old"
    by (auto simp: apply_record_def apply_fact_def f put_channel_def touch_thread_def mod_thread_def th split: if_splits)
  have "?old = [] \<or> (\<exists>row. ?old = [(eid, row)])"
    by (auto simp: load_slice_def empty_projection_def Let_def f load_rows_def load_row_def tput_def split: option.splits)
  then have s: "channel_entries s = [(eid, ?new)]" unfolding s by (auto simp: tput_def)
  show "channel_map st' = (channel_map st)(eid \<mapsto> (case channel_map st eid of
     None \<Rightarrow> (kind, key, th, v) | Some (a, b, c, d) \<Rightarrow> (a, b, c, v)))"
    by (rule ext) (auto simp: channel_map_def r(2) persist_slice_tables s persist_rows_Cons upsert_def entry_view_def
        merge_channel_def split: option.splits)
qed

section \<open>The life of a notification\<close>

text \<open>The contract of the outbox: how a row may change, whoever drives it.\<close>

inductive outbox_move :: "outbox \<Rightarrow> outbox \<Rightarrow> bool" where
  claim_lapses: "ob_status x = NClaimed \<Longrightarrow> outbox_move x (x\<lparr>ob_status := NPending, ob_owner := None, ob_reason := r\<rparr>)"
| sender_lost: "ob_status x = NSending \<Longrightarrow> outbox_move x (x\<lparr>ob_status := NUncertain, ob_owner := None, ob_reason := r\<rparr>)"
| claimed: "ob_status x = NPending \<Longrightarrow> ob_attempt x < ob_max_attempts x \<Longrightarrow> outbox_move x (claimed_by w t x)"
| blocked: "ob_status x = NPending \<Longrightarrow> outbox_move x (blocked_because why x)"
| sent: "ob_status x = NClaimed \<Longrightarrow> outbox_move x (dispatched x)"
| settled: "ob_status x = NSending \<Longrightarrow> s \<in> {NAcknowledged, NUncertain, NBlocked} \<or> s = NPending \<and> ob_attempt x < ob_max_attempts x \<Longrightarrow>
    outbox_move x (x\<lparr>ob_status := s, ob_remote := rid, ob_reason := r, ob_owner := None, ob_available := t\<rparr>)"
| abandoned: "ob_status x \<notin> {NClaimed, NSending, NAcknowledged} \<Longrightarrow> outbox_move x (x\<lparr>ob_status := NAbandoned, ob_reason := r\<rparr>)"
| retried: "ob_status x \<in> {NBlocked, NPending} \<Longrightarrow> ob_attempt x < ob_max_attempts x \<Longrightarrow>
    outbox_move x (x\<lparr>ob_status := NPending, ob_available := t, ob_reason := r\<rparr>)"
| reconciled: "ob_status x = NUncertain \<Longrightarrow> outbox_move x (x\<lparr>ob_status := NAcknowledged, ob_remote := rid, ob_reason := r\<rparr>)"
| reauthorized: "ob_status x \<in> {NBlocked, NPending} \<Longrightarrow>
    outbox_move x (x\<lparr>ob_grant := gid, ob_grant_revision := n, ob_binding_revision := m, ob_source_revision := k\<rparr>)"

text \<open>The invariant of a row: a claim precedes every attempt, and attempts stay within the bound.\<close>

definition row_ok :: "outbox \<Rightarrow> bool" where
  "row_ok x \<longleftrightarrow> 0 \<le> ob_attempt x \<and> ob_attempt x \<le> ob_max_attempts x \<and> ob_attempt x \<le> ob_generation x
     \<and> ob_max_attempts x \<le> 20
     \<and> (ob_status x = NClaimed \<longrightarrow> ob_attempt x < ob_max_attempts x \<and> ob_attempt x < ob_generation x \<and> ob_owner x \<noteq> None)
     \<and> (ob_status x = NSending \<longrightarrow> 0 < ob_attempt x \<and> ob_owner x \<noteq> None)"

lemma outbox_move_keeps:
  assumes "outbox_move x y"
  shows "ob_id y = ob_id x" and "ob_thread y = ob_thread x" and "ob_destination y = ob_destination x"
    and "ob_text y = ob_text x" and "ob_max_attempts y = ob_max_attempts x" and "ob_deadline y = ob_deadline x"
    and "ob_generation x \<le> ob_generation y" and "ob_attempt x \<le> ob_attempt y"
  using assms by (cases; simp add: claimed_by_def blocked_because_def dispatched_def)+

lemma outbox_move_ok: "outbox_move x y \<Longrightarrow> row_ok x \<Longrightarrow> row_ok y"
  by (cases rule: outbox_move.cases) (auto simp: row_ok_def claimed_by_def blocked_because_def dispatched_def)

definition unsendable :: "outbox \<Rightarrow> bool" where
  "unsendable x \<longleftrightarrow> ob_status x \<in> {NUncertain, NAcknowledged, NAbandoned}"

lemma unsendable_move: "outbox_move x y \<Longrightarrow> unsendable x \<Longrightarrow> unsendable y \<and> ob_attempt y = ob_attempt x"
  by (cases rule: outbox_move.cases) (auto simp: unsendable_def)

text \<open>A claim can still act while its row is claimed or sending under its owner and generation.\<close>

definition holds :: "outbox \<Rightarrow> outbox \<Rightarrow> bool" where
  "holds claim x \<longleftrightarrow> ob_status x \<in> {NClaimed, NSending} \<and> ob_owner x = ob_owner claim \<and> ob_generation x = ob_generation claim"

section \<open>Moves of the entries\<close>

definition row_at :: "identity \<Rightarrow> (string \<Rightarrow> entry_view option) \<Rightarrow> outbox \<Rightarrow> bool" where
  "row_at ident m x \<longleftrightarrow> m (ident [''outbox'', ob_id x]) = Some (''outbox'', ob_id x, ob_thread x, outbox_json x)"

definition with_row :: "identity \<Rightarrow> outbox \<Rightarrow> (string \<Rightarrow> entry_view option) \<Rightarrow> string \<Rightarrow> entry_view option" where
  "with_row ident x m = m(ident [''outbox'', ob_id x] \<mapsto> (''outbox'', ob_id x, ob_thread x, outbox_json x))"

definition receipt_kinds :: "string set" where
  "receipt_kinds = {''inbox'', ''native_inbox''}"

inductive channel_move :: "identity \<Rightarrow> (string \<Rightarrow> entry_view option) \<Rightarrow> (string \<Rightarrow> entry_view option) \<Rightarrow> bool" for ident where
  setting: "kind \<noteq> ''outbox'' \<Longrightarrow> kind \<notin> receipt_kinds \<Longrightarrow> channel_move ident m (m(ident [kind, key] \<mapsto> (kind, key, th, v)))"
| receipt: "kind \<in> receipt_kinds \<Longrightarrow> m (ident [kind, key]) = None \<Longrightarrow> channel_move ident m (m(ident [kind, key] \<mapsto> (kind, key, th, v)))"
| enqueued: "m (ident [''outbox'', ob_id x]) = None \<Longrightarrow> ob_status x = NPending \<Longrightarrow> ob_attempt x = 0 \<Longrightarrow> ob_generation x = 0 \<Longrightarrow>
    0 < ob_max_attempts x \<Longrightarrow> ob_max_attempts x \<le> 20 \<Longrightarrow> channel_move ident m (with_row ident x m)"
| moved: "row_at ident m x \<Longrightarrow> outbox_move x y \<Longrightarrow> channel_move ident m (with_row ident y m)"

definition channel_ok :: "identity \<Rightarrow> (string \<Rightarrow> entry_view option) \<Rightarrow> bool" where
  "channel_ok ident m \<longleftrightarrow> (\<forall>k kind key th v. m k = Some (kind, key, th, v) \<longrightarrow> k = ident [kind, key]
     \<and> (kind = ''outbox'' \<longrightarrow> (\<exists>x. v = outbox_json x \<and> ob_id x = key \<and> ob_thread x = th \<and> row_ok x)))"

lemma channel_ok_row: "channel_ok ident m \<Longrightarrow> row_at ident m x \<Longrightarrow> row_ok x"
  unfolding channel_ok_def row_at_def by (metis outbox_json_inject)

lemma channel_ok_with_row: "channel_ok ident m \<Longrightarrow> row_ok x \<Longrightarrow> channel_ok ident (with_row ident x m)"
  unfolding channel_ok_def with_row_def by auto

lemma channel_move_ok: "channel_move ident m m' \<Longrightarrow> channel_ok ident m \<Longrightarrow> channel_ok ident m'"
proof (induction rule: channel_move.induct)
  case (setting kind m key th v)
  then show ?case unfolding channel_ok_def by auto
next
  case (receipt kind m key th v)
  then show ?case unfolding channel_ok_def receipt_kinds_def by auto
next
  case (enqueued m x)
  then show ?case by (intro channel_ok_with_row) (auto simp: row_ok_def)
next
  case (moved m x y)
  then show ?case using channel_ok_row outbox_move_ok channel_ok_with_row by blast
qed

lemma row_at_with_row:
  assumes "inj ident"
  shows "row_at ident (with_row ident y m) x \<longleftrightarrow> (if ob_id x = ob_id y then x = y else row_at ident m x)"
  using assms by (auto simp: row_at_def with_row_def inj_eq outbox_json_inject)

text \<open>What becomes of a row: it moves, any number of times.\<close>

lemma row_after_move:
  assumes "channel_move ident m m'" and "inj ident" and "row_at ident m x"
  shows "\<exists>y. row_at ident m' y \<and> outbox_move\<^sup>*\<^sup>* x y"
  using assms(1)
proof cases
  case (setting kind key th v)
  with assms(2,3) have "row_at ident m' x" by (auto simp: row_at_def inj_eq)
  then show ?thesis by blast
next
  case (receipt kind key th v)
  with assms(2,3) have "row_at ident m' x" by (auto simp: row_at_def inj_eq receipt_kinds_def)
  then show ?thesis by blast
next
  case (enqueued z)
  with assms(3) have "ob_id x \<noteq> ob_id z" by (auto simp: row_at_def)
  with enqueued(1) assms(2,3) have "row_at ident m' x" by (simp add: row_at_with_row)
  then show ?thesis by blast
next
  case (moved a b)
  show ?thesis
  proof (cases "ob_id x = ob_id a")
    case True
    with assms(3) moved(2) have "x = a" by (simp add: row_at_def outbox_json_inject)
    with moved assms(2) have "row_at ident m' b" "outbox_move x b" by (simp_all add: row_at_with_row)
    then show ?thesis by blast
  next
    case False
    with moved assms(2,3) outbox_move_keeps(1) [OF moved(3)] have "row_at ident m' x" by (simp add: row_at_with_row)
    then show ?thesis by blast
  qed
qed

lemma channel_moves_ok: "(channel_move ident)\<^sup>*\<^sup>* m m' \<Longrightarrow> channel_ok ident m \<Longrightarrow> channel_ok ident m'"
  by (induction rule: rtranclp_induct) (auto intro: channel_move_ok)

lemma outbox_moves:
  assumes "outbox_move\<^sup>*\<^sup>* x y"
  shows "ob_id y = ob_id x \<and> ob_generation x \<le> ob_generation y \<and> ob_attempt x \<le> ob_attempt y
    \<and> (unsendable x \<longrightarrow> unsendable y \<and> ob_attempt y = ob_attempt x)"
  using assms
proof (induction rule: rtranclp_induct)
  case (step y z)
  with outbox_move_keeps [OF step(2)] unsendable_move [OF step(2)] show ?case by auto
qed simp

text \<open>A receipt is never rewritten.\<close>

lemma receipt_stays:
  assumes "(channel_move ident)\<^sup>*\<^sup>* m m'" and "inj ident" and "kind \<in> receipt_kinds" and "m (ident [kind, key]) = Some e"
  shows "m' (ident [kind, key]) = Some e"
  using assms(1)
proof (induction rule: rtranclp_induct)
  case (step a b)
  from step(2) show ?case
    using step(3) assms(2,3) by cases (auto simp: with_row_def inj_eq receipt_kinds_def)
qed (rule assms(4))

end
