(* ===== verification/Channel_Refinement.thy ===== *)
theory Channel_Refinement
  imports Channel_Laws
begin

text \<open>
  Every operation on the channel entries is a sequence of \<open>channel_move\<close>s, whatever the other
  commands of the store do between them. The hash of the entry identities is taken to be injective.
\<close>

abbreviation moves :: "identity \<Rightarrow> store \<Rightarrow> store \<Rightarrow> bool" where
  "moves ident st st' \<equiv> (channel_move ident)\<^sup>*\<^sup>* (channel_map st) (channel_map st')"

definition sound :: "identity \<Rightarrow> store \<Rightarrow> bool" where
  "sound ident st \<longleftrightarrow> well_formed st \<and> channel_ok ident (channel_map st)"

section \<open>Reading and writing one entry\<close>

lemma get_entry_map: "get_entry ident st kind key = map_option (\<lambda>(_, _, _, v). v) (channel_map st (ident [kind, key]))"
  by (simp add: get_entry_def channel_map_def entry_view_def option.map_comp comp_def)

lemma put_entry_effect:
  assumes "inj ident" and "sound ident st" and "put_entry ident th kind key v st = Inr st'"
  shows "channel_map st' = (channel_map st)(ident [kind, key] \<mapsto> (kind, key, th, v))" and "well_formed st'"
proof -
  let ?e = "ident [kind, key]"
  from assms(3) have app: "append_fact th None ''channel'' (ThreadFact (ChannelEntryUpdated ?e kind key v)) st = Inr st'"
    and prior: "\<And>c. tget (channel_entries (proj st)) ?e = Some c \<Longrightarrow> ch_thread c = th"
    by (auto simp: put_entry_def split: option.splits if_splits)
  show "well_formed st'" using append_well_formed assms(2) app unfolding sound_def by blast
  show "channel_map st' = (channel_map st)(?e \<mapsto> (kind, key, th, v))"
  proof (cases "channel_map st ?e")
    case None
    with channel_append [OF app] show ?thesis by simp
  next
    case (Some e)
    obtain a b c d where e: "e = (a, b, c, d)" by (cases e)
    from Some e prior have "c = th" by (auto simp: channel_map_def entry_view_def)
    moreover from Some e assms(2) have "?e = ident [a, b]" unfolding sound_def channel_ok_def by blast
    with assms(1) have "a = kind" "b = key" by (auto simp: inj_eq)
    ultimately show ?thesis using channel_append [OF app] Some e by simp
  qed
qed

lemma row_found:
  assumes "inj ident" and "sound ident st" and "get_outbox ident st oid = Inr (Some x)"
  shows "row_at ident (channel_map st) x" and "ob_id x = oid"
proof -
  from assms(3) obtain v where v: "get_entry ident st ''outbox'' oid = Some v" "outbox_of v = Some x"
    by (auto simp: get_outbox_def decoded_def split: option.splits)
  then obtain a b c where m: "channel_map st (ident [''outbox'', oid]) = Some (a, b, c, v)"
    by (auto simp: get_entry_map)
  with assms(1,2) have "a = ''outbox''" "b = oid" unfolding sound_def channel_ok_def by (metis inj_eq list.inject)+
  with m assms(2) obtain y where y: "v = outbox_json y" "ob_id y = oid" "ob_thread y = c"
    unfolding sound_def channel_ok_def by blast
  with v(2) have "x = y" by simp
  with y m \<open>a = _\<close> \<open>b = _\<close> show "row_at ident (channel_map st) x" "ob_id x = oid" by (simp_all add: row_at_def)
qed

lemma found_row: "row_at ident (channel_map st) x \<Longrightarrow> get_outbox ident st (ob_id x) = Inr (Some x)"
  by (simp add: row_at_def get_outbox_def get_entry_map decoded_def)

lemma put_outbox_moves:
  assumes "inj ident" and "sound ident st" and "put_outbox ident y st = Inr st'"
    and "row_at ident (channel_map st) x" and "outbox_move x y"
  shows "channel_move ident (channel_map st) (channel_map st')" and "sound ident st'"
    and "channel_map st' = with_row ident y (channel_map st)"
proof -
  note put = put_entry_effect [OF assms(1,2) assms(3) [unfolded put_outbox_def]]
  show eq: "channel_map st' = with_row ident y (channel_map st)" by (simp add: put(1) with_row_def)
  show "channel_move ident (channel_map st) (channel_map st')" unfolding eq by (rule moved [OF assms(4,5)])
  with channel_move_ok assms(2) put(2) show "sound ident st'" unfolding sound_def by blast
qed

lemma current_row:
  assumes "inj ident" and "sound ident st" and "current_notification ident st claim = Inr x"
  shows "row_at ident (channel_map st) x" and "ob_id x = ob_id claim" and "holds claim x"
  using assms(3) row_found [OF assms(1,2)]
  by (auto simp: current_notification_def holds_def split: option.splits if_splits)

section \<open>Each operation\<close>

text \<open>An operation is covered when it moves the entries, keeps the store sound and writes no receipt.\<close>

definition reached :: "identity \<Rightarrow> store \<Rightarrow> store \<Rightarrow> bool" where
  "reached ident st st' \<longleftrightarrow> moves ident st st' \<and> sound ident st'"

definition receipts_kept :: "identity \<Rightarrow> store \<Rightarrow> store \<Rightarrow> bool" where
  "receipts_kept ident st st' \<longleftrightarrow>
     (\<forall>kind \<in> receipt_kinds. \<forall>key. channel_map st' (ident [kind, key]) = channel_map st (ident [kind, key]))"

definition covered :: "identity \<Rightarrow> store \<Rightarrow> store \<Rightarrow> bool" where
  "covered ident st st' \<longleftrightarrow> reached ident st st' \<and> receipts_kept ident st st'"

lemma coveredD: "covered ident st st' \<Longrightarrow> moves ident st st'" "covered ident st st' \<Longrightarrow> sound ident st'"
  by (simp_all add: covered_def reached_def)

lemma covered_refl: "sound ident st \<Longrightarrow> covered ident st st"
  by (simp add: covered_def reached_def receipts_kept_def)

lemma reached_trans: "reached ident r s \<Longrightarrow> reached ident s t \<Longrightarrow> reached ident r t"
  by (auto simp: reached_def)

lemma covered_trans: "covered ident r s \<Longrightarrow> covered ident s t \<Longrightarrow> covered ident r t"
  using reached_trans by (auto simp: covered_def receipts_kept_def)

lemma covered_entry:
  assumes "inj ident" and "sound ident st" and "put_entry ident th kind key v st = Inr st'" and "kind \<notin> receipt_kinds"
    and "channel_move ident (channel_map st) ((channel_map st)(ident [kind, key] \<mapsto> (kind, key, th, v)))"
  shows "covered ident st st'"
proof -
  note put = put_entry_effect [OF assms(1-3)]
  have "reached ident st st'"
    using assms(2,5) channel_move_ok put by (auto simp: reached_def sound_def)
  moreover have "receipts_kept ident st st'" using assms(1,4) by (auto simp: receipts_kept_def put(1) inj_eq)
  ultimately show ?thesis by (simp add: covered_def)
qed

lemma outbox_not_receipt: "''outbox'' \<notin> receipt_kinds"
  by (simp add: receipt_kinds_def)

lemma covered_put:
  assumes "inj ident" and "sound ident st" and "put_outbox ident y st = Inr st'"
    and "row_at ident (channel_map st) x" and "outbox_move x y"
  shows "covered ident st st'"
  using covered_entry [OF assms(1,2) assms(3) [unfolded put_outbox_def] outbox_not_receipt]
    moved [OF assms(4,5)] by (simp add: with_row_def)

lemma covered_setting:
  assumes "inj ident" and "sound ident st" and "put_entry ident th kind key v st = Inr st'"
    and "kind \<noteq> ''outbox''" and "kind \<notin> receipt_kinds"
  shows "covered ident st st'"
  by (rule covered_entry [OF assms(1-3,5) setting [OF assms(4,5)]])

lemma receipt_reached:
  assumes "inj ident" and "sound ident st" and "put_entry ident th kind key v st = Inr st'"
    and "kind \<in> receipt_kinds" and "channel_map st (ident [kind, key]) = None"
  shows "reached ident st st'"
proof -
  note put = put_entry_effect [OF assms(1-3)]
  have "channel_move ident (channel_map st) (channel_map st')"
    unfolding put(1) using receipt [OF assms(4), of "channel_map st" ident key] assms(5) by simp
  with channel_move_ok assms(2) put(2) show ?thesis unfolding sound_def reached_def by blast
qed

lemma covered_other:
  assumes "sound ident st" and "append_fact th turn pr f st = Inr st'" and "\<not> channel_fact f"
  shows "covered ident st st'"
  using assms other_append_channels [OF assms(2,3)] append_well_formed [OF _ assms(2)]
  by (simp add: sound_def covered_def reached_def receipts_kept_def)

lemma configure_source_covered:
  "inj ident \<Longrightarrow> sound ident st \<Longrightarrow> configure_source ident th config st = Inr (v, st') \<Longrightarrow> covered ident st st'"
  by (auto simp: configure_source_def Let_def receipt_kinds_def intro: covered_setting)

lemma bind_channel_covered:
  "inj ident \<Longrightarrow> sound ident st \<Longrightarrow> bind_channel ident source conversation th destination enabled st = Inr (b, st') \<Longrightarrow> covered ident st st'"
  by (auto simp: bind_channel_def Let_def receipt_kinds_def split: if_splits intro: covered_setting)

lemma set_grant_covered:
  "inj ident \<Longrightarrow> sound ident st \<Longrightarrow> set_grant ident source who conversation th operations role enabled local st = Inr (g, st')
     \<Longrightarrow> covered ident st st'"
  by (auto simp: set_grant_def Let_def receipt_kinds_def split: if_splits intro: covered_setting)

lemma begin_send_moves:
  assumes "inj ident" and "sound ident st" and "begin_send ident delivery claim now st = Inr (y, st')"
  shows "\<exists>x. row_at ident (channel_map st) x \<and> ob_id x = ob_id claim \<and> holds claim x \<and> ob_status x = NClaimed
    \<and> y = dispatched x \<and> covered ident st st' \<and> row_at ident (channel_map st') y \<and> may_send ident delivery st x = Inr ()"
proof -
  from assms(3) obtain x where x: "current_notification ident st claim = Inr x" "ob_status x = NClaimed"
    and ok: "may_send ident delivery st x = Inr ()" and put: "put_outbox ident (dispatched x) st = Inr st'" "y = dispatched x"
    by (auto simp: begin_send_def split: if_splits)
  note row = current_row [OF assms(1,2) x(1)]
  note p = put_outbox_moves [OF assms(1,2) put(1) row(1) sent [OF x(2)]]
  have "covered ident st st'" by (rule covered_put [OF assms(1,2) put(1) row(1) sent [OF x(2)]])
  moreover have "row_at ident (channel_map st') y" unfolding p(3) row_at_with_row [OF assms(1)] put(2) by simp
  ultimately show ?thesis using row x(2) put(2) ok by blast
qed

lemma answered_move:
  assumes "ob_status x = NSending" and "outcome \<in> set send_outcomes"
  shows "outbox_move x (answered outcome remote_id retry_after reason now jitter x)"
proof -
  let ?y = "answered outcome remote_id retry_after reason now jitter x"
  have "?y = x\<lparr>ob_status := ob_status ?y, ob_remote := remote_id, ob_reason := ob_reason ?y, ob_owner := None,
      ob_available := ob_available ?y\<rparr>"
    by (rule outbox.equality; simp add: answered_def Let_def blocked_because_def)
  moreover have "ob_status ?y \<in> {NAcknowledged, NUncertain, NBlocked} \<or> ob_status ?y = NPending \<and> ob_attempt x < ob_max_attempts x"
    by (simp add: answered_def Let_def blocked_because_def)
  ultimately show ?thesis using settled [OF assms(1)] by metis
qed

lemma finish_send_covered:
  assumes "inj ident" and "sound ident st" and "finish_send ident claim outcome remote_id retry_after reason now jitter st = Inr st'"
  shows "covered ident st st'" and "\<exists>x. row_at ident (channel_map st) x \<and> ob_id x = ob_id claim \<and> holds claim x"
proof -
  from assms(3) obtain x where x: "current_notification ident st claim = Inr x" "ob_status x = NSending"
    and ok: "outcome \<in> set send_outcomes" and put: "put_outbox ident (answered outcome remote_id retry_after reason now jitter x) st = Inr st'"
    by (auto simp: finish_send_def split: if_splits)
  note row = current_row [OF assms(1,2) x(1)]
  show "covered ident st st'" by (rule covered_put [OF assms(1,2) put row(1) answered_move [OF x(2) ok]])
  show "\<exists>x. row_at ident (channel_map st) x \<and> ob_id x = ob_id claim \<and> holds claim x" using row by blast
qed

lemma finish_preflight_covered:
  assumes "inj ident" and "sound ident st" and "finish_preflight ident claim outcome retry_after reason now jitter st = Inr st'"
  shows "covered ident st st'" and "\<exists>x. row_at ident (channel_map st) x \<and> ob_id x = ob_id claim \<and> holds claim x"
proof -
  from assms(3) obtain x u where x: "current_notification ident st claim = Inr x" "ob_status x = NClaimed"
    and put: "put_outbox ident (dispatched x) st = Inr u" "finish_send ident claim outcome None retry_after reason now jitter u = Inr st'"
    by (auto simp: finish_preflight_def split: if_splits)
  note row = current_row [OF assms(1,2) x(1)]
  have u: "covered ident st u" by (rule covered_put [OF assms(1,2) put(1) row(1) sent [OF x(2)]])
  then have "sound ident u" using coveredD(2) by blast
  from covered_trans [OF u finish_send_covered(1) [OF assms(1) this put(2)]] show "covered ident st st'" .
  show "\<exists>x. row_at ident (channel_map st) x \<and> ob_id x = ob_id claim \<and> holds claim x" using row by blast
qed

lemma retry_covered:
  assumes "inj ident" and "sound ident st" and "retry_notification ident delivery oid now st = Inr st'"
  shows "covered ident st st'"
proof -
  from assms(3) obtain x where x: "get_outbox ident st oid = Inr (Some x)" "ob_status x \<in> {NBlocked, NPending}" "\<not> exhausted now x"
    and put: "put_outbox ident (x\<lparr>ob_status := NPending, ob_available := now, ob_reason := None\<rparr>) st = Inr st'"
    by (auto simp: retry_notification_def split: if_splits option.splits)
  have "ob_attempt x < ob_max_attempts x" using x(3) by (simp add: exhausted_def)
  from covered_put [OF assms(1,2) put row_found(1) [OF assms(1,2) x(1)] retried [OF x(2) this]] show ?thesis .
qed

lemma abandon_covered:
  assumes "inj ident" and "sound ident st" and "abandon_notification ident oid st = Inr st'"
  shows "covered ident st st'"
proof -
  from assms(3) obtain x where x: "get_outbox ident st oid = Inr (Some x)" "ob_status x \<notin> {NClaimed, NSending, NAcknowledged}"
    and put: "put_outbox ident (x\<lparr>ob_status := NAbandoned\<rparr>) st = Inr st'"
    by (auto simp: abandon_notification_def split: if_splits option.splits)
  have "outbox_move x (x\<lparr>ob_status := NAbandoned\<rparr>)" using outbox_move.abandoned [OF x(2), of "ob_reason x"] by simp
  from covered_put [OF assms(1,2) put row_found(1) [OF assms(1,2) x(1)] this] show ?thesis .
qed

lemma reconcile_covered:
  assumes "inj ident" and "sound ident st" and "reconcile_notification ident oid remote_id st = Inr st'"
  shows "covered ident st st'"
proof -
  from assms(3) obtain x where x: "get_outbox ident st oid = Inr (Some x)" "ob_status x = NUncertain"
    and put: "remote_id = None \<and> st' = st \<or> (\<exists>r. put_outbox ident (x\<lparr>ob_status := NAcknowledged, ob_remote := Some r,
      ob_reason := Some ''provider_correlation_matched''\<rparr>) st = Inr st')"
    unfolding reconcile_notification_def by (auto split: if_splits option.splits) blast+
  from put show ?thesis
  proof (elim disjE conjE exE)
    fix r assume "put_outbox ident (x\<lparr>ob_status := NAcknowledged, ob_remote := Some r,
      ob_reason := Some ''provider_correlation_matched''\<rparr>) st = Inr st'"
    from covered_put [OF assms(1,2) this row_found(1) [OF assms(1,2) x(1)] reconciled [OF x(2)]] show ?thesis .
  qed (simp add: covered_refl assms(2))
qed

lemma reauthorize_covered:
  assumes "inj ident" and "sound ident st" and "reauthorize_notification ident delivery oid grant_id now st = Inr st'"
  shows "covered ident st st'"
proof -
  from assms(3) obtain row grant where row: "get_outbox ident st oid = Inr row" and "get_grant ident st grant_id = Inr grant"
    by (auto simp: reauthorize_notification_def)
  with assms(3) obtain x :: outbox and g :: grant where x: "row = Some x" "grant = Some g" "ob_status x \<in> {NBlocked, NPending}"
    by (auto simp: reauthorize_notification_def split: option.splits if_splits)
  with assms(3) row \<open>get_grant ident st grant_id = Inr grant\<close> obtain b :: binding and n u where
    put: "put_outbox ident (x\<lparr>ob_grant := grant_id, ob_grant_revision := gr_revision g,
      ob_binding_revision := bi_revision b, ob_source_revision := n\<rparr>) st = Inr u"
    and again: "retry_notification ident delivery oid now u = Inr st'"
    by (auto simp: reauthorize_notification_def split: option.splits if_splits)
  have u: "covered ident st u"
    by (rule covered_put [OF assms(1,2) put row_found(1) [OF assms(1,2) row [unfolded x(1)]] reauthorized [OF x(3)]])
  then have "sound ident u" using coveredD(2) by blast
  from covered_trans [OF u retry_covered [OF assms(1) this again]] show ?thesis .
qed

section \<open>The scan for a notification to send\<close>

lemma list_all2_in: "list_all2 P xs ys \<Longrightarrow> x \<in> set xs \<Longrightarrow> \<exists>y. P x y"
  by (induction rule: list_all2_induct) auto

lemma decode_all_Inr: "decode_all of_json vs = Inr xs \<Longrightarrow> list_all2 (\<lambda>v x. of_json v = Some x) vs xs"
  by (induction vs arbitrary: xs) (auto split: option.splits)

lemma stored_rows:
  assumes "sound ident st" and "c \<in> set (trows (channel_entries (proj st)))" and "ch_kind c = ''outbox''" and "outbox_of (ch_value c) = Some x"
  shows "row_at ident (channel_map st) x" and "ob_id x = ch_key c" and "ch_id c = ident [''outbox'', ch_key c]"
proof -
  have "table_ok ch_id (channel_entries (proj st))"
    using assms(1) by (simp add: sound_def well_formed_def projection_ok_def)
  from table_ok_row [OF this assms(2)] have m: "channel_map st (ch_id c) = Some (''outbox'', ch_key c, ch_thread c, ch_value c)"
    by (simp add: channel_map_def entry_view_def assms(3))
  with assms(1) show id: "ch_id c = ident [''outbox'', ch_key c]" unfolding sound_def channel_ok_def by blast
  from m assms(1) obtain y where "ch_value c = outbox_json y" "ob_id y = ch_key c" "ob_thread y = ch_thread c"
    unfolding sound_def channel_ok_def by blast
  with assms(4) m id show "row_at ident (channel_map st) x" "ob_id x = ch_key c" by (auto simp: row_at_def)
qed

lemma distinct_rows:
  assumes "sound ident st" and "list_all2 (\<lambda>c x. outbox_of (ch_value c) = Some x) cs xs"
    and "set cs \<subseteq> {c \<in> set (trows (channel_entries (proj st))). ch_kind c = ''outbox''}" and "distinct (map ch_id cs)"
  shows "(\<forall>x \<in> set xs. row_at ident (channel_map st) x) \<and> distinct (map ob_id xs) \<and> ob_id ` set xs = ch_key ` set cs"
  using assms(2-4)
proof (induction rule: list_all2_induct)
  case (Cons c cs x xs)
  then have "c \<in> set (trows (channel_entries (proj st)))" "ch_kind c = ''outbox''" by auto
  note row = stored_rows [OF assms(1) this \<open>outbox_of (ch_value c) = Some x\<close>]
  have "ch_key d \<noteq> ch_key c" if "d \<in> set cs" for d
  proof -
    have "ch_id d \<noteq> ch_id c" using that Cons.prems(2) by (metis distinct.simps(2) image_eqI list.set_map list.simps(9))
    moreover from that Cons.prems(1) have "d \<in> set (trows (channel_entries (proj st)))" "ch_kind d = ''outbox''" by auto
    moreover from list_all2_in [OF Cons.hyps(2) that] obtain z where "outbox_of (ch_value d) = Some z" ..
    ultimately show ?thesis using row(3) stored_rows(3) [OF assms(1)] by metis
  qed
  with Cons row show ?case by (auto simp: image_iff) (metis imageI)
qed simp

lemma outbox_rows_current:
  assumes "sound ident st" and "outbox_rows st = Inr xs"
  shows "\<forall>x \<in> set xs. row_at ident (channel_map st) x" and "distinct (map ob_id xs)"
proof -
  let ?cs = "filter (\<lambda>c. ch_kind c = ''outbox'') (trows (channel_entries (proj st)))"
  have ok: "table_ok ch_id (channel_entries (proj st))"
    using assms(1) by (simp add: sound_def well_formed_def projection_ok_def)
  then have "map ch_id (trows (channel_entries (proj st))) = tkeys (channel_entries (proj st))"
    by (induction "channel_entries (proj st)") (auto simp: table_ok_def trows_def tkeys_def list_all_iff intro!: map_cong)
  with ok have "distinct (map ch_id ?cs)" by (simp add: table_ok_def distinct_map_filter)
  moreover have "list_all2 (\<lambda>c x. outbox_of (ch_value c) = Some x) ?cs xs"
    using decode_all_Inr assms(2) by (fastforce simp: outbox_rows_def entries_def select_rows_def list_all2_map1)
  ultimately show "\<forall>x \<in> set xs. row_at ident (channel_map st) x" "distinct (map ob_id xs)"
    using distinct_rows [OF assms(1), of ?cs xs] by auto
qed

text \<open>What an operation on one row leaves of the others.\<close>

definition only_row :: "identity \<Rightarrow> string \<Rightarrow> store \<Rightarrow> store \<Rightarrow> bool" where
  "only_row ident oid st st' \<longleftrightarrow> covered ident st st'
     \<and> (\<forall>z. ob_id z \<noteq> oid \<longrightarrow> row_at ident (channel_map st) z \<longrightarrow> row_at ident (channel_map st') z)
     \<and> (\<forall>k. channel_map st k = None \<longrightarrow> channel_map st' k = None)"

lemma only_row_refl: "sound ident st \<Longrightarrow> only_row ident oid st st"
  by (simp add: only_row_def covered_refl)

lemma only_row_trans: "only_row ident oid r s \<Longrightarrow> only_row ident oid s t \<Longrightarrow> only_row ident oid r t"
  using covered_trans by (auto simp: only_row_def)

lemma put_only_row:
  assumes "inj ident" and "sound ident st" and "put_outbox ident y st = Inr st'"
    and "row_at ident (channel_map st) x" and "outbox_move x y"
  shows "only_row ident (ob_id x) st st'" and "row_at ident (channel_map st') y"
proof -
  note eq = put_outbox_moves(3) [OF assms] and id = outbox_move_keeps(1) [OF assms(5)]
  have "channel_map st' k = None" if "channel_map st k = None" for k
    using that assms(4) id by (auto simp: eq with_row_def row_at_def)
  with eq covered_put [OF assms] id show "only_row ident (ob_id x) st st'" "row_at ident (channel_map st') y"
    by (auto simp: only_row_def row_at_with_row [OF assms(1)])
qed

lemma consider_row_effect:
  assumes "inj ident" and "sound ident st" and "row_at ident (channel_map st) x"
    and "consider_row ident delivery owner now t x st = Inr (claim, s)"
  shows "only_row ident (ob_id x) st s"
    and "claim = Some c \<Longrightarrow> c = claimed_by owner t x \<and> row_at ident (channel_map s) c \<and> may_send ident delivery st x = Inr ()"
proof -
  note put = put_only_row [OF assms(1,2) _ assms(3)]
  from assms(4) consider (keep) "s = st" "claim = None"
    | (block) why where "ob_status x = NPending" "put_outbox ident (blocked_because why x) st = Inr s" "claim = None"
    | (claim) "ob_status x = NPending" "\<not> exhausted now x" "put_outbox ident (claimed_by owner t x) st = Inr s"
        "claim = Some (claimed_by owner t x)" "may_send ident delivery st x = Inr ()"
    by (auto simp: consider_row_def split: if_splits sum.splits py_error.splits)
  then have "only_row ident (ob_id x) st s \<and> (claim = Some c \<longrightarrow> c = claimed_by owner t x
      \<and> row_at ident (channel_map s) c \<and> may_send ident delivery st x = Inr ())"
  proof cases
    case keep
    then show ?thesis by (simp add: only_row_refl assms(2))
  next
    case block
    from put(1) [OF block(2) blocked [OF block(1)]] block(3) show ?thesis by simp
  next
    case claim
    have "ob_attempt x < ob_max_attempts x" using claim(2) by (simp add: exhausted_def)
    from put [OF claim(3) claimed [OF claim(1) this]] claim(4,5) show ?thesis by auto
  qed
  then show "only_row ident (ob_id x) st s"
    and "claim = Some c \<Longrightarrow> c = claimed_by owner t x \<and> row_at ident (channel_map s) c \<and> may_send ident delivery st x = Inr ()"
    by blast+
qed

lemma lapse_move: "lapse now x = Some y \<Longrightarrow> outbox_move x y \<and> ob_id y = ob_id x \<and> ob_generation y = ob_generation x"
  by (auto simp: lapse_def intro: claim_lapses sender_lost split: if_splits delivery_status.splits)

lemma scan_row_effect:
  assumes "inj ident" and "sound ident st" and "row_at ident (channel_map st) x"
    and "scan_row ident delivery owner now t x st = Inr (claim, s)"
  shows "only_row ident (ob_id x) st s"
    and "claim = Some c \<Longrightarrow> ob_id c = ob_id x \<and> ob_generation c = ob_generation x + 1 \<and> ob_status c = NClaimed \<and> row_at ident (channel_map s) c"
proof -
  have "only_row ident (ob_id x) st s \<and> (claim = Some c \<longrightarrow> ob_id c = ob_id x \<and> ob_generation c = ob_generation x + 1
      \<and> ob_status c = NClaimed \<and> row_at ident (channel_map s) c)"
  proof (cases "lapse now x")
    case None
    with assms(4) have "consider_row ident delivery owner now t x st = Inr (claim, s)" by (simp add: scan_row_def)
    from consider_row_effect(1) [OF assms(1-3) this] consider_row_effect(2) [OF assms(1-3) this, of c] show ?thesis
      by (auto simp: claimed_by_def)
  next
    case (Some y)
    with assms(4) obtain u where u: "put_outbox ident y st = Inr u" "consider_row ident delivery owner now t y u = Inr (claim, s)"
      by (auto simp: scan_row_def)
    note y = lapse_move [OF Some]
    note put = put_only_row [OF assms(1,2) u(1) assms(3) conjunct1 [OF y]]
    from put(1) have "sound ident u" using coveredD(2) by (auto simp: only_row_def)
    from consider_row_effect(1) [OF assms(1) this put(2) u(2)] consider_row_effect(2) [OF assms(1) this put(2) u(2), of c]
      only_row_trans [OF put(1)] y show ?thesis
      by (auto simp: claimed_by_def)
  qed
  then show "only_row ident (ob_id x) st s"
    and "claim = Some c \<Longrightarrow> ob_id c = ob_id x \<and> ob_generation c = ob_generation x + 1 \<and> ob_status c = NClaimed \<and> row_at ident (channel_map s) c"
    by blast+
qed

lemma scan_outbox_Cons:
  "scan_outbox ident delivery owner now t w (x # xs) st = Inr (claim, s) \<Longrightarrow>
     scan_outbox ident delivery owner now t w xs st = Inr (claim, s)
     \<or> (\<exists>r u. scan_row ident delivery owner now t x st = Inr (r, u)
          \<and> (r = claim \<and> claim \<noteq> None \<and> s = u \<or> r = None \<and> scan_outbox ident delivery owner now t w xs u = Inr (claim, s)))"
  by (auto split: if_splits option.splits)

lemma scan_outbox_effect:
  assumes "inj ident" and "sound ident st" and "\<forall>x \<in> set xs. row_at ident (channel_map st) x" and "distinct (map ob_id xs)"
    and "scan_outbox ident delivery owner now t w xs st = Inr (claim, s)"
  shows "covered ident st s \<and> (\<forall>c. claim = Some c \<longrightarrow> ob_status c = NClaimed \<and> row_at ident (channel_map s) c
    \<and> (\<exists>x \<in> set xs. ob_id x = ob_id c \<and> ob_generation c = ob_generation x + 1))"
  using assms(2-5)
proof (induction xs arbitrary: st)
  case Nil
  then show ?case by (simp add: covered_refl)
next
  case (Cons x xs)
  from scan_outbox_Cons [OF Cons.prems(4)] consider (skip) "scan_outbox ident delivery owner now t w xs st = Inr (claim, s)"
    | (row) r u where "scan_row ident delivery owner now t x st = Inr (r, u)"
        "r = claim \<and> claim \<noteq> None \<and> s = u \<or> r = None \<and> scan_outbox ident delivery owner now t w xs u = Inr (claim, s)"
    by blast
  then show ?case
  proof cases
    case skip
    with Cons show ?thesis by auto
  next
    case row
    have x: "row_at ident (channel_map st) x" using Cons.prems(2) by simp
    note eff = scan_row_effect [OF assms(1) Cons.prems(1) x row(1)]
    from eff(1) have u: "covered ident st u" "sound ident u" using coveredD(2) by (auto simp: only_row_def)
    show ?thesis
    proof (cases r)
      case (Some c)
      with eff(2) [OF Some] row(2) u(1) show ?thesis by auto
    next
      case None
      have rest: "\<forall>z \<in> set xs. ob_id z \<noteq> ob_id x" using Cons.prems(3) by (auto simp: image_iff)
      with eff(1) Cons.prems(2) have "\<forall>z \<in> set xs. row_at ident (channel_map u) z" by (auto simp: only_row_def)
      moreover from None row(2) have "scan_outbox ident delivery owner now t w xs u = Inr (claim, s)" by auto
      ultimately have "covered ident u s \<and> (\<forall>c. claim = Some c \<longrightarrow>
          ob_status c = NClaimed \<and> row_at ident (channel_map s) c
          \<and> (\<exists>x \<in> set xs. ob_id x = ob_id c \<and> ob_generation c = ob_generation x + 1))" using Cons.IH [OF u(2)] Cons.prems(3) by simp
      with covered_trans [OF u(1), of s] show ?thesis unfolding list.set by blast
    qed
  qed
qed

lemma claim_notification_effect:
  assumes "inj ident" and "sound ident st" and "claim_notification ident delivery owner now lease w st = Inr (claim, s)"
  shows "covered ident st s" and "claim = Some c \<Longrightarrow> ob_status c = NClaimed \<and> row_at ident (channel_map s) c
    \<and> (\<exists>x. row_at ident (channel_map st) x \<and> ob_id x = ob_id c \<and> ob_generation c = ob_generation x + 1)"
proof -
  from assms(3) obtain xs where xs: "outbox_rows st = Inr xs"
    and scan: "scan_outbox ident delivery owner now (now + lease) w xs st = Inr (claim, s)"
    by (auto simp: claim_notification_def split: if_splits)
  note rows = outbox_rows_current [OF assms(2) xs]
  from scan_outbox_effect [OF assms(1,2) rows scan] rows(1)
  show "covered ident st s" and "claim = Some c \<Longrightarrow> ob_status c = NClaimed \<and> row_at ident (channel_map s) c
    \<and> (\<exists>x. row_at ident (channel_map st) x \<and> ob_id x = ob_id c \<and> ob_generation c = ob_generation x + 1)" by auto
qed

section \<open>Queueing\<close>

lemma chain_put_covered:
  assumes "inj ident" and "\<And>x. x \<in> set xs \<Longrightarrow> outbox_move x (f x)"
    and "sound ident st" and "\<forall>x \<in> set xs. row_at ident (channel_map st) x" and "distinct (map ob_id xs)"
    and "chain (map (\<lambda>x. put_outbox ident (f x)) xs) st = Inr st'"
  shows "covered ident st st' \<and> (\<forall>k. channel_map st k = None \<longrightarrow> channel_map st' k = None)"
  using assms(2-6)
proof (induction xs arbitrary: st)
  case Nil
  then show ?case by (simp add: covered_refl)
next
  case (Cons x xs)
  from Cons.prems(5) obtain u where u: "put_outbox ident (f x) st = Inr u" "chain (map (\<lambda>x. put_outbox ident (f x)) xs) u = Inr st'"
    by auto
  from Cons.prems(1,3) have x: "row_at ident (channel_map st) x" "outbox_move x (f x)" by auto
  note eff = put_only_row(1) [OF assms(1) Cons.prems(2) u(1) x]
  then have c: "covered ident st u" "sound ident u" using coveredD(2) by (auto simp: only_row_def)
  from eff Cons.prems(3,4) have "\<forall>z \<in> set xs. row_at ident (channel_map u) z" by (auto simp: only_row_def image_iff)
  from Cons.IH [OF _ c(2) this _ u(2)] Cons.prems(1,4) have "covered ident u st'"
    "\<forall>k. channel_map u k = None \<longrightarrow> channel_map st' k = None" by auto
  with c(1) covered_trans [OF c(1)] eff show ?case by (simp add: only_row_def)
qed

lemma supersede_covered:
  assumes "inj ident" and "sound ident st" and "supersede ident source destination turn st = Inr st'"
  shows "covered ident st st' \<and> (\<forall>k. channel_map st k = None \<longrightarrow> channel_map st' k = None)"
proof -
  from assms(3) obtain xs where xs: "outbox_rows st = Inr xs" and run: "chain (map (\<lambda>x. put_outbox ident
      (x\<lparr>ob_status := NAbandoned, ob_reason := Some ''superseded_by_current_facts''\<rparr>))
      (filter (superseded_by source destination turn) xs)) st = Inr st'"
    by (auto simp: supersede_def)
  note rows = outbox_rows_current [OF assms(2) xs]
  show ?thesis
    by (rule chain_put_covered [OF assms(1) _ assms(2) _ _ run])
      (use rows in \<open>auto simp: superseded_by_def distinct_map_filter intro: outbox_move.abandoned\<close>)
qed

lemma queue_covered:
  assumes "inj ident" and "sound ident st" and "1 \<le> n" and "n \<le> 20"
    and "queue_notification ident canon g b gid turn summary projection now n deadline st = Inr (x, st')"
  shows "covered ident st st'"
proof -
  let ?oid = "ident [gr_source g, bi_destination b, turn, canon summary]"
  from assms(5) obtain prior where prior: "get_outbox ident st ?oid = Inr prior"
    by (auto simp: queue_notification_def Let_def)
  show ?thesis
  proof (cases prior)
    case (Some y)
    with assms(5) prior have "st' = st" by (auto simp: queue_notification_def Let_def)
    with covered_refl assms(2) show ?thesis by simp
  next
    case None
    from assms(5) prior None obtain s k where
      "(if projection \<noteq> JNull \<and> jfind summary ''request'' = None
        then supersede ident (gr_source g) (bi_destination b) turn st else Inr st) = Inr s"
      and put: "put_outbox ident x s = Inr st'"
      and x: "x = new_notification ?oid g b gid turn summary projection (canon summary) k now deadline n"
      by (auto simp: queue_notification_def Let_def)
    then have s: "s = st \<or> supersede ident (gr_source g) (bi_destination b) turn st = Inr s" by (auto split: if_splits)
    have x: "ob_id x = ?oid" "ob_status x = NPending" "ob_attempt x = 0" "ob_generation x = 0" "ob_max_attempts x = n"
      by (simp_all add: x new_notification_def)
    from s have c: "covered ident st s" and none: "\<forall>k. channel_map st k = None \<longrightarrow> channel_map s k = None"
      using covered_refl supersede_covered assms(1,2) by blast+
    then have snd: "sound ident s" using coveredD(2) by blast
    from prior None have "channel_map st (ident [''outbox'', ?oid]) = None"
      by (auto simp: get_outbox_def decoded_def get_entry_map split: option.splits)
    with none x(1) have fresh: "channel_map s (ident [''outbox'', ob_id x]) = None" by simp
    have "channel_move ident (channel_map s) (with_row ident x (channel_map s))"
      using fresh x assms(3,4) by (intro enqueued) auto
    then have "covered ident s st'"
      using covered_entry [OF assms(1) snd put [unfolded put_outbox_def] outbox_not_receipt] by (simp add: with_row_def)
    with c show ?thesis by (rule covered_trans)
  qed
qed

lemma enqueue_covered:
  assumes "inj ident" and "sound ident st"
    and "enqueue_notification ident canon gid turn summary now n deadline snapshot st = Inr (x, st')"
  shows "covered ident st st'"
  using assms(3) queue_covered [OF assms(1,2)]
  by (auto simp: enqueue_notification_def split: if_splits option.splits)

section \<open>Receiving\<close>

lemma host_append_covered:
  "sound ident st \<Longrightarrow> append_fact th turn pr (HostFact f) st = Inr st' \<Longrightarrow> covered ident st st'"
  by (erule covered_other) (auto simp: channel_fact_def)

lemma admit_thread_covered:
  assumes "sound ident st" and "admit_thread is_dir workspace kind th st = Inr st'"
  shows "covered ident st st'"
  using assms(2) covered_refl [OF assms(1)] covered_other [OF assms(1)]
  by (auto simp: admit_thread_def create_thread_def Let_def channel_fact_def split: option.splits if_splits)

lemma receive_command_covered:
  assumes "sound ident st"
    and "receive_command sha name_hash is_origin database is_dir resolve uid workspace kind payload cid th turn st = Inr st'"
  shows "covered ident st st'"
proof -
  from assms(2) have "st' = st \<or> (\<exists>t w s u f. admit_thread is_dir w kind t st = Inr s \<and> append_fact t None u (HostFact f) s = Inr st')"
    unfolding receive_command_def Let_def by (auto split: if_splits option.splits; blast)
  then show ?thesis
  proof (elim disjE exE conjE)
    fix t w s u f
    assume s: "admit_thread is_dir w kind t st = Inr s" and f: "append_fact t None u (HostFact f) s = Inr st'"
    have c: "covered ident st s" by (rule admit_thread_covered [OF assms(1) s])
    then have "sound ident s" using coveredD(2) by blast
    from covered_trans [OF c host_append_covered [OF this f]] show ?thesis .
  qed (simp add: covered_refl assms(1))
qed

lemma observe_covered:
  assumes "inj (ch_ident h)" and "sound (ch_ident h) st" and "observe_event h e g t now receipt st = Inr (r, st')"
  shows "covered (ch_ident h) st st'"
  using assms(3) covered_refl [OF assms(2)] enqueue_covered [OF assms(1,2)] covered_setting [OF assms(1,2)]
  by (auto simp: observe_event_def receipt_kinds_def split: if_splits)

lemma submit_covered:
  assumes "sound ident st" and "submit_event h e payload t receipt st = Inr (r, st')"
  shows "covered ident st st'"
  using assms(2) receive_command_covered [OF assms(1)] by (auto simp: submit_event_def Let_def)

lemma receive_new_reached:
  assumes "inj (ch_ident h)" and "sound (ch_ident h) st" and "prior_event (ch_ident h) e st = None"
    and "receive_new h e g b now st = Inr (r, st')"
  shows "reached (ch_ident h) st st'" and "get_entry (ch_ident h) st' ''inbox'' (event_key (ch_ident h) e) = Some (inbox_entry e (bi_thread b) r)"
proof -
  let ?id = "ch_ident h"
  from assms(4) obtain t :: thread_row and s u where
    "(if en_operation e \<in> {''status'', ''evidence''} then observe_event h e g t now (first_receipt ?id e (bi_thread b)) st
      else submit_event h e (JObj [(''channel_authority'', event_authority g b e)]) t (first_receipt ?id e (bi_thread b)) st) = Inr (r, s)"
    and u: "put_entry ?id (bi_thread b) ''inbox'' (event_key ?id e) (inbox_entry e (bi_thread b) r) s = Inr u"
    and v: "put_entry ?id (bi_thread b) ''native_inbox'' (native_key ?id e) (inbox_entry e (bi_thread b) r) u = Inr st'"
    by (auto simp: receive_new_def Let_def)
  then have s: "observe_event h e g t now (first_receipt ?id e (bi_thread b)) st = Inr (r, s)
      \<or> submit_event h e (JObj [(''channel_authority'', event_authority g b e)]) t (first_receipt ?id e (bi_thread b)) st = Inr (r, s)"
    by (auto split: if_splits)
  have c: "covered ?id st s" using s observe_covered [OF assms(1,2)] submit_covered [OF assms(2)] by blast
  note snd = coveredD(2) [OF c]
  from assms(3) have free: "channel_map st (?id [''inbox'', event_key ?id e]) = None"
    "channel_map st (?id [''native_inbox'', native_key ?id e]) = None"
    by (auto simp: prior_event_def get_entry_map split: option.splits)
  then have s: "channel_map s (?id [''inbox'', event_key ?id e]) = None" "channel_map s (?id [''native_inbox'', native_key ?id e]) = None"
    using c by (auto simp: covered_def receipts_kept_def receipt_kinds_def)
  note eu = put_entry_effect [OF assms(1) snd u]
  have ru: "reached ?id s u" by (rule receipt_reached [OF assms(1) snd u _ s(1)]) (simp add: receipt_kinds_def)
  then have su: "sound ?id u" by (simp add: reached_def)
  have "channel_map u (?id [''native_inbox'', native_key ?id e]) = None" using s(2) assms(1) by (simp add: eu(1) inj_eq)
  then have rv: "reached ?id u st'" by (intro receipt_reached [OF assms(1) su v]) (simp_all add: receipt_kinds_def)
  from reached_trans [OF reached_trans [OF _ ru] rv] c show "reached ?id st st'" by (auto simp: covered_def)
  show "get_entry ?id st' ''inbox'' (event_key ?id e) = Some (inbox_entry e (bi_thread b) r)"
    using assms(1) by (simp add: get_entry_map put_entry_effect(1) [OF assms(1) su v] eu(1) inj_eq)
qed

lemma receive_event_reached:
  assumes "inj (ch_ident h)" and "sound (ch_ident h) st" and "receive_event h e now st = Inr (r, st')"
  shows "reached (ch_ident h) st st'"
  using assms(3) receive_new_reached(1) [OF assms(1,2)] covered_refl [OF assms(2)]
  by (auto simp: receive_event_def covered_def split: if_splits option.splits)

end
