(* ===== verification/Simulation.thy ===== *)
theory Simulation
  imports Main
begin

text \<open>
  The contracts between a concrete transition system and the abstract one it refines. A
  \<open>simulation\<close> has an invariant of the concrete states and a view of them; every step keeps the
  invariant and shows as a sequence of abstract moves. \<open>tracking\<close> follows one element of the view
  through the moves; both together follow it through a run of the concrete system.
\<close>

locale simulation =
  fixes step :: "'s \<Rightarrow> 's \<Rightarrow> bool"
    and inv :: "'s \<Rightarrow> bool"
    and view :: "'s \<Rightarrow> 'a"
    and move :: "'a \<Rightarrow> 'a \<Rightarrow> bool"
  assumes step_keeps: "step s t \<Longrightarrow> inv s \<Longrightarrow> inv t"
    and step_moves: "step s t \<Longrightarrow> inv s \<Longrightarrow> move\<^sup>*\<^sup>* (view s) (view t)"
begin

lemma run_keeps: "step\<^sup>*\<^sup>* s t \<Longrightarrow> inv s \<Longrightarrow> inv t"
  by (induction rule: rtranclp_induct) (auto intro: step_keeps)

lemma run_moves: "step\<^sup>*\<^sup>* s t \<Longrightarrow> inv s \<Longrightarrow> move\<^sup>*\<^sup>* (view s) (view t)"
proof (induction rule: rtranclp_induct)
  case base
  show ?case by (rule rtranclp.rtrancl_refl)
next
  case (step t u)
  from step_moves [OF step(2) run_keeps [OF step(1,4)]] step(3) [OF step(4)] show ?case by (rule rtranclp_trans [rotated])
qed

end

locale tracking =
  fixes move :: "'a \<Rightarrow> 'a \<Rightarrow> bool"
    and present :: "'a \<Rightarrow> 'x \<Rightarrow> bool"
    and change :: "'x \<Rightarrow> 'x \<Rightarrow> bool"
  assumes stays: "move m n \<Longrightarrow> present m x \<Longrightarrow> \<exists>y. present n y \<and> change\<^sup>*\<^sup>* x y"
begin

lemma stays_present: "move\<^sup>*\<^sup>* m n \<Longrightarrow> present m x \<Longrightarrow> \<exists>y. present n y \<and> change\<^sup>*\<^sup>* x y"
proof (induction rule: rtranclp_induct)
  case base
  then show ?case by blast
next
  case (step n o')
  then obtain y where y: "present n y" "change\<^sup>*\<^sup>* x y" by blast
  from stays [OF step(2) y(1)] obtain z where "present o' z" "change\<^sup>*\<^sup>* y z" by blast
  with rtranclp_trans [OF y(2)] show ?case by blast
qed

end

locale tracked_simulation = simulation step inv view move + tracking move present change
  for step :: "'s \<Rightarrow> 's \<Rightarrow> bool" and inv :: "'s \<Rightarrow> bool" and view :: "'s \<Rightarrow> 'a"
    and move :: "'a \<Rightarrow> 'a \<Rightarrow> bool" and present :: "'a \<Rightarrow> 'x \<Rightarrow> bool" and change :: "'x \<Rightarrow> 'x \<Rightarrow> bool"
begin

lemma run_follows:
  "step\<^sup>*\<^sup>* s t \<Longrightarrow> inv s \<Longrightarrow> present (view s) x \<Longrightarrow> \<exists>y. present (view t) y \<and> change\<^sup>*\<^sup>* x y"
  using run_moves stays_present by blast

end

end
