(* ===== verification/Channel_Runs.thy ===== *)
theory Channel_Runs
  imports Channel_Refinement Simulation
begin

text \<open>
  The runs of the channel: its operations in any order, with the other commands of the store between
  them. Every run is a sequence of moves of the entries.
\<close>

section \<open>Runs\<close>

inductive channel_step :: "channel_host \<Rightarrow> store \<Rightarrow> store \<Rightarrow> bool" for h where
  other_command: "append_fact th turn pr f st = Inr st' \<Longrightarrow> \<not> channel_fact f \<Longrightarrow> channel_step h st st'"
| source_configured: "configure_source (ch_ident h) th config st = Inr (v, st') \<Longrightarrow> channel_step h st st'"
| conversation_bound: "bind_channel (ch_ident h) source conversation th destination enabled st = Inr (b, st') \<Longrightarrow> channel_step h st st'"
| grant_set: "set_grant (ch_ident h) source who conversation th operations role enabled local st = Inr (g, st') \<Longrightarrow> channel_step h st st'"
| entry_put: "put_entry (ch_ident h) th kind key v st = Inr st' \<Longrightarrow> kind \<notin> {''outbox'', ''inbox'', ''native_inbox''} \<Longrightarrow>
    channel_step h st st'"
| event_received: "receive_event h e now st = Inr (r, st') \<Longrightarrow> channel_step h st st'"
| notification_queued: "enqueue_notification (ch_ident h) (ch_canon h) gid turn summary now n deadline snapshot st = Inr (x, st') \<Longrightarrow>
    channel_step h st st'"
| notification_claimed: "claim_notification (ch_ident h) (ch_delivery h) owner now lease w st = Inr (claim, st') \<Longrightarrow> channel_step h st st'"
| send_begun: "begin_send (ch_ident h) (ch_delivery h) claim now st = Inr (x, st') \<Longrightarrow> channel_step h st st'"
| send_finished: "finish_send (ch_ident h) claim outcome rid retry_after reason now jitter st = Inr st' \<Longrightarrow> channel_step h st st'"
| preflight_failed: "finish_preflight (ch_ident h) claim outcome retry_after reason now jitter st = Inr st' \<Longrightarrow> channel_step h st st'"
| notification_retried: "retry_notification (ch_ident h) (ch_delivery h) oid now st = Inr st' \<Longrightarrow> channel_step h st st'"
| notification_abandoned: "abandon_notification (ch_ident h) oid st = Inr st' \<Longrightarrow> channel_step h st st'"
| notification_reconciled: "reconcile_notification (ch_ident h) oid rid st = Inr st' \<Longrightarrow> channel_step h st st'"
| notification_reauthorized: "reauthorize_notification (ch_ident h) (ch_delivery h) oid gid now st = Inr st' \<Longrightarrow> channel_step h st st'"

abbreviation channel_run :: "channel_host \<Rightarrow> store \<Rightarrow> store \<Rightarrow> bool" where
  "channel_run h \<equiv> (channel_step h)\<^sup>*\<^sup>*"

lemma covered_reached: "covered ident st st' \<Longrightarrow> reached ident st st'"
  by (simp add: covered_def)

lemma step_reached:
  assumes "channel_step h st st'" and "inj (ch_ident h)" and "sound (ch_ident h) st"
  shows "reached (ch_ident h) st st'"
  using assms(1)
proof cases
  case (other_command th turn pr f)
  from covered_other [OF assms(3) this] show ?thesis by (rule covered_reached)
next
  case (entry_put th kind key v)
  from covered_setting [OF assms(2,3) entry_put(1)] entry_put(2) show ?thesis
    by (intro covered_reached) (auto simp: receipt_kinds_def)
next
  case (send_begun claim now x)
  from begin_send_moves [OF assms(2,3) this] show ?thesis using covered_reached by blast
qed (use assms(2,3) in \<open>blast intro: covered_reached configure_source_covered bind_channel_covered set_grant_covered
    receive_event_reached enqueue_covered claim_notification_effect(1) finish_send_covered(1) finish_preflight_covered(1)
    retry_covered abandon_covered reconcile_covered reauthorize_covered\<close>)+

text \<open>The runs simulate the moves of the entries, and each notification lives on through them.\<close>

interpretation channel: tracked_simulation "channel_step h" "\<lambda>st. inj (ch_ident h) \<and> sound (ch_ident h) st" channel_map
    "channel_move (ch_ident h)" "\<lambda>m x. inj (ch_ident h) \<and> row_at (ch_ident h) m x" outbox_move for h
proof unfold_locales
  show "inj (ch_ident h) \<and> sound (ch_ident h) t" if "channel_step h s t" "inj (ch_ident h) \<and> sound (ch_ident h) s" for s t
    using step_reached [of h s t] that by (simp add: reached_def)
  show "moves (ch_ident h) s t" if "channel_step h s t" "inj (ch_ident h) \<and> sound (ch_ident h) s" for s t
    using step_reached [of h s t] that by (simp add: reached_def)
  show "\<exists>y. (inj (ch_ident h) \<and> row_at (ch_ident h) n y) \<and> outbox_move\<^sup>*\<^sup>* x y"
    if "channel_move (ch_ident h) m n" "inj (ch_ident h) \<and> row_at (ch_ident h) m x" for m n x
    using row_after_move [OF that(1)] that(2) by blast
qed

lemma run_reached: "channel_run h st st' \<Longrightarrow> inj (ch_ident h) \<Longrightarrow> sound (ch_ident h) st \<Longrightarrow> reached (ch_ident h) st st'"
  using channel.run_keeps channel.run_moves unfolding reached_def by blast

lemma sound_empty: "sound ident empty_store"
proof -
  have "channel_map empty_store k = None" for k by (simp add: channel_map_def empty_store_def empty_projection_def)
  then show ?thesis by (simp add: sound_def well_formed_empty channel_ok_def)
qed

lemma run_sound: "channel_run h empty_store st \<Longrightarrow> inj (ch_ident h) \<Longrightarrow> sound (ch_ident h) st"
  using run_reached [OF _ _ sound_empty] by (auto simp: reached_def)

lemma run_row:
  assumes "inj (ch_ident h)" and "sound (ch_ident h) st" and "channel_run h st st'"
    and "get_outbox (ch_ident h) st oid = Inr (Some x)"
  shows "\<exists>y. get_outbox (ch_ident h) st' oid = Inr (Some y) \<and> row_at (ch_ident h) (channel_map st') y \<and> outbox_move\<^sup>*\<^sup>* x y"
proof -
  note x = row_found [OF assms(1,2,4)]
  from channel.run_follows [OF assms(3)] assms(1,2) x(1) obtain y where
    y: "row_at (ch_ident h) (channel_map st') y" "outbox_move\<^sup>*\<^sup>* x y" by blast
  with found_row [OF y(1)] outbox_moves [OF y(2)] x(2) show ?thesis by auto
qed

end
