(* ===== verification/Channel_Scenario.thy ===== *)
theory Channel_Scenario
  imports Channel_Runs
begin

text \<open>A concrete host and a concrete run of the channel, on which the properties are applied.\<close>

text \<open>An injective stand-in for the hash: the parts with their end marks escaped.\<close>

definition marked :: "char \<Rightarrow> string" where
  "marked c = (if c = CHR 0x00 \<or> c = CHR 0x01 then [CHR 0x01, c] else [c])"

definition plain_ident :: identity where
  "plain_ident parts = concat (map (\<lambda>p. concat (map marked p) @ [CHR 0x00]) parts)"

definition plain_host :: channel_host where
  "plain_host = \<lparr>ch_ident = plain_ident, ch_canon = (\<lambda>v. case v of JObj kvs \<Rightarrow> concat (map fst kvs) | _ \<Rightarrow> []), ch_sha = (\<lambda>v. []),
     ch_name_hash = (\<lambda>s. s), ch_is_origin = (\<lambda>s. False), ch_database = ''db'', ch_is_dir = (\<lambda>s. True), ch_resolve = (\<lambda>s. s),
     ch_uid = ''u'', ch_delivery = (\<lambda>st tid. ''unverified'')\<rparr>"

definition settled_channel :: "store result" where
  "settled_channel =
     ebind (create_thread (\<lambda>s. True) [] ''w'' (Some ''t'') empty_store) (\<lambda>s.
     ebind (configure_source plain_ident ''t'' (JObj [(''enabled'', JBool True), (''source_id'', JStr ''s'')]) s) (\<lambda>(v, s).
     ebind (bind_channel plain_ident ''s'' ''c'' ''t'' ''d'' True s) (\<lambda>(b, s).
     ebind (set_grant plain_ident ''s'' ''p'' ''c'' ''t'' [''notify'', ''evidence''] ''r'' True None s) (\<lambda>(g, s). Inr s))))"

definition queued_channel :: "store result" where
  "queued_channel = ebind settled_channel (\<lambda>s.
     ebind (enqueue_notification plain_ident (ch_canon plain_host) (plain_ident [''s'', ''p'', ''c'']) ''u'' (JObj []) 0 2 100 None s)
       (\<lambda>(x, s). Inr s))"

record sending =
  sd_queued :: store
  sd_first :: outbox
  sd_claimed :: store
  sd_second :: outbox
  sd_reclaimed :: store
  sd_sent :: store
  sd_lapsed :: store

definition sending_channel :: "sending result" where
  "sending_channel = ebind queued_channel (\<lambda>q.
     ebind (claim_notification plain_ident (ch_delivery plain_host) ''a'' 1 10 None q) (\<lambda>(c1, s1).
     ebind (claim_notification plain_ident (ch_delivery plain_host) ''b'' 20 10 None s1) (\<lambda>(c2, s2). case (c1, c2) of
       (Some c1, Some c2) \<Rightarrow>
     ebind (begin_send plain_ident (ch_delivery plain_host) c2 21 s2) (\<lambda>(x, s3).
     ebind (claim_notification plain_ident (ch_delivery plain_host) ''a'' 50 10 None s3) (\<lambda>(c3, s4).
       Inr \<lparr>sd_queued = q, sd_first = c1, sd_claimed = s1, sd_second = c2, sd_reclaimed = s2, sd_sent = s3, sd_lapsed = s4\<rparr>))
     | _ \<Rightarrow> Inl (KeyError []))))"

lemma sending_ok: "case sending_channel of Inl _ \<Rightarrow> False | Inr d \<Rightarrow> ob_id (sd_second d) = ob_id (sd_first d)
  \<and> (case get_outbox plain_ident (sd_lapsed d) (ob_id (sd_first d)) of Inr (Some x) \<Rightarrow> ob_status x = NUncertain | _ \<Rightarrow> False)"
  by code_simp

section \<open>The hash of the run is injective\<close>

fun parts_of :: "string \<Rightarrow> string \<Rightarrow> string list" where
  "parts_of acc [] = []"
| "parts_of acc (c # cs) =
     (if c = CHR 0x00 then acc # parts_of [] cs
      else if c = CHR 0x01 then (case cs of [] \<Rightarrow> [] | d # ds \<Rightarrow> parts_of (acc @ [d]) ds)
      else parts_of (acc @ [c]) cs)"

lemma parts_of_part: "parts_of acc (concat (map marked p) @ CHR 0x00 # rest) = (acc @ p) # parts_of [] rest"
  by (induction p arbitrary: acc) (auto simp: marked_def)

lemma parts_of_ident: "parts_of [] (plain_ident parts) = parts"
  by (induction parts) (simp_all add: plain_ident_def parts_of_part)

lemma plain_ident_inject: "plain_ident xs = plain_ident ys \<Longrightarrow> xs = ys"
  using parts_of_ident by metis

lemma plain_inj: "inj (ch_ident plain_host)"
  using plain_ident_inject by (auto simp: plain_host_def inj_def)

section \<open>The run is a run\<close>

lemma host_parts: "ch_ident plain_host = plain_ident"
  by (simp add: plain_host_def)

lemma settled_run:
  assumes "settled_channel = Inr s"
  shows "channel_run plain_host empty_store s"
proof -
  from assms obtain a v b bi c g where
    a: "create_thread (\<lambda>s. True) [] ''w'' (Some ''t'') empty_store = Inr a"
    and b: "configure_source plain_ident ''t'' (JObj [(''enabled'', JBool True), (''source_id'', JStr ''s'')]) a = Inr (v, b)"
    and c: "bind_channel plain_ident ''s'' ''c'' ''t'' ''d'' True b = Inr (bi, c)"
    and d: "set_grant plain_ident ''s'' ''p'' ''c'' ''t'' [''notify'', ''evidence''] ''r'' True None c = Inr (g, s)"
    by (auto simp: settled_channel_def)
  from a have "append_fact ''t'' None ''runtime'' (ThreadFact (ThreadCreated ''w'')) empty_store = Inr a"
    by (auto simp: create_thread_def split: if_splits)
  then have "channel_step plain_host empty_store a" by (rule other_command) (simp add: channel_fact_def)
  moreover have "channel_step plain_host a b" using b unfolding host_parts [symmetric] by (rule source_configured)
  moreover have "channel_step plain_host b c" using c unfolding host_parts [symmetric] by (rule conversation_bound)
  moreover have "channel_step plain_host c s" using d unfolding host_parts [symmetric] by (rule grant_set)
  ultimately show ?thesis by (meson rtranclp.rtrancl_into_rtrancl rtranclp.rtrancl_refl)
qed

text \<open>What the run gives: its stores, the steps between them and the two claims.\<close>

lemma sending_run:
  obtains q first s1 second s2 s3 s4 oid x where
    "channel_run plain_host empty_store q"
    and "claim_notification (ch_ident plain_host) (ch_delivery plain_host) ''a'' 1 10 None q = Inr (Some first, s1)"
    and "claim_notification (ch_ident plain_host) (ch_delivery plain_host) ''b'' 20 10 None s1 = Inr (Some second, s2)"
    and "ob_id second = ob_id first" and "channel_run plain_host s2 s4" and "channel_run plain_host empty_store s4"
    and "get_outbox (ch_ident plain_host) s4 (ob_id first) = Inr (Some x)" and "ob_status x = NUncertain"
proof -
  from sending_ok obtain d where d: "sending_channel = Inr d" "ob_id (sd_second d) = ob_id (sd_first d)"
    and x: "case get_outbox plain_ident (sd_lapsed d) (ob_id (sd_first d)) of Inr (Some x) \<Rightarrow> ob_status x = NUncertain | _ \<Rightarrow> False"
    by (auto split: sum.splits)
  from d(1) obtain q c1 s1 c2 s2 y s3 c3 s4 where q: "queued_channel = Inr q"
    and c1: "claim_notification plain_ident (ch_delivery plain_host) ''a'' 1 10 None q = Inr (Some c1, s1)"
    and c2: "claim_notification plain_ident (ch_delivery plain_host) ''b'' 20 10 None s1 = Inr (Some c2, s2)"
    and b: "begin_send plain_ident (ch_delivery plain_host) c2 21 s2 = Inr (y, s3)"
    and c3: "claim_notification plain_ident (ch_delivery plain_host) ''a'' 50 10 None s3 = Inr (c3, s4)"
    and sel: "sd_first d = c1" "sd_second d = c2" "sd_lapsed d = s4"
    by (auto simp: sending_channel_def split: option.splits)
  from q obtain s0 z where s0: "settled_channel = Inr s0"
    and z: "enqueue_notification plain_ident (ch_canon plain_host) (plain_ident [''s'', ''p'', ''c'']) ''u'' (JObj []) 0 2 100 None s0 = Inr (z, q)"
    by (auto simp: queued_channel_def)
  have "channel_step plain_host s0 q" using z unfolding host_parts [symmetric] by (rule notification_queued)
  with settled_run [OF s0] have rq: "channel_run plain_host empty_store q" by (rule rtranclp.rtrancl_into_rtrancl)
  have r1: "channel_step plain_host q s1" using c1 unfolding host_parts [symmetric] by (rule notification_claimed)
  have r2: "channel_step plain_host s1 s2" using c2 unfolding host_parts [symmetric] by (rule notification_claimed)
  have r3: "channel_step plain_host s2 s3" using b unfolding host_parts [symmetric] by (rule send_begun)
  have r4: "channel_step plain_host s3 s4" using c3 unfolding host_parts [symmetric] by (rule notification_claimed)
  from r3 r4 have r24: "channel_run plain_host s2 s4" by (meson rtranclp.rtrancl_into_rtrancl rtranclp.rtrancl_refl)
  with rq r1 r2 have r04: "channel_run plain_host empty_store s4" by (meson rtranclp.rtrancl_into_rtrancl rtranclp_trans)
  from x sel obtain w where w: "get_outbox plain_ident s4 (ob_id c1) = Inr (Some w)" "ob_status w = NUncertain"
    by (auto split: sum.splits option.splits)
  show ?thesis
    by (rule that [unfolded host_parts, OF rq c1 c2 _ r24 r04 w]) (use d(2) sel in simp)
qed

section \<open>An event that is delivered twice, a grant that is revoked\<close>

definition evidence_event :: envelope where
  "evidence_event = \<lparr>en_source = ''s'', en_event = ''e'', en_digest = ''x'', en_native = [], en_principal = ''p'', en_user = False,
     en_conversation = ''c'', en_destination = ''d'', en_operation = ''evidence'', en_text = [], en_request = None,
     en_action = None, en_attachments = [], en_evidence = JObj [], en_dump = JObj []\<rparr>"

definition twice_received :: "store \<Rightarrow> bool" where
  "twice_received s \<longleftrightarrow> (case prior_event plain_ident evidence_event s of None \<Rightarrow> True | Some _ \<Rightarrow> False)
     \<and> (case receive_event plain_host evidence_event 0 s of Inl _ \<Rightarrow> False
        | Inr (r, t) \<Rightarrow> (case receive_event plain_host evidence_event 1 t of Inl _ \<Rightarrow> False | Inr _ \<Rightarrow> True))"

lemma received_ok: "case settled_channel of Inl _ \<Rightarrow> False
    | Inr s \<Rightarrow> twice_received s \<and> \<not> isl (set_grant plain_ident ''s'' ''p'' ''c'' ''t'' [''notify''] ''r'' False None s)"
  by code_simp

end
