(* ===== verification/Channel_Properties.thy ===== *)
theory Channel_Properties
  imports Channel_Scenario
begin

text \<open>
  The channel and outbox contract over every run: attempts are bounded, a delivery of unknown outcome
  is never sent again, a superseded sender cannot act, a revoked grant admits nothing, and a
  redelivered event changes nothing.
\<close>

section \<open>Properties\<close>

text \<open>C14: the delivery operations refine the abstract life of a notification: whatever sequence of channel
  operations and other commands runs, a queued notification only makes moves of that state machine,
  and it never disappears.\<close>

theorem outbox_refines_its_state_machine:
  assumes "inj (ch_ident h)" and "channel_run h empty_store st" and "channel_run h st st'"
    and "get_outbox (ch_ident h) st oid = Inr (Some x)"
  shows "\<exists>y. get_outbox (ch_ident h) st' oid = Inr (Some y) \<and> outbox_move\<^sup>*\<^sup>* x y"
  using run_row [OF assms(1) run_sound [OF assms(2,1)] assms(3,4)] by blast

lemma outbox_refines_its_state_machine_witness:
  "\<exists>s1 s4 x y. get_outbox plain_ident s1 (ob_id x) = Inr (Some x) \<and> get_outbox plain_ident s4 (ob_id x) = Inr (Some y)
     \<and> ob_status x = NClaimed \<and> ob_status y = NUncertain \<and> outbox_move\<^sup>*\<^sup>* x y"
proof (rule sending_run)
  fix q first s1 second s2 s4 x
  assume run: "channel_run plain_host empty_store q" "channel_run plain_host s2 s4" "ob_id second = ob_id first"
    and c1: "claim_notification (ch_ident plain_host) (ch_delivery plain_host) ''a'' 1 10 None q = Inr (Some first, s1)"
    and c2: "claim_notification (ch_ident plain_host) (ch_delivery plain_host) ''b'' 20 10 None s1 = Inr (Some second, s2)"
    and x: "get_outbox (ch_ident plain_host) s4 (ob_id first) = Inr (Some x)" "ob_status x = NUncertain"
  have r1: "channel_run plain_host empty_store s1" using run(1) notification_claimed [OF c1] by (rule rtranclp.rtrancl_into_rtrancl)
  then have r2: "channel_run plain_host empty_store s2" using notification_claimed [OF c2] by (rule rtranclp.rtrancl_into_rtrancl)
  note eff = claim_notification_effect(2) [OF plain_inj run_sound [OF r1 plain_inj] c2]
  from eff have second: "get_outbox (ch_ident plain_host) s2 (ob_id second) = Inr (Some second)" "ob_status second = NClaimed"
    using found_row by blast+
  from outbox_refines_its_state_machine [OF plain_inj r2 run(2) second(1)] x(1) run(3) have "outbox_move\<^sup>*\<^sup>* second x" by auto
  with x run(3) second show ?thesis unfolding host_parts by metis
qed



text \<open>C16: a delivery of unknown outcome is never sent again: from then on no run dispatches it, its number
  of attempts stays, and only a reconciliation or an abandonment changes its state.\<close>

theorem uncertain_delivery_is_never_resent:
  assumes "inj (ch_ident h)" and "channel_run h empty_store st" and "get_outbox (ch_ident h) st oid = Inr (Some x)"
    and "ob_status x = NUncertain" and "channel_run h st st'"
  shows "\<exists>y. get_outbox (ch_ident h) st' oid = Inr (Some y) \<and> ob_status y \<in> {NUncertain, NAcknowledged, NAbandoned}
    \<and> ob_attempt y = ob_attempt x \<and> (\<forall>claim now. ob_id claim = oid \<longrightarrow> isl (begin_send (ch_ident h) (ch_delivery h) claim now st'))"
proof -
  have s: "sound (ch_ident h) st" by (rule run_sound [OF assms(2,1)])
  have s': "sound (ch_ident h) st'" using run_reached [OF assms(5,1) s] by (simp add: reached_def)
  from run_row [OF assms(1) s assms(5,3)] obtain y where
    y: "get_outbox (ch_ident h) st' oid = Inr (Some y)" "outbox_move\<^sup>*\<^sup>* x y" by blast
  from outbox_moves [OF y(2)] assms(4) have dead: "unsendable y" "ob_attempt y = ob_attempt x" by (auto simp: unsendable_def)
  have "isl (begin_send (ch_ident h) (ch_delivery h) claim now st')" if "ob_id claim = oid" for claim now
  proof (rule ccontr)
    assume "\<not> isl (begin_send (ch_ident h) (ch_delivery h) claim now st')"
    then obtain r where "begin_send (ch_ident h) (ch_delivery h) claim now st' = Inr r"
      by (cases "begin_send (ch_ident h) (ch_delivery h) claim now st'") simp_all
    then obtain z t where "begin_send (ch_ident h) (ch_delivery h) claim now st' = Inr (z, t)" by (cases r) simp
    from begin_send_moves [OF assms(1) s' this] obtain w where
      w: "row_at (ch_ident h) (channel_map st') w" "ob_id w = ob_id claim" "ob_status w = NClaimed" by auto
    with found_row [OF w(1)] y(1) that have "w = y" by simp
    with w(3) dead(1) show False by (simp add: unsendable_def)
  qed
  with y(1) dead(2) dead(1) [unfolded unsendable_def] show ?thesis by blast
qed

lemma uncertain_delivery_is_never_resent_witness:
  "\<exists>s oid. (\<exists>x. get_outbox plain_ident s oid = Inr (Some x) \<and> ob_status x = NUncertain)
     \<and> (\<forall>claim now. ob_id claim = oid \<longrightarrow> isl (begin_send plain_ident (ch_delivery plain_host) claim now s))"
proof (rule sending_run)
  fix first :: outbox and s4 x
  assume run: "channel_run plain_host empty_store s4" "get_outbox (ch_ident plain_host) s4 (ob_id first) = Inr (Some x)"
    "ob_status x = NUncertain"
  from uncertain_delivery_is_never_resent [OF plain_inj run rtranclp.rtrancl_refl] run(2,3)
  show ?thesis unfolding host_parts by blast
qed

text \<open>C17: a sender whose notification was claimed again is refused: after the second claim neither the start
  nor the end of the first holder's send is accepted, in any later state.\<close>

theorem superseded_sender_is_refused:
  assumes "inj (ch_ident h)" and "channel_run h empty_store st"
    and "claim_notification (ch_ident h) (ch_delivery h) owner now lease w st = Inr (Some first, s1)" and "channel_run h s1 s2"
    and "claim_notification (ch_ident h) (ch_delivery h) owner' now' lease' w' s2 = Inr (Some second, s3)" and "channel_run h s3 s4"
    and "ob_id second = ob_id first"
  shows "isl (begin_send (ch_ident h) (ch_delivery h) first t s4) \<and> isl (finish_send (ch_ident h) first outcome rid ra reason t jitter s4)
    \<and> isl (finish_preflight (ch_ident h) first outcome ra reason t jitter s4)"
proof -
  let ?id = "ch_ident h"
  have s0: "sound ?id st" by (rule run_sound [OF assms(2,1)])
  note c1 = claim_notification_effect [OF assms(1) s0 assms(3)]
  have s1: "sound ?id s1" using c1(1) by (rule coveredD)
  have s2: "sound ?id s2" using run_reached [OF assms(4,1) s1] by (simp add: reached_def)
  note c2 = claim_notification_effect [OF assms(1) s2 assms(5)]
  have s3: "sound ?id s3" using c2(1) by (rule coveredD)
  have s4: "sound ?id s4" using run_reached [OF assms(6,1) s3] by (simp add: reached_def)
  from c1(2) have "row_at ?id (channel_map s1) first" by simp
  from run_row [OF assms(1) s1 assms(4) found_row [OF this]] obtain x where
    x: "get_outbox ?id s2 (ob_id first) = Inr (Some x)" "ob_generation first \<le> ob_generation x" using outbox_moves by blast
  from c2(2) obtain z where z: "row_at ?id (channel_map s2) z" "ob_id z = ob_id first" "ob_generation second = ob_generation z + 1"
    and now: "row_at ?id (channel_map s3) second" using assms(7) by auto
  from found_row [OF z(1)] z(2,3) x have newer: "ob_generation first < ob_generation second" by auto
  from run_row [OF assms(1) s3 assms(6) found_row [OF now]] obtain y where
    y: "get_outbox ?id s4 (ob_id first) = Inr (Some y)" "ob_generation second \<le> ob_generation y"
    using outbox_moves assms(7) by metis
  have no: "\<not> (row_at ?id (channel_map s4) v \<and> ob_id v = ob_id first \<and> holds first v)" for v
    using found_row [of ?id s4 v] y newer by (auto simp: holds_def)
  have "isl (begin_send ?id (ch_delivery h) first t s4)"
    using begin_send_moves [OF assms(1) s4] no by (metis isl_def prod.exhaust sum.exhaust)
  moreover have "isl (finish_send ?id first outcome rid ra reason t jitter s4)"
    using finish_send_covered(2) [OF assms(1) s4] no by (metis isl_def sum.exhaust)
  moreover have "isl (finish_preflight ?id first outcome ra reason t jitter s4)"
    using finish_preflight_covered(2) [OF assms(1) s4] no by (metis isl_def sum.exhaust)
  ultimately show ?thesis by blast
qed

lemma superseded_sender_is_refused_witness:
  "\<exists>first s. isl (begin_send plain_ident (ch_delivery plain_host) first 5 s) \<and> ob_status first = NClaimed"
proof (rule sending_run)
  fix q first s1 second s2
  assume run: "channel_run plain_host empty_store q" "ob_id second = ob_id first"
    and c: "claim_notification (ch_ident plain_host) (ch_delivery plain_host) ''a'' 1 10 None q = Inr (Some first, s1)"
      "claim_notification (ch_ident plain_host) (ch_delivery plain_host) ''b'' 20 10 None s1 = Inr (Some second, s2)"
  from superseded_sender_is_refused [OF plain_inj run(1) c(1) rtranclp.rtrancl_refl c(2) rtranclp.rtrancl_refl run(2)]
    claim_notification_effect(2) [OF plain_inj run_sound [OF run(1) plain_inj] c(1)]
  show ?thesis unfolding host_parts by blast
qed

text \<open>C19: a redelivered event does nothing: once a provider event was received, any later receipt of the
  same event, if it is still authorised, returns the first receipt and leaves the store as it is.\<close>

theorem redelivered_event_changes_nothing:
  assumes "inj (ch_ident h)" and "channel_run h empty_store st" and "receive_event h e now st = Inr (receipt, s)"
    and "channel_run h s t" and "receive_event h e later t = Inr (again, u)" and "prior_event (ch_ident h) e st = None"
  shows "again = receipt \<and> u = t"
proof -
  let ?id = "ch_ident h"
  have s0: "sound ?id st" by (rule run_sound [OF assms(2,1)])
  from assms(3,6) obtain g b where new: "receive_new h e g b now st = Inr (receipt, s)"
    by (auto simp: receive_event_def split: if_splits)
  note eff = receive_new_reached [OF assms(1) s0 assms(6) new]
  then have s: "sound ?id s" by (simp add: reached_def)
  from eff(2) obtain w where w: "channel_map s (?id [''inbox'', event_key ?id e]) = Some w"
    "(\<lambda>(_, _, _, v). v) w = inbox_entry e (bi_thread b) receipt" by (auto simp: get_entry_map)
  from run_reached [OF assms(4,1) s] have "moves ?id s t" by (simp add: reached_def)
  from receipt_stays [OF this assms(1) _ w(1)] have "channel_map t (?id [''inbox'', event_key ?id e]) = Some w"
    by (simp add: receipt_kinds_def)
  with w(2) have "prior_event ?id e t = Some (inbox_entry e (bi_thread b) receipt)" by (simp add: prior_event_def get_entry_map)
  with assms(5) show ?thesis by (auto simp: receive_event_def inbox_entry_def split: if_splits)
qed

lemma redelivered_event_changes_nothing_witness:
  "\<exists>s r t. receive_event plain_host evidence_event 0 s = Inr (r, t) \<and> receive_event plain_host evidence_event 1 t = Inr (r, t)"
proof -
  from received_ok obtain s where s: "settled_channel = Inr s" "twice_received s" by (auto split: sum.splits)
  then obtain r t where first: "receive_event plain_host evidence_event 0 s = Inr (r, t)"
    "prior_event (ch_ident plain_host) evidence_event s = None"
    and "case receive_event plain_host evidence_event 1 t of Inl _ \<Rightarrow> False | Inr _ \<Rightarrow> True"
    by (auto simp: twice_received_def host_parts split: sum.splits option.splits)
  then obtain r' u where second: "receive_event plain_host evidence_event 1 t = Inr (r', u)"
    by (cases "receive_event plain_host evidence_event 1 t") auto
  from redelivered_event_changes_nothing [OF plain_inj settled_run [OF s(1)] first(1) rtranclp.rtrancl_refl second first(2)] first(1) second
  show ?thesis by blast
qed

lemma isl_ebind: "isl (ebind m k) \<longleftrightarrow> (\<forall>a. m = Inr a \<longrightarrow> isl (k a))"
  by (cases m) auto

lemma disabled_grant:
  assumes "get_grant ident s (ident [source, who, conversation]) = Inr (Some g)" and "\<not> gr_enabled g"
  shows "isl (authorize ident s source who conversation operation expected)"
  using assms by (auto simp: authorize_def isl_ebind grant_in_force_def split: option.splits)

text \<open>C18: disabling a grant takes effect at once: no operation is authorised for that principal in that
  conversation, no event of it is received, no queued notification of the grant may be sent, and no
  waiting command that was admitted under it is authorised to run.\<close>

theorem revoked_grant_admits_nothing:
  assumes "inj (ch_ident h)" and "channel_run h empty_store st"
    and "set_grant (ch_ident h) source who conversation th operations role False local st = Inr (g, s)"
  shows "isl (authorize (ch_ident h) s source who conversation operation expected)
    \<and> (\<forall>e now. en_source e = source \<and> en_principal e = who \<and> en_conversation e = conversation \<longrightarrow> isl (receive_event h e now s))
    \<and> (\<forall>x. ob_grant x = gr_id g \<longrightarrow> isl (may_send (ch_ident h) (ch_delivery h) s x))
    \<and> (\<forall>c now. (\<exists>a. jget (hc_request c) ''channel_authority'' = a \<and> jget a ''source_id'' = JStr source
          \<and> jget a ''principal'' = JStr who \<and> jget a ''conversation_id'' = JStr conversation)
        \<longrightarrow> isl (authorize_command (ch_ident h) now s c))"
proof -
  let ?id = "ch_ident h" and ?key = "ch_ident h [source, who, conversation]"
  have snd: "sound ?id st" by (rule run_sound [OF assms(2,1)])
  from assms(3) have put: "put_entry ?id th ''grant'' ?key (grant_json g) st = Inr s"
    and g: "\<not> gr_enabled g" "gr_id g = ?key" "gr_source g = source" "gr_principal g = who" "gr_conversation g = conversation"
    by (auto simp: set_grant_def Let_def split: if_splits)
  have got: "get_grant ?id s ?key = Inr (Some g)"
    by (simp add: get_grant_def get_entry_map put_entry_effect(1) [OF assms(1) snd put] decoded_def)
  have no: "isl (authorize ?id s source who conversation operation expected)" for operation expected
    by (rule disabled_grant [OF got g(1)])
  have none: "authorize ?id s source who conversation operation expected \<noteq> Inr a" for operation expected a
    using no [of operation expected] by auto
  have "isl (may_send ?id (ch_delivery h) s x)" if "ob_grant x = gr_id g" for x
    using that got g none by (auto simp: may_send_def notification_authority_def isl_ebind split: option.splits)
  moreover have "isl (authorize_command ?id now s c)"
    if "jget (hc_request c) ''channel_authority'' = a" "jget a ''source_id'' = JStr source"
      "jget a ''principal'' = JStr who" "jget a ''conversation_id'' = JStr conversation" for c now a
    using that none by (auto simp: authorize_command_def authorize_channel_command_def Let_def isl_ebind jget_def split: option.splits)
  moreover have "isl (receive_event h e now s)"
    if "en_source e = source" "en_principal e = who" "en_conversation e = conversation" for e now
    using that none by (simp add: receive_event_def isl_ebind)
  ultimately show ?thesis using no by blast
qed

lemma revoked_grant_admits_nothing_witness:
  "\<exists>s. isl (authorize plain_ident s ''s'' ''p'' ''c'' ''notify'' None)"
proof -
  from received_ok obtain s where s: "settled_channel = Inr s"
    and "\<not> isl (set_grant plain_ident ''s'' ''p'' ''c'' ''t'' [''notify''] ''r'' False None s)" by (auto split: sum.splits)
  then obtain g t where "set_grant (ch_ident plain_host) ''s'' ''p'' ''c'' ''t'' [''notify''] ''r'' False None s = Inr (g, t)"
    unfolding host_parts by (cases "set_grant plain_ident ''s'' ''p'' ''c'' ''t'' [''notify''] ''r'' False None s") auto
  from revoked_grant_admits_nothing [OF plain_inj settled_run [OF s] this] show ?thesis unfolding host_parts by blast
qed

end
