(* ===== verification/Submission_Walk.thy ===== *)
theory Submission_Walk
  imports Host_Ops
begin

text \<open>
  The walk of \<open>background_submission\<close> up the child allocations ends on every store, also when the
  allocations form a cycle, and finds the nearest Turn that a host command started.
\<close>

definition started_by :: "store \<Rightarrow> string \<Rightarrow> host_command_row option" where
  "started_by st tid = first_row (\<lambda>c. hc_kind c = ''start'' \<and> hc_turn c = tid) (host_commands (proj st))"

text \<open>The specification: the first started Turn on the way up, however long the way is.\<close>

inductive submitted :: "store \<Rightarrow> string \<Rightarrow> host_command_row \<Rightarrow> bool" for st where
  itself: "started_by st tid = Some c \<Longrightarrow> submitted st tid c"
| parent: "started_by st tid = None \<Longrightarrow> parent_allocation st tid = Some al \<Longrightarrow> submitted st (al_parent al) c \<Longrightarrow>
    submitted st tid c"

inductive_cases submittedE: "submitted st tid c"

definition climbs :: "store \<Rightarrow> string set \<Rightarrow> string \<Rightarrow> bool" where
  "climbs st S tid \<longleftrightarrow> started_by st tid = None \<and> (\<exists>al. parent_allocation st tid = Some al \<and> al_parent al \<in> S)"

text \<open>Turns that lead to each other only, and that nothing started, have no submission.\<close>

lemma closed_unsubmitted: "submitted st tid c \<Longrightarrow> \<forall>b \<in> S. climbs st S b \<Longrightarrow> tid \<notin> S"
proof (induction rule: submitted.induct)
  case (itself tid c)
  then show ?case by (auto simp: climbs_def)
next
  case (parent tid al c)
  then show ?case by (auto simp: climbs_def)
qed

lemma walk_finds:
  assumes "\<forall>b \<in> set seen. climbs st (insert cur (set seen)) b"
  shows "case submission_walk st seen cur of Inr c \<Rightarrow> submitted st cur c
    | Inl e \<Rightarrow> e = ValueError ''Turn has no durable background submission'' \<and> (\<forall>c. \<not> submitted st cur c)"
  using assms
proof (induction st seen cur rule: submission_walk.induct)
  case (1 st seen cur)
  show ?case
  proof (cases "cur \<in> set seen")
    case True
    with "1.prems" have "\<forall>b \<in> set seen. climbs st (set seen) b" by (simp add: insert_absorb)
    with True closed_unsubmitted have "\<not> submitted st cur c" for c by blast
    with True show ?thesis by (simp add: submission_walk.simps)
  next
    case False
    show ?thesis
    proof (cases "started_by st cur")
      case (Some c)
      with False itself [OF Some] show ?thesis by (simp add: submission_walk.simps [of st seen cur] started_by_def)
    next
      case none: None
      show ?thesis
      proof (cases "parent_allocation st cur")
        case None
        with none have "\<not> submitted st cur c" for c by (auto elim: submittedE)
        with False none None show ?thesis by (simp add: submission_walk.simps [of st seen cur] started_by_def)
      next
        case (Some al)
        have climbing: "\<forall>b \<in> set (cur # seen). climbs st (insert (al_parent al) (set (cur # seen))) b"
          using "1.prems" none Some by (auto simp: climbs_def)
        have step: "submission_walk st seen cur = submission_walk st (cur # seen) (al_parent al)"
          using False none Some by (simp add: submission_walk.simps [of st seen cur] started_by_def)
        have "submitted st cur c \<longleftrightarrow> submitted st (al_parent al) c" for c
          using none Some by (auto intro: parent elim: submittedE)
        moreover have "case submission_walk st (cur # seen) (al_parent al) of Inr c \<Rightarrow> submitted st (al_parent al) c
          | Inl e \<Rightarrow> e = ValueError ''Turn has no durable background submission'' \<and> (\<forall>c. \<not> submitted st (al_parent al) c)"
          using "1.IH" [OF False none [unfolded started_by_def] Some climbing] .
        ultimately show ?thesis unfolding step by (simp split: sum.splits)
      qed
    qed
  qed
qed

text \<open>C24: looking for the submission behind a Turn always ends, even if the stored child allocations form a
  cycle: it returns the start command of the nearest started ancestor, and it refuses exactly when no
  ancestor was started by the host.\<close>

theorem submission_walk_ends:
  "case background_submission st tid of Inr c \<Rightarrow> submitted st tid c
   | Inl e \<Rightarrow> e = ValueError ''Turn has no durable background submission'' \<and> (\<forall>c. \<not> submitted st tid c)"
  unfolding background_submission_def by (rule walk_finds) simp

end
