(* ===== verification/Ci_Ops.thy ===== *)
theory Ci_Ops
  imports Channel_Ops
begin

text \<open>
  \<open>harness/ci_ops.py\<close>: finite subscriptions to the checks and reviews of a pull request. A
  subscription and its evidence are channel entries of the kinds \<open>ci_subscription\<close> and
  \<open>ci_evidence\<close>, kept as the JSON objects the code stores. The caller's authorisation is a
  parameter that reads the store; clocks, the reading of ISO timestamps and the hashes of
  \<open>channel_host\<close> are parameters too.
\<close>

type_synonym ci_auth = "store \<Rightarrow> json \<Rightarrow> bool result"

section \<open>Reading fields\<close>

definition need :: "json \<Rightarrow> string \<Rightarrow> json result" where
  "need v k = require (jfind v k) (KeyError k)"

fun as_number :: "json \<Rightarrow> real option" where
  "as_number (JBool b) = Some (if b then 1 else 0)"
| "as_number v = as_real v"

definition need_number :: "json \<Rightarrow> string \<Rightarrow> real result" where
  "need_number v k = ebind (need v k) (\<lambda>x. require (as_number x) (TypeError k))"

definition need_int :: "json \<Rightarrow> string \<Rightarrow> int result" where
  "need_int v k = ebind (need v k) (\<lambda>x. require (as_int x) (TypeError k))"

definition need_str :: "json \<Rightarrow> string \<Rightarrow> string result" where
  "need_str v k = ebind (need v k) (\<lambda>x. require (as_str x) (TypeError k))"

definition nonempty_text :: "json \<Rightarrow> string \<Rightarrow> unit result" where
  "nonempty_text v field = (case v of
       JStr s \<Rightarrow> check (\<not> blank s) (ValueError (field @ '' must be a nonempty string''))
     | _ \<Rightarrow> Inl (ValueError (field @ '' must be a nonempty string'')))"

definition positive :: "json \<Rightarrow> string \<Rightarrow> int result" where
  "positive v field = (case v of
       JInt n \<Rightarrow> if n < 1 then Inl (ValueError (field @ '' must be a positive integer'')) else Inr n
     | _ \<Rightarrow> Inl (ValueError (field @ '' must be a positive integer'')))"

definition jupdate :: "json \<Rightarrow> (string \<times> json) list \<Rightarrow> json" where
  "jupdate v kvs = fold (\<lambda>(k, x) w. jset w k x) kvs v"

definition budget_keys :: "string list" where
  "budget_keys = [''max_steps'', ''max_tokens_total'', ''max_cost_micros'']"

section \<open>Subscriptions\<close>

definition authorize_scope :: "ci_auth \<Rightarrow> store \<Rightarrow> json \<Rightarrow> unit result" where
  "authorize_scope auth st v =
     ebind (auth st v) (\<lambda>ok. check ok (PermissionError ''current CI grant or permissions denied''))"

definition subscription :: "identity \<Rightarrow> ci_auth \<Rightarrow> store \<Rightarrow> string \<Rightarrow> json result" where
  "subscription ident auth st sid =
     ebind (require (get_entry ident st ''ci_subscription'' sid) (KeyError ''unknown CI subscription'')) (\<lambda>v.
     ebind (authorize_scope auth st v) (\<lambda>_.
       if \<not> truthy (jget v ''enabled'') then Inl (PermissionError ''CI subscription disabled'')
       else ebind (need_str v ''thread_id'') (\<lambda>th. ebind (read_thread st th) (\<lambda>t.
         if jget v ''workspace'' \<noteq> JStr (th_workspace t)
         then Inl (PermissionError ''CI subscription crosses workspace boundary'') else Inr v))))"

definition save_subscription :: "identity \<Rightarrow> json \<Rightarrow> store \<Rightarrow> store result" where
  "save_subscription ident v st =
     ebind (need_str v ''thread_id'') (\<lambda>th. ebind (need_str v ''subscription_id'') (\<lambda>sid.
       put_entry ident th ''ci_subscription'' sid v st))"

record ci_request =
  rq_subscription :: string
  rq_thread :: string
  rq_workspace :: string
  rq_source :: string
  rq_repository :: string
  rq_pull :: int
  rq_head :: string
  rq_checks :: "string list"
  rq_grant :: json
  rq_poll :: json
  rq_allowance :: "json option"
  rq_budget :: "json option"

definition poll_valid :: "real \<Rightarrow> json \<Rightarrow> unit result" where
  "poll_valid now poll =
     ebind (need poll ''max_attempts'') (\<lambda>x. ebind (positive x ''poll max_attempts'') (\<lambda>_.
     ebind (need_number poll ''deadline'') (\<lambda>d.
       if d \<le> now then Inl (ValueError ''poll deadline must be finite and in the future'')
       else ebind (need_number poll ''initial_delay'') (\<lambda>i.
         if i \<le> 0 then Inl (ValueError ''poll delays must be finite and positive'')
         else ebind (need_number poll ''max_delay'') (\<lambda>m.
           if m \<le> 0 then Inl (ValueError ''poll delays must be finite and positive'')
           else if m < i then Inl (ValueError ''poll max_delay must cover initial_delay'') else Inr ())))))"

definition positive_field :: "json \<Rightarrow> string \<Rightarrow> unit result" where
  "positive_field v k = ebind (need v k) (\<lambda>x. ebind (positive x k) (\<lambda>_. Inr ()))"

definition allowance_valid :: "real \<Rightarrow> json option \<Rightarrow> json option \<Rightarrow> unit result" where
  "allowance_valid now allowance budget = (case (allowance, budget) of
       (None, None) \<Rightarrow> Inr ()
     | (Some a, Some b) \<Rightarrow>
         ebind (positive_field a ''max_new_turns'') (\<lambda>_. ebind (need_number a ''deadline'') (\<lambda>d.
           if d \<le> now then Inl (ValueError ''repair deadline must be finite and in the future'')
           else all_checks (concat (map (\<lambda>k. [positive_field a k, positive_field b k]) budget_keys))))
     | _ \<Rightarrow> Inl (ValueError ''repair allowance and per-Turn budget are required together''))"

definition request_valid :: "real \<Rightarrow> ci_request \<Rightarrow> unit result" where
  "request_valid now r = all_checks
     [nonempty_text (JStr (rq_subscription r)) ''subscription_id'', nonempty_text (JStr (rq_source r)) ''source_id'',
      nonempty_text (JStr (rq_repository r)) ''repository'', nonempty_text (JStr (rq_head r)) ''head_sha'',
      check (1 \<le> rq_pull r) (ValueError ''pull_request must be a positive integer''),
      all_checks (map (\<lambda>c. nonempty_text (JStr c) ''check identity'') (rq_checks r)),
      check (distinct (rq_checks r)) (ValueError ''check identities must be unique''),
      poll_valid now (rq_poll r), allowance_valid now (rq_allowance r) (rq_budget r)]"

definition of_opt_json :: "json option \<Rightarrow> json" where
  "of_opt_json x = (case x of None \<Rightarrow> JNull | Some v \<Rightarrow> v)"

definition configuration :: "(string \<Rightarrow> string) \<Rightarrow> ci_request \<Rightarrow> json" where
  "configuration resolve r = JObj
     [(''check_ids'', JArr (map JStr (rq_checks r))), (''grant_ref'', rq_grant r), (''head_sha'', JStr (rq_head r)),
      (''poll_policy'', rq_poll r), (''pull_request'', JInt (rq_pull r)),
      (''repair_allowance'', of_opt_json (rq_allowance r)), (''repair_budget'', of_opt_json (rq_budget r)),
      (''repository'', JStr (rq_repository r)), (''source_id'', JStr (rq_source r)),
      (''subscription_id'', JStr (rq_subscription r)), (''thread_id'', JStr (rq_thread r)),
      (''workspace'', JStr (resolve (rq_workspace r)))]"

definition new_subscription :: "json \<Rightarrow> real \<Rightarrow> json" where
  "new_subscription v now = jupdate v
     [(''configuration'', v), (''enabled'', JBool True), (''remote_status'', JStr ''pending''),
      (''check_status'', JStr ''pending''), (''review_state'', JNull), (''evidence_id'', JNull), (''new_turns'', JInt 0),
      (''reserved'', jupdate (JObj []) (map (\<lambda>k. (k, JInt 0)) budget_keys)),
      (''poll_attempts'', JInt 0), (''next_poll_at'', JFloat now)]"

definition create_subscription ::
  "identity \<Rightarrow> (string \<Rightarrow> string) \<Rightarrow> ci_auth \<Rightarrow> ci_request \<Rightarrow> real \<Rightarrow> store \<Rightarrow> (json \<times> store) result" where
  "create_subscription ident resolve auth r now st =
     ebind (request_valid now r) (\<lambda>_.
     let v = configuration resolve r in
     ebind (authorize_scope auth st v) (\<lambda>_. ebind (read_thread st (rq_thread r)) (\<lambda>t.
       if th_workspace t \<noteq> resolve (rq_workspace r)
       then Inl (PermissionError ''CI subscription belongs to another workspace'')
       else case get_entry ident st ''ci_subscription'' (rq_subscription r) of
           Some old \<Rightarrow> ebind (need old ''configuration'') (\<lambda>c.
             if c \<noteq> v then Inl (ValueError ''CI subscription identity conflicts with existing configuration'')
             else Inr (old, st))
         | None \<Rightarrow> ebind (save_subscription ident (new_subscription v now) st) (\<lambda>s. Inr (new_subscription v now, s)))))"

definition head_moved :: "string \<Rightarrow> json \<Rightarrow> json" where
  "head_moved head v = jupdate v
     [(''head_sha'', JStr head), (''remote_status'', JStr ''pending''), (''check_status'', JStr ''pending''),
      (''evidence_id'', JNull), (''check_results'', JObj [])]"

definition update_head :: "identity \<Rightarrow> ci_auth \<Rightarrow> string \<Rightarrow> string \<Rightarrow> store \<Rightarrow> store result" where
  "update_head ident auth sid head st =
     (if blank head then Inl (ValueError ''head_sha must be a nonempty string'')
      else ebind (subscription ident auth st sid) (\<lambda>v.
        if jget v ''head_sha'' = JStr head then Inr st else save_subscription ident (head_moved head v) st))"

section \<open>Evidence\<close>

definition check_ids :: "json \<Rightarrow> json list" where
  "check_ids v = (case jget v ''check_ids'' of JArr xs \<Rightarrow> xs | _ \<Rightarrow> [])"

definition check_valid :: "json \<Rightarrow> json \<Rightarrow> unit result" where
  "check_valid v c =
     (if \<not> is_obj c \<or> jget c ''id'' \<notin> set (check_ids v) then Inl (PermissionError ''CI check identity is not subscribed'')
      else check (jget c ''state'' \<in> JStr ` set [''pass'', ''fail'', ''pending'', ''skipping'', ''cancel''])
        (ValueError ''invalid CI check state''))"

definition evidence_checks :: "json \<Rightarrow> json list result" where
  "evidence_checks e = (case jfind e ''checks'' of None \<Rightarrow> Inr []
     | Some c \<Rightarrow> require (as_list c) (ValueError ''checks must be a list''))"

definition review_valid :: "json \<Rightarrow> unit result" where
  "review_valid e = ebind (nonempty_text (jget e ''review_id'') ''review_id'') (\<lambda>_.
     check (jget e ''state'' \<in> JStr ` set [''approved'', ''changes_requested'', ''commented'', ''dismissed''])
       (ValueError ''invalid review state''))"

definition evidence_valid :: "json \<Rightarrow> json \<Rightarrow> json list result" where
  "evidence_valid v e = ebind (all_checks
       [nonempty_text (jget e ''source_id'') ''source_id'', nonempty_text (jget e ''event_id'') ''event_id'',
        nonempty_text (jget e ''head_sha'') ''head_sha'',
        check (list_all (\<lambda>k. jget e k = jget v k) [''source_id'', ''repository'', ''pull_request''])
          (PermissionError ''CI evidence does not match subscribed source/repository/PR''),
        check (jget e ''kind'' \<in> JStr ` set [''checks'', ''review'', ''query_error'']) (ValueError ''unsupported CI evidence kind'')]) (\<lambda>_.
     ebind (evidence_checks e) (\<lambda>cs. ebind (all_checks (map (check_valid v) cs)) (\<lambda>_.
       if \<not> distinct (map (\<lambda>c. jget c ''id'') cs) then Inl (ValueError ''duplicate check identities'')
       else ebind (if jget e ''kind'' = JStr ''review'' then review_valid e else Inr ()) (\<lambda>_. Inr cs))))"

definition new_receipt :: "string \<Rightarrow> string \<Rightarrow> string \<Rightarrow> json \<Rightarrow> bool \<Rightarrow> real \<Rightarrow> json" where
  "new_receipt eid sid digest e stale now = JObj
     [(''digest'', JStr digest), (''evidence'', e), (''evidence_id'', JStr eid), (''received_at'', JFloat now),
      (''repair_command_id'', JNull), (''stale'', JBool stale), (''subscription_id'', JStr sid)]"

text \<open>A signed dismissal of a retained review is heard although its head is stale.\<close>

definition retained_review :: "json \<Rightarrow> json \<Rightarrow> json" where
  "retained_review v e = (case jget e ''review_id'' of JStr r \<Rightarrow> jget (jget v ''reviews'') r | _ \<Rightarrow> JNull)"

definition dismisses :: "json \<Rightarrow> json \<Rightarrow> bool" where
  "dismisses v e \<longleftrightarrow> jget e ''kind'' = JStr ''review'' \<and> jget e ''state'' = JStr ''dismissed''
     \<and> jget e ''review_kind'' \<noteq> JStr ''comment'' \<and> retained_review v e \<noteq> JNull
     \<and> jget (retained_review v e) ''reviewer_id'' = jget e ''reviewer_id''"

definition review_pairs :: "json \<Rightarrow> (string \<times> json) list" where
  "review_pairs v = (case jget v ''reviews'' of JObj kvs \<Rightarrow> kvs | _ \<Rightarrow> [])"

definition supersede_review :: "(json \<Rightarrow> real option) \<Rightarrow> json \<Rightarrow> real \<Rightarrow> json \<Rightarrow> json" where
  "supersede_review clock e now r = (case clock (jget r ''submitted_at'') of None \<Rightarrow> r
     | Some earlier \<Rightarrow> if jget r ''state'' = JStr ''changes_requested''
         \<and> jget r ''reviewer_id'' = jget e ''reviewer_id'' \<and> earlier < now
       then jset r ''state'' (JStr ''superseded'') else r)"

definition reviews_after :: "(json \<Rightarrow> real option) \<Rightarrow> (string \<times> json) list \<Rightarrow> string \<Rightarrow> json \<Rightarrow> (string \<times> json) list" where
  "reviews_after clock reviews key e =
     (let new = JObj [(''review_id'', jget e ''review_id''), (''reviewer_id'', jget e ''reviewer_id''),
                      (''state'', jget e ''state''), (''submitted_at'', jget e ''submitted_at'')];
          kept = kv_set key new reviews
      in if jget e ''state'' = JStr ''approved'' \<and> truthy (jget e ''reviewer_id'')
         then (case clock (jget e ''submitted_at'') of None \<Rightarrow> kept
           | Some now \<Rightarrow> map (\<lambda>(k, r). (k, supersede_review clock e now r)) kept)
         else kept)"

definition update_reviews :: "(json \<Rightarrow> real option) \<Rightarrow> json \<Rightarrow> json \<Rightarrow> json" where
  "update_reviews clock v e =
     (if jget e ''review_kind'' = JStr ''comment'' then v
      else case jget e ''review_id'' of
          JStr key \<Rightarrow> (let prior = map_of (review_pairs v) key in
            if (case prior of None \<Rightarrow> False | Some p \<Rightarrow> jget p ''state'' = JStr ''dismissed'')
               \<and> jget e ''state'' \<noteq> JStr ''dismissed'' then v
            else let reviews = reviews_after clock (review_pairs v) key e in
              jupdate v [(''reviews'', JObj reviews),
                (''review_state'', if list_ex (\<lambda>(_, r). jget r ''state'' = JStr ''changes_requested'') reviews
                                   then JStr ''changes_requested'' else jget e ''state'')])
        | _ \<Rightarrow> v)"

definition check_verdict :: "json \<Rightarrow> json list \<Rightarrow> string" where
  "check_verdict v cs = (let states = map (\<lambda>c. jget c ''state'') cs in
     if cs = [] then ''none''
     else if list_ex (\<lambda>s. s = JStr ''fail'' \<or> s = JStr ''cancel'') states then ''fail''
     else if set (map (\<lambda>c. jget c ''id'') cs) = set (check_ids v) \<and> list_all (\<lambda>s. s = JStr ''pass'') states then ''pass''
     else ''pending'')"

definition with_evidence :: "(json \<Rightarrow> real option) \<Rightarrow> json \<Rightarrow> json list \<Rightarrow> json \<Rightarrow> json" where
  "with_evidence clock e cs v =
     (if jget e ''kind'' = JStr ''query_error'' then jset v ''check_status'' (JStr ''query_error'')
      else if jget e ''kind'' = JStr ''review'' then update_reviews clock v e
      else jset v ''check_status'' (JStr (check_verdict v cs)))"

definition remote_status :: "json \<Rightarrow> json" where
  "remote_status v = (if jget v ''review_state'' = JStr ''changes_requested'' then JStr ''fail'' else jget v ''check_status'')"

definition after_evidence :: "(json \<Rightarrow> real option) \<Rightarrow> string \<Rightarrow> json \<Rightarrow> json list \<Rightarrow> bool \<Rightarrow> json \<Rightarrow> json" where
  "after_evidence clock eid e cs stale v =
     (let w = with_evidence clock e cs v; u = jset w ''remote_status'' (remote_status w)
      in if stale then u else jset u ''evidence_id'' (JStr eid))"

definition evidence_key :: "identity \<Rightarrow> string \<Rightarrow> json \<Rightarrow> string" where
  "evidence_key ident sid e = ident [sid, (case jget e ''source_id'' of JStr s \<Rightarrow> s | _ \<Rightarrow> []),
     (case jget e ''event_id'' of JStr s \<Rightarrow> s | _ \<Rightarrow> [])]"

definition accept_evidence ::
  "channel_host \<Rightarrow> (json \<Rightarrow> real option) \<Rightarrow> string \<Rightarrow> json \<Rightarrow> json list \<Rightarrow> json \<Rightarrow> real \<Rightarrow> store \<Rightarrow> (json \<times> store) result" where
  "accept_evidence h clock sid e cs v now st =
     (let eid = evidence_key (ch_ident h) sid e; digest = ch_ident h [ch_canon h e];
          stale = jget e ''head_sha'' \<noteq> jget v ''head_sha''; receipt = new_receipt eid sid digest e stale now
      in case get_entry (ch_ident h) st ''ci_evidence'' eid of
          Some old \<Rightarrow>
            if jget old ''digest'' \<noteq> JStr digest \<or> jget old ''subscription_id'' \<noteq> JStr sid
            then Inl (ValueError ''CI event identity conflicts with an earlier payload'') else Inr (old, st)
        | None \<Rightarrow> ebind (need_str v ''thread_id'') (\<lambda>th.
            ebind (put_entry (ch_ident h) th ''ci_evidence'' eid receipt st) (\<lambda>s.
              if stale \<and> \<not> dismisses v e then Inr (receipt, s)
              else ebind (save_subscription (ch_ident h) (after_evidence clock eid e cs stale v) s) (\<lambda>t. Inr (receipt, t)))))"

definition record_evidence ::
  "channel_host \<Rightarrow> (json \<Rightarrow> real option) \<Rightarrow> ci_auth \<Rightarrow> (json \<Rightarrow> bool) \<Rightarrow> string \<Rightarrow> json \<Rightarrow> real \<Rightarrow> store \<Rightarrow> (json \<times> store) result" where
  "record_evidence h clock auth verify sid e now st =
     ebind (subscription (ch_ident h) auth st sid) (\<lambda>v.
       if \<not> verify e then Inl (PermissionError ''CI provider signature verification failed'')
       else ebind (evidence_valid v e) (\<lambda>cs. accept_evidence h clock sid e cs v now st))"

section \<open>Repair\<close>

text \<open>What one follow-up Turn may use of a resource: the per-Turn budget, what is left of the allowance, and
  the limit of the submission, whichever is least.\<close>

definition budget_share :: "json \<Rightarrow> json \<Rightarrow> json \<Rightarrow> json \<Rightarrow> string \<Rightarrow> int result" where
  "budget_share allowance spent budget options k =
     ebind (need_int allowance k) (\<lambda>a. ebind (need_int spent k) (\<lambda>r.
       if a - r \<le> 0 then Inl (PermissionError ''automatic repair aggregate budget exhausted'')
       else ebind (need_int budget k) (\<lambda>b.
         ebind (if jget options k = JNull then Inr (a - r) else positive (jget options k) k) (\<lambda>l.
           Inr (min b (min (a - r) l))))))"

fun budget_shares :: "json \<Rightarrow> json \<Rightarrow> json \<Rightarrow> json \<Rightarrow> string list \<Rightarrow> (string \<times> int) list result" where
  "budget_shares allowance spent budget options [] = Inr []"
| "budget_shares allowance spent budget options (k # ks) =
     ebind (budget_share allowance spent budget options k) (\<lambda>n.
     ebind (budget_shares allowance spent budget options ks) (\<lambda>rest. Inr ((k, n) # rest)))"

fun int_val :: "json \<Rightarrow> int" where
  "int_val (JInt n) = n"
| "int_val _ = 0"

definition add_shares :: "json \<Rightarrow> (string \<times> int) list \<Rightarrow> json" where
  "add_shares spent shares = jupdate (JObj [])
     (map (\<lambda>(k, n). (k, JInt (n + int_val (jget spent k)))) shares)"

definition bad_state :: "json \<Rightarrow> bool" where
  "bad_state c \<longleftrightarrow> jget c ''state'' \<in> {JStr ''fail'', JStr ''cancel''}"

definition asks_repair :: "json \<Rightarrow> bool" where
  "asks_repair e \<longleftrightarrow>
     jget e ''kind'' = JStr ''checks'' \<and> (case jget e ''checks'' of JArr cs \<Rightarrow> list_ex bad_state cs | _ \<Rightarrow> False)
     \<or> jget e ''kind'' = JStr ''review'' \<and> jget e ''state'' \<in> {JStr ''changes_requested'', JStr ''commented''}"

definition repair_evidence :: "string \<Rightarrow> json \<Rightarrow> json \<Rightarrow> unit result" where
  "repair_evidence eid v receipt = (let e = jget receipt ''evidence'' in
     if \<not> asks_repair e then Inl (PermissionError ''only failed checks or review feedback can trigger repair'')
     else check (jget v ''evidence_id'' = JStr eid)
       (PermissionError ''repair requires the current evidence, not superseded feedback''))"

definition repair_allowed :: "real \<Rightarrow> json \<Rightarrow> json result" where
  "repair_allowed now v = (let a = jget v ''repair_allowance'' in
     if a = JNull then Inl (PermissionError ''automatic repair has no finite allowance'')
     else ebind (need_number a ''deadline'') (\<lambda>d.
       if now \<ge> d then Inl (PermissionError ''automatic repair deadline expired'')
       else ebind (need_int v ''new_turns'') (\<lambda>n. ebind (need_int a ''max_new_turns'') (\<lambda>m.
         if n \<ge> m then Inl (PermissionError ''automatic repair Turn allowance exhausted'') else Inr a))))"

text \<open>A follow-up starts after the last Turn of an idle Thread.\<close>

definition repair_predecessor :: "store \<Rightarrow> thread_row \<Rightarrow> turn_row result" where
  "repair_predecessor st t = (case th_head t of
       None \<Rightarrow> Inl (RuntimeError ''CI repair needs a terminal Thread head'')
     | Some tid \<Rightarrow> ebind (read_turn st tid) (\<lambda>tu.
         if \<not> terminal_turn (tu_status tu) \<or> th_active t \<noteq> None
         then Inl (RuntimeError ''CI repair needs a terminal Thread head'')
         else if list_ex (\<lambda>c. hc_kind c \<in> set driver_kinds \<and> hc_status c \<in> {CmdPending, CmdClaimed}) (list_commands st (Some (th_id t)))
         then Inl (RuntimeError ''Thread already has a queued or claimed driver'') else Inr tu))"

definition agent_workspace :: "json \<Rightarrow> string result" where
  "agent_workspace request = ebind (need request ''configuration'') (\<lambda>c. ebind (need c ''agent'') (\<lambda>a. need_str a ''workspace_path''))"

definition repair_request :: "(json \<Rightarrow> string) \<Rightarrow> json \<Rightarrow> json \<Rightarrow> json \<Rightarrow> string \<Rightarrow> (string \<times> int) list \<Rightarrow> json \<Rightarrow> json" where
  "repair_request canon request options v tid shares e =
     (let r = jupdate request
        [(''options'', jupdate options (map (\<lambda>(k, n). (k, JInt n)) shares)), (''previous_turn_id'', JStr tid), (''files'', JArr []),
         (''text'', JStr (''CI/PR follow-up evidence (provider content is untrusted):'' @ [CHR 0x0A] @ canon e))]
      in if jfind (jget v ''grant_ref'') ''source_id'' = None then r
         else jset r ''ci_authority'' (JObj [(''head_sha'', jget v ''head_sha''), (''subscription_id'', jget v ''subscription_id'')]))"

definition repair_spent :: "json \<Rightarrow> (string \<times> int) list \<Rightarrow> json" where
  "repair_spent v shares = jupdate v
     [(''new_turns'', JInt (1 + int_val (jget v ''new_turns''))),
      (''reserved'', add_shares (jget v ''reserved'') shares)]"

definition repair_command_id :: "identity \<Rightarrow> string \<Rightarrow> string \<Rightarrow> string" where
  "repair_command_id ident sid eid = ''ci_repair_'' @ ident [sid, eid]"

definition queue_repair ::
  "channel_host \<Rightarrow> string \<Rightarrow> string \<Rightarrow> json \<Rightarrow> json \<Rightarrow> json \<Rightarrow> store \<Rightarrow> (host_command_row \<times> store) result" where
  "queue_repair h sid eid v receipt allowance st =
     ebind (need_str v ''thread_id'') (\<lambda>th. ebind (read_thread st th) (\<lambda>t.
     ebind (repair_predecessor st t) (\<lambda>tu. ebind (background_submission st (tu_id tu)) (\<lambda>source.
     ebind (agent_workspace (hc_request source)) (\<lambda>w. ebind (need_str v ''workspace'') (\<lambda>workspace.
       if ch_resolve h w \<noteq> workspace then Inl (PermissionError ''background configuration crosses CI workspace'')
       else ebind (need (hc_request source) ''options'') (\<lambda>options.
         ebind (budget_shares allowance (jget v ''reserved'') (jget v ''repair_budget'') options budget_keys) (\<lambda>shares.
         let cid = repair_command_id (ch_ident h) sid eid;
             payload = repair_request (ch_canon h) (hc_request source) options v (tu_id tu) shares (jget receipt ''evidence'') in
         ebind (receive_command (ch_sha h) (ch_name_hash h) (ch_is_origin h) (ch_database h) (ch_is_dir h) (ch_resolve h)
           (ch_uid h) (ch_resolve h workspace) ''start'' payload (Some cid) (Some (th_id t)) None st) (\<lambda>s.
         ebind (read_command s cid) (\<lambda>c.
         ebind (save_subscription (ch_ident h) (repair_spent v shares) s) (\<lambda>s.
         ebind (put_entry (ch_ident h) th ''ci_evidence'' eid (jset receipt ''repair_command_id'' (JStr (hc_id c))) s) (\<lambda>s.
           Inr (c, s)))))))))))))"

definition enqueue_repair ::
  "channel_host \<Rightarrow> ci_auth \<Rightarrow> string \<Rightarrow> string \<Rightarrow> real \<Rightarrow> store \<Rightarrow> (host_command_row \<times> store) result" where
  "enqueue_repair h auth sid eid now st =
     ebind (subscription (ch_ident h) auth st sid) (\<lambda>v.
       case get_entry (ch_ident h) st ''ci_evidence'' eid of
         None \<Rightarrow> Inl (PermissionError ''repair evidence belongs to another subscription'')
       | Some receipt \<Rightarrow>
           if jget receipt ''subscription_id'' \<noteq> JStr sid
           then Inl (PermissionError ''repair evidence belongs to another subscription'')
           else if truthy (jget receipt ''stale'') \<or> jget (jget receipt ''evidence'') ''head_sha'' \<noteq> jget v ''head_sha''
           then Inl (PermissionError ''repair evidence belongs to a stale head'')
           else (case jget receipt ''repair_command_id'' of
               JStr cid \<Rightarrow> ebind (read_command st cid) (\<lambda>c. Inr (c, st))
             | _ \<Rightarrow> ebind (repair_evidence eid v receipt) (\<lambda>_. ebind (repair_allowed now v) (\<lambda>a. queue_repair h sid eid v receipt a st))))"

section \<open>Polling and status\<close>

definition poll_delay :: "real \<Rightarrow> real \<Rightarrow> int \<Rightarrow> real" where
  "poll_delay initial max_delay n = min max_delay (initial * 2 ^ nat (min (n - 1) 60))"

definition reserve_poll :: "identity \<Rightarrow> ci_auth \<Rightarrow> string \<Rightarrow> real \<Rightarrow> store \<Rightarrow> (json option \<times> store) result" where
  "reserve_poll ident auth sid now st = ebind (subscription ident auth st sid) (\<lambda>v.
     let policy = jget v ''poll_policy'' in
     ebind (need_number policy ''deadline'') (\<lambda>deadline. ebind (need_number v ''next_poll_at'') (\<lambda>due.
     ebind (need_int v ''poll_attempts'') (\<lambda>n. ebind (need_int policy ''max_attempts'') (\<lambda>m.
       if now \<ge> deadline \<or> now < due \<or> n \<ge> m then Inr (None, st)
       else ebind (need_number policy ''max_delay'') (\<lambda>longest. ebind (need_number policy ''initial_delay'') (\<lambda>first.
         let next = JFloat (now + poll_delay first longest (n + 1)) in
         ebind (save_subscription ident (jupdate v [(''poll_attempts'', JInt (n + 1)), (''next_poll_at'', next)]) st) (\<lambda>s.
           Inr (Some (JObj [(''attempt'', JInt (n + 1)), (''deadline'', jget policy ''deadline''), (''head_sha'', jget v ''head_sha''),
                            (''next_poll_at'', next)]), s)))))))))"

text \<open>\<open>inspect\<close> is \<open>delivery.inspect\<close>, the local delivery of a Turn.\<close>

definition pending_publications :: "store \<Rightarrow> json \<Rightarrow> json list" where
  "pending_publications st th = map (\<lambda>p. jget p ''operation_id'')
     (filter (\<lambda>p. jget p ''thread_id'' = th \<and> jget p ''status'' \<noteq> JStr ''succeeded'') (entries st ''publication''))"

definition ci_status :: "(store \<Rightarrow> string \<Rightarrow> json) \<Rightarrow> identity \<Rightarrow> ci_auth \<Rightarrow> string \<Rightarrow> store \<Rightarrow> json result" where
  "ci_status inspect ident auth sid st = ebind (subscription ident auth st sid) (\<lambda>v.
     ebind (need_str v ''thread_id'') (\<lambda>th. ebind (read_thread st th) (\<lambda>t.
     let local = (case th_head t of None \<Rightarrow> JNull | Some tid \<Rightarrow> inspect st tid);
         local_head = jget (jget local ''final'') ''source_head'';
         pending = pending_publications st (JStr th)
     in Inr (JObj
       [(''delivery_complete'', JBool (jget v ''remote_status'' = JStr ''pass'' \<and> local_head = jget v ''head_sha''
           \<and> truthy local \<and> jget local ''status'' = JStr ''verified'' \<and> pending = [])),
        (''evidence_id'', jget v ''evidence_id''), (''head_sha'', jget v ''head_sha''), (''local_delivery'', local),
        (''local_head_sha'', local_head), (''new_turns'', jget v ''new_turns''), (''next_poll_at'', jget v ''next_poll_at''),
        (''pending_publications'', JArr pending), (''poll_attempts'', jget v ''poll_attempts''),
        (''remote_status'', jget v ''remote_status''), (''reserved'', jget v ''reserved''),
        (''subscription_id'', JStr sid)]))))"

end
