(* ===== verification/Ci_Events.thy ===== *)
theory Ci_Events
  imports Ci_Ops
begin

text \<open>
  \<open>channels/ci.py\<close>: what the provider's events and polls do to the subscriptions. Every
  operation of \<open>Ci_Ops\<close> is called with the authorisation of the subscription's own grant. A
  refused repair is followed by the store before it: all its writes come after its last refusal (\<open>nothing_refused_late\<close>
  in \<open>Ci_Repairs\<close>).
\<close>

section \<open>Authorisation by the subscription's grant\<close>

definition granted :: "identity \<Rightarrow> bool \<Rightarrow> ci_auth" where
  "granted ident repair st v = ebind (authorize_ci ident st v repair) (\<lambda>_. Inr True)"

fun permission_error :: "py_error \<Rightarrow> bool" where
  "permission_error (PermissionError _) = True"
| "permission_error _ = False"

text \<open>\<open>except (PermissionError, RuntimeError)\<close>; the name of the class is what \<open>ci_action\<close> keeps.\<close>

fun waiting_reason :: "py_error \<Rightarrow> string option" where
  "waiting_reason (PermissionError _) = Some ''PermissionError''"
| "waiting_reason (RuntimeError _) = Some ''RuntimeError''"
| "waiting_reason _ = None"

section \<open>Check runs\<close>

fun digits_value :: "int \<Rightarrow> string \<Rightarrow> int option" where
  "digits_value n [] = Some n"
| "digits_value n (c # cs) = (if 48 \<le> (of_char c :: int) \<and> (of_char c :: int) \<le> 57
     then digits_value (10 * n + (of_char c - 48)) cs else None)"

text \<open>\<open>int(value)\<close> of the decimal text the provider writes.\<close>

fun int_of :: "json \<Rightarrow> int result" where
  "int_of (JInt n) = Inr n"
| "int_of (JStr []) = Inl (ValueError ''invalid literal for int()'')"
| "int_of (JStr s) = require (digits_value 0 s) (ValueError ''invalid literal for int()'')"
| "int_of _ = Inl (TypeError ''int() argument'')"

definition run_state :: "json \<Rightarrow> string" where
  "run_state native =
     (if jget native ''status'' \<noteq> JStr ''completed'' then ''pending''
      else if jget native ''conclusion'' = JStr ''success'' then ''pass''
      else if jget native ''conclusion'' \<in> JStr ` set [''failure'', ''timed_out'', ''action_required'', ''startup_failure''] then ''fail''
      else if jget native ''conclusion'' = JStr ''cancelled'' then ''cancel''
      else ''skipping'')"

definition run_result :: "string \<Rightarrow> string \<Rightarrow> int \<Rightarrow> json" where
  "run_result cid state run = JObj [(''id'', JStr cid), (''run'', JInt run), (''state'', JStr state)]"

text \<open>The results of a head after a run reported: a rerun invalidates the result, a competing run makes it
  pending, a late start of a finished run is ignored (\<open>None\<close>).\<close>

definition results_after :: "json \<Rightarrow> string \<Rightarrow> int \<Rightarrow> string \<Rightarrow> bool \<Rightarrow> json option" where
  "results_after results cid run state rerequested =
     (if rerequested
      then Some (jset results cid (jset (run_result cid ''pending'' run) ''invalidated'' (JBool True)))
      else case jfind results cid of
          None \<Rightarrow> Some (jset results cid (run_result cid state run))
        | Some old \<Rightarrow>
            if jget old ''run'' \<noteq> JInt run \<and> state \<noteq> ''pending''
            then Some (jset results cid (jset old ''state'' (JStr ''pending'')))
            else if jget old ''run'' = JInt run \<and> truthy (jget old ''invalidated'') then Some results
            else if jget old ''run'' = JInt run \<and> jget old ''state'' \<noteq> JStr ''pending'' \<and> state = ''pending'' then None
            else Some (jset results cid (run_result cid state run)))"

definition result_checks :: "json \<Rightarrow> json" where
  "result_checks results = JArr (map (\<lambda>(_, r). JObj [(''id'', jget r ''id''), (''state'', jget r ''state'')])
     (case results of JObj kvs \<Rightarrow> kvs | _ \<Rightarrow> []))"

definition event_evidence :: "envelope \<Rightarrow> json \<Rightarrow> json \<Rightarrow> json" where
  "event_evidence e native v = JObj
     [(''event_id'', JStr (en_event e)), (''head_sha'', jget native ''head_sha''), (''pull_request'', jget v ''pull_request''),
      (''repository'', jget v ''repository''), (''source_id'', JStr (en_source e))]"

text \<open>The evidence of a check run, and the subscription with the results of its own head.\<close>

definition check_evidence :: "envelope \<Rightarrow> json \<Rightarrow> json \<Rightarrow> string \<Rightarrow> (json \<times> json option) option result" where
  "check_evidence e native v cid =
     ebind (need native ''head_sha'') (\<lambda>head. ebind (need native ''check_id'') (\<lambda>raw. ebind (int_of raw) (\<lambda>run.
     ebind (need native ''action'') (\<lambda>action.
     let own = (head = jget v ''head_sha'');
         results = (if own then (case jfind v ''check_results'' of None \<Rightarrow> JObj [] | Some r \<Rightarrow> r) else JObj [])
     in case results_after results cid run (run_state native) (action = JStr ''rerequested'') of
          None \<Rightarrow> Inr None
        | Some new \<Rightarrow> Inr (Some
            (jupdate (event_evidence e native v) [(''kind'', JStr ''checks''), (''checks'', result_checks new)],
             if own then Some (jset v ''check_results'' new) else None))))))"

section \<open>Reviews\<close>

definition lower_letter :: "char \<Rightarrow> char" where
  "lower_letter c = (if 65 \<le> (of_char c :: nat) \<and> (of_char c :: nat) \<le> 90 then char_of ((of_char c :: nat) + 32) else c)"

definition review_state_text :: "json \<Rightarrow> string result" where
  "review_state_text v = (if truthy v then (case v of JStr s \<Rightarrow> Inr (map lower_letter s) | _ \<Rightarrow> Inl (TypeError ''state''))
     else Inr ''commented'')"

definition review_evidence :: "envelope \<Rightarrow> json \<Rightarrow> json \<Rightarrow> json result" where
  "review_evidence e native v =
     ebind (need native ''review_id'') (\<lambda>rid. ebind (need native ''event'') (\<lambda>event.
     ebind (review_state_text (jget native ''state'')) (\<lambda>state. Inr (jupdate (event_evidence e native v)
       [(''kind'', JStr ''review''), (''review_id'', rid),
        (''review_kind'', JStr (if event = JStr ''pull_request_review_comment'' then ''comment'' else ''review'')),
        (''state'', JStr state), (''reviewer_id'', jget native ''reviewer_id''), (''submitted_at'', jget native ''submitted_at''),
        (''text'', JStr (en_text e)), (''path'', jget native ''path''), (''line'', jget native ''line''),
        (''commit_id'', jget native ''commit_id''),
        (''head_sha'', if truthy (jget native ''commit_id'') then jget native ''commit_id'' else jget native ''head_sha'')]))))"

section \<open>One event, one subscription\<close>

text \<open>A push: the next head is taken up only when it follows the subscribed one.\<close>

definition synchronize :: "identity \<Rightarrow> envelope \<Rightarrow> json \<Rightarrow> json \<Rightarrow> store \<Rightarrow> store result" where
  "synchronize ident e native v st =
     ebind (need native ''head_sha'') (\<lambda>head.
       if jget native ''before_sha'' = jget v ''head_sha''
       then ebind (need_str v ''subscription_id'') (\<lambda>sid. case head of
           JStr s \<Rightarrow> update_head ident (granted ident False) sid s st
         | _ \<Rightarrow> Inl (ValueError ''head_sha must be a nonempty string''))
       else if head \<noteq> jget v ''head_sha''
       then ebind (need_str v ''thread_id'') (\<lambda>th. put_entry ident th ''ci_head_observation'' (en_event e)
         (JObj [(''before_sha'', jget native ''before_sha''), (''head_sha'', head),
                (''reason'', JStr ''noncontiguous_head_requires_explicit_selection''),
                (''subscription_id'', jget v ''subscription_id''), (''thread_id'', JStr th)]) st)
       else Inr st)"

text \<open>A repair that is refused for now leaves a note; any other error ends the event.\<close>

definition try_repair :: "channel_host \<Rightarrow> string \<Rightarrow> string \<Rightarrow> string \<Rightarrow> real \<Rightarrow> store \<Rightarrow> store result" where
  "try_repair h th sid eid now st = (case enqueue_repair h (granted (ch_ident h) True) sid eid now st of
       Inr (c, s) \<Rightarrow> Inr s
     | Inl err \<Rightarrow> (case waiting_reason err of
           None \<Rightarrow> Inl err
         | Some reason \<Rightarrow> put_entry (ch_ident h) th ''ci_action'' eid
             (JObj [(''evidence_id'', JStr eid), (''reason'', JStr reason), (''status'', JStr ''waiting''),
                    (''subscription_id'', JStr sid), (''thread_id'', JStr th)]) st))"

definition submit_evidence ::
  "channel_host \<Rightarrow> (json \<Rightarrow> real option) \<Rightarrow> json \<Rightarrow> json \<Rightarrow> real \<Rightarrow> store \<Rightarrow> store result" where
  "submit_evidence h clock v evidence now st =
     ebind (need_str v ''subscription_id'') (\<lambda>sid. ebind (need_str v ''thread_id'') (\<lambda>th.
     ebind (record_evidence h clock (granted (ch_ident h) False) (\<lambda>_. True) sid evidence now st) (\<lambda>(receipt, s).
       if jget v ''repair_allowance'' \<noteq> JNull \<and> \<not> truthy (jget receipt ''stale'')
       then ebind (need_str receipt ''evidence_id'') (\<lambda>eid. try_repair h th sid eid now s) else Inr s)))"

definition apply_event ::
  "channel_host \<Rightarrow> (json \<Rightarrow> real option) \<Rightarrow> envelope \<Rightarrow> json \<Rightarrow> real \<Rightarrow> store \<Rightarrow> store result" where
  "apply_event h clock e v now st = (let native = en_evidence e in
     ebind (need native ''event'') (\<lambda>event.
     ebind (if event = JStr ''pull_request'' then need native ''action'' else Inr JNull) (\<lambda>action.
       if event = JStr ''pull_request'' \<and> action = JStr ''synchronize'' then synchronize (ch_ident h) e native v st
       else if event = JStr ''check_run''
       then (case jget native ''check_identity'' of
           JStr cid \<Rightarrow>
             if JStr cid \<notin> set (check_ids v) then Inr st
             else ebind (check_evidence e native v cid) (\<lambda>found. case found of
                 None \<Rightarrow> Inr st
               | Some (evidence, changed) \<Rightarrow>
                   ebind (case changed of None \<Rightarrow> Inr st | Some w \<Rightarrow> save_subscription (ch_ident h) w st) (\<lambda>s.
                     submit_evidence h clock v evidence now s))
         | _ \<Rightarrow> Inr st)
       else if event \<in> JStr ` set [''pull_request_review'', ''pull_request_review_comment'']
       then ebind (review_evidence e native v) (\<lambda>evidence. submit_evidence h clock v evidence now st)
       else Inr st)))"

definition concerns :: "envelope \<Rightarrow> json \<Rightarrow> bool" where
  "concerns e v \<longleftrightarrow> truthy (jget v ''enabled'') \<and> jget v ''source_id'' = JStr (en_source e)
     \<and> jget v ''repository'' = jget (en_evidence e) ''repository'' \<and> jget v ''pull_request'' = jget (en_evidence e) ''pull_request''"

definition consume_one ::
  "channel_host \<Rightarrow> (json \<Rightarrow> real option) \<Rightarrow> envelope \<Rightarrow> real \<Rightarrow> json \<Rightarrow> store \<Rightarrow> store result" where
  "consume_one h clock e now v st =
     (if \<not> concerns e v then Inr st
      else case authorize_ci (ch_ident h) st v False of
          Inl err \<Rightarrow> if permission_error err then Inr st else Inl err
        | Inr _ \<Rightarrow> apply_event h clock e v now st)"

definition consume :: "channel_host \<Rightarrow> (json \<Rightarrow> real option) \<Rightarrow> envelope \<Rightarrow> real \<Rightarrow> store \<Rightarrow> store result" where
  "consume h clock e now st =
     (if jget (en_evidence e) ''provider'' \<noteq> JStr ''github'' then Inr st
      else chain (map (consume_one h clock e now) (entries st ''ci_subscription'')) st)"

section \<open>Waiting repairs\<close>

definition resume_one :: "channel_host \<Rightarrow> real \<Rightarrow> json \<Rightarrow> store \<Rightarrow> store result" where
  "resume_one h now v st =
     (if \<not> truthy (jget v ''enabled'') \<or> jget v ''repair_allowance'' = JNull \<or> jget v ''evidence_id'' = JNull then Inr st
      else ebind (need_str v ''subscription_id'') (\<lambda>sid. ebind (need_str v ''evidence_id'') (\<lambda>eid.
        case enqueue_repair h (granted (ch_ident h) True) sid eid now st of
          Inr (c, s) \<Rightarrow> Inr s
        | Inl err \<Rightarrow> if waiting_reason err = None then Inl err else Inr st)))"

definition resume_eligible :: "channel_host \<Rightarrow> real \<Rightarrow> store \<Rightarrow> store result" where
  "resume_eligible h now st = chain (map (resume_one h now) (entries st ''ci_subscription'')) st"

section \<open>Polls\<close>

text \<open>The first subscription that may be polled; the poll is spent before the query.\<close>

fun reserve_first :: "identity \<Rightarrow> real \<Rightarrow> json list \<Rightarrow> store \<Rightarrow> ((json \<times> json) option \<times> store) result" where
  "reserve_first ident now [] st = Inr (None, st)"
| "reserve_first ident now (v # vs) st =
     (if \<not> truthy (jget v ''enabled'') then reserve_first ident now vs st
      else ebind (need_str v ''subscription_id'') (\<lambda>sid. case reserve_poll ident (granted ident False) sid now st of
          Inl err \<Rightarrow> if permission_error err then reserve_first ident now vs st else Inl err
        | Inr (None, s) \<Rightarrow> reserve_first ident now vs s
        | Inr (Some token, s) \<Rightarrow> Inr (Some (v, token), s)))"

definition poll_reserve :: "identity \<Rightarrow> real \<Rightarrow> store \<Rightarrow> ((json \<times> json) option \<times> store) result" where
  "poll_reserve ident now st = reserve_first ident now (entries st ''ci_subscription'') st"

definition listed_checks :: "json \<Rightarrow> json \<Rightarrow> json list" where
  "listed_checks snapshot v = (case jget snapshot ''checks'' of
       JArr cs \<Rightarrow> filter (\<lambda>c. jget c ''id'' \<in> set (check_ids v)) cs | _ \<Rightarrow> [])"

definition poll_key :: "(int \<Rightarrow> string) \<Rightarrow> string \<Rightarrow> json \<Rightarrow> string" where
  "poll_key show_int sid token = sid @ '':'' @ (case jget token ''attempt'' of JInt n \<Rightarrow> show_int n | _ \<Rightarrow> [])"

definition poll_evidence :: "(int \<Rightarrow> string) \<Rightarrow> string \<Rightarrow> json \<Rightarrow> json \<Rightarrow> json \<Rightarrow> json" where
  "poll_evidence show_int sid v token snapshot = JObj
     [(''checks'', JArr (map (\<lambda>c. JObj [(''id'', jget c ''id''), (''state'', jget c ''state'')]) (listed_checks snapshot v))),
      (''event_id'', JStr (''poll:'' @ poll_key show_int sid token)), (''head_sha'', jget snapshot ''head_sha''),
      (''kind'', case jfind snapshot ''kind'' of None \<Rightarrow> JStr ''checks'' | Some k \<Rightarrow> k),
      (''pull_request'', jget v ''pull_request''), (''repository'', jget v ''repository''), (''source_id'', jget v ''source_id'')]"

definition keyed_results :: "json list \<Rightarrow> json" where
  "keyed_results cs = jupdate (JObj []) (map (\<lambda>c. (case jget c ''id'' of JStr s \<Rightarrow> s | _ \<Rightarrow> [], c)) cs)"

text \<open>What the snapshot does to the stored subscription before the evidence is recorded: a foreign head is
  noted, the results of the own head are taken over.\<close>

definition note_head :: "identity \<Rightarrow> json \<Rightarrow> json \<Rightarrow> json \<Rightarrow> store \<Rightarrow> (json \<times> store) result" where
  "note_head ident token seen current st =
     (if seen = jget token ''head_sha'' then Inr (current, st)
      else let w = jupdate current [(''remote_status'', JStr ''head_mismatch''), (''observed_remote_head'', seen)]
        in ebind (save_subscription ident w st) (\<lambda>s. Inr (w, s)))"

definition take_results :: "identity \<Rightarrow> json \<Rightarrow> json \<Rightarrow> json \<Rightarrow> store \<Rightarrow> store result" where
  "take_results ident v snapshot current st =
     (if jget snapshot ''head_sha'' = jget current ''head_sha'' \<and> jget snapshot ''kind'' \<noteq> JStr ''query_error''
      then save_subscription ident (jset current ''check_results'' (keyed_results (listed_checks snapshot v))) st
      else Inr st)"

definition poll_commit ::
  "channel_host \<Rightarrow> (json \<Rightarrow> real option) \<Rightarrow> (int \<Rightarrow> string) \<Rightarrow> json \<Rightarrow> json \<Rightarrow> json \<Rightarrow> real \<Rightarrow> store \<Rightarrow> store result" where
  "poll_commit h clock show_int v token snapshot now st =
     ebind (need_str v ''subscription_id'') (\<lambda>sid.
     case get_entry (ch_ident h) st ''ci_subscription'' sid of
       None \<Rightarrow> Inr st
     | Some current \<Rightarrow>
         if jget current ''head_sha'' \<noteq> jget token ''head_sha'' then Inr st
         else ebind (authorize_ci (ch_ident h) st current False) (\<lambda>_.
           if jget current ''evidence_id'' \<noteq> jget v ''evidence_id'' \<or> jget current ''check_results'' \<noteq> jget v ''check_results''
           then ebind (need_str current ''thread_id'') (\<lambda>th.
             put_entry (ch_ident h) th ''ci_poll_observation'' (poll_key show_int sid token)
               (JObj [(''reason'', JStr ''superseded_during_query''), (''snapshot'', snapshot),
                      (''subscription_id'', JStr sid), (''thread_id'', JStr th)]) st)
           else ebind (note_head (ch_ident h) token (jget snapshot ''head_sha'') current st) (\<lambda>(w, s).
             ebind (take_results (ch_ident h) v snapshot w s) (\<lambda>s.
             ebind (record_evidence h clock (granted (ch_ident h) False) (\<lambda>_. True) sid
               (poll_evidence show_int sid v token snapshot) now s) (\<lambda>(r, s). resume_eligible h now s)))))"

end
