(* ===== verification/Ci_Laws.thy ===== *)
theory Ci_Laws
  imports Ci_Events Channel_Refinement
begin

text \<open>
  The contract of a CI subscription: how its stored value may change, the bounds on what it spends and
  the evidence behind its status. \<open>Ci_Moves\<close> shows that every operation keeps to it.
\<close>

section \<open>Updates of objects\<close>

lemma jupdate_Nil [simp]: "jupdate v [] = v"
  by (simp add: jupdate_def)

lemma jupdate_Cons [simp]: "jupdate v ((k, x) # kvs) = jupdate (jset v k x) kvs"
  by (simp add: jupdate_def)

lemma is_obj_jupdate [simp]: "is_obj v \<Longrightarrow> is_obj (jupdate v kvs)"
  by (induction kvs arbitrary: v) auto

lemma jget_jupdate: "is_obj v \<Longrightarrow> k \<notin> fst ` set kvs \<Longrightarrow> jget (jupdate v kvs) k = jget v k"
  by (induction kvs arbitrary: v) auto

lemma need_int_ok: "need_int v k = Inr n \<longleftrightarrow> jfind v k = Some (JInt n)"
  by (cases "jfind v k"; cases "the (jfind v k)") (auto simp: need_int_def need_def require_def)

lemma need_int_get: "need_int v k = Inr n \<Longrightarrow> jget v k = JInt n"
  by (simp add: need_int_ok jget_def)

lemma need_str_ok: "need_str v k = Inr s \<longleftrightarrow> jfind v k = Some (JStr s)"
  by (cases "jfind v k"; cases "the (jfind v k)") (auto simp: need_str_def need_def require_def)

lemma need_str_get: "need_str v k = Inr s \<Longrightarrow> jget v k = JStr s"
  by (simp add: need_str_ok jget_def)

lemma positive_ok: "positive v f = Inr n \<longleftrightarrow> v = JInt n \<and> 1 \<le> n"
  by (cases v) (auto simp: positive_def)

lemma positive_field_ok: "positive_field v k = Inr () \<longleftrightarrow> (\<exists>n. jfind v k = Some (JInt n) \<and> 1 \<le> n)"
  by (cases "jfind v k") (auto simp: positive_field_def need_def require_def ebind_eq_Inr positive_ok)

lemma all_checks_ok: "all_checks cs = Inr u \<Longrightarrow> c \<in> set cs \<Longrightarrow> c = Inr ()"
  by (induction cs) auto

section \<open>How a subscription changes\<close>

text \<open>The fields that no operation changes.\<close>

definition fixed_fields :: "string set" where
  "fixed_fields = {''subscription_id'', ''thread_id'', ''workspace'', ''source_id'', ''repository'', ''pull_request'', ''check_ids'',
     ''grant_ref'', ''poll_policy'', ''repair_allowance'', ''repair_budget'', ''configuration'', ''enabled''}"

fun is_int :: "json \<Rightarrow> bool" where
  "is_int (JInt n) = True"
| "is_int _ = False"

lemma is_int_val: "is_int v \<longleftrightarrow> v = JInt (int_val v)"
  by (cases v) auto

text \<open>One repair of these shares stays within the allowance.\<close>

definition share_fits :: "json \<Rightarrow> string \<times> int \<Rightarrow> bool" where
  "share_fits v p \<longleftrightarrow> int_val (jget (jget v ''reserved'') (fst p)) + snd p \<le> int_val (jget (jget v ''repair_allowance'') (fst p))
     \<and> (1 \<le> int_val (jget (jget v ''repair_budget'') (fst p)) \<longrightarrow> 1 \<le> snd p)"

definition spendable :: "json \<Rightarrow> (string \<times> int) list \<Rightarrow> bool" where
  "spendable v shares \<longleftrightarrow> jget v ''repair_allowance'' \<noteq> JNull
     \<and> int_val (jget v ''new_turns'') < int_val (jget (jget v ''repair_allowance'') ''max_new_turns'')
     \<and> map fst shares = budget_keys \<and> list_all (share_fits v) shares"

inductive sub_move :: "(json \<Rightarrow> real option) \<Rightarrow> json \<Rightarrow> json \<Rightarrow> bool" for clock where
  head_moved: "jget v ''head_sha'' \<noteq> JStr head \<Longrightarrow> sub_move clock v (head_moved head v)"
| judged: "evidence_valid v e = Inr cs \<Longrightarrow> jget e ''head_sha'' = jget v ''head_sha'' \<or> dismisses v e \<Longrightarrow>
    sub_move clock v (after_evidence clock eid e cs (jget e ''head_sha'' \<noteq> jget v ''head_sha'') v)"
| spent: "spendable v shares \<Longrightarrow> sub_move clock v (repair_spent v shares)"
| polled: "jget v ''poll_attempts'' = JInt n \<Longrightarrow> jget (jget v ''poll_policy'') ''max_attempts'' = JInt m \<Longrightarrow> n < m \<Longrightarrow>
    sub_move clock v (jupdate v [(''poll_attempts'', JInt (n + 1)), (''next_poll_at'', t)])"
| results_taken: "sub_move clock v (jset v ''check_results'' r)"
| foreign_head: "sub_move clock v (jupdate v [(''remote_status'', JStr ''head_mismatch''), (''observed_remote_head'', s)])"

lemma update_reviews_obj [simp]: "is_obj v \<Longrightarrow> is_obj (update_reviews clock v e)"
  by (auto simp: update_reviews_def Let_def split: json.splits)

lemma update_reviews_get:
  "is_obj v \<Longrightarrow> k \<noteq> ''reviews'' \<Longrightarrow> k \<noteq> ''review_state'' \<Longrightarrow> jget (update_reviews clock v e) k = jget v k"
  by (auto simp: update_reviews_def Let_def split: json.splits)

lemma with_evidence_obj [simp]: "is_obj v \<Longrightarrow> is_obj (with_evidence clock e cs v)"
  by (simp add: with_evidence_def)

lemma with_evidence_get:
  "is_obj v \<Longrightarrow> k \<notin> {''reviews'', ''review_state'', ''check_status''} \<Longrightarrow> jget (with_evidence clock e cs v) k = jget v k"
  by (auto simp: with_evidence_def update_reviews_get)

lemma after_evidence_get:
  "is_obj v \<Longrightarrow> k \<notin> {''reviews'', ''review_state'', ''check_status'', ''remote_status'', ''evidence_id''} \<Longrightarrow>
     jget (after_evidence clock eid e cs stale v) k = jget v k"
  by (simp add: after_evidence_def Let_def with_evidence_get)

lemma after_evidence_obj [simp]: "is_obj v \<Longrightarrow> is_obj (after_evidence clock eid e cs stale v)"
  by (simp add: after_evidence_def Let_def)

lemma sub_move_obj: "sub_move clock v w \<Longrightarrow> is_obj v \<Longrightarrow> is_obj w"
  by (cases rule: sub_move.cases) (auto simp: head_moved_def repair_spent_def)

lemma sub_move_fixed:
  assumes "sub_move clock v w" and "is_obj v" and "k \<in> fixed_fields"
  shows "jget w k = jget v k"
  using assms(1)
proof cases
  case (judged e cs eid)
  then show ?thesis using after_evidence_get [OF assms(2)] assms(3) by (auto simp: fixed_fields_def)
qed (use assms(2,3) in \<open>auto simp: head_moved_def repair_spent_def fixed_fields_def\<close>)

section \<open>What a subscription spends\<close>

definition polls_ok :: "json \<Rightarrow> bool" where
  "polls_ok v \<longleftrightarrow> is_int (jget v ''poll_attempts'') \<and> is_int (jget (jget v ''poll_policy'') ''max_attempts'')
     \<and> 0 \<le> int_val (jget v ''poll_attempts'')
     \<and> int_val (jget v ''poll_attempts'') \<le> int_val (jget (jget v ''poll_policy'') ''max_attempts'')"

definition repairs_ok :: "json \<Rightarrow> bool" where
  "repairs_ok v \<longleftrightarrow> is_int (jget v ''new_turns'') \<and> 0 \<le> int_val (jget v ''new_turns'')
     \<and> list_all (\<lambda>k. is_int (jget (jget v ''reserved'') k)
          \<and> int_val (jget v ''new_turns'') \<le> int_val (jget (jget v ''reserved'') k)) budget_keys
     \<and> (if jget v ''repair_allowance'' = JNull then int_val (jget v ''new_turns'') = 0
        else is_int (jget (jget v ''repair_allowance'') ''max_new_turns'')
          \<and> int_val (jget v ''new_turns'') \<le> int_val (jget (jget v ''repair_allowance'') ''max_new_turns'')
          \<and> list_all (\<lambda>k. is_int (jget (jget v ''repair_allowance'') k) \<and> is_int (jget (jget v ''repair_budget'') k)
               \<and> int_val (jget (jget v ''reserved'') k) \<le> int_val (jget (jget v ''repair_allowance'') k)
               \<and> 1 \<le> int_val (jget (jget v ''repair_budget'') k)) budget_keys)"

definition counters_ok :: "json \<Rightarrow> bool" where
  "counters_ok v \<longleftrightarrow> polls_ok v \<and> repairs_ok v"

definition counter_fields :: "string set" where
  "counter_fields = {''poll_attempts'', ''poll_policy'', ''new_turns'', ''reserved'', ''repair_allowance'', ''repair_budget''}"

lemma counters_cong: "(\<And>k. k \<in> counter_fields \<Longrightarrow> jget w k = jget v k) \<Longrightarrow> counters_ok w \<longleftrightarrow> counters_ok v"
  by (simp add: counters_ok_def polls_ok_def repairs_ok_def counter_fields_def)

lemma three_shares:
  "map fst shares = budget_keys \<Longrightarrow> \<exists>a b c. shares = [(''max_steps'', a), (''max_tokens_total'', b), (''max_cost_micros'', c)]"
  by (auto simp: budget_keys_def map_eq_Cons_conv)

lemma spent_gets:
  assumes "is_obj v"
  shows "jget (repair_spent v shares) ''new_turns'' = JInt (1 + int_val (jget v ''new_turns''))"
    and "jget (repair_spent v shares) ''reserved'' = add_shares (jget v ''reserved'') shares"
    and "k \<noteq> ''new_turns'' \<Longrightarrow> k \<noteq> ''reserved'' \<Longrightarrow> jget (repair_spent v shares) k = jget v k"
  using assms by (simp_all add: repair_spent_def)

lemma spent_counters:
  assumes "counters_ok v" and "is_obj v" and "spendable v shares"
  shows "counters_ok (repair_spent v shares)"
proof -
  from assms(3) three_shares obtain a b c where sh: "shares = [(''max_steps'', a), (''max_tokens_total'', b), (''max_cost_micros'', c)]"
    unfolding spendable_def by blast
  from assms have "polls_ok (repair_spent v shares)"
    by (simp add: counters_ok_def polls_ok_def spent_gets)
  moreover have "repairs_ok (repair_spent v shares)"
    using assms unfolding sh by (simp add: counters_ok_def repairs_ok_def spendable_def share_fits_def spent_gets add_shares_def budget_keys_def)
  ultimately show ?thesis by (simp add: counters_ok_def)
qed

lemma sub_move_counters:
  assumes "sub_move clock v w" and "is_obj v" and "counters_ok v"
  shows "counters_ok w"
  using assms(1)
proof cases
  case (head_moved head)
  have "counters_ok w \<longleftrightarrow> counters_ok v" using assms(2) by (intro counters_cong) (auto simp: head_moved_def head_moved(1) counter_fields_def)
  with assms(3) show ?thesis by simp
next
  case (judged e cs eid)
  have "counters_ok w \<longleftrightarrow> counters_ok v" unfolding judged(1)
    by (intro counters_cong after_evidence_get [OF assms(2)]) (auto simp: counter_fields_def)
  with assms(3) show ?thesis by simp
next
  case (spent shares)
  with spent_counters [OF assms(3,2)] show ?thesis by simp
next
  case (polled n m t)
  with assms(2,3) show ?thesis by (simp add: counters_ok_def polls_ok_def repairs_ok_def)
next
  case (results_taken r)
  have "counters_ok w \<longleftrightarrow> counters_ok v" using assms(2) by (intro counters_cong) (auto simp: results_taken counter_fields_def)
  with assms(3) show ?thesis by simp
next
  case (foreign_head s)
  have "counters_ok w \<longleftrightarrow> counters_ok v" using assms(2) by (intro counters_cong) (auto simp: foreign_head counter_fields_def)
  with assms(3) show ?thesis by simp
qed

text \<open>Nothing that was spent is given back.\<close>

definition spent_more :: "json \<Rightarrow> json \<Rightarrow> bool" where
  "spent_more v w \<longleftrightarrow> int_val (jget v ''new_turns'') \<le> int_val (jget w ''new_turns'')
     \<and> int_val (jget v ''poll_attempts'') \<le> int_val (jget w ''poll_attempts'')
     \<and> list_all (\<lambda>k. int_val (jget (jget v ''reserved'') k) \<le> int_val (jget (jget w ''reserved'') k)) budget_keys"

lemma spent_more_refl: "spent_more v v"
  by (simp add: spent_more_def list_all_iff)

lemma spent_more_trans: "spent_more u v \<Longrightarrow> spent_more v w \<Longrightarrow> spent_more u w"
  unfolding spent_more_def list_all_iff by (meson order_trans)

lemma same_spent: "(\<And>k. k \<in> {''new_turns'', ''poll_attempts'', ''reserved''} \<Longrightarrow> jget w k = jget v k) \<Longrightarrow> spent_more v w"
  by (simp add: spent_more_def list_all_iff)

lemma sub_move_spent:
  assumes "sub_move clock v w" and "is_obj v" and "counters_ok v"
  shows "spent_more v w"
  using assms(1)
proof cases
  case (judged e cs eid)
  show ?thesis unfolding judged(1) by (intro same_spent after_evidence_get [OF assms(2)]) auto
next
  case (spent shares)
  from spent(2) three_shares obtain a b c where sh: "shares = [(''max_steps'', a), (''max_tokens_total'', b), (''max_cost_micros'', c)]"
    unfolding spendable_def by blast
  show ?thesis using assms(2,3) spent unfolding sh
    by (simp add: spent_more_def counters_ok_def repairs_ok_def spendable_def share_fits_def spent_gets add_shares_def budget_keys_def)
next
  case (polled n m t)
  with assms(2) show ?thesis by (simp add: spent_more_def list_all_iff)
qed (use assms(2) in \<open>auto simp: head_moved_def intro!: same_spent\<close>)

end
