(* ===== verification/Ci_Moves.thy ===== *)
theory Ci_Moves
  imports Ci_Laws
begin

text \<open>
  Every operation on CI subscriptions keeps to the contract of \<open>Ci_Laws\<close>: it moves the entries
  of one subscription and its evidence, and no other subscription.
\<close>

section \<open>Moves of the entries\<close>

definition ci_kinds :: "string set" where
  "ci_kinds = {''ci_subscription'', ''ci_evidence''}"

definition sub_at :: "identity \<Rightarrow> (string \<Rightarrow> entry_view option) \<Rightarrow> string \<Rightarrow> string \<Rightarrow> json \<Rightarrow> bool" where
  "sub_at ident m sid th v \<longleftrightarrow> m (ident [''ci_subscription'', sid]) = Some (''ci_subscription'', sid, th, v)"

definition evidence_at :: "identity \<Rightarrow> (string \<Rightarrow> entry_view option) \<Rightarrow> string \<Rightarrow> string \<Rightarrow> json \<Rightarrow> bool" where
  "evidence_at ident m eid th w \<longleftrightarrow> m (ident [''ci_evidence'', eid]) = Some (''ci_evidence'', eid, th, w)"

definition fresh_sub :: "string \<Rightarrow> string \<Rightarrow> json \<Rightarrow> bool" where
  "fresh_sub sid th v \<longleftrightarrow> is_obj v \<and> jget v ''subscription_id'' = JStr sid \<and> jget v ''thread_id'' = JStr th
     \<and> counters_ok v \<and> jget v ''check_status'' = JStr ''pending'' \<and> jget v ''remote_status'' = JStr ''pending''"

text \<open>The evidence behind a pass: a fresh snapshot of the subscribed head in which exactly the subscribed
  checks are listed and all passed.\<close>

definition complete_pass :: "json \<Rightarrow> json \<Rightarrow> bool" where
  "complete_pass v e \<longleftrightarrow> jget e ''kind'' = JStr ''checks'' \<and> jget e ''head_sha'' = jget v ''head_sha''
     \<and> (\<exists>cs. jget e ''checks'' = JArr cs \<and> cs \<noteq> [] \<and> set (map (\<lambda>c. jget c ''id'') cs) = set (check_ids v)
          \<and> (\<forall>c \<in> set cs. jget c ''state'' = JStr ''pass''))"

definition proves :: "string \<Rightarrow> json \<Rightarrow> json \<Rightarrow> bool" where
  "proves sid v r \<longleftrightarrow> jget r ''subscription_id'' = JStr sid \<and> jget r ''stale'' = JBool False
     \<and> complete_pass v (jget r ''evidence'')"

definition backed :: "identity \<Rightarrow> (string \<Rightarrow> entry_view option) \<Rightarrow> string \<Rightarrow> json \<Rightarrow> bool" where
  "backed ident m sid v \<longleftrightarrow> (\<exists>eid th r. evidence_at ident m eid th r \<and> proves sid v r)"

definition same_ci :: "identity \<Rightarrow> (string \<Rightarrow> entry_view option) \<Rightarrow> (string \<Rightarrow> entry_view option) \<Rightarrow> bool" where
  "same_ci ident m m' \<longleftrightarrow> (\<forall>kind \<in> ci_kinds. \<forall>key. m' (ident [kind, key]) = m (ident [kind, key]))"

inductive ci_move ::
  "identity \<Rightarrow> (json \<Rightarrow> real option) \<Rightarrow> string \<Rightarrow> (string \<Rightarrow> entry_view option) \<Rightarrow> (string \<Rightarrow> entry_view option) \<Rightarrow> bool"
  for ident clock sid where
  elsewhere: "same_ci ident m m' \<Longrightarrow> ci_move ident clock sid m m'"
| subscribed: "m (ident [''ci_subscription'', sid]) = None \<Longrightarrow> fresh_sub sid th v \<Longrightarrow>
    ci_move ident clock sid m (m(ident [''ci_subscription'', sid] \<mapsto> (''ci_subscription'', sid, th, v)))"
| changed: "sub_at ident m sid th v \<Longrightarrow> sub_move clock v w \<Longrightarrow>
    (jget w ''check_status'' = JStr ''pass'' \<Longrightarrow> backed ident m sid w) \<Longrightarrow>
    ci_move ident clock sid m (m(ident [''ci_subscription'', sid] \<mapsto> (''ci_subscription'', sid, th, w)))"
| recorded: "m (ident [''ci_evidence'', eid]) = None \<Longrightarrow> is_obj r \<Longrightarrow>
    ci_move ident clock sid m (m(ident [''ci_evidence'', eid] \<mapsto> (''ci_evidence'', eid, th, r)))"
| answered: "evidence_at ident m eid th r \<Longrightarrow> (\<And>c. jget r ''repair_command_id'' \<noteq> JStr c) \<Longrightarrow>
    ci_move ident clock sid m (m(ident [''ci_evidence'', eid] \<mapsto> (''ci_evidence'', eid, th, jset r ''repair_command_id'' (JStr cid))))"

definition sub_ok :: "identity \<Rightarrow> (string \<Rightarrow> entry_view option) \<Rightarrow> string \<Rightarrow> string \<Rightarrow> json \<Rightarrow> bool" where
  "sub_ok ident m sid th v \<longleftrightarrow> is_obj v \<and> jget v ''subscription_id'' = JStr sid \<and> jget v ''thread_id'' = JStr th
     \<and> counters_ok v \<and> (jget v ''check_status'' = JStr ''pass'' \<longrightarrow> backed ident m sid v)
     \<and> (jget v ''remote_status'' = JStr ''pass'' \<longrightarrow>
          jget v ''check_status'' = JStr ''pass'' \<and> jget v ''review_state'' \<noteq> JStr ''changes_requested'')"

definition ci_ok :: "identity \<Rightarrow> (string \<Rightarrow> entry_view option) \<Rightarrow> bool" where
  "ci_ok ident m \<longleftrightarrow> (\<forall>sid th v. sub_at ident m sid th v \<longrightarrow> sub_ok ident m sid th v)
     \<and> (\<forall>eid th r. evidence_at ident m eid th r \<longrightarrow> is_obj r)"

lemma at_elsewhere:
  assumes "same_ci ident m m'"
  shows "sub_at ident m' sid th v = sub_at ident m sid th v" and "evidence_at ident m' eid th r = evidence_at ident m eid th r"
  using assms by (simp_all add: sub_at_def evidence_at_def ci_kinds_def same_ci_def)

lemma at_put_sub:
  assumes "inj ident"
  shows "sub_at ident (m(ident [''ci_subscription'', sid] \<mapsto> (''ci_subscription'', sid, th, w))) s t v
      \<longleftrightarrow> (if s = sid then t = th \<and> v = w else sub_at ident m s t v)"
    and "evidence_at ident (m(ident [''ci_subscription'', sid] \<mapsto> x)) eid t r = evidence_at ident m eid t r"
  using assms by (auto simp: sub_at_def evidence_at_def inj_eq)

lemma at_put_evidence:
  assumes "inj ident"
  shows "evidence_at ident (m(ident [''ci_evidence'', eid] \<mapsto> (''ci_evidence'', eid, th, w))) e t r
      \<longleftrightarrow> (if e = eid then t = th \<and> r = w else evidence_at ident m e t r)"
    and "sub_at ident (m(ident [''ci_evidence'', eid] \<mapsto> x)) sid t v = sub_at ident m sid t v"
  using assms by (auto simp: sub_at_def evidence_at_def inj_eq)

text \<open>Evidence never loses what it proves.\<close>

lemma backed_mono:
  assumes "backed ident m sid v"
    and "\<And>eid th r. evidence_at ident m eid th r \<Longrightarrow> proves sid v r \<Longrightarrow> \<exists>th' r'. evidence_at ident m' eid th' r' \<and> proves sid v r'"
  shows "backed ident m' sid v"
  using assms unfolding backed_def by blast

lemma backed_cong: "jget w ''head_sha'' = jget v ''head_sha'' \<Longrightarrow> jget w ''check_ids'' = jget v ''check_ids'' \<Longrightarrow>
    backed ident m sid w = backed ident m sid v"
  by (simp add: backed_def proves_def complete_pass_def check_ids_def)

lemma move_backed:
  assumes "ci_move ident clock sid m m'" and "inj ident" and "ci_ok ident m" and "backed ident m s v"
  shows "backed ident m' s v"
  using assms(1)
proof cases
  case elsewhere
  with assms(4) show ?thesis by (simp add: backed_def at_elsewhere [OF elsewhere])
next
  case (subscribed th w)
  with assms(2,4) show ?thesis by (simp add: backed_def at_put_sub)
next
  case (changed th x w)
  with assms(2,4) show ?thesis by (simp add: backed_def at_put_sub)
next
  case (recorded eid r th)
  show ?thesis
  proof (rule backed_mono [OF assms(4)])
    fix e t q
    assume e: "evidence_at ident m e t q" "proves s v q"
    with recorded(2) have "e \<noteq> eid" by (auto simp: evidence_at_def)
    with e show "\<exists>th' r'. evidence_at ident m' e th' r' \<and> proves s v r'"
      unfolding recorded(1) at_put_evidence(1) [OF assms(2)] by auto
  qed
next
  case (answered eid th r cid)
  show ?thesis
  proof (rule backed_mono [OF assms(4)])
    fix e t q
    assume e: "evidence_at ident m e t q" "proves s v q"
    from answered(2) assms(3) have r: "is_obj r" by (auto simp: ci_ok_def)
    have "proves s v (jset r ''repair_command_id'' (JStr cid))" if "e = eid"
      using e that answered(2) r by (auto simp: evidence_at_def proves_def)
    with e show "\<exists>th' r'. evidence_at ident m' e th' r' \<and> proves s v r'"
      unfolding answered(1) at_put_evidence(1) [OF assms(2)] by auto
  qed
qed

lemma remote_after_move:
  assumes "sub_move clock v w" and "is_obj v"
    and "jget v ''remote_status'' = JStr ''pass'' \<Longrightarrow> jget v ''check_status'' = JStr ''pass'' \<and> jget v ''review_state'' \<noteq> JStr ''changes_requested''"
    and "jget w ''remote_status'' = JStr ''pass''"
  shows "jget w ''check_status'' = JStr ''pass'' \<and> jget w ''review_state'' \<noteq> JStr ''changes_requested''"
  using assms(1)
proof cases
  case (judged e cs eid)
  from assms(2) have obj: "is_obj (with_evidence clock e cs v)" by simp
  from assms(4) show ?thesis unfolding judged(1)
    using obj by (auto simp: after_evidence_def Let_def remote_status_def split: if_splits)
qed (use assms(2,3,4) in \<open>auto simp: head_moved_def repair_spent_def\<close>)

lemma ci_move_ok:
  assumes "ci_move ident clock sid m m'" and "inj ident" and "ci_ok ident m"
  shows "ci_ok ident m'"
proof -
  note support = move_backed [OF assms]
  from assms(1) show ?thesis
  proof cases
    case elsewhere
    with assms(3) show ?thesis by (simp add: ci_ok_def sub_ok_def backed_def at_elsewhere [OF elsewhere])
  next
    case (subscribed th v)
    have "sub_ok ident m' s t w" if "sub_at ident m' s t w" for s t w
      using that assms(2,3) support subscribed by (auto simp: ci_ok_def sub_ok_def at_put_sub fresh_sub_def split: if_splits)
    with assms(2,3) subscribed(1) show ?thesis by (auto simp: ci_ok_def at_put_sub)
  next
    case (changed th v w)
    from changed(2) assms(3) have ok: "sub_ok ident m sid th v" by (simp add: ci_ok_def)
    then have obj: "is_obj v" "counters_ok v" by (simp_all add: sub_ok_def)
    note fixed = sub_move_obj [OF changed(3) obj(1)] sub_move_fixed [OF changed(3) obj(1)]
    have "sub_ok ident m' sid th w"
      unfolding sub_ok_def
      using fixed(1) fixed(2) [of "''subscription_id''"] fixed(2) [of "''thread_id''"] sub_move_counters [OF changed(3) obj] ok
        support changed(4) remote_after_move [OF changed(3) obj(1)]
      by (auto simp: fixed_fields_def sub_ok_def)
    then have "sub_ok ident m' s t u" if "sub_at ident m' s t u" for s t u
      using that assms(2,3) support unfolding changed(1) at_put_sub(1) [OF assms(2)]
      by (auto simp: ci_ok_def sub_ok_def changed(1) split: if_splits)
    with assms(2,3) changed(1) show ?thesis by (auto simp: ci_ok_def at_put_sub)
  next
    case (recorded eid r th)
    have "sub_ok ident m' s t w" if "sub_at ident m' s t w" for s t w
      using that assms(2,3) support recorded by (auto simp: ci_ok_def sub_ok_def at_put_evidence)
    with assms(2,3) recorded show ?thesis by (auto simp: ci_ok_def at_put_evidence split: if_splits)
  next
    case (answered eid th r cid)
    have "sub_ok ident m' s t w" if "sub_at ident m' s t w" for s t w
      using that assms(2,3) support answered by (auto simp: ci_ok_def sub_ok_def at_put_evidence)
    with assms(2,3) answered show ?thesis by (auto simp: ci_ok_def at_put_evidence split: if_splits)
  qed
qed

abbreviation ci_moves ::
  "identity \<Rightarrow> (json \<Rightarrow> real option) \<Rightarrow> string \<Rightarrow> (string \<Rightarrow> entry_view option) \<Rightarrow> (string \<Rightarrow> entry_view option) \<Rightarrow> bool" where
  "ci_moves ident clock sid \<equiv> (ci_move ident clock sid)\<^sup>*\<^sup>*"

lemma ci_moves_ok: "ci_moves ident clock sid m m' \<Longrightarrow> inj ident \<Longrightarrow> ci_ok ident m \<Longrightarrow> ci_ok ident m'"
  by (induction rule: rtranclp_induct) (auto intro: ci_move_ok)

text \<open>Another subscription stays as it is.\<close>

lemma ci_moves_others:
  assumes "ci_moves ident clock sid m m'" and "inj ident" and "s \<noteq> sid"
  shows "sub_at ident m' s th v = sub_at ident m s th v"
  using assms(1)
proof (induction rule: rtranclp_induct)
  case (step a b)
  from step(2) have "sub_at ident b s th v = sub_at ident a s th v"
  proof cases
    case elsewhere
    then show ?thesis by (simp add: at_elsewhere [OF elsewhere])
  qed (use assms(2,3) in \<open>simp_all add: at_put_sub at_put_evidence\<close>)
  with step(3) show ?case by simp
qed simp

end
