(* ===== verification/Ci_Refinement.thy ===== *)
theory Ci_Refinement
  imports Ci_Moves
begin

text \<open>
  Each operation of \<open>ci_ops.py\<close> and \<open>channels/ci.py\<close> is a sequence of \<open>ci_move\<close>s.
\<close>

definition ci_sound :: "identity \<Rightarrow> store \<Rightarrow> bool" where
  "ci_sound ident st \<longleftrightarrow> sound ident st \<and> ci_ok ident (channel_map st)"

definition ci_reached :: "identity \<Rightarrow> (json \<Rightarrow> real option) \<Rightarrow> string \<Rightarrow> store \<Rightarrow> store \<Rightarrow> bool" where
  "ci_reached ident clock sid st st' \<longleftrightarrow> ci_moves ident clock sid (channel_map st) (channel_map st') \<and> ci_sound ident st'"

lemma ci_reached_refl: "ci_sound ident st \<Longrightarrow> ci_reached ident clock sid st st"
  by (simp add: ci_reached_def)

lemma ci_reached_trans: "ci_reached ident clock sid r s \<Longrightarrow> ci_reached ident clock sid s t \<Longrightarrow> ci_reached ident clock sid r t"
  by (auto simp: ci_reached_def)

lemma ci_reached_sound: "ci_reached ident clock sid st st' \<Longrightarrow> ci_sound ident st'"
  by (simp add: ci_reached_def)

lemma ci_reached_one:
  assumes "inj ident" and "ci_sound ident st" and "ci_move ident clock sid (channel_map st) (channel_map st')" and "sound ident st'"
  shows "ci_reached ident clock sid st st'"
  using assms ci_move_ok by (auto simp: ci_reached_def ci_sound_def)

section \<open>Reading and writing the entries\<close>

lemma entry_stored:
  assumes "inj ident" and "sound ident st" and "get_entry ident st kind key = Some v"
  shows "\<exists>th. channel_map st (ident [kind, key]) = Some (kind, key, th, v)"
proof -
  from assms(3) obtain a b th where m: "channel_map st (ident [kind, key]) = Some (a, b, th, v)" by (auto simp: get_entry_map)
  with assms(1,2) have "a = kind" "b = key" unfolding sound_def channel_ok_def by (metis inj_eq list.inject)+
  with m show ?thesis by blast
qed

lemma sub_stored:
  assumes "inj ident" and "ci_sound ident st" and "get_entry ident st ''ci_subscription'' sid = Some v"
  shows "\<exists>th. sub_at ident (channel_map st) sid th v \<and> sub_ok ident (channel_map st) sid th v"
  using entry_stored [OF assms(1) _ assms(3)] assms(2) by (auto simp: ci_sound_def sub_at_def ci_ok_def)

lemma evidence_stored:
  assumes "inj ident" and "ci_sound ident st" and "get_entry ident st ''ci_evidence'' eid = Some r"
  shows "\<exists>th. evidence_at ident (channel_map st) eid th r"
  using entry_stored [OF assms(1) _ assms(3)] assms(2) by (auto simp: ci_sound_def evidence_at_def)

lemma put_setting:
  assumes "inj ident" and "sound ident st" and "put_entry ident th kind key v st = Inr st'"
    and "kind \<noteq> ''outbox''" and "kind \<notin> receipt_kinds"
  shows "channel_map st' = (channel_map st)(ident [kind, key] \<mapsto> (kind, key, th, v))" and "sound ident st'"
  using put_entry_effect [OF assms(1-3)] coveredD(2) [OF covered_setting [OF assms(1-3)]] assms(4,5) by auto

lemma ci_settings: "kind \<in> ci_kinds \<Longrightarrow> kind \<noteq> ''outbox'' \<and> kind \<notin> receipt_kinds"
  by (auto simp: ci_kinds_def receipt_kinds_def)

lemma put_thread: "put_entry ident th kind key v st = Inr st' \<Longrightarrow> channel_map st (ident [kind, key]) = Some (a, b, c, w) \<Longrightarrow> c = th"
  by (auto simp: put_entry_def channel_map_def entry_view_def split: option.splits if_splits)

lemma put_elsewhere:
  assumes "inj ident" and "ci_sound ident st" and "put_entry ident th kind key v st = Inr st'"
    and "kind \<noteq> ''outbox''" and "kind \<notin> receipt_kinds" and "kind \<notin> ci_kinds"
  shows "ci_reached ident clock sid st st'"
proof (rule ci_reached_one [OF assms(1,2)])
  from assms(2) have "sound ident st" by (simp add: ci_sound_def)
  note put = put_setting [OF assms(1) this assms(3-5)]
  show "sound ident st'" by (rule put(2))
  have "same_ci ident (channel_map st) (channel_map st')"
    using assms(1,6) unfolding same_ci_def put(1) by (auto simp: inj_eq)
  then show "ci_move ident clock sid (channel_map st) (channel_map st')" by (rule ci_move.elsewhere)
qed

lemma save_put:
  assumes "save_subscription ident w st = Inr st'" and "jget w ''thread_id'' = JStr th" and "jget w ''subscription_id'' = JStr sid"
  shows "put_entry ident th ''ci_subscription'' sid w st = Inr st'"
proof -
  from assms(1) obtain a b where "need_str w ''thread_id'' = Inr a" "need_str w ''subscription_id'' = Inr b"
    and put: "put_entry ident a ''ci_subscription'' b w st = Inr st'" by (auto simp: save_subscription_def)
  with need_str_get assms(2,3) have "a = th" "b = sid" by (metis json.inject(4))+
  with put show ?thesis by simp
qed

lemma save_moves:
  assumes "inj ident" and "ci_sound ident st" and "sub_at ident (channel_map st) sid th v" and "sub_move clock v w"
    and "save_subscription ident w st = Inr st'"
    and "jget w ''check_status'' = JStr ''pass'' \<Longrightarrow> backed ident (channel_map st) sid w"
  shows "ci_reached ident clock sid st st'"
    and "channel_map st' = (channel_map st)(ident [''ci_subscription'', sid] \<mapsto> (''ci_subscription'', sid, th, w))"
proof -
  from assms(2,3) have ok: "sub_ok ident (channel_map st) sid th v" by (simp add: ci_sound_def ci_ok_def)
  then have "is_obj v" "jget v ''subscription_id'' = JStr sid" "jget v ''thread_id'' = JStr th" by (simp_all add: sub_ok_def)
  with sub_move_fixed [OF assms(4)] have w: "jget w ''subscription_id'' = JStr sid" "jget w ''thread_id'' = JStr th"
    by (simp_all add: fixed_fields_def)
  then have put: "put_entry ident th ''ci_subscription'' sid w st = Inr st'" using save_put [OF assms(5)] by simp
  from assms(2) have snd: "sound ident st" by (simp add: ci_sound_def)
  note eff = put_setting [OF assms(1) snd put]
  show m: "channel_map st' = (channel_map st)(ident [''ci_subscription'', sid] \<mapsto> (''ci_subscription'', sid, th, w))"
    by (rule eff(1)) (simp_all add: receipt_kinds_def)
  have "ci_move ident clock sid (channel_map st) (channel_map st')"
    unfolding m by (rule ci_move.changed [OF assms(3,4,6)])
  moreover have "sound ident st'" by (rule eff(2)) (simp_all add: receipt_kinds_def)
  ultimately show "ci_reached ident clock sid st st'" by (rule ci_reached_one [OF assms(1,2)])
qed

text \<open>A move that leaves the verdict and what it is about alone keeps its backing.\<close>

lemma kept_backing:
  assumes "sub_ok ident m sid th v" and "jget w ''check_status'' = jget v ''check_status''"
    and "jget w ''head_sha'' = jget v ''head_sha''" and "jget w ''check_ids'' = jget v ''check_ids''"
    and "jget w ''check_status'' = JStr ''pass''"
  shows "backed ident m sid w"
  using assms by (simp add: sub_ok_def backed_cong [OF assms(3,4)])

lemma subscription_ok:
  assumes "inj ident" and "ci_sound ident st" and "subscription ident auth st sid = Inr v"
  shows "\<exists>th. sub_at ident (channel_map st) sid th v \<and> sub_ok ident (channel_map st) sid th v"
proof -
  from assms(3) have "get_entry ident st ''ci_subscription'' sid = Some v"
    by (cases "get_entry ident st ''ci_subscription'' sid") (auto simp: subscription_def require_def split: if_splits)
  then show ?thesis by (rule sub_stored [OF assms(1,2)])
qed

section \<open>Subscribing\<close>

lemma need_jget: "need v k = Inr x \<Longrightarrow> jget v k = x"
  by (simp add: need_def require_def jget_def split: option.splits)

lemma poll_valid_positive:
  assumes "poll_valid now poll = Inr u"
  shows "is_int (jget poll ''max_attempts'') \<and> 1 \<le> int_val (jget poll ''max_attempts'')"
  using assms by (auto simp: poll_valid_def positive_ok dest!: need_jget)

lemma positive_field_val: "positive_field v k = Inr () \<Longrightarrow> is_int (jget v k) \<and> 1 \<le> int_val (jget v k)"
  by (auto simp: positive_field_ok jget_def)

lemma allowance_valid_ok:
  assumes "allowance_valid now a b = Inr u"
  shows "(a = None \<and> b = None) \<or> (\<exists>x y. a = Some x \<and> b = Some y \<and> x \<noteq> JNull
    \<and> (\<forall>k \<in> set (''max_new_turns'' # budget_keys). is_int (jget x k) \<and> 1 \<le> int_val (jget x k))
    \<and> (\<forall>k \<in> set budget_keys. is_int (jget y k) \<and> 1 \<le> int_val (jget y k)))"
proof (cases a)
  case None
  with assms show ?thesis by (auto simp: allowance_valid_def split: option.splits)
next
  case (Some x)
  with assms obtain y where b: "b = Some y" by (auto simp: allowance_valid_def split: option.splits)
  from assms Some b have m: "positive_field x ''max_new_turns'' = Inr ()"
    and all: "all_checks (concat (map (\<lambda>k. [positive_field x k, positive_field y k]) budget_keys)) = Inr u"
    by (auto simp: allowance_valid_def split: if_splits)
  from all_checks_ok [OF all] have "positive_field x k = Inr ()" "positive_field y k = Inr ()" if "k \<in> set budget_keys" for k
    using that by auto
  with m have "\<forall>k \<in> set (''max_new_turns'' # budget_keys). is_int (jget x k) \<and> 1 \<le> int_val (jget x k)"
    "\<forall>k \<in> set budget_keys. is_int (jget y k) \<and> 1 \<le> int_val (jget y k)"
    using positive_field_val by auto
  moreover have "x \<noteq> JNull" using m by (auto simp: positive_field_ok)
  ultimately show ?thesis using Some b by blast
qed

lemma new_subscription_fresh:
  assumes "request_valid now r = Inr u"
  shows "fresh_sub (rq_subscription r) (rq_thread r) (new_subscription (configuration resolve r) now)"
proof -
  have parts: "poll_valid now (rq_poll r) = Inr ()" "allowance_valid now (rq_allowance r) (rq_budget r) = Inr ()"
    using all_checks_ok [OF assms [unfolded request_valid_def]] by auto
  note poll = poll_valid_positive [OF parts(1)] and allowance = allowance_valid_ok [OF parts(2)]
  have obj: "is_obj (configuration resolve r)" by (simp add: configuration_def)
  have gets: "jget (configuration resolve r) ''subscription_id'' = JStr (rq_subscription r)"
    "jget (configuration resolve r) ''thread_id'' = JStr (rq_thread r)"
    "jget (configuration resolve r) ''poll_policy'' = rq_poll r"
    "jget (configuration resolve r) ''repair_allowance'' = of_opt_json (rq_allowance r)"
    "jget (configuration resolve r) ''repair_budget'' = of_opt_json (rq_budget r)"
    by (simp_all add: configuration_def)
  have "counters_ok (new_subscription (configuration resolve r) now)"
    using poll allowance obj
    by (auto simp: counters_ok_def polls_ok_def repairs_ok_def new_subscription_def gets budget_keys_def of_opt_json_def)
  then show ?thesis using obj by (simp add: fresh_sub_def gets new_subscription_def)
qed

lemma create_reached:
  assumes "inj ident" and "ci_sound ident st" and "create_subscription ident resolve auth r now st = Inr (v, st')"
  shows "ci_reached ident clock (rq_subscription r) st st'"
proof -
  from assms(3) obtain u where u: "request_valid now r = Inr u"
    and st': "st' = st \<or> (get_entry ident st ''ci_subscription'' (rq_subscription r) = None
      \<and> save_subscription ident (new_subscription (configuration resolve r) now) st = Inr st')"
    by (auto simp: create_subscription_def Let_def split: if_splits option.splits)
  note fresh = new_subscription_fresh [OF u, of resolve]
  from st' show ?thesis
  proof
    assume new: "get_entry ident st ''ci_subscription'' (rq_subscription r) = None
      \<and> save_subscription ident (new_subscription (configuration resolve r) now) st = Inr st'"
    then have put: "put_entry ident (rq_thread r) ''ci_subscription'' (rq_subscription r)
        (new_subscription (configuration resolve r) now) st = Inr st'"
      using fresh by (intro save_put) (simp_all add: fresh_sub_def)
    from assms(2) have "sound ident st" by (simp add: ci_sound_def)
    note eff = put_setting [OF assms(1) this put]
    show ?thesis
    proof (rule ci_reached_one [OF assms(1,2)])
      show "sound ident st'" by (rule eff(2)) (simp_all add: receipt_kinds_def)
      have m: "channel_map st' = (channel_map st)(ident [''ci_subscription'', rq_subscription r] \<mapsto>
          (''ci_subscription'', rq_subscription r, rq_thread r, new_subscription (configuration resolve r) now))"
        by (rule eff(1)) (simp_all add: receipt_kinds_def)
      show "ci_move ident clock (rq_subscription r) (channel_map st) (channel_map st')"
        unfolding m using new by (intro ci_move.subscribed fresh) (simp add: get_entry_map)
    qed
  qed (simp add: ci_reached_refl assms(2))
qed

lemma update_head_reached:
  assumes "inj ident" and "ci_sound ident st" and "update_head ident auth sid head st = Inr st'"
  shows "ci_reached ident clock sid st st'"
proof -
  from assms(3) obtain v where v: "subscription ident auth st sid = Inr v"
    and st': "st' = st \<or> (jget v ''head_sha'' \<noteq> JStr head \<and> save_subscription ident (head_moved head v) st = Inr st')"
    by (auto simp: update_head_def split: if_splits)
  from subscription_ok [OF assms(1,2) v] obtain th where th: "sub_at ident (channel_map st) sid th v"
    and obj: "is_obj v" by (auto simp: sub_ok_def)
  from st' show ?thesis
  proof
    assume new: "jget v ''head_sha'' \<noteq> JStr head \<and> save_subscription ident (head_moved head v) st = Inr st'"
    show ?thesis
    proof (rule save_moves(1) [OF assms(1,2) th])
      show "sub_move clock v (head_moved head v)" using new by (intro sub_move.head_moved) simp
      show "save_subscription ident (head_moved head v) st = Inr st'" using new by simp
    qed (use obj in \<open>simp add: head_moved_def\<close>)
  qed (simp add: ci_reached_refl assms(2))
qed

section \<open>Evidence\<close>

lemma evidence_valid_ok:
  assumes "evidence_valid v e = Inr cs"
  shows "evidence_checks e = Inr cs" and "jget e ''kind'' \<in> JStr ` set [''checks'', ''review'', ''query_error'']"
proof -
  obtain u where all: "all_checks
       [nonempty_text (jget e ''source_id'') ''source_id'', nonempty_text (jget e ''event_id'') ''event_id'',
        nonempty_text (jget e ''head_sha'') ''head_sha'',
        check (list_all (\<lambda>k. jget e k = jget v k) [''source_id'', ''repository'', ''pull_request''])
          (PermissionError ''CI evidence does not match subscribed source/repository/PR''),
        check (jget e ''kind'' \<in> JStr ` set [''checks'', ''review'', ''query_error'']) (ValueError ''unsupported CI evidence kind'')] = Inr u"
    using assms unfolding evidence_valid_def by (rule ebind_InrE) blast
  have "check (jget e ''kind'' \<in> JStr ` set [''checks'', ''review'', ''query_error'']) (ValueError ''unsupported CI evidence kind'') = Inr ()"
    by (rule all_checks_ok [OF all]) simp
  then show "jget e ''kind'' \<in> JStr ` set [''checks'', ''review'', ''query_error'']" unfolding check_def by (simp split: if_splits)
  show "evidence_checks e = Inr cs"
    using assms unfolding evidence_valid_def by (elim ebind_InrE) (auto split: if_splits)
qed

lemma verdict_pass:
  "check_verdict v cs = ''pass'' \<Longrightarrow> cs \<noteq> [] \<and> set (map (\<lambda>c. jget c ''id'') cs) = set (check_ids v)
     \<and> (\<forall>c \<in> set cs. jget c ''state'' = JStr ''pass'')"
  by (auto simp: check_verdict_def Let_def list_all_iff split: if_splits)

lemma update_reviews_check: "is_obj v \<Longrightarrow> jget (update_reviews clock v e) ''check_status'' = jget v ''check_status''"
  by (simp add: update_reviews_get)

text \<open>A pass is either the one that stood, or the evidence that was just stored proves it.\<close>

lemma judged_backing:
  assumes "sub_ok ident m sid th v" and "evidence_valid v e = Inr cs"
    and "jget e ''head_sha'' = jget v ''head_sha'' \<or> dismisses v e"
    and "evidence_at ident m eid t (new_receipt eid sid digest e (jget e ''head_sha'' \<noteq> jget v ''head_sha'') now)"
    and "jget (after_evidence clock eid' e cs stale v) ''check_status'' = JStr ''pass''"
  shows "backed ident m sid (after_evidence clock eid' e cs stale v)"
proof -
  let ?w = "after_evidence clock eid' e cs stale v"
  from assms(1) have obj: "is_obj v" by (simp add: sub_ok_def)
  have same: "jget ?w ''head_sha'' = jget v ''head_sha''" "jget ?w ''check_ids'' = jget v ''check_ids''"
    by (simp_all add: after_evidence_get [OF obj])
  from assms(5) obj have pass: "jget (with_evidence clock e cs v) ''check_status'' = JStr ''pass''"
    by (simp add: after_evidence_def Let_def split: if_splits)
  from evidence_valid_ok(2) [OF assms(2)] consider "jget e ''kind'' = JStr ''query_error''" | "jget e ''kind'' = JStr ''review''"
    | "jget e ''kind'' = JStr ''checks''" by auto
  then have "backed ident m sid v"
  proof cases
    case 1
    with pass obj show ?thesis by (simp add: with_evidence_def)
  next
    case 2
    with pass obj assms(1) show ?thesis by (simp add: with_evidence_def update_reviews_check sub_ok_def)
  next
    case 3
    with pass obj have "check_verdict v cs = ''pass''" by (simp add: with_evidence_def)
    note all = verdict_pass [OF this]
    from 3 assms(3) have head: "jget e ''head_sha'' = jget v ''head_sha''" by (auto simp: dismisses_def)
    from evidence_valid_ok(1) [OF assms(2)] all obtain c where "jfind e ''checks'' = Some c" "as_list c = Some cs"
      by (auto simp: evidence_checks_def require_def split: option.splits)
    then have "jget e ''checks'' = JArr cs" by (cases c) (simp_all add: jget_def)
    with 3 all head have "complete_pass v e" by (auto simp: complete_pass_def)
    then have "proves sid v (new_receipt eid sid digest e (jget e ''head_sha'' \<noteq> jget v ''head_sha'') now)"
      using head by (simp add: proves_def new_receipt_def)
    with assms(4) show ?thesis unfolding backed_def by blast
  qed
  with backed_cong [OF same] show ?thesis by simp
qed

lemma record_reached:
  assumes "inj (ch_ident h)" and "ci_sound (ch_ident h) st" and "record_evidence h clock auth verify sid e now st = Inr (r, st')"
  shows "ci_reached (ch_ident h) clock sid st st'"
proof -
  let ?id = "ch_ident h"
  from assms(3) obtain v cs where v: "subscription ?id auth st sid = Inr v" and cs: "evidence_valid v e = Inr cs"
    and acc: "accept_evidence h clock sid e cs v now st = Inr (r, st')"
    by (auto simp: record_evidence_def split: if_splits)
  from subscription_ok [OF assms(1,2) v] obtain th where th: "sub_at ?id (channel_map st) sid th v"
    and ok: "sub_ok ?id (channel_map st) sid th v" by blast
  define eid digest stale where "eid = evidence_key ?id sid e" and "digest = ?id [ch_canon h e]"
    and "stale = (jget e ''head_sha'' \<noteq> jget v ''head_sha'')"
  let ?r = "new_receipt eid sid digest e stale now" and ?w = "after_evidence clock eid e cs stale v"
  show ?thesis
  proof (cases "get_entry ?id st ''ci_evidence'' eid")
    case (Some old)
    with acc have "st' = st" by (auto simp: accept_evidence_def Let_def eid_def split: if_splits)
    then show ?thesis by (simp add: ci_reached_refl assms(2))
  next
    case None
    with acc obtain t s where t: "need_str v ''thread_id'' = Inr t" and s: "put_entry ?id t ''ci_evidence'' eid ?r st = Inr s"
      and st': "(if stale \<and> \<not> dismisses v e then Inr (?r, s)
        else ebind (save_subscription ?id ?w s) (\<lambda>u. Inr (?r, u))) = Inr (r, st')"
      unfolding accept_evidence_def Let_def eid_def digest_def stale_def by (auto split: option.splits)
    from assms(2) have "sound ?id st" by (simp add: ci_sound_def)
    note eff = put_setting [OF assms(1) this s]
    have m: "channel_map s = (channel_map st)(?id [''ci_evidence'', eid] \<mapsto> (''ci_evidence'', eid, t, ?r))"
      by (rule eff(1)) (simp_all add: receipt_kinds_def)
    have "sound ?id s" by (rule eff(2)) (simp_all add: receipt_kinds_def)
    moreover have "ci_move ?id clock sid (channel_map st) (channel_map s)"
      unfolding m using None by (intro ci_move.recorded) (simp_all add: get_entry_map new_receipt_def)
    ultimately have r1: "ci_reached ?id clock sid st s" by (intro ci_reached_one [OF assms(1,2)])
    then have snd: "ci_sound ?id s" by (rule ci_reached_sound)
    have at: "sub_at ?id (channel_map s) sid th v" "evidence_at ?id (channel_map s) eid t ?r"
      unfolding m using th by (simp_all add: at_put_evidence [OF assms(1)])
    from st' consider "st' = s" | "\<not> stale \<or> dismisses v e" "save_subscription ?id ?w s = Inr st'" by (auto split: if_splits)
    then show ?thesis
    proof cases
      case 1
      with r1 show ?thesis by simp
    next
      case 2
      from snd at(1) have ok': "sub_ok ?id (channel_map s) sid th v" by (simp add: ci_sound_def ci_ok_def)
      have "ci_reached ?id clock sid s st'"
      proof (rule save_moves(1) [OF assms(1) snd at(1) _ 2(2)])
        show "sub_move clock v ?w" unfolding stale_def using cs 2(1) by (intro judged) (auto simp: stale_def)
        show "backed ?id (channel_map s) sid ?w" if "jget ?w ''check_status'' = JStr ''pass''"
          by (rule judged_backing [OF ok' cs _ at(2) [unfolded stale_def] that]) (use 2(1) in \<open>auto simp: stale_def\<close>)
      qed
      with r1 show ?thesis by (rule ci_reached_trans)
    qed
  qed
qed

end
