(* ===== verification/Ci_Repairs.thy ===== *)
theory Ci_Repairs
  imports Ci_Refinement
begin

text \<open>
  Repairs, polls and the events of \<open>channels/ci.py\<close> as moves of the subscriptions they name.
\<close>

section \<open>Repairs\<close>

lemma budget_share_ok:
  assumes "budget_share a s b options k = Inr n"
  shows "int_val (jget s k) + n \<le> int_val (jget a k) \<and> (1 \<le> int_val (jget b k) \<longrightarrow> 1 \<le> n)"
proof -
  from assms obtain l r q x where "jget a k = JInt l" "jget s k = JInt r" "jget b k = JInt q" "0 < l - r"
    and "(if jget options k = JNull then Inr (l - r) else positive (jget options k) k) = Inr x" and n: "n = min q (min (l - r) x)"
    by (auto simp: budget_share_def dest!: need_int_get split: if_splits)
  moreover from calculation have "1 \<le> x" by (auto simp: positive_ok split: if_splits)
  ultimately show ?thesis by auto
qed

lemma budget_shares_ok:
  "budget_shares a s b options ks = Inr shares \<Longrightarrow> map fst shares = ks
     \<and> list_all (\<lambda>p. int_val (jget s (fst p)) + snd p \<le> int_val (jget a (fst p)) \<and> (1 \<le> int_val (jget b (fst p)) \<longrightarrow> 1 \<le> snd p)) shares"
proof (induction ks arbitrary: shares)
  case (Cons k ks)
  then obtain n rest where n: "budget_share a s b options k = Inr n" "budget_shares a s b options ks = Inr rest"
    and sh: "shares = (k, n) # rest" by auto
  from Cons.IH [OF n(2)] budget_share_ok [OF n(1)] show ?case by (simp add: sh)
qed simp

lemma repair_allowed_ok:
  assumes "repair_allowed now v = Inr a"
  shows "a = jget v ''repair_allowance''" and "a \<noteq> JNull"
    and "int_val (jget v ''new_turns'') < int_val (jget a ''max_new_turns'')"
  using assms by (auto simp: repair_allowed_def Let_def dest!: need_int_get split: if_splits)

text \<open>Nothing but the entries of the subscription and of the evidence changes when a repair is queued.\<close>

lemma receive_command_map:
  assumes "sound ident st"
    and "receive_command sha name_hash is_origin database is_dir resolve uid workspace kind payload cid th turn st = Inr st'"
  shows "channel_map st' = channel_map st" and "sound ident st'"
proof -
  show "sound ident st'" using receive_command_covered [OF assms] coveredD(2) by blast
  have host: "channel_map t = channel_map s" if "append_fact a b c (HostFact f) s = Inr t" for a b c f s t
    by (rule other_append_channels [OF that]) (simp add: channel_fact_def)
  have admit: "channel_map t = channel_map s" if "admit_thread is_dir w k x s = Inr t" for w k x s t
    using that by (auto simp: admit_thread_def create_thread_def Let_def channel_fact_def
        split: option.splits if_splits dest!: other_append_channels)
  from assms(2) have "st' = st \<or> (\<exists>t w s u f. admit_thread is_dir w kind t st = Inr s \<and> append_fact t None u (HostFact f) s = Inr st')"
    unfolding receive_command_def Let_def by (auto split: if_splits option.splits; blast)
  with host admit show "channel_map st' = channel_map st" by metis
qed

lemma queue_repair_parts:
  assumes "queue_repair h sid eid v receipt a st = Inr (c, st')"
  shows "\<exists>th s t shares options w payload x. need_str v ''thread_id'' = Inr th
    \<and> budget_shares a (jget v ''reserved'') (jget v ''repair_budget'') options budget_keys = Inr shares
    \<and> receive_command (ch_sha h) (ch_name_hash h) (ch_is_origin h) (ch_database h) (ch_is_dir h) (ch_resolve h)
         (ch_uid h) w ''start'' payload (Some (repair_command_id (ch_ident h) sid eid)) x None st = Inr s
    \<and> read_command s (repair_command_id (ch_ident h) sid eid) = Inr c
    \<and> save_subscription (ch_ident h) (repair_spent v shares) s = Inr t
    \<and> put_entry (ch_ident h) th ''ci_evidence'' eid (jset receipt ''repair_command_id'' (JStr (hc_id c))) t = Inr st'"
  using assms unfolding queue_repair_def Let_def
  apply (clarsimp split: if_splits)
  apply (intro exI conjI)
       apply assumption+
  done

lemma queue_repair_reached:
  assumes "inj (ch_ident h)" and "ci_sound (ch_ident h) st" and "sub_at (ch_ident h) (channel_map st) sid th v"
    and "get_entry (ch_ident h) st ''ci_evidence'' eid = Some receipt" and "\<And>c. jget receipt ''repair_command_id'' \<noteq> JStr c"
    and "repair_allowed now v = Inr a" and "queue_repair h sid eid v receipt a st = Inr (c, st')"
  shows "ci_reached (ch_ident h) clock sid st st'"
    and "get_entry (ch_ident h) st' ''ci_evidence'' eid = Some (jset receipt ''repair_command_id'' (JStr (hc_id c)))"
proof -
  let ?id = "ch_ident h"
  from queue_repair_parts [OF assms(7)] obtain t s u shares options w payload x where t: "need_str v ''thread_id'' = Inr t"
    and sh: "budget_shares a (jget v ''reserved'') (jget v ''repair_budget'') options budget_keys = Inr shares"
    and s: "receive_command (ch_sha h) (ch_name_hash h) (ch_is_origin h) (ch_database h) (ch_is_dir h) (ch_resolve h)
         (ch_uid h) w ''start'' payload (Some (repair_command_id (ch_ident h) sid eid)) x None st = Inr s"
    and u: "save_subscription ?id (repair_spent v shares) s = Inr u"
    and put: "put_entry ?id t ''ci_evidence'' eid (jset receipt ''repair_command_id'' (JStr (hc_id c))) u = Inr st'"
    by blast
  from assms(2) have "sound ?id st" by (simp add: ci_sound_def)
  from receive_command_map [OF this s] have ms: "channel_map s = channel_map st" and "sound ?id s" .
  with assms(2) have snd: "ci_sound ?id s" by (simp add: ci_sound_def)
  have at: "sub_at ?id (channel_map s) sid th v" using assms(3) by (simp add: ms)
  with snd have ok: "sub_ok ?id (channel_map s) sid th v" by (simp add: ci_sound_def ci_ok_def)
  then have obj: "is_obj v" by (simp add: sub_ok_def)
  have fits: "spendable v shares"
    using repair_allowed_ok [OF assms(6)] budget_shares_ok [OF sh] by (auto simp: spendable_def share_fits_def list_all_iff)
  have back_kept: "backed ?id (channel_map s) sid (repair_spent v shares)"
    if "jget (repair_spent v shares) ''check_status'' = JStr ''pass''"
    by (rule kept_backing [OF ok _ _ _ that]) (simp_all add: spent_gets [OF obj])
  have save: "ci_reached ?id clock sid s u"
    "channel_map u = (channel_map s)(?id [''ci_subscription'', sid] \<mapsto> (''ci_subscription'', sid, th, repair_spent v shares))"
    by (rule save_moves [OF assms(1) snd at sub_move.spent [OF fits] u], rule back_kept, assumption)+
  have snd_u: "ci_sound ?id u" using save(1) by (rule ci_reached_sound)
  obtain e where e: "evidence_at ?id (channel_map st) eid e receipt" using evidence_stored [OF assms(1,2,4)] by blast
  then have eu: "evidence_at ?id (channel_map u) eid e receipt"
    unfolding save(2) by (simp add: at_put_sub(2) [OF assms(1)] ms)
  with put_thread [OF put] have [simp]: "t = e" by (simp add: evidence_at_def)
  from snd_u have "sound ?id u" by (simp add: ci_sound_def)
  note eff = put_setting [OF assms(1) this put]
  have mu: "channel_map st' = (channel_map u)(?id [''ci_evidence'', eid] \<mapsto>
      (''ci_evidence'', eid, e, jset receipt ''repair_command_id'' (JStr (hc_id c))))"
    using eff(1) by (simp add: receipt_kinds_def)
  have "ci_move ?id clock sid (channel_map u) (channel_map st')" unfolding mu by (rule answered [OF eu assms(5)])
  moreover have "sound ?id st'" by (rule eff(2)) (simp_all add: receipt_kinds_def)
  ultimately have "ci_reached ?id clock sid u st'" by (rule ci_reached_one [OF assms(1) snd_u])
  moreover have "ci_reached ?id clock sid st s"
    using snd by (simp add: ci_reached_def ms)
  ultimately show "ci_reached ?id clock sid st st'" using save(1) ci_reached_trans by blast
  show "get_entry ?id st' ''ci_evidence'' eid = Some (jset receipt ''repair_command_id'' (JStr (hc_id c)))"
    by (simp add: get_entry_map mu)
qed

lemma enqueue_repair_reached:
  assumes "inj (ch_ident h)" and "ci_sound (ch_ident h) st" and "enqueue_repair h auth sid eid now st = Inr (c, st')"
  shows "ci_reached (ch_ident h) clock sid st st'"
    and "\<exists>r. get_entry (ch_ident h) st' ''ci_evidence'' eid = Some r \<and> jget r ''repair_command_id'' = JStr (hc_id c)"
proof -
  let ?id = "ch_ident h"
  from assms(3) obtain v receipt where v: "subscription ?id auth st sid = Inr v"
    and r: "get_entry ?id st ''ci_evidence'' eid = Some receipt"
    and q: "(case jget receipt ''repair_command_id'' of
               JStr cid \<Rightarrow> ebind (read_command st cid) (\<lambda>c. Inr (c, st))
             | _ \<Rightarrow> ebind (repair_evidence eid v receipt) (\<lambda>_. ebind (repair_allowed now v) (\<lambda>a. queue_repair h sid eid v receipt a st))) = Inr (c, st')"
    unfolding enqueue_repair_def by (auto split: option.splits if_splits)
  from subscription_ok [OF assms(1,2) v] obtain th where th: "sub_at ?id (channel_map st) sid th v" by blast
  have both: "ci_reached ?id clock sid st st' \<and> (\<exists>r. get_entry ?id st' ''ci_evidence'' eid = Some r \<and> jget r ''repair_command_id'' = JStr (hc_id c))"
  proof (cases "\<exists>cid. jget receipt ''repair_command_id'' = JStr cid")
    case True
    then obtain cid where cid: "jget receipt ''repair_command_id'' = JStr cid" by blast
    with q have c: "read_command st cid = Inr c" "st' = st" by auto
    have "hc_id c = cid"
    proof -
      from assms(2) have "table_ok hc_id (host_commands (proj st))"
        by (simp add: ci_sound_def sound_def well_formed_def projection_ok_def)
      with c(1) show ?thesis by (auto simp: read_command_def require_def split: option.splits intro: table_ok_ident)
    qed
    with c(2) cid r assms(2) show ?thesis by (simp add: ci_reached_refl)
  next
    case False
    with q obtain a where a: "repair_allowed now v = Inr a" "queue_repair h sid eid v receipt a st = Inr (c, st')"
      by (auto split: json.splits)
    from False have no: "\<And>c. jget receipt ''repair_command_id'' \<noteq> JStr c" by blast
    note eff = queue_repair_reached [OF assms(1,2) th r no a]
    obtain e where "evidence_at ?id (channel_map st) eid e receipt" using evidence_stored [OF assms(1,2) r] by blast
    with assms(2) have "is_obj receipt" by (simp add: ci_sound_def ci_ok_def)
    with eff show ?thesis by simp
  qed
  then show "ci_reached ?id clock sid st st'"
    and "\<exists>r. get_entry ?id st' ''ci_evidence'' eid = Some r \<and> jget r ''repair_command_id'' = JStr (hc_id c)" by blast+
qed

section \<open>A refused repair wrote nothing\<close>

text \<open>Transactions do not nest: what the repair wrote before it raises would stay if the caller catches the
  error. So it matters that nothing is refused once the host command was received.\<close>

lemma entry_append_raises:
  "append_fact th None pr (ThreadFact (ChannelEntryUpdated e kind key v)) st = Inl err \<Longrightarrow> waiting_reason err = None"
  by (auto simp: append_fact_def append_record_def apply_record_def apply_fact_def Let_def ebind_eq_Inl touch_thread_def mod_thread_def
      tmod_def put_channel_def make_record_def split: if_splits option.splits)

lemma own_put_raises:
  assumes "put_entry ident th kind key v st = Inl err"
    and "channel_map st (ident [kind, key]) = Some (kind', key', th, w)"
  shows "waiting_reason err = None"
  using assms entry_append_raises
  by (auto simp: put_entry_def channel_map_def entry_view_def split: option.splits if_splits)

lemma field_raises: "need_str v k = Inl err \<Longrightarrow> waiting_reason err = None"
  by (auto simp: need_str_def need_def require_def ebind_eq_Inl split: option.splits)

lemma nothing_refused_late:
  assumes "inj (ch_ident h)" and "ci_sound (ch_ident h) st" and "sub_at (ch_ident h) (channel_map st) sid th v"
    and "evidence_at (ch_ident h) (channel_map st) eid th receipt"
    and "ebind (read_command st cid) (\<lambda>c. ebind (save_subscription (ch_ident h) (repair_spent v shares) st) (\<lambda>s.
      ebind (put_entry (ch_ident h) th ''ci_evidence'' eid (jset receipt ''repair_command_id'' (JStr (hc_id c))) s) (\<lambda>s. Inr (c, s))))
      = Inl err"
  shows "waiting_reason err = None"
proof -
  let ?id = "ch_ident h"
  let ?w = "repair_spent v shares"
  from assms(2,3) have "sub_ok ?id (channel_map st) sid th v" and snd: "sound ?id st" by (simp_all add: ci_sound_def ci_ok_def)
  then have v: "is_obj v" "jget v ''subscription_id'' = JStr sid" "jget v ''thread_id'' = JStr th" by (simp_all add: sub_ok_def)
  from assms(5) consider (command) "read_command st cid = Inl err"
    | (saving) "save_subscription ?id ?w st = Inl err"
    | (answering) c :: host_command_row and s where "save_subscription ?id ?w st = Inr s"
        "put_entry ?id th ''ci_evidence'' eid (jset receipt ''repair_command_id'' (JStr (hc_id c))) s = Inl err"
    by (auto simp: ebind_eq_Inl)
  then show ?thesis
  proof cases
    case command
    then show ?thesis by (auto simp: read_command_def require_def split: option.splits)
  next
    case saving
    then consider "need_str ?w ''thread_id'' = Inl err" | "need_str ?w ''subscription_id'' = Inl err"
      | t s where "need_str ?w ''thread_id'' = Inr t" "need_str ?w ''subscription_id'' = Inr s"
          "put_entry ?id t ''ci_subscription'' s ?w st = Inl err"
      by (auto simp: save_subscription_def ebind_eq_Inl)
    then show ?thesis
    proof cases
      case 3
      from need_str_get [OF 3(1)] need_str_get [OF 3(2)] v have "t = th" "s = sid" by (simp_all add: spent_gets)
      with own_put_raises [OF 3(3)] assms(3) show ?thesis by (simp add: sub_at_def)
    qed (auto intro: field_raises)
  next
    case answering
    then obtain t s' where "put_entry ?id t ''ci_subscription'' s' ?w st = Inr s" by (auto simp: save_subscription_def)
    then have "channel_map s (?id [''ci_evidence'', eid]) = channel_map st (?id [''ci_evidence'', eid])"
      using put_entry_effect(1) [OF assms(1) snd] assms(1) by (simp add: inj_eq)
    with own_put_raises [OF answering(2)] assms(4) show ?thesis by (simp add: evidence_at_def)
  qed
qed

section \<open>Polls\<close>

lemma reserve_poll_reached:
  assumes "inj ident" and "ci_sound ident st" and "reserve_poll ident auth sid now st = Inr (token, st')"
  shows "ci_reached ident clock sid st st'"
proof -
  from assms(3) obtain v where v: "subscription ident auth st sid = Inr v"
    and st': "st' = st \<or> (\<exists>n m x. jget v ''poll_attempts'' = JInt n \<and> jget (jget v ''poll_policy'') ''max_attempts'' = JInt m \<and> n < m
      \<and> save_subscription ident (jupdate v [(''poll_attempts'', JInt (n + 1)), (''next_poll_at'', x)]) st = Inr st')"
    unfolding reserve_poll_def Let_def by (fastforce dest: need_int_get split: if_splits)
  from subscription_ok [OF assms(1,2) v] obtain th where th: "sub_at ident (channel_map st) sid th v"
    and ok: "sub_ok ident (channel_map st) sid th v" by blast
  then have obj: "is_obj v" by (simp add: sub_ok_def)
  from st' show ?thesis
  proof (elim disjE exE conjE)
    fix n m x
    assume n: "jget v ''poll_attempts'' = JInt n" "jget (jget v ''poll_policy'') ''max_attempts'' = JInt m" "n < m"
      and put: "save_subscription ident (jupdate v [(''poll_attempts'', JInt (n + 1)), (''next_poll_at'', x)]) st = Inr st'"
    show ?thesis
    proof (rule save_moves(1) [OF assms(1,2) th polled [OF n] put])
      assume "jget (jupdate v [(''poll_attempts'', JInt (n + 1)), (''next_poll_at'', x)]) ''check_status'' = JStr ''pass''"
      then show "backed ident (channel_map st) sid (jupdate v [(''poll_attempts'', JInt (n + 1)), (''next_poll_at'', x)])"
        by (rule kept_backing [OF ok, rotated 3]) (simp_all add: obj)
    qed
  qed (simp add: ci_reached_refl assms(2))
qed

end
