(* ===== verification/Ci_Runs.thy ===== *)
theory Ci_Runs
  imports Ci_Repairs Simulation
begin

text \<open>
  Events, waiting repairs and polls as sequences of moves, and the runs in which all operations
  interleave with the other commands of the store.
\<close>

section \<open>Events\<close>

definition any_moves :: "identity \<Rightarrow> (json \<Rightarrow> real option) \<Rightarrow> (string \<Rightarrow> entry_view option) \<Rightarrow> (string \<Rightarrow> entry_view option) \<Rightarrow> bool" where
  "any_moves ident clock = (\<lambda>m m'. \<exists>sid. ci_move ident clock sid m m')\<^sup>*\<^sup>*"

definition ci_all :: "identity \<Rightarrow> (json \<Rightarrow> real option) \<Rightarrow> store \<Rightarrow> store \<Rightarrow> bool" where
  "ci_all ident clock st st' \<longleftrightarrow> any_moves ident clock (channel_map st) (channel_map st') \<and> ci_sound ident st'"

lemma ci_moves_any: "ci_moves ident clock sid m m' \<Longrightarrow> any_moves ident clock m m'"
  unfolding any_moves_def by (induction rule: rtranclp_induct) (auto intro: rtranclp.rtrancl_into_rtrancl)

lemma ci_reached_all: "ci_reached ident clock sid st st' \<Longrightarrow> ci_all ident clock st st'"
  using ci_moves_any by (auto simp: ci_reached_def ci_all_def)

lemma ci_all_refl: "ci_sound ident st \<Longrightarrow> ci_all ident clock st st"
  by (simp add: ci_all_def any_moves_def)

lemma ci_all_trans: "ci_all ident clock r s \<Longrightarrow> ci_all ident clock s t \<Longrightarrow> ci_all ident clock r t"
  by (auto simp: ci_all_def any_moves_def)

lemma ci_all_sound: "ci_all ident clock st st' \<Longrightarrow> ci_sound ident st'"
  by (simp add: ci_all_def)

lemma synchronize_reached:
  assumes "inj ident" and "ci_sound ident st" and "synchronize ident e native v st = Inr st'" and "jget v ''subscription_id'' = JStr sid"
  shows "ci_reached ident clock sid st st'"
proof -
  from assms(3) obtain head where step: "(if jget native ''before_sha'' = jget v ''head_sha''
       then ebind (need_str v ''subscription_id'') (\<lambda>sid. case head of
           JStr s \<Rightarrow> update_head ident (granted ident False) sid s st
         | _ \<Rightarrow> Inl (ValueError ''head_sha must be a nonempty string''))
       else if head \<noteq> jget v ''head_sha''
       then ebind (need_str v ''thread_id'') (\<lambda>th. put_entry ident th ''ci_head_observation'' (en_event e)
         (JObj [(''before_sha'', jget native ''before_sha''), (''head_sha'', head),
                (''reason'', JStr ''noncontiguous_head_requires_explicit_selection''),
                (''subscription_id'', jget v ''subscription_id''), (''thread_id'', JStr th)]) st)
       else Inr st) = Inr st'"
    unfolding synchronize_def by (rule ebind_InrE)
  show ?thesis
  proof (cases "jget native ''before_sha'' = jget v ''head_sha''")
    case True
    with step obtain s where s: "need_str v ''subscription_id'' = Inr s"
      and "(case head of JStr x \<Rightarrow> update_head ident (granted ident False) s x st
         | _ \<Rightarrow> Inl (ValueError ''head_sha must be a nonempty string'')) = Inr st'" by (simp add: ebind_eq_Inr) blast
    then obtain x where "update_head ident (granted ident False) s x st = Inr st'" by (cases head) simp_all
    moreover from need_str_get [OF s] assms(4) have "s = sid" by simp
    ultimately show ?thesis using update_head_reached [OF assms(1,2)] by simp
  next
    case False
    show ?thesis
    proof (cases "head = jget v ''head_sha''")
      case True
      with False step ci_reached_refl [OF assms(2)] show ?thesis by simp
    next
      case other: False
      from False other step obtain th w where "put_entry ident th ''ci_head_observation'' (en_event e) w st = Inr st'"
        by (simp add: ebind_eq_Inr) blast
      from put_elsewhere [OF assms(1,2) this] show ?thesis by (simp add: receipt_kinds_def ci_kinds_def)
    qed
  qed
qed

lemma try_repair_reached:
  assumes "inj (ch_ident h)" and "ci_sound (ch_ident h) st" and "try_repair h th sid eid now st = Inr st'"
  shows "ci_reached (ch_ident h) clock sid st st'"
proof (cases "enqueue_repair h (granted (ch_ident h) True) sid eid now st")
  case (Inr p)
  obtain c s where p: "p = (c, s)" by (cases p)
  with Inr assms(3) have "s = st'" by (simp add: try_repair_def)
  with enqueue_repair_reached(1) [OF assms(1,2)] Inr p show ?thesis by simp
next
  case (Inl err)
  with assms(3) obtain w where "put_entry (ch_ident h) th ''ci_action'' eid w st = Inr st'"
    by (auto simp: try_repair_def split: option.splits)
  from put_elsewhere [OF assms(1,2) this] show ?thesis by (simp add: receipt_kinds_def ci_kinds_def)
qed

lemma submit_evidence_reached:
  assumes "inj (ch_ident h)" and "ci_sound (ch_ident h) st" and "submit_evidence h clock v evidence now st = Inr st'"
    and "jget v ''subscription_id'' = JStr sid"
  shows "ci_reached (ch_ident h) clock sid st st'"
proof -
  from assms(3) have "\<exists>s r t. need_str v ''subscription_id'' = Inr s
      \<and> record_evidence h clock (granted (ch_ident h) False) (\<lambda>_. True) s evidence now st = Inr (r, t)
      \<and> (st' = t \<or> (\<exists>th eid. try_repair h th s eid now t = Inr st'))"
    unfolding submit_evidence_def by (auto split: if_splits; blast)
  then obtain s r t where s: "need_str v ''subscription_id'' = Inr s"
    and r: "record_evidence h clock (granted (ch_ident h) False) (\<lambda>_. True) s evidence now st = Inr (r, t)"
    and st': "st' = t \<or> (\<exists>th eid. try_repair h th s eid now t = Inr st')" by blast
  from need_str_get [OF s] assms(4) have [simp]: "s = sid" by simp
  have t: "ci_reached (ch_ident h) clock sid st t" using record_reached [OF assms(1,2) r] by simp
  then have "ci_sound (ch_ident h) t" by (rule ci_reached_sound)
  with st' try_repair_reached [OF assms(1) this] t ci_reached_trans show ?thesis by (metis \<open>s = sid\<close>)
qed

lemma results_reached:
  assumes "inj ident" and "ci_sound ident st" and "sub_at ident (channel_map st) sid th v"
    and "save_subscription ident (jset v ''check_results'' r) st = Inr st'"
  shows "ci_reached ident clock sid st st'"
    and "sub_at ident (channel_map st') sid th (jset v ''check_results'' r)"
proof -
  from assms(2,3) have ok: "sub_ok ident (channel_map st) sid th v" by (simp add: ci_sound_def ci_ok_def)
  then have obj: "is_obj v" by (simp add: sub_ok_def)
  have support: "backed ident (channel_map st) sid (jset v ''check_results'' r)"
    if "jget (jset v ''check_results'' r) ''check_status'' = JStr ''pass''"
    by (rule kept_backing [OF ok _ _ _ that]) (simp_all add: obj)
  have "ci_reached ident clock sid st st'"
    "channel_map st' = (channel_map st)(ident [''ci_subscription'', sid] \<mapsto> (''ci_subscription'', sid, th, jset v ''check_results'' r))"
    by (rule save_moves [OF assms(1-3) results_taken assms(4)], rule support, assumption)+
  then show "ci_reached ident clock sid st st'" "sub_at ident (channel_map st') sid th (jset v ''check_results'' r)"
    by (simp_all add: at_put_sub(1) [OF assms(1)])
qed

lemma apply_event_reached:
  assumes "inj (ch_ident h)" and "ci_sound (ch_ident h) st" and "sub_at (ch_ident h) (channel_map st) sid th v"
    and "apply_event h clock e v now st = Inr st'"
  shows "ci_reached (ch_ident h) clock sid st st'"
proof -
  let ?id = "ch_ident h"
  from assms(2,3) have id: "jget v ''subscription_id'' = JStr sid" by (simp add: ci_sound_def ci_ok_def sub_ok_def)
  let ?native = "en_evidence e"
  from assms(4) obtain event action where step: "(if event = JStr ''pull_request'' \<and> action = JStr ''synchronize'' then synchronize ?id e ?native v st
       else if event = JStr ''check_run''
       then (case jget ?native ''check_identity'' of
           JStr cid \<Rightarrow>
             if JStr cid \<notin> set (check_ids v) then Inr st
             else ebind (check_evidence e ?native v cid) (\<lambda>found. case found of
                 None \<Rightarrow> Inr st
               | Some (evidence, changed) \<Rightarrow>
                   ebind (case changed of None \<Rightarrow> Inr st | Some w \<Rightarrow> save_subscription ?id w st) (\<lambda>s.
                     submit_evidence h clock v evidence now s))
         | _ \<Rightarrow> Inr st)
       else if event \<in> JStr ` set [''pull_request_review'', ''pull_request_review_comment'']
       then ebind (review_evidence e ?native v) (\<lambda>evidence. submit_evidence h clock v evidence now st)
       else Inr st) = Inr st'"
    unfolding apply_event_def Let_def by (elim ebind_InrE) blast
  note refl = ci_reached_refl [OF assms(2)]
  consider (push) "event = JStr ''pull_request'' \<and> action = JStr ''synchronize''" | (check) "event = JStr ''check_run''"
    | (review) "event \<noteq> JStr ''check_run''" "\<not> (event = JStr ''pull_request'' \<and> action = JStr ''synchronize'')" by blast
  then show ?thesis
  proof cases
    case push
    with step show ?thesis using synchronize_reached [OF assms(1,2) _ id] by simp
  next
    case review
    with step have "st' = st \<or> (\<exists>evidence. submit_evidence h clock v evidence now st = Inr st')"
      by (auto split: if_splits)
    with submit_evidence_reached [OF assms(1,2) _ id] refl show ?thesis by blast
  next
    case check
    show ?thesis
    proof (cases "\<exists>cid. jget ?native ''check_identity'' = JStr cid \<and> JStr cid \<in> set (check_ids v)")
      case False
      with check step have "st' = st" by (cases "jget ?native ''check_identity''") auto
      with refl show ?thesis by simp
    next
      case True
      then obtain cid where "jget ?native ''check_identity'' = JStr cid" "JStr cid \<in> set (check_ids v)" by blast
      with check step obtain found where found: "check_evidence e ?native v cid = Inr found"
        and rest: "(case found of None \<Rightarrow> Inr st | Some (evidence, changed) \<Rightarrow>
             ebind (case changed of None \<Rightarrow> Inr st | Some w \<Rightarrow> save_subscription ?id w st) (\<lambda>s.
               submit_evidence h clock v evidence now s)) = Inr st'" by (auto elim: ebind_InrE)
      show ?thesis
      proof (cases found)
        case None
        with rest refl show ?thesis by simp
      next
        case (Some p)
        obtain evidence changed where p: "p = (evidence, changed)" by (cases p)
        with Some rest obtain s where s: "(case changed of None \<Rightarrow> Inr st | Some w \<Rightarrow> save_subscription ?id w st) = Inr s"
          and sub: "submit_evidence h clock v evidence now s = Inr st'" by auto
        have "changed = None \<or> (\<exists>r. changed = Some (jset v ''check_results'' r))"
          using found Some p by (auto simp: check_evidence_def Let_def split: option.splits if_splits)
        with s have "s = st \<or> (\<exists>r. save_subscription ?id (jset v ''check_results'' r) st = Inr s)" by auto
        with results_reached(1) [OF assms(1-3)] refl have r: "ci_reached ?id clock sid st s" by blast
        from submit_evidence_reached [OF assms(1) ci_reached_sound [OF r] sub id] r show ?thesis
          using ci_reached_trans by blast
      qed
    qed
  qed
qed

text \<open>The stored subscriptions, each under its own identity.\<close>

lemma subs_listed:
  assumes "inj ident" and "ci_sound ident st"
  shows "\<exists>sids. distinct sids \<and> list_all2 (\<lambda>sid v. \<exists>th. sub_at ident (channel_map st) sid th v) sids (entries st ''ci_subscription'')"
proof -
  let ?T = "channel_entries (proj st)"
  let ?rows = "select_rows (\<lambda>c. ch_kind c = ''ci_subscription'') ?T"
  from assms(2) have ok: "table_ok ch_id ?T" and chan: "channel_ok ident (channel_map st)"
    by (simp_all add: ci_sound_def sound_def well_formed_def projection_ok_def)
  have row: "tget ?T (ch_id c) = Some c" if "c \<in> set ?rows" for c
    using that ok by (auto simp: select_rows_def trows_def table_ok_def tget_def tkeys_def list_all_iff)
  have ident: "ch_id c = ident [''ci_subscription'', ch_key c]" if "c \<in> set ?rows" for c
  proof -
    from row [OF that] have "channel_map st (ch_id c) = Some (ch_kind c, ch_key c, ch_thread c, ch_value c)"
      by (simp add: channel_map_def entry_view_def)
    with chan have "ch_id c = ident [ch_kind c, ch_key c]" unfolding channel_ok_def by blast
    with that show ?thesis by (simp add: select_rows_def)
  qed
  have "map ch_id (trows ?T) = tkeys ?T"
    using ok by (auto simp: trows_def tkeys_def table_ok_def list_all_iff)
  then have "distinct (map ch_id (trows ?T))" using ok by (simp add: table_ok_def)
  then have "distinct (map ch_id ?rows)" by (simp add: select_rows_def distinct_map_filter)
  moreover have "map ch_id ?rows = map (\<lambda>k. ident [''ci_subscription'', k]) (map ch_key ?rows)" using ident by simp
  ultimately have "distinct (map ch_key ?rows)" by (metis distinct_map)
  moreover have "\<exists>th. sub_at ident (channel_map st) (ch_key c) th (ch_value c)" if "c \<in> set ?rows" for c
    using row [OF that] ident [OF that] that
    by (auto simp: sub_at_def channel_map_def entry_view_def select_rows_def)
  then have "list_all2 (\<lambda>sid v. \<exists>th. sub_at ident (channel_map st) sid th v) (map ch_key ?rows) (map ch_value ?rows)"
    by (simp add: list_all2_conv_all_nth)
  ultimately show ?thesis unfolding entries_def by blast
qed

lemma consume_chain:
  assumes "inj (ch_ident h)"
  shows "ci_sound (ch_ident h) st \<Longrightarrow> distinct sids \<Longrightarrow>
    list_all2 (\<lambda>sid v. \<exists>th. sub_at (ch_ident h) (channel_map st) sid th v) sids vs \<Longrightarrow>
    chain (map (consume_one h clock e now) vs) st = Inr st' \<Longrightarrow> ci_all (ch_ident h) clock st st'"
proof (induction vs arbitrary: sids st)
  case Nil
  then show ?case by (simp add: ci_all_refl)
next
  case (Cons v vs)
  let ?id = "ch_ident h"
  from Cons.prems(3) obtain sid rest th where sids: "sids = sid # rest" and th: "sub_at ?id (channel_map st) sid th v"
    and later: "list_all2 (\<lambda>sid v. \<exists>th. sub_at ?id (channel_map st) sid th v) rest vs"
    by (auto simp: list_all2_Cons2)
  from Cons.prems(4) obtain s where s: "consume_one h clock e now v st = Inr s"
    and tail: "chain (map (consume_one h clock e now) vs) s = Inr st'" by auto
  have r: "ci_reached ?id clock sid st s"
  proof -
    from s have "s = st \<or> apply_event h clock e v now st = Inr s"
      unfolding consume_one_def by (auto split: if_splits sum.splits)
    with apply_event_reached [OF assms Cons.prems(1) th] ci_reached_refl [OF Cons.prems(1)] show ?thesis by blast
  qed
  then have moves: "ci_moves ?id clock sid (channel_map st) (channel_map s)" by (simp add: ci_reached_def)
  from Cons.prems(2) sids have fresh: "distinct rest" "sid \<notin> set rest" by simp_all
  have "list_all2 (\<lambda>sid v. \<exists>th. sub_at ?id (channel_map s) sid th v) rest vs"
    using later fresh(2) ci_moves_others [OF moves assms] unfolding list_all2_conv_all_nth by (metis nth_mem)
  from Cons.IH [OF ci_reached_sound [OF r] fresh(1) this tail] ci_reached_all [OF r] show ?case
    using ci_all_trans by blast
qed

lemma consume_reached:
  assumes "inj (ch_ident h)" and "ci_sound (ch_ident h) st" and "consume h clock e now st = Inr st'"
  shows "ci_all (ch_ident h) clock st st'"
proof (cases "jget (en_evidence e) ''provider'' = JStr ''github''")
  case True
  from subs_listed [OF assms(1,2)] obtain sids where "distinct sids"
    "list_all2 (\<lambda>sid v. \<exists>th. sub_at (ch_ident h) (channel_map st) sid th v) sids (entries st ''ci_subscription'')" by blast
  from consume_chain [OF assms(1,2) this] True assms(3) show ?thesis by (simp add: consume_def)
next
  case False
  with assms(3) have "st' = st" by (simp add: consume_def)
  then show ?thesis by (simp add: ci_all_refl assms(2))
qed

section \<open>Waiting repairs and polls\<close>

lemma resume_one_reached:
  assumes "inj (ch_ident h)" and "ci_sound (ch_ident h) st" and "resume_one h now v st = Inr st'"
  shows "ci_all (ch_ident h) clock st st'"
proof -
  from assms(3) have "st' = st \<or> (\<exists>sid eid c. enqueue_repair h (granted (ch_ident h) True) sid eid now st = Inr (c, st'))"
    unfolding resume_one_def by (auto split: if_splits sum.splits; blast)
  with enqueue_repair_reached(1) [OF assms(1,2)] ci_reached_all ci_all_refl [OF assms(2)] show ?thesis by blast
qed

lemma resume_chain:
  assumes "inj (ch_ident h)"
  shows "ci_sound (ch_ident h) st \<Longrightarrow> chain (map (resume_one h now) vs) st = Inr st' \<Longrightarrow> ci_all (ch_ident h) clock st st'"
proof (induction vs arbitrary: st)
  case (Cons v vs)
  from Cons.prems(2) obtain s where s: "resume_one h now v st = Inr s" and tail: "chain (map (resume_one h now) vs) s = Inr st'" by auto
  have r: "ci_all (ch_ident h) clock st s" by (rule resume_one_reached [OF assms Cons.prems(1) s])
  from Cons.IH [OF ci_all_sound [OF r] tail] r show ?case using ci_all_trans by blast
qed (simp add: ci_all_refl)

lemma resume_reached:
  "inj (ch_ident h) \<Longrightarrow> ci_sound (ch_ident h) st \<Longrightarrow> resume_eligible h now st = Inr st' \<Longrightarrow> ci_all (ch_ident h) clock st st'"
  unfolding resume_eligible_def by (rule resume_chain)

lemma reserve_first_reached:
  assumes "inj ident"
  shows "ci_sound ident st \<Longrightarrow> reserve_first ident now vs st = Inr (x, st') \<Longrightarrow> ci_all ident clock st st'"
proof (induction vs arbitrary: st)
  case Nil
  then show ?case by (simp add: ci_all_refl)
next
  case (Cons v vs)
  show ?case
  proof (cases "truthy (jget v ''enabled'')")
    case False
    with Cons show ?thesis by simp
  next
    case True
    with Cons.prems(2) obtain sid where rest: "(case reserve_poll ident (granted ident False) sid now st of
          Inl err \<Rightarrow> if permission_error err then reserve_first ident now vs st else Inl err
        | Inr (None, s) \<Rightarrow> reserve_first ident now vs s
        | Inr (Some token, s) \<Rightarrow> Inr (Some (v, token), s)) = Inr (x, st')" by (auto elim: ebind_InrE)
    show ?thesis
    proof (cases "reserve_poll ident (granted ident False) sid now st")
      case (Inl err)
      with rest Cons show ?thesis by (simp split: if_splits)
    next
      case (Inr p)
      obtain token s where p: "p = (token, s)" by (cases p)
      from reserve_poll_reached [OF assms Cons.prems(1)] Inr p have r: "ci_all ident clock st s"
        by (intro ci_reached_all) simp
      show ?thesis
      proof (cases token)
        case None
        with rest Inr p have "reserve_first ident now vs s = Inr (x, st')" by simp
        from Cons.IH [OF ci_all_sound [OF r] this] r show ?thesis using ci_all_trans by blast
      next
        case (Some t)
        with rest Inr p r show ?thesis by simp
      qed
    qed
  qed
qed

lemma note_head_reached:
  assumes "inj ident" and "ci_sound ident st" and "sub_at ident (channel_map st) sid th v"
    and "note_head ident token seen v st = Inr (w, st')"
  shows "ci_reached ident clock sid st st'" and "sub_at ident (channel_map st') sid th w"
proof -
  from assms(2,3) have ok: "sub_ok ident (channel_map st) sid th v" by (simp add: ci_sound_def ci_ok_def)
  then have obj: "is_obj v" by (simp add: sub_ok_def)
  let ?w = "jupdate v [(''remote_status'', JStr ''head_mismatch''), (''observed_remote_head'', seen)]"
  have "ci_reached ident clock sid st st' \<and> sub_at ident (channel_map st') sid th w"
  proof (cases "seen = jget token ''head_sha''")
    case True
    with assms(4) have "w = v" "st' = st" by (simp_all add: note_head_def)
    with assms(2,3) show ?thesis by (simp add: ci_reached_refl)
  next
    case False
    with assms(4) have put: "save_subscription ident ?w st = Inr st'" and w: "w = ?w" by (auto simp: note_head_def Let_def)
    have support: "backed ident (channel_map st) sid ?w" if "jget ?w ''check_status'' = JStr ''pass''"
      by (rule kept_backing [OF ok _ _ _ that]) (simp_all add: obj)
    have "ci_reached ident clock sid st st'"
      "channel_map st' = (channel_map st)(ident [''ci_subscription'', sid] \<mapsto> (''ci_subscription'', sid, th, ?w))"
      by (rule save_moves [OF assms(1-3) foreign_head put], rule support, assumption)+
    then show ?thesis by (simp add: at_put_sub(1) [OF assms(1)] w)
  qed
  then show "ci_reached ident clock sid st st'" "sub_at ident (channel_map st') sid th w" by blast+
qed

lemma poll_commit_reached:
  assumes "inj (ch_ident h)" and "ci_sound (ch_ident h) st" and "poll_commit h clock show_int v token snapshot now st = Inr st'"
  shows "ci_all (ch_ident h) clock st st'"
proof -
  let ?id = "ch_ident h"
  from assms(3) obtain sid where rest: "(case get_entry ?id st ''ci_subscription'' sid of
       None \<Rightarrow> Inr st
     | Some current \<Rightarrow>
         if jget current ''head_sha'' \<noteq> jget token ''head_sha'' then Inr st
         else ebind (authorize_ci ?id st current False) (\<lambda>_.
           if jget current ''evidence_id'' \<noteq> jget v ''evidence_id'' \<or> jget current ''check_results'' \<noteq> jget v ''check_results''
           then ebind (need_str current ''thread_id'') (\<lambda>th.
             put_entry ?id th ''ci_poll_observation'' (poll_key show_int sid token)
               (JObj [(''reason'', JStr ''superseded_during_query''), (''snapshot'', snapshot),
                      (''subscription_id'', JStr sid), (''thread_id'', JStr th)]) st)
           else ebind (note_head ?id token (jget snapshot ''head_sha'') current st) (\<lambda>(w, s).
             ebind (take_results ?id v snapshot w s) (\<lambda>s.
             ebind (record_evidence h clock (granted ?id False) (\<lambda>_. True) sid
               (poll_evidence show_int sid v token snapshot) now s) (\<lambda>(r, s). resume_eligible h now s))))) = Inr st'"
    unfolding poll_commit_def by (rule ebind_InrE)
  note refl = ci_all_refl [OF assms(2)]
  show ?thesis
  proof (cases "get_entry ?id st ''ci_subscription'' sid")
    case None
    with rest refl show ?thesis by simp
  next
    case (Some current)
    from sub_stored [OF assms(1,2) Some] obtain th where th: "sub_at ?id (channel_map st) sid th current" by blast
    consider "st' = st" | (late) "\<exists>x w. put_entry ?id x ''ci_poll_observation'' (poll_key show_int sid token) w st = Inr st'"
      | (taken) "\<exists>w s t r u. note_head ?id token (jget snapshot ''head_sha'') current st = Inr (w, s)
          \<and> take_results ?id v snapshot w s = Inr t
          \<and> record_evidence h clock (granted ?id False) (\<lambda>_. True) sid (poll_evidence show_int sid v token snapshot) now t = Inr (r, u)
          \<and> resume_eligible h now u = Inr st'"
    proof (cases "jget current ''head_sha'' \<noteq> jget token ''head_sha''")
      case True
      with rest Some that(1) show ?thesis by simp
    next
      case same: False
      show ?thesis
      proof (cases "jget current ''evidence_id'' \<noteq> jget v ''evidence_id'' \<or> jget current ''check_results'' \<noteq> jget v ''check_results''")
        case True
        with rest Some same have "\<exists>x w. put_entry ?id x ''ci_poll_observation'' (poll_key show_int sid token) w st = Inr st'"
          by (auto simp: ebind_eq_Inr)
        then show ?thesis by (rule that(2))
      next
        case False
        with rest Some same have "\<exists>w s t r u. note_head ?id token (jget snapshot ''head_sha'') current st = Inr (w, s)
          \<and> take_results ?id v snapshot w s = Inr t
          \<and> record_evidence h clock (granted ?id False) (\<lambda>_. True) sid (poll_evidence show_int sid v token snapshot) now t = Inr (r, u)
          \<and> resume_eligible h now u = Inr st'"
          by (auto simp: ebind_eq_Inr)
        then show ?thesis by (rule that(3))
      qed
    qed
    then show ?thesis
    proof cases
      case 1
      with refl show ?thesis by simp
    next
      case late
      then obtain x w where "put_entry ?id x ''ci_poll_observation'' (poll_key show_int sid token) w st = Inr st'" by blast
      from put_elsewhere [OF assms(1,2) this] show ?thesis
        by (intro ci_reached_all) (simp add: receipt_kinds_def ci_kinds_def)
    next
      case taken
      then obtain w s t r u where w: "note_head ?id token (jget snapshot ''head_sha'') current st = Inr (w, s)"
        and t: "take_results ?id v snapshot w s = Inr t"
        and u: "record_evidence h clock (granted ?id False) (\<lambda>_. True) sid (poll_evidence show_int sid v token snapshot) now t = Inr (r, u)"
        and res: "resume_eligible h now u = Inr st'" by blast
      note rs = note_head_reached [OF assms(1,2) th w]
      note snd_s = ci_reached_sound [OF rs(1)]
      from t have "t = s \<or> (\<exists>r. save_subscription ?id (jset w ''check_results'' r) s = Inr t)"
        by (auto simp: take_results_def split: if_splits)
      with results_reached(1) [OF assms(1) snd_s rs(2)] ci_reached_refl [OF snd_s]
      have rt: "ci_reached ?id clock sid s t" by blast
      note ru = record_reached [OF assms(1) ci_reached_sound [OF rt] u]
      note rr = resume_reached [OF assms(1) ci_reached_sound [OF ru] res]
      from ci_reached_trans [OF ci_reached_trans [OF rs(1) rt] ru] have "ci_all ?id clock st u" by (rule ci_reached_all)
      with rr show ?thesis using ci_all_trans by blast
    qed
  qed
qed

section \<open>Runs\<close>

text \<open>Between the operations on subscriptions the store may change in any way that keeps the channel sound and
  writes no entry of theirs.\<close>

inductive ci_step :: "channel_host \<Rightarrow> (json \<Rightarrow> real option) \<Rightarrow> store \<Rightarrow> store \<Rightarrow> bool" for h clock where
  other_work: "sound (ch_ident h) st' \<Longrightarrow> same_ci (ch_ident h) (channel_map st) (channel_map st') \<Longrightarrow> ci_step h clock st st'"
| subscribed: "create_subscription (ch_ident h) resolve auth r now st = Inr (v, st') \<Longrightarrow> ci_step h clock st st'"
| head_updated: "update_head (ch_ident h) auth sid head st = Inr st' \<Longrightarrow> ci_step h clock st st'"
| evidence_recorded: "record_evidence h clock auth verify sid e now st = Inr (r, st') \<Longrightarrow> ci_step h clock st st'"
| repair_queued: "enqueue_repair h auth sid eid now st = Inr (c, st') \<Longrightarrow> ci_step h clock st st'"
| poll_spent: "reserve_poll (ch_ident h) auth sid now st = Inr (token, st') \<Longrightarrow> ci_step h clock st st'"
| event_consumed: "consume h clock e now st = Inr st' \<Longrightarrow> ci_step h clock st st'"
| repairs_resumed: "resume_eligible h now st = Inr st' \<Longrightarrow> ci_step h clock st st'"
| poll_reserved: "poll_reserve (ch_ident h) now st = Inr (x, st') \<Longrightarrow> ci_step h clock st st'"
| poll_committed: "poll_commit h clock show_int v token snapshot now st = Inr st' \<Longrightarrow> ci_step h clock st st'"

abbreviation ci_run :: "channel_host \<Rightarrow> (json \<Rightarrow> real option) \<Rightarrow> store \<Rightarrow> store \<Rightarrow> bool" where
  "ci_run h clock \<equiv> (ci_step h clock)\<^sup>*\<^sup>*"

lemma ci_step_all:
  assumes "ci_step h clock st st'" and "inj (ch_ident h)" and "ci_sound (ch_ident h) st"
  shows "ci_all (ch_ident h) clock st st'"
  using assms(1)
proof cases
  case other_work
  have "ci_reached (ch_ident h) clock [] st st'"
    by (rule ci_reached_one [OF assms(2,3) ci_move.elsewhere [OF other_work(2)] other_work(1)])
  then show ?thesis by (rule ci_reached_all)
next
  case (subscribed resolve auth r now v)
  from create_reached [OF assms(2,3) this] show ?thesis by (rule ci_reached_all)
next
  case (head_updated auth sid head)
  from update_head_reached [OF assms(2,3) this] show ?thesis by (rule ci_reached_all)
next
  case (evidence_recorded auth verify sid e now r)
  from record_reached [OF assms(2,3) this] show ?thesis by (rule ci_reached_all)
next
  case (repair_queued auth sid eid now c)
  from enqueue_repair_reached(1) [OF assms(2,3) this] show ?thesis by (rule ci_reached_all)
next
  case (poll_spent auth sid now token)
  from reserve_poll_reached [OF assms(2,3) this] show ?thesis by (rule ci_reached_all)
next
  case (event_consumed e now)
  then show ?thesis by (rule consume_reached [OF assms(2,3)])
next
  case (repairs_resumed now)
  then show ?thesis by (rule resume_reached [OF assms(2,3)])
next
  case (poll_reserved now x)
  then show ?thesis unfolding poll_reserve_def by (rule reserve_first_reached [OF assms(2,3)])
next
  case (poll_committed show_int v token snapshot now)
  then show ?thesis by (rule poll_commit_reached [OF assms(2,3)])
qed

interpretation ci: simulation "ci_step h clock" "\<lambda>st. inj (ch_ident h) \<and> ci_sound (ch_ident h) st" channel_map
    "\<lambda>m m'. \<exists>sid. ci_move (ch_ident h) clock sid m m'" for h clock
  by unfold_locales (use ci_step_all in \<open>simp_all add: ci_all_def any_moves_def\<close>)

lemma ci_run_all: "ci_run h clock st st' \<Longrightarrow> inj (ch_ident h) \<Longrightarrow> ci_sound (ch_ident h) st \<Longrightarrow> ci_all (ch_ident h) clock st st'"
  using ci.run_keeps ci.run_moves unfolding ci_all_def any_moves_def by blast

lemma ci_sound_empty: "ci_sound ident empty_store"
proof -
  have "channel_map empty_store = (\<lambda>_. None)" by (auto simp: channel_map_def empty_store_def empty_projection_def)
  then show ?thesis by (simp add: ci_sound_def sound_def well_formed_empty channel_ok_def ci_ok_def sub_at_def evidence_at_def)
qed

lemma ci_run_sound: "ci_run h clock empty_store st \<Longrightarrow> inj (ch_ident h) \<Longrightarrow> ci_sound (ch_ident h) st"
  using ci_run_all [OF _ _ ci_sound_empty] by (auto simp: ci_all_def)

section \<open>What becomes of a subscription\<close>

lemma sub_after_move:
  assumes "ci_move ident clock s m m'" and "inj ident" and "sub_at ident m sid th v"
  shows "\<exists>w. sub_at ident m' sid th w \<and> (w = v \<or> sub_move clock v w)"
  using assms(1)
proof cases
  case elsewhere
  with assms(3) have "sub_at ident m' sid th v" by (simp add: at_elsewhere [OF elsewhere])
  then show ?thesis by blast
next
  case (subscribed t w)
  from subscribed(2) assms(3) have "sid \<noteq> s" by (auto simp: sub_at_def)
  with assms(2,3) subscribed(1) have "sub_at ident m' sid th v" by (simp add: at_put_sub)
  then show ?thesis by blast
next
  case (changed t x w)
  show ?thesis
  proof (cases "sid = s")
    case True
    with changed(2) assms(3) have "t = th" "x = v" by (simp_all add: sub_at_def)
    with True changed(1,3) assms(2) show ?thesis by (simp add: at_put_sub)
  next
    case False
    with assms(2,3) changed(1) have "sub_at ident m' sid th v" by (simp add: at_put_sub)
    then show ?thesis by blast
  qed
next
  case (recorded eid r t)
  with assms(2,3) have "sub_at ident m' sid th v" by (simp add: at_put_evidence)
  then show ?thesis by blast
next
  case (answered eid t r cid)
  with assms(2,3) have "sub_at ident m' sid th v" by (simp add: at_put_evidence)
  then show ?thesis by blast
qed

interpretation subs: tracking "\<lambda>m m'. \<exists>s. ci_move ident clock s m m'" "\<lambda>m v. inj ident \<and> sub_at ident m sid th v"
    "sub_move clock" for ident clock sid th
proof unfold_locales
  show "\<exists>w. (inj ident \<and> sub_at ident n sid th w) \<and> (sub_move clock)\<^sup>*\<^sup>* v w"
    if "\<exists>s. ci_move ident clock s m n" "inj ident \<and> sub_at ident m sid th v" for m n v
    using sub_after_move that by blast
qed

lemma sub_after_moves:
  assumes "any_moves ident clock m m'" and "inj ident" and "sub_at ident m sid th v"
  shows "\<exists>w. sub_at ident m' sid th w \<and> (sub_move clock)\<^sup>*\<^sup>* v w"
  using subs.stays_present [OF assms(1) [unfolded any_moves_def]] assms(2,3) by blast

text \<open>An answered repair stays answered.\<close>

lemma answer_stays:
  assumes "any_moves ident clock m m'" and "inj ident" and "evidence_at ident m eid th r" and "jget r ''repair_command_id'' = JStr c"
  shows "evidence_at ident m' eid th r"
  using assms(1) unfolding any_moves_def
proof (induction rule: rtranclp_induct)
  case (step a b)
  from step(2) obtain s where "ci_move ident clock s a b" by blast
  then show ?case
  proof cases
    case elsewhere
    with step(3) show ?thesis by (simp add: at_elsewhere [OF elsewhere])
  next
    case (recorded e q t)
    from recorded(2) step(3) have "eid \<noteq> e" by (auto simp: evidence_at_def)
    with step(3) show ?thesis unfolding recorded(1) at_put_evidence(1) [OF assms(2)] by simp
  next
    case (answered e t q cid)
    have "eid \<noteq> e"
    proof
      assume "eid = e"
      with answered(2) step(3) have "q = r" by (simp add: evidence_at_def)
      with answered(3) [of c] assms(4) show False by simp
    qed
    with step(3) show ?thesis unfolding answered(1) at_put_evidence(1) [OF assms(2)] by simp
  next
    case (subscribed t w)
    with step(3) show ?thesis unfolding subscribed(1) at_put_sub(2) [OF assms(2)] by simp
  next
    case (changed t x w)
    with step(3) show ?thesis unfolding changed(1) at_put_sub(2) [OF assms(2)] by simp
  qed
qed (rule assms(3))

lemma subs_move:
  assumes "(sub_move clock)\<^sup>*\<^sup>* v w" and "is_obj v" and "counters_ok v"
  shows "is_obj w \<and> counters_ok w \<and> spent_more v w \<and> (\<forall>k \<in> fixed_fields. jget w k = jget v k)"
  using assms(1)
proof (induction rule: rtranclp_induct)
  case base
  with assms(2,3) show ?case by (simp add: spent_more_refl)
next
  case (step x y)
  then have x: "is_obj x" "counters_ok x" "spent_more v x" by blast+
  from sub_move_obj [OF step(2) x(1)] sub_move_counters [OF step(2) x(1,2)]
    spent_more_trans [OF x(3) sub_move_spent [OF step(2) x(1,2)]] sub_move_fixed [OF step(2) x(1)] step(3)
  show ?case by simp
qed

end
