(* ===== verification/Ci_Scenario.thy ===== *)
theory Ci_Scenario
  imports Ci_Runs Channel_Scenario
begin

text \<open>
  A concrete Thread whose last Turn was started by the host and failed, a subscription to its pull
  request, and a failing check that is answered by one repair.
\<close>

definition no_clock :: "json \<Rightarrow> real option" where
  "no_clock v = None"

definition anyone :: ci_auth where
  "anyone st v = Inr True"

definition host_append :: "host_fact \<Rightarrow> store \<Rightarrow> store result" where
  "host_append f = append_fact ''t'' None ''host'' (HostFact f)"

definition turn_append :: "string \<Rightarrow> turn_fact \<Rightarrow> store \<Rightarrow> store result" where
  "turn_append tid f = append_fact ''t'' (Some tid) ''runtime'' (TurnFact f)"

definition submission :: json where
  "submission = JObj [(''configuration'', JObj [(''agent'', JObj [(''workspace_path'', JStr ''w'')])]),
     (''options'', JObj [(''max_steps'', JInt 5)])]"

definition failed_thread :: "bool \<Rightarrow> store result" where
  "failed_thread by_host = chain
     ([append_fact ''t'' None ''runtime'' (ThreadFact (ThreadCreated ''w''))]
      @ (if by_host then [host_append (HostCommandReceived ''c'' ''u'' ''start'' [] submission)] else [])
      @ [turn_append ''u'' (TurnStarted ''u'' None 0 (JObj [])), turn_append ''u'' (TurnFailed ''u'' ''r'' None)]
      @ (if by_host then [host_append (HostCommandSettled ''c'' CmdApplied (JObj []) 0)] else [])) empty_store"

definition allowance :: json where
  "allowance = JObj [(''deadline'', JInt 100), (''max_cost_micros'', JInt 30), (''max_new_turns'', JInt 2), (''max_steps'', JInt 8),
     (''max_tokens_total'', JInt 90)]"

definition per_turn :: json where
  "per_turn = JObj [(''max_cost_micros'', JInt 10), (''max_steps'', JInt 9), (''max_tokens_total'', JInt 50)]"

definition ci_wish :: "json \<Rightarrow> bool \<Rightarrow> ci_request" where
  "ci_wish ref repairs = \<lparr>rq_subscription = ''s'', rq_thread = ''t'', rq_workspace = ''w'', rq_source = ''g'', rq_repository = ''o'',
     rq_pull = 7, rq_head = ''h'', rq_checks = [''a''], rq_grant = ref,
     rq_poll = JObj [(''deadline'', JInt 100), (''initial_delay'', JInt 1), (''max_attempts'', JInt 3), (''max_delay'', JInt 60)],
     rq_allowance = (if repairs then Some allowance else None), rq_budget = (if repairs then Some per_turn else None)\<rparr>"

definition checks_reported :: "string \<Rightarrow> json" where
  "checks_reported state = JObj
     [(''checks'', JArr [JObj [(''id'', JStr ''a''), (''state'', JStr state)]]), (''event_id'', JStr ''e''), (''head_sha'', JStr ''h''),
      (''kind'', JStr ''checks''), (''pull_request'', JInt 7), (''repository'', JStr ''o''), (''source_id'', JStr ''g'')]"

definition watched :: "bool \<Rightarrow> store \<Rightarrow> store result" where
  "watched repairs s = ebind (create_subscription plain_ident (\<lambda>s. s) anyone (ci_wish (JObj []) repairs) 0 s) (\<lambda>(v, s). Inr s)"

definition reported :: "string \<Rightarrow> store \<Rightarrow> store result" where
  "reported state s = ebind (record_evidence plain_host no_clock anyone (\<lambda>_. True) ''s'' (checks_reported state) 1 s) (\<lambda>(r, s). Inr s)"

definition red_id :: string where
  "red_id = plain_ident [''s'', ''g'', ''e'']"

definition repaired :: "store \<Rightarrow> (host_command_row \<times> store) result" where
  "repaired = enqueue_repair plain_host anyone ''s'' red_id 2"

definition green_line :: "store result" where
  "green_line = ebind (failed_thread False) (\<lambda>s. ebind (watched False s) (reported ''pass''))"

definition shows_pass :: "store \<Rightarrow> bool" where
  "shows_pass s \<longleftrightarrow> (case get_entry plain_ident s ''ci_subscription'' ''s'' of None \<Rightarrow> False
     | Some v \<Rightarrow> jget v ''remote_status'' = JStr ''pass'')"

lemma green_line_ok: "case green_line of Inl _ \<Rightarrow> False | Inr s \<Rightarrow> shows_pass s"
  by code_simp

definition red_line :: "store result" where
  "red_line = ebind (failed_thread True) (\<lambda>s. ebind (watched True s) (reported ''fail''))"

definition answers_twice :: "store \<Rightarrow> bool" where
  "answers_twice s \<longleftrightarrow> (case repaired s of Inl _ \<Rightarrow> False
     | Inr (c, t) \<Rightarrow> (case repaired t of Inl _ \<Rightarrow> False | Inr _ \<Rightarrow> True))"

lemma red_line_ok: "case red_line of Inl _ \<Rightarrow> False | Inr s \<Rightarrow> answers_twice s"
  by code_simp

text \<open>A Thread whose last Turn no host command started, and its failing check.\<close>

definition ci_reference :: json where
  "ci_reference = JObj [(''binding_revision'', JInt 1), (''conversation_id'', JStr ''c''), (''principal'', JStr ''p''),
     (''revision'', JInt 1), (''source_id'', JStr ''g'')]"

definition blocked_line :: "store result" where
  "blocked_line = ebind (failed_thread False) (\<lambda>s.
     ebind (configure_source plain_ident ''t'' (JObj [(''enabled'', JBool True), (''kind'', JStr ''github''),
       (''repository'', JStr ''o''), (''source_id'', JStr ''g'')]) s) (\<lambda>(v, s).
     ebind (bind_channel plain_ident ''g'' ''c'' ''t'' ''d'' True s) (\<lambda>(b, s).
     ebind (set_grant plain_ident ''g'' ''p'' ''c'' ''t'' [''status'', ''input''] ''r'' True None s) (\<lambda>(g, s).
     ebind (create_subscription plain_ident (\<lambda>s. s) (granted plain_ident False) (ci_wish ci_reference True) 0 s) (\<lambda>(v, s).
     ebind (record_evidence plain_host no_clock (granted plain_ident False) (\<lambda>_. True) ''s'' (checks_reported ''fail'') 1 s)
       (\<lambda>(r, s). Inr s))))))"

definition refused_for_good :: "store result \<Rightarrow> bool" where
  "refused_for_good r \<longleftrightarrow> (case r of Inl (ValueError m) \<Rightarrow> m = ''Turn has no durable background submission'' | _ \<Rightarrow> False)"

end
