(* ===== verification/Ci_Properties.thy ===== *)
theory Ci_Properties
  imports Ci_Scenario
begin

text \<open>
  What the CI subscriptions promise over every run: spending stays within the allowance and is never
  refunded, a pass is backed by a complete snapshot of the head, an answered failure is not repaired
  again; and where resuming the waiting repairs gives up too early.
\<close>

lemma stored_sub:
  assumes "inj (ch_ident h)" and "ci_run h clock empty_store st" and "get_entry (ch_ident h) st ''ci_subscription'' sid = Some v"
  shows "\<exists>th. sub_at (ch_ident h) (channel_map st) sid th v \<and> sub_ok (ch_ident h) (channel_map st) sid th v"
  by (rule sub_stored [OF assms(1) ci_run_sound [OF assms(2,1)] assms(3)])

lemma sub_at_entry: "sub_at ident (channel_map st) sid th v \<Longrightarrow> get_entry ident st ''ci_subscription'' sid = Some v"
  by (simp add: sub_at_def get_entry_map)

section \<open>The concrete run is a run\<close>

definition silent :: "(store \<Rightarrow> store result) \<Rightarrow> bool" where
  "silent f \<longleftrightarrow> (\<exists>th turn pr g. f = append_fact th turn pr g \<and> \<not> channel_fact g)"

lemma silentI: "\<not> channel_fact g \<Longrightarrow> silent (append_fact th turn pr g)"
  by (auto simp: silent_def)

lemma failed_thread_run:
  assumes "failed_thread by_host = Inr s"
  shows "ci_run plain_host no_clock empty_store s"
proof -
  have step: "ci_step plain_host no_clock a b \<and> sound plain_ident b"
    if "append_fact th turn pr f a = Inr b" "\<not> channel_fact f" "sound plain_ident a" for th turn pr f a b
  proof -
    have "sound plain_ident b" by (rule coveredD(2) [OF covered_other [OF that(3,1,2)]])
    moreover have "same_ci plain_ident (channel_map a) (channel_map b)"
      by (simp add: same_ci_def other_append_channels [OF that(1,2)])
    ultimately show ?thesis using other_work [of plain_host b a no_clock] by (simp add: host_parts)
  qed
  define run where "run b \<longleftrightarrow> ci_run plain_host no_clock empty_store b \<and> sound plain_ident b" for b
  have steps: "run b" if "chain fs a = Inr b" "list_all silent fs" "run a" for fs a b
    using that
  proof (induction fs arbitrary: a)
    case (Cons f fs)
    from Cons.prems(1) obtain c where c: "f a = Inr c" "chain fs c = Inr b" by auto
    from Cons.prems(2) obtain th turn pr g where f: "f = append_fact th turn pr g" "\<not> channel_fact g" "list_all silent fs"
      unfolding list.pred_inject silent_def [of f] by blast
    have "ci_step plain_host no_clock a c \<and> sound plain_ident c"
      by (rule step [OF c(1) [unfolded f(1)] f(2)]) (use Cons.prems(3) in \<open>simp add: run_def\<close>)
    with Cons.prems(3) have "run c" unfolding run_def by (metis rtranclp.rtrancl_into_rtrancl)
    from Cons.IH [OF c(2) f(3) this] show ?case .
  qed simp
  have "run empty_store"
    using ci_sound_empty by (simp add: ci_sound_def run_def)
  moreover have "list_all silent ([append_fact ''t'' None ''runtime'' (ThreadFact (ThreadCreated ''w''))]
      @ (if by_host then [host_append (HostCommandReceived ''c'' ''u'' ''start'' [] submission)] else [])
      @ [turn_append ''u'' (TurnStarted ''u'' None 0 (JObj [])), turn_append ''u'' (TurnFailed ''u'' ''r'' None)]
      @ (if by_host then [host_append (HostCommandSettled ''c'' CmdApplied (JObj []) 0)] else []))"
    unfolding host_append_def turn_append_def by (auto intro!: silentI simp: channel_fact_def)
  ultimately have "run s" using steps assms unfolding failed_thread_def by blast
  then show ?thesis by (simp add: run_def)
qed

lemma reported_run:
  assumes "ebind (failed_thread by_host) (\<lambda>s. ebind (watched repairs s) (reported state)) = Inr s"
  shows "ci_run plain_host no_clock empty_store s"
proof -
  from assms obtain a b where a: "failed_thread by_host = Inr a" and b: "watched repairs a = Inr b" and s: "reported state b = Inr s" by auto
  from b obtain v where "create_subscription plain_ident (\<lambda>s. s) anyone (ci_wish (JObj []) repairs) 0 a = Inr (v, b)"
    by (auto simp: watched_def)
  then have ab: "ci_step plain_host no_clock a b" unfolding host_parts [symmetric] by (rule ci_step.subscribed)
  from s obtain r where "record_evidence plain_host no_clock anyone (\<lambda>_. True) ''s'' (checks_reported state) 1 b = Inr (r, s)"
    by (auto simp: reported_def)
  then have bs: "ci_step plain_host no_clock b s" by (rule ci_step.evidence_recorded)
  from failed_thread_run [OF a] ab bs show ?thesis by (meson rtranclp.rtrancl_into_rtrancl)
qed

lemma green_run: obtains s v where "ci_run plain_host no_clock empty_store s"
  and "get_entry plain_ident s ''ci_subscription'' ''s'' = Some v" and "jget v ''remote_status'' = JStr ''pass''"
proof -
  from green_line_ok obtain s where s: "green_line = Inr s" "shows_pass s" by (auto split: sum.splits)
  from s(2) obtain v where "get_entry plain_ident s ''ci_subscription'' ''s'' = Some v" "jget v ''remote_status'' = JStr ''pass''"
    by (auto simp: shows_pass_def split: option.splits)
  with reported_run [OF s(1) [unfolded green_line_def]] that show ?thesis by blast
qed

section \<open>Properties\<close>

text \<open>C20: what a CI subscription spends stays within its allowance in every run: polls, follow-up Turns and the
  steps, tokens and cost reserved for them, where every follow-up Turn has reserved at least one unit
  of each.\<close>

theorem ci_spending_is_bounded:
  assumes "inj (ch_ident h)" and "ci_run h clock empty_store st" and "get_entry (ch_ident h) st ''ci_subscription'' sid = Some v"
  shows "\<exists>polls m turns. jget v ''poll_attempts'' = JInt polls \<and> jget (jget v ''poll_policy'') ''max_attempts'' = JInt m \<and> polls \<le> m
    \<and> jget v ''new_turns'' = JInt turns \<and> (jget v ''repair_allowance'' = JNull \<longrightarrow> turns = 0)
    \<and> (jget v ''repair_allowance'' \<noteq> JNull \<longrightarrow>
        (\<exists>n. jget (jget v ''repair_allowance'') ''max_new_turns'' = JInt n \<and> turns \<le> n)
        \<and> (\<forall>k \<in> set budget_keys. \<exists>r l. jget (jget v ''reserved'') k = JInt r \<and> jget (jget v ''repair_allowance'') k = JInt l
             \<and> turns \<le> r \<and> r \<le> l))"
proof -
  from stored_sub [OF assms] have "counters_ok v" by (auto simp: sub_ok_def)
  then have polls: "polls_ok v" and repairs: "repairs_ok v" by (simp_all add: counters_ok_def)
  from polls have polls: "jget v ''poll_attempts'' = JInt (int_val (jget v ''poll_attempts''))"
      "jget (jget v ''poll_policy'') ''max_attempts'' = JInt (int_val (jget (jget v ''poll_policy'') ''max_attempts''))"
      "int_val (jget v ''poll_attempts'') \<le> int_val (jget (jget v ''poll_policy'') ''max_attempts'')"
    unfolding polls_ok_def is_int_val by blast+
  let ?turns = "int_val (jget v ''new_turns'')"
  let ?n = "int_val (jget (jget v ''repair_allowance'') ''max_new_turns'')"
  have turns: "jget v ''new_turns'' = JInt ?turns" "jget v ''repair_allowance'' = JNull \<longrightarrow> ?turns = 0"
    using repairs by (auto simp: repairs_ok_def is_int_val)
  have "jget (jget v ''repair_allowance'') ''max_new_turns'' = JInt ?n \<and> ?turns \<le> ?n"
    if "jget v ''repair_allowance'' \<noteq> JNull"
    using repairs that unfolding repairs_ok_def is_int_val by auto
  moreover have "\<exists>r l. jget (jget v ''reserved'') k = JInt r \<and> jget (jget v ''repair_allowance'') k = JInt l \<and> ?turns \<le> r \<and> r \<le> l"
    if "jget v ''repair_allowance'' \<noteq> JNull" "k \<in> set budget_keys" for k
  proof -
    from repairs that have "is_int (jget (jget v ''reserved'') k)" "is_int (jget (jget v ''repair_allowance'') k)"
      "?turns \<le> int_val (jget (jget v ''reserved'') k)"
      "int_val (jget (jget v ''reserved'') k) \<le> int_val (jget (jget v ''repair_allowance'') k)"
      by (simp_all add: repairs_ok_def list_all_iff)
    then show ?thesis unfolding is_int_val by blast
  qed
  ultimately show ?thesis using polls turns by blast
qed

lemma ci_spending_is_bounded_witness:
  "\<exists>s v. get_entry plain_ident s ''ci_subscription'' ''s'' = Some v \<and> (\<exists>polls. jget v ''poll_attempts'' = JInt polls)"
proof (rule green_run)
  fix s v
  assume "ci_run plain_host no_clock empty_store s" "get_entry plain_ident s ''ci_subscription'' ''s'' = Some v"
  from ci_spending_is_bounded [OF plain_inj this(1), unfolded host_parts, OF this(2)] this(2) show ?thesis by blast
qed

text \<open>C23: nothing a CI subscription has spent is ever given back, whatever happens in between: no event, new head,
  restart or repeated subscription lowers a counter or changes the allowance.\<close>

theorem ci_spending_is_never_refunded:
  assumes "inj (ch_ident h)" and "ci_run h clock empty_store st" and "get_entry (ch_ident h) st ''ci_subscription'' sid = Some v"
    and "ci_run h clock st st'"
  shows "\<exists>w. get_entry (ch_ident h) st' ''ci_subscription'' sid = Some w
    \<and> int_val (jget v ''new_turns'') \<le> int_val (jget w ''new_turns'')
    \<and> int_val (jget v ''poll_attempts'') \<le> int_val (jget w ''poll_attempts'')
    \<and> (\<forall>k \<in> set budget_keys. int_val (jget (jget v ''reserved'') k) \<le> int_val (jget (jget w ''reserved'') k))
    \<and> jget w ''repair_allowance'' = jget v ''repair_allowance'' \<and> jget w ''poll_policy'' = jget v ''poll_policy''"
proof -
  from stored_sub [OF assms(1-3)] obtain th where th: "sub_at (ch_ident h) (channel_map st) sid th v" "is_obj v" "counters_ok v"
    by (auto simp: sub_ok_def)
  from ci_run_all [OF assms(4,1) ci_run_sound [OF assms(2,1)]] have "any_moves (ch_ident h) clock (channel_map st) (channel_map st')"
    by (simp add: ci_all_def)
  from sub_after_moves [OF this assms(1) th(1)] obtain w where w: "sub_at (ch_ident h) (channel_map st') sid th w"
    "(sub_move clock)\<^sup>*\<^sup>* v w" by blast
  from subs_move [OF w(2) th(2,3)] sub_at_entry [OF w(1)] show ?thesis
    by (auto simp: spent_more_def list_all_iff fixed_fields_def)
qed

lemma ci_spending_is_never_refunded_witness:
  "\<exists>s v w. get_entry plain_ident s ''ci_subscription'' ''s'' = Some v
     \<and> int_val (jget v ''new_turns'') \<le> int_val (jget w ''new_turns'')"
proof (rule green_run)
  fix s v
  assume "ci_run plain_host no_clock empty_store s" "get_entry plain_ident s ''ci_subscription'' ''s'' = Some v"
  from ci_spending_is_never_refunded [OF plain_inj this(1), unfolded host_parts, OF this(2) rtranclp.rtrancl_refl] this(2)
  show ?thesis by blast
qed

text \<open>C21: a subscription shows its remote status as passed only with proof: stored evidence for exactly the
  subscribed head, not stale when it came, that lists exactly the subscribed checks and reports every
  one of them as passed, while no review asks for changes.\<close>

theorem ci_pass_is_backed_by_a_complete_snapshot:
  assumes "inj (ch_ident h)" and "ci_run h clock empty_store st" and "get_entry (ch_ident h) st ''ci_subscription'' sid = Some v"
    and "jget v ''remote_status'' = JStr ''pass''"
  shows "\<exists>eid r cs. get_entry (ch_ident h) st ''ci_evidence'' eid = Some r \<and> jget r ''subscription_id'' = JStr sid
    \<and> jget r ''stale'' = JBool False \<and> jget (jget r ''evidence'') ''head_sha'' = jget v ''head_sha''
    \<and> jget (jget r ''evidence'') ''checks'' = JArr cs \<and> cs \<noteq> [] \<and> set (map (\<lambda>c. jget c ''id'') cs) = set (check_ids v)
    \<and> (\<forall>c \<in> set cs. jget c ''state'' = JStr ''pass'') \<and> jget v ''review_state'' \<noteq> JStr ''changes_requested''"
proof -
  from stored_sub [OF assms(1-3)] assms(4) have b: "backed (ch_ident h) (channel_map st) sid v"
    and review: "jget v ''review_state'' \<noteq> JStr ''changes_requested''" by (auto simp: sub_ok_def)
  from b obtain eid th r where r: "evidence_at (ch_ident h) (channel_map st) eid th r" "proves sid v r"
    unfolding backed_def by blast
  from r(1) have "get_entry (ch_ident h) st ''ci_evidence'' eid = Some r" by (simp add: evidence_at_def get_entry_map)
  with r(2) review show ?thesis unfolding proves_def complete_pass_def by blast
qed

lemma ci_pass_is_backed_by_a_complete_snapshot_witness:
  "\<exists>s eid r cs. get_entry plain_ident s ''ci_evidence'' eid = Some r \<and> jget (jget r ''evidence'') ''checks'' = JArr cs
     \<and> cs \<noteq> [] \<and> (\<forall>c \<in> set cs. jget c ''state'' = JStr ''pass'')"
proof (rule green_run)
  fix s v
  assume "ci_run plain_host no_clock empty_store s" "get_entry plain_ident s ''ci_subscription'' ''s'' = Some v"
    "jget v ''remote_status'' = JStr ''pass''"
  from ci_pass_is_backed_by_a_complete_snapshot [OF plain_inj this(1), unfolded host_parts, OF this(2,3)] show ?thesis by blast
qed

text \<open>C22: a failure is repaired once: after a repair was queued for some evidence, asking for it again, at any
  later time and whatever happened in between, names the same host command and changes nothing.\<close>

theorem ci_repair_is_queued_once:
  assumes "inj (ch_ident h)" and "ci_run h clock empty_store st" and "enqueue_repair h auth sid eid now st = Inr (c, s)"
    and "ci_run h clock s t" and "enqueue_repair h auth' sid' eid now' t = Inr (d, u)"
  shows "u = t \<and> hc_id d = hc_id c"
proof -
  let ?id = "ch_ident h"
  have snd: "ci_sound ?id st" by (rule ci_run_sound [OF assms(2,1)])
  note eff = enqueue_repair_reached(1) [where clock = clock, OF assms(1) snd assms(3)] enqueue_repair_reached(2) [OF assms(1) snd assms(3)]
  have snd_s: "ci_sound ?id s" using eff(1) by (rule ci_reached_sound)
  from eff(2) obtain r where r: "get_entry ?id s ''ci_evidence'' eid = Some r" "jget r ''repair_command_id'' = JStr (hc_id c)" by blast
  from evidence_stored [OF assms(1) snd_s r(1)] obtain th where th: "evidence_at ?id (channel_map s) eid th r" by blast
  note all = ci_run_all [OF assms(4,1) snd_s]
  then have "any_moves ?id clock (channel_map s) (channel_map t)" by (simp add: ci_all_def)
  from answer_stays [OF this assms(1) th r(2)] have got: "get_entry ?id t ''ci_evidence'' eid = Some r"
    by (simp add: evidence_at_def get_entry_map)
  from assms(5) obtain v where "subscription ?id auth' t sid' = Inr v"
    and again: "ebind (read_command t (hc_id c)) (\<lambda>c. Inr (c, t)) = Inr (d, u)"
    unfolding enqueue_repair_def by (auto simp: got r(2) split: if_splits)
  then have d: "tget (host_commands (proj t)) (hc_id c) = Some d" and u: "u = t"
    by (auto simp: read_command_def require_def split: option.splits)
  from all have "table_ok hc_id (host_commands (proj t))"
    by (simp add: ci_all_def ci_sound_def sound_def well_formed_def projection_ok_def)
  from table_ok_ident [OF this d] u show ?thesis by simp
qed

lemma ci_repair_is_queued_once_witness:
  "\<exists>s c t. repaired s = Inr (c, t) \<and> (\<exists>d. repaired t = Inr (d, t) \<and> hc_id d = hc_id c)"
proof -
  from red_line_ok obtain s where s: "red_line = Inr s" "answers_twice s" by (auto split: sum.splits)
  from s(2) obtain c t where c: "repaired s = Inr (c, t)"
    by (auto simp: answers_twice_def split: sum.splits)
  with s(2) obtain d u where d: "repaired t = Inr (d, u)"
    by (auto simp: answers_twice_def split: sum.splits)
  from ci_repair_is_queued_once [OF plain_inj reported_run [OF s(1) [unfolded red_line_def]] c [unfolded repaired_def]
      rtranclp.rtrancl_refl d [unfolded repaired_def]] c d
  show ?thesis by blast
qed


end
