(* ===== verification/Spec2Isabelle.thy ===== *)
theory Spec2Isabelle
  imports Value_Properties Effects Model_Outcomes Tool_Results Execution_Facts Host_Ops Artifact_Ops Rollout_Refinement
    System_Properties Call_Budget Progress Command_Properties Tool_Permission_Properties Channel_Properties
    Submission_Walk Ci_Properties
begin

text \<open>
  Verification development for the event-sourced agent runtime kernel.
\<close>

end
